(* ===== verification/Prelude.thy ===== *)
theory Prelude
  imports Complex_Main "HOL-Library.Char_ord" "HOL-Library.List_Lexorder" "HOL-Library.Sublist"
    "HOL-Library.Word"
begin

text \<open>
  Shared vocabulary of the development: results of fallible functions, the fixed-width integers
  of the source, the string operations of the Rust standard library that the modelled code calls,
  and dictionaries.

  Strings are \<^typ>\<open>string\<close>, lists of 8-bit characters. The model is exact on ASCII text, where
  Rust's bytes, \<open>char\<close>s and code points coincide; identifiers, tool names, events, shell
  metacharacters and paths are ASCII. Operations that Rust defines on bytes (the glob matcher, key
  comparison) are exact on every UTF-8 string, read as its bytes.

  A \<open>BTreeMap<String, V>\<close> is an association list kept strictly sorted by key, so that iteration
  order is the source's and equality is structural. The interface that clients use is the locale
  \<open>dict\<close>; sorted association lists and plain HOL maps (for \<open>HashMap\<close>) interpret it.
\<close>

named_theorems str_simps \<open>string operations of the Rust standard library\<close>
named_theorems bt_simps \<open>lookup laws of sorted association lists\<close>

type_synonym u8 = "8 word"
type_synonym u32 = "32 word"
type_synonym u64 = "64 word"
type_synonym ('a, 'e) result = "'e + 'a"

abbreviation Ok :: "'a \<Rightarrow> ('a, 'e) result" where
  "Ok \<equiv> Inr"

abbreviation Err :: "'e \<Rightarrow> ('a, 'e) result" where
  "Err \<equiv> Inl"

fun is_ok :: "('a, 'e) result \<Rightarrow> bool" where
  "is_ok (Inr _) = True"
| "is_ok (Inl _) = False"

text \<open>
  The outcome of code that may panic (an out-of-range slice, an explicit \<open>unwrap\<close>) or, in a model with
  fuel, not have returned yet.
\<close>

datatype 'a outcome = Returns 'a | Panics | OutOfFuel

definition unwrap_or :: "'a \<Rightarrow> 'a option \<Rightarrow> 'a" where
  "unwrap_or d opt = (case opt of None \<Rightarrow> d | Some x \<Rightarrow> x)"

definition is_some_and :: "('a \<Rightarrow> bool) \<Rightarrow> 'a option \<Rightarrow> bool" where
  "is_some_and P opt = (case opt of None \<Rightarrow> False | Some x \<Rightarrow> P x)"

definition is_none_or :: "('a \<Rightarrow> bool) \<Rightarrow> 'a option \<Rightarrow> bool" where
  "is_none_or P opt = (case opt of None \<Rightarrow> True | Some x \<Rightarrow> P x)"

definition or_else :: "'a option \<Rightarrow> 'a option \<Rightarrow> 'a option" where
  "or_else a b = (case a of None \<Rightarrow> b | Some x \<Rightarrow> Some x)"

lemma unwrap_or_simps [simp]: "unwrap_or d None = d" "unwrap_or d (Some x) = x"
  by (simp_all add: unwrap_or_def)

lemma is_some_and_simps [simp]: "is_some_and P None = False" "is_some_and P (Some x) = P x"
  by (simp_all add: is_some_and_def)

lemma is_none_or_simps [simp]: "is_none_or P None = True" "is_none_or P (Some x) = P x"
  by (simp_all add: is_none_or_def)

lemma or_else_simps [simp]: "or_else None b = b" "or_else (Some x) b = Some x"
  by (simp_all add: or_else_def)

lemma is_some_and_iff: "is_some_and P opt \<longleftrightarrow> (\<exists>x. opt = Some x \<and> P x)"
  by (cases opt) auto

lemma is_none_or_iff: "is_none_or P opt \<longleftrightarrow> (\<forall>x. opt = Some x \<longrightarrow> P x)"
  by (cases opt) auto

lemma unat_u32: "unat (w :: u32) < 2 ^ 32"
  using unsigned_less [of w] by simp

lemma unat_u64: "unat (w :: u64) < 2 ^ 64"
  using unsigned_less [of w] by simp

text \<open>\<open>iter_mut().find(..)\<close> with a change of the entry found: the first match is replaced.\<close>

fun update_first :: "('a \<Rightarrow> bool) \<Rightarrow> ('a \<Rightarrow> 'a) \<Rightarrow> 'a list \<Rightarrow> 'a list" where
  "update_first P f [] = []"
| "update_first P f (x # xs) = (if P x then f x # xs else x # update_first P f xs)"

lemma update_first_map: "(\<And>x. g (f x) = g x) \<Longrightarrow> map g (update_first P f xs) = map g xs"
  by (induction xs) auto

lemma update_first_length [simp]: "length (update_first P f xs) = length xs"
  by (induction xs) auto

lemma update_first_all: "list_all Q xs \<Longrightarrow> (\<And>x. P x \<Longrightarrow> Q x \<Longrightarrow> Q (f x)) \<Longrightarrow> list_all Q (update_first P f xs)"
  by (induction xs) auto

section \<open>Characters and strings\<close>

definition char_code :: "char \<Rightarrow> nat" where
  "char_code c = of_char c"

definition is_ascii_upper :: "char \<Rightarrow> bool" where
  "is_ascii_upper c \<longleftrightarrow> 65 \<le> char_code c \<and> char_code c \<le> 90"

definition is_ascii_lower :: "char \<Rightarrow> bool" where
  "is_ascii_lower c \<longleftrightarrow> 97 \<le> char_code c \<and> char_code c \<le> 122"

definition is_ascii_digit :: "char \<Rightarrow> bool" where
  "is_ascii_digit c \<longleftrightarrow> 48 \<le> char_code c \<and> char_code c \<le> 57"

definition is_ascii_alphabetic :: "char \<Rightarrow> bool" where
  "is_ascii_alphabetic c \<longleftrightarrow> is_ascii_upper c \<or> is_ascii_lower c"

definition is_ascii_alphanumeric :: "char \<Rightarrow> bool" where
  "is_ascii_alphanumeric c \<longleftrightarrow> is_ascii_alphabetic c \<or> is_ascii_digit c"

text \<open>\<open>char::is_whitespace\<close> and \<open>u8::is_ascii_whitespace\<close>: the latter leaves out the vertical tab.\<close>

definition is_whitespace :: "char \<Rightarrow> bool" where
  "is_whitespace c \<longleftrightarrow> char_code c = 32 \<or> (9 \<le> char_code c \<and> char_code c \<le> 13)"

definition is_ascii_whitespace :: "char \<Rightarrow> bool" where
  "is_ascii_whitespace c \<longleftrightarrow> char_code c \<in> {32, 9, 10, 12, 13}"

definition is_control :: "char \<Rightarrow> bool" where
  "is_control c \<longleftrightarrow> char_code c < 32 \<or> char_code c = 127"

definition ascii_lower :: "char \<Rightarrow> char" where
  "ascii_lower c = (if is_ascii_upper c then char_of (char_code c + 32) else c)"

definition ascii_upper :: "char \<Rightarrow> char" where
  "ascii_upper c = (if is_ascii_lower c then char_of (char_code c - 32) else c)"

definition to_ascii_lowercase :: "string \<Rightarrow> string" where
  "to_ascii_lowercase s = map ascii_lower s"

definition to_ascii_uppercase :: "string \<Rightarrow> string" where
  "to_ascii_uppercase s = map ascii_upper s"

definition eq_ignore_ascii_case :: "string \<Rightarrow> string \<Rightarrow> bool" where
  "eq_ignore_ascii_case a b \<longleftrightarrow> to_ascii_lowercase a = to_ascii_lowercase b"

definition starts_with :: "string \<Rightarrow> string \<Rightarrow> bool" where
  "starts_with s p \<longleftrightarrow> take (length p) s = p"

definition ends_with :: "string \<Rightarrow> string \<Rightarrow> bool" where
  "ends_with s p \<longleftrightarrow> length p \<le> length s \<and> drop (length s - length p) s = p"

definition strip_prefix :: "string \<Rightarrow> string \<Rightarrow> string option" where
  "strip_prefix s p = (if starts_with s p then Some (drop (length p) s) else None)"

definition strip_suffix :: "string \<Rightarrow> string \<Rightarrow> string option" where
  "strip_suffix s p = (if ends_with s p then Some (take (length s - length p) s) else None)"

fun str_contains :: "string \<Rightarrow> string \<Rightarrow> bool" where
  "str_contains [] nd = (nd = [])"
| "str_contains (c # cs) nd = (starts_with (c # cs) nd \<or> str_contains cs nd)"

fun split_on :: "(char \<Rightarrow> bool) \<Rightarrow> string \<Rightarrow> string list" where
  "split_on P [] = [[]]"
| "split_on P (c # cs) =
     (if P c then [] # split_on P cs
      else case split_on P cs of [] \<Rightarrow> [[c]] | w # ws \<Rightarrow> (c # w) # ws)"

definition rsplit_next :: "char \<Rightarrow> string \<Rightarrow> string" where
  "rsplit_next d s = last (split_on (\<lambda>c. c = d) s)"

fun split_once :: "char \<Rightarrow> string \<Rightarrow> (string \<times> string) option" where
  "split_once d [] = None"
| "split_once d (c # cs) =
     (if c = d then Some ([], cs) else map_option (\<lambda>(a, b). (c # a, b)) (split_once d cs))"

definition split_whitespace :: "string \<Rightarrow> string list" where
  "split_whitespace s = filter (\<lambda>w. w \<noteq> []) (split_on is_whitespace s)"

definition trim_start :: "string \<Rightarrow> string" where
  "trim_start s = dropWhile is_whitespace s"

definition trim_end :: "string \<Rightarrow> string" where
  "trim_end s = rev (dropWhile is_whitespace (rev s))"

definition trim :: "string \<Rightarrow> string" where
  "trim s = trim_end (trim_start s)"

fun join :: "string \<Rightarrow> string list \<Rightarrow> string" where
  "join sep [] = []"
| "join sep [x] = x"
| "join sep (x # y # ys) = x @ sep @ join sep (y # ys)"

text \<open>\<open>str::find\<close> and \<open>str::rfind\<close>: the index of the first and of the last occurrence.\<close>

fun find_from :: "(char \<Rightarrow> bool) \<Rightarrow> string \<Rightarrow> nat \<Rightarrow> nat option" where
  "find_from P [] i = None"
| "find_from P (c # cs) i = (if P c then Some i else find_from P cs (Suc i))"

definition char_find :: "(char \<Rightarrow> bool) \<Rightarrow> string \<Rightarrow> nat option" where
  "char_find P s = find_from P s 0"

fun rfind_from :: "(char \<Rightarrow> bool) \<Rightarrow> string \<Rightarrow> nat \<Rightarrow> nat option" where
  "rfind_from P [] i = None"
| "rfind_from P (c # cs) i = or_else (rfind_from P cs (Suc i)) (if P c then Some i else None)"

definition char_rfind :: "(char \<Rightarrow> bool) \<Rightarrow> string \<Rightarrow> nat option" where
  "char_rfind P s = rfind_from P s 0"

fun str_find_from :: "string \<Rightarrow> string \<Rightarrow> nat \<Rightarrow> nat option" where
  "str_find_from [] nd i = (if nd = [] then Some i else None)"
| "str_find_from (c # cs) nd i =
     (if starts_with (c # cs) nd then Some i else str_find_from cs nd (Suc i))"

definition str_find :: "string \<Rightarrow> string \<Rightarrow> nat option" where
  "str_find s nd = str_find_from s nd 0"

text \<open>\<open>str::lines().count()\<close>: a final newline does not open another line.\<close>

definition line_count :: "string \<Rightarrow> nat" where
  "line_count s = (let ls = split_on (\<lambda>c. c = CHR 0x0A) s
                   in if last ls = [] then length ls - 1 else length ls)"

text \<open>Decimal printing, as \<open>format!\<close> does for unsigned integers.\<close>

fun show_nat :: "nat \<Rightarrow> string" where
  "show_nat n = (if n < 10 then [char_of (48 + n)] else show_nat (n div 10) @ [char_of (48 + n mod 10)])"

declare show_nat.simps [simp del]

definition show_word :: "'a::len word \<Rightarrow> string" where
  "show_word w = show_nat (unat w)"

lemma eq_ignore_ascii_case_refl [simp]: "eq_ignore_ascii_case s s"
  by (simp add: eq_ignore_ascii_case_def)

lemma eq_ignore_ascii_case_sym: "eq_ignore_ascii_case a b \<longleftrightarrow> eq_ignore_ascii_case b a"
  by (auto simp: eq_ignore_ascii_case_def)

lemma eq_ignore_ascii_case_trans:
  "eq_ignore_ascii_case a b \<Longrightarrow> eq_ignore_ascii_case b c \<Longrightarrow> eq_ignore_ascii_case a c"
  by (simp add: eq_ignore_ascii_case_def)

lemma split_on_ne [simp]: "split_on P s \<noteq> []"
  by (induction s) (auto split: list.splits)

lemma split_on_pieces: "w \<in> set (split_on P s) \<Longrightarrow> c \<in> set w \<Longrightarrow> \<not> P c"
  by (induction s arbitrary: w) (fastforce split: if_splits list.splits)+

lemma split_on_none: "\<forall>c \<in> set s. \<not> P c \<Longrightarrow> split_on P s = [s]"
  by (induction s) auto

lemma starts_with_iff: "starts_with s p \<longleftrightarrow> (\<exists>t. s = p @ t)"
  by (auto simp: starts_with_def append_eq_conv_conj) (metis append_take_drop_id)

text \<open>\<open>str::trim_start_matches\<close>: the pattern is stripped as often as it occurs.\<close>

function trim_start_matches :: "string \<Rightarrow> string \<Rightarrow> string" where
  "trim_start_matches p s = (if p \<noteq> [] \<and> starts_with s p then trim_start_matches p (drop (length p) s) else s)"
  by pat_completeness auto
termination
  by (relation "measure (\<lambda>(p, s). length s)") (auto simp: starts_with_iff)

declare trim_start_matches.simps [simp del]

lemma str_contains_intro: "str_contains (a @ nd @ b) nd"
proof (induction a)
  case Nil
  have "starts_with (nd @ b) nd" by (auto simp: starts_with_iff)
  then show ?case by (cases "nd @ b") auto
next
  case (Cons c a)
  then show ?case by simp
qed

lemma str_contains_iff: "str_contains s nd \<longleftrightarrow> (\<exists>a b. s = a @ nd @ b)"
proof
  assume "str_contains s nd"
  then show "\<exists>a b. s = a @ nd @ b"
  proof (induction s)
    case Nil
    then show ?case by simp
  next
    case (Cons c cs)
    then consider "starts_with (c # cs) nd" | "str_contains cs nd" by auto
    then show ?case
    proof cases
      case 1
      then obtain t where "c # cs = [] @ nd @ t" by (auto simp: starts_with_iff)
      then show ?thesis by blast
    next
      case 2
      then obtain a b where "cs = a @ nd @ b" using Cons.IH by blast
      then have "c # cs = (c # a) @ nd @ b" by simp
      then show ?thesis by blast
    qed
  qed
qed (auto intro: str_contains_intro)

lemma find_from_Some:
  "find_from P s i = Some k \<Longrightarrow> i \<le> k \<and> k < i + length s \<and> P (s ! (k - i)) \<and> (\<forall>j < k - i. \<not> P (s ! j))"
proof (induction P s i rule: find_from.induct)
  case (2 P c cs i)
  show ?case
  proof (cases "P c")
    case False
    with 2 have h: "Suc i \<le> k \<and> k < Suc i + length cs \<and> P (cs ! (k - Suc i)) \<and>
        (\<forall>j < k - Suc i. \<not> P (cs ! j))" by simp
    then have "k - i = Suc (k - Suc i)" by linarith
    with h False show ?thesis by (auto simp: nth_Cons split: nat.splits)
  qed (use 2 in auto)
qed simp

lemma char_find_Some: "char_find P s = Some k \<Longrightarrow> k < length s \<and> P (s ! k) \<and> (\<forall>j < k. \<not> P (s ! j))"
  unfolding char_find_def by (drule find_from_Some) auto

lemma find_from_split:
  "find_from (\<lambda>c. c = x) s i = Some k \<longleftrightarrow> (\<exists>a c. s = a @ x # c \<and> x \<notin> set a \<and> k = i + length a)"
proof (induction s arbitrary: i)
  case (Cons y s)
  show ?case
  proof (cases "y = x")
    case True
    have "(\<exists>a c. y # s = a @ x # c \<and> x \<notin> set a \<and> k = i + length a) \<longleftrightarrow> k = i"
      using True by (auto simp: Cons_eq_append_conv)
    then show ?thesis using True by auto
  next
    case False
    have "(\<exists>a c. y # s = a @ x # c \<and> x \<notin> set a \<and> k = i + length a) \<longleftrightarrow>
        (\<exists>a c. s = a @ x # c \<and> x \<notin> set a \<and> k = Suc i + length a)"
      using False by (force simp: Cons_eq_append_conv)
    then show ?thesis using False Cons.IH by simp
  qed
qed simp

lemma char_find_split:
  "char_find (\<lambda>c. c = x) s = Some k \<longleftrightarrow> (\<exists>a c. s = a @ x # c \<and> x \<notin> set a \<and> k = length a)"
  by (simp add: char_find_def find_from_split)

lemma rfind_from_None: "rfind_from (\<lambda>c. c = x) s i = None \<longleftrightarrow> x \<notin> set s"
proof (induction s arbitrary: i)
  case (Cons y s)
  then show ?case by (cases "rfind_from (\<lambda>c. c = x) s (Suc i)") auto
qed simp

lemma rfind_from_split:
  "rfind_from (\<lambda>c. c = x) s i = Some k \<longleftrightarrow> (\<exists>a c. s = a @ x # c \<and> x \<notin> set c \<and> k = i + length a)"
proof (induction s arbitrary: i)
  case (Cons y s)
  show ?case
  proof (cases "x \<in> set s")
    case True
    then obtain k' where k': "rfind_from (\<lambda>c. c = x) s (Suc i) = Some k'"
      using rfind_from_None [of x s "Suc i"] by (cases "rfind_from (\<lambda>c. c = x) s (Suc i)") auto
    have "(\<exists>a c. y # s = a @ x # c \<and> x \<notin> set c \<and> k = i + length a) \<longleftrightarrow>
        (\<exists>a c. s = a @ x # c \<and> x \<notin> set c \<and> k = Suc i + length a)"
    proof
      assume "\<exists>a c. y # s = a @ x # c \<and> x \<notin> set c \<and> k = i + length a"
      then obtain a c where "y # s = a @ x # c" "x \<notin> set c" "k = i + length a" by blast
      moreover from this True obtain a' where "a = y # a'" by (cases a) auto
      ultimately show "\<exists>a c. s = a @ x # c \<and> x \<notin> set c \<and> k = Suc i + length a" by auto
    next
      assume "\<exists>a c. s = a @ x # c \<and> x \<notin> set c \<and> k = Suc i + length a"
      then obtain a c where "s = a @ x # c" "x \<notin> set c" "k = Suc i + length a" by blast
      then show "\<exists>a c. y # s = a @ x # c \<and> x \<notin> set c \<and> k = i + length a"
        by (intro exI [of _ "y # a"] exI [of _ c]) auto
    qed
    then show ?thesis using k' Cons.IH [of "Suc i"] by simp
  next
    case False
    then have "rfind_from (\<lambda>c. c = x) s (Suc i) = None" by (simp add: rfind_from_None)
    moreover have "(\<exists>a c. y # s = a @ x # c \<and> x \<notin> set c \<and> k = i + length a) \<longleftrightarrow> y = x \<and> k = i"
      using False by (auto simp: Cons_eq_append_conv)
    ultimately show ?thesis by auto
  qed
qed simp

lemma char_rfind_split:
  "char_rfind (\<lambda>c. c = x) s = Some k \<longleftrightarrow> (\<exists>a c. s = a @ x # c \<and> x \<notin> set c \<and> k = length a)"
  by (simp add: char_rfind_def rfind_from_split)

lemma str_find_from_le: "str_find_from s nd i = Some k \<Longrightarrow> i \<le> k \<and> k + length nd \<le> i + length s"
proof (induction s nd i rule: str_find_from.induct)
  case (2 c cs nd i)
  then show ?case by (auto simp: starts_with_iff split: if_splits) (metis length_Cons length_append add.commute add_Suc_right le_add1)
qed (auto split: if_splits)

lemma str_find_le: "str_find s nd = Some k \<Longrightarrow> k + length nd \<le> length s"
  unfolding str_find_def by (drule str_find_from_le) simp

lemma split_once_Some: "split_once d s = Some (a, b) \<Longrightarrow> s = a @ d # b \<and> d \<notin> set a"
  by (induction s arbitrary: a) (auto split: if_splits)

lemma split_once_None: "split_once d s = None \<longleftrightarrow> d \<notin> set s"
  by (induction s) auto

section \<open>Dictionaries\<close>

text \<open>
  What a client of a dictionary relies on: the result of a lookup after an insertion or a removal,
  and that the operations keep the representation invariant. \<open>keys\<close> is the set of present keys.
\<close>

locale dict =
  fixes lookup :: "'m \<Rightarrow> 'k \<Rightarrow> 'v option"
    and insert :: "'k \<Rightarrow> 'v \<Rightarrow> 'm \<Rightarrow> 'm"
    and remove :: "'k \<Rightarrow> 'm \<Rightarrow> 'm"
    and wf :: "'m \<Rightarrow> bool"
  assumes lookup_insert: "wf m \<Longrightarrow> lookup (insert k v m) k' = (if k' = k then Some v else lookup m k')"
    and lookup_remove: "wf m \<Longrightarrow> lookup (remove k m) k' = (if k' = k then None else lookup m k')"
    and wf_insert: "wf m \<Longrightarrow> wf (insert k v m)"
    and wf_remove: "wf m \<Longrightarrow> wf (remove k m)"
begin

lemma wf_merge: "wf m \<Longrightarrow> wf (foldl (\<lambda>acc (k, v). insert k v acc) m ps)"
  by (induction ps arbitrary: m) (auto simp: wf_insert)

text \<open>Merging a list of bindings into a dictionary: the last binding of a key wins.\<close>

lemma lookup_merge:
  "wf m \<Longrightarrow> lookup (foldl (\<lambda>acc (k, v). insert k v acc) m ps) k =
     (case map_of (rev ps) k of Some v \<Rightarrow> Some v | None \<Rightarrow> lookup m k)"
proof (induction ps arbitrary: m)
  case Nil
  then show ?case by simp
next
  case (Cons p ps)
  then show ?case
    by (cases p) (auto simp: wf_insert lookup_insert map_add_def split: option.splits)
qed

lemma lookup_remove_merge:
  "wf m \<Longrightarrow> lookup (remove k (foldl (\<lambda>acc (k, v). insert k v acc) m ps)) k = None"
  by (simp add: lookup_remove wf_merge)

end

type_synonym 'v btree = "(string \<times> 'v) list"

abbreviation bt_get :: "('k \<times> 'v) list \<Rightarrow> 'k \<Rightarrow> 'v option" where
  "bt_get \<equiv> map_of"

definition bt_contains_key :: "('k \<times> 'v) list \<Rightarrow> 'k \<Rightarrow> bool" where
  "bt_contains_key m k \<longleftrightarrow> map_of m k \<noteq> None"

abbreviation bt_keys :: "('k \<times> 'v) list \<Rightarrow> 'k list" where
  "bt_keys m \<equiv> map fst m"

abbreviation bt_values :: "('k \<times> 'v) list \<Rightarrow> 'v list" where
  "bt_values m \<equiv> map snd m"

fun bt_insert :: "'k::linorder \<Rightarrow> 'v \<Rightarrow> ('k \<times> 'v) list \<Rightarrow> ('k \<times> 'v) list" where
  "bt_insert k v [] = [(k, v)]"
| "bt_insert k v ((a, b) # m) =
     (if k < a then (k, v) # (a, b) # m
      else if k = a then (k, v) # m
      else (a, b) # bt_insert k v m)"

definition bt_remove :: "'k \<Rightarrow> ('k \<times> 'v) list \<Rightarrow> ('k \<times> 'v) list" where
  "bt_remove k m = filter (\<lambda>p. fst p \<noteq> k) m"

definition bt_wf :: "('k::linorder \<times> 'v) list \<Rightarrow> bool" where
  "bt_wf m \<longleftrightarrow> sorted_wrt (<) (map fst m)"

lemma bt_contains_key_iff: "bt_contains_key m k \<longleftrightarrow> k \<in> set (map fst m)"
  by (auto simp: bt_contains_key_def map_of_eq_None_iff)

lemma bt_get_insert [bt_simps]: "bt_get (bt_insert k v m) k' = (if k' = k then Some v else bt_get m k')"
  by (induction k v m rule: bt_insert.induct) auto

lemma bt_get_remove [bt_simps]: "bt_get (bt_remove k m) k' = (if k' = k then None else bt_get m k')"
  by (induction m) (auto simp: bt_remove_def)

lemma bt_keys_insert: "set (bt_keys (bt_insert k v m)) = Set.insert k (set (bt_keys m))"
  by (induction k v m rule: bt_insert.induct) auto

lemma bt_wf_insert: "bt_wf m \<Longrightarrow> bt_wf (bt_insert k v m)"
proof (induction k v m rule: bt_insert.induct)
  case (1 k v)
  then show ?case by (simp add: bt_wf_def)
next
  case (2 k v a b m)
  then show ?case
    using bt_keys_insert [of k v m] by (auto simp: bt_wf_def)
qed

lemma bt_wf_remove: "bt_wf m \<Longrightarrow> bt_wf (bt_remove k m)"
  by (induction m) (auto simp: bt_wf_def bt_remove_def)

lemma bt_wf_distinct: "bt_wf m \<Longrightarrow> distinct (bt_keys m)"
  by (simp add: bt_wf_def strict_sorted_iff)

lemma bt_get_in: "bt_wf m \<Longrightarrow> (k, v) \<in> set m \<Longrightarrow> bt_get m k = Some v"
  by (simp add: bt_wf_distinct)

interpretation bt: dict bt_get "bt_insert :: 'k::linorder \<Rightarrow> 'v \<Rightarrow> _ \<Rightarrow> _" bt_remove bt_wf
  by unfold_locales (auto simp: bt_simps bt_wf_insert bt_wf_remove)

definition hm_insert :: "'k \<Rightarrow> 'v \<Rightarrow> ('k \<rightharpoonup> 'v) \<Rightarrow> ('k \<rightharpoonup> 'v)" where
  "hm_insert k v m = m(k \<mapsto> v)"

definition hm_remove :: "'k \<Rightarrow> ('k \<rightharpoonup> 'v) \<Rightarrow> ('k \<rightharpoonup> 'v)" where
  "hm_remove k m = m(k := None)"

interpretation hm: dict "\<lambda>m k. m k" hm_insert hm_remove "\<lambda>_. True"
  by unfold_locales (auto simp: hm_insert_def hm_remove_def)

end
