(* ===== verification/Json.thy ===== *)
theory Json
  imports Prelude
begin

text \<open>
  JSON values, the dynamic data of workflows (contexts, event data, guard operands, tool
  arguments). The constructors are the variants of \<open>serde_json::Value\<close> that the source matches on.
  An object is an association list strictly sorted by key (\<^const>\<open>bt_wf\<close>), its canonical form:
  no modelled operation depends on the order in which an object lists its entries, and two objects
  are equal when they have the same entries.

  A number is one of the three kinds \<open>serde_json\<close> documents: an unsigned 64-bit integer, a negative
  64-bit integer, or a finite double, given by its rational value. How a number is read as a double
  (\<open>Value::as_f64\<close>) is a function of the library; the definitions that need it take it as a parameter
  of type \<open>as_f64_fn\<close>.
\<close>

datatype json_number = PosInt u64 | NegInt int | Float rat

datatype json =
    JNull
  | JBool bool
  | JNumber json_number
  | JString string
  | JArray "json list"
  | JObject "(string \<times> json) list"

type_synonym as_f64_fn = "json_number \<Rightarrow> rat option"

fun is_object :: "json \<Rightarrow> bool" where
  "is_object (JObject _) = True"
| "is_object _ = False"

fun as_object :: "json \<Rightarrow> (string \<times> json) list option" where
  "as_object (JObject m) = Some m"
| "as_object _ = None"

fun as_str :: "json \<Rightarrow> string option" where
  "as_str (JString s) = Some s"
| "as_str _ = None"

fun as_array :: "json \<Rightarrow> json list option" where
  "as_array (JArray xs) = Some xs"
| "as_array _ = None"

fun as_bool :: "json \<Rightarrow> bool option" where
  "as_bool (JBool b) = Some b"
| "as_bool _ = None"

fun json_as_f64 :: "as_f64_fn \<Rightarrow> json \<Rightarrow> rat option" where
  "json_as_f64 f (JNumber n) = f n"
| "json_as_f64 f _ = None"

text \<open>\<open>Value::get\<close> with a string key: \<open>None\<close> for a missing key and for a value that is no object.\<close>

fun jget :: "json \<Rightarrow> string \<Rightarrow> json option" where
  "jget (JObject m) k = bt_get m k"
| "jget _ k = None"

definition jget_str :: "json \<Rightarrow> string \<Rightarrow> string option" where
  "jget_str v k = Option.bind (jget v k) as_str"

text \<open>\<open>value[key] = v\<close> on an object. The modelled code indexes objects only.\<close>

fun jset :: "json \<Rightarrow> string \<Rightarrow> json \<Rightarrow> json" where
  "jset (JObject m) k v = JObject (bt_insert k v m)"
| "jset j k v = j"

fun jremove :: "json \<Rightarrow> string \<Rightarrow> json" where
  "jremove (JObject m) k = JObject (bt_remove k m)"
| "jremove j k = j"

fun json_wf :: "json \<Rightarrow> bool" where
  "json_wf (JObject m) = (bt_wf m \<and> list_all (\<lambda>p. json_wf (snd p)) m)"
| "json_wf (JArray xs) = list_all json_wf xs"
| "json_wf _ = True"

lemma jget_set [simp]: "is_object j \<Longrightarrow> jget (jset j k v) k' = (if k' = k then Some v else jget j k')"
  by (cases j) (auto simp: bt_simps)

lemma jget_remove [simp]: "jget (jremove j k) k' = (if k' = k then None else jget j k')"
  by (cases j) (auto simp: bt_simps)

lemma is_object_set [simp]: "is_object (jset j k v) = is_object j"
  by (cases j) auto

lemma is_object_remove [simp]: "is_object (jremove j k) = is_object j"
  by (cases j) auto

lemma as_object_Some [simp]: "as_object j = Some m \<longleftrightarrow> j = JObject m"
  by (cases j) auto

lemma as_object_None: "as_object j = None \<longleftrightarrow> \<not> is_object j"
  by (cases j) auto

lemma as_str_Some [simp]: "as_str j = Some s \<longleftrightarrow> j = JString s"
  by (cases j) auto

lemma as_array_Some [simp]: "as_array j = Some xs \<longleftrightarrow> j = JArray xs"
  by (cases j) auto

lemma set_bt_insert: "set (bt_insert k v m) \<subseteq> insert (k, v) (set m)"
  by (induction k v m rule: bt_insert.induct) auto

lemma json_wf_set: "json_wf j \<Longrightarrow> json_wf v \<Longrightarrow> json_wf (jset j k v)"
  using set_bt_insert by (cases j) (fastforce simp: list_all_iff bt_wf_insert)+

lemma json_wf_remove: "json_wf j \<Longrightarrow> json_wf (jremove j k)"
  by (cases j) (auto simp: list_all_iff bt_wf_remove, auto simp: bt_remove_def)

end
