(* ===== verification/EngineTypes.thy ===== *)
theory EngineTypes
  imports Json
begin

text \<open>
  The data of the engine crate (\<open>crates/engine/src/types.rs\<close>): machine definitions with their states,
  transitions, guards, interrupts and delivery policies, the results and errors of a transition, and
  the accessors of \<open>TransitionDef\<close>. Every struct is a record and every enum a datatype with the
  source's fields and variants; a field's name carries a prefix for its struct, because the fields
  of records share one name space.
\<close>

datatype state_type = Final | Parallel

datatype guard_op = Eq | Neq | Gt | Gte | Lt | Lte | Exists | NotExists | In | Contains

record guard_def =
  gd_field :: string
  gd_op :: guard_op
  gd_value :: json

datatype classifier_risk_tolerance = LowLocal | ModerateLocal | AssessedModerateLocal

record classifier_policy =
  cp_risk_tolerance :: classifier_risk_tolerance

definition default_risk_tolerance :: classifier_risk_tolerance where
  "default_risk_tolerance = AssessedModerateLocal"

definition default_classifier_policy :: classifier_policy where
  "default_classifier_policy = \<lparr>cp_risk_tolerance = AssessedModerateLocal\<rparr>"

record guarded_transition =
  gt_target :: string
  gt_guard :: "string option"
  gt_guards :: "string list option"

record branch_def =
  br_initial :: string
  br_terminal :: string

datatype join_strategy = JoinAll | JoinAny

definition default_join :: join_strategy where
  "default_join = JoinAll"

record fork_def =
  fk_branches :: "branch_def btree"
  fk_join :: join_strategy
  fk_on_complete :: string
  fk_on_fail :: "string option"

record invoke_ref =
  iv_machine :: string
  iv_on_complete :: string
  iv_on_fail :: "string option"
  iv_input :: "json option"

record full_transition =
  ft_target :: string
  ft_guard :: "string option"
  ft_guards :: "string list option"
  ft_requires_approval :: "bool option"
  ft_approval_message :: "string option"
  ft_approval_reviewer :: "json option"

datatype transition_def =
    Simple string
  | Full full_transition
  | Guarded "guarded_transition list"
  | Fork fork_def
  | Invoke invoke_ref

record state_def =
  sd_on :: "transition_def btree"
  sd_state_type :: "state_type option"
  sd_allowed_tools :: "string list option"
  sd_disallowed_tools :: "string list option"
  sd_intent :: "string option"
  sd_classifier_policy :: "classifier_policy option"
  sd_instructions :: "string option"
  sd_max_iterations :: "u32 option"
  sd_safe_next :: "string option"
  sd_max_edit_lines :: "u32 option"
  sd_allowed_commands :: "string list option"
  sd_allowed_commands_tool :: "string option"
  sd_max_files_per_state :: "u32 option"
  sd_context_budget_bytes :: "u64 option"
  sd_blocked_env :: "string list option"
  sd_env_overrides :: "string btree option"
  sd_model :: "string option"
  sd_thinking_level :: "string option"
  sd_direct_execution :: "bool option"
  sd_model_ladder :: "json list option"

record interrupt_def =
  id_file_pattern :: string
  id_target :: string

datatype workspace_mode = GitWorktree
datatype workspace_cleanup = Never | AfterPromoted
datatype preview_mode = Taskfile
datatype promotion_mode = Manual | Squash
datatype danger_level = DangerSafe | DangerModerate | DangerDangerous

record workspace_policy =
  wp_version :: u32
  wp_mode :: workspace_mode
  wp_required :: bool
  wp_cleanup :: workspace_cleanup

record preview_policy =
  pv_version :: u32
  pv_mode :: preview_mode
  pv_required :: bool
  pv_prepare_state :: string
  pv_deploy_state :: string
  pv_validate_state :: string

record promotion_policy =
  pm_version :: u32
  pm_mode :: promotion_mode
  pm_required :: bool
  pm_promote_state :: string
  pm_teardown_on_final :: bool

record machine_meta =
  mm_task_type :: "string option"
  mm_estimated_steps :: "u32 option"
  mm_danger_level :: "danger_level option"
  mm_requires_human_approval :: "bool option"
  mm_capture_output :: "bool option"
  mm_enabled :: "bool option"
  mm_default_model :: "string option"
  mm_workspace :: "workspace_policy option"
  mm_preview :: "preview_policy option"
  mm_promotion :: "promotion_policy option"
  mm_classifier_policy :: "classifier_policy option"
  mm_extra :: "json btree"

record machine_definition =
  md_id :: string
  md_initial :: string
  md_context :: json
  md_states :: "state_def btree"
  md_guards :: "guard_def btree"
  md_meta :: "machine_meta option"
  md_interrupts :: "interrupt_def btree"

section \<open>Results and errors of a transition\<close>

record invoke_result =
  ir_machine :: string
  ir_on_complete :: string
  ir_on_fail :: "string option"
  ir_input :: "json option"

record fork_result =
  fr_branches :: "branch_def btree"
  fr_join :: join_strategy
  fr_on_complete :: string
  fr_on_fail :: "string option"

record transition_result =
  tr_new_state :: string
  tr_new_context :: json
  tr_transitioned :: bool
  tr_requires_approval :: bool
  tr_approval_message :: "string option"
  tr_invoke :: "invoke_result option"
  tr_fork :: "fork_result option"

datatype transition_error =
    NoMatchingTransition string string
  | GuardFailed string
  | StateNotFound string
  | InvalidDefinition string

record validation_error =
  ve_errors :: "string list"

definition quoted :: "string \<Rightarrow> string" where
  "quoted s = CHR 0x27 # s @ [CHR 0x27]"

fun show_transition_error :: "transition_error \<Rightarrow> string" where
  "show_transition_error (NoMatchingTransition state event) =
     ''no transition for event '' @ quoted event @ '' in state '' @ quoted state"
| "show_transition_error (GuardFailed g) = ''guard '' @ quoted g @ '' failed''"
| "show_transition_error (StateNotFound state) = ''state '' @ quoted state @ '' not found in definition''"
| "show_transition_error (InvalidDefinition message) = ''invalid definition: '' @ message"

definition show_validation_error :: "validation_error \<Rightarrow> string" where
  "show_validation_error e = ''validation errors: '' @ join ''; '' (ve_errors e)"

section \<open>Accessors of transitions\<close>

fun target :: "transition_def \<Rightarrow> string" where
  "target (Simple t) = t"
| "target (Full f) = ft_target f"
| "target (Guarded branches) = (case branches of [] \<Rightarrow> '''' | b # _ \<Rightarrow> gt_target b)"
| "target (Fork fork) = fk_on_complete fork"
| "target (Invoke iv) = iv_on_complete iv"

fun all_targets :: "transition_def \<Rightarrow> string list" where
  "all_targets (Simple t) = [t]"
| "all_targets (Full f) = [ft_target f]"
| "all_targets (Guarded branches) = map gt_target branches"
| "all_targets (Fork fork) = [fk_on_complete fork]"
| "all_targets (Invoke iv) =
     iv_on_complete iv # (case iv_on_fail iv of None \<Rightarrow> [] | Some f \<Rightarrow> [f])"

fun guard_names :: "transition_def \<Rightarrow> string list" where
  "guard_names (Full f) =
     (case ft_guard f of None \<Rightarrow> [] | Some g \<Rightarrow> [g]) @ (case ft_guards f of None \<Rightarrow> [] | Some gs \<Rightarrow> gs)"
| "guard_names _ = []"

fun requires_approval :: "transition_def \<Rightarrow> bool" where
  "requires_approval (Full f) = unwrap_or False (ft_requires_approval f)"
| "requires_approval _ = False"

fun is_invoke :: "transition_def \<Rightarrow> bool" where
  "is_invoke (Invoke _) = True"
| "is_invoke _ = False"

fun transition_invoke_ref :: "transition_def \<Rightarrow> invoke_ref option" where
  "transition_invoke_ref (Invoke iv) = Some iv"
| "transition_invoke_ref _ = None"

fun is_fork :: "transition_def \<Rightarrow> bool" where
  "is_fork (Fork _) = True"
| "is_fork _ = False"

fun fork_ref :: "transition_def \<Rightarrow> fork_def option" where
  "fork_ref (Fork fork) = Some fork"
| "fork_ref _ = None"

text \<open>
  \<^const>\<open>target\<close> is the head of \<^const>\<open>all_targets\<close>, except for a guarded transition with no branch,
  where it is the empty string and there is no target at all.
\<close>

lemma target_in_all_targets: "t \<noteq> Guarded [] \<Longrightarrow> target t \<in> set (all_targets t)"
  by (cases t) (auto split: list.splits)

lemma fork_ref_Some [simp]: "fork_ref t = Some f \<longleftrightarrow> t = Fork f"
  by (cases t) auto

lemma transition_invoke_ref_Some [simp]: "transition_invoke_ref t = Some i \<longleftrightarrow> t = Invoke i"
  by (cases t) auto

text \<open>A state with every optional field absent (\<open>#[serde(default)]\<close>).\<close>

definition empty_state_def :: state_def where
  "empty_state_def = \<lparr>sd_on = [], sd_state_type = None, sd_allowed_tools = None,
     sd_disallowed_tools = None, sd_intent = None, sd_classifier_policy = None,
     sd_instructions = None, sd_max_iterations = None, sd_safe_next = None,
     sd_max_edit_lines = None, sd_allowed_commands = None, sd_allowed_commands_tool = None,
     sd_max_files_per_state = None, sd_context_budget_bytes = None, sd_blocked_env = None,
     sd_env_overrides = None, sd_model = None, sd_thinking_level = None,
     sd_direct_execution = None, sd_model_ladder = None\<rparr>"

definition is_final_def :: "state_def \<Rightarrow> bool" where
  "is_final_def s \<longleftrightarrow> sd_state_type s = Some Final"

text \<open>A definition deserialised from JSON: its dictionaries are \<open>BTreeMap\<close>s and its context is a value.\<close>

definition md_wf :: "machine_definition \<Rightarrow> bool" where
  "md_wf d \<longleftrightarrow> bt_wf (md_states d) \<and> bt_wf (md_guards d) \<and> bt_wf (md_interrupts d) \<and>
     json_wf (md_context d) \<and> list_all (\<lambda>s. bt_wf (sd_on s)) (bt_values (md_states d))"

lemma md_wf_on: "md_wf d \<Longrightarrow> bt_get (md_states d) s = Some sd \<Longrightarrow> bt_wf (sd_on sd)"
  by (force simp: md_wf_def list_all_iff dest: map_of_SomeD)

end
