(* ===== verification/Glob.thy ===== *)
theory Glob
  imports EngineTypes
begin

text \<open>
  File-path globs and interrupt matching (\<open>crates/engine/src/interrupt.rs\<close>). The matcher is the
  source's index loop with its single backtracking point (\<open>star_pi\<close>, \<open>star_si\<close>); \<open>usize::MAX\<close>, the
  source's "no star seen yet", is \<^const>\<open>None\<close>. The only access the loop does not guard itself,
  \<open>path[star_si]\<close>, panics out of range: the model returns \<^const>\<open>None\<close> there, so that "never
  panics" is part of the correctness theorem. The meaning of a pattern is the inductive relation
  \<open>gmatch\<close>.
\<close>

fun any_ok :: "bool option list \<Rightarrow> bool option" where
  "any_ok [] = Some False"
| "any_ok (None # rs) = None"
| "any_ok (Some True # rs) = Some True"
| "any_ok (Some False # rs) = any_ok rs"

text \<open>The final loop: consume trailing stars, then require the end of the pattern.\<close>

definition rest_is_stars :: "string \<Rightarrow> nat \<Rightarrow> bool" where
  "rest_is_stars p pidx \<longleftrightarrow> dropWhile (\<lambda>c. c = CHR ''*'') (drop pidx p) = [] \<and> pidx \<le> length p"

function glob_loop :: "string \<Rightarrow> string \<Rightarrow> nat \<Rightarrow> nat \<Rightarrow> nat option \<Rightarrow> nat \<Rightarrow> bool option" where
  "glob_loop p s pidx si star_pi star_si =
     (if si < length s then
        if pidx < length p \<and> p ! pidx = CHR ''*'' then
          if pidx + 1 < length p \<and> p ! (pidx + 1) = CHR ''*'' then
            let pi2 = pidx + 2;
                pi3 = (if pi2 < length p \<and> p ! pi2 = CHR ''/'' then pi2 + 1 else pi2)
            in if length p \<le> pi3 then Some True
               else any_ok (map (\<lambda>i. glob_loop (drop pi3 p) (drop i s) 0 0 None 0) [si..<Suc (length s)])
          else glob_loop p s (pidx + 1) si (Some pidx) si
        else if pidx < length p \<and> p ! pidx = CHR ''?'' \<and> s ! si \<noteq> CHR ''/'' then
          glob_loop p s (pidx + 1) (si + 1) star_pi star_si
        else if pidx < length p \<and> p ! pidx = s ! si then
          glob_loop p s (pidx + 1) (si + 1) star_pi star_si
        else
          (case star_pi of
             None \<Rightarrow> Some False
           | Some spi \<Rightarrow>
               if star_si < length s then
                 if s ! star_si = CHR ''/'' then Some False
                 else glob_loop p s (spi + 1) (star_si + 1) (Some spi) (star_si + 1)
               else None)
      else Some (rest_is_stars p pidx))"
  by pat_completeness auto
termination
  by (relation "measures [\<lambda>(p, s, pidx, si, sp, ss). length p,
       \<lambda>(p, s, pidx, si, sp, ss). (case sp of None \<Rightarrow> 0 | Some k \<Rightarrow> if k < pidx then 0 else 1),
       \<lambda>(p, s, pidx, si, sp, ss). (case sp of None \<Rightarrow> length p + 1 | Some k \<Rightarrow> length p - k),
       \<lambda>(p, s, pidx, si, sp, ss). length s - ss,
       \<lambda>(p, s, pidx, si, sp, ss). length p - pidx]") (auto split: option.splits if_splits)

declare glob_loop.simps [simp del]

definition glob_match_impl :: "string \<Rightarrow> string \<Rightarrow> bool option" where
  "glob_match_impl p s = glob_loop p s 0 0 None 0"

definition glob_match :: "string \<Rightarrow> string \<Rightarrow> bool" where
  "glob_match pattern path \<longleftrightarrow> glob_match_impl pattern path = Some True"

definition match_interrupts :: "string \<Rightarrow> machine_definition \<Rightarrow> (string \<times> interrupt_def) list" where
  "match_interrupts file_path d = filter (\<lambda>(_, def). glob_match (id_file_pattern def) file_path) (md_interrupts d)"

section \<open>The meaning of a pattern\<close>

text \<open>
  \<open>?\<close> stands for one character other than \<open>/\<close>; \<open>*\<close> for any sequence without \<open>/\<close>; \<open>**\<close> for any
  sequence. A \<open>/\<close> right after \<open>**\<close> belongs to it and need not occur in the path, but then the part
  of the path that remains must not be empty.
\<close>

inductive gmatch :: "string \<Rightarrow> string \<Rightarrow> bool" where
  gm_end: "gmatch [] []"
| gm_char: "c \<noteq> CHR ''*'' \<Longrightarrow> c = x \<or> c = CHR ''?'' \<and> x \<noteq> CHR ''/'' \<Longrightarrow> gmatch ps xs \<Longrightarrow> gmatch (c # ps) (x # xs)"
| gm_star: "take 1 ps \<noteq> ''*'' \<Longrightarrow> CHR ''/'' \<notin> set w \<Longrightarrow> gmatch ps xs \<Longrightarrow> gmatch (CHR ''*'' # ps) (w @ xs)"
| gm_globstar: "gmatch ps xs \<Longrightarrow> gmatch (CHR ''*'' # CHR ''*'' # ps) (w @ xs)"
| gm_globstar_slash: "w @ xs \<noteq> [] \<Longrightarrow> gmatch ps xs \<Longrightarrow> gmatch (CHR ''*'' # CHR ''*'' # CHR ''/'' # ps) (w @ xs)"

inductive_cases gmatch_NilE: "gmatch [] xs"
inductive_cases gmatch_ConsE: "gmatch (c # ps) xs"

definition cmatch :: "char \<Rightarrow> char \<Rightarrow> bool" where
  "cmatch c x \<longleftrightarrow> c \<noteq> CHR ''*'' \<and> (c = x \<or> c = CHR ''?'' \<and> x \<noteq> CHR ''/'')"

lemma gmatch_Nil [simp]: "gmatch [] xs \<longleftrightarrow> xs = []"
  by (auto elim: gmatch_NilE intro: gm_end)

lemma gmatch_char:
  "c \<noteq> CHR ''*'' \<Longrightarrow> gmatch (c # ps) xs \<longleftrightarrow> (\<exists>x ys. xs = x # ys \<and> cmatch c x \<and> gmatch ps ys)"
  by (auto simp: cmatch_def elim!: gmatch_ConsE intro: gm_char)

lemma gmatch_star:
  "take 1 ps \<noteq> ''*'' \<Longrightarrow>
   gmatch (CHR ''*'' # ps) xs \<longleftrightarrow> (\<exists>w ys. xs = w @ ys \<and> CHR ''/'' \<notin> set w \<and> gmatch ps ys)"
  by (auto elim!: gmatch_ConsE intro: gm_star)

text \<open>The pattern that remains after \<open>**\<close>, with a following slash swallowed.\<close>

definition after_globstar :: "string \<Rightarrow> string" where
  "after_globstar ps = (if take 1 ps = ''/'' then drop 1 ps else ps)"

lemma gmatch_empty: "gmatch ps [] \<longleftrightarrow> set ps \<subseteq> {CHR ''*''}"
proof
  show "gmatch ps [] \<Longrightarrow> set ps \<subseteq> {CHR ''*''}"
    by (induction ps "[] :: string" rule: gmatch.induct) auto
  show "set ps \<subseteq> {CHR ''*''} \<Longrightarrow> gmatch ps []"
  proof (induction ps rule: length_induct)
    case (1 ps)
    show ?case
    proof (cases ps)
      case Nil
      then show ?thesis by simp
    next
      case (Cons c qs)
      note c = Cons
      then have cs: "c = CHR ''*''" using 1 by auto
      show ?thesis
      proof (cases "take 1 qs = ''*''")
        case True
        then obtain rs where rs: "qs = CHR ''*'' # rs" by (cases qs) auto
        then have "gmatch rs []" using 1 c by auto
        then show ?thesis using gm_globstar [of rs "[]" "[]"] c cs rs by simp
      next
        case False
        have "gmatch qs []" using 1 c by auto
        then show ?thesis using gm_star [OF False, of "[]" "[]"] c cs by simp
      qed
    qed
  qed
qed

lemma gmatch_globstarD:
  "gmatch (CHR ''*'' # CHR ''*'' # ps) xs \<Longrightarrow>
   (\<exists>w ys. xs = w @ ys \<and> gmatch ps ys) \<or> (\<exists>w ys qs. ps = CHR ''/'' # qs \<and> xs = w @ ys \<and> gmatch qs ys)"
  by (erule gmatch_ConsE) auto

lemma gmatch_globstar:
  assumes "xs \<noteq> []"
  shows "gmatch (CHR ''*'' # CHR ''*'' # ps) xs \<longleftrightarrow> (\<exists>w ys. xs = w @ ys \<and> gmatch (after_globstar ps) ys)"
proof
  assume "gmatch (CHR ''*'' # CHR ''*'' # ps) xs"
  then consider w ys where "xs = w @ ys" "gmatch ps ys"
    | w ys qs where "ps = CHR ''/'' # qs" "xs = w @ ys" "gmatch qs ys"
    using gmatch_globstarD [of ps xs] by blast
  then show "\<exists>w ys. xs = w @ ys \<and> gmatch (after_globstar ps) ys"
  proof cases
    case (1 w ys)
    show ?thesis
    proof (cases "take 1 ps = ''/''")
      case True
      then obtain qs where qs: "ps = CHR ''/'' # qs" by (cases ps) auto
      with 1 obtain zs where "ys = CHR ''/'' # zs" "gmatch qs zs"
        by (auto simp: gmatch_char cmatch_def)
      with 1 qs have "xs = (w @ ''/'') @ zs \<and> gmatch (after_globstar ps) zs"
        by (simp add: after_globstar_def)
      then show ?thesis by blast
    qed (use 1 in \<open>auto simp: after_globstar_def\<close>)
  qed (auto simp: after_globstar_def)
next
  assume "\<exists>w ys. xs = w @ ys \<and> gmatch (after_globstar ps) ys"
  then obtain w ys where xs: "xs = w @ ys" and g: "gmatch (after_globstar ps) ys" by blast
  show "gmatch (CHR ''*'' # CHR ''*'' # ps) xs"
  proof (cases "take 1 ps = ''/''")
    case True
    then obtain qs where "ps = CHR ''/'' # qs" by (cases ps) auto
    then show ?thesis using g xs assms by (auto simp: after_globstar_def intro: gm_globstar_slash)
  qed (use g xs in \<open>auto simp: after_globstar_def intro: gm_globstar\<close>)
qed

section \<open>The loop computes the meaning\<close>

lemma any_ok_map:
  "(\<And>i. i \<in> set is \<Longrightarrow> f i = Some (P i)) \<Longrightarrow> any_ok (map f is) = Some (\<exists>i \<in> set is. P i)"
proof (induction "is")
  case (Cons i "is")
  then show ?case by (cases "P i") auto
qed simp

lemma suffix_drop: "(\<exists>w ys. xs = w @ ys \<and> Q ys) \<longleftrightarrow> (\<exists>i \<le> length xs. Q (drop i xs))"
proof
  assume "\<exists>w ys. xs = w @ ys \<and> Q ys"
  then obtain w ys where "xs = w @ ys" "Q ys" by blast
  then show "\<exists>i \<le> length xs. Q (drop i xs)" by (intro exI [of _ "length w"]) simp
next
  assume "\<exists>i \<le> length xs. Q (drop i xs)"
  then obtain i where "i \<le> length xs" "Q (drop i xs)" by blast
  then show "\<exists>w ys. xs = w @ ys \<and> Q ys"
    by (intro exI [of _ "take i xs"] exI [of _ "drop i xs"]) simp
qed

lemma gmatch_segment:
  "CHR ''*'' \<notin> set M \<Longrightarrow>
   gmatch (M @ Q) xs \<longleftrightarrow> (\<exists>B ys. xs = B @ ys \<and> list_all2 cmatch M B \<and> gmatch Q ys)"
proof (induction M arbitrary: xs)
  case Nil
  then show ?case by simp
next
  case (Cons c M)
  then have c: "c \<noteq> CHR ''*''" and M: "CHR ''*'' \<notin> set M" by auto
  show ?case
  proof
    assume "gmatch ((c # M) @ Q) xs"
    then obtain x xs' where "xs = x # xs'" "cmatch c x" "gmatch (M @ Q) xs'"
      using gmatch_char [OF c] by auto
    moreover from this obtain B ys where "xs' = B @ ys" "list_all2 cmatch M B" "gmatch Q ys"
      using Cons.IH [OF M] by blast
    ultimately show "\<exists>B ys. xs = B @ ys \<and> list_all2 cmatch (c # M) B \<and> gmatch Q ys"
      by (intro exI [of _ "x # B"] exI [of _ ys]) simp
  next
    assume "\<exists>B ys. xs = B @ ys \<and> list_all2 cmatch (c # M) B \<and> gmatch Q ys"
    then obtain B ys where B: "xs = B @ ys" "list_all2 cmatch (c # M) B" "gmatch Q ys" by blast
    then obtain x B' where "B = x # B'" "cmatch c x" "list_all2 cmatch M B'"
      by (auto simp: list_all2_Cons1)
    with B show "gmatch ((c # M) @ Q) xs"
      using gmatch_char [OF c] Cons.IH [OF M] by auto
  qed
qed

lemma cmatch_no_star: "list_all2 cmatch M A \<Longrightarrow> CHR ''*'' \<notin> set M"
  by (induction rule: list_all2_induct) (auto simp: cmatch_def)

text \<open>
  What the backtracking point still offers: the star takes \<open>k > 0\<close> further characters of the text
  \<open>T\<close> at which it stands, none of them a slash, and the pattern \<open>P\<close> after it matches the rest.
\<close>

definition star_alt :: "string \<Rightarrow> string \<Rightarrow> bool" where
  "star_alt P T \<longleftrightarrow> (\<exists>k > 0. k \<le> length T \<and> CHR ''/'' \<notin> set (take k T) \<and> gmatch P (drop k T))"

lemma star_alt_Nil [simp]: "\<not> star_alt P []"
  by (simp add: star_alt_def)

lemma star_alt_Cons: "star_alt P (x # T) \<longleftrightarrow> x \<noteq> CHR ''/'' \<and> (gmatch P T \<or> star_alt P T)"
proof
  assume "star_alt P (x # T)"
  then obtain k where k: "k > 0" "k \<le> length (x # T)" "CHR ''/'' \<notin> set (take k (x # T))"
      "gmatch P (drop k (x # T))"
    by (auto simp: star_alt_def)
  then obtain j where "k = Suc j" by (cases k) auto
  with k show "x \<noteq> CHR ''/'' \<and> (gmatch P T \<or> star_alt P T)"
    by (cases "j = 0") (auto simp: star_alt_def)
next
  assume a: "x \<noteq> CHR ''/'' \<and> (gmatch P T \<or> star_alt P T)"
  then consider "gmatch P T" | j where "j \<le> length T" "CHR ''/'' \<notin> set (take j T)" "gmatch P (drop j T)"
    by (auto simp: star_alt_def)
  then show "star_alt P (x # T)"
  proof cases
    case 1
    with a show ?thesis by (auto simp: star_alt_def intro!: exI [of _ 1])
  next
    case (2 j)
    with a show ?thesis by (auto simp: star_alt_def intro!: exI [of _ "Suc j"])
  qed
qed

lemma gmatch_star_alt:
  assumes "take 1 P \<noteq> ''*''"
  shows "gmatch (CHR ''*'' # P) T \<longleftrightarrow> gmatch P T \<or> star_alt P T"
proof
  assume "gmatch (CHR ''*'' # P) T"
  then obtain w ys where w: "T = w @ ys" "CHR ''/'' \<notin> set w" "gmatch P ys"
    using gmatch_star [OF assms] by blast
  then show "gmatch P T \<or> star_alt P T"
    by (cases "w = []") (auto simp: star_alt_def intro!: exI [of _ "length w"])
next
  assume "gmatch P T \<or> star_alt P T"
  then show "gmatch (CHR ''*'' # P) T"
  proof
    assume "gmatch P T"
    then show ?thesis using gm_star [OF assms, of "[]" T] by simp
  next
    assume "star_alt P T"
    then obtain k where "CHR ''/'' \<notin> set (take k T)" "gmatch P (drop k T)"
      by (auto simp: star_alt_def)
    then show ?thesis using gm_star [OF assms, of "take k T" "drop k T"] by simp
  qed
qed

text \<open>
  The heart of the argument: a segment \<open>M\<close> between two stars has been matched against \<open>A\<close>. Any
  later position of the earlier star is covered by the later star alone, because the characters
  in between contain no slash. So one backtracking point is enough.
\<close>

lemma cmatch_slash: "cmatch c x \<Longrightarrow> x = CHR ''/'' \<longleftrightarrow> c = CHR ''/''"
  by (auto simp: cmatch_def)

lemma segment_no_slash:
  assumes MA: "list_all2 cmatch M A" and MB: "list_all2 cmatch M B" and k: "0 < k"
    and T: "take k (A @ S) @ B = take (k + length A) (A @ S)"
    and no: "CHR ''/'' \<notin> set (take k (A @ S))"
  shows "CHR ''/'' \<notin> set (take k S)"
proof (cases "CHR ''/'' \<in> set M")
  case False
  then have "CHR ''/'' \<notin> set B"
    using MB cmatch_slash by (fastforce simp: list_all2_conv_all_nth in_set_conv_nth)
  with no have "CHR ''/'' \<notin> set (take (k + length A) (A @ S))"
    unfolding T [symmetric] by simp
  then show ?thesis by (simp add: take_append)
next
  case True
  define j where "j = (LEAST j. j < length M \<and> M ! j = CHR ''/'')"
  from True obtain i where "i < length M \<and> M ! i = CHR ''/''" by (auto simp: in_set_conv_nth)
  then have j: "j < length M \<and> M ! j = CHR ''/''"
    unfolding j_def by (rule LeastI)
  have "M ! i \<noteq> CHR ''/''" if "i < j" for i
    using not_less_Least [of i "\<lambda>j. j < length M \<and> M ! j = CHR ''/''"] that j
    by (auto simp: j_def)
  then have B: "B ! i \<noteq> CHR ''/''" if "i < j" for i
    using MB cmatch_slash that j by (metis list_all2_conv_all_nth less_trans)
  have lens: "length A = length M" "length B = length M"
    using MA MB by (auto dest: list_all2_lengthD)
  have "A ! j = CHR ''/''" using MA j cmatch_slash by (metis list_all2_conv_all_nth)
  moreover have "A ! j = (take k (A @ S) @ B) ! j"
    unfolding T using j lens k by (simp add: nth_append)
  moreover have "(take k (A @ S) @ B) ! j \<noteq> CHR ''/''"
  proof (cases "j < length (take k (A @ S))")
    case True
    then show ?thesis using no by (metis nth_append nth_mem)
  next
    case False
    moreover have "length (take k (A @ S)) > 0" using k j lens by (cases A) auto
    ultimately have "j - length (take k (A @ S)) < j" by linarith
    then show ?thesis using False B by (metis nth_append)
  qed
  ultimately show ?thesis by simp
qed

lemma star_alt_segment:
  assumes MA: "list_all2 cmatch M A" and alt: "star_alt (M @ Q) (A @ S)"
  shows "star_alt Q S"
proof -
  from alt obtain k where k: "0 < k" "k \<le> length (A @ S)" "CHR ''/'' \<notin> set (take k (A @ S))"
      "gmatch (M @ Q) (drop k (A @ S))"
    by (auto simp: star_alt_def)
  then obtain B ys where B: "drop k (A @ S) = B @ ys" "list_all2 cmatch M B" "gmatch Q ys"
    using gmatch_segment [OF cmatch_no_star [OF MA]] by blast
  have len: "length B = length A"
    using MA B(2) by (auto dest!: list_all2_lengthD)
  have "length (drop k (A @ S)) = length A + length ys" using B(1) len by simp
  then have kS: "k \<le> length S" using k by simp
  have T: "take k (A @ S) @ B = take (k + length A) (A @ S)"
    unfolding take_add B(1) using len by simp
  have "ys = drop (length A) (drop k (A @ S))" using B(1) len by simp
  then have "ys = drop (length A + k) (A @ S)" by (simp only: drop_drop)
  then have "ys = drop k S" by simp
  with B(3) kS k(1) segment_no_slash [OF MA B(2) k(1) T k(3)] show ?thesis
    by (auto simp: star_alt_def)
qed

lemma gmatch_globstar_absorb:
  assumes "gmatch (CHR ''*'' # CHR ''*'' # ps) ys"
  shows "gmatch (CHR ''*'' # CHR ''*'' # ps) (w @ ys)"
proof -
  from assms consider u zs where "ys = u @ zs" "gmatch ps zs"
    | u zs qs where "ps = CHR ''/'' # qs" "ys = u @ zs" "ys \<noteq> []" "gmatch qs zs"
    by (cases rule: gmatch_ConsE) auto
  then show ?thesis
  proof cases
    case (1 u zs)
    then show ?thesis using gm_globstar [of ps zs "w @ u"] by simp
  next
    case (2 u zs qs)
    then show ?thesis using gm_globstar_slash [of "w @ u" zs qs] by simp
  qed
qed

lemma star_alt_globstar: "star_alt (CHR ''*'' # CHR ''*'' # ps) S \<Longrightarrow> gmatch (CHR ''*'' # CHR ''*'' # ps) S"
  unfolding star_alt_def by (metis append_take_drop_id gmatch_globstar_absorb)

lemma star_alt_star:
  assumes "take 1 P \<noteq> ''*''" and "star_alt (CHR ''*'' # P) S"
  shows "gmatch (CHR ''*'' # P) S"
proof -
  from assms(2) obtain k where k: "CHR ''/'' \<notin> set (take k S)" "gmatch (CHR ''*'' # P) (drop k S)"
    by (auto simp: star_alt_def)
  then obtain w ys where "drop k S = w @ ys" "CHR ''/'' \<notin> set w" "gmatch P ys"
    using gmatch_star [OF assms(1)] by blast
  moreover from this have "S = (take k S @ w) @ ys" by (metis append_assoc append_take_drop_id)
  ultimately show ?thesis
    using gmatch_star [OF assms(1), of S] k(1) by (metis Un_iff set_append)
qed

text \<open>The loop invariant: the segment since the last star has been matched character by character.\<close>

definition glob_inv :: "string \<Rightarrow> string \<Rightarrow> nat \<Rightarrow> nat \<Rightarrow> nat option \<Rightarrow> nat \<Rightarrow> bool" where
  "glob_inv p s pidx si star_pi star_si \<longleftrightarrow>
     pidx \<le> length p \<and> si \<le> length s \<and>
     (case star_pi of
        None \<Rightarrow> True
      | Some spi \<Rightarrow>
          (\<exists>M A. spi < length p \<and> drop (Suc spi) p = M @ drop pidx p \<and> drop star_si s = A @ drop si s \<and>
             list_all2 cmatch M A))"

definition glob_alt :: "string \<Rightarrow> string \<Rightarrow> nat option \<Rightarrow> nat \<Rightarrow> bool" where
  "glob_alt p s star_pi star_si \<longleftrightarrow>
     (case star_pi of None \<Rightarrow> False | Some spi \<Rightarrow> star_alt (drop (Suc spi) p) (drop star_si s))"

lemma glob_alt_segment:
  "glob_inv p s pidx si sp ss \<Longrightarrow> glob_alt p s sp ss \<Longrightarrow> star_alt (drop pidx p) (drop si s)"
  by (auto simp: glob_inv_def glob_alt_def split: option.splits dest: star_alt_segment)

lemma glob_inv_match:
  assumes "glob_inv p s pidx si sp ss" "pidx < length p" "si < length s" "cmatch (p ! pidx) (s ! si)"
  shows "glob_inv p s (pidx + 1) (si + 1) sp ss"
proof -
  have "list_all2 cmatch (M @ [p ! pidx]) (A @ [s ! si])" if "list_all2 cmatch M A" for M A
    using that assms(4) by (simp add: list_all2_appendI)
  then show ?thesis
    using assms by (fastforce simp: glob_inv_def Cons_nth_drop_Suc [symmetric] split: option.splits)
qed

lemma drop_step: "i < length xs \<Longrightarrow> drop i xs = xs ! i # drop (Suc i) xs"
  by (simp add: Cons_nth_drop_Suc)

lemma rest_is_stars_iff: "pidx \<le> length p \<Longrightarrow> rest_is_stars p pidx \<longleftrightarrow> gmatch (drop pidx p) []"
  by (auto simp: rest_is_stars_def gmatch_empty dropWhile_eq_Nil_conv)

definition skip_globstar :: "string \<Rightarrow> nat \<Rightarrow> nat" where
  "skip_globstar p pidx =
     (if pidx + 2 < length p \<and> p ! (pidx + 2) = CHR ''/'' then pidx + 3 else pidx + 2)"

lemma skip_globstar_eq:
  "skip_globstar p pidx =
     (if pidx + 2 < length p \<and> p ! (pidx + 2) = CHR ''/'' then pidx + 2 + 1 else pidx + 2)"
  by (simp add: skip_globstar_def)

lemma after_globstar_drop: "after_globstar (drop (pidx + 2) p) = drop (skip_globstar p pidx) p"
proof (cases "pidx + 2 < length p")
  case True
  then show ?thesis by (simp add: drop_step after_globstar_def skip_globstar_def numeral_3_eq_3)
next
  case False
  then show ?thesis by (simp add: after_globstar_def skip_globstar_def)
qed

text \<open>The three ways the loop body continues, each with the equation the loop takes there.\<close>

lemma glob_loop_globstar_eq:
  assumes "si < length s" "pidx < length p" "p ! pidx = CHR ''*''" "pidx + 1 < length p"
    "p ! (pidx + 1) = CHR ''*''"
  shows "glob_loop p s pidx si sp ss =
    (if length p \<le> skip_globstar p pidx then Some True
     else any_ok (map (\<lambda>i. glob_loop (drop (skip_globstar p pidx) p) (drop i s) 0 0 None 0)
       [si..<Suc (length s)]))"
  by (simp only: glob_loop.simps [of p s pidx si] skip_globstar_eq Let_def assms if_True simp_thms)

lemma glob_loop_globstar:
  assumes si: "si < length s"
    and star: "pidx + 1 < length p" "p ! pidx = CHR ''*''" "p ! (pidx + 1) = CHR ''*''"
    and IH: "\<And>i. si \<le> i \<Longrightarrow> i \<le> length s \<Longrightarrow> skip_globstar p pidx < length p \<Longrightarrow>
       glob_loop (drop (skip_globstar p pidx) p) (drop i s) 0 0 None 0 =
         Some (gmatch (drop (skip_globstar p pidx) p) (drop i s))"
  shows "glob_loop p s pidx si sp ss = Some (gmatch (drop pidx p) (drop si s))"
proof -
  let ?k = "skip_globstar p pidx"
  have P: "drop pidx p = CHR ''*'' # CHR ''*'' # drop (pidx + 2) p"
    using star drop_step [of pidx p] drop_step [of "Suc pidx" p] by simp
  have "gmatch (drop pidx p) (drop si s) \<longleftrightarrow> (\<exists>i \<le> length (drop si s). gmatch (drop ?k p) (drop i (drop si s)))"
    using si gmatch_globstar [of "drop si s" "drop (pidx + 2) p", unfolded after_globstar_drop suffix_drop]
    unfolding P by (simp only: drop_eq_Nil not_le)
  also have "\<dots> \<longleftrightarrow> (\<exists>i \<in> set [si..<Suc (length s)]. gmatch (drop ?k p) (drop i s))"
  proof
    assume "\<exists>i \<le> length (drop si s). gmatch (drop ?k p) (drop i (drop si s))"
    then obtain i where "i \<le> length s - si" "gmatch (drop ?k p) (drop (si + i) s)"
      by (auto simp: add.commute)
    then show "\<exists>i \<in> set [si..<Suc (length s)]. gmatch (drop ?k p) (drop i s)"
      using si by (intro bexI [of _ "si + i"]) auto
  next
    assume "\<exists>i \<in> set [si..<Suc (length s)]. gmatch (drop ?k p) (drop i s)"
    then obtain i where "si \<le> i" "i \<le> length s" "gmatch (drop ?k p) (drop i s)" by auto
    then show "\<exists>i \<le> length (drop si s). gmatch (drop ?k p) (drop i (drop si s))"
      by (intro exI [of _ "i - si"]) simp
  qed
  finally have G: "gmatch (drop pidx p) (drop si s) \<longleftrightarrow>
      (\<exists>i \<in> set [si..<Suc (length s)]. gmatch (drop ?k p) (drop i s))" .
  show ?thesis
  proof (cases "length p \<le> ?k")
    case True
    then have "gmatch (drop ?k p) (drop (length s) s)" by simp
    then have "gmatch (drop pidx p) (drop si s)"
      unfolding G using si by (intro bexI [of _ "length s"]) auto
    then show ?thesis
      using True si star by (simp add: glob_loop_globstar_eq)
  next
    case False
    have "glob_loop p s pidx si sp ss =
        any_ok (map (\<lambda>i. glob_loop (drop ?k p) (drop i s) 0 0 None 0) [si..<Suc (length s)])"
      using False si star by (simp add: glob_loop_globstar_eq)
    also have "\<dots> = Some (\<exists>i \<in> set [si..<Suc (length s)]. gmatch (drop ?k p) (drop i s))"
      using False IH by (intro any_ok_map) auto
    finally show ?thesis by (simp add: G)
  qed
qed

lemma glob_loop_match:
  assumes "si < length s" "pidx < length p" "cmatch (p ! pidx) (s ! si)"
  shows "glob_loop p s pidx si sp ss = glob_loop p s (pidx + 1) (si + 1) sp ss"
  using assms by (auto simp: glob_loop.simps [of p s pidx] cmatch_def)

lemma glob_loop_backtrack:
  assumes "si < length s" "pidx < length p \<Longrightarrow> p ! pidx \<noteq> CHR ''*'' \<and> \<not> cmatch (p ! pidx) (s ! si)"
  shows "glob_loop p s pidx si sp ss =
    (case sp of None \<Rightarrow> Some False
     | Some spi \<Rightarrow> if ss < length s then
         if s ! ss = CHR ''/'' then Some False
         else glob_loop p s (spi + 1) (ss + 1) (Some spi) (ss + 1) else None)"
  using assms by (auto simp: glob_loop.simps [of p s pidx] cmatch_def)

lemma glob_inv_star:
  "glob_inv p s pidx si sp ss \<Longrightarrow> pidx < length p \<Longrightarrow> glob_inv p s (pidx + 1) si (Some pidx) si"
  by (auto simp: glob_inv_def intro!: exI [of _ "[]"])

lemma glob_inv_backtrack:
  "glob_inv p s pidx si (Some spi) ss \<Longrightarrow> ss < length s \<Longrightarrow>
   glob_inv p s (spi + 1) (ss + 1) (Some spi) (ss + 1)"
  by (auto simp: glob_inv_def)

lemma glob_inv_star_si: "glob_inv p s pidx si (Some spi) ss \<Longrightarrow> si < length s \<Longrightarrow> ss < length s"
proof -
  assume "glob_inv p s pidx si (Some spi) ss" "si < length s"
  then obtain A where "drop ss s = A @ drop si s" by (auto simp: glob_inv_def)
  then have "length (drop ss s) \<ge> length (drop si s)" by simp
  with \<open>si < length s\<close> show ?thesis by simp
qed

lemma no_char_match:
  assumes "si < length s" "pidx < length p \<Longrightarrow> p ! pidx \<noteq> CHR ''*'' \<and> \<not> cmatch (p ! pidx) (s ! si)"
  shows "\<not> gmatch (drop pidx p) (drop si s)"
  using assms by (cases "pidx < length p") (auto simp: drop_step gmatch_char)

lemma glob_loop_correct:
  "glob_inv p s pidx si sp ss \<Longrightarrow>
   glob_loop p s pidx si sp ss = Some (gmatch (drop pidx p) (drop si s) \<or> glob_alt p s sp ss)"
proof (induction p s pidx si sp ss rule: glob_loop.induct)
  case (1 p s pidx si sp ss)
  note inv = "1.prems"
  note seg = glob_alt_segment [OF inv]
  consider (finished) "\<not> si < length s"
    | (globstar) "si < length s" "pidx < length p" "p ! pidx = CHR ''*''"
        "pidx + 1 < length p" "p ! (pidx + 1) = CHR ''*''"
    | (star) "si < length s" "pidx < length p" "p ! pidx = CHR ''*''"
        "\<not> (pidx + 1 < length p \<and> p ! (pidx + 1) = CHR ''*'')"
    | (char) "si < length s" "pidx < length p" "cmatch (p ! pidx) (s ! si)"
    | (backtrack) "si < length s"
        "pidx < length p \<Longrightarrow> p ! pidx \<noteq> CHR ''*'' \<and> \<not> cmatch (p ! pidx) (s ! si)"
    by blast
  then show ?case
  proof cases
    case finished
    then have "drop si s = []" by simp
    moreover have "pidx \<le> length p" using inv by (simp add: glob_inv_def)
    ultimately show ?thesis
      using finished seg by (auto simp: glob_loop.simps [of p s pidx] rest_is_stars_iff)
  next
    case globstar
    have "glob_loop (drop (skip_globstar p pidx) p) (drop i s) 0 0 None 0 =
         Some (gmatch (drop (skip_globstar p pidx) p) (drop i s))"
      if "si \<le> i" "i \<le> length s" "skip_globstar p pidx < length p" for i
    proof -
      have "\<not> length p \<le> skip_globstar p pidx" "i \<in> set [si..<Suc (length s)]" using that by auto
      moreover have "glob_inv (drop (skip_globstar p pidx) p) (drop i s) 0 0 None 0"
        by (simp add: glob_inv_def)
      ultimately show ?thesis
        using "1.IH"(1) [OF globstar(1) conjI [OF globstar(2,3)] conjI [OF globstar(4,5)] refl
          skip_globstar_eq, of i]
        by (simp add: glob_alt_def)
    qed
    then have "glob_loop p s pidx si sp ss = Some (gmatch (drop pidx p) (drop si s))"
      using globstar by (intro glob_loop_globstar) auto
    moreover have "drop pidx p = CHR ''*'' # CHR ''*'' # drop (pidx + 2) p"
      using globstar drop_step [of pidx p] drop_step [of "Suc pidx" p] by simp
    then have "glob_alt p s sp ss \<Longrightarrow> gmatch (drop pidx p) (drop si s)"
      using seg star_alt_globstar by simp
    ultimately show ?thesis by auto
  next
    case star
    then have ne: "take 1 (drop (Suc pidx) p) \<noteq> ''*''"
      by (cases "Suc pidx < length p") (auto simp: drop_step)
    have P: "drop pidx p = CHR ''*'' # drop (Suc pidx) p" using star drop_step [of pidx p] by simp
    have "glob_loop p s pidx si sp ss = Some (gmatch (drop pidx p) (drop si s))"
      using "1.IH"(2) [OF _ _ _ glob_inv_star [OF inv]] star gmatch_star_alt [OF ne]
      by (auto simp: glob_loop.simps [of p s pidx] P glob_alt_def)
    moreover have "glob_alt p s sp ss \<Longrightarrow> gmatch (drop pidx p) (drop si s)"
      using seg star_alt_star [OF ne] P by simp
    ultimately show ?thesis by auto
  next
    case char
    have "glob_loop p s (pidx + 1) (si + 1) sp ss =
        Some (gmatch (drop (pidx + 1) p) (drop (si + 1) s) \<or> glob_alt p s sp ss)"
      using "1.IH"(3,4) glob_inv_match [OF inv] char
      by (cases "s ! si = CHR ''?''") (auto simp: cmatch_def)
    then show ?thesis
      using char glob_loop_match [OF char] by (auto simp: drop_step gmatch_char cmatch_def)
  next
    case backtrack
    show ?thesis
    proof (cases sp)
      case None
      then show ?thesis
        using glob_loop_backtrack [OF backtrack] no_char_match [OF backtrack]
        by (simp add: glob_alt_def)
    next
      case (Some spi)
      then have ss: "ss < length s" using glob_inv_star_si inv backtrack by blast
      have "glob_alt p s sp ss \<longleftrightarrow> s ! ss \<noteq> CHR ''/'' \<and>
          (gmatch (drop (Suc spi) p) (drop (Suc ss) s) \<or> glob_alt p s sp (Suc ss))"
        by (simp add: glob_alt_def Some drop_step [OF ss] star_alt_Cons)
      then show ?thesis
        using glob_loop_backtrack [OF backtrack] no_char_match [OF backtrack] Some ss
          "1.IH"(5) [OF backtrack(1) _ _ _ Some ss] glob_inv_backtrack [of p s pidx si spi ss] inv backtrack
        by (auto simp: cmatch_def)
    qed
  qed
qed

text \<open>
  C33: the interrupt matcher never indexes out of range and decides exactly the declared meaning of
  the pattern: its loop, which remembers a single star to return to, is equivalent to \<^const>\<open>gmatch\<close>.
\<close>

theorem glob_match_impl_correct: "glob_match_impl pattern path = Some (gmatch pattern path)"
  using glob_loop_correct [of pattern path 0 0 None 0]
  by (simp add: glob_match_impl_def glob_inv_def glob_alt_def)

lemma glob_match_iff: "glob_match pattern path \<longleftrightarrow> gmatch pattern path"
  using glob_loop_correct [of pattern path 0 0 None 0]
  by (simp add: glob_match_def glob_match_impl_def glob_inv_def glob_alt_def)

end
