(* ===== verification/Guard.thy ===== *)
theory Guard
  imports EngineTypes
begin

text \<open>
  Guards: declarative predicates on a context field (\<open>crates/engine/src/guard.rs\<close>).
\<close>

definition compare_numbers :: "as_f64_fn \<Rightarrow> json \<Rightarrow> json \<Rightarrow> (rat \<Rightarrow> rat \<Rightarrow> bool) \<Rightarrow> bool" where
  "compare_numbers f a b cmp =
     (case (json_as_f64 f a, json_as_f64 f b) of
        (Some x, Some y) \<Rightarrow> cmp x y
      | _ \<Rightarrow> False)"

definition evaluate_guard :: "as_f64_fn \<Rightarrow> guard_def \<Rightarrow> json \<Rightarrow> bool" where
  "evaluate_guard f guard context =
     (let field_value = jget context (gd_field guard) in
      case gd_op guard of
        Exists \<Rightarrow> (case field_value of Some v \<Rightarrow> v \<noteq> JNull | None \<Rightarrow> False)
      | NotExists \<Rightarrow> (case field_value of None \<Rightarrow> True | Some v \<Rightarrow> v = JNull)
      | op \<Rightarrow>
          (case field_value of
             None \<Rightarrow> False
           | Some v \<Rightarrow>
               (case op of
                  Eq \<Rightarrow> v = gd_value guard
                | Neq \<Rightarrow> v \<noteq> gd_value guard
                | Gt \<Rightarrow> compare_numbers f v (gd_value guard) (>)
                | Gte \<Rightarrow> compare_numbers f v (gd_value guard) (\<ge>)
                | Lt \<Rightarrow> compare_numbers f v (gd_value guard) (<)
                | Lte \<Rightarrow> compare_numbers f v (gd_value guard) (\<le>)
                | In \<Rightarrow> is_some_and (\<lambda>arr. v \<in> set arr) (as_array (gd_value guard))
                | Contains \<Rightarrow>
                    (case (as_str v, as_str (gd_value guard)) of
                       (Some haystack, Some needle) \<Rightarrow> str_contains haystack needle
                     | _ \<Rightarrow> False)
                | _ \<Rightarrow> False)))"

text \<open>
  A field is present when the context is an object that has it with a value other than null:
  exactly what \<open>exists\<close> tests.
\<close>

definition present :: "json \<Rightarrow> string \<Rightarrow> bool" where
  "present context field \<longleftrightarrow> (\<exists>v. jget context field = Some v \<and> v \<noteq> JNull)"

lemma evaluate_exists: "evaluate_guard f \<lparr>gd_field = x, gd_op = Exists, gd_value = v\<rparr> ctx \<longleftrightarrow> present ctx x"
  by (auto simp: evaluate_guard_def present_def split: option.splits)

lemma evaluate_not_exists:
  "evaluate_guard f \<lparr>gd_field = x, gd_op = NotExists, gd_value = v\<rparr> ctx \<longleftrightarrow> \<not> present ctx x"
  by (auto simp: evaluate_guard_def present_def split: option.splits)

text \<open>What the six comparison operators mean, by the kind of the two operands.\<close>

definition ordered_by :: "guard_op \<Rightarrow> rat \<Rightarrow> rat \<Rightarrow> bool" where
  "ordered_by op x y = (case op of Gt \<Rightarrow> y < x | Gte \<Rightarrow> y \<le> x | Lt \<Rightarrow> x < y | Lte \<Rightarrow> x \<le> y | _ \<Rightarrow> False)"

definition is_ordering :: "guard_op \<Rightarrow> bool" where
  "is_ordering op \<longleftrightarrow> op \<in> {Gt, Gte, Lt, Lte}"

lemma compare_numbers_iff:
  "compare_numbers f a b cmp \<longleftrightarrow>
     (\<exists>n m x y. a = JNumber n \<and> b = JNumber m \<and> f n = Some x \<and> f m = Some y \<and> cmp x y)"
  by (cases a; cases b) (auto simp: compare_numbers_def split: option.splits)

lemma evaluate_ordering:
  "is_ordering op \<Longrightarrow>
   evaluate_guard f \<lparr>gd_field = x, gd_op = op, gd_value = v\<rparr> ctx \<longleftrightarrow>
     (\<exists>n m a b. jget ctx x = Some (JNumber n) \<and> v = JNumber m \<and> f n = Some a \<and> f m = Some b \<and>
        ordered_by op a b)"
  by (cases "jget ctx x"; cases op)
    (auto simp: evaluate_guard_def compare_numbers_iff ordered_by_def is_ordering_def)

end
