(* ===== verification/Transition.thy ===== *)
theory Transition
  imports Guard
begin

text \<open>
  Transition resolution (\<open>crates/engine/src/transition.rs\<close>): from the current state, an event, its
  data and the context to the next state and context. An event that is not declared is resolved by
  target name, then by substring, then by \<open>safe_next\<close>.

  The specification is the pair of relations \<open>selects\<close> (which transition an event denotes) and
  \<open>fires\<close> (what a denoted transition does); \<open>trans_step\<close> joins them, and the code is shown to compute
  exactly this relation.
\<close>

definition return_key :: string where
  "return_key = ''_interrupt_return''"

definition return_target :: string where
  "return_target = ''$return''"

definition apply_context_patch :: "json \<Rightarrow> json \<Rightarrow> json" where
  "apply_context_patch context patch =
     (case as_object context of
        None \<Rightarrow> context
      | Some ctx_obj \<Rightarrow>
          (case as_object patch of
             None \<Rightarrow> context
           | Some patch_obj \<Rightarrow> JObject (foldl (\<lambda>merged (k, v). bt_insert k v merged) ctx_obj patch_obj)))"

definition resolve_return_target :: "string \<Rightarrow> json \<Rightarrow> (string, transition_error) result" where
  "resolve_return_target tgt context =
     (if tgt = return_target then
        (case jget_str context return_key of
           Some s \<Rightarrow> Ok s
         | None \<Rightarrow> Err (InvalidDefinition
             ''$return target used but _interrupt_return not set in context''))
      else Ok tgt)"

text \<open>A guard that the definition does not declare is skipped.\<close>

definition guard_passes :: "as_f64_fn \<Rightarrow> machine_definition \<Rightarrow> json \<Rightarrow> string \<Rightarrow> bool" where
  "guard_passes f d context guard_name =
     (case bt_get (md_guards d) guard_name of
        None \<Rightarrow> True
      | Some g \<Rightarrow> evaluate_guard f g context)"

definition branch_passes :: "as_f64_fn \<Rightarrow> machine_definition \<Rightarrow> json \<Rightarrow> guarded_transition \<Rightarrow> bool" where
  "branch_passes f d context b \<longleftrightarrow>
     is_none_or (guard_passes f d context) (gt_guard b) \<and>
     is_none_or (list_all (guard_passes f d context)) (gt_guards b)"

text \<open>Steps shared by every branch that moves: the patched context, without the return address.\<close>

definition moved_context :: "string \<Rightarrow> json \<Rightarrow> json \<Rightarrow> json" where
  "moved_context raw_target context event_data =
     (let new_context = apply_context_patch context event_data
      in if raw_target = return_target then jremove new_context return_key else new_context)"

definition plain_result :: "string \<Rightarrow> json \<Rightarrow> transition_result" where
  "plain_result new_state new_context =
     \<lparr>tr_new_state = new_state, tr_new_context = new_context, tr_transitioned = True,
      tr_requires_approval = False, tr_approval_message = None, tr_invoke = None, tr_fork = None\<rparr>"

fun resolve_branches ::
  "as_f64_fn \<Rightarrow> machine_definition \<Rightarrow> json \<Rightarrow> json \<Rightarrow> guarded_transition list \<Rightarrow>
   (transition_result, transition_error) result" where
  "resolve_branches f d event_data context [] = Err (GuardFailed ''no matching branch'')"
| "resolve_branches f d event_data context (b # bs) =
     (if branch_passes f d context b then
        (case resolve_return_target (gt_target b) context of
           Err e \<Rightarrow> Err e
         | Ok new_state \<Rightarrow> Ok (plain_result new_state (moved_context (gt_target b) context event_data)))
      else resolve_branches f d event_data context bs)"

definition invoke_result_of :: "invoke_ref \<Rightarrow> invoke_result" where
  "invoke_result_of iv = \<lparr>ir_machine = iv_machine iv, ir_on_complete = iv_on_complete iv,
     ir_on_fail = iv_on_fail iv, ir_input = iv_input iv\<rparr>"

definition fork_result_of :: "fork_def \<Rightarrow> fork_result" where
  "fork_result_of fk = \<lparr>fr_branches = fk_branches fk, fr_join = fk_join fk,
     fr_on_complete = fk_on_complete fk, fr_on_fail = fk_on_fail fk\<rparr>"

fun approval_message_of :: "transition_def \<Rightarrow> string option" where
  "approval_message_of (Full t) = ft_approval_message t"
| "approval_message_of _ = None"

definition moved_result :: "transition_def \<Rightarrow> string \<Rightarrow> json \<Rightarrow> transition_result" where
  "moved_result t new_state new_context =
     \<lparr>tr_new_state = new_state, tr_new_context = new_context, tr_transitioned = True,
      tr_requires_approval = requires_approval t, tr_approval_message = approval_message_of t,
      tr_invoke = map_option invoke_result_of (transition_invoke_ref t),
      tr_fork = map_option fork_result_of (fork_ref t)\<rparr>"

fun resolve_selected ::
  "as_f64_fn \<Rightarrow> machine_definition \<Rightarrow> json \<Rightarrow> json \<Rightarrow> transition_def \<Rightarrow>
   (transition_result, transition_error) result" where
  "resolve_selected f d event_data context (Guarded branches) =
     resolve_branches f d event_data context branches"
| "resolve_selected f d event_data context t =
     (case find (\<lambda>g. \<not> guard_passes f d context g) (guard_names t) of
        Some g \<Rightarrow> Err (GuardFailed g)
      | None \<Rightarrow>
          (case resolve_return_target (target t) context of
             Err e \<Rightarrow> Err e
           | Ok new_state \<Rightarrow> Ok (moved_result t new_state (moved_context (target t) context event_data))))"

definition targets_event :: "string \<Rightarrow> string \<times> transition_def \<Rightarrow> bool" where
  "targets_event event p \<longleftrightarrow> eq_ignore_ascii_case (target (snd p)) event"

definition resembles_event :: "string \<Rightarrow> string \<times> transition_def \<Rightarrow> bool" where
  "resembles_event event p \<longleftrightarrow>
     (let el = to_ascii_lowercase (fst p); evl = to_ascii_lowercase event
      in str_contains el evl \<or> str_contains evl el)"

definition ambiguous_message :: "string \<Rightarrow> (string \<times> transition_def) list \<Rightarrow> string" where
  "ambiguous_message event by_target =
     quoted event @ '' is a state name, not an event. Multiple events reach it: '' @
     join '', '' (bt_keys by_target)"

definition resolve_transition ::
  "as_f64_fn \<Rightarrow> string \<Rightarrow> string \<Rightarrow> json \<Rightarrow> json \<Rightarrow> machine_definition \<Rightarrow>
   (transition_result, transition_error) result" where
  "resolve_transition f current_state event event_data context d =
     (case bt_get (md_states d) current_state of
        None \<Rightarrow> Err (StateNotFound current_state)
      | Some sd \<Rightarrow>
          (case bt_get (sd_on sd) event of
             Some t \<Rightarrow> resolve_selected f d event_data context t
           | None \<Rightarrow>
               (let by_target = filter (targets_event event) (sd_on sd) in
                if length by_target = 1 then resolve_selected f d event_data context (snd (by_target ! 0))
                else if length by_target > 1 then
                  Err (NoMatchingTransition current_state (ambiguous_message event by_target))
                else
                  (let by_substring = filter (resembles_event event) (sd_on sd) in
                   if length by_substring = 1
                   then resolve_selected f d event_data context (snd (by_substring ! 0))
                   else
                     (case sd_safe_next sd of
                        Some safe_target \<Rightarrow>
                          Ok (plain_result safe_target (apply_context_patch context event_data))
                      | None \<Rightarrow> Err (NoMatchingTransition current_state event))))))"

section \<open>Specification\<close>

text \<open>\<open>only P m p\<close>: \<open>p\<close> is the one entry of \<open>m\<close> that has property \<open>P\<close>.\<close>

definition only :: "('a \<Rightarrow> bool) \<Rightarrow> 'a list \<Rightarrow> 'a \<Rightarrow> bool" where
  "only P m p \<longleftrightarrow> p \<in> set m \<and> P p \<and> (\<forall>q \<in> set m. P q \<longrightarrow> q = p)"

text \<open>\<open>first_in P m x\<close>: \<open>x\<close> is the first element of \<open>m\<close> that has property \<open>P\<close>.\<close>

definition first_in :: "('a \<Rightarrow> bool) \<Rightarrow> 'a list \<Rightarrow> 'a \<Rightarrow> bool" where
  "first_in P m x \<longleftrightarrow> (\<exists>pre post. m = pre @ x # post \<and> (\<forall>y \<in> set pre. \<not> P y) \<and> P x)"

inductive selects :: "state_def \<Rightarrow> string \<Rightarrow> transition_def \<Rightarrow> bool" for sd event where
  by_event: "bt_get (sd_on sd) event = Some t \<Longrightarrow> selects sd event t"
| by_target: "bt_get (sd_on sd) event = None \<Longrightarrow> only (targets_event event) (sd_on sd) (e, t) \<Longrightarrow>
    selects sd event t"
| by_substring: "bt_get (sd_on sd) event = None \<Longrightarrow> \<not> (\<exists>p \<in> set (sd_on sd). targets_event event p) \<Longrightarrow>
    only (resembles_event event) (sd_on sd) (e, t) \<Longrightarrow> selects sd event t"

definition unmatched :: "state_def \<Rightarrow> string \<Rightarrow> bool" where
  "unmatched sd event \<longleftrightarrow> bt_get (sd_on sd) event = None \<and>
     \<not> (\<exists>p \<in> set (sd_on sd). targets_event event p) \<and>
     \<not> (\<exists>p. only (resembles_event event) (sd_on sd) p)"

text \<open>Every event is selected, unmatched, or reaches one target in several ways.\<close>

definition ambiguous :: "state_def \<Rightarrow> string \<Rightarrow> bool" where
  "ambiguous sd event \<longleftrightarrow> bt_get (sd_on sd) event = None \<and>
     (\<exists>p \<in> set (sd_on sd). \<exists>q \<in> set (sd_on sd). p \<noteq> q \<and> targets_event event p \<and> targets_event event q)"

definition guards_hold :: "as_f64_fn \<Rightarrow> machine_definition \<Rightarrow> json \<Rightarrow> string list \<Rightarrow> bool" where
  "guards_hold f d context gs \<longleftrightarrow>
     (\<forall>g \<in> set gs. \<forall>def. bt_get (md_guards d) g = Some def \<longrightarrow> evaluate_guard f def context)"

definition branch_guards :: "guarded_transition \<Rightarrow> string list" where
  "branch_guards b = (case gt_guard b of None \<Rightarrow> [] | Some g \<Rightarrow> [g]) @ unwrap_or [] (gt_guards b)"

definition enabled :: "as_f64_fn \<Rightarrow> machine_definition \<Rightarrow> json \<Rightarrow> guarded_transition \<Rightarrow> bool" where
  "enabled f d context b \<longleftrightarrow> guards_hold f d context (branch_guards b)"

definition leads_to :: "string \<Rightarrow> json \<Rightarrow> string \<Rightarrow> bool" where
  "leads_to raw context new_state \<longleftrightarrow>
     (if raw = return_target then jget context return_key = Some (JString new_state)
      else new_state = raw)"

inductive fires ::
  "as_f64_fn \<Rightarrow> machine_definition \<Rightarrow> json \<Rightarrow> json \<Rightarrow> transition_def \<Rightarrow> transition_result \<Rightarrow> bool"
  for f d event_data "context" where
  fires_branch: "first_in (enabled f d context) branches b \<Longrightarrow> leads_to (gt_target b) context new_state \<Longrightarrow>
    fires f d event_data context (Guarded branches)
      (plain_result new_state (moved_context (gt_target b) context event_data))"
| fires_single: "\<not> (\<exists>bs. t = Guarded bs) \<Longrightarrow> guards_hold f d context (guard_names t) \<Longrightarrow>
    leads_to (target t) context new_state \<Longrightarrow>
    fires f d event_data context t (moved_result t new_state (moved_context (target t) context event_data))"

inductive trans_step ::
  "as_f64_fn \<Rightarrow> machine_definition \<Rightarrow> string \<Rightarrow> string \<Rightarrow> json \<Rightarrow> json \<Rightarrow> transition_result \<Rightarrow> bool"
  for f d s event event_data "context" where
  step_fire: "bt_get (md_states d) s = Some sd \<Longrightarrow> selects sd event t \<Longrightarrow>
    fires f d event_data context t r \<Longrightarrow> trans_step f d s event event_data context r"
| step_safe: "bt_get (md_states d) s = Some sd \<Longrightarrow> unmatched sd event \<Longrightarrow> sd_safe_next sd = Some t \<Longrightarrow>
    trans_step f d s event event_data context (plain_result t (apply_context_patch context event_data))"

inductive_cases fires_GuardedE: "fires f d ev ctx (Guarded bs) r"
inductive_cases trans_stepE: "trans_step f d s event event_data context r"

text \<open>\<open>takes\<close> names the raw target of the branch that is taken, before \<open>$return\<close> is resolved.\<close>

inductive takes :: "as_f64_fn \<Rightarrow> machine_definition \<Rightarrow> json \<Rightarrow> transition_def \<Rightarrow> string \<Rightarrow> bool"
  for f d "context" where
  takes_branch: "first_in (enabled f d context) branches b \<Longrightarrow> takes f d context (Guarded branches) (gt_target b)"
| takes_single: "\<not> (\<exists>bs. t = Guarded bs) \<Longrightarrow> guards_hold f d context (guard_names t) \<Longrightarrow>
    takes f d context t (target t)"

inductive step_error ::
  "as_f64_fn \<Rightarrow> machine_definition \<Rightarrow> string \<Rightarrow> string \<Rightarrow> json \<Rightarrow> transition_error \<Rightarrow> bool"
  for f d s event "context" where
  no_state: "bt_get (md_states d) s = None \<Longrightarrow> step_error f d s event context (StateNotFound s)"
| no_event: "bt_get (md_states d) s = Some sd \<Longrightarrow> unmatched sd event \<Longrightarrow> sd_safe_next sd = None \<Longrightarrow>
    step_error f d s event context (NoMatchingTransition s event)"
| many_events: "bt_get (md_states d) s = Some sd \<Longrightarrow> ambiguous sd event \<Longrightarrow>
    step_error f d s event context
      (NoMatchingTransition s (ambiguous_message event (filter (targets_event event) (sd_on sd))))"
| no_branch: "bt_get (md_states d) s = Some sd \<Longrightarrow> selects sd event (Guarded bs) \<Longrightarrow>
    \<forall>b \<in> set bs. \<not> enabled f d context b \<Longrightarrow>
    step_error f d s event context (GuardFailed ''no matching branch'')"
| guard_fails: "bt_get (md_states d) s = Some sd \<Longrightarrow> selects sd event t \<Longrightarrow> \<not> (\<exists>bs. t = Guarded bs) \<Longrightarrow>
    first_in (\<lambda>g. \<not> guards_hold f d context [g]) (guard_names t) g \<Longrightarrow>
    step_error f d s event context (GuardFailed g)"
| no_return: "bt_get (md_states d) s = Some sd \<Longrightarrow> selects sd event t \<Longrightarrow>
    takes f d context t return_target \<Longrightarrow> \<not> (\<exists>a. jget context return_key = Some (JString a)) \<Longrightarrow>
    step_error f d s event context
      (InvalidDefinition ''$return target used but _interrupt_return not set in context'')"

section \<open>The code computes the specification\<close>

lemma filter_one_iff:
  assumes "distinct m"
  shows "length (filter P m) = 1 \<longleftrightarrow> (\<exists>p. only P m p)"
    and "only P m p \<Longrightarrow> filter P m = [p]"
proof -
  show one: "only P m p \<Longrightarrow> filter P m = [p]" for p
  proof -
    assume o: "only P m p"
    then have "set (filter P m) = {p}" by (auto simp: only_def)
    moreover have "distinct (filter P m)" using assms by simp
    ultimately show ?thesis
      by (metis distinct.simps(2) empty_set insert_not_empty list.set_cases list.set_intros singletonD
          list.set(2) set_ConsD list.exhaust insertI1 set_empty2 list.inject)
  qed
  show "length (filter P m) = 1 \<longleftrightarrow> (\<exists>p. only P m p)"
  proof
    assume "length (filter P m) = 1"
    then obtain p where "filter P m = [p]" by (auto simp: length_Suc_conv)
    then have "set (filter P m) = {p}" by simp
    then have "only P m p" by (auto simp: only_def set_eq_iff)
    then show "\<exists>p. only P m p" ..
  qed (auto dest: one)
qed

lemma bt_wf_distinct_entries: "bt_wf m \<Longrightarrow> distinct m"
  using bt_wf_distinct distinct_map by blast

lemma guard_passes_hold: "list_all (guard_passes f d context) gs \<longleftrightarrow> guards_hold f d context gs"
  by (auto simp: list_all_iff guards_hold_def guard_passes_def split: option.splits)

lemma guard_passes_single: "guard_passes f d context g \<longleftrightarrow> guards_hold f d context [g]"
  by (simp add: guard_passes_hold [symmetric])

lemma branch_passes_enabled: "branch_passes f d context = enabled f d context"
proof
  fix b
  show "branch_passes f d context b = enabled f d context b"
    by (cases "gt_guard b"; cases "gt_guards b")
      (auto simp: enabled_def branch_passes_def branch_guards_def guard_passes_hold [symmetric])
qed

lemma first_in_find: "find P xs = Some x \<longleftrightarrow> first_in P xs x"
proof (induction xs)
  case (Cons a xs)
  have "first_in P (a # xs) x \<longleftrightarrow> (if P a then x = a else first_in P xs x)"
    unfolding first_in_def Cons_eq_append_conv by (auto 5 3)
  with Cons show ?case by auto
qed (simp add: first_in_def)

lemma resolve_return_Ok: "resolve_return_target raw context = Ok t \<longleftrightarrow> leads_to raw context t"
  by (auto simp: resolve_return_target_def leads_to_def jget_str_def
      split: option.splits Option.bind_splits)

lemma resolve_return_Err:
  "resolve_return_target raw context = Err e \<Longrightarrow> raw = return_target \<and> (\<nexists>t. leads_to raw context t)"
  by (auto simp: resolve_return_target_def leads_to_def jget_str_def
      split: option.splits Option.bind_splits if_splits)

lemma resolve_branches_find:
  "resolve_branches f d data context bs =
     (case find (enabled f d context) bs of
        None \<Rightarrow> Err (GuardFailed ''no matching branch'')
      | Some b \<Rightarrow> map_sum id (\<lambda>n. plain_result n (moved_context (gt_target b) context data))
          (resolve_return_target (gt_target b) context))"
  by (induction bs) (auto simp: branch_passes_enabled split: sum.splits)

lemma map_sum_Inr: "map_sum id g x = Inr y \<longleftrightarrow> (\<exists>z. x = Inr z \<and> y = g z)"
  by (cases x) auto

lemma map_sum_Inl: "map_sum id g x = Inl y \<longleftrightarrow> x = Inl y"
  by (cases x) auto

lemma resolve_branches_Ok:
  "resolve_branches f d data context bs = Ok r \<longleftrightarrow> fires f d data context (Guarded bs) r"
  by (auto simp: resolve_branches_find fires.simps first_in_find [symmetric] map_sum_Inr resolve_return_Ok
      split: option.splits)

lemma find_guard_None: "find (\<lambda>g. \<not> guard_passes f d context g) gs = None \<longleftrightarrow> guards_hold f d context gs"
  by (auto simp: find_None_iff guard_passes_hold [symmetric] list_all_iff)

lemma resolve_single:
  "\<not> (\<exists>bs. t = Guarded bs) \<Longrightarrow> resolve_selected f d event_data context t =
     (case find (\<lambda>g. \<not> guard_passes f d context g) (guard_names t) of
        Some g \<Rightarrow> Err (GuardFailed g)
      | None \<Rightarrow>
          (case resolve_return_target (target t) context of
             Err e \<Rightarrow> Err e
           | Ok n \<Rightarrow> Ok (moved_result t n (moved_context (target t) context event_data))))"
  by (cases t) auto

lemma resolve_single_Ok:
  assumes "\<not> (\<exists>bs. t = Guarded bs)"
  shows "resolve_selected f d event_data context t = Ok r \<longleftrightarrow> fires f d event_data context t r"
proof -
  have "fires f d event_data context t r \<longleftrightarrow> guards_hold f d context (guard_names t) \<and>
      (\<exists>n. leads_to (target t) context n \<and> r = moved_result t n (moved_context (target t) context event_data))"
    using assms by (auto simp: fires.simps)
  then show ?thesis
    unfolding resolve_single [OF assms] find_guard_None [symmetric] resolve_return_Ok [symmetric]
    by (cases "find (\<lambda>g. \<not> guard_passes f d context g) (guard_names t)";
        cases "resolve_return_target (target t) context") auto
qed

lemma resolve_selected_Ok:
  "resolve_selected f d event_data context t = Ok r \<longleftrightarrow> fires f d event_data context t r"
  using resolve_single_Ok resolve_branches_Ok by (cases "\<exists>bs. t = Guarded bs") auto

lemma resolve_transition_selects:
  assumes wf: "bt_wf (sd_on sd)" and "sel": "selects sd event t" and sd: "bt_get (md_states d) s = Some sd"
  shows "resolve_transition f s event event_data context d = resolve_selected f d event_data context t"
proof -
  note one = filter_one_iff(2) [OF bt_wf_distinct_entries [OF wf]]
  from "sel" show ?thesis
  proof cases
    case by_event
    then show ?thesis using sd by (simp add: resolve_transition_def)
  next
    case (by_target e)
    then show ?thesis using sd one by (auto simp: resolve_transition_def)
  next
    case (by_substring e)
    then have "filter (targets_event event) (sd_on sd) = []" by (simp add: filter_empty_conv)
    with sd by_substring one show ?thesis by (auto simp: resolve_transition_def)
  qed
qed

lemma resolve_transition_unmatched:
  assumes "bt_wf (sd_on sd)" "unmatched sd event" "bt_get (md_states d) s = Some sd"
  shows "resolve_transition f s event event_data context d =
     (case sd_safe_next sd of
        Some t \<Rightarrow> Ok (plain_result t (apply_context_patch context event_data))
      | None \<Rightarrow> Err (NoMatchingTransition s event))"
proof -
  have "filter (targets_event event) (sd_on sd) = []"
    using assms(2) by (simp add: unmatched_def filter_empty_conv)
  moreover have "length (filter (resembles_event event) (sd_on sd)) \<noteq> 1"
    unfolding filter_one_iff(1) [OF bt_wf_distinct_entries [OF assms(1)]]
    using assms(2) by (simp add: unmatched_def)
  ultimately show ?thesis using assms by (simp add: resolve_transition_def unmatched_def)
qed

lemma event_cases:
  obtains t where "selects sd event t" | "unmatched sd event" | "ambiguous sd event"
proof (cases "bt_get (sd_on sd) event")
  case (Some t)
  then show thesis using that(1) by_event by blast
next
  case None
  show thesis
  proof (cases "\<exists>p \<in> set (sd_on sd). targets_event event p")
    case True
    then obtain e t where p: "(e, t) \<in> set (sd_on sd)" "targets_event event (e, t)" by auto
    show thesis
    proof (cases "only (targets_event event) (sd_on sd) (e, t)")
      case True
      then show thesis using that(1) by_target None by blast
    next
      case False
      then obtain q where "q \<in> set (sd_on sd)" "targets_event event q" "(e, t) \<noteq> q"
        using p by (auto simp: only_def)
      with None p have "ambiguous sd event" unfolding ambiguous_def by blast
      then show thesis by (rule that(3))
    qed
  next
    case False
    show thesis
    proof (cases "\<exists>e t. only (resembles_event event) (sd_on sd) (e, t)")
      case True
      then show thesis using that(1) by_substring [OF None False] by blast
    next
      case no: False
      then show thesis using that(2) None False by (auto simp: unmatched_def)
    qed
  qed
qed

lemma resolve_transition_ambiguous:
  assumes "bt_wf (sd_on sd)" "ambiguous sd event" "bt_get (md_states d) s = Some sd"
  shows "resolve_transition f s event event_data context d =
     Err (NoMatchingTransition s (ambiguous_message event (filter (targets_event event) (sd_on sd))))"
proof -
  let ?m = "filter (targets_event event) (sd_on sd)"
  from assms(2) obtain p q where "p \<in> set ?m" "q \<in> set ?m" "p \<noteq> q" by (auto simp: ambiguous_def)
  then have "length ?m > 1"
    by (cases ?m; cases "tl ?m") auto
  then show ?thesis using assms by (simp add: resolve_transition_def ambiguous_def)
qed

lemma resolve_transition_sound:
  assumes "md_wf d" and ok: "resolve_transition f s event event_data context d = Ok r"
  shows "trans_step f d s event event_data context r"
proof (cases "bt_get (md_states d) s")
  case None
  then show ?thesis using ok by (simp add: resolve_transition_def)
next
  case (Some sd)
  have wf: "bt_wf (sd_on sd)" using md_wf_on [OF assms(1) Some] .
  show ?thesis
  proof (cases rule: event_cases [of sd event])
    case (1 t)
    then show ?thesis
      using ok resolve_transition_selects [OF wf 1 Some]
      by (auto simp: resolve_selected_Ok intro: step_fire [OF Some])
  next
    case 2
    then show ?thesis
      using ok resolve_transition_unmatched [OF wf 2 Some]
      by (auto split: option.splits intro: step_safe [OF Some])
  next
    case 3
    then show ?thesis using ok resolve_transition_ambiguous [OF wf 3 Some] by simp
  qed
qed

lemma resolve_transition_complete:
  assumes "md_wf d" "trans_step f d s event event_data context r"
  shows "resolve_transition f s event event_data context d = Ok r"
  using assms(2)
proof cases
  case (step_fire sd t)
  then show ?thesis
    using resolve_transition_selects [OF md_wf_on [OF assms(1)]] by (simp add: resolve_selected_Ok)
next
  case (step_safe sd t)
  then show ?thesis
    using resolve_transition_unmatched [OF md_wf_on [OF assms(1)]] by simp
qed

text \<open>
  C1: transition resolution succeeds exactly with the results of the step relation: the event denotes
  a declared transition (by name, else by the one target of that name, else by the one event that
  contains it or is contained in it), the guards of the taken branch hold, no earlier branch was
  enabled, and \<open>$return\<close> resolves through the context; or nothing matches and \<open>safe_next\<close> is taken.
\<close>

theorem resolve_transition_ok_iff:
  assumes "md_wf d"
  shows "resolve_transition f s event event_data context d = Ok r \<longleftrightarrow>
    trans_step f d s event event_data context r"
  using assms resolve_transition_sound resolve_transition_complete by blast

theorem resolve_transition_ok_iff_witness:
  "\<exists>d. md_wf d \<and> resolve_transition (\<lambda>_. None) ''a'' ''go'' JNull JNull d =
     Ok (plain_result ''b'' JNull) \<and> trans_step (\<lambda>_. None) d ''a'' ''go'' JNull JNull (plain_result ''b'' JNull)"
proof -
  let ?d = "\<lparr>md_id = ''m'', md_initial = ''a'', md_context = JNull,
      md_states = [(''a'', empty_state_def\<lparr>sd_on := [(''go'', Simple ''b'')]\<rparr>),
        (''b'', empty_state_def\<lparr>sd_state_type := Some Final\<rparr>)],
      md_guards = [], md_meta = None, md_interrupts = []\<rparr>"
  have "md_wf ?d" by (simp add: md_wf_def bt_wf_def empty_state_def_def)
  moreover have ok: "resolve_transition (\<lambda>_. None) ''a'' ''go'' JNull JNull ?d = Ok (plain_result ''b'' JNull)"
    by (simp add: resolve_transition_def empty_state_def_def resolve_return_target_def return_target_def
        moved_result_def plain_result_def moved_context_def apply_context_patch_def)
  ultimately show ?thesis using resolve_transition_ok_iff [of ?d] by blast
qed

section \<open>Contexts\<close>

lemma jget_patch:
  assumes "json_wf context" "json_wf patch" "is_object context"
  shows "jget (apply_context_patch context patch) k =
    (case jget patch k of Some v \<Rightarrow> Some v | None \<Rightarrow> jget context k)"
proof (cases "is_object patch")
  case False
  then show ?thesis by (cases "context"; cases patch) (auto simp: apply_context_patch_def)
next
  case True
  with assms obtain m p where m: "context = JObject m" "patch = JObject p" "bt_wf m" "bt_wf p"
    by (cases "context"; cases patch) auto
  have "map_of (rev p) = map_of p"
    using bt_wf_distinct [OF m(4)] by (intro map_of_inject_set [THEN iffD2]) (auto simp: rev_map [symmetric])
  with m show ?thesis by (auto simp: apply_context_patch_def bt.lookup_merge split: option.splits)
qed

lemma patch_not_object: "\<not> is_object context \<Longrightarrow> apply_context_patch context patch = context"
  by (cases "context") (auto simp: apply_context_patch_def)

lemma is_object_patch [simp]: "is_object (apply_context_patch context patch) = is_object context"
  by (cases "context"; cases patch) (auto simp: apply_context_patch_def)

lemma json_wf_merge:
  "bt_wf m \<Longrightarrow> list_all (\<lambda>q. json_wf (snd q)) m \<Longrightarrow> list_all (\<lambda>q. json_wf (snd q)) p \<Longrightarrow>
   json_wf (JObject (foldl (\<lambda>acc (k, v). bt_insert k v acc) m p))"
proof (induction p arbitrary: m)
  case (Cons q p)
  obtain k v where q: "q = (k, v)" by (cases q)
  have "json_wf (jset (JObject m) k v)" using Cons.prems q by (intro json_wf_set) auto
  then show ?case using Cons q by simp
qed auto

lemma json_wf_patch: "json_wf context \<Longrightarrow> json_wf patch \<Longrightarrow> json_wf (apply_context_patch context patch)"
  by (cases "context"; cases patch) (auto simp: apply_context_patch_def json_wf_merge [simplified])

lemma json_wf_moved: "json_wf context \<Longrightarrow> json_wf data \<Longrightarrow> json_wf (moved_context raw context data)"
  by (simp add: moved_context_def json_wf_patch json_wf_remove Let_def)

lemma fires_context:
  assumes "fires f d data context t r"
  shows "\<exists>raw. raw \<in> set (all_targets t) \<union> {target t} \<and> leads_to raw context (tr_new_state r) \<and>
    tr_new_context r = moved_context raw context data \<and> tr_transitioned r"
  using assms
proof cases
  case (fires_branch branches b new_state)
  then have "b \<in> set branches" by (auto simp: first_in_def)
  with fires_branch show ?thesis by (intro exI [of _ "gt_target b"]) (auto simp: plain_result_def)
next
  case (fires_single new_state)
  then show ?thesis by (intro exI [of _ "target t"]) (auto simp: moved_result_def)
qed

lemma trans_step_context:
  assumes "trans_step f d s event data context r"
  shows "(\<exists>raw. tr_new_context r = moved_context raw context data \<and> leads_to raw context (tr_new_state r)) \<or>
    tr_new_context r = apply_context_patch context data"
  using assms by cases (auto simp: plain_result_def dest: fires_context)

text \<open>
  A transition that succeeds updates the context by the event data and nothing else. Every key of
  the data has the data's value afterwards, every other key keeps its value, with one exception: the
  return address, which a transition to \<open>$return\<close> consumes.
\<close>

theorem resolve_transition_context:
  assumes "md_wf d" "json_wf context" "json_wf data" "is_object context"
    and "resolve_transition f s event data context d = Ok r"
  shows "json_wf (tr_new_context r) \<and> is_object (tr_new_context r) \<and>
    (\<forall>k. k \<noteq> return_key \<longrightarrow> jget (tr_new_context r) k =
       (case jget data k of Some v \<Rightarrow> Some v | None \<Rightarrow> jget context k)) \<and>
    (jget (tr_new_context r) return_key = None \<or>
     jget (tr_new_context r) return_key =
       (case jget data return_key of Some v \<Rightarrow> Some v | None \<Rightarrow> jget context return_key))"
proof -
  have "trans_step f d s event data context r"
    using assms resolve_transition_sound by blast
  then show ?thesis
    using trans_step_context [of f d s event data "context" r] assms
    by (auto simp: moved_context_def Let_def jget_patch json_wf_patch json_wf_remove)
qed

text \<open>A small machine used by the witnesses: a guarded return, a fallback and an approval gate.\<close>

definition demo_machine :: machine_definition where
  "demo_machine = \<lparr>md_id = ''demo'', md_initial = ''plan'', md_context = JObject [],
     md_states =
       [(''done'', empty_state_def\<lparr>sd_state_type := Some Final\<rparr>),
        (''fix'', empty_state_def\<lparr>sd_on := [(''BACK'', Simple ''$return'')], sd_safe_next := Some ''plan''\<rparr>),
        (''plan'', empty_state_def\<lparr>sd_on := [(''TESTS_PASS'', Guarded
            [\<lparr>gt_target = ''done'', gt_guard = Some ''ready'', gt_guards = None\<rparr>,
             \<lparr>gt_target = ''fix'', gt_guard = None, gt_guards = None\<rparr>])]\<rparr>)],
     md_guards = [(''ready'', \<lparr>gd_field = ''ready'', gd_op = Eq, gd_value = JBool True\<rparr>)],
     md_meta = None,
     md_interrupts = [(''config'', \<lparr>id_file_pattern = ''*.toml'', id_target = ''fix''\<rparr>)]\<rparr>"

lemma demo_wf: "md_wf demo_machine"
  by (simp add: demo_machine_def md_wf_def bt_wf_def empty_state_def_def)

lemmas resolve_eval = resolve_transition_def resolve_return_target_def return_target_def return_key_def
  moved_result_def plain_result_def moved_context_def apply_context_patch_def branch_passes_def
  guard_passes_def evaluate_guard_def jget_str_def demo_machine_def empty_state_def_def

lemma demo_return:
  "resolve_transition (\<lambda>_. None) ''fix'' ''BACK'' (JObject [(''n'', JBool True)])
     (JObject [(''_interrupt_return'', JString ''plan'')]) demo_machine =
   Ok (plain_result ''plan'' (JObject [(''n'', JBool True)]))"
  by (simp add: resolve_eval bt_remove_def)

theorem resolve_transition_context_witness:
  "\<exists>r. resolve_transition (\<lambda>_. None) ''fix'' ''BACK'' (JObject [(''n'', JBool True)])
      (JObject [(''_interrupt_return'', JString ''plan'')]) demo_machine = Ok r \<and>
    jget (tr_new_context r) ''n'' = Some (JBool True) \<and> jget (tr_new_context r) ''m'' = None"
  using resolve_transition_context [OF demo_wf _ _ _ demo_return] demo_return
  by (simp add: plain_result_def bt_wf_def return_key_def)

section \<open>Errors\<close>

lemma resolve_branches_Err:
  "resolve_branches f d data context bs = Err e \<longleftrightarrow>
     (\<forall>b \<in> set bs. \<not> enabled f d context b) \<and> e = GuardFailed ''no matching branch'' \<or>
     (\<exists>b. first_in (enabled f d context) bs b \<and> resolve_return_target (gt_target b) context = Err e)"
proof (cases "find (enabled f d context) bs")
  case None
  moreover from None have "\<forall>b \<in> set bs. \<not> enabled f d context b" by (simp add: find_None_iff)
  ultimately show ?thesis by (auto simp: resolve_branches_find first_in_find [symmetric])
next
  case (Some b)
  then have "b \<in> set bs" "enabled f d context b" by (auto simp: find_Some_iff)
  with Some show ?thesis by (auto simp: resolve_branches_find first_in_find [symmetric] map_sum_Inl)
qed

lemma resolve_return_Err_iff:
  "resolve_return_target raw context = Err e \<longleftrightarrow> raw = return_target \<and>
     \<not> (\<exists>a. jget context return_key = Some (JString a)) \<and>
     e = InvalidDefinition ''$return target used but _interrupt_return not set in context''"
  by (auto simp: resolve_return_target_def jget_str_def split: option.splits Option.bind_splits)

lemma resolve_single_Err:
  assumes "\<not> (\<exists>bs. t = Guarded bs)"
  shows "resolve_selected f d data context t = Err e \<longleftrightarrow>
    (\<exists>g. first_in (\<lambda>g. \<not> guards_hold f d context [g]) (guard_names t) g \<and> e = GuardFailed g) \<or>
    guards_hold f d context (guard_names t) \<and> resolve_return_target (target t) context = Err e"
  unfolding resolve_single [OF assms] first_in_find [symmetric] find_guard_None [symmetric]
    guard_passes_single [symmetric]
  by (cases "find (\<lambda>g. \<not> guard_passes f d context g) (guard_names t)")
    (auto split: sum.splits)

lemma resolve_selected_Err:
  "resolve_selected f d data context t = Err e \<longleftrightarrow>
     (\<exists>bs. t = Guarded bs \<and> (\<forall>b \<in> set bs. \<not> enabled f d context b) \<and> e = GuardFailed ''no matching branch'') \<or>
     (\<exists>g. \<not> (\<exists>bs. t = Guarded bs) \<and>
        first_in (\<lambda>g. \<not> guards_hold f d context [g]) (guard_names t) g \<and> e = GuardFailed g) \<or>
     (\<exists>raw. takes f d context t raw \<and> resolve_return_target raw context = Err e)"
proof (cases "\<exists>bs. t = Guarded bs")
  case True
  then obtain bs where t: "t = Guarded bs" by blast
  have "takes f d context t raw \<longleftrightarrow> (\<exists>b. first_in (enabled f d context) bs b \<and> raw = gt_target b)" for raw
    unfolding t by (auto simp: takes.simps)
  then show ?thesis unfolding t by (simp add: resolve_branches_Err) blast
next
  case False
  then show ?thesis by (auto simp: resolve_single_Err takes.simps)
qed

text \<open>
  C2: the errors of transition resolution, each with its exact cause: an unknown state; an event that
  nothing matches where there is no fallback, or that names a target of several events; a guarded
  transition none of whose branches is enabled; the first failing guard of a single transition; and
  \<open>$return\<close> taken with no return address in the context.
\<close>

theorem resolve_transition_err_iff:
  assumes "md_wf d"
  shows "resolve_transition f s event data context d = Err e \<longleftrightarrow> step_error f d s event context e"
proof
  assume err: "resolve_transition f s event data context d = Err e"
  show "step_error f d s event context e"
  proof (cases "bt_get (md_states d) s")
    case None
    then show ?thesis using err by (auto simp: resolve_transition_def intro: no_state)
  next
    case (Some sd)
    note wf = md_wf_on [OF assms Some]
    show ?thesis
    proof (cases rule: event_cases [of sd event])
      case (1 t)
      then have "resolve_selected f d data context t = Err e"
        using err resolve_transition_selects [OF wf 1 Some] by simp
      then show ?thesis
        unfolding resolve_selected_Err resolve_return_Err_iff
        using Some 1 by (auto intro: step_error.intros)
    next
      case 2
      then show ?thesis
        using err Some resolve_transition_unmatched [OF wf 2 Some]
        by (auto split: option.splits intro: no_event)
    next
      case 3
      then show ?thesis
        using err Some resolve_transition_ambiguous [OF wf 3 Some] by (auto intro: many_events)
    qed
  qed
next
  assume "step_error f d s event context e"
  then show "resolve_transition f s event data context d = Err e"
  proof cases
    case no_state
    then show ?thesis by (simp add: resolve_transition_def)
  next
    case (no_event sd)
    then show ?thesis using resolve_transition_unmatched [OF md_wf_on [OF assms]] by simp
  next
    case (many_events sd)
    then show ?thesis using resolve_transition_ambiguous [OF md_wf_on [OF assms]] by simp
  next
    case (no_branch sd bs)
    then show ?thesis
      using resolve_transition_selects [OF md_wf_on [OF assms]] by (auto simp: resolve_branches_Err)
  next
    case (guard_fails sd t g)
    then show ?thesis
      using resolve_transition_selects [OF md_wf_on [OF assms]] by (auto simp: resolve_selected_Err)
  next
    case (no_return sd t)
    then show ?thesis
      using resolve_transition_selects [OF md_wf_on [OF assms]]
      by (auto simp: resolve_selected_Err resolve_return_Err_iff)
  qed
qed

theorem resolve_transition_err_iff_witness:
  "step_error (\<lambda>_. None) demo_machine ''fix'' ''BACK'' (JObject [])
     (InvalidDefinition ''$return target used but _interrupt_return not set in context'')"
proof -
  have "resolve_transition (\<lambda>_. None) ''fix'' ''BACK'' JNull (JObject []) demo_machine =
      Err (InvalidDefinition ''$return target used but _interrupt_return not set in context'')"
    by (simp add: resolve_eval)
  then show ?thesis using resolve_transition_err_iff [OF demo_wf] by blast
qed

end
