(* ===== verification/Validate.thy ===== *)
theory Validate
  imports Transition Glob
begin

text \<open>
  Structural validation of a machine definition (\<open>crates/engine/src/validate.rs\<close>). The code collects
  messages check by check, in source order; the reachability check is a breadth-first search. The
  specification \<open>well_formed_machine\<close> states what an accepted definition satisfies, with
  reachability as an inductive predicate.
\<close>

definition state_exists :: "machine_definition \<Rightarrow> string \<Rightarrow> bool" where
  "state_exists d s \<longleftrightarrow> bt_contains_key (md_states d) s"

definition err_if :: "bool \<Rightarrow> string \<Rightarrow> string list" where
  "err_if c m = (if c then [m] else [])"

definition check_initial :: "machine_definition \<Rightarrow> string list" where
  "check_initial d = err_if (\<not> state_exists d (md_initial d))
     (''initial state '' @ quoted (md_initial d) @ '' not found in states'')"

definition check_final :: "machine_definition \<Rightarrow> string list" where
  "check_final d = err_if (\<not> list_ex is_final_def (bt_values (md_states d)))
     ''no final state defined; at least one state must have type: final''"

definition at_event :: "string \<Rightarrow> string \<Rightarrow> string" where
  "at_event state_name event = ''state '' @ quoted state_name @ '' event '' @ quoted event"

definition check_transition :: "machine_definition \<Rightarrow> string \<Rightarrow> string \<times> transition_def \<Rightarrow> string list" where
  "check_transition d state_name = (\<lambda>(event, t).
     err_if (target t \<noteq> return_target \<and> \<not> state_exists d (target t))
       (at_event state_name event @ '' targets nonexistent state '' @ quoted (target t)) @
     concat (map (\<lambda>g. err_if (\<not> bt_contains_key (md_guards d) g)
       (at_event state_name event @ '' references undefined guard '' @ quoted g)) (guard_names t)))"

definition for_transitions ::
  "machine_definition \<Rightarrow> (string \<Rightarrow> string \<times> transition_def \<Rightarrow> 'a list) \<Rightarrow> 'a list" where
  "for_transitions d body = concat (map (\<lambda>(name, sd). concat (map (body name) (sd_on sd))) (md_states d))"

definition check_interrupts :: "machine_definition \<Rightarrow> string list" where
  "check_interrupts d = concat (map (\<lambda>(name, i). err_if (\<not> state_exists d (id_target i))
     (''interrupt '' @ quoted name @ '' targets nonexistent state '' @ quoted (id_target i))) (md_interrupts d))"

definition check_fork :: "machine_definition \<Rightarrow> string \<Rightarrow> string \<times> transition_def \<Rightarrow> string list" where
  "check_fork d state_name = (\<lambda>(event, t).
     case fork_ref t of
       None \<Rightarrow> []
     | Some fork \<Rightarrow>
         concat (map (\<lambda>(branch_name, b).
           err_if (\<not> state_exists d (br_initial b))
             (at_event state_name event @ '' fork branch '' @ quoted branch_name @ '' initial state '' @
              quoted (br_initial b) @ '' not found'') @
           err_if (\<not> state_exists d (br_terminal b))
             (at_event state_name event @ '' fork branch '' @ quoted branch_name @ '' terminal state '' @
              quoted (br_terminal b) @ '' not found'')) (fk_branches fork)) @
         (case fk_on_fail fork of
            None \<Rightarrow> []
          | Some on_fail \<Rightarrow> err_if (\<not> state_exists d on_fail)
              (at_event state_name event @ '' fork on_fail state '' @ quoted on_fail @ '' not found'')))"

section \<open>Reachability search\<close>

text \<open>
  \<open>visit\<close> is one guarded insertion: a state that exists and is new is marked and queued. The search
  state is the pair of visited states (the \<open>BTreeSet\<close>, as the list of its insertions) and queue.
\<close>

type_synonym search = "string list \<times> string list"

definition visit :: "machine_definition \<Rightarrow> string \<Rightarrow> search \<Rightarrow> search" where
  "visit d s = (\<lambda>(visited, queue).
     if state_exists d s \<and> s \<notin> set visited then (visited @ [s], queue @ [s]) else (visited, queue))"

definition fork_states :: "transition_def \<Rightarrow> string list" where
  "fork_states t = (case fork_ref t of
     None \<Rightarrow> []
   | Some fork \<Rightarrow> concat (map (\<lambda>b. [br_initial b, br_terminal b]) (bt_values (fk_branches fork))) @
       (case fk_on_fail fork of None \<Rightarrow> [] | Some s \<Rightarrow> [s]))"

definition search_start :: "machine_definition \<Rightarrow> search" where
  "search_start d =
     fold (visit d)
       (map id_target (bt_values (md_interrupts d)) @ for_transitions d (\<lambda>_ p. fork_states (snd p)))
       ([md_initial d], [md_initial d])"

definition search_targets :: "machine_definition \<Rightarrow> string \<Rightarrow> string list" where
  "search_targets d s = (case bt_get (md_states d) s of
     None \<Rightarrow> []
   | Some sd \<Rightarrow> filter (\<lambda>t. t \<noteq> return_target) (concat (map all_targets (bt_values (sd_on sd)))))"

definition unvisited :: "machine_definition \<Rightarrow> string list \<Rightarrow> nat" where
  "unvisited d visited = card (set (bt_keys (md_states d)) - set visited)"

lemma visit_measure:
  "unvisited d (fst (visit d s (v, q))) + length (snd (visit d s (v, q))) = unvisited d v + length q"
proof (cases "state_exists d s \<and> s \<notin> set v")
  case True
  let ?K = "set (bt_keys (md_states d))"
  have "s \<in> ?K - set v" using True by (auto simp: state_exists_def bt_contains_key_iff)
  then have "card (?K - set v) = Suc (card ((?K - set v) - {s}))" by (intro card.remove) auto
  moreover have "?K - set (v @ [s]) = (?K - set v) - {s}" by auto
  ultimately show ?thesis using True by (simp add: visit_def unvisited_def)
next
  case False
  then show ?thesis by (auto simp: visit_def)
qed

lemma visit_fold_measure:
  "unvisited d (fst (fold (visit d) ts (v, q))) + length (snd (fold (visit d) ts (v, q))) =
   unvisited d v + length q"
proof (induction ts arbitrary: v q)
  case (Cons t ts)
  then show ?case using visit_measure [of d t v q] by (cases "visit d t (v, q)") auto
qed simp

function reach_loop :: "machine_definition \<Rightarrow> search \<Rightarrow> string list" where
  "reach_loop d (visited, []) = visited"
| "reach_loop d (visited, s # queue) = reach_loop d (fold (visit d) (search_targets d s) (visited, queue))"
  by pat_completeness auto
termination
  by (relation "measure (\<lambda>(d, v, q). unvisited d v + length q)")
    (auto simp: case_prod_beta visit_fold_measure [simplified case_prod_beta])

definition check_reachable :: "machine_definition \<Rightarrow> string list" where
  "check_reachable d =
     (if state_exists d (md_initial d) then
        (let visited = reach_loop d (search_start d) in
         concat (map (\<lambda>s. err_if (s \<notin> set visited)
           (''state '' @ quoted s @ '' is unreachable from initial state'')) (bt_keys (md_states d))))
      else [])"

section \<open>Delivery policies\<close>

definition check_workspace :: "workspace_policy \<Rightarrow> string list" where
  "check_workspace w = err_if (wp_version w \<noteq> 1)
     (''workspace policy version '' @ show_word (wp_version w) @ '' is unsupported; expected 1'')"

definition check_preview :: "machine_definition \<Rightarrow> machine_meta \<Rightarrow> preview_policy \<Rightarrow> string list" where
  "check_preview d meta pv =
     err_if (pv_version pv \<noteq> 1)
       (''preview policy version '' @ show_word (pv_version pv) @ '' is unsupported; expected 1'') @
     concat (map (\<lambda>(field, s). err_if (\<not> state_exists d s)
       (''preview policy '' @ field @ '' references nonexistent state '' @ quoted s))
       [(''prepare_state'', pv_prepare_state pv), (''deploy_state'', pv_deploy_state pv),
        (''validate_state'', pv_validate_state pv)]) @
     err_if (pv_required pv \<and> is_none_or (\<lambda>w. \<not> wp_required w) (mm_workspace meta))
       ''required preview policy requires a required workspace policy''"

definition check_promotion :: "machine_definition \<Rightarrow> machine_meta \<Rightarrow> promotion_policy \<Rightarrow> string list" where
  "check_promotion d meta pm =
     err_if (pm_version pm \<noteq> 1)
       (''promotion policy version '' @ show_word (pm_version pm) @ '' is unsupported; expected 1'') @
     err_if (\<not> state_exists d (pm_promote_state pm))
       (''promotion policy promote_state references nonexistent state '' @ quoted (pm_promote_state pm)) @
     err_if (pm_required pm \<and> is_none_or (\<lambda>p. \<not> pv_required p) (mm_preview meta))
       ''required promotion policy requires a required preview policy''"

definition opt_errs :: "('a \<Rightarrow> string list) \<Rightarrow> 'a option \<Rightarrow> string list" where
  "opt_errs check x = (case x of None \<Rightarrow> [] | Some p \<Rightarrow> check p)"

definition check_meta :: "machine_definition \<Rightarrow> string list" where
  "check_meta d = opt_errs (\<lambda>meta.
     opt_errs check_workspace (mm_workspace meta) @
     opt_errs (check_preview d meta) (mm_preview meta) @
     opt_errs (check_promotion d meta) (mm_promotion meta)) (md_meta d)"

definition validation_errors :: "machine_definition \<Rightarrow> string list" where
  "validation_errors d =
     check_initial d @ check_final d @ for_transitions d (check_transition d) @ check_interrupts d @
     for_transitions d (check_fork d) @ check_reachable d @ check_meta d"

definition validate_definition :: "machine_definition \<Rightarrow> (unit, validation_error) result" where
  "validate_definition d =
     (let errors = validation_errors d
      in if errors = [] then Ok () else Err \<lparr>ve_errors = errors\<rparr>)"

section \<open>Specification\<close>

inductive reachable :: "machine_definition \<Rightarrow> string \<Rightarrow> bool" for d where
  reach_initial: "reachable d (md_initial d)"
| reach_interrupt: "(n, i) \<in> set (md_interrupts d) \<Longrightarrow> state_exists d (id_target i) \<Longrightarrow> reachable d (id_target i)"
| reach_fork: "(s, sd) \<in> set (md_states d) \<Longrightarrow> (e, t) \<in> set (sd_on sd) \<Longrightarrow> u \<in> set (fork_states t) \<Longrightarrow>
    state_exists d u \<Longrightarrow> reachable d u"
| reach_step: "reachable d s \<Longrightarrow> bt_get (md_states d) s = Some sd \<Longrightarrow> (e, t) \<in> set (sd_on sd) \<Longrightarrow>
    u \<in> set (all_targets t) \<Longrightarrow> u \<noteq> return_target \<Longrightarrow> state_exists d u \<Longrightarrow> reachable d u"

definition transition_ok :: "machine_definition \<Rightarrow> transition_def \<Rightarrow> bool" where
  "transition_ok d t \<longleftrightarrow> (target t = return_target \<or> state_exists d (target t)) \<and>
     (\<forall>g \<in> set (guard_names t). bt_contains_key (md_guards d) g) \<and>
     (\<forall>s \<in> set (fork_states t). state_exists d s)"

definition delivery_ok :: "machine_definition \<Rightarrow> machine_meta \<Rightarrow> bool" where
  "delivery_ok d meta \<longleftrightarrow>
     is_none_or (\<lambda>w. wp_version w = 1) (mm_workspace meta) \<and>
     is_none_or (\<lambda>pv. pv_version pv = 1 \<and>
        (\<forall>s \<in> {pv_prepare_state pv, pv_deploy_state pv, pv_validate_state pv}. state_exists d s) \<and>
        (pv_required pv \<longrightarrow> is_some_and wp_required (mm_workspace meta))) (mm_preview meta) \<and>
     is_none_or (\<lambda>pm. pm_version pm = 1 \<and> state_exists d (pm_promote_state pm) \<and>
        (pm_required pm \<longrightarrow> is_some_and pv_required (mm_preview meta))) (mm_promotion meta)"

definition well_formed_machine :: "machine_definition \<Rightarrow> bool" where
  "well_formed_machine d \<longleftrightarrow>
     state_exists d (md_initial d) \<and>
     (\<exists>(s, sd) \<in> set (md_states d). is_final_def sd) \<and>
     (\<forall>(s, sd) \<in> set (md_states d). \<forall>(e, t) \<in> set (sd_on sd). transition_ok d t) \<and>
     (\<forall>(n, i) \<in> set (md_interrupts d). state_exists d (id_target i)) \<and>
     (\<forall>s. state_exists d s \<longrightarrow> reachable d s) \<and>
     is_none_or (delivery_ok d) (md_meta d)"

section \<open>The search finds exactly the reachable states\<close>

lemma visit_fold_visited: "set (fst (fold (visit d) ts (v, q))) = set v \<union> {t \<in> set ts. state_exists d t}"
proof (induction ts arbitrary: v q)
  case (Cons t ts)
  show ?case by (cases "state_exists d t \<and> t \<notin> set v") (use Cons in \<open>auto simp: visit_def\<close>)
qed simp

lemma visit_fold_queue:
  "set (snd (fold (visit d) ts (v, q))) = set q \<union> {t \<in> set ts. state_exists d t \<and> t \<notin> set v}"
proof (induction ts arbitrary: v q)
  case (Cons t ts)
  show ?case by (cases "state_exists d t \<and> t \<notin> set v") (use Cons in \<open>auto simp: visit_def\<close>)
qed simp

definition search_step :: "machine_definition \<Rightarrow> string \<Rightarrow> string \<Rightarrow> bool" where
  "search_step d s t \<longleftrightarrow> t \<in> set (search_targets d s) \<and> state_exists d t"

lemma reach_loop_sound: "s \<in> set (reach_loop d (v, q)) \<Longrightarrow> set q \<subseteq> set v \<Longrightarrow>
   \<exists>u \<in> set v. (search_step d)\<^sup>*\<^sup>* u s"
proof (induction d "(v, q)" arbitrary: v q rule: reach_loop.induct)
  case (1 d v)
  then show ?case by auto
next
  case (2 d v x q)
  let ?n = "fold (visit d) (search_targets d x) (v, q)"
  obtain v' q' where n: "?n = (v', q')" by (cases ?n)
  have v': "set v' = set v \<union> {t \<in> set (search_targets d x). state_exists d t}"
    using visit_fold_visited [of d "search_targets d x" v q] n by simp
  have q': "set q' \<subseteq> set v'"
    using visit_fold_queue [of d "search_targets d x" v q] n v' 2(3) by auto
  from 2(1) [OF n] 2(2) n q' obtain u where u: "u \<in> set v'" "(search_step d)\<^sup>*\<^sup>* u s" by auto
  show ?case
  proof (cases "u \<in> set v")
    case False
    then have "search_step d x u" using u v' by (simp add: search_step_def)
    moreover have "x \<in> set v" using 2(3) by simp
    ultimately show ?thesis using u by (meson converse_rtranclp_into_rtranclp)
  qed (use u in blast)
qed

lemma reach_loop_closed:
  assumes "set q \<subseteq> set v" "\<And>s t. s \<in> set v \<Longrightarrow> s \<notin> set q \<Longrightarrow> search_step d s t \<Longrightarrow> t \<in> set v"
  shows "set v \<subseteq> set (reach_loop d (v, q)) \<and>
    (\<forall>s \<in> set (reach_loop d (v, q)). \<forall>t. search_step d s t \<longrightarrow> t \<in> set (reach_loop d (v, q)))"
  using assms
proof (induction d "(v, q)" arbitrary: v q rule: reach_loop.induct)
  case (1 d v)
  then show ?case by auto
next
  case (2 d v x q)
  let ?n = "fold (visit d) (search_targets d x) (v, q)"
  obtain v' q' where n: "?n = (v', q')" by (cases ?n)
  have v': "set v' = set v \<union> {t \<in> set (search_targets d x). state_exists d t}"
    using visit_fold_visited [of d "search_targets d x" v q] n by simp
  have q': "set q' = set q \<union> {t \<in> set (search_targets d x). state_exists d t \<and> t \<notin> set v}"
    using visit_fold_queue [of d "search_targets d x" v q] n by simp
  have "t \<in> set v'" if "s \<in> set v'" "s \<notin> set q'" "search_step d s t" for s t
  proof (cases "s = x")
    case True
    then show ?thesis using that v' by (auto simp: search_step_def)
  next
    case False
    then show ?thesis using that v' q' 2(3) by auto
  qed
  moreover have "set q' \<subseteq> set v'" using v' q' 2(2) by auto
  ultimately show ?case using 2(1) [OF n] n v' by auto
qed

lemma search_step_iff:
  "search_step d s u \<longleftrightarrow> (\<exists>sd e t. bt_get (md_states d) s = Some sd \<and> (e, t) \<in> set (sd_on sd) \<and>
     u \<in> set (all_targets t) \<and> u \<noteq> return_target \<and> state_exists d u)"
  by (auto simp: search_step_def search_targets_def image_iff split: option.splits)
    (metis snd_conv | force)+

lemma search_start_parts:
  "set (fst (search_start d)) = insert (md_initial d)
     ({id_target i | n i. (n, i) \<in> set (md_interrupts d) \<and> state_exists d (id_target i)} \<union>
      {u. \<exists>s sd e t. (s, sd) \<in> set (md_states d) \<and> (e, t) \<in> set (sd_on sd) \<and> u \<in> set (fork_states t) \<and>
        state_exists d u})"
  "set (snd (search_start d)) = set (fst (search_start d))"
proof -
  let ?ts = "map id_target (bt_values (md_interrupts d)) @ for_transitions d (\<lambda>_ p. fork_states (snd p))"
  have ts: "t \<in> set ?ts \<longleftrightarrow> (\<exists>n i. (n, i) \<in> set (md_interrupts d) \<and> t = id_target i) \<or>
      (\<exists>s sd e tr. (s, sd) \<in> set (md_states d) \<and> (e, tr) \<in> set (sd_on sd) \<and> t \<in> set (fork_states tr))" for t
    by (auto simp: for_transitions_def image_iff) (force | metis snd_conv)+
  show "set (snd (search_start d)) = set (fst (search_start d))"
    unfolding search_start_def visit_fold_visited visit_fold_queue by auto
  show "set (fst (search_start d)) = insert (md_initial d)
     ({id_target i | n i. (n, i) \<in> set (md_interrupts d) \<and> state_exists d (id_target i)} \<union>
      {u. \<exists>s sd e t. (s, sd) \<in> set (md_states d) \<and> (e, t) \<in> set (sd_on sd) \<and> u \<in> set (fork_states t) \<and>
        state_exists d u})"
    unfolding search_start_def visit_fold_visited ts by auto
qed

lemma reach_loop_reachable: "set (reach_loop d (search_start d)) = {s. reachable d s}"
proof -
  obtain v q where vq: "search_start d = (v, q)" by (cases "search_start d")
  have qv: "set q = set v" using search_start_parts(2) [of d] vq by simp
  have start: "reachable d u" if "u \<in> set v" for u
    using that search_start_parts(1) [of d] vq
    by (auto intro: reach_initial reach_interrupt reach_fork)
  have "reachable d s" if "(search_step d)\<^sup>*\<^sup>* u s" "reachable d u" for u s
    using that by induction (auto simp: search_step_iff intro: reach_step)
  then have sound: "reachable d s" if "s \<in> set (reach_loop d (v, q))" for s
    using reach_loop_sound [OF that] start qv by blast
  have closed: "set v \<subseteq> set (reach_loop d (v, q))"
    "\<And>s t. s \<in> set (reach_loop d (v, q)) \<Longrightarrow> search_step d s t \<Longrightarrow> t \<in> set (reach_loop d (v, q))"
    using reach_loop_closed [of q v d] qv by auto
  have "s \<in> set (reach_loop d (v, q))" if "reachable d s" for s
    using that
  proof induction
    case reach_initial
    then show ?case using closed(1) search_start_parts(1) [of d] vq by auto
  next
    case (reach_interrupt n i)
    then have "id_target i \<in> set v" using search_start_parts(1) [of d] vq by auto
    then show ?case using closed(1) by blast
  next
    case (reach_fork s sd e t u)
    then have "u \<in> set v" using search_start_parts(1) [of d] vq by auto
    then show ?case using closed(1) by blast
  next
    case (reach_step s sd e t u)
    then have "search_step d s u" by (auto simp: search_step_iff)
    then show ?case using closed(2) reach_step.IH by blast
  qed
  with sound vq show ?thesis by auto
qed

section \<open>Validation decides well-formedness\<close>

lemma err_if_Nil [simp]: "err_if c m = [] \<longleftrightarrow> \<not> c"
  by (simp add: err_if_def)

lemma for_transitions_Nil:
  "for_transitions d body = [] \<longleftrightarrow> (\<forall>(s, sd) \<in> set (md_states d). \<forall>p \<in> set (sd_on sd). body s p = [])"
  by (auto simp: for_transitions_def)

lemma check_transition_Nil:
  "check_transition d s (e, t) = [] \<longleftrightarrow> (target t = return_target \<or> state_exists d (target t)) \<and>
     (\<forall>g \<in> set (guard_names t). bt_contains_key (md_guards d) g)"
  by (auto simp: check_transition_def)

lemma check_fork_Nil: "check_fork d s (e, t) = [] \<longleftrightarrow> (\<forall>u \<in> set (fork_states t). state_exists d u)"
  by (fastforce simp: check_fork_def fork_states_def split: option.splits)

lemma check_final_Nil: "check_final d = [] \<longleftrightarrow> (\<exists>(s, sd) \<in> set (md_states d). is_final_def sd)"
  by (force simp: check_final_def list_ex_iff)

lemma check_interrupts_Nil:
  "check_interrupts d = [] \<longleftrightarrow> (\<forall>(n, i) \<in> set (md_interrupts d). state_exists d (id_target i))"
  by (auto simp: check_interrupts_def)

lemma check_reachable_Nil:
  "state_exists d (md_initial d) \<Longrightarrow>
   check_reachable d = [] \<longleftrightarrow> (\<forall>s. state_exists d s \<longrightarrow> reachable d s)"
  by (auto simp: check_reachable_def reach_loop_reachable state_exists_def bt_contains_key_iff)

lemma opt_errs_Nil: "opt_errs check x = [] \<longleftrightarrow> is_none_or (\<lambda>p. check p = []) x"
  by (cases x) (auto simp: opt_errs_def)

lemma check_meta_Nil: "check_meta d = [] \<longleftrightarrow> is_none_or (delivery_ok d) (md_meta d)"
  by (auto simp: check_meta_def delivery_ok_def opt_errs_Nil is_none_or_iff is_some_and_iff
      check_workspace_def check_preview_def check_promotion_def)

lemma validation_errors_Nil: "validation_errors d = [] \<longleftrightarrow> well_formed_machine d"
proof -
  have "validation_errors d = [] \<longleftrightarrow> state_exists d (md_initial d) \<and> check_final d = [] \<and>
      for_transitions d (check_transition d) = [] \<and> check_interrupts d = [] \<and>
      for_transitions d (check_fork d) = [] \<and> check_reachable d = [] \<and> check_meta d = []"
    by (simp add: validation_errors_def check_initial_def)
  also have "\<dots> \<longleftrightarrow> well_formed_machine d"
  proof -
    have "for_transitions d (check_transition d) = [] \<and> for_transitions d (check_fork d) = [] \<longleftrightarrow>
        (\<forall>(s, sd) \<in> set (md_states d). \<forall>(e, t) \<in> set (sd_on sd). transition_ok d t)"
      by (fastforce simp: for_transitions_Nil check_transition_Nil check_fork_Nil transition_ok_def)
    then show ?thesis
      unfolding well_formed_machine_def
      using check_final_Nil check_interrupts_Nil check_reachable_Nil check_meta_Nil by blast
  qed
  finally show ?thesis .
qed

lemma validate_ok_errors: "validate_definition d = Ok () \<longleftrightarrow> validation_errors d = []"
  by (simp add: validate_definition_def Let_def)

text \<open>
  C4: a definition is accepted exactly when it is well formed: the initial state exists, some state
  is final, the primary target and the named guards of every transition and the states of every fork
  exist, interrupts lead to existing states, every state is reachable, and the delivery policies are
  coherent. The breadth-first search of the code terminates and finds exactly the reachable states.
\<close>

theorem validate_definition_iff: "validate_definition d = Ok () \<longleftrightarrow> well_formed_machine d"
  by (simp add: validate_ok_errors validation_errors_Nil)

section \<open>What validation guarantees of runs\<close>

text \<open>
  Validation looks at \<^const>\<open>target\<close>, which of a guarded transition is the first branch only, and
  never at \<open>safe_next\<close> or at the failure target of an invocation. \<open>closed_targets\<close> adds what it leaves
  out; the two together keep every step inside the declared states.
\<close>

definition closed_targets :: "machine_definition \<Rightarrow> bool" where
  "closed_targets d \<longleftrightarrow>
     (\<forall>(s, sd) \<in> set (md_states d).
        is_none_or (state_exists d) (sd_safe_next sd) \<and>
        (\<forall>(e, t) \<in> set (sd_on sd). \<forall>bs. t = Guarded bs \<longrightarrow>
           (\<forall>b \<in> set bs. gt_target b = return_target \<or> state_exists d (gt_target b))))"

definition return_ok :: "machine_definition \<Rightarrow> json \<Rightarrow> bool" where
  "return_ok d context \<longleftrightarrow> (\<forall>s. jget context return_key = Some (JString s) \<longrightarrow> state_exists d s)"

lemma selects_declared: "selects sd event t \<Longrightarrow> \<exists>e. (e, t) \<in> set (sd_on sd)"
  by (auto simp: only_def elim!: selects.cases dest: map_of_SomeD)

lemma fires_raw_exists:
  assumes fire: "fires f d data context t r" and tok: "transition_ok d t"
    and closed: "\<And>bs b. t = Guarded bs \<Longrightarrow> b \<in> set bs \<Longrightarrow> gt_target b = return_target \<or> state_exists d (gt_target b)"
    and ret: "return_ok d context"
  shows "state_exists d (tr_new_state r)"
  using fire
proof cases
  case (fires_branch branches b new_state)
  then have "b \<in> set branches" by (auto simp: first_in_def)
  then show ?thesis
    using fires_branch closed ret by (auto simp: leads_to_def return_ok_def plain_result_def split: if_splits)
next
  case (fires_single new_state)
  then show ?thesis
    using tok ret by (auto simp: transition_ok_def leads_to_def return_ok_def moved_result_def split: if_splits)
qed

lemma trans_step_exists:
  assumes d: "well_formed_machine d" "closed_targets d" and ret: "return_ok d context"
    and step: "trans_step f d s event data context r"
  shows "state_exists d (tr_new_state r)"
  using step
proof cases
  case (step_fire sd t)
  then have sd: "(s, sd) \<in> set (md_states d)" by (auto dest: map_of_SomeD)
  then obtain e where e: "(e, t) \<in> set (sd_on sd)" using step_fire selects_declared by blast
  show ?thesis
  proof (rule fires_raw_exists [OF step_fire(3) _ _ ret])
    show "transition_ok d t" using d(1) sd e by (auto simp: well_formed_machine_def)
    show "gt_target b = return_target \<or> state_exists d (gt_target b)" if "t = Guarded bs" "b \<in> set bs" for bs b
      using d(2) sd e that by (fastforce simp: closed_targets_def)
  qed
next
  case (step_safe sd t)
  then have "(s, sd) \<in> set (md_states d)" by (auto dest: map_of_SomeD)
  then show ?thesis using d(2) step_safe by (fastforce simp: closed_targets_def plain_result_def)
qed

text \<open>
  A run: events whose data does not carry the reserved return address, and interrupts, which save the
  current state as the return address unless one is pending.
\<close>

inductive run :: "as_f64_fn \<Rightarrow> machine_definition \<Rightarrow> string \<Rightarrow> json \<Rightarrow> bool" for f d where
  run_start: "run f d (md_initial d) (md_context d)"
| run_event: "run f d s ctx \<Longrightarrow> json_wf data \<Longrightarrow> jget data return_key = None \<Longrightarrow>
    resolve_transition f s event data ctx d = Ok r \<Longrightarrow> run f d (tr_new_state r) (tr_new_context r)"
| run_interrupt: "run f d s ctx \<Longrightarrow> jget ctx return_key = None \<Longrightarrow>
    (n, i) \<in> set (match_interrupts path d) \<Longrightarrow> run f d (id_target i) (jset ctx return_key (JString s))"

lemma return_ok_patch:
  assumes "json_wf ctx" "json_wf data" "jget data return_key = None" "return_ok d ctx"
  shows "return_ok d (apply_context_patch ctx data)" "return_ok d (moved_context raw ctx data)"
proof -
  show patch: "return_ok d (apply_context_patch ctx data)"
    using assms jget_patch [of ctx data return_key] patch_not_object [of ctx data]
    by (cases "is_object ctx") (auto simp: return_ok_def)
  show "return_ok d (moved_context raw ctx data)"
    using patch by (auto simp: moved_context_def return_ok_def Let_def)
qed

lemma run_safe:
  assumes d: "md_wf d" "well_formed_machine d" "closed_targets d" "return_ok d (md_context d)"
    and "run f d s ctx"
  shows "state_exists d s \<and> return_ok d ctx \<and> json_wf ctx"
  using assms(5)
proof induction
  case run_start
  then show ?case using d by (auto simp: well_formed_machine_def md_wf_def)
next
  case (run_event s ctx data event r)
  then have step: "trans_step f d s event data ctx r" using d resolve_transition_sound by blast
  from run_event step show ?case
    using trans_step_exists [OF d(2,3) _ step] trans_step_context [OF step]
      return_ok_patch [of ctx data] json_wf_patch [of ctx data] json_wf_moved [of ctx data] by auto
next
  case (run_interrupt s ctx n i path)
  then have "(n, i) \<in> set (md_interrupts d)" by (auto simp: match_interrupts_def)
  then have "state_exists d (id_target i)" using d(2) by (fastforce simp: well_formed_machine_def)
  moreover have "return_ok d (jset ctx return_key (JString s))"
    using run_interrupt by (cases "is_object ctx") (auto simp: return_ok_def, cases ctx, auto)
  moreover have "json_wf (jset ctx return_key (JString s))"
    using run_interrupt by (intro json_wf_set) auto
  ultimately show ?case by blast
qed

lemma demo_valid: "validate_definition demo_machine = Ok ()"
  by (simp add: validate_definition_def validation_errors_def check_initial_def check_final_def
      for_transitions_def check_transition_def check_interrupts_def check_fork_def check_reachable_def
      check_meta_def opt_errs_def search_start_def search_targets_def visit_def fork_states_def err_if_def
      state_exists_def bt_contains_key_def demo_machine_def empty_state_def_def is_final_def_def
      return_target_def Let_def)

text \<open>
  C3: a machine that passes validation, and whose remaining branch targets and fallbacks exist, never
  leaves its declared states: after any sequence of events (whose data does not forge the return
  address) and interrupts, the current state exists, and so does the state a pending interrupt will
  return to.
\<close>

theorem validated_run_safe:
  assumes "md_wf d" "validate_definition d = Ok ()" "closed_targets d" "return_ok d (md_context d)"
    and "run f d s ctx"
  shows "state_exists d s \<and> return_ok d ctx"
  using assms run_safe [of d f s ctx] by (simp add: validate_ok_errors validation_errors_Nil)

theorem validated_run_safe_witness:
  "run (\<lambda>_. None) demo_machine ''fix'' (JObject [(''_interrupt_return'', JString ''plan'')]) \<and>
   state_exists demo_machine ''fix''"
proof -
  let ?ctx = "JObject [(''_interrupt_return'', JString ''plan'')]"
  have "glob_match ''*.toml'' ''a.toml''"
    by (simp add: glob_match_def glob_match_impl_def glob_loop.simps rest_is_stars_def)
  then have "(''config'', \<lparr>id_file_pattern = ''*.toml'', id_target = ''fix''\<rparr>)
      \<in> set (match_interrupts ''a.toml'' demo_machine)"
    by (simp add: match_interrupts_def demo_machine_def)
  from run_interrupt [OF run_start _ this]
  have run: "run (\<lambda>_. None) demo_machine ''fix'' ?ctx"
    by (simp add: demo_machine_def return_key_def)
  have "closed_targets demo_machine" "return_ok demo_machine (md_context demo_machine)"
    by (auto simp: closed_targets_def return_ok_def demo_machine_def empty_state_def_def
        state_exists_def bt_contains_key_def split: if_splits)
  with run show ?thesis using validated_run_safe [OF demo_wf demo_valid] by blast
qed

text \<open>A definition whose second branch leads nowhere.\<close>

definition dangling_machine :: machine_definition where
  "dangling_machine = \<lparr>md_id = ''m'', md_initial = ''a'', md_context = JObject [],
     md_states =
       [(''a'', empty_state_def\<lparr>sd_on := [(''GO'', Guarded
            [\<lparr>gt_target = ''b'', gt_guard = Some ''ready'', gt_guards = None\<rparr>,
             \<lparr>gt_target = ''nowhere'', gt_guard = None, gt_guards = None\<rparr>])]\<rparr>),
        (''b'', empty_state_def\<lparr>sd_state_type := Some Final\<rparr>)],
     md_guards = [(''ready'', \<lparr>gd_field = ''ready'', gd_op = Eq, gd_value = JBool True\<rparr>)],
     md_meta = None, md_interrupts = []\<rparr>"

text \<open>
  Validation does not look at every branch. A definition passes it and then, on an event, moves to a
  state that does not exist; so the hypothesis on branch targets in the safety of runs is needed.
\<close>

theorem validation_misses_branch_targets:
  "validate_definition dangling_machine = Ok () \<and>
   (\<exists>r. resolve_transition (\<lambda>_. None) ''a'' ''GO'' (JObject []) (JObject []) dangling_machine = Ok r \<and>
      \<not> state_exists dangling_machine (tr_new_state r))"
  by (simp add: validate_definition_def validation_errors_def check_initial_def check_final_def
      for_transitions_def check_transition_def check_interrupts_def check_fork_def check_reachable_def
      check_meta_def opt_errs_def search_start_def search_targets_def visit_def fork_states_def err_if_def
      state_exists_def bt_contains_key_def dangling_machine_def is_final_def_def Let_def resolve_eval)

end
