(* ===== verification/ToolEnforcer.thy ===== *)
theory ToolEnforcer
  imports EngineTypes
begin

text \<open>
  Which tools a state permits (\<open>crates/agent/src/tool_enforcer.rs\<close>): final and unknown states permit
  nothing, an explicit denial wins over everything, an exploratory state permits tools whose name says
  they only read, and otherwise the state's allow list decides.
\<close>

datatype tool_intent = ReadOnly | Mutating | Unknown

record tool_enforcement_result =
  te_allowed :: "string list"
  te_blocked :: "string list"
  te_implicit_transition :: "string option"

definition mutating_verbs :: "string list" where
  "mutating_verbs = [''create'', ''update'', ''delete'', ''remove'', ''write'', ''edit'', ''patch'', ''send'',
     ''publish'', ''deploy'', ''apply'', ''commit'', ''push'', ''move'', ''rename'', ''upload'', ''archive'',
     ''trash'', ''execute'']"

definition reading_verbs :: "string list" where
  "reading_verbs = [''read'', ''get'', ''list'', ''search'', ''find'', ''query'', ''inspect'', ''status'',
     ''describe'', ''fetch'', ''lookup'']"

definition name_words :: "string \<Rightarrow> string list" where
  "name_words s = filter (\<lambda>w. w \<noteq> []) (split_on (\<lambda>c. \<not> is_ascii_alphanumeric c) s)"

definition classify_tool_intent :: "string \<Rightarrow> tool_intent" where
  "classify_tool_intent tool =
     (let lower = to_ascii_lowercase tool in
      if lower = ''bash'' \<or> lower = ''shell'' \<or> lower = ''terminal'' then ReadOnly
      else
        (let words = name_words lower;
             has = (\<lambda>verbs. list_ex (\<lambda>w. w \<in> set verbs) words)
         in if has mutating_verbs then Mutating
            else if has reading_verbs then ReadOnly
            else Unknown))"

definition is_explicitly_disallowed :: "string \<Rightarrow> string list \<Rightarrow> bool" where
  "is_explicitly_disallowed tool disallowed = list_ex (\<lambda>blocked. eq_ignore_ascii_case blocked tool) disallowed"

definition tool_is_explicitly_disallowed :: "machine_definition \<Rightarrow> string \<Rightarrow> string \<Rightarrow> bool" where
  "tool_is_explicitly_disallowed d current_state tool =
     is_some_and (is_explicitly_disallowed tool)
       (Option.bind (bt_get (md_states d) current_state) sd_disallowed_tools)"

definition exploratory :: string where
  "exploratory = ''exploratory_read_only''"

text \<open>The body of the loop over the requested tools.\<close>

definition tool_permitted :: "machine_definition \<Rightarrow> string \<Rightarrow> string \<Rightarrow> bool" where
  "tool_permitted d current_state tool =
     (let state_def = bt_get (md_states d) current_state in
      if is_some_and is_final_def state_def then False
      else
        (case state_def of
           None \<Rightarrow> False
         | Some state \<Rightarrow>
             if is_some_and (is_explicitly_disallowed tool) (sd_disallowed_tools state) then False
             else if sd_intent state = Some exploratory then classify_tool_intent tool = ReadOnly
             else
               (case sd_allowed_tools state of
                  Some permitted \<Rightarrow> list_ex (\<lambda>entry. eq_ignore_ascii_case entry tool) permitted
                | None \<Rightarrow> True)))"

definition target_offers :: "machine_definition \<Rightarrow> string list \<Rightarrow> transition_def \<Rightarrow> bool" where
  "target_offers d blocked_tools t =
     is_some_and (\<lambda>target_def.
        is_some_and (\<lambda>target_tools. list_ex (\<lambda>b. b \<in> set target_tools) blocked_tools)
          (sd_allowed_tools target_def))
       (bt_get (md_states d) (target t))"

definition find_implicit_transition :: "machine_definition \<Rightarrow> string \<Rightarrow> string list \<Rightarrow> string option" where
  "find_implicit_transition d current_state blocked_tools =
     (case bt_get (md_states d) current_state of
        None \<Rightarrow> None
      | Some state_def \<Rightarrow>
          map_option fst (find (\<lambda>(event, t). target_offers d blocked_tools t) (sd_on state_def)))"

definition enforce_tools :: "machine_definition \<Rightarrow> string \<Rightarrow> string list \<Rightarrow> tool_enforcement_result" where
  "enforce_tools d current_state requested_tools =
     (let (allowed, blocked) =
        foldl (\<lambda>(a, b) tool. if tool_permitted d current_state tool then (a @ [tool], b) else (a, b @ [tool]))
          ([], []) requested_tools;
        transitionable = filter (\<lambda>tool. \<not> tool_is_explicitly_disallowed d current_state tool) blocked
      in \<lparr>te_allowed = allowed, te_blocked = blocked,
          te_implicit_transition =
            (if transitionable \<noteq> [] then find_implicit_transition d current_state transitionable else None)\<rparr>)"

definition get_allowed_tools :: "machine_definition \<Rightarrow> string \<Rightarrow> string list option" where
  "get_allowed_tools d current_state =
     Option.bind (bt_get (md_states d) current_state) (\<lambda>state.
       if sd_intent state = Some exploratory then None
       else map_option (\<lambda>allowed.
         let denied = unwrap_or [] (sd_disallowed_tools state)
         in filter (\<lambda>tool. \<not> is_explicitly_disallowed tool denied) allowed) (sd_allowed_tools state))"

section \<open>Properties\<close>

lemma partition_fold:
  "foldl (\<lambda>(a, b) x. if P x then (a @ [x], b) else (a, b @ [x])) (a, b) xs =
   (a @ filter P xs, b @ filter (\<lambda>x. \<not> P x) xs)"
  by (induction xs arbitrary: a b) auto

lemma enforce_tools_parts:
  "te_allowed (enforce_tools d s ts) = filter (tool_permitted d s) ts"
  "te_blocked (enforce_tools d s ts) = filter (\<lambda>t. \<not> tool_permitted d s t) ts"
  by (auto simp: enforce_tools_def partition_fold Let_def)

lemma disallowed_cong:
  "eq_ignore_ascii_case a b \<Longrightarrow> is_explicitly_disallowed a = is_explicitly_disallowed b"
  by (simp add: is_explicitly_disallowed_def eq_ignore_ascii_case_def fun_eq_iff)

lemma classify_cong: "eq_ignore_ascii_case a b \<Longrightarrow> classify_tool_intent a = classify_tool_intent b"
  by (simp add: classify_tool_intent_def eq_ignore_ascii_case_def)

lemma permitted_cong:
  assumes "eq_ignore_ascii_case a b"
  shows "tool_permitted d s a = tool_permitted d s b"
  using assms disallowed_cong [OF assms] classify_cong [OF assms]
  by (auto simp: tool_permitted_def eq_ignore_ascii_case_def split: option.splits)

lemma permitted_None: "bt_get (md_states d) s = None \<Longrightarrow> \<not> tool_permitted d s t"
  by (simp add: tool_permitted_def)

lemma permitted_Some:
  "bt_get (md_states d) s = Some st \<Longrightarrow>
   tool_permitted d s t \<longleftrightarrow> \<not> is_final_def st \<and>
     \<not> is_some_and (is_explicitly_disallowed t) (sd_disallowed_tools st) \<and>
     (if sd_intent st = Some exploratory then classify_tool_intent t = ReadOnly
      else is_none_or (list_ex (\<lambda>e. eq_ignore_ascii_case e t)) (sd_allowed_tools st))"
  by (auto simp: tool_permitted_def split: option.splits)

lemma permitted_denied: "tool_is_explicitly_disallowed d s t \<Longrightarrow> \<not> tool_permitted d s t"
  by (cases "bt_get (md_states d) s")
    (auto simp: tool_is_explicitly_disallowed_def permitted_None permitted_Some)

text \<open>
  C35: enforcement splits the requested tools, in order, into allowed and blocked, and its verdict on a
  tool depends on the tool's name only up to ASCII case: no respelling gets a tool past a denial.
\<close>

theorem enforce_tools_partition:
  "te_allowed (enforce_tools d s ts) = filter (tool_permitted d s) ts \<and>
   te_blocked (enforce_tools d s ts) = filter (\<lambda>t. \<not> tool_permitted d s t) ts \<and>
   (\<forall>a b. eq_ignore_ascii_case a b \<and> tool_is_explicitly_disallowed d s a \<longrightarrow>
      b \<notin> set (te_allowed (enforce_tools d s ts)))"
proof -
  have "\<not> tool_permitted d s b" if "eq_ignore_ascii_case a b" "tool_is_explicitly_disallowed d s a" for a b
    using permitted_denied [OF that(2)] permitted_cong [OF that(1)] by simp
  then show ?thesis by (auto simp: enforce_tools_parts)
qed

text \<open>
  The tool list shown to the model and the enforcement of a call agree. In a state that exists, is
  not final and is not exploratory, a call is allowed exactly when the state has no allow list and
  does not deny the tool, or when the tool is, up to case, on the advertised list.
\<close>

theorem get_allowed_tools_agrees:
  assumes "bt_get (md_states d) s = Some st" "\<not> is_final_def st" "sd_intent st \<noteq> Some exploratory"
  shows "te_allowed (enforce_tools d s [t]) = [t] \<longleftrightarrow>
    (case get_allowed_tools d s of
       None \<Rightarrow> \<not> tool_is_explicitly_disallowed d s t
     | Some ts \<Rightarrow> \<exists>u \<in> set ts. eq_ignore_ascii_case u t)"
proof -
  have D: "(\<exists>u \<in> set (filter (\<lambda>u. \<not> is_explicitly_disallowed u den) ts). eq_ignore_ascii_case u t) \<longleftrightarrow>
      \<not> is_explicitly_disallowed t den \<and> list_ex (\<lambda>u. eq_ignore_ascii_case u t) ts" for den ts
  proof -
    have "is_explicitly_disallowed u den = is_explicitly_disallowed t den" if "eq_ignore_ascii_case u t" for u
      using disallowed_cong [OF that] by simp
    then show ?thesis unfolding list_ex_iff set_filter Bex_def mem_Collect_eq by blast
  qed
  have N: "is_some_and (is_explicitly_disallowed t) x \<longleftrightarrow> is_explicitly_disallowed t (unwrap_or [] x)" for x
    by (cases x) (auto simp: is_explicitly_disallowed_def)
  show ?thesis
  proof (cases "sd_allowed_tools st")
    case None
    with assms show ?thesis
      by (simp add: enforce_tools_parts permitted_Some get_allowed_tools_def tool_is_explicitly_disallowed_def)
  next
    case (Some ts)
    with assms show ?thesis
      by (simp add: enforce_tools_parts permitted_Some get_allowed_tools_def N Let_def)
        (use D [of "unwrap_or [] (sd_disallowed_tools st)" ts] in auto)
  qed
qed

definition demo_tools :: machine_definition where
  "demo_tools = \<lparr>md_id = ''tools'', md_initial = ''plan'', md_context = JNull,
     md_states =
       [(''done'', empty_state_def\<lparr>sd_state_type := Some Final\<rparr>),
        (''impl'', empty_state_def\<lparr>sd_allowed_tools := Some [''Edit'', ''Read''],
           sd_on := [(''OK'', Simple ''done'')]\<rparr>),
        (''plan'', empty_state_def\<lparr>sd_allowed_tools := Some [''Read'', ''Bash''],
           sd_disallowed_tools := Some [''bash''], sd_on := [(''GO'', Simple ''impl'')]\<rparr>)],
     md_guards = [], md_meta = None, md_interrupts = []\<rparr>"

theorem get_allowed_tools_agrees_witness:
  "get_allowed_tools demo_tools ''plan'' = Some [''Read''] \<and>
   te_allowed (enforce_tools demo_tools ''plan'' [''READ'']) = [''READ'']"
proof -
  obtain st where st: "bt_get (md_states demo_tools) ''plan'' = Some st"
      "\<not> is_final_def st" "sd_intent st \<noteq> Some exploratory"
    by (simp add: demo_tools_def empty_state_def_def is_final_def_def)
  have g: "get_allowed_tools demo_tools ''plan'' = Some [''Read'']"
    by (simp add: get_allowed_tools_def demo_tools_def empty_state_def_def is_explicitly_disallowed_def)
      code_simp
  have "eq_ignore_ascii_case ''Read'' ''READ''" by code_simp
  with g show ?thesis using get_allowed_tools_agrees [OF st, of "''READ''"] by simp
qed

theorem enforce_tools_partition_witness:
  "tool_is_explicitly_disallowed demo_tools ''plan'' ''BASH'' \<and>
   ''bAsH'' \<notin> set (te_allowed (enforce_tools demo_tools ''plan'' [''Read'', ''bAsH'']))"
proof -
  have "eq_ignore_ascii_case ''BASH'' ''bAsH''" "tool_is_explicitly_disallowed demo_tools ''plan'' ''BASH''"
    by code_simp+
  then show ?thesis using enforce_tools_partition [of demo_tools "''plan''" "[''Read'', ''bAsH'']"] by blast
qed

text \<open>
  A suggested transition is a declared event of the current state whose target lists one of the
  tools that were just blocked, and that tool is not one the current state denies explicitly.
\<close>

theorem implicit_transition_sound:
  assumes "te_implicit_transition (enforce_tools d s ts) = Some event"
  shows "\<exists>st t tgt tools tool. bt_get (md_states d) s = Some st \<and> (event, t) \<in> set (sd_on st) \<and>
    bt_get (md_states d) (target t) = Some tgt \<and> sd_allowed_tools tgt = Some tools \<and>
    tool \<in> set ts \<and> tool \<in> set tools \<and> \<not> tool_permitted d s tool \<and>
    \<not> tool_is_explicitly_disallowed d s tool"
proof -
  let ?tr = "filter (\<lambda>t. \<not> tool_is_explicitly_disallowed d s t) (filter (\<lambda>t. \<not> tool_permitted d s t) ts)"
  have "find_implicit_transition d s ?tr = Some event"
    using assms by (auto simp: enforce_tools_def partition_fold Let_def split: if_splits)
  then obtain st t where st: "bt_get (md_states d) s = Some st"
      "find (\<lambda>(e, t). target_offers d ?tr t) (sd_on st) = Some (event, t)"
    by (auto simp: find_implicit_transition_def split: option.splits)
  then have "(event, t) \<in> set (sd_on st)" "target_offers d ?tr t"
    by (auto simp: find_Some_iff dest: nth_mem)
  with st show ?thesis
    by (auto simp: target_offers_def is_some_and_iff list_ex_iff)
qed

theorem implicit_transition_sound_witness:
  "te_implicit_transition (enforce_tools demo_tools ''plan'' [''Edit'']) = Some ''GO'' \<and>
   \<not> tool_permitted demo_tools ''plan'' ''Edit''"
proof -
  have "te_implicit_transition (enforce_tools demo_tools ''plan'' [''Edit'']) = Some ''GO''" by code_simp
  then show ?thesis using implicit_transition_sound [of demo_tools "''plan''" "[''Edit'']"] by auto
qed

end
