(* ===== verification/AgentValidator.thy ===== *)
theory AgentValidator
  imports Validate
begin

text \<open>
  Safety validation of generated machines (\<open>crates/agent/src/validator.rs\<close>): on top of structural
  validation, a reachable \<open>failed\<close> state, a harmless initial state, approval gates and no escalation of
  tool privileges without approval.
\<close>

definition read_only_tools :: "string list" where
  "read_only_tools = [''read_file'', ''search_files'', ''list_directory'', ''grep'', ''git_status'',
     ''git_log'', ''git_diff'']"

definition write_tools :: "string list" where
  "write_tools = [''write_file'', ''edit_file'', ''create_file'', ''delete_file'']"

definition execute_tools :: "string list" where
  "execute_tools = [''run_command'', ''run_test'', ''run_build'']"

definition git_mutate_tools :: "string list" where
  "git_mutate_tools = [''git_add'', ''git_commit'', ''git_push'', ''git_checkout'', ''git_branch'']"

definition external_tools :: "string list" where
  "external_tools = [''http_request'', ''deploy'', ''database_query'', ''database_mutate'']"

definition tool_privilege_level :: "string \<Rightarrow> u8" where
  "tool_privilege_level tool =
     (if tool \<in> set read_only_tools then 1
      else if tool \<in> set write_tools then 2
      else if tool \<in> set execute_tools then 3
      else if tool \<in> set git_mutate_tools then 3
      else if tool \<in> set external_tools then 4
      else 0)"

definition max_tool_privilege :: "string list option \<Rightarrow> u8" where
  "max_tool_privilege tools =
     (case tools of None \<Rightarrow> 0 | Some ts \<Rightarrow> fold max (map tool_privilege_level ts) 0)"

text \<open>The inner loop of \<open>can_reach\<close>: \<open>None\<close> is the early return when the target is met.\<close>

fun scan :: "string \<Rightarrow> string list \<Rightarrow> search \<Rightarrow> search option" where
  "scan tgt [] st = Some st"
| "scan tgt (next # ns) (visited, queue) =
     (if next = tgt then None
      else scan tgt ns (if next \<in> set visited then (visited, queue) else (visited @ [next], queue @ [next])))"

definition next_states :: "machine_definition \<Rightarrow> string \<Rightarrow> string list" where
  "next_states d s = (case bt_get (md_states d) s of None \<Rightarrow> [] | Some sd \<Rightarrow> map target (bt_values (sd_on sd)))"

definition named_targets :: "machine_definition \<Rightarrow> string set" where
  "named_targets d = (\<Union>(s, sd) \<in> set (md_states d). target ` snd ` set (sd_on sd))"

lemma finite_named_targets [simp]: "finite (named_targets d)"
  by (auto simp: named_targets_def)

lemma next_states_named: "set (next_states d s) \<subseteq> named_targets d"
proof (cases "bt_get (md_states d) s")
  case (Some sd)
  then have "(s, sd) \<in> set (md_states d)" by (rule map_of_SomeD)
  with Some show ?thesis by (force simp: next_states_def named_targets_def)
qed (simp add: next_states_def)

lemma scan_measure:
  "scan tgt ns (v, q) = Some (v', q') \<Longrightarrow> set ns \<subseteq> U \<Longrightarrow> finite U \<Longrightarrow>
   card (U - set v') + length q' = card (U - set v) + length q"
proof (induction tgt ns "(v, q)" arbitrary: v q rule: scan.induct)
  case (2 tgt n ns v q)
  show ?case
  proof (cases "n \<in> set v")
    case False
    then have "card (U - set v) = Suc (card ((U - set v) - {n}))"
      using 2 by (intro card.remove) auto
    moreover have "U - set (v @ [n]) = (U - set v) - {n}" by auto
    ultimately show ?thesis using 2 False by (auto split: if_splits)
  qed (use 2 in \<open>auto split: if_splits\<close>)
qed simp

function can_reach_loop :: "machine_definition \<Rightarrow> string \<Rightarrow> search \<Rightarrow> bool" where
  "can_reach_loop d tgt (visited, []) = False"
| "can_reach_loop d tgt (visited, s # queue) =
     (case scan tgt (next_states d s) (visited, queue) of
        None \<Rightarrow> True
      | Some st \<Rightarrow> can_reach_loop d tgt st)"
  by pat_completeness auto
termination
proof (relation "measure (\<lambda>(d, tgt, v, q). card (named_targets d - set v) + length q)")
  fix d tgt v s q st
  assume a: "scan tgt (next_states d s) (v, q) = Some st"
  obtain v' q' where st: "st = (v', q')" by (cases st)
  show "((d, tgt, st), d, tgt, v, s # q) \<in> measure (\<lambda>(d, tgt, v, q). card (named_targets d - set v) + length q)"
    using scan_measure [OF a [unfolded st] next_states_named finite_named_targets] by (simp add: st)
qed auto

definition can_reach :: "string \<Rightarrow> string \<Rightarrow> machine_definition \<Rightarrow> bool" where
  "can_reach from tgt d = can_reach_loop d tgt ([from], [from])"

record agent_validation_error =
  ae_errors :: "string list"

definition show_agent_validation_error :: "agent_validation_error \<Rightarrow> string" where
  "show_agent_validation_error e = ''agent validation errors: '' @ join ''; '' (ae_errors e)"

definition is_dangerous :: "machine_definition \<Rightarrow> bool" where
  "is_dangerous d = (case Option.bind (md_meta d) mm_danger_level of
     Some DangerDangerous \<Rightarrow> True | Some DangerModerate \<Rightarrow> True | _ \<Rightarrow> False)"

definition has_failed :: "machine_definition \<Rightarrow> bool" where
  "has_failed d = is_some_and is_final_def (bt_get (md_states d) ''failed'')"

definition check_paths_to_failed :: "machine_definition \<Rightarrow> string list" where
  "check_paths_to_failed d = concat (map (\<lambda>(s, sd).
     err_if (\<not> is_final_def sd \<and> \<not> can_reach s ''failed'' d)
       (''state '' @ quoted s @ '' has no path to '' @ quoted ''failed'' @
        '' state (every state must be able to fail)'')) (md_states d))"

definition check_initial_tools :: "machine_definition \<Rightarrow> string list" where
  "check_initial_tools d =
     (case Option.bind (bt_get (md_states d) (md_initial d)) sd_allowed_tools of
        None \<Rightarrow> []
      | Some tools \<Rightarrow>
          (let found = filter (\<lambda>t. tool_privilege_level t \<ge> 2) tools in
           err_if (found \<noteq> []) (''initial state must not have write/execute tools (found: '' @
             join '', '' found @ '')'')))"

definition check_approval :: "machine_definition \<Rightarrow> string list" where
  "check_approval d =
     err_if (\<not> list_ex (\<lambda>sd. list_ex requires_approval (bt_values (sd_on sd))) (bt_values (md_states d)))
       (''machine with danger_level '' @ quoted ''moderate'' @ '' or '' @ quoted ''dangerous'' @
        '' must have at least one transition with requires_approval: true'')"

definition check_escalation :: "machine_definition \<Rightarrow> string list" where
  "check_escalation d = concat (map (\<lambda>(s, sd).
     if is_final_def sd then []
     else
       (let current_max = max_tool_privilege (sd_allowed_tools sd) in
        concat (map (\<lambda>t.
          case bt_get (md_states d) (target t) of
            None \<Rightarrow> []
          | Some target_def \<Rightarrow>
              (let target_max = max_tool_privilege (sd_allowed_tools target_def) in
               err_if (target_max \<ge> 4 \<and> current_max \<le> 1 \<and> \<not> requires_approval t)
                 (''tool escalation from '' @ quoted s @ '' (privilege '' @ show_word current_max @ '') to '' @
                  quoted (target t) @ '' (privilege '' @ show_word target_max @ '') without approval gate'')))
          (bt_values (sd_on sd))))) (md_states d))"

definition agent_errors :: "machine_definition \<Rightarrow> string list" where
  "agent_errors d =
     (case validate_definition d of Ok _ \<Rightarrow> [] | Err e \<Rightarrow> ve_errors e) @
     err_if (\<not> has_failed d) (''machine must have a '' @ quoted ''failed'' @ '' state with type: final'') @
     (if has_failed d then check_paths_to_failed d else []) @
     (if is_dangerous d then check_initial_tools d else []) @
     (if is_dangerous d then check_approval d else []) @
     (if is_dangerous d then check_escalation d else [])"

definition validate_agent_machine :: "machine_definition \<Rightarrow> (unit, agent_validation_error) result" where
  "validate_agent_machine d =
     (let errors = agent_errors d in if errors = [] then Ok () else Err \<lparr>ae_errors = errors\<rparr>)"

section \<open>The search decides reachability\<close>

definition edge :: "machine_definition \<Rightarrow> string \<Rightarrow> string \<Rightarrow> bool" where
  "edge d s n \<longleftrightarrow> (\<exists>sd e t. bt_get (md_states d) s = Some sd \<and> (e, t) \<in> set (sd_on sd) \<and> n = target t)"

lemma edge_next_states: "edge d s n \<longleftrightarrow> n \<in> set (next_states d s)"
  by (auto simp: edge_def next_states_def image_iff split: option.splits) force+

lemma scan_None: "scan tgt ns st = None \<longleftrightarrow> tgt \<in> set ns"
  by (induction tgt ns st rule: scan.induct) auto

lemma scan_Some:
  "scan tgt ns (v, q) = Some (v', q') \<Longrightarrow>
   set v' = set v \<union> set ns \<and> set q' = set q \<union> (set ns - set v)"
  by (induction tgt ns "(v, q)" arbitrary: v q rule: scan.induct) (fastforce split: if_splits)+

lemma can_reach_loop_sound:
  "can_reach_loop d tgt (v, q) \<Longrightarrow> set q \<subseteq> set v \<Longrightarrow> \<exists>u \<in> set v. (edge d)\<^sup>+\<^sup>+ u tgt"
proof (induction d tgt "(v, q)" arbitrary: v q rule: can_reach_loop.induct)
  case (2 d tgt v s q)
  show ?case
  proof (cases "scan tgt (next_states d s) (v, q)")
    case None
    then have "edge d s tgt" by (simp add: scan_None edge_next_states)
    then show ?thesis using 2 by auto
  next
    case (Some st)
    obtain v' q' where st: "st = (v', q')" by (cases st)
    note vq = scan_Some [OF Some [unfolded st]]
    have "set q' \<subseteq> set v'" using vq 2(3) by auto
    with 2 Some st obtain u where u: "u \<in> set v'" "(edge d)\<^sup>+\<^sup>+ u tgt" by auto
    show ?thesis
    proof (cases "u \<in> set v")
      case False
      then have "edge d s u" using u vq by (simp add: edge_next_states)
      then have "(edge d)\<^sup>+\<^sup>+ s tgt" using u(2) by (rule tranclp_into_tranclp2)
      then show ?thesis using 2(3) by auto
    qed (use u in blast)
  qed
qed simp

lemma can_reach_loop_complete:
  assumes "\<not> can_reach_loop d tgt (v, q)" "set q \<subseteq> set v"
    and "\<And>s n. s \<in> set v \<Longrightarrow> s \<notin> set q \<Longrightarrow> edge d s n \<Longrightarrow> n \<in> set v \<and> n \<noteq> tgt"
  shows "\<exists>C. set v \<subseteq> C \<and> (\<forall>s \<in> C. \<forall>n. edge d s n \<longrightarrow> n \<in> C \<and> n \<noteq> tgt)"
  using assms
proof (induction d tgt "(v, q)" arbitrary: v q rule: can_reach_loop.induct)
  case (1 d tgt v)
  then show ?case by (intro exI [of _ "set v"]) auto
next
  case (2 d tgt v s q)
  from 2(2) obtain st where st: "scan tgt (next_states d s) (v, q) = Some st"
    by (auto split: option.splits)
  obtain v' q' where vq': "st = (v', q')" by (cases st)
  note vq = scan_Some [OF st [unfolded vq']]
  have tgt: "tgt \<notin> set (next_states d s)" using st scan_None by (metis option.distinct(1))
  have "\<exists>C. set v' \<subseteq> C \<and> (\<forall>s \<in> C. \<forall>n. edge d s n \<longrightarrow> n \<in> C \<and> n \<noteq> tgt)"
  proof (rule 2(1) [OF st [unfolded vq']])
    show "\<not> can_reach_loop d tgt (v', q')" using 2(2) st vq' by simp
    show "set q' \<subseteq> set v'" using vq 2(3) by auto
    show "n \<in> set v' \<and> n \<noteq> tgt" if "x \<in> set v'" "x \<notin> set q'" "edge d x n" for x n
    proof (cases "x = s")
      case True
      then show ?thesis using that vq tgt by (auto simp: edge_next_states)
    next
      case False
      then have "x \<in> set v" "x \<notin> set (s # q)" using that vq by auto
      then show ?thesis using 2(4) that vq by blast
    qed
  qed
  then show ?case using vq by auto
qed

lemma can_reach_iff: "can_reach from tgt d \<longleftrightarrow> (edge d)\<^sup>+\<^sup>+ from tgt"
proof
  show "can_reach from tgt d \<Longrightarrow> (edge d)\<^sup>+\<^sup>+ from tgt"
    unfolding can_reach_def by (drule can_reach_loop_sound) auto
next
  assume path: "(edge d)\<^sup>+\<^sup>+ from tgt"
  show "can_reach from tgt d"
  proof (rule ccontr)
    assume "\<not> can_reach from tgt d"
    then obtain C where C: "from \<in> C" "\<And>s n. s \<in> C \<Longrightarrow> edge d s n \<Longrightarrow> n \<in> C \<and> n \<noteq> tgt"
      using can_reach_loop_complete [of d tgt "[from]" "[from]"] by (auto simp: can_reach_def)
    have "n \<in> C \<and> n \<noteq> tgt" if "(edge d)\<^sup>+\<^sup>+ from n" for n
      using that by induction (use C in auto)
    with path show False by blast
  qed
qed

section \<open>Validation decides agent safety\<close>

definition privileged :: "string list option \<Rightarrow> nat \<Rightarrow> bool" where
  "privileged tools n \<longleftrightarrow> n = 0 \<or> (\<exists>ts t. tools = Some ts \<and> t \<in> set ts \<and> n \<le> unat (tool_privilege_level t))"

text \<open>
  \<open>agent_safe\<close>: from every state that is not final a path leads to \<open>failed\<close>; and in a machine marked
  moderate or dangerous the initial state has no tool that writes, some transition asks for approval,
  and no transition without approval leads from a state with at most read-only tools to one with an
  external tool.
\<close>

definition agent_safe :: "machine_definition \<Rightarrow> bool" where
  "agent_safe d \<longleftrightarrow>
     (\<exists>sd. bt_get (md_states d) ''failed'' = Some sd \<and> is_final_def sd) \<and>
     (\<forall>(s, sd) \<in> set (md_states d). \<not> is_final_def sd \<longrightarrow> (edge d)\<^sup>+\<^sup>+ s ''failed'') \<and>
     (is_dangerous d \<longrightarrow>
        (\<forall>sd. bt_get (md_states d) (md_initial d) = Some sd \<longrightarrow> \<not> privileged (sd_allowed_tools sd) 2) \<and>
        (\<exists>(s, sd) \<in> set (md_states d). \<exists>(e, t) \<in> set (sd_on sd). requires_approval t) \<and>
        (\<forall>(s, sd) \<in> set (md_states d). \<forall>(e, t) \<in> set (sd_on sd). \<forall>tgt.
           \<not> is_final_def sd \<and> \<not> requires_approval t \<and> bt_get (md_states d) (target t) = Some tgt \<and>
           privileged (sd_allowed_tools tgt) 4 \<longrightarrow> privileged (sd_allowed_tools sd) 2))"

lemma le_fold_max: "k \<le> fold max (map f ts) a \<longleftrightarrow> k \<le> a \<or> (\<exists>t \<in> set ts. k \<le> f t)"
  for k a :: "'a::linorder"
  by (induction ts arbitrary: a) (auto simp: le_max_iff_disj)

lemma privileged_max: "privileged tools n \<longleftrightarrow> n \<le> unat (max_tool_privilege tools)" if "n < 256"
proof -
  have u: "unat (word_of_nat n :: u8) = n" using that by (simp add: unat_of_nat)
  have "n \<le> unat (fold max (map tool_privilege_level ts) 0) \<longleftrightarrow>
      n \<le> 0 \<or> (\<exists>t \<in> set ts. n \<le> unat (tool_privilege_level t))" for ts
    using le_fold_max [of "word_of_nat n :: u8" tool_privilege_level ts 0] by (simp add: word_le_nat_alt u)
  then show ?thesis by (cases tools) (auto simp: privileged_def max_tool_privilege_def)
qed

lemma privilege_bounds:
  "max_tool_privilege tools \<ge> 4 \<longleftrightarrow> privileged tools 4"
  "max_tool_privilege tools \<le> 1 \<longleftrightarrow> \<not> privileged tools 2"
  by (auto simp: privileged_max word_le_nat_alt)

lemma check_initial_tools_Nil:
  "check_initial_tools d = [] \<longleftrightarrow>
     (\<forall>sd. bt_get (md_states d) (md_initial d) = Some sd \<longrightarrow> \<not> privileged (sd_allowed_tools sd) 2)"
  by (cases "bt_get (md_states d) (md_initial d)"; cases "Option.bind (bt_get (md_states d) (md_initial d)) sd_allowed_tools")
    (auto simp: check_initial_tools_def privileged_def word_le_nat_alt filter_empty_conv)

lemma check_approval_Nil:
  "check_approval d = [] \<longleftrightarrow> (\<exists>(s, sd) \<in> set (md_states d). \<exists>(e, t) \<in> set (sd_on sd). requires_approval t)"
  by (force simp: check_approval_def list_ex_iff)

lemma check_escalation_Nil:
  "check_escalation d = [] \<longleftrightarrow>
     (\<forall>(s, sd) \<in> set (md_states d). \<forall>(e, t) \<in> set (sd_on sd). \<forall>tgt.
        \<not> is_final_def sd \<and> \<not> requires_approval t \<and> bt_get (md_states d) (target t) = Some tgt \<and>
        privileged (sd_allowed_tools tgt) 4 \<longrightarrow> privileged (sd_allowed_tools sd) 2)"
  unfolding check_escalation_def
  by (fastforce simp: Let_def privilege_bounds split: option.splits if_splits)

lemma check_paths_Nil:
  "check_paths_to_failed d = [] \<longleftrightarrow>
     (\<forall>(s, sd) \<in> set (md_states d). \<not> is_final_def sd \<longrightarrow> (edge d)\<^sup>+\<^sup>+ s ''failed'')"
  by (auto simp: check_paths_to_failed_def can_reach_iff)

lemma validation_error_list: "(case validate_definition d of Ok _ \<Rightarrow> [] | Err e \<Rightarrow> ve_errors e) = validation_errors d"
  by (simp add: validate_definition_def Let_def)

lemma agent_errors_Nil: "agent_errors d = [] \<longleftrightarrow> well_formed_machine d \<and> agent_safe d"
  unfolding agent_errors_def validation_error_list agent_safe_def
  by (auto simp: validation_errors_Nil check_initial_tools_Nil check_approval_Nil check_escalation_Nil
      check_paths_Nil has_failed_def is_some_and_iff)

text \<open>
  C34: a generated machine is accepted exactly when it is structurally well formed and safe for an
  agent: every state that is not final has a path to the final state \<open>failed\<close>, and a machine marked
  moderate or dangerous starts without writing tools, has an approval gate, and has no unapproved
  step from read-only tools to external tools.
\<close>

theorem validate_agent_machine_iff:
  "validate_agent_machine d = Ok () \<longleftrightarrow> well_formed_machine d \<and> agent_safe d"
  by (simp add: validate_agent_machine_def Let_def agent_errors_Nil)

end
