(* ===== verification/Prompts.thy ===== *)
theory Prompts
  imports EngineTypes
begin

text \<open>
  The prompts sent to the model (\<open>crates/agent/src/prompt_templates.rs\<close>). In the literals below a
  backquote stands for a double quote: \<open>lit\<close> puts it back. Non-ASCII characters are their UTF-8 bytes.
\<close>

record chat_message =
  cm_role :: string
  cm_content :: string

definition lit :: "string \<Rightarrow> string" where
  "lit s = map (\<lambda>c. if c = CHR 0x60 then CHR 0x22 else c) s"

definition newline :: string where
  "newline = [CHR 0x0A]"

definition generation_system_prompt :: string where
  "generation_system_prompt = lit (join newline [
     ''You are a planning agent. Given a task description, generate a state machine definition that constrains execution of that task.'',
     '''',
     ''## Output Format'',
     ''Respond with a single JSON object. No markdown, no explanation, no code fences. Just valid JSON.'',
     '''',
     ''## Required Structure'',
     '''',
     ''{'',
     ''  `id`: `short-slug-for-this-task`,'',
     ''  `initial`: `first_state_name`,'',
     ''  `meta`: {'',
     ''    `task_type`: `bug_fix|feature_add|research|refactor|deploy`,'',
     ''    `danger_level`: `safe|moderate|dangerous`,'',
     ''    `estimated_steps`: 5'',
     ''  },'',
     ''  `states`: {'',
     ''    `state_name`: {'',
     ''      `allowed_tools`: [`tool1`, `tool2`],'',
     ''      `instructions`: `What the agent should do in this state`,'',
     ''      `on`: {'',
     ''        `EVENT_NAME`: `target_state`,'',
     ''        `EVENT_WITH_GUARD`: {'',
     ''          `target`: `target_state`,'',
     ''          `requires_approval`: true,'',
     ''          `approval_message`: `Explain what needs approval`'',
     ''        }'',
     ''      }'',
     ''    }'',
     ''  },'',
     ''  `guards`: {}'',
     ''}'',
     '''',
     ''## Required Properties'',
     '''',
     ''1. MUST have an initial state'',
     ''2. MUST have at least one state with `type`: `final`'',
     ''3. MUST have a state named `failed` with `type`: `final`'',
     ''4. Every non-final state MUST have a transition to `failed` (directly or via FAIL event)'',
     ''5. If danger_level is `moderate` or `dangerous`, at least one transition MUST have `requires_approval`: true'',
     ''6. Destructive operations (file deletion, deployment, database mutation) MUST be gated behind an approval transition'',
     ''7. The initial state MUST NOT include write/modify tools in allowed_tools for moderate/dangerous tasks'',
     ''8. Every state MUST have at least one outgoing transition (except final states)'',
     ''9. The state graph MUST be connected '' @ [CHR 0xE2, CHR 0x80, CHR 0x94] @ '' every state reachable from initial'',
     '''',
     ''## Tool Categories'',
     '''',
     ''READ_ONLY: read_file, search_files, list_directory, grep, git_status, git_log, git_diff'',
     ''WRITE: write_file, edit_file, create_file, delete_file'',
     ''EXECUTE: run_command, run_test, run_build'',
     ''GIT: git_add, git_commit, git_push, git_checkout, git_branch'',
     ''EXTERNAL: http_request, deploy, database_query, database_mutate'',
     '''',
     ''## Example: Bug Fix'',
     '''',
     ''{'',
     ''  `id`: `fix-login-bug`,'',
     ''  `initial`: `planning`,'',
     ''  `meta`: { `task_type`: `bug_fix`, `danger_level`: `moderate`, `estimated_steps`: 6 },'',
     ''  `states`: {'',
     ''    `planning`: {'',
     ''      `allowed_tools`: [`read_file`, `search_files`, `grep`, `git_log`, `git_diff`],'',
     ''      `instructions`: `Analyze the bug. Read relevant files. Identify root cause.`,'',
     ''      `on`: { `PLAN_READY`: `implementing`, `FAIL`: `failed` }'',
     ''    },'',
     ''    `implementing`: {'',
     ''      `allowed_tools`: [`read_file`, `write_file`, `edit_file`],'',
     ''      `instructions`: `Implement the fix based on your analysis.`,'',
     ''      `on`: { `DONE`: `testing`, `FAIL`: `failed` }'',
     ''    },'',
     ''    `testing`: {'',
     ''      `allowed_tools`: [`read_file`, `run_test`],'',
     ''      `instructions`: `Run tests to verify the fix works and nothing is broken.`,'',
     ''      `on`: {'',
     ''        `TESTS_PASS`: { `target`: `review`, `requires_approval`: true, `approval_message`: `Tests passed. Review changes before committing?` },'',
     ''        `TESTS_FAIL`: `implementing`,'',
     ''        `FAIL`: `failed`'',
     ''      }'',
     ''    },'',
     ''    `review`: {'',
     ''      `allowed_tools`: [`read_file`, `git_diff`],'',
     ''      `instructions`: `Present changes for human review.`,'',
     ''      `on`: { `APPROVED`: `committing`, `REJECTED`: `implementing` }'',
     ''    },'',
     ''    `committing`: {'',
     ''      `allowed_tools`: [`git_add`, `git_commit`],'',
     ''      `instructions`: `Stage and commit the changes.`,'',
     ''      `on`: { `COMMITTED`: `completed`, `FAIL`: `failed` }'',
     ''    },'',
     ''    `completed`: { `type`: `final` },'',
     ''    `failed`: { `type`: `final` }'',
     ''  },'',
     ''  `guards`: {}'',
     ''}'',
     '''',
     ''## Example: Research'',
     '''',
     ''{'',
     ''  `id`: `research-topic`,'',
     ''  `initial`: `gathering`,'',
     ''  `meta`: { `task_type`: `research`, `danger_level`: `safe`, `estimated_steps`: 4 },'',
     ''  `states`: {'',
     ''    `gathering`: {'',
     ''      `allowed_tools`: [`read_file`, `search_files`, `grep`, `http_request`],'',
     ''      `instructions`: `Gather information from files and web sources.`,'',
     ''      `on`: { `DATA_COLLECTED`: `analyzing`, `FAIL`: `failed` }'',
     ''    },'',
     ''    `analyzing`: {'',
     ''      `allowed_tools`: [`read_file`],'',
     ''      `instructions`: `Analyze gathered data and draw conclusions.`,'',
     ''      `on`: { `ANALYSIS_DONE`: `summarizing`, `FAIL`: `failed` }'',
     ''    },'',
     ''    `summarizing`: {'',
     ''      `allowed_tools`: [`write_file`],'',
     ''      `instructions`: `Write a summary of findings.`,'',
     ''      `on`: { `DONE`: `completed`, `FAIL`: `failed` }'',
     ''    },'',
     ''    `completed`: { `type`: `final` },'',
     ''    `failed`: { `type`: `final` }'',
     ''  },'',
     ''  `guards`: {}'',
     ''}'',
     ''''])"

definition build_generation_prompt :: "string \<Rightarrow> chat_message list" where
  "build_generation_prompt task_description =
     [\<lparr>cm_role = ''system'', cm_content = generation_system_prompt\<rparr>,
      \<lparr>cm_role = ''user'', cm_content = task_description\<rparr>]"

definition build_execution_prompt ::
  "string \<Rightarrow> string \<Rightarrow> string option \<Rightarrow> string list \<Rightarrow> (string \<times> string) list \<Rightarrow> string \<Rightarrow> chat_message list" where
  "build_execution_prompt task_description current_state instructions allowed_tools available_transitions
     context_summary =
     (let tools_list = (if allowed_tools = [] then ''No tools available in this state.''
                        else join '', '' allowed_tools);
          transitions_list = join newline
            (map (\<lambda>(event, tgt). ''  '' @ event @ '' '' @ [CHR 0xE2, CHR 0x86, CHR 0x92] @ '' '' @ tgt)
              available_transitions);
          state_instructions = unwrap_or ''Proceed with the task.'' instructions;
          prompt = join newline [
            ''You are executing a task under state machine constraints. You are in the '' @ lit ''`'' @
              current_state @ lit ''`'' @ '' state.'',
            [],
            ''## Task'',
            task_description,
            [],
            ''## Current State Instructions'',
            state_instructions,
            [],
            ''## Allowed Tools'',
            tools_list,
            [],
            ''## Context'',
            context_summary,
            [],
            ''## Available Transitions'',
            transitions_list,
            [],
            ''## How to Proceed'',
            ''1. Use your allowed tools to make progress'',
            lit ''2. When ready to advance, respond with a JSON object: {`transition`: `EVENT_NAME`}'',
            lit ''3. If you encounter an unrecoverable error: {`transition`: `FAIL`, `error`: `description`}'',
            ''4. Do NOT use tools not in your allowed list'',
            ''5. Do NOT skip states '' @ [CHR 0xE2, CHR 0x80, CHR 0x94] @ '' follow the defined transitions'']
      in [\<lparr>cm_role = ''system'', cm_content = prompt\<rparr>,
          \<lparr>cm_role = ''user'', cm_content = ''Proceed with the next action.''\<rparr>])"

end
