(* ===== verification/OllamaClient.thy ===== *)
theory OllamaClient
  imports Prompts
begin

unbundle bit_operations_syntax

text \<open>
  The client of the chat endpoint (\<open>crates/agent/src/ollama_client.rs\<close>): retries with exponential
  back-off, the selection of the answer from content and reasoning, and the cleaning of JSON answers.
  The HTTP exchange itself is the parameter \<open>http\<close>, a function on the state \<open>'w\<close> of the outside world;
  its reply is one of the four outcomes the code distinguishes. The Harmony tokeniser is an optional
  dependency, off by default; it is the parameter \<open>harmony\<close>.
\<close>

record ollama_config =
  oc_api_url :: string
  oc_model :: string
  oc_temperature :: rat
  oc_max_tokens :: u32
  oc_thinking_level :: "string option"

definition default_ollama_config :: ollama_config where
  "default_ollama_config = \<lparr>oc_api_url = ''http://localhost:11434/v1'', oc_model = ''qwen2.5-coder:32b'',
     oc_temperature = 3 / 10, oc_max_tokens = 4096, oc_thinking_level = None\<rparr>"

record ollama_options =
  oo_num_ctx :: u32
  oo_num_predict :: "u32 option"

record chat_request =
  cq_model :: string
  cq_messages :: "chat_message list"
  cq_temperature :: rat
  cq_max_tokens :: u32
  cq_tool_choice :: "string option"
  cq_options :: "ollama_options option"
  cq_reasoning_effort :: "string option"

record response_message =
  rm_content :: "string option"
  rm_reasoning :: "string option"

datatype http_reply = SendError string | StatusError string | BodyError string | Body "response_message list"

datatype ollama_error = Http string | NoResponse | ParseError string

fun show_ollama_error :: "ollama_error \<Rightarrow> string" where
  "show_ollama_error (Http e) = ''HTTP error: '' @ e"
| "show_ollama_error NoResponse = ''no response from Ollama''"
| "show_ollama_error (ParseError msg) = ''parse error: '' @ msg"

section \<open>Delays\<close>

text \<open>\<open>nanos\<close> is the clock and \<open>pid\<close> the process id, both read from the system.\<close>

definition retry_jitter_secs :: "u64 \<Rightarrow> u64 \<Rightarrow> u64 \<Rightarrow> u64" where
  "retry_jitter_secs nanos pid max_inclusive =
     (if max_inclusive = 0 then 0 else (nanos XOR pid) mod (max_inclusive + 1))"

definition saturating_pow2 :: "u32 \<Rightarrow> u64" where
  "saturating_pow2 n = (if unat n < 64 then 2 ^ unat n else - 1)"

definition request_retry_base_delay_secs :: "u32 \<Rightarrow> u64" where
  "request_retry_base_delay_secs attempt = min (saturating_pow2 attempt) 32"

definition request_retry_delay_secs :: "u64 \<Rightarrow> u64 \<Rightarrow> u32 \<Rightarrow> u64" where
  "request_retry_delay_secs nanos pid attempt =
     (let base = request_retry_base_delay_secs attempt
      in base + retry_jitter_secs nanos pid (max (base div 2) 1))"

section \<open>Requests\<close>

definition is_ollama_endpoint :: "string \<Rightarrow> bool" where
  "is_ollama_endpoint url \<longleftrightarrow>
     str_contains url ''ollama'' \<or> str_contains url ''localhost'' \<or> str_contains url ''127.0.0.1''"

definition map_thinking_level :: "string \<Rightarrow> string option" where
  "map_thinking_level level =
     (if level = ''off'' then None
      else if level = ''low'' then Some ''low''
      else if level = ''medium'' then Some ''medium''
      else if level = ''high'' \<or> level = ''max'' then Some ''high''
      else Some level)"

definition chat_request_of :: "ollama_config \<Rightarrow> chat_message list \<Rightarrow> chat_request" where
  "chat_request_of cfg messages =
     \<lparr>cq_model = oc_model cfg, cq_messages = messages, cq_temperature = oc_temperature cfg,
      cq_max_tokens = oc_max_tokens cfg, cq_tool_choice = None,
      cq_options = Some \<lparr>oo_num_ctx = 16384,
        oo_num_predict = (if oc_max_tokens cfg > 4096 then Some (oc_max_tokens cfg) else None)\<rparr>,
      cq_reasoning_effort =
        (if \<not> is_ollama_endpoint (oc_api_url cfg) then Option.bind (oc_thinking_level cfg) map_thinking_level
         else None)\<rparr>"

section \<open>Answers\<close>

text \<open>The brace counter: the state is (depth, in string, escape); the result the length of the object.\<close>

fun balanced_end :: "string \<Rightarrow> nat \<Rightarrow> int \<Rightarrow> bool \<Rightarrow> bool \<Rightarrow> nat option" where
  "balanced_end [] i depth in_string escape = None"
| "balanced_end (b # bs) i depth in_string escape =
     (if escape then balanced_end bs (Suc i) depth in_string False
      else if b = CHR 0x5C \<and> in_string then balanced_end bs (Suc i) depth in_string True
      else if b = CHR 0x22 then balanced_end bs (Suc i) depth (\<not> in_string) False
      else if b = CHR ''{'' \<and> \<not> in_string then balanced_end bs (Suc i) (depth + 1) in_string False
      else if b = CHR ''}'' \<and> \<not> in_string then
        (if depth - 1 = 0 then Some (Suc i) else balanced_end bs (Suc i) (depth - 1) in_string False)
      else balanced_end bs (Suc i) depth in_string False)"

definition harmony_call :: "string \<Rightarrow> string \<Rightarrow> string" where
  "harmony_call func_name args_json =
     lit ''{`tool_calls`:[{`name`:`'' @ func_name @ lit ''`,`args`:'' @ args_json @ ''}]}''"

definition extract_harmony_tool_call :: "string \<Rightarrow> string option" where
  "extract_harmony_tool_call reasoning =
     (case str_find reasoning ''to=functions.'' of
        None \<Rightarrow> None
      | Some idx \<Rightarrow>
          (let after = drop (idx + length ''to=functions.'') reasoning;
               name_end = unwrap_or (length after)
                 (char_find (\<lambda>c. is_whitespace c \<or> c = CHR ''<'' \<or> c = CHR ''|'') after);
               func_name = take name_end after
           in if func_name = [] then None
              else
                (let remaining = drop name_end after in
                 case char_find (\<lambda>c. c = CHR ''{'') remaining of
                   None \<Rightarrow> None
                 | Some json_start \<Rightarrow>
                     (let json_part = drop json_start remaining in
                      map_option (\<lambda>n. harmony_call func_name (take n json_part))
                        (balanced_end json_part 0 0 False False)))))"

definition looks_structured :: "string \<Rightarrow> bool" where
  "looks_structured reasoning \<longleftrightarrow>
     str_contains reasoning ''tool_calls'' \<or> str_contains reasoning ''transition'' \<or>
     str_contains reasoning ''tool_call'' \<or> str_contains reasoning ''{''"

definition answer_of :: "(string \<Rightarrow> string option) \<Rightarrow> response_message \<Rightarrow> string" where
  "answer_of harmony m =
     (let content = unwrap_or [] (rm_content m) in
      case (content, rm_reasoning m) of
        ([], Some reasoning) \<Rightarrow>
          if looks_structured reasoning then reasoning
          else
            (case harmony reasoning of
               Some call \<Rightarrow> call
             | None \<Rightarrow>
                 (case extract_harmony_tool_call reasoning of
                    Some call \<Rightarrow> call
                  | None \<Rightarrow> content))
      | _ \<Rightarrow> content)"

text \<open>The retry loop; \<open>attempt\<close> counts from 0 to 4. Waiting between attempts has no effect on the result.\<close>

fun chat_attempts ::
  "(string \<Rightarrow> string option) \<Rightarrow> ('w \<Rightarrow> http_reply \<times> 'w) \<Rightarrow> nat \<Rightarrow> ollama_error \<Rightarrow> 'w \<Rightarrow>
   (string, ollama_error) result \<times> 'w" where
  "chat_attempts harmony post 0 last_err w = (Err last_err, w)"
| "chat_attempts harmony post (Suc left) last_err w =
     (case post w of
        (SendError e, w') \<Rightarrow> chat_attempts harmony post left (Http e) w'
      | (StatusError e, w') \<Rightarrow> chat_attempts harmony post left (Http e) w'
      | (BodyError e, w') \<Rightarrow> (Err (Http e), w')
      | (Body [], w') \<Rightarrow> (Err NoResponse, w')
      | (Body (choice # _), w') \<Rightarrow> (Ok (answer_of harmony choice), w'))"

definition chat ::
  "(string \<Rightarrow> string option) \<Rightarrow> ('w \<Rightarrow> string \<Rightarrow> chat_request \<Rightarrow> http_reply \<times> 'w) \<Rightarrow> ollama_config \<Rightarrow>
   'w \<Rightarrow> chat_message list \<Rightarrow> (string, ollama_error) result \<times> 'w" where
  "chat harmony http cfg w messages =
     chat_attempts harmony
       (\<lambda>w. http w (oc_api_url cfg @ ''/chat/completions'') (chat_request_of cfg messages)) 5 NoResponse w"

definition strip_code_fences :: "string \<Rightarrow> string" where
  "strip_code_fences input =
     (let trimmed = trim input; tick = CHR 0x60; fence = [tick, tick, tick] in
      case strip_prefix trimmed fence of
        None \<Rightarrow> trimmed
      | Some rest \<Rightarrow>
          (let after_tag = (case char_find (\<lambda>c. c = CHR 0x0A) rest of
                 Some newline_pos \<Rightarrow> drop (newline_pos + 1) rest
               | None \<Rightarrow> rest)
           in case strip_suffix after_tag fence of
                Some content \<Rightarrow> trim content
              | None \<Rightarrow> trimmed))"

text \<open>\<open>from_str\<close> is JSON deserialisation of the requested type, with its error message.\<close>

definition chat_json ::
  "('w \<Rightarrow> chat_message list \<Rightarrow> (string, ollama_error) result \<times> 'w) \<Rightarrow>
   (string \<Rightarrow> ('t, string) result) \<Rightarrow> 'w \<Rightarrow> chat_message list \<Rightarrow> ('t, ollama_error) result \<times> 'w" where
  "chat_json send from_str w messages =
     (case send w messages of
        (Err e, w') \<Rightarrow> (Err e, w')
      | (Ok raw, w') \<Rightarrow>
          (case from_str (strip_code_fences raw) of
             Ok x \<Rightarrow> (Ok x, w')
           | Err e \<Rightarrow> (Err (ParseError (''failed to parse JSON: '' @ e @ ''. Raw response: '' @ take 500 raw)), w')))"

section \<open>Properties\<close>

lemma base_delay_le: "request_retry_base_delay_secs attempt \<le> 32"
  by (simp add: request_retry_base_delay_secs_def)

lemma jitter_le: "retry_jitter_secs nanos pid m \<le> m"
proof (cases "m = 0")
  case False
  show ?thesis
  proof (cases "m + 1 = 0")
    case True
    then have "m = - 1" by (simp add: eq_neg_iff_add_eq_0)
    then show ?thesis by simp
  next
    case nz: False
    then have "unat (m + 1) = unat m + 1"
      by (metis Suc_eq_plus1 unatSuc add.commute)
    moreover have "unat ((nanos XOR pid) mod (m + 1)) < unat (m + 1)"
      using nz by (simp add: unat_mod unat_eq_0 [symmetric] del: unat_eq_0)
    ultimately show ?thesis using False by (simp add: retry_jitter_secs_def word_le_nat_alt)
  qed
qed (simp add: retry_jitter_secs_def)

lemma unat_base_delay: "unat (request_retry_base_delay_secs attempt) = min (2 ^ unat attempt) 32"
proof (cases "unat attempt < 64")
  case True
  then have "(2 :: nat) ^ unat attempt < 2 ^ 64" by (intro power_strict_increasing) auto
  then have "unat (2 ^ unat attempt :: u64) = 2 ^ unat attempt"
    using unat_of_nat [of "2 ^ unat attempt", where ?'a = 64] by simp
  with True show ?thesis
    by (auto simp: request_retry_base_delay_secs_def saturating_pow2_def min_def word_le_nat_alt)
next
  case False
  then have "(2 :: nat) ^ 5 \<le> 2 ^ unat attempt" by (intro power_increasing) auto
  with False show ?thesis
    by (simp add: request_retry_base_delay_secs_def saturating_pow2_def min_def word_le_nat_alt
        unsigned_minus_1_eq_mask mask_eq_exp_minus_1)
qed

text \<open>
  The delay before a retry is at least the exponential base (1, 2, 4, ... seconds, capped at 32)
  and at most one and a half times the base, or two seconds for the first retry; it never overflows.
\<close>

theorem retry_delay_bounds:
  "unat (request_retry_base_delay_secs attempt) = min (2 ^ unat attempt) 32 \<and>
   request_retry_base_delay_secs attempt \<le> request_retry_delay_secs nanos pid attempt \<and>
   unat (request_retry_delay_secs nanos pid attempt) \<le>
     min (2 ^ unat attempt) 32 + max (min (2 ^ unat attempt) 32 div 2) 1"
proof -
  let ?b = "request_retry_base_delay_secs attempt"
  have b: "unat ?b = min (2 ^ unat attempt) 32" by (rule unat_base_delay)
  have m: "unat (max (?b div 2) 1) = max (unat ?b div 2) 1"
    by (auto simp: max_def word_le_nat_alt unat_div)
  let ?j = "retry_jitter_secs nanos pid (max (?b div 2) 1)"
  have j: "unat ?j \<le> max (unat ?b div 2) 1"
    using jitter_le [of nanos pid "max (?b div 2) 1"] by (simp add: word_le_nat_alt m)
  have "unat ?b \<le> 32" by (simp add: b)
  with j have "unat ?b + unat ?j < 2 ^ 64" by (simp add: max_def split: if_splits)
  then have "unat (?b + ?j) = unat ?b + unat ?j" using unat_add_lem [of ?b ?j] by simp
  with b j show ?thesis by (simp add: request_retry_delay_secs_def Let_def word_le_nat_alt)
qed

text \<open>
  The fallback that scans the reasoning for a Harmony call can never contribute: it needs an opening
  brace, and reasoning with a brace has already been returned as it is.
\<close>

lemma extract_needs_brace:
  assumes "CHR ''{'' \<notin> set r"
  shows "extract_harmony_tool_call r = None"
proof -
  have none: "char_find (\<lambda>c. c = CHR ''{'') s = None" if "set s \<subseteq> set r" for s
    using that assms by (cases "char_find (\<lambda>c. c = CHR ''{'') s") (auto simp: char_find_split)
  have "set (drop n r) \<subseteq> set r" for n by (rule set_drop_subset)
  with none show ?thesis
    by (auto simp: extract_harmony_tool_call_def Let_def split: option.splits)
qed

lemma str_contains_char: "str_contains s [c] \<longleftrightarrow> c \<in> set s"
  by (auto simp: str_contains_iff in_set_conv_decomp)

text \<open>
  The answer taken from a response is its content, or its reasoning when the content is empty and
  the reasoning looks like a structured action or the Harmony parser finds a call in it. The textual
  Harmony scan that follows in the code is dead: no response makes it produce the answer.
\<close>

theorem answer_of_cases:
  "answer_of harmony m =
     (case (unwrap_or [] (rm_content m), rm_reasoning m) of
        ([], Some reasoning) \<Rightarrow>
          if looks_structured reasoning then reasoning else unwrap_or [] (harmony reasoning)
      | (content, _) \<Rightarrow> content)"
proof -
  have "extract_harmony_tool_call r = None" if "\<not> looks_structured r" for r
    using that by (intro extract_needs_brace) (simp add: looks_structured_def str_contains_char)
  then show ?thesis
    by (auto simp: answer_of_def Let_def split: list.splits option.splits)
qed

text \<open>The replies of successive attempts.\<close>

fun replies :: "('w \<Rightarrow> http_reply \<times> 'w) \<Rightarrow> nat \<Rightarrow> 'w \<Rightarrow> http_reply list" where
  "replies post 0 w = []"
| "replies post (Suc n) w = fst (post w) # replies post n (snd (post w))"

fun undelivered :: "http_reply \<Rightarrow> bool" where
  "undelivered (SendError _) = True"
| "undelivered (StatusError _) = True"
| "undelivered _ = False"

fun reply_error :: "http_reply \<Rightarrow> ollama_error" where
  "reply_error (SendError e) = Http e"
| "reply_error (StatusError e) = Http e"
| "reply_error (BodyError e) = Http e"
| "reply_error (Body _) = NoResponse"

text \<open>The result the replies decide, and what it is when there are none.\<close>

fun decided :: "(string \<Rightarrow> string option) \<Rightarrow> ollama_error \<Rightarrow> http_reply list \<Rightarrow> (string, ollama_error) result" where
  "decided harmony err [] = Err err"
| "decided harmony err (r # rs) =
     (if undelivered r then decided harmony (reply_error r) rs
      else (case r of Body (m # _) \<Rightarrow> Ok (answer_of harmony m) | _ \<Rightarrow> Err (reply_error r)))"

lemma chat_attempts_decided: "fst (chat_attempts harmony post n err w) = decided harmony err (replies post n w)"
proof (induction n arbitrary: err w)
  case (Suc n)
  obtain r w' where r: "post w = (r, w')" by (cases "post w")
  show ?case by (cases r) (auto simp: r Suc.IH split: list.splits)
qed simp

lemma decided_undelivered:
  "list_all undelivered rs \<Longrightarrow> rs \<noteq> [] \<Longrightarrow> decided harmony err rs = Err (reply_error (last rs))"
  by (induction rs arbitrary: err) auto

lemma decided_delivered:
  "list_all undelivered pre \<Longrightarrow> \<not> undelivered r \<Longrightarrow>
   decided harmony err (pre @ r # post) =
     (case r of Body (m # _) \<Rightarrow> Ok (answer_of harmony m) | _ \<Rightarrow> Err (reply_error r))"
  by (induction pre arbitrary: err) auto

text \<open>
  A chat request makes at most five attempts and is decided by the first reply that is delivered: a
  malformed body or an empty list of choices is an error at once, otherwise the first choice is the
  answer. When no attempt is delivered, the error is that of the fifth.
\<close>

theorem chat_outcome:
  assumes "rs = replies (\<lambda>w. http w (oc_api_url cfg @ ''/chat/completions'') (chat_request_of cfg messages)) 5 w"
  shows "(list_all undelivered rs \<longrightarrow> fst (chat harmony http cfg w messages) = Err (reply_error (rs ! 4))) \<and>
    (\<forall>pre r post. rs = pre @ r # post \<and> list_all undelivered pre \<and> \<not> undelivered r \<longrightarrow>
       fst (chat harmony http cfg w messages) =
         (case r of Body (m # _) \<Rightarrow> Ok (answer_of harmony m) | _ \<Rightarrow> Err (reply_error r)))"
proof -
  have len: "length (replies post n w) = n" for post :: "'a \<Rightarrow> http_reply \<times> 'a" and n w
    by (induction n arbitrary: w) auto
  have c: "fst (chat harmony http cfg w messages) = decided harmony NoResponse rs"
    unfolding assms by (simp only: chat_def chat_attempts_decided)
  have "length rs = 5" by (simp only: assms len)
  then have ne: "rs \<noteq> []" and "length rs - 1 = 4" by auto
  then have "last rs = rs ! 4" by (metis last_conv_nth)
  with ne show ?thesis unfolding c using decided_undelivered decided_delivered by metis
qed

theorem chat_outcome_witness:
  "fst (chat (\<lambda>_. None) (\<lambda>w _ _. if w < 2 then (SendError ''down'', w + 1)
       else (Body [\<lparr>rm_content = Some ''hi'', rm_reasoning = None\<rparr>], w)) default_ollama_config (0 :: nat) []) = Ok ''hi''"
proof -
  let ?h = "\<lambda>w _ _. if w < 2 then (SendError ''down'', w + 1)
       else (Body [\<lparr>rm_content = Some ''hi'', rm_reasoning = None\<rparr>], w)"
  let ?b = "Body [\<lparr>rm_content = Some ''hi'', rm_reasoning = None\<rparr>]"
  have rs: "[SendError ''down'', SendError ''down'', ?b, ?b, ?b] =
      replies (\<lambda>w. ?h w (oc_api_url default_ollama_config @ ''/chat/completions'')
        (chat_request_of default_ollama_config [])) 5 (0 :: nat)"
    by (simp add: eval_nat_numeral)
  have "[SendError ''down'', SendError ''down'', ?b, ?b, ?b] = [SendError ''down'', SendError ''down''] @ ?b # [?b, ?b] \<and>
      list_all undelivered [SendError ''down'', SendError ''down''] \<and> \<not> undelivered ?b" by simp
  then have "fst (chat (\<lambda>_. None) ?h default_ollama_config (0 :: nat) []) =
      (case ?b of Body (m # _) \<Rightarrow> Ok (answer_of (\<lambda>_. None) m) | _ \<Rightarrow> Err (reply_error ?b))"
    using chat_outcome [where ?http = ?h and ?cfg = default_ollama_config and ?messages = "[]" and ?w = "0 :: nat"
        and ?harmony = "\<lambda>_. None", OF rs] by blast
  then show ?thesis by (simp add: answer_of_def)
qed

end
