(* ===== verification/Executor.thy ===== *)
theory Executor
  imports Transition ToolEnforcer OllamaClient AgentValidator
begin

text \<open>
  The agent executor (\<open>crates/agent/src/executor.rs\<close>): one step asks the model, enforces the tools of the
  current state and resolves the requested transition; approvals and sub-machine invocations suspend
  the execution and resume it.

  What the executor calls outside the repository is the record \<open>llm_env\<close>: the chat endpoint, as a
  function on a state \<open>'w\<close> of the outside world; JSON deserialisation of an action; pretty printing of
  JSON; the reading of a number as a double. An execution that panics is \<^const>\<open>Panics\<close>.
\<close>

datatype execution_status =
    Running
  | AwaitingApproval string string
  | AwaitingInvoke string string "string option" "json option"
  | Completed
  | Failed string

record step_record =
  sr_step_number :: u32
  sr_state :: string
  sr_tools_requested :: "string list"
  sr_tools_allowed :: "string list"
  sr_tools_blocked :: "string list"
  sr_transition_event :: "string option"
  sr_llm_response :: string

record execution_state =
  es_definition :: machine_definition
  es_current_state :: string
  es_context :: json
  es_step_count :: u32
  es_status :: execution_status
  es_steps :: "step_record list"

text \<open>\<open>MachineRegistry\<close>: a \<open>HashMap\<close> from names to definitions.\<close>

type_synonym machine_registry = "string \<rightharpoonup> machine_definition"

definition registry_new :: machine_registry where
  "registry_new = (\<lambda>_. None)"

definition registry_register :: "string \<Rightarrow> machine_definition \<Rightarrow> machine_registry \<Rightarrow> machine_registry" where
  "registry_register name d reg = hm_insert name d reg"

definition registry_get :: "machine_registry \<Rightarrow> string \<Rightarrow> machine_definition option" where
  "registry_get reg name = reg name"

record tool_call =
  tc_name :: string
  tc_args :: json

record llm_action =
  la_transition :: "string option"
  la_error :: "string option"
  la_tool_calls :: "tool_call list option"

datatype execution_error =
    NotRunning execution_status
  | NotAwaitingApproval execution_status
  | NotAwaitingInvoke execution_status
  | OllamaErr ollama_error
  | TransitionErr transition_error
  | MaxIterationsExceeded string u32

record 'w llm_env =
  le_chat :: "'w \<Rightarrow> chat_message list \<Rightarrow> (string, ollama_error) result \<times> 'w"
  le_parse_action :: "string \<Rightarrow> llm_action option"
  le_pretty :: "json \<Rightarrow> string option"
  le_as_f64 :: as_f64_fn
  le_debug_status :: "execution_status \<Rightarrow> string"

text \<open>The environment of an executor whose client is the one of \<open>ollama_client.rs\<close>.\<close>

definition client_env ::
  "(string \<Rightarrow> string option) \<Rightarrow> ('w \<Rightarrow> string \<Rightarrow> chat_request \<Rightarrow> http_reply \<times> 'w) \<Rightarrow> ollama_config \<Rightarrow>
   (string \<Rightarrow> llm_action option) \<Rightarrow> (json \<Rightarrow> string option) \<Rightarrow> as_f64_fn \<Rightarrow> (execution_status \<Rightarrow> string) \<Rightarrow>
   'w llm_env" where
  "client_env harmony http cfg from_str pretty f dbg =
     \<lparr>le_chat = chat harmony http cfg, le_parse_action = from_str, le_pretty = pretty, le_as_f64 = f,
      le_debug_status = dbg\<rparr>"

definition max_iterations_message :: "string \<Rightarrow> u32 \<Rightarrow> string" where
  "max_iterations_message state limit =
     ''max iterations ('' @ show_word limit @ '') exceeded in state '' @ quoted state"

fun show_execution_error :: "'w llm_env \<Rightarrow> execution_error \<Rightarrow> string" where
  "show_execution_error env (NotRunning s) = ''execution not running: '' @ le_debug_status env s"
| "show_execution_error env (NotAwaitingInvoke s) = ''not awaiting invoke: '' @ le_debug_status env s"
| "show_execution_error env (NotAwaitingApproval s) = ''not awaiting approval: '' @ le_debug_status env s"
| "show_execution_error env (OllamaErr e) = ''ollama error: '' @ show_ollama_error e"
| "show_execution_error env (TransitionErr e) = ''transition error: '' @ show_transition_error e"
| "show_execution_error env (MaxIterationsExceeded state limit) = max_iterations_message state limit"

section \<open>Reading the model's answer\<close>

definition fence :: string where
  "fence = [CHR 0x60, CHR 0x60, CHR 0x60]"

definition bash_call :: "string \<Rightarrow> tool_call" where
  "bash_call cmd = \<lparr>tc_name = ''bash'', tc_args = JObject [(''command'', JString cmd)]\<rparr>"

function fence_loop :: "string \<Rightarrow> tool_call list \<Rightarrow> tool_call list" where
  "fence_loop search calls =
     (case str_find search fence of
        None \<Rightarrow> calls
      | Some fence_start \<Rightarrow>
          (let after_fence = drop (fence_start + 3) search;
               lang_end = unwrap_or 0 (char_find (\<lambda>c. c = CHR 0x0A) after_fence);
               lang = trim (take lang_end after_fence)
           in if lang = ''bash'' \<or> lang = ''sh'' \<or> lang = ''shell'' then
                (let content = drop (lang_end + 1) after_fence in
                 case str_find content fence of
                   Some close \<Rightarrow>
                     (let cmd = trim (take close content) in
                      fence_loop (drop (close + 3) content) (if cmd \<noteq> [] then calls @ [bash_call cmd] else calls))
                 | None \<Rightarrow> fence_loop (drop lang_end after_fence) calls)
              else fence_loop (drop lang_end after_fence) calls))"
  by pat_completeness auto
termination
  by (relation "measure (\<lambda>(search, calls). length search)")
    (auto simp: fence_def dest!: str_find_le)

declare fence_loop.simps [simp del]

definition no_action :: llm_action where
  "no_action = \<lparr>la_transition = None, la_error = None, la_tool_calls = None\<rparr>"

definition fenced_action :: "string \<Rightarrow> llm_action" where
  "fenced_action trimmed =
     (let calls = fence_loop trimmed []
      in if calls \<noteq> [] then no_action\<lparr>la_tool_calls := Some calls\<rparr> else no_action)"

text \<open>
  \<open>&trimmed[start..=end]\<close> is the slice from \<open>start\<close> to \<open>end + 1\<close>; it panics when it would start after
  its end.
\<close>

definition parse_llm_response :: "(string \<Rightarrow> llm_action option) \<Rightarrow> string \<Rightarrow> llm_action outcome" where
  "parse_llm_response from_str raw =
     (let trimmed = trim raw in
      case from_str trimmed of
        Some action \<Rightarrow> Returns action
      | None \<Rightarrow>
          (case (char_find (\<lambda>c. c = CHR ''{'') trimmed, char_rfind (\<lambda>c. c = CHR ''}'') trimmed) of
             (Some start, Some end_) \<Rightarrow>
               if end_ + 1 < start then Panics
               else
                 (case from_str (take (end_ + 1 - start) (drop start trimmed)) of
                    Some action \<Rightarrow> Returns action
                  | None \<Rightarrow> Returns (fenced_action trimmed))
           | _ \<Rightarrow> Returns (fenced_action trimmed)))"

section \<open>One step\<close>

definition execution_new :: "machine_definition \<Rightarrow> execution_state" where
  "execution_new d = \<lparr>es_definition = d, es_current_state = md_initial d, es_context = md_context d,
     es_step_count = 0, es_status = Running, es_steps = []\<rparr>"

definition current_def :: "execution_state \<Rightarrow> state_def option" where
  "current_def es = bt_get (md_states (es_definition es)) (es_current_state es)"

definition steps_in_state :: "execution_state \<Rightarrow> u32" where
  "steps_in_state es =
     word_of_nat (length (takeWhile (\<lambda>r. sr_state r = es_current_state es) (rev (es_steps es))))"

definition iterations_exhausted :: "execution_state \<Rightarrow> u32 option" where
  "iterations_exhausted es =
     (case Option.bind (current_def es) sd_max_iterations of
        None \<Rightarrow> None
      | Some limit \<Rightarrow> if steps_in_state es \<ge> limit then Some limit else None)"

definition step_prompt :: "'w llm_env \<Rightarrow> execution_state \<Rightarrow> chat_message list" where
  "step_prompt env es =
     build_execution_prompt (md_id (es_definition es)) (es_current_state es)
       (Option.bind (current_def es) sd_instructions)
       (unwrap_or [] (Option.bind (current_def es) sd_allowed_tools))
       (case current_def es of None \<Rightarrow> [] | Some sd \<Rightarrow> map (\<lambda>(event, t). (event, target t)) (sd_on sd))
       (unwrap_or [] (le_pretty env (es_context es)))"

definition requested_tools :: "llm_action \<Rightarrow> string list" where
  "requested_tools action = (case la_tool_calls action of None \<Rightarrow> [] | Some calls \<Rightarrow> map tc_name calls)"

definition state_is_final :: "machine_definition \<Rightarrow> string \<Rightarrow> bool" where
  "state_is_final d s = is_some_and is_final_def (bt_get (md_states d) s)"

definition fail_to :: "string \<Rightarrow> execution_state \<Rightarrow> execution_state" where
  "fail_to error es = es\<lparr>es_status := Failed error,
     es_current_state := (if state_exists (es_definition es) ''failed'' then ''failed'' else es_current_state es)\<rparr>"

text \<open>The transition \<open>FAIL\<close>: taken when it resolves, forced otherwise.\<close>

definition fail_transition :: "as_f64_fn \<Rightarrow> string \<Rightarrow> execution_state \<Rightarrow> execution_state" where
  "fail_transition f error_msg es =
     (case resolve_transition f (es_current_state es) ''FAIL'' JNull (es_context es) (es_definition es) of
        Ok r \<Rightarrow> es\<lparr>es_current_state := tr_new_state r, es_context := tr_new_context r,
                   es_status := Failed error_msg\<rparr>
      | Err _ \<Rightarrow> fail_to error_msg es)"

definition take_transition :: "string \<Rightarrow> transition_result \<Rightarrow> execution_state \<Rightarrow> execution_state" where
  "take_transition event r es =
     (if tr_requires_approval r then
        es\<lparr>es_status := AwaitingApproval event (unwrap_or ''Approval required'' (tr_approval_message r))\<rparr>
      else
        (case tr_invoke r of
           Some iv \<Rightarrow> es\<lparr>es_status := AwaitingInvoke (ir_machine iv) (ir_on_complete iv) (ir_on_fail iv) (ir_input iv)\<rparr>
         | None \<Rightarrow>
             (let es' = es\<lparr>es_current_state := tr_new_state r, es_context := tr_new_context r\<rparr>
              in if state_is_final (es_definition es) (tr_new_state r) then es'\<lparr>es_status := Completed\<rparr> else es')))"

definition push_record :: "step_record \<Rightarrow> execution_state \<Rightarrow> execution_state" where
  "push_record r es = es\<lparr>es_steps := es_steps es @ [r]\<rparr>"

definition process_action ::
  "as_f64_fn \<Rightarrow> string \<Rightarrow> llm_action \<Rightarrow> execution_state \<Rightarrow>
   (step_record, execution_error) result \<times> execution_state" where
  "process_action f raw action es0 =
     (let enforcement = enforce_tools (es_definition es0) (es_current_state es0) (requested_tools action);
          es = es0\<lparr>es_step_count := es_step_count es0 + 1\<rparr>;
          record = \<lparr>sr_step_number = es_step_count es, sr_state = es_current_state es,
            sr_tools_requested = requested_tools action, sr_tools_allowed = te_allowed enforcement,
            sr_tools_blocked = te_blocked enforcement, sr_transition_event = None, sr_llm_response = raw\<rparr>
      in case la_transition action of
           None \<Rightarrow> (Ok record, push_record record es)
         | Some event \<Rightarrow>
             (let moved = record\<lparr>sr_transition_event := Some event\<rparr> in
              if event = ''FAIL'' then
                (Ok moved, push_record moved
                  (fail_transition f (unwrap_or ''agent reported failure'' (la_error action)) es))
              else
                (case resolve_transition f (es_current_state es) event JNull (es_context es) (es_definition es) of
                   Ok r \<Rightarrow> (Ok moved, push_record moved (take_transition event r es))
                 | Err (GuardFailed _) \<Rightarrow> (Ok record, push_record record es)
                 | Err (NoMatchingTransition _ _) \<Rightarrow> (Ok record, push_record record es)
                 | Err e \<Rightarrow> (Err (TransitionErr e), es))))"

definition step ::
  "'w llm_env \<Rightarrow> execution_state \<Rightarrow> 'w \<Rightarrow>
   ((step_record, execution_error) result \<times> execution_state \<times> 'w) outcome" where
  "step env es w =
     (if es_status es \<noteq> Running then Returns (Err (NotRunning (es_status es)), es, w)
      else
        (case iterations_exhausted es of
           Some limit \<Rightarrow>
             Returns (Err (MaxIterationsExceeded (es_current_state es) limit),
               es\<lparr>es_status := Failed (max_iterations_message (es_current_state es) limit)\<rparr>, w)
         | None \<Rightarrow>
             (case le_chat env w (step_prompt env es) of
                (Err e, w') \<Rightarrow> Returns (Err (OllamaErr e), es, w')
              | (Ok raw, w') \<Rightarrow>
                  (case parse_llm_response (le_parse_action env) raw of
                     Returns action \<Rightarrow>
                       (let (res, es') = process_action (le_as_f64 env) raw action es in Returns (res, es', w'))
                   | Panics \<Rightarrow> Panics
                   | OutOfFuel \<Rightarrow> OutOfFuel))))"

section \<open>Suspended executions\<close>

definition approve :: "as_f64_fn \<Rightarrow> execution_state \<Rightarrow> (unit, execution_error) result \<times> execution_state" where
  "approve f es =
     (case es_status es of
        AwaitingApproval event _ \<Rightarrow>
          (case resolve_transition f (es_current_state es) event JNull (es_context es) (es_definition es) of
             Ok r \<Rightarrow> (Ok (), es\<lparr>es_current_state := tr_new_state r, es_context := tr_new_context r,
               es_status := (if state_is_final (es_definition es) (tr_new_state r) then Completed else Running)\<rparr>)
           | Err e \<Rightarrow> (Err (TransitionErr e), es))
      | other \<Rightarrow> (Err (NotAwaitingApproval other), es))"

definition reject :: "string \<Rightarrow> execution_state \<Rightarrow> execution_state" where
  "reject reason es = fail_to (''approval rejected: '' @ reason) es"

definition merge_child :: "json option \<Rightarrow> json \<Rightarrow> json" where
  "merge_child child_context context =
     (case child_context of
        None \<Rightarrow> context
      | Some child_ctx \<Rightarrow>
          (let parent = (if is_object context then context else JObject []) in
           case (as_object parent, as_object child_ctx) of
             (Some p, Some c) \<Rightarrow> JObject (foldl (\<lambda>acc (k, v). bt_insert k v acc) p c)
           | _ \<Rightarrow> parent))"

definition complete_invoke ::
  "json option \<Rightarrow> execution_state \<Rightarrow> (unit, execution_error) result \<times> execution_state" where
  "complete_invoke child_context es =
     (case es_status es of
        AwaitingInvoke _ on_complete _ _ \<Rightarrow>
          (Ok (), es\<lparr>es_context := merge_child child_context (es_context es), es_current_state := on_complete,
             es_status := (if state_is_final (es_definition es) on_complete then Completed else Running)\<rparr>)
      | other \<Rightarrow> (Err (NotAwaitingInvoke other), es))"

definition fail_invoke ::
  "string \<Rightarrow> execution_state \<Rightarrow> (unit, execution_error) result \<times> execution_state" where
  "fail_invoke error es =
     (case es_status es of
        AwaitingInvoke _ _ on_fail _ \<Rightarrow>
          (case on_fail of
             Some fail_state \<Rightarrow> (Ok (), es\<lparr>es_current_state := fail_state, es_status := Running\<rparr>)
           | None \<Rightarrow> (Ok (), fail_to (''sub-machine failed: '' @ error) es))
      | other \<Rightarrow> (Err (NotAwaitingInvoke other), es))"

section \<open>Invariants of an execution\<close>

text \<open>The length of the final block of steps made in state \<open>s\<close>.\<close>

definition block :: "string \<Rightarrow> step_record list \<Rightarrow> nat" where
  "block s rs = length (takeWhile (\<lambda>r. sr_state r = s) (rev rs))"

definition iterations_bounded :: "machine_definition \<Rightarrow> step_record list \<Rightarrow> bool" where
  "iterations_bounded d rs \<longleftrightarrow>
     (\<forall>s sd limit k. bt_get (md_states d) s = Some sd \<and> sd_max_iterations sd = Some limit \<longrightarrow>
        block s (take k rs) \<le> unat limit)"

definition status_ok :: "as_f64_fn \<Rightarrow> execution_state \<Rightarrow> bool" where
  "status_ok f es \<longleftrightarrow>
     (case es_status es of
        AwaitingApproval event _ \<Rightarrow>
          (\<exists>r. resolve_transition f (es_current_state es) event JNull (es_context es) (es_definition es) = Ok r \<and>
             tr_requires_approval r)
      | Completed \<Rightarrow> state_is_final (es_definition es) (es_current_state es)
      | _ \<Rightarrow> True)"

text \<open>Everything a client can do with an execution of machine \<open>d\<close>.\<close>

inductive exec_reach :: "'w llm_env \<Rightarrow> machine_definition \<Rightarrow> execution_state \<Rightarrow> bool" for env d where
  exec_start: "exec_reach env d (execution_new d)"
| exec_step: "exec_reach env d es \<Longrightarrow> step env es w = Returns (res, es', w') \<Longrightarrow> exec_reach env d es'"
| exec_approve: "exec_reach env d es \<Longrightarrow> approve (le_as_f64 env) es = (res', es') \<Longrightarrow> exec_reach env d es'"
| exec_reject: "exec_reach env d es \<Longrightarrow> exec_reach env d (reject reason es)"
| exec_complete: "exec_reach env d es \<Longrightarrow> complete_invoke child es = (res', es') \<Longrightarrow> exec_reach env d es'"
| exec_fail: "exec_reach env d es \<Longrightarrow> fail_invoke error es = (res', es') \<Longrightarrow> exec_reach env d es'"

lemma block_push: "block s (rs @ [r]) = (if sr_state r = s then Suc (block s rs) else 0)"
  by (simp add: block_def)

lemma bounded_push:
  assumes "iterations_bounded d rs"
    and "\<And>sd limit. bt_get (md_states d) (sr_state r) = Some sd \<Longrightarrow> sd_max_iterations sd = Some limit \<Longrightarrow>
      block (sr_state r) rs < unat limit"
  shows "iterations_bounded d (rs @ [r])"
  unfolding iterations_bounded_def
proof (intro allI impI)
  fix s sd limit k
  assume s: "bt_get (md_states d) s = Some sd \<and> sd_max_iterations sd = Some limit"
  show "block s (take k (rs @ [r])) \<le> unat limit"
  proof (cases "k \<le> length rs")
    case True
    then show ?thesis using assms(1) s by (auto simp: iterations_bounded_def)
  next
    case False
    then have "take k (rs @ [r]) = rs @ [r]" by simp
    then show ?thesis using assms(2) s by (auto simp: block_push Suc_le_eq)
  qed
qed

lemma not_exhausted:
  assumes "iterations_bounded (es_definition es) (es_steps es)" "iterations_exhausted es = None"
    "bt_get (md_states (es_definition es)) (es_current_state es) = Some sd" "sd_max_iterations sd = Some limit"
  shows "block (es_current_state es) (es_steps es) < unat limit"
proof -
  have "block (es_current_state es) (take (length (es_steps es)) (es_steps es)) \<le> unat limit"
    using assms unfolding iterations_bounded_def by blast
  then have le: "block (es_current_state es) (es_steps es) \<le> unat limit" by simp
  moreover have "unat limit < 2 ^ 32" by (rule unat_u32)
  ultimately have "unat (steps_in_state es) = block (es_current_state es) (es_steps es)"
    by (simp add: steps_in_state_def block_def [symmetric] unat_of_nat)
  moreover have "\<not> limit \<le> steps_in_state es"
    using assms by (auto simp: iterations_exhausted_def current_def_def split: if_splits)
  ultimately show ?thesis by (simp add: word_le_nat_alt)
qed

lemma exec_fields [simp]:
  "es_definition (fail_to e es) = es_definition es" "es_steps (fail_to e es) = es_steps es"
  "es_definition (take_transition ev r es) = es_definition es" "es_steps (take_transition ev r es) = es_steps es"
  "es_definition (fail_transition f e es) = es_definition es" "es_steps (fail_transition f e es) = es_steps es"
  "es_definition (push_record rec es) = es_definition es" "es_steps (push_record rec es) = es_steps es @ [rec]"
  "es_status (push_record rec es) = es_status es" "es_current_state (push_record rec es) = es_current_state es"
  "es_context (push_record rec es) = es_context es"
  by (auto simp: fail_to_def take_transition_def fail_transition_def push_record_def Let_def
      split: option.splits sum.splits)

lemma status_ok_push [simp]: "status_ok f (push_record rec es) = status_ok f es"
  by (cases "es_status es") (simp_all add: status_ok_def)

lemma status_ok_fail [simp]: "status_ok f (fail_to e es)" "status_ok f (fail_transition f' e es)"
  by (auto simp: status_ok_def fail_to_def fail_transition_def split: sum.splits)

lemma status_ok_take:
  assumes "resolve_transition f (es_current_state es) event JNull (es_context es) (es_definition es) = Ok r"
    "es_status es = Running"
  shows "status_ok f (take_transition event r es)"
  using assms by (auto simp: status_ok_def take_transition_def Let_def split: option.splits)

text \<open>What a step does to the execution, by cases on the answer.\<close>

lemma process_action_steps:
  assumes "process_action f raw action es = (res, es')"
  shows "es_definition es' = es_definition es \<and>
    (es_steps es' = es_steps es \<or>
     (\<exists>rec. es_steps es' = es_steps es @ [rec] \<and> sr_state rec = es_current_state es \<and> res = Ok rec))"
  using assms
  by (auto simp: process_action_def Let_def split: option.splits if_splits sum.splits transition_error.splits)

lemma process_action_status:
  assumes "process_action f raw action es = (res, es')" "es_status es = Running"
  shows "status_ok f es'"
proof -
  have "status_ok f (es\<lparr>es_step_count := n\<rparr>)" for n using assms(2) by (simp add: status_ok_def)
  moreover have "status_ok f (take_transition ev r (es\<lparr>es_step_count := n\<rparr>))"
    if "resolve_transition f (es_current_state es) ev JNull (es_context es) (es_definition es) = Ok r" for ev r n
    using that assms(2) by (intro status_ok_take) auto
  ultimately show ?thesis
    using assms(1)
    by (auto simp: process_action_def Let_def split: option.splits if_splits sum.splits transition_error.splits)
qed

lemma step_cases:
  assumes "step env es w = Returns (res, es', w')"
  obtains (idle) "es' = es" "\<exists>e. res = Err e"
    | (limit) limit where "iterations_exhausted es = Some limit" "es_status es = Running"
        "es' = es\<lparr>es_status := Failed (max_iterations_message (es_current_state es) limit)\<rparr>" "\<exists>e. res = Err e"
    | (act) raw action where "iterations_exhausted es = None" "es_status es = Running"
        "parse_llm_response (le_parse_action env) raw = Returns action"
        "process_action (le_as_f64 env) raw action es = (res, es')"
  using assms
  by (auto simp: step_def split: if_splits option.splits prod.splits sum.splits outcome.splits)

lemma exec_invariant:
  assumes "exec_reach env d es"
  shows "es_definition es = d \<and> status_ok (le_as_f64 env) es \<and> iterations_bounded d (es_steps es)"
  using assms
proof induction
  case exec_start
  then show ?case
    by (simp add: execution_new_def status_ok_def iterations_bounded_def block_def)
next
  case (exec_step es w res es' w')
  from exec_step(2) show ?case
  proof (cases rule: step_cases)
    case idle
    then show ?thesis using exec_step.IH by simp
  next
    case (limit lim)
    then show ?thesis using exec_step.IH by (simp add: status_ok_def)
  next
    case (act raw action)
    note ps = process_action_steps [OF act(4)] and st = process_action_status [OF act(4,2)]
    have "iterations_bounded d (es_steps es @ [rec])" if "sr_state rec = es_current_state es" for rec
      using exec_step.IH that not_exhausted [of es] act(1) by (intro bounded_push) auto
    then show ?thesis using ps st exec_step.IH by auto
  qed
next
  case (exec_approve es res' es')
  then show ?case
    by (auto simp: approve_def status_ok_def split: execution_status.splits sum.splits if_splits)
next
  case (exec_reject es reason)
  then show ?case by (simp add: reject_def)
next
  case (exec_complete es child res' es')
  then show ?case
    by (auto simp: complete_invoke_def status_ok_def split: execution_status.splits if_splits)
next
  case (exec_fail es error res' es')
  then show ?case
    by (auto simp: fail_invoke_def status_ok_def split: execution_status.splits option.splits)
      (auto simp: fail_to_def)
qed

section \<open>Properties\<close>

text \<open>
  Reading the model's answer always comes to an end, and it panics exactly on answers that are no
  action and have their last closing brace, and something more, before their first opening brace.
\<close>

theorem parse_llm_response_panics:
  "parse_llm_response from_str raw \<noteq> OutOfFuel \<and>
   (parse_llm_response from_str raw = Panics \<longleftrightarrow>
      from_str (trim raw) = None \<and>
      (\<exists>a b c. trim raw = a @ CHR ''}'' # b @ CHR ''{'' # c \<and> b \<noteq> [] \<and>
         CHR ''{'' \<notin> set (a @ b) \<and> CHR ''}'' \<notin> set (b @ c)))"
proof -
  let ?s = "trim raw"
  let ?f = "char_find (\<lambda>c. c = CHR ''{'') ?s" and ?r = "char_rfind (\<lambda>c. c = CHR ''}'') ?s"
  have "parse_llm_response from_str raw = Panics \<longleftrightarrow>
      from_str ?s = None \<and> (\<exists>i j. ?f = Some i \<and> ?r = Some j \<and> j + 1 < i)"
    by (auto simp: parse_llm_response_def Let_def split: option.splits)
  also have "\<dots> \<longleftrightarrow> from_str ?s = None \<and>
      (\<exists>a b c. ?s = a @ CHR ''}'' # b @ CHR ''{'' # c \<and> b \<noteq> [] \<and>
         CHR ''{'' \<notin> set (a @ b) \<and> CHR ''}'' \<notin> set (b @ c))"
    (is "?L \<longleftrightarrow> ?R")
  proof
    assume ?L
    then obtain a1 c1 a2 c2 where 1: "?s = a1 @ CHR ''{'' # c1" "CHR ''{'' \<notin> set a1"
        and 2: "?s = a2 @ CHR ''}'' # c2" "CHR ''}'' \<notin> set c2" and len: "length a2 + 1 < length a1"
      and n: "from_str ?s = None"
      unfolding char_find_split char_rfind_split by blast
    from 1(1) 2(1) have e: "a1 @ CHR ''{'' # c1 = (a2 @ [CHR ''}'']) @ c2" by simp
    then obtain b where b: "a1 = (a2 @ [CHR ''}'']) @ b" "c2 = b @ CHR ''{'' # c1"
      using len by (cases "drop (length a2) a1") (auto simp: append_eq_append_conv2 Cons_eq_append_conv)
    then have "b \<noteq> []" using len by auto
    then show ?R using 1 2 b n by (intro conjI exI [of _ a2] exI [of _ b] exI [of _ c1]) auto
  next
    assume R: ?R
    then obtain a b c where abc: "?s = a @ CHR ''}'' # b @ CHR ''{'' # c" "b \<noteq> []"
        "CHR ''{'' \<notin> set (a @ b)" "CHR ''}'' \<notin> set (b @ c)" by blast
    have "?f = Some (length (a @ CHR ''}'' # b))"
      unfolding char_find_split by (rule exI [of _ "a @ CHR ''}'' # b"]) (use abc in auto)
    moreover have "?r = Some (length a)"
      unfolding char_rfind_split by (rule exI [of _ a]) (use abc in auto)
    ultimately show ?L using R abc(2) by (cases b) auto
  qed
  finally show ?thesis
    by (auto simp: parse_llm_response_def Let_def split: option.splits)
qed

theorem parse_llm_response_panics_witness:
  "parse_llm_response (\<lambda>_. None) ''done} next {plan'' = Panics"
proof -
  have "trim ''done} next {plan'' = ''done'' @ CHR ''}'' # '' next '' @ CHR ''{'' # ''plan''" by code_simp
  then have "\<exists>a b c. trim ''done} next {plan'' = a @ CHR ''}'' # b @ CHR ''{'' # c \<and> b \<noteq> [] \<and>
      CHR ''{'' \<notin> set (a @ b) \<and> CHR ''}'' \<notin> set (b @ c)"
    by (intro exI [of _ "''done''"] exI [of _ "'' next ''"] exI [of _ "''plan''"]) simp
  then show ?thesis using parse_llm_response_panics [of "\<lambda>_. None" "''done} next {plan''"] by simp
qed

text \<open>
  C5: in every execution that can be reached by steps, approvals, rejections and returns from
  sub-machines: a completed execution is in a final state, a pending approval can always be granted
  and then moves to the state that was proposed, and no state was ever worked on for more consecutive
  steps than its iteration limit.
\<close>

theorem execution_invariant:
  assumes "exec_reach env d es"
  shows "(es_status es = Completed \<longrightarrow> state_is_final d (es_current_state es)) \<and>
    (\<forall>event msg. es_status es = AwaitingApproval event msg \<longrightarrow>
       (\<exists>r es'. resolve_transition (le_as_f64 env) (es_current_state es) event JNull (es_context es) d = Ok r \<and>
          tr_requires_approval r \<and> approve (le_as_f64 env) es = (Ok (), es') \<and>
          es_current_state es' = tr_new_state r \<and> es_status es' \<in> {Running, Completed})) \<and>
    (\<forall>s sd limit pre post. bt_get (md_states d) s = Some sd \<and> sd_max_iterations sd = Some limit \<and>
       es_steps es = pre @ post \<longrightarrow> block s pre \<le> unat limit)"
proof -
  note inv = exec_invariant [OF assms]
  have "block s pre \<le> unat limit"
    if "bt_get (md_states d) s = Some sd" "sd_max_iterations sd = Some limit" "es_steps es = pre @ post"
    for s sd limit pre post
  proof -
    have "block s (take (length pre) (es_steps es)) \<le> unat limit"
      using inv that(1,2) unfolding iterations_bounded_def by blast
    then show ?thesis using that(3) by simp
  qed
  then show ?thesis using inv by (auto simp: status_ok_def approve_def)
qed

definition quiet_env :: "unit llm_env" where
  "quiet_env = \<lparr>le_chat = (\<lambda>w _. (Ok ''{}'', w)),
     le_parse_action = (\<lambda>_. Some \<lparr>la_transition = Some ''TESTS_PASS'', la_error = None, la_tool_calls = None\<rparr>),
     le_pretty = (\<lambda>_. None), le_as_f64 = (\<lambda>_. None), le_debug_status = (\<lambda>_. [])\<rparr>"

definition gated_machine :: machine_definition where
  "gated_machine = \<lparr>md_id = ''gated'', md_initial = ''plan'', md_context = JObject [],
     md_states =
       [(''done'', empty_state_def\<lparr>sd_state_type := Some Final\<rparr>),
        (''failed'', empty_state_def\<lparr>sd_state_type := Some Final\<rparr>),
        (''plan'', empty_state_def\<lparr>sd_max_iterations := Some 3, sd_on :=
           [(''FAIL'', Simple ''failed''),
            (''TESTS_PASS'', Full \<lparr>ft_target = ''done'', ft_guard = None, ft_guards = None,
               ft_requires_approval = Some True, ft_approval_message = None, ft_approval_reviewer = None\<rparr>)]\<rparr>)],
     md_guards = [], md_meta = None, md_interrupts = []\<rparr>"

lemma gated_step:
  "\<exists>es. step quiet_env (execution_new gated_machine) () =
     Returns (Ok (es_steps es ! 0), es, ()) \<and> es_status es = AwaitingApproval ''TESTS_PASS'' ''Approval required''"
  by (simp add: step_def execution_new_def iterations_exhausted_def current_def_def gated_machine_def
      empty_state_def_def steps_in_state_def quiet_env_def parse_llm_response_def process_action_def
      resolve_transition_def take_transition_def moved_result_def resolve_return_target_def
      return_target_def push_record_def Let_def)

theorem execution_invariant_witness:
  "\<exists>es es'. exec_reach quiet_env gated_machine es \<and> es_status es = AwaitingApproval ''TESTS_PASS'' ''Approval required'' \<and>
     approve (\<lambda>_. None) es = (Ok (), es')"
proof -
  obtain es where es: "step quiet_env (execution_new gated_machine) () = Returns (Ok (es_steps es ! 0), es, ())"
      "es_status es = AwaitingApproval ''TESTS_PASS'' ''Approval required''"
    using gated_step by blast
  have reach: "exec_reach quiet_env gated_machine es" by (rule exec_step [OF exec_start es(1)])
  have "le_as_f64 quiet_env = (\<lambda>_. None)" by (simp add: quiet_env_def)
  with es(2) reach show ?thesis using execution_invariant [OF reach] by fastforce
qed


definition open_machine :: machine_definition where
  "open_machine = gated_machine\<lparr>md_states :=
     [(''done'', empty_state_def\<lparr>sd_state_type := Some Final\<rparr>),
      (''plan'', empty_state_def\<lparr>sd_on := [(''TESTS_PASS'', Simple ''done'')]\<rparr>)]\<rparr>"

lemma open_step:
  "\<exists>es res. step quiet_env (execution_new open_machine) () = Returns (res, es, ()) \<and> es_status es = Completed \<and>
     es_current_state es \<noteq> es_current_state (execution_new open_machine)"
  by (simp add: step_def execution_new_def iterations_exhausted_def current_def_def open_machine_def
      gated_machine_def empty_state_def_def quiet_env_def parse_llm_response_def process_action_def
      resolve_transition_def take_transition_def moved_result_def resolve_return_target_def
      return_target_def push_record_def state_is_final_def is_final_def_def Let_def)


end
