(* ===== verification/Orchestrator.thy ===== *)
theory Orchestrator
  imports Executor
begin

text \<open>
  The orchestrator (\<open>crates/agent/src/orchestrator.rs\<close>), which runs a machine to completion and its
  sub-machines recursively. The loop of the orchestrator has no bound that is visible in its text, so
  it is modelled with fuel, and a theorem shows that it returns.
\<close>

record orchestrator =
  or_registry :: machine_registry
  or_max_child_steps :: u32
  or_max_depth :: u32

record execution_result =
  er_success :: bool
  er_final_state :: string
  er_context :: json
  er_total_steps :: u32
  er_invocations :: u32
  er_error :: "string option"

definition orchestrator_new :: "u32 \<Rightarrow> u32 \<Rightarrow> orchestrator" where
  "orchestrator_new max_child_steps max_depth =
     \<lparr>or_registry = registry_new, or_max_child_steps = max_child_steps, or_max_depth = max_depth\<rparr>"

definition orchestrator_register :: "string \<Rightarrow> machine_definition \<Rightarrow> orchestrator \<Rightarrow> orchestrator" where
  "orchestrator_register name d o' = o'\<lparr>or_registry := registry_register name d (or_registry o')\<rparr>"

definition exec_result :: "execution_state \<Rightarrow> bool \<Rightarrow> u32 \<Rightarrow> u32 \<Rightarrow> string option \<Rightarrow> execution_result" where
  "exec_result es success total_steps invocations error =
     \<lparr>er_success = success, er_final_state = es_current_state es, er_context = es_context es,
      er_total_steps = total_steps, er_invocations = invocations, er_error = error\<rparr>"

definition too_deep :: "orchestrator \<Rightarrow> execution_result" where
  "too_deep orc = \<lparr>er_success = False, er_final_state = ''failed'', er_context = JNull, er_total_steps = 0,
     er_invocations = 0, er_error = Some (''max invoke depth ('' @ show_word (or_max_depth orc) @ '') exceeded'')\<rparr>"

definition resume_parent :: "execution_result \<Rightarrow> execution_state \<Rightarrow> execution_state" where
  "resume_parent child es =
     (if er_success child then snd (complete_invoke (Some (er_context child)) es)
      else snd (fail_invoke (unwrap_or ''child failed'' (er_error child)) es))"

fun run_at_depth ::
    "nat \<Rightarrow> 'w llm_env \<Rightarrow> orchestrator \<Rightarrow> machine_definition \<Rightarrow> u32 \<Rightarrow> u32 \<Rightarrow> 'w \<Rightarrow> (execution_result \<times> 'w) outcome"
  and run_loop ::
    "nat \<Rightarrow> 'w llm_env \<Rightarrow> orchestrator \<Rightarrow> u32 \<Rightarrow> u32 \<Rightarrow> execution_state \<Rightarrow> u32 \<Rightarrow> u32 \<Rightarrow> 'w \<Rightarrow>
     (execution_result \<times> 'w) outcome" where
  "run_at_depth 0 env orc d max_steps depth w = OutOfFuel"
| "run_at_depth (Suc n) env orc d max_steps depth w =
     (if depth > or_max_depth orc then Returns (too_deep orc, w)
      else run_loop n env orc max_steps depth (execution_new d) 0 0 w)"
| "run_loop 0 env orc max_steps depth es total_steps invocations w = OutOfFuel"
| "run_loop (Suc n) env orc max_steps depth es total_steps invocations w =
     (if total_steps \<ge> max_steps then
        Returns (exec_result es False total_steps invocations
          (Some (''max steps ('' @ show_word max_steps @ '') exceeded in '' @ quoted (md_id (es_definition es)))), w)
      else
        (case es_status es of
           Completed \<Rightarrow> Returns (exec_result es True total_steps invocations None, w)
         | Failed error \<Rightarrow> Returns (exec_result es False total_steps invocations (Some error), w)
         | AwaitingApproval _ _ \<Rightarrow>
             run_loop n env orc max_steps depth (snd (approve (le_as_f64 env) es)) total_steps invocations w
         | AwaitingInvoke machine _ _ _ \<Rightarrow>
             (case registry_get (or_registry orc) machine of
                None \<Rightarrow>
                  run_loop n env orc max_steps depth
                    (snd (fail_invoke (''sub-machine '' @ quoted machine @ '' not found in registry'') es))
                    total_steps (invocations + 1) w
              | Some child_def \<Rightarrow>
                  (case run_at_depth n env orc child_def (or_max_child_steps orc) (depth + 1) w of
                     Returns (child, w') \<Rightarrow>
                       run_loop n env orc max_steps depth
                         (resume_parent child es) (total_steps + er_total_steps child) (invocations + 1 + er_invocations child) w'
                   | Panics \<Rightarrow> Panics
                   | OutOfFuel \<Rightarrow> OutOfFuel))
         | Running \<Rightarrow>
             (case step env es w of
                Returns (Ok _, es', w') \<Rightarrow> run_loop n env orc max_steps depth es' (total_steps + 1) invocations w'
              | Returns (Err e, es', w') \<Rightarrow>
                  Returns (exec_result es' False total_steps invocations (Some (show_execution_error env e)), w')
              | Panics \<Rightarrow> Panics
              | OutOfFuel \<Rightarrow> OutOfFuel)))"

definition orchestrator_run ::
  "nat \<Rightarrow> 'w llm_env \<Rightarrow> orchestrator \<Rightarrow> machine_definition \<Rightarrow> u32 \<Rightarrow> 'w \<Rightarrow> (execution_result \<times> 'w) outcome" where
  "orchestrator_run fuel env orc d max_steps w = run_at_depth fuel env orc d max_steps 0 w"

section \<open>The orchestrator returns\<close>

declare run_at_depth.simps [simp del] run_loop.simps [simp del]

lemmas run_simps = run_at_depth.simps run_loop.simps

lemma run_mono_Suc:
  "run_at_depth n env orc d M dep w \<noteq> OutOfFuel \<Longrightarrow>
     run_at_depth (Suc n) env orc d M dep w = run_at_depth n env orc d M dep w"
  "run_loop n env orc M dep es t i w \<noteq> OutOfFuel \<Longrightarrow>
     run_loop (Suc n) env orc M dep es t i w = run_loop n env orc M dep es t i w"
proof (induction n env orc d M dep w and n env orc M dep es t i w rule: run_at_depth_run_loop.induct)
  case (1 env orc d M dep w)
  then show ?case by (simp add: run_simps)
next
  case (2 n env orc d M dep w)
  then show ?case by (simp add: run_simps(2) split: if_splits)
next
  case (3 env orc M dep es t i w)
  then show ?case by (simp add: run_simps)
next
  case (4 n env orc M dep es t i w)
  show ?case
  proof (cases "t \<ge> M")
    case True
    then show ?thesis by (simp add: run_simps(4))
  next
    case False
    show ?thesis
    proof (cases "es_status es")
      case Running
      with 4 False show ?thesis
        by (auto simp: run_simps(4) [of "Suc n" env orc M dep es t i w] run_simps(4) [of n env orc M dep es t i w] split: outcome.splits sum.splits)
    next
      case (AwaitingInvoke m oc onf inp)
      with 4 False show ?thesis
        by (auto simp: run_simps(4) [of "Suc n" env orc M dep es t i w] run_simps(4) [of n env orc M dep es t i w] split: outcome.splits option.splits)
    qed (use 4 False in \<open>auto simp: run_simps(4) [of "Suc n" env orc M dep es t i w] run_simps(4) [of n env orc M dep es t i w]\<close>)
  qed
qed

lemma run_mono:
  assumes "n \<le> m"
  shows "run_at_depth n env orc d M dep w \<noteq> OutOfFuel \<Longrightarrow>
      run_at_depth m env orc d M dep w = run_at_depth n env orc d M dep w"
    and "run_loop n env orc M dep es t i w \<noteq> OutOfFuel \<Longrightarrow>
      run_loop m env orc M dep es t i w = run_loop n env orc M dep es t i w"
  using assms by (induction m rule: dec_induct) (auto simp: run_mono_Suc)

definition bounded_outcome :: "nat \<Rightarrow> (execution_result \<times> 'w) outcome \<Rightarrow> bool" where
  "bounded_outcome B out \<longleftrightarrow> out \<noteq> OutOfFuel \<and> (\<forall>r w. out = Returns (r, w) \<longrightarrow> unat (er_total_steps r) \<le> B)"

lemma bounded_outcome_fuel: "bounded_outcome B out \<Longrightarrow> out \<noteq> OutOfFuel"
  by (simp add: bounded_outcome_def)

fun pending :: "execution_status \<Rightarrow> nat" where
  "pending (AwaitingApproval _ _) = 1"
| "pending (AwaitingInvoke _ _ _ _) = 1"
| "pending _ = 0"

lemma pending_approve: "exec_reach env d es \<Longrightarrow> es_status es = AwaitingApproval ev msg \<Longrightarrow>
   pending (es_status (snd (approve (le_as_f64 env) es))) = 0"
  by (drule exec_invariant) (auto simp: status_ok_def approve_def)

lemma pending_invoke:
  "es_status es = AwaitingInvoke m oc onf inp \<Longrightarrow> pending (es_status (snd (complete_invoke c es))) = 0"
  "es_status es = AwaitingInvoke m oc onf inp \<Longrightarrow> pending (es_status (snd (fail_invoke e es))) = 0"
  by (auto simp: complete_invoke_def fail_invoke_def fail_to_def split: option.splits)

lemma step_no_fuel: "step env es w \<noteq> OutOfFuel"
proof -
  have "parse_llm_response (le_parse_action env) raw \<noteq> OutOfFuel" for raw
    by (auto simp: parse_llm_response_def Let_def split: option.splits)
  then show ?thesis
    by (auto simp: step_def split: option.splits prod.splits sum.splits outcome.splits)
qed

lemma exec_reach_snd:
  assumes "exec_reach env d es"
  shows "exec_reach env d (snd (approve (le_as_f64 env) es))" "exec_reach env d (snd (complete_invoke c es))"
    "exec_reach env d (snd (fail_invoke e es))"
  using exec_approve [OF assms] exec_complete [OF assms] exec_fail [OF assms] by (metis prod.collapse)+

text \<open>One round of the loop, by the status it finds: it stops, or it goes on with a later state.\<close>

lemma loop_stops:
  assumes "t \<ge> M \<or> es_status es = Completed \<or> (\<exists>e. es_status es = Failed e)" "unat t \<le> B"
  shows "\<exists>n. bounded_outcome B (run_loop n env orc M dep es t i w)"
proof -
  have "bounded_outcome B (run_loop (Suc 0) env orc M dep es t i w)"
    using assms by (cases "t \<ge> M") (auto simp: run_simps bounded_outcome_def exec_result_def)
  then show ?thesis ..
qed

lemma loop_approves:
  assumes "\<not> t \<ge> M" "es_status es = AwaitingApproval ev msg"
    and "\<exists>n. bounded_outcome B (run_loop n env orc M dep (snd (approve (le_as_f64 env) es)) t i w)"
  shows "\<exists>n. bounded_outcome B (run_loop n env orc M dep es t i w)"
proof -
  obtain n where "bounded_outcome B (run_loop n env orc M dep (snd (approve (le_as_f64 env) es)) t i w)"
    using assms(3) by blast
  then have "bounded_outcome B (run_loop (Suc n) env orc M dep es t i w)"
    using assms(1,2) by (simp add: run_simps(4))
  then show ?thesis ..
qed

lemma loop_steps:
  assumes "\<not> t \<ge> M" "es_status es = Running" "unat t \<le> B"
    and "\<And>r es' w'. step env es w = Returns (Ok r, es', w') \<Longrightarrow>
      \<exists>n. bounded_outcome B (run_loop n env orc M dep es' (t + 1) i w')"
  shows "\<exists>n. bounded_outcome B (run_loop n env orc M dep es t i w)"
proof (cases "\<exists>r es' w'. step env es w = Returns (Ok r, es', w')")
  case True
  then obtain r es' w' n where "step env es w = Returns (Ok r, es', w')"
    "bounded_outcome B (run_loop n env orc M dep es' (t + 1) i w')" using assms(4) by blast
  then have "bounded_outcome B (run_loop (Suc n) env orc M dep es t i w)"
    using assms(1,2) by (simp add: run_simps(4))
  then show ?thesis ..
next
  case False
  then have "bounded_outcome B (run_loop (Suc 0) env orc M dep es t i w)"
    using assms(1-3) step_no_fuel [of env es w]
    by (auto simp: run_simps(4) bounded_outcome_def exec_result_def split: outcome.splits sum.splits)
  then show ?thesis ..
qed

lemma loop_invokes:
  assumes "\<not> t \<ge> M" "es_status es = AwaitingInvoke m oc onf inp"
    and child: "\<And>cd. registry_get (or_registry orc) m = Some cd \<Longrightarrow>
      \<exists>n. bounded_outcome C (run_at_depth n env orc cd (or_max_child_steps orc) (dep + 1) w)"
    and missing: "registry_get (or_registry orc) m = None \<Longrightarrow>
      \<exists>n. bounded_outcome B (run_loop n env orc M dep
        (snd (fail_invoke (''sub-machine '' @ quoted m @ '' not found in registry'') es)) t (i + 1) w)"
    and resumed: "\<And>r w'. unat (er_total_steps r) \<le> C \<Longrightarrow>
      \<exists>n. bounded_outcome B (run_loop n env orc M dep (resume_parent r es) (t + er_total_steps r) (i + 1 + er_invocations r) w')"
  shows "\<exists>n. bounded_outcome B (run_loop n env orc M dep es t i w)"
proof (cases "registry_get (or_registry orc) m")
  case None
  then obtain n where "bounded_outcome B (run_loop n env orc M dep
      (snd (fail_invoke (''sub-machine '' @ quoted m @ '' not found in registry'') es)) t (i + 1) w)" using missing by blast
  then have "bounded_outcome B (run_loop (Suc n) env orc M dep es t i w)"
    using assms(1,2) None by (simp add: run_simps(4))
  then show ?thesis ..
next
  case (Some cd)
  obtain n1 where n1: "bounded_outcome C (run_at_depth n1 env orc cd (or_max_child_steps orc) (dep + 1) w)"
    using child [OF Some] by blast
  show ?thesis
  proof (cases "run_at_depth n1 env orc cd (or_max_child_steps orc) (dep + 1) w")
    case (Returns x)
    obtain r w' where x: "x = (r, w')" by (cases x)
    let ?es = "resume_parent r es" and ?t = "t + er_total_steps r" and ?i = "i + 1 + er_invocations r"
    have "unat (er_total_steps r) \<le> C" using n1 Returns x by (simp add: bounded_outcome_def)
    then obtain n2 where n2: "bounded_outcome B (run_loop n2 env orc M dep ?es ?t ?i w')" using resumed by blast
    let ?n = "max n1 n2"
    have "run_at_depth ?n env orc cd (or_max_child_steps orc) (dep + 1) w = Returns (r, w')"
      using run_mono(1) [of n1 ?n env] Returns x by simp
    moreover have "bounded_outcome B (run_loop ?n env orc M dep ?es ?t ?i w')"
      using run_mono(2) [of n2 ?n env] n2 bounded_outcome_fuel [OF n2] by simp
    ultimately have "bounded_outcome B (run_loop (Suc ?n) env orc M dep es t i w)"
      using assms(1,2) Some by (simp add: run_simps(4))
    then show ?thesis ..
  next
    case Panics
    then have "bounded_outcome B (run_loop (Suc n1) env orc M dep es t i w)"
      using assms(1,2) Some by (simp add: run_simps(4) bounded_outcome_def)
    then show ?thesis ..
  qed (use n1 bounded_outcome_fuel in auto)
qed

lemma run_loop_returns:
  fixes env :: "'w llm_env"
  assumes child: "\<And>d' w. \<exists>n. bounded_outcome B (run_at_depth n env orc d' (or_max_child_steps orc) (dep + 1) w)"
    and fits: "unat M + B < 2 ^ 32"
  shows "exec_reach env d es \<Longrightarrow> unat t \<le> unat M + B \<Longrightarrow>
    \<exists>n. bounded_outcome (unat M + B) (run_loop n env orc M dep es t i w)"
proof (induction "2 * (unat M - unat t) + pending (es_status es)" arbitrary: es t i w rule: less_induct)
  case less
  note IH = less.hyps and reach = less.prems(1) and t = less.prems(2)
  show ?case
  proof (cases "t \<ge> M")
    case False
    then have tM: "unat t < unat M" by (simp add: word_le_nat_alt not_le)
    have add: "unat (t + k) = unat t + unat k" if "unat k \<le> B \<or> unat k \<le> 1" for k
    proof -
      have "unat t + unat k < 2 ^ 32" using that tM fits by auto
      then show ?thesis using unat_add_lem [of t k] by simp
    qed
    show ?thesis
    proof (cases "es_status es")
      case (AwaitingApproval ev msg)
      let ?es = "snd (approve (le_as_f64 env) es)"
      show ?thesis
        using IH [of t ?es] pending_approve [OF reach AwaitingApproval] AwaitingApproval exec_reach_snd [OF reach] t
        by (intro loop_approves [OF False AwaitingApproval]) force
    next
      case Running
      show ?thesis
      proof (rule loop_steps [OF False Running t])
        fix r es' w'
        assume "step env es w = Returns (Ok r, es', w')"
        then have "exec_reach env d es'" using exec_step [OF reach] by blast
        moreover have "pending (es_status es') \<le> 1" by (cases "es_status es'") auto
        ultimately show "\<exists>n. bounded_outcome (unat M + B) (run_loop n env orc M dep es' (t + 1) i w')"
          using IH [of "t + 1" es'] add [of 1] tM Running by force
      qed
    next
      case (AwaitingInvoke m oc onf inp)
      note pend = pending_invoke [OF AwaitingInvoke]
      have cont: "\<exists>n. bounded_outcome (unat M + B) (run_loop n env orc M dep es' (t + k) i' w')"
        if "exec_reach env d es'" "pending (es_status es') = 0" "unat k \<le> B" for es' k i' w'
        using IH [of "t + k" es'] that add [of k] tM AwaitingInvoke by force
      show ?thesis
      proof (rule loop_invokes [OF False AwaitingInvoke child])
        show "\<exists>n. bounded_outcome (unat M + B) (run_loop n env orc M dep
            (snd (fail_invoke (''sub-machine '' @ quoted m @ '' not found in registry'') es)) t (i + 1) w)"
          using cont [OF exec_reach_snd(3) [OF reach] pend(2), of 0] unfolding add_0_right unsigned_0 by blast
        fix r :: execution_result and w'
        assume k: "unat (er_total_steps r) \<le> B"
        have "exec_reach env d (resume_parent r es)" "pending (es_status (resume_parent r es)) = 0"
          using exec_reach_snd [OF reach] pend by (auto simp: resume_parent_def)
        from cont [OF this k] show "\<exists>n. bounded_outcome (unat M + B) (run_loop n env orc M dep (resume_parent r es)
            (t + er_total_steps r) (i + 1 + er_invocations r) w')" .
      qed
    qed (use t in \<open>auto intro: loop_stops\<close>)
  qed (use t in \<open>auto intro: loop_stops\<close>)
qed

lemma run_at_depth_returns:
  assumes "unat dep \<le> unat (or_max_depth orc) + 1" "unat (or_max_depth orc) + 1 < 2 ^ 32"
    and "k = unat (or_max_depth orc) + 1 - unat dep"
    and "unat M + k * unat (or_max_child_steps orc) < 2 ^ 32"
    and "k * unat (or_max_child_steps orc) < 2 ^ 32"
  shows "\<exists>n. bounded_outcome (unat M + (k - 1) * unat (or_max_child_steps orc)) (run_at_depth n env orc d M dep w)"
  using assms
proof (induction k arbitrary: dep M d w)
  case 0
  then have "dep > or_max_depth orc" by (simp add: word_less_nat_alt)
  then have "bounded_outcome (unat M + (0 - 1) * unat (or_max_child_steps orc)) (run_at_depth (Suc 0) env orc d M dep w)"
    by (simp add: run_simps bounded_outcome_def too_deep_def)
  then show ?case by blast
next
  case (Suc k)
  let ?C = "unat (or_max_child_steps orc)"
  have le: "\<not> dep > or_max_depth orc" using Suc.prems by (simp add: word_less_nat_alt)
  then have d1: "unat (dep + 1) = unat dep + 1"
    using Suc.prems unat_add_lem [of dep 1] by (simp add: word_less_nat_alt)
  have "\<exists>n. bounded_outcome (k * ?C) (run_at_depth n env orc d' (or_max_child_steps orc) (dep + 1) w')" for d' w'
  proof (cases "k = 0")
    case True
    then have "dep + 1 > or_max_depth orc" using Suc.prems d1 by (simp add: word_less_nat_alt)
    then have "bounded_outcome (k * ?C) (run_at_depth (Suc 0) env orc d' (or_max_child_steps orc) (dep + 1) w')"
      by (simp add: run_simps bounded_outcome_def too_deep_def)
    then show ?thesis by blast
  next
    case False
    then have e: "?C + (k - 1) * ?C = k * ?C" by (cases k) auto
    have "\<exists>n. bounded_outcome (?C + (k - 1) * ?C) (run_at_depth n env orc d' (or_max_child_steps orc) (dep + 1) w')"
    proof (rule Suc.IH)
      show "?C + k * ?C < 2 ^ 32" "k * ?C < 2 ^ 32" using Suc.prems(4) by auto
    qed (use Suc.prems(1-3) d1 in auto)
    then show ?thesis unfolding e .
  qed
  then obtain n where "bounded_outcome (unat M + k * ?C) (run_loop n env orc M dep (execution_new d) 0 0 w)"
  proof -
    have "unat M + k * ?C < 2 ^ 32" using Suc.prems(4) by auto
    then show thesis
      using run_loop_returns [of "k * ?C" env orc dep M d "execution_new d" 0 0 w] exec_start [of env d] that
        \<open>\<And>d' w'. \<exists>n. bounded_outcome (k * ?C) (run_at_depth n env orc d' (or_max_child_steps orc) (dep + 1) w')\<close>
      by auto
  qed
  then have "bounded_outcome (unat M + k * ?C) (run_at_depth (Suc n) env orc d M dep w)"
    using le by (simp add: run_simps)
  then show ?case by auto
qed

text \<open>
  C32: whatever the model answers, an orchestrated run comes to an end: it returns a result (or the
  executor panics on an answer), and the number of steps it reports is bounded by the step limit and
  the limits of the nested runs. The hypotheses say that the configured limits do not overflow the
  32-bit step counter.
\<close>

theorem orchestrator_terminates:
  assumes "unat (or_max_depth orc) + 1 < 2 ^ 32"
    and "unat max_steps + (unat (or_max_depth orc) + 1) * unat (or_max_child_steps orc) < 2 ^ 32"
  shows "\<exists>fuel. orchestrator_run fuel env orc d max_steps w = Panics \<or>
    (\<exists>r w'. orchestrator_run fuel env orc d max_steps w = Returns (r, w') \<and>
       unat (er_total_steps r) \<le> unat max_steps + unat (or_max_depth orc) * unat (or_max_child_steps orc))"
proof -
  let ?k = "unat (or_max_depth orc) + 1"
  obtain n where "bounded_outcome (unat max_steps + (?k - 1) * unat (or_max_child_steps orc))
      (run_at_depth n env orc d max_steps 0 w)"
    using run_at_depth_returns [of 0 orc ?k max_steps env d w] assms by auto
  then show ?thesis
    by (intro exI [of _ n], cases "run_at_depth n env orc d max_steps 0 w")
      (auto simp: bounded_outcome_def orchestrator_run_def)
qed

theorem orchestrator_terminates_witness:
  "\<exists>fuel r w'. orchestrator_run fuel quiet_env (orchestrator_new 5 2) gated_machine 10 () = Panics \<or>
     orchestrator_run fuel quiet_env (orchestrator_new 5 2) gated_machine 10 () = Returns (r, w') \<and>
     unat (er_total_steps r) \<le> 20"
  using orchestrator_terminates [of "orchestrator_new 5 2" 10 quiet_env gated_machine "()"]
  by (auto simp: orchestrator_new_def)

end
