(* ===== verification/Generator.thy ===== *)
theory Generator
  imports AgentValidator OllamaClient
begin

text \<open>
  Machine generation (\<open>crates/agent/src/generator.rs\<close>): the model is asked for a definition until one
  passes agent validation, at most \<open>max_retries\<close> times; each retry carries the errors of the attempt
  before. \<open>send\<close> is the client's \<open>chat\<close>, \<open>from_str\<close> the deserialisation of a definition.
\<close>

record generation_result =
  gr_definition :: machine_definition
  gr_attempts :: u32

datatype generation_error =
    GenOllama ollama_error
  | GenValidation agent_validation_error
  | MaxRetriesExceeded u32 string

fun show_generation_error :: "generation_error \<Rightarrow> string" where
  "show_generation_error (GenOllama e) = ''ollama error: '' @ show_ollama_error e"
| "show_generation_error (GenValidation e) = ''validation error: '' @ show_agent_validation_error e"
| "show_generation_error (MaxRetriesExceeded attempts last_error) =
     ''failed after '' @ show_word attempts @ '' attempts: '' @ last_error"

definition attempt_messages :: "string \<Rightarrow> u32 \<Rightarrow> string \<Rightarrow> chat_message list" where
  "attempt_messages task_description attempt last_error =
     (if attempt = 1 then build_generation_prompt task_description
      else build_generation_prompt task_description @
        [\<lparr>cm_role = ''user'', cm_content =
           ''Your previous attempt was invalid. Fix these errors and try again:'' @ newline @ last_error\<rparr>])"

fun generate_loop ::
  "('w \<Rightarrow> chat_message list \<Rightarrow> (string, ollama_error) result \<times> 'w) \<Rightarrow>
   (string \<Rightarrow> (machine_definition, string) result) \<Rightarrow> string \<Rightarrow> u32 \<Rightarrow> u32 list \<Rightarrow> string \<Rightarrow> 'w \<Rightarrow>
   (generation_result, generation_error) result \<times> 'w" where
  "generate_loop send from_str task max_retries [] last_error w =
     (Err (MaxRetriesExceeded max_retries last_error), w)"
| "generate_loop send from_str task max_retries (attempt # rest) last_error w =
     (case chat_json send from_str w (attempt_messages task attempt last_error) of
        (Err e, w') \<Rightarrow> generate_loop send from_str task max_retries rest (show_ollama_error e) w'
      | (Ok d, w') \<Rightarrow>
          (case validate_agent_machine d of
             Ok _ \<Rightarrow> (Ok \<lparr>gr_definition = d, gr_attempts = attempt\<rparr>, w')
           | Err e \<Rightarrow> generate_loop send from_str task max_retries rest (join ''; '' (ae_errors e)) w'))"

definition attempts_upto :: "u32 \<Rightarrow> u32 list" where
  "attempts_upto max_retries = map word_of_nat [1..<Suc (unat max_retries)]"

definition generate_machine ::
  "('w \<Rightarrow> chat_message list \<Rightarrow> (string, ollama_error) result \<times> 'w) \<Rightarrow>
   (string \<Rightarrow> (machine_definition, string) result) \<Rightarrow> string \<Rightarrow> u32 \<Rightarrow> 'w \<Rightarrow>
   (generation_result, generation_error) result \<times> 'w" where
  "generate_machine send from_str task max_retries w =
     generate_loop send from_str task max_retries (attempts_upto max_retries) [] w"

lemma generate_loop_Ok:
  "generate_loop send from_str task m as err w = (Ok r, w') \<Longrightarrow>
   gr_attempts r \<in> set as \<and> agent_errors (gr_definition r) = [] \<and> (\<exists>s. from_str s = Ok (gr_definition r))"
proof (induction send from_str task m as err w rule: generate_loop.induct)
  case (2 send from_str task m a as err w)
  have parsed: "\<exists>s. from_str s = Ok d" if "chat_json send from_str w ms = (Ok d, w1)" for d ms w1
    using that by (auto simp: chat_json_def split: prod.splits sum.splits)
  from 2 parsed show ?case
    by (auto simp: validate_agent_machine_def Let_def split: prod.splits sum.splits if_splits)
qed simp

lemma generate_loop_Err:
  "generate_loop send from_str task m as err w = (Err e, w') \<Longrightarrow> \<exists>msg. e = MaxRetriesExceeded m msg"
  by (induction send from_str task m as err w rule: generate_loop.induct)
    (auto split: prod.splits sum.splits)

text \<open>
  Generation ends after at most \<open>max_retries\<close> requests. A machine that it returns was deserialised
  from an answer, is structurally well formed and safe for an agent, and the reported number of
  attempts is between one and the limit; otherwise the only error is that the retries are used up.
\<close>

theorem generate_machine_safe:
  "case fst (generate_machine send from_str task max_retries w) of
     Ok r \<Rightarrow> well_formed_machine (gr_definition r) \<and> agent_safe (gr_definition r) \<and>
       (\<exists>s. from_str s = Ok (gr_definition r)) \<and> 1 \<le> gr_attempts r \<and> gr_attempts r \<le> max_retries
   | Err e \<Rightarrow> (\<exists>msg. e = MaxRetriesExceeded max_retries msg)"
proof -
  obtain res w' where g: "generate_machine send from_str task max_retries w = (res, w')" by fastforce
  show ?thesis
  proof (cases res)
    case (Inl e)
    then show ?thesis using g generate_loop_Err by (fastforce simp: generate_machine_def)
  next
    case (Inr r)
    have "gr_attempts r \<in> set (attempts_upto max_retries)" "agent_errors (gr_definition r) = []"
        "\<exists>s. from_str s = Ok (gr_definition r)"
      using generate_loop_Ok [of send from_str task max_retries "attempts_upto max_retries" "[]" w r w'] g Inr
      by (auto simp: generate_machine_def)
    moreover from this obtain n where n: "gr_attempts r = word_of_nat n" "1 \<le> n" "n \<le> unat max_retries"
      by (auto simp: attempts_upto_def)
    moreover from this have "unat (gr_attempts r) = n"
      using unat_u32 [of max_retries] by (simp add: unat_of_nat)
    ultimately show ?thesis
      using g Inr by (auto simp: agent_errors_Nil word_le_nat_alt)
  qed
qed

end
