(* ===== verification/ToolProtocol.thy ===== *)
theory ToolProtocol
  imports Prompts
begin

text \<open>
  The conversation with native tool calls (\<open>crates/agent/src/tool_protocol.rs\<close>, first part): plain history
  with protocol-preserving overrides, and the window that is replayed to the endpoint, in which every
  announced tool call must be answered before the conversation goes on. The printing of JSON
  (\<open>serde_json::to_string\<close>, \<open>None\<close> on failure) is the parameter \<open>to_string\<close>.
\<close>

record native_function_call =
  nf_name :: string
  nf_arguments :: json

record native_tool_call =
  nt_id :: "string option"
  nt_call_type :: "string option"
  nt_function :: native_function_call

record wire_function_call =
  wf_name :: string
  wf_arguments :: string

record wire_tool_call =
  wt_id :: string
  wt_call_type :: string
  wt_function :: wire_function_call

record tool_protocol_message =
  tpm_role :: string
  tpm_content :: "string option"
  tpm_tool_calls :: "wire_tool_call list option"
  tpm_tool_call_id :: "string option"
  tpm_name :: "string option"

record tool_invocation =
  ti_name :: string
  ti_args :: json
  ti_call_id :: "string option"
  ti_argument_error :: "string option"

record tool_result_message =
  trm_name :: string
  trm_call_id :: string
  trm_content :: string

record protocol_window =
  pw_messages :: "tool_protocol_message list"
  pw_interrupted_call_ids :: "string list"

definition plain :: "string \<Rightarrow> string \<Rightarrow> tool_protocol_message" where
  "plain role content = \<lparr>tpm_role = role, tpm_content = Some content, tpm_tool_calls = None,
     tpm_tool_call_id = None, tpm_name = None\<rparr>"

definition message_of_chat :: "chat_message \<Rightarrow> tool_protocol_message" where
  "message_of_chat m = plain (cm_role m) (cm_content m)"

definition wire_of_native :: "(json \<Rightarrow> string option) \<Rightarrow> native_tool_call \<Rightarrow> wire_tool_call" where
  "wire_of_native to_string call =
     \<lparr>wt_id = unwrap_or [] (nt_id call), wt_call_type = unwrap_or ''function'' (nt_call_type call),
      wt_function = \<lparr>wf_name = nf_name (nt_function call),
        wf_arguments = (case nf_arguments (nt_function call) of
            JString raw \<Rightarrow> raw
          | value \<Rightarrow> unwrap_or ''null'' (to_string value))\<rparr>\<rparr>"

definition assistant_tool_calls ::
  "(json \<Rightarrow> string option) \<Rightarrow> string \<Rightarrow> native_tool_call list \<Rightarrow> tool_protocol_message" where
  "assistant_tool_calls to_string content calls =
     \<lparr>tpm_role = ''assistant'', tpm_content = Some content,
      tpm_tool_calls = Some (map (wire_of_native to_string) calls), tpm_tool_call_id = None, tpm_name = None\<rparr>"

definition tool_result :: "tool_result_message \<Rightarrow> tool_protocol_message" where
  "tool_result r = \<lparr>tpm_role = ''tool'', tpm_content = Some (trm_content r), tpm_tool_calls = None,
     tpm_tool_call_id = Some (trm_call_id r), tpm_name = Some (trm_name r)\<rparr>"

definition to_plain :: "tool_protocol_message \<Rightarrow> chat_message" where
  "to_plain m = \<lparr>cm_role = tpm_role m, cm_content = unwrap_or [] (tpm_content m)\<rparr>"

section \<open>The conversation\<close>

record protocol_conversation =
  pc_plain :: "chat_message list"
  pc_overrides :: "(nat \<times> tool_protocol_message list) list"

definition conversation_new :: protocol_conversation where
  "conversation_new = \<lparr>pc_plain = [], pc_overrides = []\<rparr>"

definition push :: "chat_message \<Rightarrow> protocol_conversation \<Rightarrow> protocol_conversation" where
  "push m pc = pc\<lparr>pc_plain := pc_plain pc @ [m]\<rparr>"

definition push_with_protocol ::
  "chat_message \<Rightarrow> tool_protocol_message list \<Rightarrow> protocol_conversation \<Rightarrow> protocol_conversation" where
  "push_with_protocol m protocol pc =
     \<lparr>pc_plain = pc_plain pc @ [m], pc_overrides = bt_insert (length (pc_plain pc)) protocol (pc_overrides pc)\<rparr>"

definition extend_protocol_trace ::
  "tool_protocol_message list \<Rightarrow> protocol_conversation \<Rightarrow> protocol_conversation" where
  "extend_protocol_trace trace pc = foldl (\<lambda>pc m. push_with_protocol (to_plain m) [m] pc) pc trace"

definition push_assistant_tool_turn ::
  "(json \<Rightarrow> string option) \<Rightarrow> (native_tool_call list \<Rightarrow> string option) \<Rightarrow> string \<Rightarrow> native_tool_call list \<Rightarrow>
   protocol_conversation \<Rightarrow> protocol_conversation" where
  "push_assistant_tool_turn to_string calls_to_string content calls pc =
     push_with_protocol
       \<lparr>cm_role = ''assistant'',
        cm_content = (if content = [] then unwrap_or [] (calls_to_string calls) else content)\<rparr>
       [assistant_tool_calls to_string content calls] pc"

definition push_tool_results ::
  "string \<Rightarrow> tool_result_message list \<Rightarrow> protocol_conversation \<Rightarrow> protocol_conversation" where
  "push_tool_results plain_content results pc =
     push_with_protocol \<lparr>cm_role = ''user'', cm_content = plain_content\<rparr> (map tool_result results) pc"

definition clear :: "protocol_conversation \<Rightarrow> protocol_conversation" where
  "clear pc = \<lparr>pc_plain = [], pc_overrides = []\<rparr>"

section \<open>The replay window\<close>

definition interrupted_text :: string where
  "interrupted_text = ''Harness control flow changed before a correlated tool result was recorded. This call is not confirmed; retry it if it is still required.''"

record window_state =
  ws_messages :: "tool_protocol_message list"
  ws_pending :: "(string \<times> string) list"
  ws_interrupted :: "string list"

definition close_interrupted_calls :: "window_state \<Rightarrow> window_state" where
  "close_interrupted_calls ws =
     \<lparr>ws_messages = ws_messages ws @ map (\<lambda>(call_id, name). tool_result
        \<lparr>trm_name = name, trm_call_id = call_id, trm_content = interrupted_text\<rparr>) (ws_pending ws),
      ws_pending = [],
      ws_interrupted = ws_interrupted ws @ map fst (ws_pending ws)\<rparr>"

definition is_tool :: "tool_protocol_message \<Rightarrow> bool" where
  "is_tool m \<longleftrightarrow> tpm_role m = ''tool''"

definition announced :: "tool_protocol_message \<Rightarrow> (string \<times> string) list" where
  "announced m = map (\<lambda>c. (wt_id c, wf_name (wt_function c))) (unwrap_or [] (tpm_tool_calls m))"

definition window_message :: "window_state \<Rightarrow> tool_protocol_message \<Rightarrow> window_state" where
  "window_message ws0 m =
     (let ws1 = (if \<not> is_tool m \<and> ws_pending ws0 \<noteq> [] then close_interrupted_calls ws0 else ws0);
          ws2 = (if is_tool m then
                   (case tpm_tool_call_id m of
                      Some call_id \<Rightarrow> ws1\<lparr>ws_pending := filter (\<lambda>p. fst p \<noteq> call_id) (ws_pending ws1)\<rparr>
                    | None \<Rightarrow> ws1)
                 else ws1)
      in ws2\<lparr>ws_messages := ws_messages ws2 @ [m], ws_pending := ws_pending ws2 @ announced m\<rparr>)"

definition required_ids :: "tool_protocol_message list \<Rightarrow> string list" where
  "required_ids protocol = List.map_filter tpm_tool_call_id protocol"

definition supplied_ids :: "tool_protocol_message list \<Rightarrow> string list" where
  "supplied_ids protocol = concat (map (\<lambda>m. map fst (announced m)) protocol)"

definition protocol_safe_start :: "protocol_conversation \<Rightarrow> nat \<Rightarrow> nat" where
  "protocol_safe_start pc requested_start =
     (case bt_get (pc_overrides pc) requested_start of
        None \<Rightarrow> requested_start
      | Some protocol \<Rightarrow>
          (let required = required_ids protocol in
           if required = [] then requested_start
           else
             (case find (\<lambda>index. is_some_and
                     (\<lambda>candidate. list_all (\<lambda>r. r \<in> set (supplied_ids candidate)) required)
                     (bt_get (pc_overrides pc) index)) (rev [0..<requested_start]) of
                Some index \<Rightarrow> index
              | None \<Rightarrow> requested_start)))"

definition protocol_at :: "protocol_conversation \<Rightarrow> nat \<Rightarrow> tool_protocol_message list" where
  "protocol_at pc index =
     (case bt_get (pc_overrides pc) index of
        Some protocol \<Rightarrow> protocol
      | None \<Rightarrow> [message_of_chat (pc_plain pc ! index)])"

definition window_source :: "protocol_conversation \<Rightarrow> nat \<Rightarrow> tool_protocol_message list" where
  "window_source pc start = concat (map (protocol_at pc) [start..<length (pc_plain pc)])"

definition protocol_window_with_diagnostics :: "protocol_conversation \<Rightarrow> nat \<Rightarrow> protocol_window" where
  "protocol_window_with_diagnostics pc requested_start =
     (let start = protocol_safe_start pc requested_start;
          ws = close_interrupted_calls
            (foldl window_message \<lparr>ws_messages = [], ws_pending = [], ws_interrupted = []\<rparr> (window_source pc start))
      in \<lparr>pw_messages = ws_messages ws, pw_interrupted_call_ids = ws_interrupted ws\<rparr>)"

definition protocol_window :: "protocol_conversation \<Rightarrow> nat \<Rightarrow> tool_protocol_message list" where
  "protocol_window pc start = pw_messages (protocol_window_with_diagnostics pc start)"

section \<open>Calls\<close>

definition pad9 :: "string \<Rightarrow> string" where
  "pad9 s = replicate (9 - length s) (CHR ''0'') @ s"

definition canonicalize_call :: "native_tool_call \<times> u64 \<Rightarrow> native_tool_call \<times> u64" where
  "canonicalize_call = (\<lambda>(call, next_call_id).
     let needs_id = is_none_or (\<lambda>s. s = []) (nt_id call);
         call1 = (if needs_id then call\<lparr>nt_id := Some (''call_sw_'' @ pad9 (show_word next_call_id))\<rparr> else call);
         next' = (if needs_id then next_call_id + 1 else next_call_id)
     in (if nt_call_type call1 = None then call1\<lparr>nt_call_type := Some ''function''\<rparr> else call1, next'))"

fun canonicalize_native_calls :: "native_tool_call list \<Rightarrow> u64 \<Rightarrow> native_tool_call list \<times> u64" where
  "canonicalize_native_calls [] n = ([], n)"
| "canonicalize_native_calls (c # cs) n =
     (let (c', n') = canonicalize_call (c, n); (cs', n'') = canonicalize_native_calls cs n'
      in (c' # cs', n''))"

fun value_type :: "json \<Rightarrow> string" where
  "value_type JNull = ''null''"
| "value_type (JBool _) = ''boolean''"
| "value_type (JNumber _) = ''number''"
| "value_type (JString _) = ''string''"
| "value_type (JArray _) = ''array''"
| "value_type (JObject _) = ''object''"

text \<open>\<open>from_str\<close> is the JSON parser with its error message.\<close>

fun normalize_arguments :: "(string \<Rightarrow> (json, string) result) \<Rightarrow> json \<Rightarrow> json \<times> string option" where
  "normalize_arguments from_str (JObject m) = (JObject m, None)"
| "normalize_arguments from_str (JString raw) =
     (case from_str raw of
        Ok (JObject m) \<Rightarrow> (JObject m, None)
      | Ok value \<Rightarrow> (value, Some (''tool arguments must decode to a JSON object, got '' @ value_type value))
      | Err error \<Rightarrow> (JString raw, Some (''tool arguments are invalid JSON: '' @ error)))"
| "normalize_arguments from_str value =
     (value, Some (''tool arguments must be a JSON object, got '' @ value_type value))"

definition invocation_from_native ::
  "(string \<Rightarrow> (json, string) result) \<Rightarrow> native_tool_call \<Rightarrow> tool_invocation" where
  "invocation_from_native from_str call =
     (let (args, argument_error) = normalize_arguments from_str (nf_arguments (nt_function call))
      in \<lparr>ti_name = nf_name (nt_function call), ti_args = args, ti_call_id = nt_id call,
          ti_argument_error = argument_error\<rparr>)"

definition unstructured_invocation ::
  "(string \<Rightarrow> (json, string) result) \<Rightarrow> string \<Rightarrow> json \<Rightarrow> tool_invocation" where
  "unstructured_invocation from_str name args0 =
     (let (args, argument_error) = normalize_arguments from_str args0
      in \<lparr>ti_name = name, ti_args = args, ti_call_id = None, ti_argument_error = argument_error\<rparr>)"

section \<open>Every announced call is answered\<close>

definition answered_by :: "string \<Rightarrow> tool_protocol_message list \<Rightarrow> bool" where
  "answered_by c post \<longleftrightarrow> (\<exists>r \<in> set (takeWhile is_tool post). tpm_tool_call_id r = Some c)"

definition window_inv :: "window_state \<Rightarrow> bool" where
  "window_inv ws \<longleftrightarrow>
     (\<forall>pre m post c. ws_messages ws = pre @ m # post \<and> c \<in> set (map fst (announced m)) \<longrightarrow>
        answered_by c post \<or> c \<in> set (map fst (ws_pending ws)) \<and> list_all is_tool post)"

lemma answered_by_append: "answered_by c post \<Longrightarrow> answered_by c (post @ ys)"
proof -
  have "set (takeWhile is_tool post) \<subseteq> set (takeWhile is_tool (post @ ys))" by (induction post) auto
  then show "answered_by c post \<Longrightarrow> answered_by c (post @ ys)" by (auto simp: answered_by_def)
qed

lemma answered_by_tool:
  "list_all is_tool post \<Longrightarrow> is_tool r \<Longrightarrow> tpm_tool_call_id r = Some c \<Longrightarrow> answered_by c (post @ r # ys)"
  by (auto simp: answered_by_def list_all_iff takeWhile_append)

lemma snoc_split:
  "xs @ [x] = pre @ m # post \<longleftrightarrow> (pre = xs \<and> m = x \<and> post = []) \<or> (\<exists>post'. post = post' @ [x] \<and> xs = pre @ m # post')"
  by (cases post rule: rev_cases) auto

lemma answered_by_snoc_tool:
  assumes "list_all is_tool post" "is_tool r" "tpm_tool_call_id r = Some c"
  shows "answered_by c (post @ [r])"
  using answered_by_tool [OF assms, of "[]"] by simp

text \<open>The invariant after appending one message to the messages, the pending calls filtered by \<open>Q\<close>.\<close>

lemma window_inv_push:
  assumes inv: "window_inv ws"
    and step: "\<And>c. c \<in> set (map fst (ws_pending ws)) \<Longrightarrow>
      c \<in> set (map fst P) \<and> is_tool m \<or> is_tool m \<and> tpm_tool_call_id m = Some c"
  shows "window_inv \<lparr>ws_messages = ws_messages ws @ [m], ws_pending = P @ announced m, ws_interrupted = is\<rparr>"
  unfolding window_inv_def
proof (intro allI impI)
  fix pre x post c
  assume a: "ws_messages \<lparr>ws_messages = ws_messages ws @ [m], ws_pending = P @ announced m, ws_interrupted = is\<rparr> =
      pre @ x # post \<and> c \<in> set (map fst (announced x))"
  show "answered_by c post \<or>
      c \<in> set (map fst (ws_pending \<lparr>ws_messages = ws_messages ws @ [m], ws_pending = P @ announced m, ws_interrupted = is\<rparr>)) \<and>
      list_all is_tool post"
  proof (cases "post = []")
    case True
    with a have "x = m" by simp
    with a True show ?thesis by simp
  next
    case False
    with a obtain post' where post: "post = post' @ [m]" "ws_messages ws = pre @ x # post'"
      by (auto simp: snoc_split)
    from inv post a consider "answered_by c post'" | "c \<in> set (map fst (ws_pending ws))" "list_all is_tool post'"
      unfolding window_inv_def by blast
    then show ?thesis
    proof cases
      case 1
      then show ?thesis using post answered_by_append by blast
    next
      case 2
      then show ?thesis using step [OF 2(1)] post answered_by_snoc_tool by auto
    qed
  qed
qed

lemma window_inv_pending_Nil:
  "window_inv ws \<Longrightarrow> ws_pending ws = [] \<Longrightarrow> ws_messages ws = pre @ m # post \<Longrightarrow>
   c \<in> set (map fst (announced m)) \<Longrightarrow> answered_by c post"
  by (auto simp: window_inv_def)

lemma announced_tool_result [simp]: "announced (tool_result r) = []" "is_tool (tool_result r)"
  "tpm_tool_call_id (tool_result r) = Some (trm_call_id r)"
  by (auto simp: announced_def tool_result_def is_tool_def)

lemma close_loop_inv:
  "window_inv \<lparr>ws_messages = ms, ws_pending = P, ws_interrupted = is\<rparr> \<Longrightarrow>
   window_inv \<lparr>ws_messages = ms @ map (\<lambda>(c, n). tool_result \<lparr>trm_name = n, trm_call_id = c, trm_content = t\<rparr>) P,
     ws_pending = [], ws_interrupted = is'\<rparr>"
proof (induction P arbitrary: ms)
  case Nil
  then show ?case by (simp add: window_inv_def)
next
  case (Cons p P)
  obtain c n where p: "p = (c, n)" by (cases p)
  let ?r = "tool_result \<lparr>trm_name = n, trm_call_id = c, trm_content = t\<rparr>"
  have "window_inv \<lparr>ws_messages = ms @ [?r], ws_pending = P, ws_interrupted = is\<rparr>"
    using window_inv_push [OF Cons.prems, of P ?r "is"] p by auto
  from Cons.IH [OF this] show ?case by (simp add: p)
qed

lemma close_inv: "window_inv ws \<Longrightarrow> window_inv (close_interrupted_calls ws)"
  using close_loop_inv [of "ws_messages ws" "ws_pending ws" "ws_interrupted ws"]
  by (cases ws) (simp add: close_interrupted_calls_def)

lemma window_message_inv:
  assumes "window_inv ws"
  shows "window_inv (window_message ws m)"
proof (cases "is_tool m")
  case False
  define ws1 where "ws1 = (if ws_pending ws \<noteq> [] then close_interrupted_calls ws else ws)"
  have "window_inv ws1" using assms close_inv by (simp add: ws1_def)
  moreover have nil: "ws_pending ws1 = []" by (simp add: ws1_def close_interrupted_calls_def)
  moreover have "window_message ws m =
      \<lparr>ws_messages = ws_messages ws1 @ [m], ws_pending = [] @ announced m, ws_interrupted = ws_interrupted ws1\<rparr>"
    using False nil by (cases ws1) (auto simp: window_message_def ws1_def Let_def)
  ultimately show ?thesis using window_inv_push [of ws1 "[]" m] by simp
next
  case True
  define P where "P = (case tpm_tool_call_id m of Some i \<Rightarrow> filter (\<lambda>p. fst p \<noteq> i) (ws_pending ws)
      | None \<Rightarrow> ws_pending ws)"
  have "window_message ws m =
      \<lparr>ws_messages = ws_messages ws @ [m], ws_pending = P @ announced m, ws_interrupted = ws_interrupted ws\<rparr>"
    using True by (cases ws) (auto simp: window_message_def P_def Let_def split: option.splits)
  moreover have "c \<in> set (map fst P) \<or> tpm_tool_call_id m = Some c" if "c \<in> set (map fst (ws_pending ws))" for c
    using that by (auto simp: P_def split: option.splits)
  ultimately show ?thesis using window_inv_push [OF assms, of P m] True by auto
qed

lemma window_fold_inv: "window_inv ws \<Longrightarrow> window_inv (foldl window_message ws ms)"
  by (induction ms arbitrary: ws) (auto intro: window_message_inv)

text \<open>
  In the window replayed to the endpoint every tool call that an assistant message announces is
  answered by a tool message with its id before any message that is not a tool result.
\<close>

theorem protocol_window_answers:
  assumes "protocol_window pc start = pre @ m # post" "(c, name) \<in> set (announced m)"
  shows "\<exists>r \<in> set (takeWhile is_tool post). tpm_tool_call_id r = Some c"
proof -
  let ?ws = "close_interrupted_calls (foldl window_message \<lparr>ws_messages = [], ws_pending = [], ws_interrupted = []\<rparr>
      (window_source pc (protocol_safe_start pc start)))"
  have "window_inv ?ws" by (intro close_inv window_fold_inv) (simp add: window_inv_def)
  moreover have "ws_pending ?ws = []" by (simp add: close_interrupted_calls_def)
  moreover have "ws_messages ?ws = pre @ m # post"
    using assms(1) by (simp add: protocol_window_def protocol_window_with_diagnostics_def Let_def)
  ultimately have "answered_by c post"
    using window_inv_pending_Nil [of ?ws pre m post c] assms(2) by force
  then show ?thesis by (simp add: answered_by_def)
qed

definition demo_conversation :: protocol_conversation where
  "demo_conversation =
     push \<lparr>cm_role = ''user'', cm_content = ''go on''\<rparr>
       (push_assistant_tool_turn (\<lambda>_. None) (\<lambda>_. None) ''reading''
         [\<lparr>nt_id = Some ''c1'', nt_call_type = None, nt_function = \<lparr>nf_name = ''Read'', nf_arguments = JObject []\<rparr>\<rparr>]
         conversation_new)"

lemma demo_window:
  "protocol_window demo_conversation 0 =
     [] @ assistant_tool_calls (\<lambda>_. None) ''reading''
       [\<lparr>nt_id = Some ''c1'', nt_call_type = None, nt_function = \<lparr>nf_name = ''Read'', nf_arguments = JObject []\<rparr>\<rparr>]
     # [tool_result \<lparr>trm_name = ''Read'', trm_call_id = ''c1'', trm_content = interrupted_text\<rparr>,
        plain ''user'' ''go on'']"
  by (simp add: protocol_window_def protocol_window_with_diagnostics_def demo_conversation_def push_def
      push_assistant_tool_turn_def push_with_protocol_def conversation_new_def protocol_safe_start_def
      required_ids_def List.map_filter_def window_source_def protocol_at_def message_of_chat_def
      window_message_def close_interrupted_calls_def assistant_tool_calls_def is_tool_def announced_def
      wire_of_native_def plain_def tool_result_def upt_rec Let_def)

theorem protocol_window_answers_witness:
  "\<exists>pre m post. protocol_window demo_conversation 0 = pre @ m # post \<and> (''c1'', ''Read'') \<in> set (announced m) \<and>
     (\<exists>r \<in> set (takeWhile is_tool post). tpm_tool_call_id r = Some ''c1'')"
proof -
  have a: "(''c1'', ''Read'') \<in> set (announced (assistant_tool_calls (\<lambda>_. None) ''reading''
      [\<lparr>nt_id = Some ''c1'', nt_call_type = None, nt_function = \<lparr>nf_name = ''Read'', nf_arguments = JObject []\<rparr>\<rparr>]))"
    by (simp add: announced_def assistant_tool_calls_def wire_of_native_def)
  show ?thesis using demo_window a protocol_window_answers [OF demo_window a] by blast
qed

section \<open>Nothing is lost\<close>

definition window_tracks :: "tool_protocol_message list \<Rightarrow> window_state \<Rightarrow> bool" where
  "window_tracks src ws \<longleftrightarrow> subseq src (ws_messages ws) \<and>
     length (ws_messages ws) = length src + length (ws_interrupted ws)"

lemma close_tracks: "window_tracks src ws \<Longrightarrow> window_tracks src (close_interrupted_calls ws)"
  by (auto simp: window_tracks_def close_interrupted_calls_def)

lemma push_tracks:
  "window_tracks src ws \<Longrightarrow>
   window_tracks (src @ [m]) (ws\<lparr>ws_messages := ws_messages ws @ [m], ws_pending := P\<rparr>)"
  by (auto simp: window_tracks_def intro: list_emb_append_mono)

lemma window_message_tracks:
  assumes "window_tracks src ws"
  shows "window_tracks (src @ [m]) (window_message ws m)"
proof -
  have pend: "window_tracks src (w\<lparr>ws_pending := P\<rparr>) = window_tracks src w" for w P
    by (simp add: window_tracks_def)
  show ?thesis
    unfolding window_message_def Let_def
    by (rule push_tracks) (auto simp: pend assms close_tracks split: option.splits)
qed

lemma fold_tracks: "window_tracks src ws \<Longrightarrow> window_tracks (src @ ms) (foldl window_message ws ms)"
proof (induction ms arbitrary: src ws)
  case (Cons m ms)
  from Cons.IH [OF window_message_tracks [OF Cons.prems]] show ?case by simp
qed simp

text \<open>
  The replay window keeps every message of the conversation from the safe start on, in order, and
  adds exactly one message for each call it reports as interrupted; the safe start never lies after
  the requested one.
\<close>

theorem protocol_window_complete:
  "protocol_safe_start pc start \<le> start \<and>
   subseq (window_source pc (protocol_safe_start pc start)) (protocol_window pc start) \<and>
   length (protocol_window pc start) =
     length (window_source pc (protocol_safe_start pc start)) +
     length (pw_interrupted_call_ids (protocol_window_with_diagnostics pc start))"
proof -
  have "protocol_safe_start pc start \<le> start"
    by (auto simp: protocol_safe_start_def Let_def find_Some_iff rev_nth split: option.splits)
  moreover have "window_tracks (window_source pc (protocol_safe_start pc start))
     (close_interrupted_calls (foldl window_message \<lparr>ws_messages = [], ws_pending = [], ws_interrupted = []\<rparr>
        (window_source pc (protocol_safe_start pc start))))"
    using close_tracks [OF fold_tracks [of "[]"]] by (simp add: window_tracks_def)
  ultimately show ?thesis
    by (simp add: window_tracks_def protocol_window_def protocol_window_with_diagnostics_def Let_def)
qed

section \<open>Canonical calls\<close>

lemma canonicalize_call_cases:
  "canonicalize_call (c, n) = (c', n') \<Longrightarrow>
   nt_function c' = nt_function c \<and> nt_call_type c' \<noteq> None \<and> (\<exists>i. nt_id c' = Some i \<and> i \<noteq> []) \<and>
   (\<forall>i. nt_id c = Some i \<and> i \<noteq> [] \<longrightarrow> nt_id c' = Some i \<and> n' = n)"
  by (cases "nt_id c") (auto simp: canonicalize_call_def Let_def split: if_splits)

text \<open>
  After canonicalisation every native call has a type and a non-empty id, the calls are otherwise
  unchanged and in order, and an id that the model supplied is kept.
\<close>

theorem canonicalize_native_calls_ids:
  "canonicalize_native_calls cs n = (cs', n') \<Longrightarrow>
   list_all2 (\<lambda>c c'. nt_function c' = nt_function c \<and> nt_call_type c' \<noteq> None \<and> (\<exists>i. nt_id c' = Some i \<and> i \<noteq> []) \<and>
     (\<forall>i. nt_id c = Some i \<and> i \<noteq> [] \<longrightarrow> nt_id c' = Some i)) cs cs'"
proof (induction cs arbitrary: n cs' n')
  case (Cons c cs)
  obtain c1 n1 where 1: "canonicalize_call (c, n) = (c1, n1)" by fastforce
  obtain cs2 n2 where 2: "canonicalize_native_calls cs n1 = (cs2, n2)" by fastforce
  from Cons.prems 1 2 have "cs' = c1 # cs2" by simp
  with canonicalize_call_cases [OF 1] Cons.IH [OF 2] show ?case by auto
qed simp

definition demo_call :: native_tool_call where
  "demo_call = \<lparr>nt_id = None, nt_call_type = None, nt_function = \<lparr>nf_name = ''Read'', nf_arguments = JNull\<rparr>\<rparr>"

lemma demo_canonical:
  "canonicalize_native_calls [demo_call] 7 =
     ([demo_call\<lparr>nt_id := Some ''call_sw_000000007'', nt_call_type := Some ''function''\<rparr>], 8)"
  by code_simp

theorem canonicalize_native_calls_ids_witness:
  "\<exists>cs n. canonicalize_native_calls [demo_call] 7 = (cs, n) \<and> list_all (\<lambda>c. nt_call_type c \<noteq> None) cs"
  using demo_canonical canonicalize_native_calls_ids [OF demo_canonical] by auto

end
