(* ===== verification/ToolRescue.thy ===== *)
theory ToolRescue
  imports ToolProtocol
begin

text \<open>
  The rescue of tool calls that a model wrote as text (\<open>crates/agent/src/tool_protocol.rs\<close>, second part):
  tagged JSON, bare JSON, \<open>name[ARGS]{...}\<close>, XML-like and \<open>[TOOL_CALLS]name{...}\<close> families, tried in this
  order. The JSON parser is the parameter \<open>from_str\<close>. Every loop is a recursive function with its
  termination proof.
\<close>

definition native_call :: "string \<Rightarrow> json \<Rightarrow> native_tool_call" where
  "native_call name arguments =
     \<lparr>nt_id = None, nt_call_type = Some ''function'', nt_function = \<lparr>nf_name = name, nf_arguments = arguments\<rparr>\<rparr>"

lemma size_jget: "jget v k = Some w \<Longrightarrow> size w < size v"
proof (cases v)
  case (JObject m)
  assume "jget v k = Some w"
  with JObject have "(k, w) \<in> set m" by (simp add: map_of_SomeD)
  then have "size_prod (\<lambda>_. 0) size (k, w) \<le> size_list (size_prod (\<lambda>_. 0) size) m"
    by (rule size_list_estimation') simp
  then show ?thesis using JObject by simp
qed auto

lemma size_array: "x \<in> set xs \<Longrightarrow> size x < size (JArray xs)"
  using size_list_estimation' [of x xs "size x" size] by simp

fun jarray :: "json option \<Rightarrow> json list option" where
  "jarray (Some (JArray xs)) = Some xs"
| "jarray _ = None"

lemma jarray_Some [simp]: "jarray v = Some xs \<longleftrightarrow> v = Some (JArray xs)"
  by (cases v rule: jarray.cases) auto

definition single_native_call :: "json \<Rightarrow> string list \<Rightarrow> native_tool_call list" where
  "single_native_call v available_tools =
     (let f = unwrap_or v (jget v ''function'') in
      case Option.bind (or_else (jget f ''name'') (jget v ''tool'')) as_str of
        None \<Rightarrow> []
      | Some name \<Rightarrow>
          if name \<notin> set available_tools then []
          else
            [\<lparr>nt_id = jget_str v ''id'',
              nt_call_type = or_else (jget_str v ''type'') (Some ''function''),
              nt_function = \<lparr>nf_name = name,
                nf_arguments = unwrap_or (JObject []) (or_else (jget f ''arguments'') (jget f ''args''))\<rparr>\<rparr>])"

function native_calls_from_value :: "json \<Rightarrow> string list \<Rightarrow> native_tool_call list" where
  "native_calls_from_value v available_tools =
     (case jarray (jget v ''tool_calls'') of
        Some items \<Rightarrow> concat (map (\<lambda>item. native_calls_from_value item available_tools) items)
      | None \<Rightarrow>
          (case as_array v of
             Some items \<Rightarrow> concat (map (\<lambda>item. native_calls_from_value item available_tools) items)
           | None \<Rightarrow> single_native_call v available_tools))"
  by pat_completeness auto
termination
proof (relation "measure (\<lambda>(v, _). size v)")
  show "((item, tools), v, tools) \<in> measure (\<lambda>(v, _). size v)"
    if "jarray (jget v ''tool_calls'') = Some items" "item \<in> set items" for v tools items item
    using that size_jget [of v "''tool_calls''" "JArray items"] size_array [of item items] by simp
  show "((item, tools), v, tools) \<in> measure (\<lambda>(v, _). size v)"
    if "as_array v = Some items" "item \<in> set items" for v tools items item
    using that size_array [of item items] by simp
qed auto

declare native_calls_from_value.simps [simp del]

section \<open>JSON objects in text\<close>

fun candidates_loop ::
  "string \<Rightarrow> string \<Rightarrow> nat \<Rightarrow> nat option \<Rightarrow> nat \<Rightarrow> bool \<Rightarrow> bool \<Rightarrow> string list" where
  "candidates_loop text [] index start depth in_string escaped = []"
| "candidates_loop text (c # cs) index start depth in_string escaped =
     (if in_string then
        if escaped then candidates_loop text cs (Suc index) start depth in_string False
        else if c = CHR 0x5C then candidates_loop text cs (Suc index) start depth in_string True
        else if c = CHR 0x22 then candidates_loop text cs (Suc index) start depth False escaped
        else candidates_loop text cs (Suc index) start depth in_string escaped
      else if c = CHR 0x22 then candidates_loop text cs (Suc index) start depth True escaped
      else if c = CHR ''{'' then
        candidates_loop text cs (Suc index) (if depth = 0 then Some index else start) (depth + 1) in_string escaped
      else if c = CHR ''}'' \<and> depth > 0 then
        (if depth - 1 = 0 then
           (case start of
              Some s \<Rightarrow> take (Suc index - s) (drop s text) #
                candidates_loop text cs (Suc index) None (depth - 1) in_string escaped
            | None \<Rightarrow> candidates_loop text cs (Suc index) None (depth - 1) in_string escaped)
         else candidates_loop text cs (Suc index) start (depth - 1) in_string escaped)
      else candidates_loop text cs (Suc index) start depth in_string escaped)"

definition json_object_candidates :: "string \<Rightarrow> string list" where
  "json_object_candidates text = candidates_loop text text 0 None 0 False False"

definition balanced_json_object_at :: "string \<Rightarrow> nat \<Rightarrow> string option" where
  "balanced_json_object_at text start =
     (if start < length text \<and> text ! start = CHR ''{'' then
        (case json_object_candidates (drop start text) of [] \<Rightarrow> None | c # _ \<Rightarrow> Some c)
      else None)"

definition is_identifier_char :: "char \<Rightarrow> bool" where
  "is_identifier_char c \<longleftrightarrow> is_ascii_alphanumeric c \<or> c = CHR ''_''"

definition ascii_identifier_before :: "string \<Rightarrow> string option" where
  "ascii_identifier_before text =
     (let name = rev (takeWhile is_identifier_char (dropWhile is_ascii_whitespace (rev text)))
      in if name \<noteq> [] then Some name else None)"

text \<open>The identifier and the index after it.\<close>

definition ascii_identifier_after :: "string \<Rightarrow> nat \<Rightarrow> (string \<times> nat) option" where
  "ascii_identifier_after text start =
     (let name_start = start + length (takeWhile is_ascii_whitespace (drop start text));
          name = takeWhile is_identifier_char (drop name_start text)
      in if name \<noteq> [] then Some (name, name_start + length name) else None)"

definition skip_whitespace :: "string \<Rightarrow> nat \<Rightarrow> nat" where
  "skip_whitespace text i = i + length (takeWhile is_ascii_whitespace (drop i text))"

definition object_call ::
  "(string \<Rightarrow> json option) \<Rightarrow> string list \<Rightarrow> string \<Rightarrow> string \<Rightarrow> native_tool_call list" where
  "object_call from_str available_tools name arguments =
     (if name \<in> set available_tools then
        (case from_str arguments of
           Some (JObject m) \<Rightarrow> [native_call name (JObject m)]
         | _ \<Rightarrow> [])
      else [])"

section \<open>The five families\<close>

definition fence3 :: string where
  "fence3 = [CHR 0x60, CHR 0x60, CHR 0x60]"

definition strip_code_fence :: "string \<Rightarrow> string" where
  "strip_code_fence text =
     (case strip_prefix text fence3 of
        None \<Rightarrow> text
      | Some after_open \<Rightarrow>
          (let after_language = (case char_find (\<lambda>c. c = CHR 0x0A) after_open of
                 Some index \<Rightarrow> drop (index + 1) after_open
               | None \<Rightarrow> after_open)
           in trim (unwrap_or after_language (strip_suffix after_language fence3))))"

definition extract_json_tool_calls ::
  "(string \<Rightarrow> json option) \<Rightarrow> string \<Rightarrow> string list \<Rightarrow> native_tool_call list" where
  "extract_json_tool_calls from_str text available_tools =
     (let cleaned = strip_code_fence (trim text);
          whole = (case from_str cleaned of Some v \<Rightarrow> native_calls_from_value v available_tools | None \<Rightarrow> [])
      in if whole \<noteq> [] then whole
         else concat (map (\<lambda>v. native_calls_from_value v available_tools)
           (List.map_filter from_str (json_object_candidates cleaned))))"

function rehearsal_loop ::
  "(string \<Rightarrow> json option) \<Rightarrow> string \<Rightarrow> string list \<Rightarrow> nat \<Rightarrow> native_tool_call list" where
  "rehearsal_loop from_str text available_tools offset =
     (case str_find (drop offset text) ''[ARGS]'' of
        None \<Rightarrow> []
      | Some relative_start \<Rightarrow>
          (let marker_start = offset + relative_start; marker_end = marker_start + 6 in
           case ascii_identifier_before (take marker_start text) of
             None \<Rightarrow> rehearsal_loop from_str text available_tools marker_end
           | Some name \<Rightarrow>
               (let args_start = skip_whitespace text marker_end in
                case balanced_json_object_at text args_start of
                  None \<Rightarrow> rehearsal_loop from_str text available_tools marker_end
                | Some arguments \<Rightarrow>
                    object_call from_str available_tools name arguments @
                    rehearsal_loop from_str text available_tools (args_start + length arguments))))"
  by pat_completeness auto
termination
  by (relation "measure (\<lambda>(f, text, tools, offset). length text - offset)")
    (auto simp: skip_whitespace_def dest!: str_find_le)

definition parse_rehearsal_tool_calls ::
  "(string \<Rightarrow> json option) \<Rightarrow> string \<Rightarrow> string list \<Rightarrow> native_tool_call list" where
  "parse_rehearsal_tool_calls from_str text available_tools = rehearsal_loop from_str text available_tools 0"

definition trim_newlines :: "string \<Rightarrow> string" where
  "trim_newlines s = rev (dropWhile (\<lambda>c. c = CHR 0x0A) (rev (dropWhile (\<lambda>c. c = CHR 0x0A) s)))"

function parameter_loop ::
  "(string \<Rightarrow> json option) \<Rightarrow> string \<Rightarrow> (string \<times> json) list \<Rightarrow> (string \<times> json) list" where
  "parameter_loop from_str parameters0 args =
     (case str_find parameters0 ''<parameter='' of
        None \<Rightarrow> args
      | Some parameter_start \<Rightarrow>
          (let parameters1 = drop (parameter_start + 11) parameters0 in
           case char_find (\<lambda>c. c = CHR ''>'') parameters1 of
             None \<Rightarrow> args
           | Some key_end \<Rightarrow>
               (let key = trim (take key_end parameters1);
                    parameters2 = drop (key_end + 1) parameters1;
                    value_end = unwrap_or (length parameters2)
                      (or_else (str_find parameters2 ''</parameter>'') (str_find parameters2 ''<parameter=''));
                    raw_value = trim_newlines (take value_end parameters2);
                    parameters3 = drop value_end parameters2
                in parameter_loop from_str
                     (unwrap_or parameters3 (strip_prefix parameters3 ''</parameter>''))
                     (bt_insert key (unwrap_or (JString raw_value) (from_str raw_value)) args))))"
  by pat_completeness auto
termination
proof (relation "measure (\<lambda>(f, s, args). length s)", goal_cases)
  case (2 f s args k s1 n key s2 v raw s3)
  have "length (unwrap_or s3 (strip_prefix s3 ''</parameter>'')) \<le> length s3"
    by (auto simp: strip_prefix_def unwrap_or_def)
  moreover have "length s1 < length s" using 2 str_find_le [OF 2(1)] by simp
  ultimately show ?case using 2 by simp
qed simp

function qwen_loop ::
  "(string \<Rightarrow> json option) \<Rightarrow> string \<Rightarrow> string list \<Rightarrow> native_tool_call list" where
  "qwen_loop from_str remainder0 available_tools =
     (case str_find remainder0 ''<function='' of
        None \<Rightarrow> []
      | Some start \<Rightarrow>
          (let remainder1 = drop (start + 10) remainder0 in
           case char_find (\<lambda>c. c = CHR ''>'') remainder1 of
             None \<Rightarrow> []
           | Some name_end \<Rightarrow>
               (let name = trim (take name_end remainder1); remainder2 = drop (name_end + 1) remainder1 in
                case str_find remainder2 ''</function>'' of
                  None \<Rightarrow> []
                | Some body_end \<Rightarrow>
                    (let body = take body_end remainder2; remainder3 = drop (body_end + 11) remainder2 in
                     (if name \<in> set available_tools
                      then [native_call name (JObject (parameter_loop from_str body []))] else []) @
                     qwen_loop from_str remainder3 available_tools))))"
  by pat_completeness auto
termination
  by (relation "measure (\<lambda>(f, s, tools). length s)") (auto dest!: str_find_le)

definition parse_qwen_xml_tool_calls ::
  "(string \<Rightarrow> json option) \<Rightarrow> string \<Rightarrow> string list \<Rightarrow> native_tool_call list" where
  "parse_qwen_xml_tool_calls from_str text available_tools = qwen_loop from_str text available_tools"

function mistral_loop ::
  "(string \<Rightarrow> json option) \<Rightarrow> string \<Rightarrow> string list \<Rightarrow> nat \<Rightarrow> native_tool_call list" where
  "mistral_loop from_str text available_tools offset =
     (case str_find (drop offset text) ''[TOOL_CALLS]'' of
        None \<Rightarrow> []
      | Some relative_start \<Rightarrow>
          (let name_start = offset + relative_start + 12 in
           case ascii_identifier_after text name_start of
             None \<Rightarrow> mistral_loop from_str text available_tools name_start
           | Some (name, name_end) \<Rightarrow>
               (let args_start = skip_whitespace text name_end in
                case balanced_json_object_at text args_start of
                  None \<Rightarrow> mistral_loop from_str text available_tools name_end
                | Some arguments \<Rightarrow>
                    object_call from_str available_tools name arguments @
                    mistral_loop from_str text available_tools (args_start + length arguments))))"
  by pat_completeness auto
termination
  by (relation "measure (\<lambda>(f, text, tools, offset). length text - offset)")
    (auto simp: skip_whitespace_def ascii_identifier_after_def Let_def dest!: str_find_le split: if_splits)

definition parse_mistral_tool_calls ::
  "(string \<Rightarrow> json option) \<Rightarrow> string \<Rightarrow> string list \<Rightarrow> native_tool_call list" where
  "parse_mistral_tool_calls from_str text available_tools = mistral_loop from_str text available_tools 0"

function tagged_bodies :: "string \<Rightarrow> string \<Rightarrow> string \<Rightarrow> string list" where
  "tagged_bodies remainder opn close =
     (if opn = [] then []
      else
        (case str_find remainder opn of
           None \<Rightarrow> []
         | Some start \<Rightarrow>
             (let remainder1 = drop (start + length opn) remainder in
              case str_find remainder1 close of
                None \<Rightarrow> []
              | Some end_ \<Rightarrow> take end_ remainder1 # tagged_bodies (drop (end_ + length close) remainder1) opn close)))"
  by pat_completeness auto
termination
  by (relation "measure (\<lambda>(s, opn, close). length s)") (auto simp: neq_Nil_conv dest!: str_find_le)

text \<open>One pair of tags removed while a complete block is left; the tag is never empty.\<close>

function strip_blocks :: "string \<Rightarrow> string \<Rightarrow> string \<Rightarrow> string" where
  "strip_blocks opn close cleaned =
     (if opn = [] then cleaned
      else
        (case str_find cleaned opn of
           None \<Rightarrow> cleaned
         | Some start \<Rightarrow>
             (let body_start = start + length opn in
              case str_find (drop body_start cleaned) close of
                None \<Rightarrow> cleaned
              | Some relative_end \<Rightarrow>
                  strip_blocks opn close (take start cleaned @ drop (body_start + relative_end + length close) cleaned))))"
  by pat_completeness auto
termination
  by (relation "measure (\<lambda>(opn, close, s). length s)") (auto simp: neq_Nil_conv dest!: str_find_le)

definition strip_thinking_blocks :: "string \<Rightarrow> string" where
  "strip_thinking_blocks text =
     strip_blocks ''[THINK]'' ''[/THINK]'' (strip_blocks ''<think>'' ''</think>'' text)"

definition rescue_text_tool_calls ::
  "(string \<Rightarrow> json option) \<Rightarrow> string \<Rightarrow> string list \<Rightarrow> native_tool_call list" where
  "rescue_text_tool_calls from_str text available_tools =
     (let cleaned = trim (strip_thinking_blocks text) in
      if cleaned = [] then []
      else
        (let tagged = concat (map (\<lambda>body. extract_json_tool_calls from_str body available_tools)
               (tagged_bodies cleaned ''<tool_call>'' ''</tool_call>''));
             bare = extract_json_tool_calls from_str cleaned available_tools;
             rehearsal = parse_rehearsal_tool_calls from_str cleaned available_tools;
             qwen = parse_qwen_xml_tool_calls from_str cleaned available_tools
         in if tagged \<noteq> [] then tagged
            else if bare \<noteq> [] then bare
            else if rehearsal \<noteq> [] then rehearsal
            else if qwen \<noteq> [] then qwen
            else parse_mistral_tool_calls from_str cleaned available_tools))"

definition fold_reasoning_into_content :: "string \<Rightarrow> string option \<Rightarrow> string" where
  "fold_reasoning_into_content content reasoning =
     (case reasoning of
        None \<Rightarrow> content
      | Some r0 \<Rightarrow>
          (let r = trim r0 in
           if r = [] then content
           else if trim content = [] then r
           else r @ newline @ newline @ content))"

declare rehearsal_loop.simps [simp del] parameter_loop.simps [simp del] qwen_loop.simps [simp del]
  mistral_loop.simps [simp del] tagged_bodies.simps [simp del] strip_blocks.simps [simp del]

section \<open>Only offered tools are called\<close>

definition offered :: "string list \<Rightarrow> native_tool_call list \<Rightarrow> bool" where
  "offered tools calls \<longleftrightarrow> list_all (\<lambda>c. nf_name (nt_function c) \<in> set tools) calls"

lemma offered_simps [simp]:
  "offered tools []" "offered tools (xs @ ys) \<longleftrightarrow> offered tools xs \<and> offered tools ys"
  by (auto simp: offered_def)

lemma offered_concat: "(\<And>x. x \<in> set xs \<Longrightarrow> offered tools (f x)) \<Longrightarrow> offered tools (concat (map f xs))"
  by (induction xs) (auto simp: offered_def)

lemma offered_single: "offered tools (single_native_call v tools)"
  unfolding single_native_call_def Let_def
  by (cases "Option.bind (or_else (jget (unwrap_or v (jget v ''function'')) ''name'') (jget v ''tool'')) as_str")
    (simp_all add: offered_def)

lemma offered_object_call: "offered tools (object_call f tools name args)"
proof (cases "\<exists>m. f args = Some (JObject m)")
  case True
  then show ?thesis by (auto simp: object_call_def offered_def native_call_def)
next
  case False
  then have "object_call f tools name args = []"
    by (auto simp: object_call_def split: option.split json.split)
  then show ?thesis by simp
qed

lemma offered_value: "offered tools (native_calls_from_value v tools)"
proof (induction v tools rule: native_calls_from_value.induct)
  case (1 v tools)
  have "offered tools
     (case jarray (jget v ''tool_calls'') of
        Some items \<Rightarrow> concat (map (\<lambda>item. native_calls_from_value item tools) items)
      | None \<Rightarrow>
          (case as_array v of
             Some items \<Rightarrow> concat (map (\<lambda>item. native_calls_from_value item tools) items)
           | None \<Rightarrow> single_native_call v tools))"
    using 1 by (cases "jarray (jget v ''tool_calls'')"; cases "as_array v")
      (simp_all add: offered_single offered_concat)
  then show ?case unfolding native_calls_from_value.simps [of v tools] .
qed

lemma offered_json: "offered tools (extract_json_tool_calls f text tools)"
  by (auto simp: extract_json_tool_calls_def Let_def offered_value split: option.splits intro!: offered_concat)

lemma offered_rehearsal: "offered tools (rehearsal_loop f text tools offset)"
  by (induction f "text" tools offset rule: rehearsal_loop.induct)
    (subst rehearsal_loop.simps, auto simp: offered_object_call Let_def split: option.splits)

lemma offered_mistral: "offered tools (mistral_loop f text tools offset)"
  by (induction f "text" tools offset rule: mistral_loop.induct)
    (subst mistral_loop.simps, auto simp: offered_object_call Let_def split: option.splits)

lemma offered_qwen: "offered tools (qwen_loop f text tools)"
proof (induction f "text" tools rule: qwen_loop.induct)
  case (1 f s tools)
  have "name \<in> set tools \<Longrightarrow> offered tools [native_call name a]" for name a
    by (simp add: offered_def native_call_def)
  with 1 show ?case by (subst qwen_loop.simps) (auto simp: Let_def split: option.splits)
qed

lemmas offered_intros = offered_json offered_rehearsal offered_mistral offered_qwen

text \<open>
  Whatever text the model writes, a call rescued from it names one of the tools that were offered
  to the model, and nothing is rescued from text that is empty once its thinking blocks are removed.
\<close>

theorem rescue_only_offered_tools:
  "(\<forall>c. c \<in> set (rescue_text_tool_calls from_str text tools) \<longrightarrow> nf_name (nt_function c) \<in> set tools) \<and>
   (trim (strip_thinking_blocks text) = [] \<longrightarrow> rescue_text_tool_calls from_str text tools = [])"
proof -
  have "offered tools (rescue_text_tool_calls from_str text tools)"
    by (auto simp: rescue_text_tool_calls_def Let_def parse_rehearsal_tool_calls_def
        parse_mistral_tool_calls_def parse_qwen_xml_tool_calls_def offered_intros intro!: offered_concat)
  then show ?thesis by (simp add: offered_def list_all_iff rescue_text_tool_calls_def)
qed

definition brace_parser :: "string \<Rightarrow> json option" where
  "brace_parser s = (if s = ''{}'' then Some (JObject []) else None)"

theorem rescue_only_offered_tools_witness:
  "\<exists>c. c \<in> set (rescue_text_tool_calls brace_parser ''[TOOL_CALLS]Read{}'' [''Read'']) \<and> nf_name (nt_function c) = ''Read''"
proof -
  have r: "rescue_text_tool_calls brace_parser ''[TOOL_CALLS]Read{}'' [''Read''] = [native_call ''Read'' (JObject [])]"
    by code_simp
  then have "native_call ''Read'' (JObject []) \<in> set (rescue_text_tool_calls brace_parser ''[TOOL_CALLS]Read{}'' [''Read''])"
    by simp
  moreover from this have "nf_name (nt_function (native_call ''Read'' (JObject []))) \<in> set [''Read'']"
    using rescue_only_offered_tools [of brace_parser "''[TOOL_CALLS]Read{}''" "[''Read'']"] by blast
  ultimately show ?thesis by auto
qed

end
