(* ===== verification/Float64.thy ===== *)
theory Float64
  imports Prelude "HOL-Library.Log_Nat"
begin

text \<open>
  Double-precision arithmetic on non-negative values (\<open>f64\<close>): conversion from \<open>u64\<close>, division and
  multiplication, each the exact rational result rounded to the nearest double, ties to even. A
  double is given by its rational value. The source divides and multiplies counters of 64 bits, whose
  quotients lie between \<open>2 powi (-64)\<close> and \<open>2 powi 71\<close>, far inside the range of normal doubles, so
  subnormal numbers, infinities and NaN do not occur and are not represented.
\<close>

text \<open>The exponent of the binade of a positive rational: \<open>2 powi e \<le> x < 2 powi (e + 1)\<close>.\<close>

definition f64_exponent :: "rat \<Rightarrow> int" where
  "f64_exponent x = (let (p, q) = quotient_of x; k = bitlen p - bitlen q
                     in if 2 powi k \<le> x then k else k - 1)"

definition round_half_even :: "rat \<Rightarrow> int" where
  "round_half_even y =
     (let fl = \<lfloor>y\<rfloor>; d = y - of_int fl
      in if d < 1 / 2 then fl else if d > 1 / 2 then fl + 1 else if even fl then fl else fl + 1)"

definition f64_round :: "rat \<Rightarrow> rat" where
  "f64_round x =
     (if x \<le> 0 then 0
      else let ulp = 2 powi (f64_exponent x - 52) in of_int (round_half_even (x / ulp)) * ulp)"

definition f64_of_u64 :: "u64 \<Rightarrow> rat" where
  "f64_of_u64 w = f64_round (rat_of_nat (unat w))"

definition f64_div :: "rat \<Rightarrow> rat \<Rightarrow> rat" where
  "f64_div x y = f64_round (x / y)"

definition f64_mul :: "rat \<Rightarrow> rat \<Rightarrow> rat" where
  "f64_mul x y = f64_round (x * y)"

section \<open>Rounding\<close>

lemma f64_exponent_bounds:
  assumes "0 < x"
  shows "2 powi f64_exponent x \<le> x" "x < 2 powi (f64_exponent x + 1)"
proof -
  obtain p q where pq: "quotient_of x = (p, q)" by (cases "quotient_of x")
  have q: "0 < q" and x: "x = of_int p / of_int q"
    using pq quotient_of_denom_pos quotient_of_div by auto
  have p: "0 < p" using assms x q by (simp add: zero_less_divide_iff)
  define bp bq where "bp = bitlen p" and "bq = bitlen q"
  have pos: "0 < bp" "0 < bq" 
    using p q bitlen_eq_zero_iff [of p] bitlen_eq_zero_iff [of q] bitlen_nonneg [of p] bitlen_nonneg [of q]
    by (simp_all add: bp_def bq_def order_less_le)
  have up: "(of_int p :: rat) < 2 powi bp" "2 powi (bp - 1) \<le> (of_int p :: rat)"
    "(of_int q :: rat) < 2 powi bq" "2 powi (bq - 1) \<le> (of_int q :: rat)"
  proof -
    have conv: "(of_int (2 ^ n) :: rat) = 2 powi (int n)" for n by (simp add: power_int_def)
    have "2 ^ nat (bp - 1) \<le> p" "p < 2 ^ nat bp" using bitlen_bounds [OF p] by (auto simp: bp_def)
    then have "(of_int (2 ^ nat (bp - 1)) :: rat) \<le> of_int p" "(of_int p :: rat) < of_int (2 ^ nat bp)"
      by (simp_all only: of_int_le_iff of_int_less_iff)
    then show "(of_int p :: rat) < 2 powi bp" "2 powi (bp - 1) \<le> (of_int p :: rat)"
      unfolding conv using pos by simp_all
    have "2 ^ nat (bq - 1) \<le> q" "q < 2 ^ nat bq" using bitlen_bounds [OF q] by (auto simp: bq_def)
    then have "(of_int (2 ^ nat (bq - 1)) :: rat) \<le> of_int q" "(of_int q :: rat) < of_int (2 ^ nat bq)"
      by (simp_all only: of_int_le_iff of_int_less_iff)
    then show "(of_int q :: rat) < 2 powi bq" "2 powi (bq - 1) \<le> (of_int q :: rat)"
      unfolding conv using pos by simp_all
  qed
  have qr: "(0 :: rat) < of_int q" using q by simp
  have "2 powi (bp - bq - 1) \<le> x"
  proof -
    have "2 powi (bp - bq - 1) * (of_int q :: rat) \<le> 2 powi (bp - bq - 1) * 2 powi bq"
      using up(3) by (intro mult_left_mono) auto
    also have "\<dots> = 2 powi (bp - 1)" by (simp flip: power_int_add)
    finally show ?thesis using up(2) qr by (simp add: x pos_le_divide_eq)
  qed
  moreover have "x < 2 powi (bp - bq + 1)"
  proof -
    have "2 powi bp = 2 powi (bp - bq + 1) * (2 powi (bq - 1) :: rat)" by (simp flip: power_int_add)
    also have "\<dots> \<le> 2 powi (bp - bq + 1) * of_int q" using up(4) by (intro mult_left_mono) auto
    finally show ?thesis using up(1) qr by (simp add: x pos_divide_less_eq)
  qed
  ultimately show "2 powi f64_exponent x \<le> x" "x < 2 powi (f64_exponent x + 1)"
    by (auto simp: f64_exponent_def pq Let_def simp flip: bp_def bq_def)
qed

lemma powi_two_mono: "(2 powi a :: rat) \<le> 2 powi b \<longleftrightarrow> a \<le> b"
  using power_int_strict_increasing [of b a "2 :: rat"] power_int_increasing [of a b "2 :: rat"]
  by (cases "a \<le> b") auto

lemma f64_exponent_unique:
  assumes "2 powi e \<le> x" "x < 2 powi (e + 1)"
  shows "f64_exponent x = e"
proof -
  have x: "0 < x" using assms(1) by (meson less_le_trans zero_less_numeral zero_less_power_int)
  have "(2 :: rat) powi e < 2 powi (f64_exponent x + 1)" "(2 :: rat) powi f64_exponent x < 2 powi (e + 1)"
    using assms f64_exponent_bounds [OF x] by linarith+
  then have "e < f64_exponent x + 1" "f64_exponent x < e + 1"
    by (meson linorder_not_le powi_two_mono)+
  then show ?thesis by simp
qed

lemma round_half_even_bounds:
  "of_int n \<le> y \<Longrightarrow> n \<le> round_half_even y" "y \<le> of_int n \<Longrightarrow> round_half_even y \<le> n"
proof -
  assume "of_int n \<le> y"
  then have "n \<le> \<lfloor>y\<rfloor>" by (simp add: le_floor_iff)
  then show "n \<le> round_half_even y" by (auto simp: round_half_even_def Let_def)
next
  assume a: "y \<le> of_int n"
  have "\<lfloor>y\<rfloor> \<le> n" using a floor_mono [OF a] by simp
  moreover have "\<lfloor>y\<rfloor> + 1 \<le> n" if "of_int \<lfloor>y\<rfloor> < y" using that a by linarith
  ultimately show "round_half_even y \<le> n" by (auto simp: round_half_even_def Let_def)
qed

lemma round_half_even_mono: "x \<le> y \<Longrightarrow> round_half_even x \<le> round_half_even y"
proof (cases "\<lfloor>x\<rfloor> = \<lfloor>y\<rfloor>")
  case False
  assume "x \<le> y"
  then have "\<lfloor>x\<rfloor> + 1 \<le> \<lfloor>y\<rfloor>" using False floor_mono [of x y] by simp
  moreover have "round_half_even x \<le> \<lfloor>x\<rfloor> + 1" by (rule round_half_even_bounds) linarith
  moreover have "\<lfloor>y\<rfloor> \<le> round_half_even y" by (rule round_half_even_bounds) linarith
  ultimately show ?thesis by linarith
qed (auto simp: round_half_even_def Let_def)

lemma round_half_even_int [simp]: "round_half_even (of_int n) = n"
  by (simp add: round_half_even_def)

lemma f64_round_dyadic:
  assumes "0 < x" "2 powi e \<le> x" "x < 2 powi (e + 1)" "x = of_int m * 2 powi (e - 52)"
  shows "f64_round x = x"
  using assms f64_exponent_unique [of e x] by (simp add: f64_round_def)

lemma f64_round_within:
  assumes "0 < x" "e = f64_exponent x"
  shows "2 powi e \<le> f64_round x" "f64_round x \<le> 2 powi (e + 1)"
proof -
  let ?u = "2 powi (e - 52) :: rat"
  have u: "0 < ?u" by simp
  have two: "2 powi e = of_int (2 ^ 52) * ?u" "2 powi (e + 1) = of_int (2 ^ 53) * ?u"
    by (simp_all add: power_int_add power_int_diff)
  have b: "2 powi e \<le> x" "x < 2 powi (e + 1)" using f64_exponent_bounds [OF assms(1)] assms(2) by auto
  have "of_int (2 ^ 52) \<le> x / ?u" using b(1) u unfolding two by (simp add: pos_le_divide_eq)
  then have "2 ^ 52 \<le> round_half_even (x / ?u)" by (rule round_half_even_bounds)
  then show "2 powi e \<le> f64_round x"
    using assms u unfolding two by (simp add: f64_round_def Let_def)
  have "x / ?u \<le> of_int (2 ^ 53)" using b(2) u unfolding two by (simp add: pos_divide_le_eq)
  then have "round_half_even (x / ?u) \<le> 2 ^ 53" by (rule round_half_even_bounds)
  then have "(of_int (round_half_even (x / ?u)) :: rat) \<le> of_int (2 ^ 53)" by (simp only: of_int_le_iff)
  then show "f64_round x \<le> 2 powi (e + 1)"
    using assms u unfolding two by (simp add: f64_round_def Let_def)
qed

lemma f64_round_pos: "0 < x \<Longrightarrow> 0 < f64_round x"
  using f64_round_within(1) [of x "f64_exponent x"] by (meson less_le_trans zero_less_numeral zero_less_power_int)

lemma f64_round_mono: "x \<le> y \<Longrightarrow> f64_round x \<le> f64_round y"
proof -
  assume le: "x \<le> y"
  show "f64_round x \<le> f64_round y"
  proof (cases "0 < x")
    case True
    then have y: "0 < y" using le by simp
    have "(2 :: rat) powi f64_exponent x < 2 powi (f64_exponent y + 1)"
      using f64_exponent_bounds [OF True] f64_exponent_bounds [OF y] le by linarith
    then have "f64_exponent x \<le> f64_exponent y"
      by (metis linorder_not_le powi_two_mono zle_add1_eq_le)
    then consider "f64_exponent x = f64_exponent y" | "f64_exponent x + 1 \<le> f64_exponent y" by linarith
    then show ?thesis
    proof cases
      case 1
      have "round_half_even (x / 2 powi (f64_exponent y - 52)) \<le>
          round_half_even (y / 2 powi (f64_exponent y - 52))"
        by (rule round_half_even_mono) (use le in \<open>simp add: divide_right_mono\<close>)
      then show ?thesis using True y 1 by (simp add: f64_round_def Let_def)
    next
      case 2
      have "f64_round x \<le> 2 powi (f64_exponent x + 1)" using f64_round_within [OF True] by blast
      also have "\<dots> \<le> 2 powi f64_exponent y" using 2 by (simp only: powi_two_mono)
      also have "\<dots> \<le> f64_round y" using f64_round_within [OF y] by blast
      finally show ?thesis .
    qed
  next
    case False
    then show ?thesis using f64_round_pos [of y] by (cases "0 < y") (auto simp: f64_round_def)
  qed
qed

lemma f64_round_one [simp]: "f64_round 1 = 1"
  by (rule f64_round_dyadic [where e = 0 and m = "2 ^ 52"]) (auto simp: power_int_def power_divide)

text \<open>Integers below \<open>2 ^ 53\<close> are doubles.\<close>

lemma f64_round_nat: "n < 2 ^ 53 \<Longrightarrow> f64_round (of_nat n) = of_nat n"
proof (cases "n = 0")
  case False
  assume n: "n < 2 ^ 53"
  let ?x = "of_nat n :: rat" and ?e = "f64_exponent (of_nat n)"
  have x: "0 < ?x" using False by simp
  note b = f64_exponent_bounds [OF x]
  have "?x < 2 powi 53" using n by (simp add: power_int_def)
  then have "(2 :: rat) powi ?e < 2 powi 53" using b by linarith
  then have e: "?e \<le> 52" by (metis linorder_not_le powi_two_mono add1_zle_eq numeral_plus_one semiring_norm(5) zless_imp_add1_zle)
  have "?x = of_int (int n * 2 ^ nat (52 - ?e)) * 2 powi (?e - 52)"
    using e by (simp add: power_int_def field_simps)
  then show ?thesis by (rule f64_round_dyadic [OF x b])
qed (simp add: f64_round_def)

lemma f64_of_u64_pos: "0 < unat w \<Longrightarrow> 0 < f64_of_u64 w"
  unfolding f64_of_u64_def by (rule f64_round_pos) (simp only: of_nat_0_less_iff)

lemma f64_of_u64_mono: "v \<le> w \<Longrightarrow> f64_of_u64 v \<le> f64_of_u64 w"
  unfolding f64_of_u64_def word_le_nat_alt by (rule f64_round_mono) (simp only: of_nat_le_iff)

lemma f64_of_u64_exact: "unat w < 2 ^ 53 \<Longrightarrow> f64_of_u64 w = of_nat (unat w)"
  unfolding f64_of_u64_def by (rule f64_round_nat)

end
