(* ===== verification/Session.thy ===== *)
theory Session
  imports Transition Float64
begin

text \<open>
  Gateway sessions (\<open>crates/mcp-gateway/src/session.rs\<close>): the record of one workflow run, its
  checkpoint, the metering of its transitions, and the store that all handlers share. The store is a
  \<open>HashMap\<close> behind a read-write lock; every method takes the lock once and holds it for its whole body, so each is
  one atomic step on the map and any interleaving of handlers is a sequence of these steps
  (\<open>session_step\<close>). A method that returns a value besides changing the store returns the pair.

  The conversion of a session from and to JSON is derived by serde; the two functions are parameters.
  Counters are machine integers of the source's width and wrap, as in a release build.
\<close>

section \<open>Sessions\<close>

definition denylist_heuristic_policy_mode :: string where
  "denylist_heuristic_policy_mode = ''denylist_heuristic_v1''"

definition legacy_denylist_heuristic_policy_mode :: string where
  "legacy_denylist_heuristic_policy_mode = ''blacklist_heuristic_v1''"

definition canonicalize_tool_policy_mode :: "json \<Rightarrow> json" where
  "canonicalize_tool_policy_mode ctx =
     (if jget_str ctx ''tool_policy_mode'' = Some legacy_denylist_heuristic_policy_mode
      then jset ctx ''tool_policy_mode'' (JString denylist_heuristic_policy_mode)
      else ctx)"

record pending_approval =
  pa_approval_id :: string
  pa_event :: string
  pa_from_state :: string
  pa_to_state :: string
  pa_new_context :: json
  pa_message :: "string option"

record active_subflow =
  as_name :: string
  as_parent_definition :: machine_definition
  as_parent_state :: string
  as_parent_context :: json
  as_on_complete :: string
  as_on_fail :: "string option"

record gateway_session =
  gs_instance_id :: string
  gs_definition :: machine_definition
  gs_current_state :: string
  gs_previous_state :: "string option"
  gs_context :: json
  gs_iteration_count :: u32
  gs_transition_count :: u64
  gs_plan_limit :: "u64 option"
  gs_files_edited :: "string list"
  gs_context_bytes :: u64
  gs_files_read :: "string \<rightharpoonup> u32"
  gs_pending_approval :: "pending_approval option"
  gs_subflow :: "active_subflow option"

definition canonical_definition :: "machine_definition \<Rightarrow> machine_definition" where
  "canonical_definition d = d\<lparr>md_context := canonicalize_tool_policy_mode (md_context d)\<rparr>"

definition object_or_empty :: "json \<Rightarrow> json" where
  "object_or_empty j = (if is_object j then j else JObject [])"

definition new_session :: "string \<Rightarrow> machine_definition \<Rightarrow> gateway_session" where
  "new_session instance_id d0 =
     (let d = canonical_definition d0
      in \<lparr>gs_instance_id = instance_id, gs_definition = d, gs_current_state = md_initial d,
          gs_previous_state = None, gs_context = object_or_empty (md_context d),
          gs_iteration_count = 0, gs_transition_count = 0, gs_plan_limit = None,
          gs_files_edited = [], gs_context_bytes = 0, gs_files_read = Map.empty,
          gs_pending_approval = None, gs_subflow = None\<rparr>)"

definition checkpoint_schema :: string where
  "checkpoint_schema = ''statewright/paused-session/v1''"

definition checkpoint :: "(gateway_session \<Rightarrow> json) \<Rightarrow> gateway_session \<Rightarrow> json" where
  "checkpoint to_value s =
     JObject [(''schema'', JString checkpoint_schema), (''session'', to_value s)]"

definition jindex :: "json \<Rightarrow> string \<Rightarrow> json" where
  "jindex v k = unwrap_or JNull (jget v k)"

definition from_checkpoint ::
  "(json \<Rightarrow> gateway_session option) \<Rightarrow> json \<Rightarrow> string \<Rightarrow> string \<Rightarrow> (gateway_session, string) result" where
  "from_checkpoint from_value v instance_id state =
     (if jget v ''quota_hold'' \<noteq> None then
        Err ''Quota hold requires explicit Continue and fresh entitlement verification; ordinary resume cannot release it''
      else if jindex v ''schema'' \<noteq> JString checkpoint_schema then
        Err ''Legacy pause lacks an authoritative session/approval checkpoint; explicit recovery required''
      else if jget (jindex v ''session'') ''pending_approval'' = None then
        Err ''Paused checkpoint is missing approval status''
      else case from_value (jindex v ''session'') of
        None \<Rightarrow> Err ''Invalid paused session checkpoint''
      | Some s \<Rightarrow>
          if gs_instance_id s \<noteq> instance_id \<or> gs_current_state s \<noteq> state
             \<or> \<not> bt_contains_key (md_states (gs_definition s)) state \<or> \<not> is_object (gs_context s)
          then Err ''Paused session identity or state mismatch''
          else if is_some_and (\<lambda>p. pa_approval_id p = [] \<or> pa_from_state p \<noteq> state
               \<or> \<not> bt_contains_key (md_states (gs_definition s)) (pa_to_state p)
               \<or> \<not> is_object (pa_new_context p)) (gs_pending_approval s)
          then Err ''Invalid pending approval checkpoint''
          else Ok (s\<lparr>gs_definition := canonical_definition (gs_definition s),
                     gs_context := canonicalize_tool_policy_mode (gs_context s),
                     gs_pending_approval :=
                       map_option (\<lambda>p. p\<lparr>pa_new_context := canonicalize_tool_policy_mode (pa_new_context p)\<rparr>)
                         (gs_pending_approval s),
                     gs_subflow :=
                       map_option (\<lambda>a. a\<lparr>as_parent_definition := canonical_definition (as_parent_definition a),
                                         as_parent_context := canonicalize_tool_policy_mode (as_parent_context a)\<rparr>)
                         (gs_subflow s)\<rparr>))"

section \<open>Metering\<close>

definition usage :: "gateway_session \<Rightarrow> u64 \<times> u64 option \<times> rat option" where
  "usage s =
     (let pct = map_option (\<lambda>limit. if limit = 0 then 100
                  else f64_mul (f64_div (f64_of_u64 (gs_transition_count s)) (f64_of_u64 limit)) 100)
                  (gs_plan_limit s)
      in (gs_transition_count s, gs_plan_limit s, pct))"

definition used_of_limit :: "u64 \<Rightarrow> u64 \<Rightarrow> string" where
  "used_of_limit used l = ''('' @ show_word used @ ''/'' @ show_word l @ '')''"

definition limit_reached_text :: "u64 \<Rightarrow> u64 \<Rightarrow> string" where
  "limit_reached_text used l = ''Plan limit reached '' @ used_of_limit used l @ ''. Upgrade to continue.''"

definition usage_warning :: "gateway_session \<Rightarrow> string option" where
  "usage_warning s =
     (case usage s of
        (used, Some l, Some p) \<Rightarrow>
          if p \<ge> 100 then Some (limit_reached_text used l)
          else if p \<ge> 95 then
            Some (''Warning: 95% of plan limit '' @ used_of_limit used l @ ''. Consider upgrading.'')
          else if p \<ge> 90 then Some (''Notice: 90% of plan limit '' @ used_of_limit used l @ ''.'')
          else if p \<ge> 80 then Some (''Notice: 80% of plan limit '' @ used_of_limit used l @ ''.'')
          else None
      | _ \<Rightarrow> None)"

definition session_state_def :: "gateway_session \<Rightarrow> state_def option" where
  "session_state_def s = bt_get (md_states (gs_definition s)) (gs_current_state s)"

definition max_iterations :: "gateway_session \<Rightarrow> u32 option" where
  "max_iterations s = Option.bind (session_state_def s) sd_max_iterations"

definition is_checkpoint :: "gateway_session \<Rightarrow> bool" where
  "is_checkpoint s \<longleftrightarrow> is_some_and (\<lambda>max. gs_iteration_count s \<ge> max) (max_iterations s)"

definition is_final :: "gateway_session \<Rightarrow> bool" where
  "is_final s \<longleftrightarrow> is_some_and (\<lambda>t. t = Final) (Option.bind (session_state_def s) sd_state_type)"

section \<open>The session store\<close>

type_synonym sessions = "string \<rightharpoonup> gateway_session"

definition restore :: "gateway_session \<Rightarrow> sessions \<Rightarrow> sessions" where
  "restore s S = hm_insert (gs_instance_id s) s S"

definition create :: "string \<Rightarrow> machine_definition \<Rightarrow> sessions \<Rightarrow> gateway_session \<times> sessions" where
  "create instance_id d S =
     (let s = new_session instance_id d
      in case S instance_id of
           Some existing \<Rightarrow>
             if jget (gs_context existing) ''_fork'' \<noteq> None then (existing, S)
             else (s, hm_insert instance_id s S)
         | None \<Rightarrow> (s, hm_insert instance_id s S))"

definition get_session :: "sessions \<Rightarrow> string \<Rightarrow> gateway_session option" where
  "get_session S instance_id = S instance_id"

definition session_exists :: "sessions \<Rightarrow> string \<Rightarrow> bool" where
  "session_exists S instance_id \<longleftrightarrow> S instance_id \<noteq> None"

text \<open>\<open>get_mut\<close> followed by a change of the session: the effect of every updating method.\<close>

definition modify_session :: "string \<Rightarrow> (gateway_session \<Rightarrow> gateway_session) \<Rightarrow> sessions \<Rightarrow> sessions" where
  "modify_session instance_id f S =
     (case S instance_id of None \<Rightarrow> S | Some s \<Rightarrow> hm_insert instance_id (f s) S)"

definition reset_state_counters :: "gateway_session \<Rightarrow> gateway_session" where
  "reset_state_counters s =
     s\<lparr>gs_iteration_count := 0, gs_files_edited := [], gs_context_bytes := 0, gs_files_read := Map.empty\<rparr>"

definition enter_state :: "string \<Rightarrow> json \<Rightarrow> gateway_session \<Rightarrow> gateway_session" where
  "enter_state new_state new_context s =
     (reset_state_counters s)
       \<lparr>gs_previous_state := Some (gs_current_state s), gs_current_state := new_state,
        gs_context := canonicalize_tool_policy_mode new_context,
        gs_transition_count := gs_transition_count s + 1\<rparr>"

definition update_state :: "string \<Rightarrow> string \<Rightarrow> json \<Rightarrow> sessions \<Rightarrow> bool \<times> sessions" where
  "update_state instance_id new_state new_context S =
     (session_exists S instance_id, modify_session instance_id (enter_state new_state new_context) S)"

definition enter_subflow ::
  "string \<Rightarrow> machine_definition \<Rightarrow> json \<Rightarrow> string \<Rightarrow> string option \<Rightarrow> gateway_session \<Rightarrow> gateway_session" where
  "enter_subflow name d0 input on_complete on_fail s =
     (let d = canonical_definition d0;
          ctx = object_or_empty (md_context d);
          ctx = (if is_object input then apply_context_patch ctx input else ctx);
          ctx = canonicalize_tool_policy_mode ctx
      in (reset_state_counters s)
           \<lparr>gs_subflow := Some \<lparr>as_name = name, as_parent_definition = gs_definition s,
                               as_parent_state = gs_current_state s, as_parent_context = gs_context s,
                               as_on_complete = on_complete, as_on_fail = on_fail\<rparr>,
            gs_definition := d, gs_previous_state := None, gs_current_state := md_initial d,
            gs_context := ctx\<rparr>)"

definition start_subflow ::
  "string \<Rightarrow> string \<Rightarrow> machine_definition \<Rightarrow> json \<Rightarrow> string \<Rightarrow> string option \<Rightarrow> sessions \<Rightarrow> bool \<times> sessions" where
  "start_subflow instance_id name d input on_complete on_fail S =
     (session_exists S instance_id,
      modify_session instance_id (enter_subflow name d input on_complete on_fail) S)"

definition subflow_target :: "active_subflow \<Rightarrow> bool \<Rightarrow> string" where
  "subflow_target a succeeded =
     (if succeeded then as_on_complete a else unwrap_or ''failed'' (as_on_fail a))"

definition leave_subflow :: "bool \<Rightarrow> gateway_session \<Rightarrow> gateway_session" where
  "leave_subflow succeeded s =
     (case gs_subflow s of
        None \<Rightarrow> s
      | Some a \<Rightarrow>
          (reset_state_counters s)
            \<lparr>gs_subflow := None, gs_definition := as_parent_definition a,
             gs_previous_state := Some (as_parent_state a),
             gs_current_state := subflow_target a succeeded,
             gs_context := canonicalize_tool_policy_mode
               (apply_context_patch (as_parent_context a) (gs_context s))\<rparr>)"

definition complete_subflow :: "string \<Rightarrow> bool \<Rightarrow> sessions \<Rightarrow> (string \<times> string) option \<times> sessions" where
  "complete_subflow instance_id succeeded S =
     (Option.bind (S instance_id) (\<lambda>s.
        map_option (\<lambda>a. (gs_current_state s, subflow_target a succeeded)) (gs_subflow s)),
      modify_session instance_id (leave_subflow succeeded) S)"

definition note_file_edit :: "string \<Rightarrow> gateway_session \<Rightarrow> gateway_session" where
  "note_file_edit file_path s =
     (if file_path \<in> set (gs_files_edited s) then s
      else s\<lparr>gs_files_edited := gs_files_edited s @ [file_path]\<rparr>)"

definition record_file_edit :: "string \<Rightarrow> string \<Rightarrow> sessions \<Rightarrow> sessions" where
  "record_file_edit instance_id file_path S = modify_session instance_id (note_file_edit file_path) S"

definition read_count :: "gateway_session \<Rightarrow> string \<Rightarrow> u32" where
  "read_count s file_path = unwrap_or 0 (gs_files_read s file_path) + 1"

definition note_file_read :: "string \<Rightarrow> gateway_session \<Rightarrow> gateway_session" where
  "note_file_read file_path s = s\<lparr>gs_files_read := hm_insert file_path (read_count s file_path) (gs_files_read s)\<rparr>"

definition record_file_read :: "string \<Rightarrow> string \<Rightarrow> sessions \<Rightarrow> u32 \<times> sessions" where
  "record_file_read instance_id file_path S =
     ((case S instance_id of None \<Rightarrow> 1 | Some s \<Rightarrow> read_count s file_path),
      modify_session instance_id (note_file_read file_path) S)"

definition note_context_bytes :: "u64 \<Rightarrow> gateway_session \<Rightarrow> gateway_session" where
  "note_context_bytes bytes s = s\<lparr>gs_context_bytes := gs_context_bytes s + bytes\<rparr>"

definition add_context_bytes :: "string \<Rightarrow> u64 \<Rightarrow> sessions \<Rightarrow> u64 \<times> sessions" where
  "add_context_bytes instance_id bytes S =
     ((case S instance_id of None \<Rightarrow> 0 | Some s \<Rightarrow> gs_context_bytes s + bytes),
      modify_session instance_id (note_context_bytes bytes) S)"

definition limit_plan :: "u64 \<Rightarrow> gateway_session \<Rightarrow> gateway_session" where
  "limit_plan limit s = s\<lparr>gs_plan_limit := Some limit\<rparr>"

definition set_plan_limit :: "string \<Rightarrow> u64 \<Rightarrow> sessions \<Rightarrow> sessions" where
  "set_plan_limit instance_id limit S = modify_session instance_id (limit_plan limit) S"

definition note_iteration :: "gateway_session \<Rightarrow> gateway_session" where
  "note_iteration s = s\<lparr>gs_iteration_count := gs_iteration_count s + 1\<rparr>"

definition increment_iteration :: "string \<Rightarrow> sessions \<Rightarrow> u32 option \<times> sessions" where
  "increment_iteration instance_id S =
     (map_option (\<lambda>s. gs_iteration_count s + 1) (S instance_id),
      modify_session instance_id note_iteration S)"

definition park_approval :: "pending_approval \<Rightarrow> gateway_session \<Rightarrow> gateway_session" where
  "park_approval p s = s\<lparr>gs_pending_approval := Some p\<rparr>"

definition set_pending_approval :: "string \<Rightarrow> pending_approval \<Rightarrow> sessions \<Rightarrow> sessions" where
  "set_pending_approval instance_id p S = modify_session instance_id (park_approval p) S"

definition drop_approval :: "gateway_session \<Rightarrow> gateway_session" where
  "drop_approval s = s\<lparr>gs_pending_approval := None\<rparr>"

definition clear_pending_approval :: "string \<Rightarrow> sessions \<Rightarrow> pending_approval option \<times> sessions" where
  "clear_pending_approval instance_id S =
     (Option.bind (S instance_id) gs_pending_approval, modify_session instance_id drop_approval S)"

definition has_pending_approval :: "sessions \<Rightarrow> string \<Rightarrow> bool" where
  "has_pending_approval S instance_id \<longleftrightarrow> is_some_and (\<lambda>s. gs_pending_approval s \<noteq> None) (S instance_id)"

section \<open>Canonical policy modes\<close>

definition canonical_mode :: "json \<Rightarrow> bool" where
  "canonical_mode j \<longleftrightarrow> jget_str j ''tool_policy_mode'' \<noteq> Some legacy_denylist_heuristic_policy_mode"

lemma canonicalize_canonical [simp]: "canonical_mode (canonicalize_tool_policy_mode j)"
  by (cases j) (auto simp: canonical_mode_def canonicalize_tool_policy_mode_def jget_str_def bt_simps
      legacy_denylist_heuristic_policy_mode_def denylist_heuristic_policy_mode_def)

lemma canonicalize_id [simp]: "canonical_mode j \<Longrightarrow> canonicalize_tool_policy_mode j = j"
  by (simp add: canonical_mode_def canonicalize_tool_policy_mode_def)

lemma is_object_canonicalize [simp]: "is_object (canonicalize_tool_policy_mode j) = is_object j"
  by (simp add: canonicalize_tool_policy_mode_def)

lemma canonical_definition_id: "canonical_mode (md_context d) \<Longrightarrow> canonical_definition d = d"
  by (simp add: canonical_definition_def)

lemma canonical_definition_simps [simp]:
  "md_initial (canonical_definition d) = md_initial d" "md_states (canonical_definition d) = md_states d"
  "canonical_mode (md_context (canonical_definition d))"
  by (simp_all add: canonical_definition_def)

lemma canonical_object_or_empty [simp]: "canonical_mode j \<Longrightarrow> canonical_mode (object_or_empty j)"
  by (simp add: object_or_empty_def canonical_mode_def jget_str_def)

lemma is_object_or_empty [simp]: "is_object (object_or_empty j)"
  by (simp add: object_or_empty_def)

section \<open>The invariant of a session\<close>

text \<open>
  The context is an object (handlers call \<open>as_object_mut\<close> on it), no context the session holds carries the
  legacy name of the policy mode, and the edited files of the state are listed once each.
\<close>

definition subflow_ok :: "active_subflow \<Rightarrow> bool" where
  "subflow_ok a \<longleftrightarrow> is_object (as_parent_context a) \<and> canonical_mode (as_parent_context a) \<and>
     canonical_mode (md_context (as_parent_definition a))"

definition session_ok :: "gateway_session \<Rightarrow> bool" where
  "session_ok s \<longleftrightarrow> is_object (gs_context s) \<and> canonical_mode (gs_context s) \<and>
     canonical_mode (md_context (gs_definition s)) \<and> distinct (gs_files_edited s) \<and>
     is_none_or subflow_ok (gs_subflow s)"

definition store_ok :: "sessions \<Rightarrow> bool" where
  "store_ok S \<longleftrightarrow> (\<forall>i s. S i = Some s \<longrightarrow> gs_instance_id s = i \<and> session_ok s)"

lemmas session_upd_defs = reset_state_counters_def enter_state_def enter_subflow_def leave_subflow_def
  note_file_edit_def note_file_read_def note_context_bytes_def limit_plan_def note_iteration_def
  park_approval_def drop_approval_def

lemma session_ok_new: "session_ok (new_session i d)"
  by (simp add: session_ok_def new_session_def Let_def)

lemma session_ok_from_checkpoint:
  assumes "from_checkpoint fv v i state = Ok s" "\<And>r. fv (jindex v ''session'') = Some r \<Longrightarrow>
    distinct (gs_files_edited r) \<and> is_none_or (\<lambda>a. is_object (as_parent_context a)) (gs_subflow r)"
  shows "session_ok s" "gs_instance_id s = i" "gs_current_state s = state"
  using assms
  by (auto simp: from_checkpoint_def session_ok_def subflow_ok_def is_none_or_iff
      split: if_splits option.splits)

text \<open>
  What every updating method shares: it changes the session of its key by a function on sessions,
  and that function keeps the invariant and the identity of the session.
\<close>

locale session_update =
  fixes op :: "string \<Rightarrow> sessions \<Rightarrow> sessions"
    and f :: "gateway_session \<Rightarrow> gateway_session"
  assumes acts: "op i S = modify_session i f S"
    and keeps_ok: "session_ok s \<Longrightarrow> session_ok (f s)"
    and keeps_id: "gs_instance_id (f s) = gs_instance_id s"
begin

lemma at_key: "op i S i = map_option f (S i)"
  by (simp add: acts modify_session_def hm_insert_def split: option.splits)

lemma frame: "j \<noteq> i \<Longrightarrow> op i S j = S j"
  by (simp add: acts modify_session_def hm_insert_def split: option.splits)

lemma dom_op: "dom (op i S) = dom S"
  by (auto simp: acts modify_session_def hm_insert_def split: option.splits)

lemma store_ok_op: "store_ok S \<Longrightarrow> store_ok (op i S)"
  by (auto simp: store_ok_def acts modify_session_def hm_insert_def keeps_ok keeps_id split: option.splits if_splits)

end

interpretation su_enter: session_update "\<lambda>i. snd \<circ> update_state i st (object_or_empty ctx)" "enter_state st (object_or_empty ctx)"
  by unfold_locales (auto simp: update_state_def session_ok_def session_upd_defs)

interpretation su_start: session_update "\<lambda>i. snd \<circ> start_subflow i name d input oc onf"
    "enter_subflow name d input oc onf"
  by unfold_locales (auto simp: start_subflow_def session_ok_def session_upd_defs subflow_ok_def Let_def)

interpretation su_complete: session_update "\<lambda>i. snd \<circ> complete_subflow i succeeded" "leave_subflow succeeded"
  by unfold_locales
    (auto simp: complete_subflow_def session_ok_def session_upd_defs subflow_ok_def split: option.splits)

interpretation su_edit: session_update "\<lambda>i. record_file_edit i path" "note_file_edit path"
  by unfold_locales (auto simp: record_file_edit_def session_ok_def session_upd_defs)

interpretation su_read: session_update "\<lambda>i. snd \<circ> record_file_read i path" "note_file_read path"
  by unfold_locales (auto simp: record_file_read_def session_ok_def session_upd_defs)

interpretation su_bytes: session_update "\<lambda>i. snd \<circ> add_context_bytes i n" "note_context_bytes n"
  by unfold_locales (auto simp: add_context_bytes_def session_ok_def session_upd_defs)

interpretation su_limit: session_update "\<lambda>i. set_plan_limit i l" "limit_plan l"
  by unfold_locales (auto simp: set_plan_limit_def session_ok_def session_upd_defs)

interpretation su_iteration: session_update "\<lambda>i. snd \<circ> increment_iteration i" note_iteration
  by unfold_locales (auto simp: increment_iteration_def session_ok_def session_upd_defs)

interpretation su_park: session_update "\<lambda>i. set_pending_approval i p" "park_approval p"
  by unfold_locales (auto simp: set_pending_approval_def session_ok_def session_upd_defs)

interpretation su_drop: session_update "\<lambda>i. snd \<circ> clear_pending_approval i" drop_approval
  by unfold_locales (auto simp: clear_pending_approval_def session_ok_def session_upd_defs)

section \<open>Sequences of store operations\<close>

text \<open>
  One call of a store method. Handlers run concurrently, but each call is atomic under the lock, so what
  the handlers do to the store is a list of calls in the order in which they took the lock.
\<close>

datatype session_op =
    OpRestore gateway_session
  | OpCreate string machine_definition
  | OpUpdate string string json
  | OpStart string string machine_definition json string "string option"
  | OpComplete string bool
  | OpEdit string string
  | OpRead string string
  | OpBytes string u64
  | OpLimit string u64
  | OpIterate string
  | OpPark string pending_approval
  | OpDrop string

fun op_key :: "session_op \<Rightarrow> string" where
  "op_key (OpRestore s) = gs_instance_id s"
| "op_key (OpCreate i _) = i"
| "op_key (OpUpdate i _ _) = i"
| "op_key (OpStart i _ _ _ _ _) = i"
| "op_key (OpComplete i _) = i"
| "op_key (OpEdit i _) = i"
| "op_key (OpRead i _) = i"
| "op_key (OpBytes i _) = i"
| "op_key (OpLimit i _) = i"
| "op_key (OpIterate i) = i"
| "op_key (OpPark i _) = i"
| "op_key (OpDrop i) = i"

fun run_op :: "session_op \<Rightarrow> sessions \<Rightarrow> sessions" where
  "run_op (OpRestore s) S = restore s S"
| "run_op (OpCreate i d) S = snd (create i d S)"
| "run_op (OpUpdate i st ctx) S = snd (update_state i st ctx S)"
| "run_op (OpStart i name d input oc onf) S = snd (start_subflow i name d input oc onf S)"
| "run_op (OpComplete i b) S = snd (complete_subflow i b S)"
| "run_op (OpEdit i p) S = record_file_edit i p S"
| "run_op (OpRead i p) S = snd (record_file_read i p S)"
| "run_op (OpBytes i n) S = snd (add_context_bytes i n S)"
| "run_op (OpLimit i l) S = set_plan_limit i l S"
| "run_op (OpIterate i) S = snd (increment_iteration i S)"
| "run_op (OpPark i p) S = set_pending_approval i p S"
| "run_op (OpDrop i) S = snd (clear_pending_approval i S)"

definition run_ops :: "session_op list \<Rightarrow> sessions \<Rightarrow> sessions" where
  "run_ops ops S = fold run_op ops S"

text \<open>The two methods that store a value they are given rely on its shape: a restored session satisfies
  the invariant (\<open>session_ok_from_checkpoint\<close>) and the context of a transition is an object.\<close>

fun op_ok :: "session_op \<Rightarrow> bool" where
  "op_ok (OpRestore s) = session_ok s"
| "op_ok (OpUpdate i st ctx) = is_object ctx"
| "op_ok _ = True"

lemmas store_ok_ops = su_start.store_ok_op [unfolded comp_def] su_complete.store_ok_op [unfolded comp_def]
  su_edit.store_ok_op su_read.store_ok_op [unfolded comp_def] su_bytes.store_ok_op [unfolded comp_def]
  su_limit.store_ok_op su_iteration.store_ok_op [unfolded comp_def] su_park.store_ok_op
  su_drop.store_ok_op [unfolded comp_def]

lemmas at_key_ops = su_start.at_key [unfolded comp_def] su_complete.at_key [unfolded comp_def]
  su_edit.at_key su_read.at_key [unfolded comp_def] su_bytes.at_key [unfolded comp_def]
  su_limit.at_key su_iteration.at_key [unfolded comp_def] su_park.at_key su_drop.at_key [unfolded comp_def]

lemmas frame_ops = su_start.frame [unfolded comp_def] su_complete.frame [unfolded comp_def]
  su_edit.frame su_read.frame [unfolded comp_def] su_bytes.frame [unfolded comp_def]
  su_limit.frame su_iteration.frame [unfolded comp_def] su_park.frame su_drop.frame [unfolded comp_def]

lemma update_state_at: "snd (update_state i st ctx S) i = map_option (enter_state st ctx) (S i)"
  by (simp add: update_state_def modify_session_def hm_insert_def split: option.splits)

lemma update_state_frame: "j \<noteq> i \<Longrightarrow> snd (update_state i st ctx S) j = S j"
  by (simp add: update_state_def modify_session_def hm_insert_def split: option.splits)

lemma run_op_frame: "op_key op \<noteq> j \<Longrightarrow> run_op op S j = S j"
  by (cases op) (auto simp: frame_ops update_state_frame restore_def create_def hm_insert_def Let_def
      split: option.splits)

text \<open>What a call does to its session depends on that session only.\<close>

lemma run_op_local: "S j = S' j \<Longrightarrow> run_op op S j = run_op op S' j"
proof (cases "op_key op = j")
  case True
  assume "S j = S' j"
  with True show ?thesis
    by (cases op) (auto simp: at_key_ops update_state_at restore_def create_def hm_insert_def Let_def
        split: option.splits)
qed (simp add: run_op_frame)

lemma store_ok_run_op: "store_ok S \<Longrightarrow> op_ok op \<Longrightarrow> store_ok (run_op op S)"
proof (cases op)
  case (OpUpdate i st ctx)
  assume "store_ok S" "op_ok op"
  then show ?thesis using su_enter.store_ok_op [of S i st ctx] OpUpdate by (simp add: object_or_empty_def)
next
  case (OpCreate i d)
  assume "store_ok S"
  then show ?thesis using OpCreate session_ok_new [of i d]
    by (auto simp: store_ok_def create_def hm_insert_def Let_def split: option.splits if_splits)
      (auto simp: new_session_def Let_def)
next
  case (OpRestore s)
  assume "store_ok S" "op_ok op"
  then show ?thesis using OpRestore by (simp add: store_ok_def restore_def hm_insert_def)
qed (simp_all add: store_ok_ops)

lemma run_ops_simps [simp]: "run_ops [] S = S" "run_ops (op # ops) S = run_ops ops (run_op op S)"
  by (simp_all add: run_ops_def)

lemma run_ops_append: "run_ops (xs @ ys) S = run_ops ys (run_ops xs S)"
  by (simp add: run_ops_def)

lemma store_ok_run_ops: "list_all op_ok ops \<Longrightarrow> store_ok S \<Longrightarrow> store_ok (run_ops ops S)"
  by (induction ops arbitrary: S) (auto simp: store_ok_run_op)

lemma run_ops_local: "S j = S' j \<Longrightarrow> run_ops ops S j = run_ops ops S' j"
proof (induction ops arbitrary: S S')
  case (Cons op ops)
  have "run_op op S j = run_op op S' j" using Cons.prems by (rule run_op_local)
  then have "run_ops ops (run_op op S) j = run_ops ops (run_op op S') j" by (rule Cons.IH)
  then show ?case by simp
qed simp

lemma run_ops_filter: "run_ops ops S j = run_ops (filter (\<lambda>op. op_key op = j) ops) S j"
proof (induction ops arbitrary: S)
  case (Cons op ops)
  show ?case
  proof (cases "op_key op = j")
    case False
    have "run_ops ops (run_op op S) j = run_ops ops S j"
      by (rule run_ops_local) (simp add: run_op_frame False)
    then show ?thesis using False Cons.IH [of S] by simp
  qed (simp add: Cons.IH)
qed simp


definition sample_machine :: machine_definition where
  "sample_machine = \<lparr>md_id = ''m'', md_initial = ''plan'',
     md_context = JObject [(''tool_policy_mode'', JString ''blacklist_heuristic_v1'')],
     md_states = [(''done'', empty_state_def\<lparr>sd_state_type := Some Final\<rparr>), (''plan'', empty_state_def)],
     md_guards = [], md_meta = None, md_interrupts = []\<rparr>"


text \<open>
  Sessions do not interfere. What any interleaving of calls does to a session is what the calls
  on that session alone do, in their order.
\<close>

theorem sessions_do_not_interfere:
  "get_session (run_ops ops S) j = get_session (run_ops (filter (\<lambda>op. op_key op = j) ops) S) j"
  unfolding get_session_def by (rule run_ops_filter)

section \<open>Accounting within a state\<close>

text \<open>\<open>stays i op\<close>: the call neither moves nor replaces session \<open>i\<close>.\<close>

fun stays :: "string \<Rightarrow> session_op \<Rightarrow> bool" where
  "stays i (OpRestore s) = (gs_instance_id s \<noteq> i)"
| "stays i (OpCreate j _) = (j \<noteq> i)"
| "stays i (OpUpdate j _ _) = (j \<noteq> i)"
| "stays i (OpStart j _ _ _ _ _) = (j \<noteq> i)"
| "stays i (OpComplete j _) = (j \<noteq> i)"
| "stays i _ = True"

fun bytes_of :: "string \<Rightarrow> session_op \<Rightarrow> nat" where
  "bytes_of i (OpBytes j n) = (if j = i then unat n else 0)"
| "bytes_of i _ = 0"

definition counted :: "session_op \<Rightarrow> session_op list \<Rightarrow> nat" where
  "counted op ops = length (filter (\<lambda>x. x = op) ops)"

definition accounts :: "string \<Rightarrow> session_op list \<Rightarrow> gateway_session \<Rightarrow> bool" where
  "accounts i ops s \<longleftrightarrow>
     distinct (gs_files_edited s) \<and> set (gs_files_edited s) = {p. OpEdit i p \<in> set ops} \<and>
     gs_iteration_count s = of_nat (counted (OpIterate i) ops) \<and>
     gs_context_bytes s = of_nat (sum_list (map (bytes_of i) ops)) \<and>
     (\<forall>p. gs_files_read s p =
        (if OpRead i p \<in> set ops then Some (of_nat (counted (OpRead i p) ops)) else None))"

lemma counted_snoc: "counted op (ops @ [x]) = counted op ops + (if x = op then 1 else 0)"
  by (simp add: counted_def)

lemma counted_0: "op \<notin> set ops \<Longrightarrow> counted op ops = 0"
  by (auto simp: counted_def filter_empty_conv)

lemma bytes_of_other: "op_key op \<noteq> i \<Longrightarrow> bytes_of i op = 0"
  by (cases op) auto

lemma accounts_other: "op_key op \<noteq> i \<Longrightarrow> accounts i ops s \<Longrightarrow> accounts i (ops @ [op]) s"
  by (auto simp: accounts_def counted_snoc bytes_of_other)

text \<open>\<open>same_place s s'\<close>: the position of the run, its definition and its context agree.\<close>

definition same_place :: "gateway_session \<Rightarrow> gateway_session \<Rightarrow> bool" where
  "same_place s s' \<longleftrightarrow> gs_current_state s' = gs_current_state s \<and> gs_previous_state s' = gs_previous_state s \<and>
     gs_transition_count s' = gs_transition_count s \<and> gs_context s' = gs_context s \<and>
     gs_definition s' = gs_definition s \<and> gs_subflow s' = gs_subflow s"

lemma accounts_step:
  assumes "accounts i ops s" "stays i op" "S i = Some s"
  shows "\<exists>s'. run_op op S i = Some s' \<and> accounts i (ops @ [op]) s' \<and> same_place s s'"
proof (cases "op_key op = i")
  case True
  with assms show ?thesis
  proof (cases op)
    case (OpRead j p)
    then show ?thesis using True assms
      by (auto simp: at_key_ops note_file_read_def accounts_def read_count_def counted_snoc hm_insert_def
          counted_0 same_place_def)
  qed (auto simp: at_key_ops accounts_def session_upd_defs counted_snoc same_place_def)
next
  case False
  then show ?thesis using assms accounts_other by (auto simp: run_op_frame same_place_def)
qed

lemma accounts_run:
  assumes "S i = Some s" "accounts i [] s" "list_all (stays i) ops"
  shows "\<exists>s'. run_ops ops S i = Some s' \<and> accounts i ops s' \<and> same_place s s'"
  using assms(3)
proof (induction ops rule: rev_induct)
  case Nil
  then show ?case using assms by (simp add: same_place_def)
next
  case (snoc op ops)
  then obtain s' where s': "run_ops ops S i = Some s'" "accounts i ops s'" "same_place s s'" by auto
  have "stays i op" using snoc.prems by simp
  from accounts_step [OF s'(2) this, of "run_ops ops S"] s'
  show ?case by (auto simp: run_ops_append same_place_def)
qed

text \<open>
  While a session stays in a state, its records say exactly what happened in that state: after a
  transition and any further calls, by any handler, the edited files are those edited since the transition,
  each once; the iteration count, the bytes of tool results and the number of reads of every file are those
  since the transition (modulo the width of the counter); the transition has been counted once.
\<close>

theorem state_accounting:
  assumes "S i = Some s" "list_all (stays i) ops"
  shows "\<exists>s'. run_ops (OpUpdate i st ctx # ops) S i = Some s' \<and> accounts i ops s' \<and>
    gs_current_state s' = st \<and> gs_previous_state s' = Some (gs_current_state s) \<and>
    gs_transition_count s' = gs_transition_count s + 1"
proof -
  let ?S = "run_op (OpUpdate i st ctx) S"
  have "?S i = Some (enter_state st ctx s)" using assms(1) by (simp add: update_state_at)
  moreover have "accounts i [] (enter_state st ctx s)"
    by (simp add: accounts_def counted_def session_upd_defs)
  ultimately obtain s' where "run_ops ops ?S i = Some s'" "accounts i ops s'"
    "same_place (enter_state st ctx s) s'" using accounts_run [of ?S i _ ops] assms(2) by blast
  then show ?thesis by (auto simp: same_place_def session_upd_defs)
qed

theorem state_accounting_witness:
  "\<exists>s'. run_ops [OpUpdate ''a'' ''done'' (JObject []), OpEdit ''a'' ''x'', OpEdit ''b'' ''y'', OpEdit ''a'' ''x'']
          [''a'' \<mapsto> new_session ''a'' sample_machine] ''a'' = Some s' \<and>
     accounts ''a'' [OpEdit ''a'' ''x'', OpEdit ''b'' ''y'', OpEdit ''a'' ''x''] s' \<and> gs_transition_count s' = 1"
  using state_accounting [of "[''a'' \<mapsto> new_session ''a'' sample_machine]" "''a''"
      "new_session ''a'' sample_machine" "[OpEdit ''a'' ''x'', OpEdit ''b'' ''y'', OpEdit ''a'' ''x'']"
      "''done''" "JObject []"]
  by (auto simp: new_session_def Let_def)

section \<open>Subflows\<close>

text \<open>\<open>within_subflow i op\<close>: the call leaves the suspended parent of session \<open>i\<close> alone.\<close>

fun within_subflow :: "string \<Rightarrow> session_op \<Rightarrow> bool" where
  "within_subflow i (OpRestore s) = (gs_instance_id s \<noteq> i)"
| "within_subflow i (OpCreate j _) = (j \<noteq> i)"
| "within_subflow i (OpStart j _ _ _ _ _) = (j \<noteq> i)"
| "within_subflow i (OpComplete j _) = (j \<noteq> i)"
| "within_subflow i _ = True"

lemma within_subflow_step:
  "within_subflow i op \<Longrightarrow> S i = Some s \<Longrightarrow> \<exists>s'. run_op op S i = Some s' \<and> gs_subflow s' = gs_subflow s"
proof (cases "op_key op = i")
  case True
  assume "within_subflow i op" "S i = Some s"
  with True show ?thesis by (cases op) (auto simp: at_key_ops update_state_at session_upd_defs)
qed (auto simp: run_op_frame)

lemma within_subflow_run:
  "list_all (within_subflow i) ops \<Longrightarrow> S i = Some s \<Longrightarrow>
   \<exists>s'. run_ops ops S i = Some s' \<and> gs_subflow s' = gs_subflow s"
proof (induction ops arbitrary: S s)
  case (Cons op ops)
  then obtain s1 where s1: "run_op op S i = Some s1" "gs_subflow s1 = gs_subflow s"
    using within_subflow_step [of i op S s] by auto
  have "list_all (within_subflow i) ops" using Cons.prems by simp
  from Cons.IH [OF this, of "run_op op S" s1] s1 show ?case by simp
qed simp

text \<open>The parent's context after the subflow: the child's entries over the parent's.\<close>

lemma jget_canonicalize:
  "k \<noteq> ''tool_policy_mode'' \<Longrightarrow> jget (canonicalize_tool_policy_mode j) k = jget j k"
  by (cases j) (auto simp: canonicalize_tool_policy_mode_def bt_simps)

lemma jget_leave:
  assumes "is_object pc" "canonical_mode pc" "json_wf pc" "json_wf c"
  shows "jget c k = None \<Longrightarrow> jget (canonicalize_tool_policy_mode (apply_context_patch pc c)) k = jget pc k"
    and "jget c k = Some v \<Longrightarrow> k \<noteq> ''tool_policy_mode'' \<Longrightarrow>
      jget (canonicalize_tool_policy_mode (apply_context_patch pc c)) k = Some v"
proof -
  have p: "jget (apply_context_patch pc c) k = (case jget c k of Some v \<Rightarrow> Some v | None \<Rightarrow> jget pc k)" for k
    using jget_patch assms by blast
  show "jget c k = None \<Longrightarrow> jget (canonicalize_tool_policy_mode (apply_context_patch pc c)) k = jget pc k"
  proof (cases "k = ''tool_policy_mode''")
    case True
    assume "jget c k = None"
    then have "canonical_mode (apply_context_patch pc c)"
      using assms(2) True by (simp add: canonical_mode_def jget_str_def p)
    then show ?thesis using \<open>jget c k = None\<close> by (simp add: p)
  qed (simp add: jget_canonicalize p)
qed (simp add: jget_canonicalize jget_patch assms)

text \<open>
  C37: a subflow returns to its parent. A named child workflow is started, the session moves through any number of
  its states while other handlers work, and the child is completed: the session has its parent's
  definition back, comes from the parent's state, stands at \<open>on_complete\<close> (or, when the child failed, at
  \<open>on_fail\<close> or \<open>failed\<close>), has no subflow any more, and its context is the parent's with the child's
  entries laid over it; no transition of the parent is counted for it.
\<close>

theorem subflow_round_trip:
  assumes "S i = Some s" "session_ok s" "json_wf (gs_context s)" "list_all (within_subflow i) ops"
    "run_ops (OpStart i name d input oc onf # ops) S i = Some c" "json_wf (gs_context c)"
  shows "\<exists>s'. run_ops (OpStart i name d input oc onf # ops @ [OpComplete i succeeded]) S i = Some s' \<and>
    gs_definition s' = gs_definition s \<and> gs_previous_state s' = Some (gs_current_state s) \<and>
    gs_current_state s' = (if succeeded then oc else unwrap_or ''failed'' onf) \<and> gs_subflow s' = None \<and>
    gs_transition_count s' = gs_transition_count c \<and>
    (\<forall>k. jget (gs_context c) k = None \<longrightarrow> jget (gs_context s') k = jget (gs_context s) k) \<and>
    (\<forall>k v. jget (gs_context c) k = Some v \<longrightarrow> k \<noteq> ''tool_policy_mode'' \<longrightarrow>
      jget (gs_context s') k = Some v)"
proof -
  let ?S = "run_op (OpStart i name d input oc onf) S"
  define a where "a = \<lparr>as_name = name, as_parent_definition = gs_definition s,
    as_parent_state = gs_current_state s, as_parent_context = gs_context s,
    as_on_complete = oc, as_on_fail = onf\<rparr>"
  obtain s1 where "?S i = Some s1" "gs_subflow s1 = Some a"
    using assms(1) by (simp add: at_key_ops session_upd_defs Let_def a_def)
  then have c: "gs_subflow c = Some a" using within_subflow_run [of i ops ?S s1] assms(4,5) by auto
  have "run_ops (OpStart i name d input oc onf # ops @ [OpComplete i succeeded]) S i =
      Some (leave_subflow succeeded c)"
    using assms(5) by (simp add: run_ops_append at_key_ops)
  moreover have "is_object (gs_context s)" "canonical_mode (gs_context s)"
    using assms(2) by (auto simp: session_ok_def)
  ultimately show ?thesis using c jget_leave [OF _ _ assms(3,6)]
    by (simp add: leave_subflow_def reset_state_counters_def subflow_target_def a_def)
qed

theorem subflow_round_trip_witness:
  "\<exists>s'. run_ops ([OpStart ''a'' ''child'' sample_machine (JObject []) ''ok'' None, OpUpdate ''a'' ''done'' (JObject [])] @
        [OpComplete ''a'' False]) [''a'' \<mapsto> new_session ''a'' sample_machine] ''a'' = Some s' \<and>
     gs_current_state s' = ''failed'' \<and> gs_previous_state s' = Some ''plan''"
proof -
  let ?s = "new_session ''a'' sample_machine"
  have "json_wf (gs_context ?s)" by code_simp
  moreover obtain c where c: "run_ops [OpStart ''a'' ''child'' sample_machine (JObject []) ''ok'' None,
      OpUpdate ''a'' ''done'' (JObject [])] [''a'' \<mapsto> ?s] ''a'' = Some c"
    "gs_context c = JObject []"
    by (simp add: at_key_ops update_state_at session_upd_defs canonicalize_tool_policy_mode_def jget_str_def)
  moreover have "json_wf (gs_context c)" using c by (simp add: bt_wf_def)
  moreover have "gs_current_state ?s = ''plan''" by code_simp
  ultimately show ?thesis
    using subflow_round_trip [of "[''a'' \<mapsto> ?s]" "''a''" ?s "[OpUpdate ''a'' ''done'' (JObject [])]"
        "''child''" sample_machine "JObject []" "''ok''" None c False] session_ok_new [of "''a''" sample_machine]
    by auto
qed

section \<open>Checkpoints\<close>

text \<open>What \<open>from_checkpoint\<close> asks of a session, beside the canonical policy names.\<close>

definition resumable :: "gateway_session \<Rightarrow> bool" where
  "resumable s \<longleftrightarrow> bt_contains_key (md_states (gs_definition s)) (gs_current_state s) \<and>
     is_none_or (\<lambda>p. pa_approval_id p \<noteq> [] \<and> pa_from_state p = gs_current_state s \<and>
       bt_contains_key (md_states (gs_definition s)) (pa_to_state p) \<and> is_object (pa_new_context p) \<and>
       canonical_mode (pa_new_context p)) (gs_pending_approval s)"

lemma from_own_checkpoint:
  assumes "from_value (to_value s) = Some s" "jget (to_value s) ''pending_approval'' \<noteq> None"
    and "session_ok s" "resumable s"
  shows "from_checkpoint from_value (checkpoint to_value s) i st =
    (if i = gs_instance_id s \<and> st = gs_current_state s then Ok s
     else Err ''Paused session identity or state mismatch'')"
proof -
  have cp: "jget (checkpoint to_value s) ''quota_hold'' = None"
    "jindex (checkpoint to_value s) ''schema'' = JString checkpoint_schema"
    "jindex (checkpoint to_value s) ''session'' = to_value s"
    by (simp_all add: checkpoint_def jindex_def)
  show ?thesis
  proof (cases "i = gs_instance_id s \<and> st = gs_current_state s")
    case True
    have ok: "is_object (gs_context s)" "canonicalize_tool_policy_mode (gs_context s) = gs_context s"
      "canonical_definition (gs_definition s) = gs_definition s"
      "bt_contains_key (md_states (gs_definition s)) (gs_current_state s)"
      using assms(3,4) by (auto simp: session_ok_def canonical_definition_id resumable_def)
    have sub: "map_option (\<lambda>a. a\<lparr>as_parent_definition := canonical_definition (as_parent_definition a),
        as_parent_context := canonicalize_tool_policy_mode (as_parent_context a)\<rparr>) (gs_subflow s) = gs_subflow s"
      using assms(3) by (cases "gs_subflow s")
        (auto simp: session_ok_def subflow_ok_def canonical_definition_id)
    have pend: "map_option (\<lambda>p. p\<lparr>pa_new_context := canonicalize_tool_policy_mode (pa_new_context p)\<rparr>)
        (gs_pending_approval s) = gs_pending_approval s"
      using assms(4) by (cases "gs_pending_approval s") (auto simp: resumable_def)
    have "\<not> is_some_and (\<lambda>p. pa_approval_id p = [] \<or> pa_from_state p \<noteq> gs_current_state s
        \<or> \<not> bt_contains_key (md_states (gs_definition s)) (pa_to_state p)
        \<or> \<not> is_object (pa_new_context p)) (gs_pending_approval s)"
      using assms(4) by (cases "gs_pending_approval s") (auto simp: resumable_def)
    with True show ?thesis using assms(1,2) by (simp add: from_checkpoint_def cp ok sub pend)
  next
    case False
    then show ?thesis using assms(1,2) by (auto simp: from_checkpoint_def cp)
  qed
qed

text \<open>
  A paused session comes back unchanged. For a serialisation that reads back what it wrote and writes
  the field of the pending approval (\<open>null\<close> included), resuming a session of the store from its own checkpoint, under
  its own id and state, gives the very same session; under any other id or state it is refused.
\<close>

theorem checkpoint_round_trip:
  assumes "from_value (to_value s) = Some s" "jget (to_value s) ''pending_approval'' \<noteq> None"
    and "session_ok s" "resumable s"
  shows "from_checkpoint from_value (checkpoint to_value s) i st =
    (if i = gs_instance_id s \<and> st = gs_current_state s then Ok s
     else Err ''Paused session identity or state mismatch'')"
  using assms by (rule from_own_checkpoint)

theorem checkpoint_round_trip_witness:
  "let s = new_session ''a'' sample_machine; to_value = (\<lambda>_. JObject [(''pending_approval'', JNull)]);
       from_value = (\<lambda>_. Some s)
   in from_checkpoint from_value (checkpoint to_value s) ''a'' ''plan'' = Ok s \<and>
      from_checkpoint from_value (checkpoint to_value s) ''a'' ''done'' =
        Err ''Paused session identity or state mismatch''"
proof -
  let ?s = "new_session ''a'' sample_machine" and ?to = "\<lambda>_. JObject [(''pending_approval'', JNull)]"
  have r: "resumable ?s" "gs_instance_id ?s = ''a''" "gs_current_state ?s = ''plan''" by code_simp+
  note ct = checkpoint_round_trip [of "\<lambda>_. Some ?s" ?to ?s, OF _ _ session_ok_new r(1)]
  show ?thesis using ct [of "''a''" "''plan''"] ct [of "''a''" "''done''"] by (simp add: r(2,3))
qed

section \<open>Metering against the plan limit\<close>

lemma percent_reached:
  assumes "0 < l" "l \<le> used"
  shows "100 \<le> f64_mul (f64_div (f64_of_u64 used) (f64_of_u64 l)) 100"
proof -
  have "0 < unat l" using assms(1) by (simp add: word_less_nat_alt)
  then have "0 < f64_of_u64 l" by (rule f64_of_u64_pos)
  then have "1 \<le> f64_of_u64 used / f64_of_u64 l"
    using f64_of_u64_mono [OF assms(2)] by (simp add: pos_le_divide_eq)
  then have "1 \<le> f64_div (f64_of_u64 used) (f64_of_u64 l)"
    using f64_round_mono [of 1] by (simp add: f64_div_def)
  then have "f64_round 100 \<le> f64_mul (f64_div (f64_of_u64 used) (f64_of_u64 l)) 100"
    unfolding f64_mul_def by (intro f64_round_mono) simp
  moreover have "f64_round 100 = 100" using f64_round_nat [of 100] by simp
  ultimately show ?thesis by simp
qed

text \<open>The largest quotient below one is the double just below one, and its hundredfold rounds below 100.\<close>

lemma percent_not_reached:
  assumes "used < l" "unat l < 2 ^ 53"
  shows "f64_mul (f64_div (f64_of_u64 used) (f64_of_u64 l)) 100 < 100"
proof -
  let ?z = "1 - 1 / 2 ^ 53 :: rat"
  have lt: "unat used < unat l" using assms(1) by (simp add: word_less_nat_alt)
  have "f64_of_u64 used = of_nat (unat used)" "f64_of_u64 l = of_nat (unat l)"
    using f64_of_u64_exact assms(2) lt by force+
  moreover have "rat_of_nat (unat used) / rat_of_nat (unat l) \<le> ?z"
  proof -
    have "rat_of_nat (unat l) \<le> 2 ^ 53" using assms(2) by (metis less_imp_le of_nat_le_numeral_power_cancel_iff)
    then have "rat_of_nat (unat l) * (1 / 2 ^ 53) \<le> 1" by simp
    moreover have "rat_of_nat (unat used) \<le> rat_of_nat (unat l) - 1"
      using lt by (metis le_diff_eq of_nat_1 of_nat_add of_nat_le_iff add.commute Suc_leI plus_1_eq_Suc)
    ultimately have "rat_of_nat (unat used) \<le> ?z * rat_of_nat (unat l)" by (simp add: algebra_simps)
    moreover have "0 < rat_of_nat (unat l)" using lt by (simp only: of_nat_0_less_iff)
    ultimately show ?thesis by (simp only: pos_divide_le_eq)
  qed
  ultimately have "f64_div (f64_of_u64 used) (f64_of_u64 l) \<le> f64_round ?z"
    unfolding f64_div_def by (simp only: f64_round_mono)
  also have "\<dots> = ?z" by code_simp
  finally have "f64_mul (f64_div (f64_of_u64 used) (f64_of_u64 l)) 100 \<le> f64_round (?z * 100)"
    unfolding f64_mul_def by (intro f64_round_mono) simp
  also have "\<dots> < 100" by code_simp
  finally show ?thesis .
qed

text \<open>
  The plan limit is reported when it is reached. A session that has used at least its plan limit is
  always told so, whatever the rounding of the double-precision percentage; and for limits below
  \<open>2 ^ 53\<close> it is told so only then.
\<close>

theorem usage_warning_limit:
  "gs_plan_limit s = Some l \<Longrightarrow>
   (l \<le> gs_transition_count s \<longrightarrow> usage_warning s = Some (limit_reached_text (gs_transition_count s) l)) \<and>
   (gs_transition_count s < l \<and> unat l < 2 ^ 53 \<longrightarrow>
      usage_warning s \<noteq> Some (limit_reached_text (gs_transition_count s) l))"
proof -
  assume l: "gs_plan_limit s = Some l"
  have "l = 0 \<or> 0 < l" by (cases "l = 0") (auto simp: word_gt_0)
  then show ?thesis
    using percent_reached [of l "gs_transition_count s"] percent_not_reached [of "gs_transition_count s" l]
    by (auto simp: usage_warning_def usage_def l limit_reached_text_def)
qed

theorem usage_warning_limit_witness:
  "usage_warning ((new_session ''a'' sample_machine)\<lparr>gs_plan_limit := Some 7, gs_transition_count := 7\<rparr>) =
     Some (limit_reached_text 7 7)"
  using usage_warning_limit [of "(new_session ''a'' sample_machine)\<lparr>gs_plan_limit := Some 7, gs_transition_count := 7\<rparr>" 7]
  by simp

end
