(* ===== verification/Usage.thy ===== *)
theory Usage
  imports Float64
begin

text \<open>
  The usage ledger of the gateway (\<open>crates/mcp-gateway/src/usage.rs\<close>): token and tool usage per state of a run,
  as the controller and the runtime report it. Every method of \<open>UsageLedger\<close> is a function on the ledger; the reports
  that can be refused return the error beside the ledger. Sums are \<open>u64\<close> and wrap, percentages are doubles.
\<close>

record token_usage =
  tu_input_tokens :: u64
  tu_cached_input_tokens :: u64
  tu_cache_write_input_tokens :: u64
  tu_output_tokens :: u64
  tu_reasoning_output_tokens :: u64
  tu_total_tokens :: u64

definition default_token_usage :: token_usage where
  "default_token_usage = \<lparr>tu_input_tokens = 0, tu_cached_input_tokens = 0, tu_cache_write_input_tokens = 0,
     tu_output_tokens = 0, tu_reasoning_output_tokens = 0, tu_total_tokens = 0\<rparr>"

record runtime_usage_report =
  ur_sequence :: u64
  ur_state :: string
  ur_state_epoch :: u64
  ur_provider :: string
  ur_model :: "string option"
  ur_effort :: "string option"
  ur_precision :: string
  ur_token_usage :: token_usage

definition default_precision :: string where
  "default_precision = ''unavailable''"

record runtime_tool_report =
  rt_sequence :: u64
  rt_state :: string
  rt_state_epoch :: u64
  rt_invocation_id :: string
  rt_tool :: string
  rt_tool_type :: string
  rt_result_bytes :: u64
  rt_estimated_input_tokens :: u64
  rt_source :: string
  rt_is_error :: bool

record tool_usage =
  tl_invocation_id :: string
  tl_tool :: string
  tl_tool_type :: string
  tl_source :: string
  tl_result_bytes :: u64
  tl_estimated_input_tokens :: u64
  tl_is_error :: bool

record transition_usage =
  tn_event :: string
  tn_from :: string
  tn_to :: string
  tn_decision_summary :: "string option"

record state_usage_summary =
  su_state :: string
  su_state_epoch :: u64
  su_provider :: string
  su_model :: "string option"
  su_effort :: "string option"
  su_precision :: string
  su_token_usage :: token_usage
  su_tool_result_bytes :: u64
  su_estimated_tool_output_tokens :: u64
  su_non_tool_tokens :: u64
  su_tool_count :: u64
  su_context_budget_bytes :: "u64 option"
  su_context_budget_percent :: "rat option"
  su_transition :: "transition_usage option"
  su_tools :: "tool_usage list"

record usage_ledger =
  ul_state_epoch :: u64
  ul_state :: "state_usage_summary option"
  ul_history :: "state_usage_summary list"
  ul_last_sequences :: "string \<rightharpoonup> u64"

datatype usage_disposition = Applied | Superseded

definition default_ledger :: usage_ledger where
  "default_ledger = \<lparr>ul_state_epoch = 0, ul_state = None, ul_history = [], ul_last_sequences = Map.empty\<rparr>"

definition sequence_key :: "string \<Rightarrow> u64 \<Rightarrow> string" where
  "sequence_key channel state_epoch = show_word state_epoch @ '':'' @ channel"

definition precision_rank :: "string \<Rightarrow> nat" where
  "precision_rank p = (if p = ''exact'' then 3 else if p = ''mixed'' then 2 else if p = ''estimated'' then 1 else 0)"

definition empty_usage_state :: "string \<Rightarrow> u64 \<Rightarrow> u64 option \<Rightarrow> state_usage_summary" where
  "empty_usage_state state state_epoch context_budget_bytes =
     \<lparr>su_state = state, su_state_epoch = state_epoch, su_provider = [], su_model = None, su_effort = None,
      su_precision = ''unavailable'', su_token_usage = default_token_usage, su_tool_result_bytes = 0,
      su_estimated_tool_output_tokens = 0, su_non_tool_tokens = 0, su_tool_count = 0,
      su_context_budget_bytes = context_budget_bytes, su_context_budget_percent = None,
      su_transition = None, su_tools = []\<rparr>"

definition saturating_sub :: "u64 \<Rightarrow> u64 \<Rightarrow> u64" where
  "saturating_sub a b = (if a < b then 0 else a - b)"

definition div_ceil :: "u64 \<Rightarrow> u64 \<Rightarrow> u64" where
  "div_ceil a b = (if a mod b = 0 then a div b else a div b + 1)"

definition update_derived :: "state_usage_summary \<Rightarrow> state_usage_summary" where
  "update_derived s =
     (let result_bytes = sum_list (map tl_result_bytes (su_tools s));
          estimated = sum_list (map tl_estimated_input_tokens (su_tools s))
      in s\<lparr>su_tool_result_bytes := result_bytes,
           su_estimated_tool_output_tokens := estimated,
           su_tool_count := of_nat (length (su_tools s)),
           su_non_tool_tokens := saturating_sub (tu_total_tokens (su_token_usage s)) estimated,
           su_context_budget_percent :=
             Option.bind (su_context_budget_bytes s) (\<lambda>budget.
               if budget > 0 then Some (f64_mul (f64_div (f64_of_u64 result_bytes) (f64_of_u64 budget)) 100)
               else None)\<rparr>)"

definition ledger_state_name :: "usage_ledger \<Rightarrow> string option" where
  "ledger_state_name L = map_option su_state (ul_state L)"

definition ledger_start :: "string \<Rightarrow> u64 option \<Rightarrow> usage_ledger \<Rightarrow> usage_ledger" where
  "ledger_start state context_budget_bytes L =
     \<lparr>ul_state_epoch = 1, ul_state = Some (empty_usage_state state 1 context_budget_bytes),
      ul_history = [], ul_last_sequences = Map.empty\<rparr>"

definition ledger_transition ::
  "string \<Rightarrow> string \<Rightarrow> string \<Rightarrow> string option \<Rightarrow> u64 option \<Rightarrow> usage_ledger \<Rightarrow> usage_ledger" where
  "ledger_transition from to event decision_summary context_budget_bytes L =
     (let current = map_option (\<lambda>c. if su_state c = from
            then c\<lparr>su_transition := Some \<lparr>tn_event = event, tn_from = from, tn_to = to,
                                          tn_decision_summary = decision_summary\<rparr>\<rparr>
            else c) (ul_state L);
          epoch = ul_state_epoch L + 1
      in L\<lparr>ul_history := ul_history L @ (case current of None \<Rightarrow> [] | Some c \<Rightarrow> [c]),
           ul_state_epoch := epoch,
           ul_state := Some (empty_usage_state to epoch context_budget_bytes)\<rparr>)"

definition validate_sequence :: "usage_ledger \<Rightarrow> string \<Rightarrow> u64 \<Rightarrow> u64 \<Rightarrow> (unit, string) result" where
  "validate_sequence L channel sequence state_epoch =
     (if sequence \<le> unwrap_or 0 (ul_last_sequences L (sequence_key channel state_epoch))
      then Err ''Usage report sequence is stale or duplicated'' else Ok ())"

definition validate_current :: "usage_ledger \<Rightarrow> string \<Rightarrow> u64 \<Rightarrow> string \<Rightarrow> u64 \<Rightarrow> (unit, string) result" where
  "validate_current L channel sequence state state_epoch =
     (case ul_state L of
        None \<Rightarrow> Err ''No active usage state''
      | Some current \<Rightarrow>
          if state \<noteq> su_state current \<or> state_epoch \<noteq> su_state_epoch current then
            Err (''Usage report does not match active state '' @ [CHR 0x27] @ su_state current @ [CHR 0x27] @
                 ''/epoch '' @ show_word (su_state_epoch current))
          else validate_sequence L channel sequence state_epoch)"

definition matches_report :: "string \<Rightarrow> u64 \<Rightarrow> state_usage_summary \<Rightarrow> bool" where
  "matches_report state state_epoch s \<longleftrightarrow> su_state s = state \<and> su_state_epoch s = state_epoch"

definition state_for_report :: "usage_ledger \<Rightarrow> string \<Rightarrow> u64 \<Rightarrow> state_usage_summary option" where
  "state_for_report L state state_epoch =
     (if is_some_and (matches_report state state_epoch) (ul_state L) then ul_state L
      else find (matches_report state state_epoch) (ul_history L))"

definition set_state_for_report ::
  "string \<Rightarrow> u64 \<Rightarrow> (state_usage_summary \<Rightarrow> state_usage_summary) \<Rightarrow> usage_ledger \<Rightarrow> usage_ledger" where
  "set_state_for_report state state_epoch f L =
     (if is_some_and (matches_report state state_epoch) (ul_state L)
      then L\<lparr>ul_state := map_option f (ul_state L)\<rparr>
      else L\<lparr>ul_history := update_first (matches_report state state_epoch) f (ul_history L)\<rparr>)"

definition note_sequence :: "string \<Rightarrow> u64 \<Rightarrow> u64 \<Rightarrow> usage_ledger \<Rightarrow> usage_ledger" where
  "note_sequence channel state_epoch sequence L =
     L\<lparr>ul_last_sequences := hm_insert (sequence_key channel state_epoch) sequence (ul_last_sequences L)\<rparr>"

definition take_usage :: "runtime_usage_report \<Rightarrow> state_usage_summary \<Rightarrow> state_usage_summary" where
  "take_usage r s =
     update_derived (s\<lparr>su_provider := ur_provider r, su_model := ur_model r, su_effort := ur_effort r,
                       su_precision := ur_precision r, su_token_usage := ur_token_usage r\<rparr>)"

definition usage_applies :: "runtime_usage_report \<Rightarrow> state_usage_summary \<Rightarrow> bool" where
  "usage_applies r s \<longleftrightarrow>
     precision_rank (ur_precision r) > precision_rank (su_precision s)
     \<or> (precision_rank (ur_precision r) = precision_rank (su_precision s)
        \<and> tu_total_tokens (ur_token_usage r) \<ge> tu_total_tokens (su_token_usage s))"

definition report_usage_from ::
  "string \<Rightarrow> runtime_usage_report \<Rightarrow> usage_ledger \<Rightarrow> (usage_disposition, string) result \<times> usage_ledger" where
  "report_usage_from channel r L =
     (case validate_sequence L channel (ur_sequence r) (ur_state_epoch r) of
        Inl e \<Rightarrow> (Err e, L)
      | Inr _ \<Rightarrow>
          (case state_for_report L (ur_state r) (ur_state_epoch r) of
             None \<Rightarrow> (Err ''Usage report does not match a retained state epoch'', L)
           | Some s \<Rightarrow>
               if usage_applies r s then
                 (Ok Applied,
                  note_sequence channel (ur_state_epoch r) (ur_sequence r)
                    (set_state_for_report (ur_state r) (ur_state_epoch r) (take_usage r) L))
               else (Ok Superseded, L)))"

definition report_usage ::
  "runtime_usage_report \<Rightarrow> usage_ledger \<Rightarrow> (unit, string) result \<times> usage_ledger" where
  "report_usage r L =
     (case report_usage_from ''controller'' r L of
        (Inl e, L') \<Rightarrow> (Err e, L')
      | (Inr _, L') \<Rightarrow> (Ok (), L'))"

definition add_tool :: "tool_usage \<Rightarrow> state_usage_summary \<Rightarrow> state_usage_summary" where
  "add_tool t s = update_derived (s\<lparr>su_tools := su_tools s @ [t]\<rparr>)"

definition report_tool ::
  "runtime_tool_report \<Rightarrow> usage_ledger \<Rightarrow> (unit, string) result \<times> usage_ledger" where
  "report_tool r L =
     (case validate_current L ''controller'' (rt_sequence r) (rt_state r) (rt_state_epoch r) of
        Inl e \<Rightarrow> (Err e, L)
      | Inr _ \<Rightarrow>
          (Ok (), note_sequence ''controller'' (rt_state_epoch r) (rt_sequence r)
             (L\<lparr>ul_state := map_option (\<lambda>s.
                  if list_ex (\<lambda>t. tl_invocation_id t = rt_invocation_id r) (su_tools s) then s
                  else add_tool \<lparr>tl_invocation_id = rt_invocation_id r, tl_tool = rt_tool r,
                         tl_tool_type = rt_tool_type r, tl_source = rt_source r,
                         tl_result_bytes = rt_result_bytes r,
                         tl_estimated_input_tokens = rt_estimated_input_tokens r,
                         tl_is_error = rt_is_error r\<rparr> s) (ul_state L)\<rparr>)))"

definition note_gateway_tool :: "string \<Rightarrow> u64 \<Rightarrow> bool \<Rightarrow> usage_ledger \<Rightarrow> usage_ledger" where
  "note_gateway_tool tool result_bytes is_error L =
     L\<lparr>ul_state := map_option (\<lambda>s.
          add_tool \<lparr>tl_invocation_id = ''gateway:'' @ show_word (su_state_epoch s) @ '':'' @
                      show_nat (length (su_tools s) + 1),
                    tl_tool = tool, tl_tool_type = ''mcp'', tl_source = ''gateway'',
                    tl_result_bytes = result_bytes, tl_estimated_input_tokens = div_ceil result_bytes 4,
                    tl_is_error = is_error\<rparr> s) (ul_state L)\<rparr>"

definition ledger_summary :: "usage_ledger \<Rightarrow> state_usage_summary option" where
  "ledger_summary L = ul_state L"

definition ledger_summaries :: "usage_ledger \<Rightarrow> state_usage_summary list" where
  "ledger_summaries L = ul_history L @ (case ledger_summary L of None \<Rightarrow> [] | Some c \<Rightarrow> [c])"

section \<open>Decimal keys\<close>

lemma show_nat_digits: "c \<in> set (show_nat n) \<Longrightarrow> is_ascii_digit c"
proof (induction n rule: show_nat.induct)
  case (1 n)
  have d: "m < 10 \<Longrightarrow> is_ascii_digit (char_of (48 + m))" for m :: nat
    by (simp add: is_ascii_digit_def char_code_def)
  show ?case using 1 by (subst (asm) show_nat.simps) (auto simp: d split: if_splits)
qed

lemma digit_inj: "a < 10 \<Longrightarrow> b < 10 \<Longrightarrow> (char_of (48 + a) :: char) = char_of (48 + b) \<longleftrightarrow> a = (b :: nat)"
  by (auto dest!: arg_cong [where f = "of_char :: char \<Rightarrow> nat"])

lemma show_nat_ne [simp]: "show_nat n \<noteq> []"
  by (subst show_nat.simps) simp

lemma show_nat_inj: "show_nat a = show_nat b \<longleftrightarrow> a = b"
proof (induction a arbitrary: b rule: show_nat.induct)
  case (1 n)
  have small: "m < 10 \<Longrightarrow> show_nat m = [char_of (48 + m)]" for m by (subst show_nat.simps) simp
  have big: "\<not> m < 10 \<Longrightarrow> show_nat m = show_nat (m div 10) @ [char_of (48 + m mod 10)]" for m
    by (subst show_nat.simps) simp
  show ?case
  proof (cases "n < 10"; cases "b < 10")
    assume nb: "\<not> n < 10" "\<not> b < 10"
    have "show_nat n = show_nat b \<longleftrightarrow> n div 10 = b div 10 \<and> n mod 10 = b mod 10"
      using nb 1 [of "b div 10"] by (simp add: big digit_inj)
    also have "\<dots> \<longleftrightarrow> n = b" by (metis div_mult_mod_eq)
    finally show ?thesis .
  qed (auto simp: small big digit_inj append_eq_Cons_conv Cons_eq_append_conv)
qed

lemma show_word_inj: "show_word v = show_word w \<longleftrightarrow> v = w"
  by (simp add: show_word_def show_nat_inj word_unat_eq_iff)

lemma digits_sep_inj:
  assumes "a @ x # c = a' @ x # c'" "\<forall>y \<in> set a \<union> set a'. y \<noteq> x"
  shows "a = a' \<and> c = c'"
  using assms by (induction a arbitrary: a') (auto simp: Cons_eq_append_conv)

lemma sequence_key_inj: "sequence_key c e = sequence_key c' e' \<longleftrightarrow> c = c' \<and> e = e'"
proof -
  have "\<not> is_ascii_digit (CHR '':'')" by code_simp
  then have "\<forall>y \<in> set (show_word e) \<union> set (show_word e'). y \<noteq> CHR '':''"
    using show_nat_digits unfolding show_word_def by blast
  then show ?thesis
    using digits_sep_inj [of "show_word e" "CHR '':''" c "show_word e'" c'] show_word_inj [of e e']
    unfolding sequence_key_def by auto
qed

section \<open>Runs of the ledger\<close>

datatype ledger_op =
    LStart string "u64 option"
  | LTransition string string string "string option" "u64 option"
  | LUsage string runtime_usage_report
  | LTool runtime_tool_report
  | LGatewayTool string u64 bool

fun run_ledger_op :: "ledger_op \<Rightarrow> usage_ledger \<Rightarrow> usage_ledger" where
  "run_ledger_op (LStart st b) L = ledger_start st b L"
| "run_ledger_op (LTransition a b ev ds cb) L = ledger_transition a b ev ds cb L"
| "run_ledger_op (LUsage ch r) L = snd (report_usage_from ch r L)"
| "run_ledger_op (LTool r) L = snd (report_tool r L)"
| "run_ledger_op (LGatewayTool t n e) L = note_gateway_tool t n e L"

definition run_ledger :: "ledger_op list \<Rightarrow> usage_ledger \<Rightarrow> usage_ledger" where
  "run_ledger ops L = fold run_ledger_op ops L"

text \<open>The totals of a summary are those of its tools.\<close>

definition derived_ok :: "state_usage_summary \<Rightarrow> bool" where
  "derived_ok s \<longleftrightarrow>
     su_tool_result_bytes s = sum_list (map tl_result_bytes (su_tools s)) \<and>
     su_estimated_tool_output_tokens s = sum_list (map tl_estimated_input_tokens (su_tools s)) \<and>
     su_tool_count s = of_nat (length (su_tools s)) \<and>
     su_non_tool_tokens s =
       saturating_sub (tu_total_tokens (su_token_usage s)) (su_estimated_tool_output_tokens s)"

text \<open>The visits of a run are numbered from one, in order, the current one last.\<close>

definition ledger_ok :: "usage_ledger \<Rightarrow> bool" where
  "ledger_ok L \<longleftrightarrow>
     list_all derived_ok (ul_history L) \<and> is_none_or derived_ok (ul_state L) \<and>
     map su_state_epoch (ul_history L) = map (\<lambda>n. of_nat (Suc n)) [0..<length (ul_history L)] \<and>
     (case ul_state L of
        None \<Rightarrow> ul_state_epoch L = 0 \<and> ul_history L = []
      | Some s \<Rightarrow> su_state_epoch s = ul_state_epoch L \<and> ul_state_epoch L = of_nat (Suc (length (ul_history L))))"

lemma derived_ok_update: "derived_ok (update_derived s)"
  by (simp add: derived_ok_def update_derived_def Let_def)

lemma update_derived_epoch [simp]: "su_state_epoch (update_derived s) = su_state_epoch s"
  by (simp add: update_derived_def Let_def)

lemma derived_ok_changes:
  "derived_ok (take_usage r s)" "derived_ok (add_tool t s)" "derived_ok (empty_usage_state st e b)"
  "derived_ok (s\<lparr>su_transition := x\<rparr>) = derived_ok s"
  by (simp_all add: take_usage_def add_tool_def derived_ok_update)
    (simp_all add: derived_ok_def empty_usage_state_def default_token_usage_def saturating_sub_def)

lemma epoch_changes [simp]:
  "su_state_epoch (take_usage r s) = su_state_epoch s" "su_state_epoch (add_tool t s) = su_state_epoch s"
  "su_state_epoch (empty_usage_state st e b) = e"
  by (simp_all add: take_usage_def add_tool_def empty_usage_state_def)

lemma ledger_ok_set:
  "ledger_ok L \<Longrightarrow> ledger_ok (set_state_for_report st e (take_usage r) L)"
  by (auto simp: ledger_ok_def set_state_for_report_def update_first_map update_first_all derived_ok_changes
      is_none_or_iff split: option.splits)

lemma ledger_ok_note: "ledger_ok (note_sequence ch e n L) = ledger_ok L"
  by (cases "ul_state L") (simp_all add: ledger_ok_def note_sequence_def)

lemma ledger_ok_tools: "ledger_ok L \<Longrightarrow> (\<And>s. f s = s \<or> (\<exists>t. f s = add_tool t s)) \<Longrightarrow>
  ledger_ok (L\<lparr>ul_state := map_option f (ul_state L)\<rparr>)"
  by (cases "ul_state L") (auto simp: ledger_ok_def is_none_or_iff, (metis derived_ok_changes(2) epoch_changes(2))+)

lemma ledger_ok_step: "ledger_ok L \<Longrightarrow> ledger_ok (run_ledger_op op L)"
proof (cases op)
  case (LTransition a b ev ds cb)
  assume "ledger_ok L"
  then show ?thesis using LTransition
    by (cases "ul_state L")
      (auto simp: ledger_ok_def ledger_transition_def Let_def derived_ok_changes add.commute)
next
  case (LUsage ch r)
  assume "ledger_ok L"
  then show ?thesis using LUsage
    by (auto simp: report_usage_from_def ledger_ok_note ledger_ok_set split: sum.splits option.splits)
next
  case (LTool r)
  assume "ledger_ok L"
  then show ?thesis using LTool
    by (auto simp: report_tool_def ledger_ok_note intro!: ledger_ok_tools split: sum.splits) blast
next
  case (LGatewayTool t n e)
  assume "ledger_ok L"
  then show ?thesis using LGatewayTool by (auto simp: note_gateway_tool_def intro!: ledger_ok_tools)
qed (simp add: ledger_ok_def ledger_start_def derived_ok_changes)

text \<open>
  C38: the ledger is consistent after any sequence of starts, transitions and reports. The totals of every
  summary are the sums over its tools (as \<open>u64\<close>), the tokens outside tools are what is left of the reported
  total, and the visits of the run carry the numbers 1, 2, 3, ... in order, the current visit the last one.
\<close>

theorem usage_ledger_invariant: "ledger_ok (run_ledger ops default_ledger)"
proof -
  have "ledger_ok L \<Longrightarrow> ledger_ok (fold run_ledger_op ops L)" for L
    by (induction ops arbitrary: L) (simp_all add: ledger_ok_step)
  moreover have "ledger_ok default_ledger" by (simp add: ledger_ok_def default_ledger_def)
  ultimately show ?thesis by (simp add: run_ledger_def)
qed

section \<open>Replayed reports\<close>

definition last_sequence :: "usage_ledger \<Rightarrow> string \<Rightarrow> u64 \<Rightarrow> u64" where
  "last_sequence L channel epoch = unwrap_or 0 (ul_last_sequences L (sequence_key channel epoch))"

fun restarts :: "ledger_op \<Rightarrow> bool" where
  "restarts (LStart _ _) = True"
| "restarts _ = False"

lemma last_sequence_note:
  "last_sequence (note_sequence ch' e' n L) ch e = (if ch' = ch \<and> e' = e then n else last_sequence L ch e)"
  by (simp add: last_sequence_def note_sequence_def hm_insert_def sequence_key_inj)

lemma last_sequence_set [simp]:
  "last_sequence (set_state_for_report st e' f L) ch e = last_sequence L ch e"
  "last_sequence (L\<lparr>ul_state := x\<rparr>) ch e = last_sequence L ch e"
  by (simp_all add: last_sequence_def set_state_for_report_def)

lemma validate_sequence_Ok: "validate_sequence L ch n e = Inr u \<Longrightarrow> last_sequence L ch e < n"
  by (auto simp: validate_sequence_def last_sequence_def split: if_splits)

lemma validate_current_Ok: "validate_current L ch n st e = Inr u \<Longrightarrow> last_sequence L ch e < n"
  by (auto simp: validate_current_def validate_sequence_Ok split: option.splits if_splits)

lemma last_sequence_mono:
  "\<not> restarts op \<Longrightarrow> last_sequence L ch e \<le> last_sequence (run_ledger_op op L) ch e"
proof (cases op)
  case (LTransition a b ev ds cb)
  then show ?thesis by (simp add: ledger_transition_def Let_def last_sequence_def)
next
  case (LUsage ch' r)
  then show ?thesis
    by (auto simp: report_usage_from_def last_sequence_note dest!: validate_sequence_Ok split: sum.splits option.splits)
next
  case (LTool r)
  then show ?thesis
    by (auto simp: report_tool_def last_sequence_note dest!: validate_current_Ok split: sum.splits)
qed (simp_all add: note_gateway_tool_def)

lemma last_sequence_run:
  "list_all (\<lambda>op. \<not> restarts op) ops \<Longrightarrow> last_sequence L ch e \<le> last_sequence (run_ledger ops L) ch e"
proof (induction ops arbitrary: L)
  case (Cons op ops)
  then have "last_sequence (run_ledger_op op L) ch e \<le> last_sequence (run_ledger ops (run_ledger_op op L)) ch e"
    by simp
  moreover have "last_sequence L ch e \<le> last_sequence (run_ledger_op op L) ch e"
    using Cons.prems by (simp add: last_sequence_mono)
  ultimately show ?case by (simp add: run_ledger_def)
qed (simp add: run_ledger_def)

text \<open>
  A usage report counts once. After a report has been applied, and whatever else is reported or
  happens until the ledger is restarted, every report of the same channel and visit with the same or a lower
  sequence number is refused and changes nothing; reports of other channels and visits do not matter.
\<close>

theorem usage_replay_refused:
  assumes "report_usage_from ch r L = (Ok Applied, L1)" "list_all (\<lambda>op. \<not> restarts op) ops"
    and "ur_state_epoch r' = ur_state_epoch r" "ur_sequence r' \<le> ur_sequence r"
  shows "report_usage_from ch r' (run_ledger ops L1) =
    (Err ''Usage report sequence is stale or duplicated'', run_ledger ops L1)"
proof -
  have "last_sequence L1 ch (ur_state_epoch r) = ur_sequence r"
    using assms(1) by (auto simp: report_usage_from_def last_sequence_note split: sum.splits option.splits if_splits)
  then have "ur_sequence r' \<le> last_sequence (run_ledger ops L1) ch (ur_state_epoch r')"
    using last_sequence_run [OF assms(2), of L1 ch "ur_state_epoch r"] assms(3,4) by simp
  then show ?thesis by (simp add: report_usage_from_def validate_sequence_def last_sequence_def)
qed

definition sample_report :: runtime_usage_report where
  "sample_report = \<lparr>ur_sequence = 1, ur_state = ''plan'', ur_state_epoch = 1, ur_provider = ''p'',
     ur_model = None, ur_effort = None, ur_precision = ''exact'',
     ur_token_usage = default_token_usage\<lparr>tu_total_tokens := 9\<rparr>\<rparr>"

theorem usage_replay_refused_witness:
  "\<exists>L1. report_usage_from ''c'' sample_report (ledger_start ''plan'' None default_ledger) = (Ok Applied, L1) \<and>
     report_usage_from ''c'' sample_report (run_ledger [LTransition ''plan'' ''do'' ''GO'' None None] L1) =
       (Err ''Usage report sequence is stale or duplicated'',
        run_ledger [LTransition ''plan'' ''do'' ''GO'' None None] L1)"
proof -
  obtain L1 where "report_usage_from ''c'' sample_report (ledger_start ''plan'' None default_ledger) = (Ok Applied, L1)"
    by (simp add: report_usage_from_def validate_sequence_def sample_report_def ledger_start_def
        state_for_report_def matches_report_def empty_usage_state_def usage_applies_def precision_rank_def)
  with usage_replay_refused [OF this, of "[LTransition ''plan'' ''do'' ''GO'' None None]" sample_report]
  show ?thesis by simp
qed

end
