(* ===== verification/ShellLex.thy ===== *)
theory ShellLex
  imports Prelude
begin

text \<open>
  The lexical layer of the shell classifier (\<open>crates/mcp-gateway/src/bash_classifier.rs\<close>): the scanners
  that split a command line into segments and words and look for nested execution and redirections
  outside quotes. Each scanner is the source's loop over the characters, as a recursion on the rest of the
  text that carries the loop's variables; the quote that is open is \<open>quoting\<close>.
\<close>

datatype quoting = Unquoted | InSingle | InDouble

abbreviation (input) SQ :: char where "SQ \<equiv> CHR 0x27"
abbreviation (input) DQ :: char where "DQ \<equiv> CHR 0x22"
abbreviation (input) BSLASH :: char where "BSLASH \<equiv> CHR 0x5C"
abbreviation (input) BTICK :: char where "BTICK \<equiv> CHR 0x60"
abbreviation (input) NEWLINE :: char where "NEWLINE \<equiv> CHR 0x0A"
abbreviation (input) RETURN :: char where "RETURN \<equiv> CHR 0x0D"
abbreviation (input) TAB :: char where "TAB \<equiv> CHR 0x09"

section \<open>Words of a simple command\<close>

text \<open>\<open>if !current.is_empty() { tokens.push(take(current)) }\<close>\<close>

definition push_word :: "string \<Rightarrow> string list \<Rightarrow> string list" where
  "push_word current tokens = (if current = [] then tokens else tokens @ [current])"

fun simple_tokens :: "quoting \<Rightarrow> string \<Rightarrow> string list \<Rightarrow> string \<Rightarrow> string list option" where
  "simple_tokens q current tokens [] = (if q = Unquoted then Some (push_word current tokens) else None)"
| "simple_tokens InSingle current tokens (c # cs) =
     (if c = SQ then simple_tokens Unquoted current tokens cs
      else simple_tokens InSingle (current @ [c]) tokens cs)"
| "simple_tokens InDouble current tokens (c # cs) =
     (if c = DQ then simple_tokens Unquoted current tokens cs
      else if c = BSLASH then
        (case cs of [] \<Rightarrow> None | e # es \<Rightarrow> simple_tokens InDouble (current @ [e]) tokens es)
      else if c = BTICK \<or> c = CHR ''$'' then None
      else simple_tokens InDouble (current @ [c]) tokens cs)"
| "simple_tokens Unquoted current tokens (c # cs) =
     (if c = SQ then simple_tokens InSingle current tokens cs
      else if c = DQ then simple_tokens InDouble current tokens cs
      else if c = BSLASH then
        (case cs of [] \<Rightarrow> None | e # es \<Rightarrow> simple_tokens Unquoted (current @ [e]) tokens es)
      else if c = CHR '' '' \<or> c = TAB then simple_tokens Unquoted [] (push_word current tokens) cs
      else if c \<in> set [CHR '';'', CHR ''|'', CHR ''&'', CHR ''>'', CHR ''<'', NEWLINE, RETURN, BTICK, CHR ''$'']
      then None
      else simple_tokens Unquoted (current @ [c]) tokens cs)"

definition simple_command_tokens :: "string \<Rightarrow> string list option" where
  "simple_command_tokens command = simple_tokens Unquoted [] [] command"

section \<open>Nested execution\<close>

definition peek_is :: "char \<Rightarrow> string \<Rightarrow> bool" where
  "peek_is c cs \<longleftrightarrow> (case cs of [] \<Rightarrow> False | d # _ \<Rightarrow> d = c)"

fun nested_execution :: "quoting \<Rightarrow> string \<Rightarrow> bool" where
  "nested_execution q [] = False"
| "nested_execution InSingle (c # cs) =
     (if c = SQ then nested_execution Unquoted cs else nested_execution InSingle cs)"
| "nested_execution InDouble (c # cs) =
     (if c = DQ then nested_execution Unquoted cs
      else if c = BSLASH then (case cs of [] \<Rightarrow> False | _ # es \<Rightarrow> nested_execution InDouble es)
      else if c = BTICK then True
      else if c = CHR ''$'' \<and> peek_is (CHR ''('') cs then True
      else nested_execution InDouble cs)"
| "nested_execution Unquoted (c # cs) =
     (if c = SQ then nested_execution InSingle cs
      else if c = DQ then nested_execution InDouble cs
      else if c = BSLASH then (case cs of [] \<Rightarrow> False | _ # es \<Rightarrow> nested_execution Unquoted es)
      else if c = BTICK then True
      else if c = CHR ''$'' \<and> peek_is (CHR ''('') cs then True
      else if (c = CHR ''<'' \<or> c = CHR ''>'') \<and> peek_is (CHR ''('') cs then True
      else if c \<in> set [CHR ''('', CHR '')'', CHR ''{'', CHR ''}''] then True
      else nested_execution Unquoted cs)"

definition has_nested_shell_execution :: "string \<Rightarrow> bool" where
  "has_nested_shell_execution command = nested_execution Unquoted command"

section \<open>Words with redirections removed\<close>

definition network_pseudo_device_target :: "string \<Rightarrow> bool" where
  "network_pseudo_device_target tgt \<longleftrightarrow> starts_with tgt ''/dev/tcp/'' \<or> starts_with tgt ''/dev/udp/''"

definition skip_char :: "char \<Rightarrow> string \<Rightarrow> string" where
  "skip_char c cs = (if peek_is c cs then tl cs else cs)"

lemma length_skip_char: "length (skip_char c cs) \<le> length cs"
  by (cases cs) (auto simp: skip_char_def)

lemma length_skip_chars: "length (skip_char a (skip_char c cs)) < Suc (length cs)"
  using length_skip_char [of a "skip_char c cs"] length_skip_char [of c cs] by simp

function (sequential) git_tokens ::
  "quoting \<Rightarrow> bool \<Rightarrow> string \<Rightarrow> string list \<Rightarrow> string \<Rightarrow> string list option" where
  "git_tokens q redirect_target current tokens [] =
     (if q \<noteq> Unquoted \<or> (redirect_target \<and> current = []) then None
      else if redirect_target \<and> network_pseudo_device_target current then None
      else if redirect_target then Some tokens
      else Some (push_word current tokens))"
| "git_tokens InSingle redirect_target current tokens (c # cs) =
     (if c = SQ then git_tokens Unquoted redirect_target current tokens cs
      else git_tokens InSingle redirect_target (current @ [c]) tokens cs)"
| "git_tokens InDouble redirect_target current tokens (c # cs) =
     (if c = DQ then git_tokens Unquoted redirect_target current tokens cs
      else if c = BSLASH then
        (case cs of [] \<Rightarrow> None
         | e # es \<Rightarrow> git_tokens InDouble redirect_target (current @ [e]) tokens es)
      else if c = BTICK \<or> c = CHR ''$'' then None
      else git_tokens InDouble redirect_target (current @ [c]) tokens cs)"
| "git_tokens Unquoted redirect_target current tokens (c # cs) =
     (if c = SQ then git_tokens InSingle redirect_target current tokens cs
      else if c = DQ then git_tokens InDouble redirect_target current tokens cs
      else if c = BSLASH then
        (case cs of [] \<Rightarrow> None
         | e # es \<Rightarrow> git_tokens Unquoted redirect_target (current @ [e]) tokens es)
      else if c = CHR '' '' \<or> c = TAB then
        (if redirect_target then
           (if current \<noteq> [] then
              (if network_pseudo_device_target current then None
               else git_tokens Unquoted False [] tokens cs)
            else git_tokens Unquoted redirect_target current tokens cs)
         else git_tokens Unquoted redirect_target [] (push_word current tokens) cs)
      else if c = CHR ''>'' \<or> c = CHR ''<'' then
        (if peek_is (CHR ''('') cs then None
         else if redirect_target \<and> current \<noteq> [] \<and> network_pseudo_device_target current then None
         else let tokens = (if \<not> redirect_target \<and> current \<noteq> [] \<and> \<not> list_all is_ascii_digit current
                            then tokens @ [current] else tokens)
              in git_tokens Unquoted True [] tokens (skip_char (CHR ''&'') (skip_char c cs)))
      else if c \<in> set [CHR '';'', CHR ''|'', CHR ''&'', NEWLINE, RETURN, BTICK, CHR ''$'', CHR ''{'', CHR ''}'',
                       CHR ''*'', CHR ''?'', CHR ''['', CHR '']'']
      then None
      else git_tokens Unquoted redirect_target (current @ [c]) tokens cs)"
  by pat_completeness auto
termination
  by (relation "measure (\<lambda>(q, r, c, t, cs). length cs)")
    (simp_all add: length_skip_chars)

definition git_command_tokens :: "string \<Rightarrow> string list option" where
  "git_command_tokens command = git_tokens Unquoted False [] [] command"

section \<open>Segments\<close>

fun segments_from :: "bool \<Rightarrow> bool \<Rightarrow> string \<Rightarrow> string list \<Rightarrow> string \<Rightarrow> string list" where
  "segments_from sq dq current segments [] =
     (if trim current \<noteq> [] then segments @ [current] else segments)"
| "segments_from sq dq current segments (c # cs) =
     (if c = BSLASH \<and> \<not> sq then
        (case cs of [] \<Rightarrow> segments_from sq dq (current @ [c]) segments []
         | e # es \<Rightarrow> segments_from sq dq (current @ [c, e]) segments es)
      else if c = SQ \<and> \<not> dq then segments_from (\<not> sq) dq (current @ [c]) segments cs
      else if c = DQ \<and> \<not> sq then segments_from sq (\<not> dq) (current @ [c]) segments cs
      else if sq \<or> dq then segments_from sq dq (current @ [c]) segments cs
      else if c = CHR ''&'' \<and> peek_is (CHR ''&'') cs then
        segments_from sq dq [] (segments @ [current]) (drop 1 cs)
      else if c = CHR ''|'' \<and> peek_is (CHR ''|'') cs then
        segments_from sq dq [] (segments @ [current]) (drop 1 cs)
      else if c = CHR ''|'' then segments_from sq dq [] (segments @ [current]) cs
      else if c = CHR '';'' then segments_from sq dq [] (segments @ [current]) cs
      else segments_from sq dq (current @ [c]) segments cs)"

definition split_segments :: "string \<Rightarrow> string list" where
  "split_segments command = segments_from False False [] [] command"

section \<open>Redirections\<close>

fun output_redirect :: "bool \<Rightarrow> bool \<Rightarrow> char \<Rightarrow> string \<Rightarrow> bool" where
  "output_redirect sq dq prev [] = False"
| "output_redirect sq dq prev (c # cs) =
     (if c = SQ \<and> \<not> dq then output_redirect (\<not> sq) dq c cs
      else if c = DQ \<and> \<not> sq then output_redirect sq (\<not> dq) c cs
      else if sq \<or> dq then output_redirect sq dq c cs
      else if c = CHR ''>'' \<and> prev \<noteq> CHR ''2'' \<and> prev \<noteq> BSLASH then True
      else output_redirect sq dq c cs)"

definition has_output_redirect :: "string \<Rightarrow> bool" where
  "has_output_redirect command = output_redirect False False (CHR '' '') command"

definition stderr_sink :: string where
  "stderr_sink = ''2>/dev/null''"

definition sink_boundary :: "char \<Rightarrow> bool" where
  "sink_boundary c \<longleftrightarrow> is_whitespace c \<or> c \<in> set [CHR '';'', CHR ''|'', CHR ''&'']"

text \<open>\<open>prev\<close> is the character before the rest of the command, if any (\<open>command[..index].chars().next_back()\<close>).\<close>

function strip_sink :: "quoting \<Rightarrow> char option \<Rightarrow> string \<Rightarrow> string \<Rightarrow> string option" where
  "strip_sink q prev normalized [] = (if q = Unquoted then Some normalized else None)"
| "strip_sink q prev normalized (c # cs) =
     (if q \<noteq> Unquoted then
        (if c = (if q = InSingle then SQ else DQ) then strip_sink Unquoted (Some c) (normalized @ [c]) cs
         else if q = InDouble \<and> c = BSLASH then
           (case cs of [] \<Rightarrow> None
            | e # es \<Rightarrow> strip_sink q (Some e) (normalized @ [c, e]) es)
         else strip_sink q (Some c) (normalized @ [c]) cs)
      else if c = SQ then strip_sink InSingle (Some c) (normalized @ [c]) cs
      else if c = DQ then strip_sink InDouble (Some c) (normalized @ [c]) cs
      else if is_none_or sink_boundary prev \<and> starts_with (c # cs) stderr_sink
              \<and> (case drop (length stderr_sink) (c # cs) of [] \<Rightarrow> True | d # _ \<Rightarrow> sink_boundary d)
      then strip_sink q (Some (CHR ''l'')) (normalized @ '' '') (drop (length stderr_sink) (c # cs))
      else if c = CHR ''<'' \<or> c = CHR ''>'' then None
      else strip_sink q (Some c) (normalized @ [c]) cs)"
  by pat_completeness auto
termination
  by (relation "measure (\<lambda>(q, p, n, cs). length cs)") (auto simp: stderr_sink_def)

definition strip_readonly_stderr_sink :: "string \<Rightarrow> string option" where
  "strip_readonly_stderr_sink command = strip_sink Unquoted None [] command"

section \<open>References to environment variables\<close>

definition is_name_byte :: "char \<Rightarrow> bool" where
  "is_name_byte c \<longleftrightarrow> is_ascii_alphanumeric c \<or> c = CHR ''_''"

definition char_after :: "string \<Rightarrow> string \<Rightarrow> char option" where
  "char_after name s = (case drop (length name) s of [] \<Rightarrow> None | c # _ \<Rightarrow> Some c)"

definition dollar_reference :: "string \<Rightarrow> string \<Rightarrow> bool" where
  "dollar_reference name rest \<longleftrightarrow>
     (if peek_is (CHR ''{'') rest
      then starts_with (tl rest) name \<and> is_some_and (\<lambda>c. \<not> is_name_byte c) (char_after name (tl rest))
      else starts_with rest name \<and> is_none_or (\<lambda>c. \<not> is_name_byte c) (char_after name rest))"

definition assignment_boundary :: "char option \<Rightarrow> bool" where
  "assignment_boundary prev \<longleftrightarrow>
     is_none_or (\<lambda>p. is_ascii_whitespace p \<or> p \<in> set [CHR '';'', CHR ''|'', CHR ''&'', CHR ''('']) prev"

fun references_from :: "string \<Rightarrow> char option \<Rightarrow> string \<Rightarrow> bool" where
  "references_from name prev [] = False"
| "references_from name prev (c # cs) =
     (c = CHR ''$'' \<and> dollar_reference name cs
      \<or> assignment_boundary prev \<and> starts_with (c # cs) name \<and> char_after name (c # cs) = Some (CHR ''='')
      \<or> references_from name (Some c) cs)"

definition references_environment_variable :: "string \<Rightarrow> string \<Rightarrow> bool" where
  "references_environment_variable command name =
     (if name = [] \<or> \<not> list_all is_name_byte name then False
      else references_from name None command)"

section \<open>Quoted words\<close>

text \<open>
  The shell's own way to write a word literally: in single quotes, where a quote is left, escaped and
  opened again (the text between the quotes is taken as it is).
\<close>

fun shell_quote_body :: "string \<Rightarrow> string" where
  "shell_quote_body [] = [SQ]"
| "shell_quote_body (c # cs) =
     (if c = SQ then [SQ, BSLASH, SQ, SQ] @ shell_quote_body cs else c # shell_quote_body cs)"

definition shell_quote :: "string \<Rightarrow> string" where
  "shell_quote w = SQ # shell_quote_body w"

lemma simple_tokens_quoted:
  "simple_tokens InSingle current tokens (shell_quote_body w @ rest) =
   simple_tokens Unquoted (current @ w) tokens rest"
proof (induction w arbitrary: current)
  case (Cons c cs)
  then show ?case by (cases "c = SQ") simp_all
qed simp

lemma simple_tokens_words:
  "\<forall>w \<in> set ws. w \<noteq> [] \<Longrightarrow> ws \<noteq> [] \<Longrightarrow>
   simple_tokens Unquoted [] tokens (join '' '' (map shell_quote ws)) = Some (tokens @ ws)"
proof (induction ws arbitrary: tokens)
  case (Cons w ws)
  show ?case
  proof (cases ws)
    case Nil
    then show ?thesis using Cons.prems simple_tokens_quoted [of "[]" tokens w "[]"]
      by (simp add: shell_quote_def push_word_def)
  next
    case (Cons v vs)
    have "join '' '' (map shell_quote (w # ws)) = SQ # shell_quote_body w @ '' '' @ join '' '' (map shell_quote ws)"
      by (simp add: Cons shell_quote_def)
    then show ?thesis
      using Cons.prems Cons.IH [of "tokens @ [w]"] Cons simple_tokens_quoted [of "[]" tokens w]
      by (simp add: push_word_def)
  qed
qed simp

lemma simple_tokens_empty [simp]: "join '' '' (map shell_quote []) = []"
  by simp

text \<open>
  Quoting protects a word completely. A command line made of single-quoted words is read back as
  exactly these words, whatever characters they contain: quotes, backslashes, separators, redirections
  and substitutions included.
\<close>

theorem quoted_words_round_trip:
  "\<forall>w \<in> set ws. w \<noteq> [] \<Longrightarrow> simple_command_tokens (join '' '' (map shell_quote ws)) = Some ws"
proof (cases "ws = []")
  case False
  assume "\<forall>w \<in> set ws. w \<noteq> []"
  then show ?thesis using simple_tokens_words [of ws "[]"] False by (simp add: simple_command_tokens_def)
qed (simp add: simple_command_tokens_def push_word_def)

theorem quoted_words_round_trip_witness:
  "simple_command_tokens (join '' '' (map shell_quote [''rm'', ''a;b > $c'', [SQ, BSLASH]])) =
     Some [''rm'', ''a;b > $c'', [SQ, BSLASH]]"
  using quoted_words_round_trip [of "[''rm'', ''a;b > $c'', [SQ, BSLASH]]"] by simp

section \<open>Active characters\<close>

text \<open>
  The lexical structure of the shell, independent of the scanners: the state is the open quote and whether the
  next character is escaped; a character is active when it stands outside quotes, is not escaped and is
  neither a quote nor the backslash itself.
\<close>

type_synonym lex_state = "quoting \<times> bool"

fun lex_next :: "lex_state \<Rightarrow> char \<Rightarrow> lex_state" where
  "lex_next (q, True) c = (q, False)"
| "lex_next (Unquoted, False) c =
     (if c = SQ then (InSingle, False) else if c = DQ then (InDouble, False) else (Unquoted, c = BSLASH))"
| "lex_next (InSingle, False) c = ((if c = SQ then Unquoted else InSingle), False)"
| "lex_next (InDouble, False) c = (if c = DQ then (Unquoted, False) else (InDouble, c = BSLASH))"

definition is_active :: "lex_state \<Rightarrow> char \<Rightarrow> bool" where
  "is_active st c \<longleftrightarrow> st = (Unquoted, False) \<and> c \<notin> set [SQ, DQ, BSLASH]"

fun active_chars :: "lex_state \<Rightarrow> string \<Rightarrow> string" where
  "active_chars st [] = []"
| "active_chars st (c # cs) = (if is_active st c then [c] else []) @ active_chars (lex_next st c) cs"

definition lex_end :: "lex_state \<Rightarrow> string \<Rightarrow> lex_state" where
  "lex_end st s = foldl lex_next st s"

lemma lex_end_simps [simp]: "lex_end st [] = st" "lex_end st (c # cs) = lex_end (lex_next st c) cs"
  by (simp_all add: lex_end_def)

lemma lex_end_append [simp]: "lex_end st (a @ b) = lex_end (lex_end st a) b"
  by (simp add: lex_end_def)

lemma active_chars_append [simp]:
  "active_chars st (a @ b) = active_chars st a @ active_chars (lex_end st a) b"
  by (induction a arbitrary: st) simp_all

lemma active_chars_subset: "set (active_chars st s) \<subseteq> set s"
proof (induction s arbitrary: st)
  case (Cons c cs)
  from Cons.IH [of "lex_next st c"] show ?case by auto
qed simp

definition shell_metacharacters :: "char list" where
  "shell_metacharacters = [CHR '';'', CHR ''|'', CHR ''&'', CHR ''>'', CHR ''<'', NEWLINE, RETURN, BTICK, CHR ''$'']"

lemma simple_tokens_active:
  "simple_tokens q current tokens s = Some ts \<Longrightarrow>
   list_all (\<lambda>c. c \<notin> set shell_metacharacters) (active_chars (q, False) s) \<and> lex_end (q, False) s = (Unquoted, False)"
  by (induction q current tokens s rule: simple_tokens.induct)
    (auto simp: is_active_def shell_metacharacters_def split: if_splits list.splits)

lemma blank_active:
  "list_all is_whitespace s \<Longrightarrow>
   lex_end (Unquoted, False) s = (Unquoted, False) \<and> active_chars (Unquoted, False) s = s"
proof (induction s)
  case (Cons c cs)
  have "\<not> is_whitespace SQ" "\<not> is_whitespace DQ" "\<not> is_whitespace BSLASH" by code_simp+
  with Cons have "c \<noteq> SQ" "c \<noteq> DQ" "c \<noteq> BSLASH" by auto
  with Cons show ?case by (simp add: is_active_def)
qed simp

lemma trim_split: "\<exists>a b. s = a @ trim s @ b \<and> list_all is_whitespace a \<and> list_all is_whitespace b"
proof -
  have 1: "s = takeWhile is_whitespace s @ trim_start s" by (simp add: trim_start_def)
  have 2: "t = trim_end t @ rev (takeWhile is_whitespace (rev t))" for t
    by (metis rev_append rev_rev_ident takeWhile_dropWhile_id trim_end_def)
  have "s = takeWhile is_whitespace s @ trim s @ rev (takeWhile is_whitespace (rev (trim_start s)))"
    unfolding trim_def using 1 2 [of "trim_start s"] by simp
  moreover have "list_all is_whitespace (takeWhile is_whitespace u)" for u
    by (auto simp: list_all_iff dest: set_takeWhileD)
  ultimately show ?thesis by (metis list_all_rev)
qed

lemma simple_trim_active:
  assumes "simple_command_tokens (trim s) = Some ts" "set s \<inter> {NEWLINE, RETURN} = {}"
  shows "list_all (\<lambda>c. c \<notin> set shell_metacharacters) (active_chars (Unquoted, False) s)"
    and "lex_end (Unquoted, False) s = (Unquoted, False)"
proof -
  obtain a b where s: "s = a @ trim s @ b" and ws: "list_all is_whitespace a" "list_all is_whitespace b"
    using trim_split by blast
  note core = simple_tokens_active [OF assms(1) [unfolded simple_command_tokens_def]]
  have meta: "list_all (\<lambda>c. c \<notin> set shell_metacharacters) u"
    if "list_all is_whitespace u" "set u \<inter> {NEWLINE, RETURN} = {}" for u
  proof -
    have "is_whitespace c \<Longrightarrow> c \<noteq> NEWLINE \<Longrightarrow> c \<noteq> RETURN \<Longrightarrow> c \<notin> set shell_metacharacters" for c
      by (auto simp: shell_metacharacters_def is_whitespace_def char_code_def)
    then show ?thesis using that by (auto simp: list_all_iff)
  qed
  have sub: "set a \<subseteq> set s" "set b \<subseteq> set s" by (subst s, auto)+
  have "active_chars (Unquoted, False) s = a @ active_chars (Unquoted, False) (trim s) @ b"
    by (subst s) (simp add: blank_active [OF ws(1)] blank_active [OF ws(2)] core)
  then show "list_all (\<lambda>c. c \<notin> set shell_metacharacters) (active_chars (Unquoted, False) s)"
    using core meta [OF ws(1)] meta [OF ws(2)] sub assms(2) by auto
  show "lex_end (Unquoted, False) s = (Unquoted, False)"
    by (subst s) (simp add: blank_active [OF ws(1)] blank_active [OF ws(2)] core)
qed

text \<open>The segments of a command line cut it at unquoted separators only.\<close>

definition open_quote :: "bool \<Rightarrow> bool \<Rightarrow> quoting" where
  "open_quote sq dq = (if sq then InSingle else if dq then InDouble else Unquoted)"

text \<open>
  One round of the loop of \<open>split_segments\<close> on the rest \<open>s\<close>: it moves some characters to the current
  segment, or it cuts at a separator.
\<close>

inductive seg_round ::
  "bool \<Rightarrow> bool \<Rightarrow> string \<Rightarrow> string list \<Rightarrow> string \<Rightarrow> bool \<Rightarrow> bool \<Rightarrow> string \<Rightarrow> string list \<Rightarrow> string \<Rightarrow> bool" where
  keep: "p \<noteq> [] \<Longrightarrow> lex_end (open_quote sq dq, False) p = (open_quote sq' dq', False) \<Longrightarrow> \<not> (sq' \<and> dq') \<Longrightarrow>
    seg_round sq dq current segments (p @ r) sq' dq' (current @ p) segments r"
| dangling: "seg_round sq dq current segments [BSLASH] sq dq (current @ [BSLASH]) segments []"
| cut: "p \<noteq> [] \<Longrightarrow> set p \<subseteq> {CHR '';'', CHR ''|'', CHR ''&''} \<Longrightarrow>
    seg_round False False current segments (p @ r) False False [] (segments @ [current]) r"

lemma seg_round_keep1:
  assumes "lex_next (open_quote sq dq, False) c = (open_quote sq' dq', False)" "\<not> (sq' \<and> dq')"
  shows "seg_round sq dq current segments (c # cs) sq' dq' (current @ [c]) segments cs"
  using keep [of "[c]" sq dq sq' dq' current segments cs] assms by simp

lemma seg_round_cut1:
  assumes "c \<in> {CHR '';'', CHR ''|'', CHR ''&''}"
  shows "seg_round False False current segments (c # cs) False False [] (segments @ [current]) cs"
  using cut [of "[c]" current segments cs] assms by simp

lemma seg_round_cut2:
  assumes "c \<in> {CHR ''|'', CHR ''&''}" "peek_is c cs"
  shows "seg_round False False current segments (c # cs) False False [] (segments @ [current]) (drop 1 cs)"
  using cut [of "[c, c]" current segments "drop 1 cs"] assms by (cases cs) (auto simp: peek_is_def)

lemma segments_round:
  assumes "\<not> (sq \<and> dq)"
  shows "\<exists>sq' dq' current' segments' r. seg_round sq dq current segments (c # cs) sq' dq' current' segments' r \<and>
    segments_from sq dq current segments (c # cs) = segments_from sq' dq' current' segments' r"
proof -
  consider (esc) "c = BSLASH" "\<not> sq" | (sq) "c = SQ" "\<not> dq" | (dq) "c = DQ" "\<not> sq"
    | (quoted) "sq \<or> dq" "\<not> (c = BSLASH \<and> \<not> sq)" "\<not> (c = SQ \<and> \<not> dq)" "\<not> (c = DQ \<and> \<not> sq)"
    | (plain) "\<not> sq" "\<not> dq" "c \<noteq> BSLASH" "c \<noteq> SQ" "c \<noteq> DQ" by blast
  then show ?thesis
  proof cases
    case esc
    show ?thesis
    proof (cases cs)
      case Nil
      then show ?thesis using dangling [of sq dq current segments] esc by (force simp del: segments_from.simps(1))
    next
      case (Cons e es)
      have "seg_round sq dq current segments ([c, e] @ es) sq dq (current @ [c, e]) segments es"
        using esc assms by (intro keep) (auto simp: open_quote_def)
      then show ?thesis using esc Cons by force
    qed
  next
    case sq
    have "seg_round sq dq current segments (c # cs) (\<not> sq) dq (current @ [c]) segments cs"
      using sq by (intro seg_round_keep1) (auto simp: open_quote_def)
    then show ?thesis using sq by force
  next
    case dq
    have "seg_round sq dq current segments (c # cs) sq (\<not> dq) (current @ [c]) segments cs"
      using dq by (intro seg_round_keep1) (auto simp: open_quote_def)
    then show ?thesis using dq by force
  next
    case quoted
    have "seg_round sq dq current segments (c # cs) sq dq (current @ [c]) segments cs"
      using quoted assms by (intro seg_round_keep1) (auto simp: open_quote_def)
    moreover have "segments_from sq dq current segments (c # cs) = segments_from sq dq (current @ [c]) segments cs"
      using quoted by auto
    ultimately show ?thesis by blast
  next
    case plain
    consider "c \<in> {CHR ''|'', CHR ''&''}" "peek_is c cs" | "c = CHR ''|''" "\<not> peek_is c cs" | "c = CHR '';''"
      | "c \<notin> {CHR '';'', CHR ''|''}" "\<not> (c = CHR ''&'' \<and> peek_is c cs)" by blast
    then show ?thesis
    proof cases
      case 1
      have "segments_from sq dq current segments (c # cs) =
          segments_from False False [] (segments @ [current]) (drop 1 cs)" using 1 plain by auto
      then show ?thesis using seg_round_cut2 [OF 1, of current segments] plain by (simp only:) blast
    next
      case 2
      then have "segments_from sq dq current segments (c # cs) =
          segments_from False False [] (segments @ [current]) cs" using plain by simp
      then show ?thesis using seg_round_cut1 [of c current segments cs] plain 2 by (simp only:) blast
    next
      case 3
      then have "segments_from sq dq current segments (c # cs) =
          segments_from False False [] (segments @ [current]) cs" using plain by simp
      then show ?thesis using seg_round_cut1 [of c current segments cs] plain 3 by (simp only:) blast
    next
      case 4
      have "seg_round sq dq current segments (c # cs) sq dq (current @ [c]) segments cs"
        using plain by (intro seg_round_keep1) (auto simp: open_quote_def)
      moreover have "segments_from sq dq current segments (c # cs) = segments_from sq dq (current @ [c]) segments cs"
        using plain 4 by auto
      ultimately show ?thesis by blast
    qed
  qed
qed

lemma seg_round_shorter: "seg_round sq dq cur segs s sq' dq' cur' segs' r \<Longrightarrow> length r < length s"
  by (induction rule: seg_round.induct) auto

lemma seg_round_quotes: "seg_round sq dq cur segs s sq' dq' cur' segs' r \<Longrightarrow> \<not> (sq \<and> dq) \<Longrightarrow> \<not> (sq' \<and> dq')"
  by (induction rule: seg_round.induct) auto

text \<open>Induction along the rounds of the loop.\<close>

lemma segments_from_rounds:
  assumes "\<not> (sq \<and> dq)"
    and stop: "\<And>sq dq cur segs. \<not> (sq \<and> dq) \<Longrightarrow> P sq dq cur segs [] (segments_from sq dq cur segs [])"
    and round: "\<And>sq dq cur segs s sq' dq' cur' segs' r res. seg_round sq dq cur segs s sq' dq' cur' segs' r \<Longrightarrow>
      \<not> (sq \<and> dq) \<Longrightarrow> P sq' dq' cur' segs' r res \<Longrightarrow> P sq dq cur segs s res"
  shows "P sq dq cur segs s (segments_from sq dq cur segs s)"
  using assms(1)
proof (induction s arbitrary: sq dq cur segs rule: length_induct)
  case (1 s)
  show ?case
  proof (cases s)
    case Nil
    then show ?thesis using stop 1 by simp
  next
    case (Cons c cs)
    then obtain sq' dq' cur' segs' r where r: "seg_round sq dq cur segs s sq' dq' cur' segs' r"
      "segments_from sq dq cur segs s = segments_from sq' dq' cur' segs' r"
      using segments_round [OF 1(2)] by blast
    have "P sq' dq' cur' segs' r (segments_from sq' dq' cur' segs' r)"
      using 1 seg_round_shorter [OF r(1)] seg_round_quotes [OF r(1)] by blast
    then show ?thesis using round [OF r(1) 1(2)] r(2) by simp
  qed
qed

lemma seg_round_sets:
  assumes "seg_round sq dq cur segs s sq' dq' cur' segs' r"
  shows "set segs \<subseteq> set segs'" "set cur' \<union> set r \<subseteq> set cur \<union> set s"
    "x \<in> set segs' \<Longrightarrow> x \<in> set segs \<or> set x \<subseteq> set cur \<union> set s"
  using assms by (cases; auto)+

lemma segments_from_chars:
  assumes "\<not> (sq \<and> dq)"
  shows "\<forall>seg \<in> set (segments_from sq dq cur segs s). seg \<in> set segs \<or> set seg \<subseteq> set cur \<union> set s"
  using assms
proof (rule segments_from_rounds [where P = "\<lambda>sq dq cur segs s res.
    \<forall>seg \<in> set res. seg \<in> set segs \<or> set seg \<subseteq> set cur \<union> set s"])
  fix sq dq cur segs s sq' dq' cur' segs' r res
  assume "seg_round sq dq cur segs s sq' dq' cur' segs' r"
    and "\<forall>seg \<in> set res. seg \<in> set segs' \<or> set seg \<subseteq> set cur' \<union> set r"
  then show "\<forall>seg \<in> set res. seg \<in> set segs \<or> set seg \<subseteq> set cur \<union> set s"
    using seg_round_sets(2,3) by (meson subset_trans)
qed auto

lemma split_segments_chars: "seg \<in> set (split_segments s) \<Longrightarrow> set seg \<subseteq> set s"
  using segments_from_chars [of False False "[]" "[]" s] by (auto simp: split_segments_def)

lemma trim_eq_Nil: "trim s = [] \<Longrightarrow> list_all is_whitespace s"
proof -
  assume "trim s = []"
  moreover obtain a b where "s = a @ trim s @ b" "list_all is_whitespace a" "list_all is_whitespace b"
    using trim_split by blast
  ultimately show ?thesis by (metis append_Nil list_all_append)
qed

definition blank_or_in :: "string list \<Rightarrow> char \<Rightarrow> bool" where
  "blank_or_in segs c \<longleftrightarrow> is_whitespace c \<or> c \<in> {CHR '';'', CHR ''|'', CHR ''&''} \<or>
     (\<exists>seg \<in> set segs. c \<in> set (active_chars (Unquoted, False) seg))"

definition active_kept :: "bool \<Rightarrow> bool \<Rightarrow> string \<Rightarrow> string list \<Rightarrow> string \<Rightarrow> string list \<Rightarrow> bool" where
  "active_kept sq dq cur segs s res \<longleftrightarrow> set segs \<subseteq> set res \<and> (s = [] \<and> trim cur \<noteq> [] \<longrightarrow> cur \<in> set res) \<and>
     (lex_end (Unquoted, False) cur = (open_quote sq dq, False) \<longrightarrow>
       list_all (blank_or_in res) (active_chars (Unquoted, False) (cur @ s)))"

lemma active_in_segment: "seg \<in> set res \<Longrightarrow> list_all (blank_or_in res) (active_chars (Unquoted, False) seg)"
  by (auto simp: blank_or_in_def list_all_iff)

lemma active_kept_stop: "active_kept sq dq cur segs [] (segments_from sq dq cur segs [])"
proof (cases "trim cur = []")
  case True
  then have "list_all is_whitespace cur" by (rule trim_eq_Nil)
  then show ?thesis using True blank_active [of cur]
    by (simp add: active_kept_def list_all_iff blank_or_in_def)
next
  case False
  have "list_all (blank_or_in (segs @ [cur])) (active_chars (Unquoted, False) cur)"
    by (rule active_in_segment) simp
  with False show ?thesis by (auto simp: active_kept_def)
qed

lemma active_kept_round:
  assumes "seg_round sq dq cur segs s sq' dq' cur' segs' r" "active_kept sq' dq' cur' segs' r res"
  shows "active_kept sq dq cur segs s res"
  using assms
proof (induction rule: seg_round.induct)
  case (dangling sq dq cur segs)
  have "\<not> is_whitespace BSLASH" by code_simp
  then have "trim (cur @ [BSLASH]) \<noteq> []" using trim_eq_Nil [of "cur @ [BSLASH]"] by auto
  then have "cur @ [BSLASH] \<in> set res" "set segs \<subseteq> set res" using dangling by (auto simp: active_kept_def)
  then show ?case using active_in_segment by (auto simp: active_kept_def simp del: active_chars_append)
next
  case (cut p cur segs r)
  have cur: "cur \<in> set res" "set segs \<subseteq> set res" using cut by (auto simp: active_kept_def)
  have r: "list_all (blank_or_in res) (active_chars (Unquoted, False) r)"
    using cut by (simp add: active_kept_def open_quote_def)
  have "lex_end (Unquoted, False) p = (Unquoted, False)" "set (active_chars (Unquoted, False) p) \<subseteq> set p"
    using cut(2) by (induction p) (auto simp: is_active_def)
  then have "list_all (blank_or_in res) (active_chars (Unquoted, False) (p @ r))"
    using cut(2) r by (auto simp: list_all_iff blank_or_in_def)
  then show ?case using cur active_in_segment [OF cur(1)] \<open>p \<noteq> []\<close> by (simp add: active_kept_def open_quote_def)
qed (auto simp: active_kept_def)

lemma split_segments_active:
  "list_all (blank_or_in (split_segments s)) (active_chars (Unquoted, False) s)"
proof -
  have "active_kept False False [] [] s (segments_from False False [] [] s)"
    by (rule segments_from_rounds [where P = active_kept]) 
      (erule active_kept_round, assumption | rule active_kept_stop | simp)+
  then show ?thesis by (simp add: active_kept_def open_quote_def split_segments_def)
qed

text \<open>Discarding the diagnostic sink adds nothing but blanks.\<close>

lemma strip_sink_round:
  assumes "strip_sink q prev normalized (c # cs) = Some r"
  shows "\<exists>q' p' n' s'. strip_sink q' p' n' s' = Some r \<and> length s' < length (c # cs) \<and>
    set n' \<union> set s' \<subseteq> set normalized \<union> set (c # cs) \<union> {CHR '' ''}"
proof -
  let ?U = "set normalized \<union> set (c # cs) \<union> {CHR '' ''}"
  have I: ?thesis if "strip_sink q' p' n' s' = Some r" "length s' < length (c # cs)" "set n' \<subseteq> ?U" "set s' \<subseteq> ?U"
    for q' p' n' s' using that by (metis Un_subset_iff)
  have drop: "set (drop (length stderr_sink) (c # cs)) \<subseteq> ?U" "length (drop (length stderr_sink) (c # cs)) < length (c # cs)"
    using set_drop_subset [of "length stderr_sink" "c # cs"] by (auto simp: stderr_sink_def)
  show ?thesis
  proof (cases "q = Unquoted")
    case True
    with assms consider "strip_sink InSingle (Some c) (normalized @ [c]) cs = Some r"
      | "strip_sink InDouble (Some c) (normalized @ [c]) cs = Some r"
      | "strip_sink q (Some (CHR ''l'')) (normalized @ '' '') (drop (length stderr_sink) (c # cs)) = Some r"
      | "strip_sink q (Some c) (normalized @ [c]) cs = Some r"
      unfolding strip_sink.simps(2) by (simp only: if_True if_False not_True_eq_False simp_thms split: if_split_asm) blast+
    then show ?thesis
    proof cases
      case 3
      then show ?thesis by (rule I) (use drop in simp_all, blast)
    qed (erule I; auto)+
  next
    case False
    with assms consider "strip_sink Unquoted (Some c) (normalized @ [c]) cs = Some r"
      | e es where "cs = e # es" "strip_sink q (Some e) (normalized @ [c, e]) es = Some r"
      | "strip_sink q (Some c) (normalized @ [c]) cs = Some r"
      unfolding strip_sink.simps(2)
      by (cases cs) (auto simp del: strip_sink.simps split: if_split_asm)
    then show ?thesis by cases (erule I; auto)+
  qed
qed

lemma strip_sink_chars:
  "strip_sink q prev normalized s = Some r \<Longrightarrow> set r \<subseteq> set normalized \<union> set s \<union> {CHR '' ''}"
proof (induction s arbitrary: q prev normalized rule: length_induct)
  case (1 s)
  show ?case
  proof (cases s)
    case Nil
    then show ?thesis using 1(2) by (auto split: if_splits)
  next
    case (Cons c cs)
    then show ?thesis using strip_sink_round [of q prev normalized c cs r] 1 by blast
  qed
qed

end
