(* ===== verification/BashClassifier.thy ===== *)
theory BashClassifier
  imports ShellLex
begin

text \<open>
  The shell command classifier (\<open>crates/mcp-gateway/src/bash_classifier.rs\<close>) above its lexical layer:
  literal invocations, the operation class of a segment and of a command line, the capabilities a
  strictly read-only command needs, and the check of a command against the tools a state allows.
  Argument loops over an index are recursions on the rest of the arguments.
\<close>

datatype op_class =
    FileWrite | FileModify | FileRead | ContentSearch | FileSearch | Destructive | Network | GitWrite
  | GitRead | LocalWrite | BoundedLocalExecution | GitLocalWrite | SafeOutput | Opaque | Passthrough

text \<open>The discriminant \<open>class as u8\<close>, by which the classes of a command are sorted.\<close>

fun op_index :: "op_class \<Rightarrow> nat" where
  "op_index FileWrite = 0"
| "op_index FileModify = 1"
| "op_index FileRead = 2"
| "op_index ContentSearch = 3"
| "op_index FileSearch = 4"
| "op_index Destructive = 5"
| "op_index Network = 6"
| "op_index GitWrite = 7"
| "op_index GitRead = 8"
| "op_index LocalWrite = 9"
| "op_index BoundedLocalExecution = 10"
| "op_index GitLocalWrite = 11"
| "op_index SafeOutput = 12"
| "op_index Opaque = 13"
| "op_index Passthrough = 14"

lemma op_index_inj: "op_index a = op_index b \<Longrightarrow> a = b"
  by (cases a; cases b) simp_all

instantiation op_class :: linorder
begin

definition less_eq_op_class :: "op_class \<Rightarrow> op_class \<Rightarrow> bool" where
  "a \<le> b \<longleftrightarrow> op_index a \<le> op_index b"

definition less_op_class :: "op_class \<Rightarrow> op_class \<Rightarrow> bool" where
  "a < b \<longleftrightarrow> op_index a < op_index b"

instance
  by standard (auto simp: less_eq_op_class_def less_op_class_def dest: op_index_inj)

end

fun show_op_class :: "op_class \<Rightarrow> string" where
  "show_op_class FileWrite = ''FileWrite''"
| "show_op_class FileModify = ''FileModify''"
| "show_op_class FileRead = ''FileRead''"
| "show_op_class ContentSearch = ''ContentSearch''"
| "show_op_class FileSearch = ''FileSearch''"
| "show_op_class Destructive = ''Destructive''"
| "show_op_class Network = ''Network''"
| "show_op_class GitWrite = ''GitWrite''"
| "show_op_class GitRead = ''GitRead''"
| "show_op_class LocalWrite = ''LocalWrite''"
| "show_op_class BoundedLocalExecution = ''BoundedLocalExecution''"
| "show_op_class GitLocalWrite = ''GitLocalWrite''"
| "show_op_class SafeOutput = ''SafeOutput''"
| "show_op_class Opaque = ''Opaque''"
| "show_op_class Passthrough = ''Passthrough''"

record semantic_command_shape =
  sc_executable :: string
  sc_operation :: "string option"
  sc_delegates_unknown_effect :: bool

record invocation =
  li_executable :: string
  li_args :: "string list"
  li_environment_names :: "string list"
  li_wrappers :: "string list"

section \<open>Literal invocations\<close>

definition literal_assignment :: "string \<Rightarrow> (string \<times> string) option" where
  "literal_assignment token =
     (case split_once (CHR ''='') token of
        None \<Rightarrow> None
      | Some (name, v) \<Rightarrow>
          if name = [] \<or> is_ascii_digit (hd name) \<or> \<not> list_all is_name_byte name then None
          else Some (name, v))"

definition runtime_injection_environment :: "string \<Rightarrow> bool" where
  "runtime_injection_environment name \<longleftrightarrow>
     (let upper = to_ascii_uppercase name
      in upper \<in> set [''PATH'', ''CDPATH'', ''BASH_ENV'', ''ENV'', ''SHELLOPTS'', ''BASHOPTS'', ''GLOBIGNORE'',
           ''NODE_OPTIONS'', ''NODE_PATH'', ''PYTHONPATH'', ''PYTHONHOME'', ''RUBYOPT'', ''PERL5OPT'',
           ''PERL5LIB'', ''GIT_EXEC_PATH'', ''GIT_SSH'', ''GIT_SSH_COMMAND'', ''RUSTC'', ''RUSTC_WRAPPER'',
           ''RUSTC_WORKSPACE_WRAPPER'', ''RUSTDOC'', ''RUSTDOCFLAGS'', ''RUSTFLAGS'', ''RUSTFMT'',
           ''CARGO_HOME'', ''RUSTUP_HOME'', ''RUSTUP_TOOLCHAIN'']
         \<or> list_ex (starts_with upper) [''LD_'', ''DYLD_'', ''GIT_CONFIG_'', ''NPM_CONFIG_'', ''CARGO_BUILD_'',
              ''CARGO_TARGET_'', ''CARGO_ENCODED_''])"

fun consume_assignments :: "string list \<Rightarrow> string list \<Rightarrow> (string list \<times> string list) option" where
  "consume_assignments [] names = Some ([], names)"
| "consume_assignments (t # ts) names =
     (case literal_assignment t of
        None \<Rightarrow> Some (t # ts, names)
      | Some (name, _) \<Rightarrow>
          if runtime_injection_environment name then None
          else consume_assignments ts (names @ [name]))"

text \<open>After \<open>command\<close> or \<open>env\<close>: a double dash is skipped, any other option is refused.\<close>

definition skip_wrapper_options :: "string list \<Rightarrow> string list option" where
  "skip_wrapper_options ts =
     (case ts of
        [] \<Rightarrow> Some []
      | t # rest \<Rightarrow> if t = ''--'' then Some rest else if starts_with t ''-'' then None else Some ts)"

fun strip_wrappers ::
  "nat \<Rightarrow> string list \<Rightarrow> string list \<Rightarrow> string list \<Rightarrow> (string list \<times> string list \<times> string list) option" where
  "strip_wrappers 0 ts names wrappers = Some (ts, names, wrappers)"
| "strip_wrappers (Suc n) ts names wrappers =
     (case ts of
        [] \<Rightarrow> Some (ts, names, wrappers)
      | t # rest \<Rightarrow>
          if t = ''command'' then
            (case skip_wrapper_options rest of
               None \<Rightarrow> None
             | Some rest \<Rightarrow> strip_wrappers n rest names (wrappers @ [''command'']))
          else if t = ''env'' then
            (case skip_wrapper_options rest of
               None \<Rightarrow> None
             | Some rest \<Rightarrow>
                 (case consume_assignments rest names of
                    None \<Rightarrow> None
                  | Some (rest, names) \<Rightarrow> strip_wrappers n rest names (wrappers @ [''env''])))
          else Some (ts, names, wrappers))"

definition literal_invocation :: "string \<Rightarrow> invocation option" where
  "literal_invocation command =
     (case simple_command_tokens command of
        None \<Rightarrow> None
      | Some tokens \<Rightarrow>
          if tokens = [] then None
          else case consume_assignments tokens [] of
            None \<Rightarrow> None
          | Some (ts, names) \<Rightarrow>
              (case strip_wrappers 4 ts names [] of
                 None \<Rightarrow> None
               | Some ([], _, _) \<Rightarrow> None
               | Some (executable # args, names, wrappers) \<Rightarrow>
                   if executable \<in> set [''command'', ''env''] then None
                   else Some \<lparr>li_executable = executable, li_args = args,
                              li_environment_names = names, li_wrappers = wrappers\<rparr>))"

section \<open>Bounded argument grammars\<close>

definition bounded_label :: "string \<Rightarrow> bool" where
  "bounded_label v \<longleftrightarrow> v \<noteq> [] \<and> list_all (\<lambda>c. is_ascii_alphanumeric c \<or> c \<in> set ''_-'') v"

definition bounded_test_filter :: "string \<Rightarrow> bool" where
  "bounded_test_filter v \<longleftrightarrow> v \<noteq> [] \<and> list_all (\<lambda>c. is_ascii_alphanumeric c \<or> c \<in> set ''_-:'') v"

definition bounded_relative_path :: "string \<Rightarrow> string \<Rightarrow> bool" where
  "bounded_relative_path path sfx \<longleftrightarrow>
     path \<noteq> [] \<and> \<not> starts_with path ''/''
     \<and> \<not> list_ex (\<lambda>segment. segment \<in> set ['''', ''.'', ''..'']) (split_on (\<lambda>c. c = CHR ''/'') path)
     \<and> ends_with path sfx
     \<and> list_all (\<lambda>c. is_ascii_alphanumeric c \<or> c \<in> set ''/._-'') path"

definition option_parts :: "string \<Rightarrow> string \<times> string option" where
  "option_parts v = (case split_once (CHR ''='') v of None \<Rightarrow> (v, None) | Some (flag, x) \<Rightarrow> (flag, Some x))"

text \<open>
  \<open>option_value args index inline\<close> on the arguments from \<open>index\<close> on: the value and the arguments that are left.
\<close>

definition option_value :: "string list \<Rightarrow> string option \<Rightarrow> (string \<times> string list) option" where
  "option_value args inline =
     (case inline of
        Some v \<Rightarrow> if v \<noteq> [] then Some (v, drop 1 args) else None
      | None \<Rightarrow>
          (case drop 1 args of
             [] \<Rightarrow> None
           | v # rest \<Rightarrow> if v \<noteq> [] \<and> \<not> starts_with v ''-'' then Some (v, rest) else None))"

lemma option_value_shorter:
  "option_value (a # as) inline = Some (v, rest) \<Longrightarrow> length rest < Suc (length as)"
  by (auto simp: option_value_def split: option.splits list.splits if_splits)

definition bounded_manifest_path :: "string \<Rightarrow> bool" where
  "bounded_manifest_path v \<longleftrightarrow>
     bounded_relative_path v ''Cargo.toml'' \<and> rsplit_next (CHR ''/'') v = ''Cargo.toml''"

fun parse_digits :: "nat \<Rightarrow> string \<Rightarrow> nat" where
  "parse_digits acc [] = acc"
| "parse_digits acc (c # cs) = parse_digits (10 * acc + (char_code c - 48)) cs"

definition positive_u32 :: "string \<Rightarrow> bool" where
  "positive_u32 v \<longleftrightarrow> list_all is_ascii_digit v \<and> v \<noteq> [] \<and> 0 < parse_digits 0 v \<and> parse_digits 0 v < 2 ^ 32"

function bounded_libtest_options :: "string list \<Rightarrow> bool" where
  "bounded_libtest_options [] = True"
| "bounded_libtest_options (a # as) =
     (let (flag, inline) = option_parts a
      in if flag \<in> set [''--exact'', ''--nocapture'', ''--show-output'', ''--ignored'', ''--include-ignored'', ''--list'']
            \<and> inline = None
         then bounded_libtest_options as
         else if flag = ''--test-threads'' then
           (case option_value (a # as) inline of
              None \<Rightarrow> False
            | Some (v, rest) \<Rightarrow> positive_u32 v \<and> bounded_libtest_options rest)
         else False)"
  by pat_completeness auto
termination
  by (relation "measure length") (auto simp: option_value_shorter simp del: list.set set_simps)

definition valid_cargo_value :: "string \<Rightarrow> string \<Rightarrow> bool" where
  "valid_cargo_value flag v =
     (if flag = ''--manifest-path'' then bounded_manifest_path v
      else if flag = ''--features'' then list_all bounded_label (split_on (\<lambda>c. c = CHR '','') v)
      else bounded_label v)"

function cargo_arguments :: "string \<Rightarrow> nat \<Rightarrow> string list \<Rightarrow> bool" where
  "cargo_arguments operation filters [] = True"
| "cargo_arguments operation filters (a # as) =
     (let (flag, inline) = option_parts a
      in if flag \<in> set [''--offline'', ''--frozen''] \<and> inline = None then cargo_arguments operation filters as
         else if flag \<in> set [''--locked'', ''--lib'', ''--quiet'', ''--workspace'', ''--all-targets'', ''--tests'',
                   ''--bins'', ''--examples'', ''--all-features'', ''--no-default-features''] \<and> inline = None
         then cargo_arguments operation filters as
         else if flag \<in> set [''--no-fail-fast'', ''--no-run''] \<and> operation = ''test'' \<and> inline = None
         then cargo_arguments operation filters as
         else if flag \<in> set [''-p'', ''--package'', ''--features'', ''--manifest-path'', ''--bin'', ''--test'', ''--example'']
         then
           (case option_value (a # as) inline of
              None \<Rightarrow> False
            | Some (v, rest) \<Rightarrow> valid_cargo_value flag v \<and> cargo_arguments operation filters rest)
         else if flag = ''--'' \<and> operation = ''test'' \<and> inline = None then bounded_libtest_options as
         else if operation = ''test'' \<and> inline = None \<and> \<not> starts_with flag ''-'' \<and> bounded_test_filter flag
         then (if filters + 1 > 1 then False else cargo_arguments operation (filters + 1) as)
         else False)"
  by pat_completeness auto
termination
  by (relation "measure (\<lambda>(_, _, as). length as)") (auto simp: option_value_shorter simp del: list.set set_simps)

definition bounded_cargo_local_execution :: "invocation \<Rightarrow> bool" where
  "bounded_cargo_local_execution inv0 =
     (case li_args inv0 of
        [] \<Rightarrow> False
      | operation # args \<Rightarrow> operation \<in> set [''test'', ''check'', ''build''] \<and> cargo_arguments operation 0 args)"

definition bounded_node_path :: "string \<Rightarrow> bool \<Rightarrow> bool" where
  "bounded_node_path path test =
     list_ex (bounded_relative_path path)
       (if test then [''.test.mjs'', ''.test.cjs'', ''.test.js''] else [''.mjs'', ''.cjs'', ''.js''])"

definition bounded_node_local_execution :: "invocation \<Rightarrow> bool" where
  "bounded_node_local_execution inv0 =
     (case li_args inv0 of
        [] \<Rightarrow> False
      | flag # rest \<Rightarrow>
          if flag = ''--test'' \<and> rest \<noteq> []
             \<and> is_some_and (\<lambda>v. v \<noteq> []) (strip_prefix (hd rest) ''--test-name-pattern='') \<and> tl rest \<noteq> []
          then list_all (\<lambda>path. bounded_node_path path True) (tl rest)
          else if flag = ''--test'' \<and> rest \<noteq> [] then list_all (\<lambda>path. bounded_node_path path True) rest
          else (case rest of [path] \<Rightarrow> flag = ''--check'' \<and> bounded_node_path path False | _ \<Rightarrow> False))"

definition bounded_node_repository_entrypoint :: "invocation \<Rightarrow> string option" where
  "bounded_node_repository_entrypoint inv0 =
     (if li_executable inv0 \<noteq> ''node'' \<or> length (li_args inv0) > 65 then None
      else case li_args inv0 of
        [] \<Rightarrow> None
      | entrypoint # _ \<Rightarrow>
          if starts_with entrypoint ''-''
             \<or> \<not> list_ex (bounded_relative_path entrypoint) [''.mjs'', ''.cjs'', ''.js'']
          then None else Some entrypoint)"

definition bounded_package_test_local_execution :: "invocation \<Rightarrow> string \<Rightarrow> bool" where
  "bounded_package_test_local_execution inv0 executable =
     (if li_executable inv0 \<noteq> executable then False
      else li_args inv0 = [''test''] \<or> li_args inv0 = [''run'', ''test''])"

definition vitest_suffixes :: "string list" where
  "vitest_suffixes =
     [''.test.js'', ''.test.ts'', ''.test.jsx'', ''.test.tsx'', ''.test.mjs'', ''.test.cjs'', ''.test.mts'', ''.test.cts'',
      ''.spec.js'', ''.spec.ts'', ''.spec.jsx'', ''.spec.tsx'', ''.spec.mjs'', ''.spec.cjs'', ''.spec.mts'', ''.spec.cts'']"

definition bounded_vitest_local_execution :: "invocation \<Rightarrow> bool" where
  "bounded_vitest_local_execution inv0 =
     (case li_args inv0 of
        [] \<Rightarrow> False
      | operation # paths \<Rightarrow>
          li_executable inv0 = ''node_modules/.bin/vitest'' \<and> operation = ''run''
          \<and> list_all (\<lambda>path. list_ex (bounded_relative_path path) vitest_suffixes \<and> \<not> starts_with path ''-'') paths)"

definition bounded_vite_local_execution :: "invocation \<Rightarrow> bool" where
  "bounded_vite_local_execution inv0 \<longleftrightarrow> li_executable inv0 = ''vite'' \<and> li_args inv0 = [''build'']"

datatype execution_intent = Validation

definition local_execution_intent :: "invocation \<Rightarrow> string \<Rightarrow> execution_intent option" where
  "local_execution_intent inv0 executable =
     (let validation =
        (if executable = ''node'' then bounded_node_local_execution inv0
         else if executable = ''cargo'' then bounded_cargo_local_execution inv0
         else if executable \<in> set [''npm'', ''pnpm''] then bounded_package_test_local_execution inv0 executable
         else if executable = ''vitest'' then bounded_vitest_local_execution inv0
         else if executable = ''vite'' then bounded_vite_local_execution inv0
         else False)
      in if validation then Some Validation else None)"

text \<open>The argument loop of \<open>rust_format_effect\<close>: whether check mode was selected and how many paths were named.\<close>

function format_arguments :: "bool \<Rightarrow> bool \<Rightarrow> bool \<Rightarrow> nat \<Rightarrow> string list \<Rightarrow> (bool \<times> nat) option" where
  "format_arguments cargo formatter_args check paths [] = Some (check, paths)"
| "format_arguments cargo formatter_args check paths (a # as) =
     (let (flag, inline) = option_parts a
      in if flag = ''--'' \<and> cargo \<and> \<not> formatter_args \<and> inline = None
         then format_arguments cargo True check paths as
         else if flag = ''--check'' \<and> inline = None then format_arguments cargo formatter_args True paths as
         else if flag \<in> set [''--all'', ''-q'', ''--quiet''] \<and> cargo \<and> \<not> formatter_args \<and> inline = None
         then format_arguments cargo formatter_args check paths as
         else if flag \<in> set [''-p'', ''--package'', ''--manifest-path''] \<and> cargo \<and> \<not> formatter_args then
           (case option_value (a # as) inline of
              None \<Rightarrow> None
            | Some (v, rest) \<Rightarrow>
                if (if flag = ''--manifest-path'' then bounded_manifest_path v else bounded_label v)
                then format_arguments cargo formatter_args check paths rest else None)
         else if flag = ''--edition'' \<and> formatter_args then
           (case option_value (a # as) inline of
              None \<Rightarrow> None
            | Some (v, rest) \<Rightarrow>
                if v \<in> set [''2015'', ''2018'', ''2021'', ''2024'']
                then format_arguments cargo formatter_args check paths rest else None)
         else if \<not> cargo \<and> inline = None \<and> \<not> starts_with flag ''-'' \<and> bounded_relative_path flag ''.rs''
         then format_arguments cargo formatter_args check (paths + 1) as
         else None)"
  by pat_completeness auto
termination
  by (relation "measure (\<lambda>(_, _, _, _, as). length as)") (auto simp: option_value_shorter simp del: list.set set_simps)

definition rust_format_effect :: "invocation \<Rightarrow> string \<Rightarrow> op_class option" where
  "rust_format_effect inv0 executable =
     (if li_executable inv0 \<noteq> executable then None
      else let args = li_args inv0; cargo = (executable = ''cargo'')
      in if cargo \<and> (args = [] \<or> hd args \<noteq> ''fmt'') then None
      else case format_arguments cargo (\<not> cargo) False 0 (if cargo then drop 1 args else args) of
        None \<Rightarrow> None
      | Some (check, paths) \<Rightarrow>
          if \<not> cargo \<and> paths = 0 then None
          else Some (if cargo then BoundedLocalExecution else if check then FileRead else FileModify))"

definition bounded_version_probe :: "invocation \<Rightarrow> string \<Rightarrow> bool" where
  "bounded_version_probe inv0 executable =
     (case li_executable inv0 # li_args inv0 of
        [actual, flag] \<Rightarrow> actual = executable \<and> flag \<in> set [''--version'', ''-V'', ''-v'']
      | _ \<Rightarrow> False)"

section \<open>Git\<close>

function git_subcommand_index :: "string list \<Rightarrow> nat \<Rightarrow> nat option" where
  "git_subcommand_index tokens index =
     (if index < length tokens then
        (let argument = tokens ! index
         in if argument \<in> set [''--no-pager'', ''--no-optional-locks''] then git_subcommand_index tokens (index + 1)
            else if argument = ''-c'' then
              (if index + 1 < length tokens
                  \<and> tokens ! (index + 1) \<in> set [''core.hooksPath=/dev/null'', ''core.fsmonitor=false'', ''commit.gpgSign=false'']
               then git_subcommand_index tokens (index + 2) else None)
            else if argument = ''-C'' then
              (if index + 1 < length tokens
                  \<and> tokens ! (index + 1) \<noteq> [] \<and> \<not> starts_with (tokens ! (index + 1)) ''-''
               then git_subcommand_index tokens (index + 2) else None)
            else if starts_with argument ''-'' then None
            else Some index)
      else None)"
  by pat_completeness auto
termination
  by (relation "measure (\<lambda>(ts, i). length ts - i)") (auto simp del: list.set set_simps)

declare git_subcommand_index.simps [simp del]

fun git_init_arguments :: "bool \<Rightarrow> bool \<Rightarrow> string list \<Rightarrow> bool" where
  "git_init_arguments directory_seen branch_seen [] = True"
| "git_init_arguments directory_seen branch_seen (argument # rest) =
     (if argument \<in> set [''-q'', ''--quiet''] then git_init_arguments directory_seen branch_seen rest
      else if argument \<in> set [''-b'', ''--initial-branch''] \<and> \<not> branch_seen then
        (case rest of
           [] \<Rightarrow> False
         | branch # rest \<Rightarrow>
             branch \<noteq> [] \<and> \<not> starts_with branch ''-'' \<and> git_init_arguments directory_seen True rest)
      else if starts_with argument ''--initial-branch='' \<and> \<not> branch_seen then
        (let branch = trim_start_matches ''--initial-branch='' argument
         in branch \<noteq> [] \<and> \<not> starts_with branch ''-'' \<and> git_init_arguments directory_seen True rest)
      else if argument \<noteq> [] \<and> \<not> starts_with argument ''-'' \<and> \<not> directory_seen
      then git_init_arguments True branch_seen rest
      else False)"

definition classify_git_init :: "string list \<Rightarrow> nat \<Rightarrow> op_class" where
  "classify_git_init tokens subcommand_index =
     (if git_init_arguments False False (drop (subcommand_index + 1) tokens) then LocalWrite else Passthrough)"

definition literal_git_path :: "string \<Rightarrow> bool" where
  "literal_git_path path \<longleftrightarrow>
     path \<noteq> [] \<and> length path \<le> 4096
     \<and> \<not> starts_with path ''/'' \<and> \<not> starts_with path ''-'' \<and> \<not> starts_with path '':'' \<and> \<not> starts_with path ''~''
     \<and> BSLASH \<notin> set path
     \<and> path \<notin> set [''.'', ''..'', ''--'']
     \<and> list_all (\<lambda>component. component \<noteq> [] \<and> component \<notin> set [''.'', ''..'']) (split_on (\<lambda>c. c = CHR ''/'') path)
     \<and> \<not> list_ex (\<lambda>c. is_control c \<or> c \<in> set [CHR ''*'', CHR ''?'', CHR ''['', CHR '']'']) path"

definition classify_statewright_git_closeout :: "string \<Rightarrow> op_class" where
  "classify_statewright_git_closeout segment =
     (case simple_command_tokens segment of
        None \<Rightarrow> Passthrough
      | Some tokens \<Rightarrow>
          if length tokens < 5
             \<or> tokens ! 0 \<noteq> ''statewright-git-closeout'' \<or> tokens ! 1 \<noteq> ''--message''
             \<or> tokens ! 2 = [] \<or> length (tokens ! 2) > 160 \<or> list_ex is_control (tokens ! 2)
             \<or> tokens ! 3 \<noteq> ''--'' \<or> length tokens > 36
             \<or> \<not> list_all literal_git_path (drop 4 tokens)
          then LocalWrite else GitLocalWrite)"

definition classify_git_worktree :: "string list \<Rightarrow> nat \<Rightarrow> op_class" where
  "classify_git_worktree tokens index =
     (case drop (index + 1) tokens of
        [] \<Rightarrow> GitRead
      | a # _ \<Rightarrow>
          if a = ''list'' then GitRead
          else if a \<in> set [''add'', ''lock'', ''move'', ''repair'', ''unlock''] then LocalWrite
          else if a \<in> set [''prune'', ''remove''] then Destructive
          else Passthrough)"

definition ref_mutation_flag :: "string \<Rightarrow> bool" where
  "ref_mutation_flag token \<longleftrightarrow>
     token \<in> set [''-d'', ''-D'', ''-m'', ''-M'', ''-c'', ''-C'', ''--delete'', ''--move'', ''--copy'', ''--edit-description'',
        ''--set-upstream-to'', ''--unset-upstream'', ''--create-reflog'', ''--track'', ''--no-track'',
        ''--recurse-submodules'']
     \<or> starts_with token ''--set-upstream-to='' \<or> starts_with token ''--track=''"

definition ref_display_flag :: "string \<Rightarrow> bool" where
  "ref_display_flag token \<longleftrightarrow>
     token \<in> set [''-a'', ''--all'', ''-r'', ''--remotes'', ''-v'', ''-vv'', ''--verbose'', ''--no-color'', ''--no-column'']
     \<or> starts_with token ''--color='' \<or> starts_with token ''--sort='' \<or> starts_with token ''--format=''"

definition git_ref_listing_only :: "string list \<Rightarrow> nat \<Rightarrow> op_class" where
  "git_ref_listing_only tokens index =
     (let args = drop (index + 1) tokens
      in if list_ex ref_mutation_flag args then GitWrite
         else if args = [] \<or> list_ex (\<lambda>token. token \<in> set [''-l'', ''--list'', ''--show-current'']) args
                 \<or> list_all ref_display_flag args
         then GitRead else GitWrite)"

definition classify_git :: "string list \<Rightarrow> op_class" where
  "classify_git tokens =
     (case git_subcommand_index tokens 1 of
        None \<Rightarrow> Passthrough
      | Some subcommand_index \<Rightarrow>
          (let subcmd = tokens ! subcommand_index
           in if subcmd \<in> set [''log'', ''status'', ''diff'', ''blame'', ''show'', ''reflog'', ''rev-parse'', ''ls-files'',
                    ''ls-tree'', ''merge-base'', ''show-ref''] then GitRead
              else if subcmd \<in> set [''branch'', ''tag''] then git_ref_listing_only tokens subcommand_index
              else if subcmd = ''stash'' then
                (if list_ex (\<lambda>token. token \<in> set [''list'', ''show'']) tokens then GitRead else GitWrite)
              else if subcmd = ''worktree'' then classify_git_worktree tokens subcommand_index
              else if subcmd = ''init'' then classify_git_init tokens subcommand_index
              else if subcmd \<in> set [''commit'', ''push'', ''reset'', ''rebase'', ''merge'', ''cherry-pick'', ''revert'', ''am'']
              then GitWrite
              else if subcmd \<in> set [''checkout'', ''restore'', ''switch''] then
                (if ''--'' \<in> set tokens then GitWrite else GitRead)
              else if subcmd = ''clean'' then Destructive
              else if subcmd \<in> set [''clone'', ''fetch'', ''pull''] then Network
              else Passthrough))"

section \<open>Read-only forms of utilities\<close>

definition find_has_action :: "string list \<Rightarrow> bool" where
  "find_has_action args =
     list_ex (\<lambda>token. token \<in> set [''-delete'', ''-exec'', ''-execdir'', ''-ok'', ''-okdir'', ''-fls'', ''-fprint'',
        ''-fprint0'', ''-fprintf'']) args"

definition fd_has_execution :: "string list \<Rightarrow> bool" where
  "fd_has_execution args =
     list_ex (\<lambda>token. token \<in> set [''-x'', ''-X'']
        \<or> (starts_with token ''-'' \<and> \<not> starts_with token ''--'' \<and> list_ex (\<lambda>flag. flag \<in> set ''xX'') (drop 1 token))
        \<or> token = ''--exec'' \<or> starts_with token ''--exec=''
        \<or> token = ''--exec-batch'' \<or> starts_with token ''--exec-batch='') args"

fun sed_in_place :: "bool \<Rightarrow> string list \<Rightarrow> bool" where
  "sed_in_place end_of_options [] = False"
| "sed_in_place end_of_options (a # as) =
     (if a = ''--'' then sed_in_place True as
      else \<not> end_of_options
           \<and> (a = ''--in-place'' \<or> starts_with a ''--in-place=''
              \<or> (starts_with a ''-'' \<and> \<not> starts_with a ''--'' \<and> CHR ''i'' \<in> set (drop 1 a)))
           \<or> sed_in_place end_of_options as)"

definition sed_has_in_place :: "string list \<Rightarrow> bool" where
  "sed_has_in_place args = sed_in_place False args"

definition sed_address :: "string \<Rightarrow> bool" where
  "sed_address a \<longleftrightarrow> a = ''$'' \<or> (a \<noteq> [] \<and> list_all is_ascii_digit a)"

definition readonly_sed_single_print_program :: "string \<Rightarrow> bool" where
  "readonly_sed_single_print_program program =
     (case strip_suffix program ''p'' of
        None \<Rightarrow> False
      | Some addresses \<Rightarrow>
          if addresses = [] then False
          else case split_on (\<lambda>c. c = CHR '','') addresses of
            [a] \<Rightarrow> sed_address a
          | [a, b] \<Rightarrow> sed_address a \<and> sed_address b
          | _ \<Rightarrow> False)"

definition readonly_sed_print_program :: "string \<Rightarrow> bool" where
  "readonly_sed_print_program program =
     (let commands = split_on (\<lambda>c. c = CHR '';'') program
      in readonly_sed_single_print_program (hd commands)
         \<and> list_all readonly_sed_single_print_program (take 15 (tl commands))
         \<and> length commands \<le> 16)"

definition readonly_sed_args :: "string list \<Rightarrow> bool" where
  "readonly_sed_args args =
     (case args of
        [] \<Rightarrow> False
      | quiet # rest \<Rightarrow>
          if quiet \<notin> set [''-n'', ''--quiet'', ''--silent''] then False
          else let explicit_program_flag = (rest \<noteq> [] \<and> hd rest = ''-e'');
                   rest = (if explicit_program_flag then tl rest else rest)
               in (case rest of
                     [] \<Rightarrow> False
                   | program # rest \<Rightarrow>
                       if \<not> readonly_sed_print_program program then False
                       else let has_end_of_options = (rest \<noteq> [] \<and> hd rest = ''--'');
                                operands = (if has_end_of_options then tl rest else rest)
                            in (operands = [] \<and> \<not> explicit_program_flag)
                               \<or> (operands \<noteq> [] \<and> list_all (\<lambda>operand. operand \<noteq> []
                                    \<and> (has_end_of_options \<or> operand = ''-'' \<or> \<not> starts_with operand ''-'')) operands)))"

definition readonly_checksum_args :: "string \<Rightarrow> string list \<Rightarrow> bool" where
  "readonly_checksum_args executable args =
     (if executable = ''shasum'' \<and> (length args < 3 \<or> args ! 0 \<noteq> ''-a'' \<or> args ! 1 \<noteq> ''256'') then False
      else let args = (if executable = ''shasum'' then drop 2 args else args);
               args = (if args \<noteq> [] \<and> hd args = ''--'' then tl args else args)
           in args \<noteq> []
              \<and> list_all (\<lambda>arg. arg \<noteq> [] \<and> (is_ascii_alphanumeric (hd arg) \<or> hd arg \<in> set ''_./'')
                   \<and> list_all (\<lambda>c. is_ascii_alphanumeric c \<or> c \<in> set ''_./:@%+=, -'') arg) args)"

definition is_shell_identifier :: "string \<Rightarrow> bool" where
  "is_shell_identifier v =
     (case v of
        [] \<Rightarrow> False
      | c # cs \<Rightarrow> (c = CHR ''_'' \<or> is_ascii_alphabetic c)
                   \<and> list_all (\<lambda>d. d = CHR ''_'' \<or> is_ascii_alphanumeric d) cs)"

definition test_unary_operators :: "string list" where
  "test_unary_operators = [''-b'', ''-c'', ''-d'', ''-e'', ''-f'', ''-h'', ''-L'', ''-n'', ''-p'', ''-r'', ''-S'', ''-s'', ''-t'',
     ''-v'', ''-w'', ''-x'', ''-z'']"

definition test_binary_operators :: "string list" where
  "test_binary_operators = [''='', ''=='', ''!='', ''-ef'', ''-eq'', ''-ge'', ''-gt'', ''-le'', ''-lt'', ''-ne'', ''-nt'', ''-ot'']"

definition readonly_test_predicate :: "string list \<Rightarrow> bool" where
  "readonly_test_predicate args0 =
     (let args = (if args0 \<noteq> [] \<and> hd args0 = ''!'' then tl args0 else args0)
      in case args of
           [v] \<Rightarrow> v \<noteq> []
         | [operator, operand] \<Rightarrow>
             operator \<in> set test_unary_operators \<and> (operator \<noteq> ''-v'' \<or> is_shell_identifier operand)
         | [_, operator, _] \<Rightarrow> operator \<in> set test_binary_operators
         | _ \<Rightarrow> False)"

definition safe_printf_format :: "string \<Rightarrow> bool" where
  "safe_printf_format a \<longleftrightarrow> \<not> starts_with a ''-v'' \<and> CHR ''%'' \<notin> set a"

definition readonly_passthrough_capability :: "string \<Rightarrow> string option" where
  "readonly_passthrough_capability segment =
     (case simple_command_tokens segment of
        None \<Rightarrow> None
      | Some [] \<Rightarrow> None
      | Some (invoked # args) \<Rightarrow>
          if invoked = ''echo'' then Some ''Read''
          else if invoked = ''printf'' \<and> length args = 1 \<and> safe_printf_format (hd args) then Some ''Read''
          else if invoked = ''sort'' \<and> args = [] then Some ''Read''
          else if invoked = ''test'' \<and> readonly_test_predicate args then Some ''Read''
          else if invoked = ''['' \<and> last (invoked # args) = '']'' \<and> readonly_test_predicate (butlast args)
          then Some ''Read''
          else let executable = rsplit_next (CHR ''/'') invoked
               in if executable \<in> set [''sha256sum'', ''shasum''] \<and> readonly_checksum_args executable args then Some ''Read''
                  else if executable \<in> set [''ls'', ''pwd'', ''stat'', ''file'', ''wc'', ''du'', ''dirname'', ''basename'',
                            ''realpath'', ''jq'', ''cut'', ''tr'', ''which'', ''true'', ''false''] then Some ''Read''
                  else if executable = ''command'' \<and> args \<noteq> [] \<and> hd args = ''-v'' then Some ''Read''
                  else None)"

definition safe_output_command :: "invocation \<Rightarrow> string \<Rightarrow> bool" where
  "safe_output_command inv0 invoked =
     (if li_executable inv0 \<noteq> invoked \<or> invoked \<notin> set [''echo'', ''printf''] then False
      else if invoked = ''echo'' then True
      else length (li_args inv0) = 1 \<and> safe_printf_format (hd (li_args inv0)))"

definition classify_tmux :: "invocation \<Rightarrow> op_class" where
  "classify_tmux inv0 =
     (if rsplit_next (CHR ''/'') (li_executable inv0) \<noteq> ''tmux'' then Passthrough
      else case li_args inv0 of
        [] \<Rightarrow> Passthrough
      | operation # args \<Rightarrow>
          (let has_shell_format = list_ex (\<lambda>a. str_contains a ''#('') args
           in if operation = ''capture-pane'' \<and> ''-p'' \<in> set args
                 \<and> \<not> list_ex (\<lambda>a. a = ''-b'' \<or> starts_with a ''-b='') args \<and> \<not> has_shell_format then FileRead
              else if operation = ''display-message'' \<and> ''-p'' \<in> set args \<and> \<not> has_shell_format then FileRead
              else if operation \<in> set [''has-session'', ''list-panes'', ''list-sessions'', ''show-options'']
                      \<and> \<not> has_shell_format then FileRead
              else if operation \<in> set [''capture-pane'', ''display-message''] then LocalWrite
              else if operation \<in> set [''kill-pane'', ''kill-session''] then Destructive
              else Passthrough))"

definition is_bounded_tmux_goal_dispatch :: "string \<Rightarrow> bool" where
  "is_bounded_tmux_goal_dispatch command =
     (if length command > 4096 \<or> list_ex is_control command then False
      else case simple_command_tokens (trim command) of
        Some [executable, operation, target_flag, tgt, goal, submit] \<Rightarrow>
          rsplit_next (CHR ''/'') executable = ''tmux'' \<and> operation = ''send-keys'' \<and> target_flag = ''-t''
          \<and> is_some_and (\<lambda>pane. pane \<noteq> [] \<and> list_all is_ascii_digit pane) (strip_prefix tgt ''%'')
          \<and> is_some_and (\<lambda>body. trim body \<noteq> []) (strip_prefix goal ''/goal '')
          \<and> submit \<in> set [''Enter'', ''C-m'']
      | _ \<Rightarrow> False)"

definition readonly_search_has_external_hook :: "string \<Rightarrow> bool" where
  "readonly_search_has_external_hook segment =
     (case simple_command_tokens segment of
        None \<Rightarrow> True
      | Some [] \<Rightarrow> True
      | Some (t # ts) \<Rightarrow>
          rsplit_next (CHR ''/'') t \<in> set [''rg'', ''ripgrep'']
          \<and> list_ex (\<lambda>a. a = ''--pre'' \<or> starts_with a ''--pre='') ts)"

section \<open>Segments\<close>

definition trusted_executable_spelling :: "string \<Rightarrow> string \<Rightarrow> bool" where
  "trusted_executable_spelling invoked base =
     (if invoked = base \<or> invoked = ''node_modules/.bin/vitest'' \<or> invoked = ''/bin/'' @ base
         \<or> invoked = ''/usr/bin/'' @ base \<or> invoked = ''/usr/sbin/'' @ base then True
      else if base = ''node'' \<and> invoked = ''/opt/toolchains/bin/node'' then True
      else base = ''cargo'' \<and> starts_with invoked ''/'' \<and> ends_with invoked ''/.cargo/bin/cargo''
           \<and> ''..'' \<notin> set (split_on (\<lambda>c. c = CHR ''/'') invoked))"

definition destructive_utilities :: "string list" where
  "destructive_utilities = [''rm'', ''rmdir'', ''shred'', ''truncate'', ''unlink'']"

definition network_utilities :: "string list" where
  "network_utilities = [''curl'', ''wget'', ''nc'', ''ncat'', ''netcat'', ''ssh'', ''scp'', ''sftp'']"

definition writing_utilities :: "string list" where
  "writing_utilities = [''tee'', ''cp'', ''mv'', ''install'', ''rsync'', ''dd'']"

text \<open>The conservative reading of a segment that the literal parser refused.\<close>

definition classify_nonliteral_segment :: "string \<Rightarrow> op_class" where
  "classify_nonliteral_segment segment =
     (case git_command_tokens segment of
        None \<Rightarrow>
          (case find (\<lambda>token. CHR ''='' \<notin> set token \<or> starts_with token ''-'') (split_whitespace segment) of
             None \<Rightarrow> Opaque
           | Some invoked \<Rightarrow>
               (let base = rsplit_next (CHR ''/'') invoked
                in if base \<in> set destructive_utilities then Destructive
                   else if base \<in> set network_utilities then Network
                   else if base \<in> set writing_utilities then FileWrite
                   else if base = ''patch'' then FileModify
                   else Opaque))
      | Some tokens \<Rightarrow>
          (let assignments = takeWhile (\<lambda>token. literal_assignment token \<noteq> None) tokens
           in case drop (length assignments) tokens of
                [] \<Rightarrow> Opaque
              | invoked # args \<Rightarrow>
                  if list_ex (\<lambda>token. is_some_and (\<lambda>(name, _). runtime_injection_environment name)
                       (literal_assignment token)) assignments then Opaque
                  else let base = rsplit_next (CHR ''/'') invoked; bare = (invoked = base)
                       in if base = ''echo'' \<and> bare then SafeOutput
                          else if base = ''printf'' \<and> bare \<and> length args = 1 \<and> safe_printf_format (hd args) then SafeOutput
                          else if base \<in> set [''cat'', ''head'', ''tail'', ''nl''] \<and> bare then FileRead
                          else if base \<in> set [''grep'', ''rg'', ''ag'', ''ack'', ''ripgrep''] \<and> bare then ContentSearch
                          else if base = ''find'' \<and> bare \<and> find_has_action args then Destructive
                          else if base = ''fd'' \<and> bare \<and> fd_has_execution args then Destructive
                          else if base = ''sed'' \<and> bare \<and> sed_has_in_place args then FileModify
                          else if base = ''patch'' \<and> bare then FileModify
                          else if base \<in> set writing_utilities \<and> bare then FileWrite
                          else if base = ''mkdir'' \<and> bare then LocalWrite
                          else if base \<in> set destructive_utilities then Destructive
                          else if base \<in> set network_utilities then Network
                          else if base = ''git'' \<and> invoked = ''git'' then classify_git tokens
                          else if base \<in> set [''node'', ''cargo'', ''rustc'', ''npm'', ''pnpm'', ''pytest'', ''vitest'', ''vite'']
                          then Passthrough
                          else Opaque))"

text \<open>
  \<open>command -v NAME\<close> asks where a name resolves and does not run it.
\<close>

definition command_lookup :: "string \<Rightarrow> bool" where
  "command_lookup segment =
     is_some_and (\<lambda>tokens. length tokens \<ge> 3 \<and> tokens ! 0 = ''command'' \<and> tokens ! 1 = ''-v''
        \<and> list_all (\<lambda>name. name \<noteq> [] \<and> \<not> starts_with name ''-'') (drop 2 tokens)) (simple_command_tokens segment)"

text \<open>
  The match on the command name. The result \<open>Inl\<close> is the early return of the Git branch, which skips the
  checks on the spelling and the environment that follow the match.
\<close>

definition classify_invocation :: "string \<Rightarrow> invocation \<Rightarrow> op_class + op_class" where
  "classify_invocation segment inv0 =
     (let invoked = li_executable inv0; tokens = invoked # li_args inv0; args = li_args inv0;
          base_cmd = rsplit_next (CHR ''/'') invoked
      in if base_cmd \<in> set [''echo'', ''printf''] \<and> safe_output_command inv0 invoked then Inr SafeOutput
         else if base_cmd \<in> set [''cat'', ''head'', ''tail'', ''nl''] then Inr FileRead
         else if base_cmd \<in> set [''grep'', ''rg'', ''ag'', ''ack'', ''ripgrep''] then Inr ContentSearch
         else if base_cmd = ''find'' then Inr (if find_has_action args then Destructive else FileSearch)
         else if base_cmd = ''fd'' then Inr (if fd_has_execution args then Destructive else FileSearch)
         else if base_cmd \<in> set [''locate'', ''mdfind''] then Inr FileSearch
         else if base_cmd = ''sed'' then
           Inr (if sed_has_in_place args then FileModify else if readonly_sed_args args then FileRead else Passthrough)
         else if base_cmd \<in> set [''awk'', ''gawk''] then
           Inr (if ''-i'' \<in> set tokens \<and> ''inplace'' \<in> set tokens then FileModify else Passthrough)
         else if base_cmd = ''perl'' then
           Inr (if list_ex (\<lambda>t. t \<in> set [''-pi'', ''-p'', ''-i'']) tokens then FileModify else Passthrough)
         else if base_cmd = ''patch'' then Inr FileModify
         else if base_cmd \<in> set writing_utilities then Inr FileWrite
         else if base_cmd = ''mkdir'' then Inr LocalWrite
         else if base_cmd \<in> set destructive_utilities then Inr Destructive
         else if base_cmd \<in> set network_utilities then Inr Network
         else if base_cmd = ''git'' \<and> invoked = ''git'' then
           (let conservative = classify_git tokens
            in case git_command_tokens segment of
                 None \<Rightarrow> Inl (if conservative \<in> set [Destructive, Network, GitWrite] then conservative else Opaque)
               | Some parsed \<Rightarrow> Inr (classify_git parsed))
         else if base_cmd = ''git'' then Inr Passthrough
         else if base_cmd = ''statewright-git-closeout'' \<and> invoked = ''statewright-git-closeout''
         then Inr (classify_statewright_git_closeout segment)
         else if base_cmd \<in> set [''node'', ''cargo'', ''rustc'', ''npm'', ''pnpm'', ''pytest''] \<and> invoked = base_cmd
                 \<and> li_environment_names inv0 = [] \<and> bounded_version_probe inv0 base_cmd then Inr SafeOutput
         else if base_cmd \<in> set [''cargo'', ''rustfmt''] \<and> rust_format_effect inv0 base_cmd \<noteq> None
         then Inr (the (rust_format_effect inv0 base_cmd))
         else if local_execution_intent inv0 base_cmd \<noteq> None then Inr BoundedLocalExecution
         else if base_cmd = ''tmux'' then Inr (classify_tmux inv0)
         else Inr Passthrough)"

definition settle_class :: "invocation \<Rightarrow> op_class \<Rightarrow> op_class" where
  "settle_class inv0 class0 =
     (let invoked = li_executable inv0;
          cls = (if trusted_executable_spelling invoked (rsplit_next (CHR ''/'') invoked)
                    \<or> class0 \<in> set [Destructive, Network, GitWrite] then class0 else Opaque)
      in if li_environment_names inv0 \<noteq> [] \<and> cls \<noteq> BoundedLocalExecution then Opaque else cls)"

definition classify_segment :: "string \<Rightarrow> op_class" where
  "classify_segment segment =
     (if command_lookup segment then SafeOutput
      else case literal_invocation segment of
        None \<Rightarrow> classify_nonliteral_segment segment
      | Some inv0 \<Rightarrow>
          (case classify_invocation segment inv0 of
             Inl cls \<Rightarrow> cls
           | Inr cls \<Rightarrow> settle_class inv0 cls))"

section \<open>Command lines\<close>

definition leaf_classes :: "string \<Rightarrow> op_class list" where
  "leaf_classes command = map classify_segment (filter (\<lambda>seg. seg \<noteq> []) (map trim (split_segments command)))"

text \<open>\<open>if !classes.contains(&class) { classes.push(class) }\<close>\<close>

definition add_class :: "op_class \<Rightarrow> op_class list \<Rightarrow> op_class list" where
  "add_class c classes = (if c \<in> set classes then classes else classes @ [c])"

definition classify :: "string \<Rightarrow> op_class list" where
  "classify command =
     (let classes = leaf_classes command;
          classes = (if has_nested_shell_execution command then add_class Opaque classes else classes);
          classes = (if length (split_segments command) = 1 \<and> is_bounded_tmux_goal_dispatch command
                     then filter (\<lambda>c. c \<noteq> Passthrough) classes @ [LocalWrite] else classes);
          classes = (if has_output_redirect command then add_class FileWrite classes else classes);
          classes = (if classes = [] then [Passthrough] else classes)
      in remdups_adj (sort classes))"

fun required_tools :: "op_class \<Rightarrow> string list" where
  "required_tools FileWrite = [''Write'']"
| "required_tools FileModify = [''Write'']"
| "required_tools LocalWrite = [''Write'']"
| "required_tools BoundedLocalExecution = [''BoundedLocalExecution'']"
| "required_tools GitLocalWrite = [''GitLocalWrite'']"
| "required_tools FileRead = [''Read'']"
| "required_tools ContentSearch = [''Read'', ''Grep'']"
| "required_tools FileSearch = [''Read'', ''Glob'']"
| "required_tools Destructive = [''__DESTRUCTIVE__'']"
| "required_tools Network = [''WebFetch'']"
| "required_tools GitWrite = [''__GIT_WRITE__'']"
| "required_tools GitRead = [''Read'']"
| "required_tools SafeOutput = []"
| "required_tools Opaque = []"
| "required_tools Passthrough = []"

definition truncate_command :: "string \<Rightarrow> string" where
  "truncate_command cmd = (if length cmd > 60 then take 57 cmd @ ''...'' else cmd)"

fun check_classes :: "string \<Rightarrow> string list \<Rightarrow> op_class list \<Rightarrow> (unit, string) result" where
  "check_classes command allowed_tools [] = Ok ()"
| "check_classes command allowed_tools (cls # rest) =
     (let required = required_tools cls
      in if required = [] then check_classes command allowed_tools rest
         else if list_ex (\<lambda>r. starts_with r ''__'') required then
           Err (''Command '' @ [SQ] @ truncate_command command @ [SQ] @ '' performs a '' @ show_op_class cls @
                '' operation which is not permitted in this state.'')
         else if \<not> list_ex (\<lambda>req. list_ex (\<lambda>allowed. eq_ignore_ascii_case allowed req) allowed_tools) required then
           Err (''Command '' @ [SQ] @ truncate_command command @ [SQ] @ '' performs a '' @ show_op_class cls @
                '' operation which requires '' @ join '' or '' required @ '' in allowed_tools.'')
         else check_classes command allowed_tools rest)"

definition check_against_allowed :: "string \<Rightarrow> string list \<Rightarrow> (unit, string) result" where
  "check_against_allowed command allowed_tools = check_classes command allowed_tools (classify command)"

section \<open>Read-only commands\<close>

definition unsafe_git_flag :: "string \<Rightarrow> bool" where
  "unsafe_git_flag a \<longleftrightarrow>
     a \<in> set [''-c'', ''--config-env'', ''--exec-path'', ''--ext-diff'', ''--no-index'', ''--output'', ''-o'', ''--textconv'']
     \<or> starts_with a ''-c'' \<or> starts_with a ''--config-env='' \<or> starts_with a ''--exec-path='' \<or> starts_with a ''--output=''"

definition readonly_git_capability :: "string list \<Rightarrow> string option" where
  "readonly_git_capability tokens =
     (case tokens of
        [] \<Rightarrow> None
      | _ # args \<Rightarrow>
          (case git_subcommand_index args 0 of
             None \<Rightarrow> None
           | Some subcommand_index \<Rightarrow>
               (let subcommand = args ! subcommand_index;
                    command_args = drop (subcommand_index + 1) args
                in if list_ex unsafe_git_flag args then None
                   else let no_pager = ''--no-pager'' \<in> set (take subcommand_index args)
                   in if subcommand \<in> set [''rev-parse'', ''ls-files'', ''ls-tree'', ''merge-base'', ''show-ref'', ''status'']
                      then Some ''Read''
                      else if subcommand = ''branch'' \<and> classify_git tokens = GitRead then Some ''Read''
                      else if subcommand = ''diff'' \<and> no_pager then
                        (let options = takeWhile (\<lambda>a. a \<noteq> ''--'') command_args
                         in if ''--no-ext-diff'' \<in> set options \<and> ''--no-textconv'' \<in> set options
                               \<and> list_all (\<lambda>a. a \<in> set [''--no-ext-diff'', ''--no-textconv'']) options
                            then Some ''Read'' else None)
                      else if subcommand \<in> set [''branch'', ''tag''] \<and> no_pager then
                        (let before_boundary = takeWhile (\<lambda>a. a \<noteq> ''--'') command_args;
                             has_boundary = (length before_boundary < length command_args);
                             after_boundary = drop (length before_boundary + 1) command_args
                         in if command_args = [] then Some ''Read''
                            else if before_boundary \<noteq> [] \<and> hd before_boundary \<in> set [''--list'', ''-l'']
                                    \<and> list_all (\<lambda>a. \<not> starts_with a ''-'' \<and> a \<noteq> []) (tl before_boundary)
                                    \<and> (\<not> has_boundary \<or> list_all (\<lambda>a. a \<noteq> []) after_boundary)
                            then Some ''Read'' else None)
                      else None)))"

definition segment_capability :: "string \<Rightarrow> string option" where
  "segment_capability segment =
     (case simple_command_tokens segment of
        None \<Rightarrow> None
      | Some [] \<Rightarrow> None
      | Some (first # rest) \<Rightarrow>
          (let base = rsplit_next (CHR ''/'') first
           in if CHR ''='' \<in> set first then None
              else if readonly_search_has_external_hook segment then None
              else if base = ''sed'' \<and> first \<noteq> ''sed'' then None
              else if base = ''nl'' \<and> first \<noteq> ''nl'' then None
              else if base = ''git'' then
                (if first \<noteq> ''git'' then None else readonly_git_capability (first # rest))
              else case classify_segment segment of
                FileRead \<Rightarrow> Some ''Read''
              | GitRead \<Rightarrow> Some ''Read''
              | ContentSearch \<Rightarrow> Some ''Grep''
              | FileSearch \<Rightarrow> Some ''Glob''
              | SafeOutput \<Rightarrow> Some ''Read''
              | Passthrough \<Rightarrow> readonly_passthrough_capability segment
              | _ \<Rightarrow> None))"

fun segment_capabilities :: "string list \<Rightarrow> string list option" where
  "segment_capabilities [] = Some []"
| "segment_capabilities (s # ss) =
     (case segment_capability (trim s) of
        None \<Rightarrow> None
      | Some c \<Rightarrow> map_option (\<lambda>cs. c # cs) (segment_capabilities ss))"

definition readonly_capabilities :: "string \<Rightarrow> string list option" where
  "readonly_capabilities command0 =
     (if trim command0 = [] \<or> list_ex (\<lambda>c. c \<in> set [NEWLINE, RETURN, BTICK]) command0
         \<or> str_contains command0 ''$('' then None
      else case strip_readonly_stderr_sink command0 of
        None \<Rightarrow> None
      | Some command \<Rightarrow>
          (case segment_capabilities (split_segments command) of
             None \<Rightarrow> None
           | Some capabilities \<Rightarrow>
               (let capabilities = remdups_adj (sort capabilities)
                in if capabilities \<noteq> [] then Some capabilities else None)))"

section \<open>Allowed command prefixes\<close>

definition matches_allowed_command :: "string \<Rightarrow> string \<Rightarrow> bool" where
  "matches_allowed_command command allowed =
     (case (simple_command_tokens command, simple_command_tokens allowed) of
        (Some command_tokens, Some allowed_tokens) \<Rightarrow>
          if allowed_tokens \<noteq> [] \<and> hd allowed_tokens = ''task'' \<and> ends_with (last allowed_tokens) '':*'' then
            (if length command_tokens < length allowed_tokens then False
             else let namespace_index = length allowed_tokens - 1
             in if take namespace_index command_tokens \<noteq> take namespace_index allowed_tokens then False
             else let namespace = rev (dropWhile (\<lambda>c. c = CHR ''*'') (rev (allowed_tokens ! namespace_index)));
                      task_name = command_tokens ! namespace_index;
                      sfx = unwrap_or [] (strip_prefix task_name namespace)
                  in sfx \<noteq> [] \<and> list_all (\<lambda>c. is_ascii_alphanumeric c \<or> c \<in> set '':_-'') sfx)
          else allowed_tokens \<noteq> [] \<and> length command_tokens \<ge> length allowed_tokens
               \<and> take (length allowed_tokens) command_tokens = allowed_tokens
      | _ \<Rightarrow> False)"

section \<open>Command shapes for semantic assessment\<close>

definition semantic_label :: "string \<Rightarrow> bool" where
  "semantic_label v \<longleftrightarrow> v \<noteq> [] \<and> length v \<le> 64
     \<and> list_all (\<lambda>c. is_ascii_alphanumeric c \<or> c \<in> set ''_-'') v"

definition recognized_operations :: "string \<Rightarrow> string list" where
  "recognized_operations executable =
     (if executable = ''cargo'' then
        [''build'', ''check'', ''clippy'', ''doc'', ''fetch'', ''fix'', ''install'', ''metadata'', ''publish'', ''remove'', ''run'',
         ''test'', ''uninstall'', ''update'']
      else if executable \<in> set [''docker'', ''podman''] then
        [''build'', ''compose'', ''create'', ''exec'', ''images'', ''inspect'', ''logs'', ''ps'', ''pull'', ''push'', ''rm'', ''run'',
         ''start'', ''stop'']
      else if executable = ''git'' then
        [''add'', ''branch'', ''clean'', ''clone'', ''commit'', ''diff'', ''fetch'', ''init'', ''log'', ''ls-files'', ''ls-remote'',
         ''ls-tree'', ''merge-base'', ''pull'', ''push'', ''reset'', ''restore'', ''rev-parse'', ''show'', ''show-ref'', ''status'',
         ''tag'', ''worktree'']
      else if executable = ''kubectl'' then
        [''apply'', ''create'', ''delete'', ''describe'', ''exec'', ''get'', ''logs'', ''patch'', ''rollout'', ''scale'']
      else if executable \<in> set [''npm'', ''pnpm''] then
        [''build'', ''install'', ''lint'', ''publish'', ''run'', ''test'', ''uninstall'', ''update'']
      else if executable = ''systemctl'' then
        [''disable'', ''enable'', ''is-active'', ''restart'', ''start'', ''status'', ''stop'']
      else if executable = ''tmux'' then
        [''capture-pane'', ''display-message'', ''has-session'', ''kill-pane'', ''kill-session'', ''list-panes'', ''list-sessions'',
         ''new-session'', ''send-keys'', ''show-options'']
      else [])"

definition semantic_operation :: "string \<Rightarrow> string list \<Rightarrow> string option" where
  "semantic_operation executable tokens =
     (if executable = ''sed'' \<and> readonly_sed_args tokens then Some ''print''
      else case (if executable = ''git'' then git_subcommand_index tokens 0 else Some 0) of
        None \<Rightarrow> None
      | Some index \<Rightarrow>
          if index < length tokens then
            (let candidate = tokens ! index
             in if candidate \<in> set (recognized_operations executable) then Some (to_ascii_lowercase candidate) else None)
          else None)"

definition semantic_delegates_unknown_effect :: "string \<Rightarrow> string option \<Rightarrow> bool" where
  "semantic_delegates_unknown_effect executable operation =
     (if executable \<in> set [''task'', ''cargo'', ''docker'', ''podman'', ''kubectl'', ''npm'', ''pnpm''] then True
      else if executable \<in> set [''bash'', ''sh'', ''dash'', ''ksh'', ''zsh'', ''python'', ''python3'', ''node'', ''ruby'', ''perl'',
                ''eval'', ''xargs''] then True
      else if executable = ''tmux'' \<and> operation \<in> set [Some ''new-session'', Some ''send-keys''] then True
      else executable = ''git'' \<and> operation = Some ''add'')"

fun shapes_of :: "string list \<Rightarrow> semantic_command_shape list option" where
  "shapes_of [] = Some []"
| "shapes_of (segment # rest) =
     (case literal_invocation (trim segment) of
        None \<Rightarrow> None
      | Some inv0 \<Rightarrow>
          (let executable = to_ascii_lowercase (rsplit_next (CHR ''/'') (li_executable inv0))
           in if \<not> semantic_label executable then None
              else let operation = semantic_operation executable (li_args inv0)
                   in map_option (\<lambda>shapes.
                        \<lparr>sc_executable = executable, sc_operation = operation,
                         sc_delegates_unknown_effect = semantic_delegates_unknown_effect executable operation\<rparr> # shapes)
                        (shapes_of rest)))"

definition semantic_command_shapes :: "string \<Rightarrow> semantic_command_shape list option" where
  "semantic_command_shapes command =
     (case shapes_of (take 8 (split_segments command)) of
        None \<Rightarrow> None
      | Some shapes \<Rightarrow> if shapes \<noteq> [] then Some shapes else None)"

section \<open>Command lines and their segments\<close>

lemma set_add_class [simp]: "set (add_class c classes) = insert c (set classes)"
  by (auto simp: add_class_def)

definition dispatches_goal :: "string \<Rightarrow> bool" where
  "dispatches_goal command \<longleftrightarrow> length (split_segments command) = 1 \<and> is_bounded_tmux_goal_dispatch command"

text \<open>The classes of a command line as a set.\<close>

lemma set_classify:
  "set (classify command) =
     (let found = set (leaf_classes command) \<union> (if has_nested_shell_execution command then {Opaque} else {});
          found = (if dispatches_goal command then found - {Passthrough} \<union> {LocalWrite} else found);
          found = found \<union> (if has_output_redirect command then {FileWrite} else {})
      in if found = {} then {Passthrough} else found)"
proof -
  define a where "a = (if has_nested_shell_execution command then add_class Opaque (leaf_classes command)
    else leaf_classes command)"
  define b where "b = (if dispatches_goal command then filter (\<lambda>c. c \<noteq> Passthrough) a @ [LocalWrite] else a)"
  define c where "c = (if has_output_redirect command then add_class FileWrite b else b)"
  have "classify command = remdups_adj (sort (if c = [] then [Passthrough] else c))"
    by (simp only: classify_def Let_def dispatches_goal_def a_def b_def c_def)
  then have 1: "set (classify command) = (if set c = {} then {Passthrough} else set c)" by simp
  have 2: "set c = set b \<union> (if has_output_redirect command then {FileWrite} else {})" by (simp add: c_def)
  have 3: "set b = (if dispatches_goal command then set a - {Passthrough} \<union> {LocalWrite} else set a)"
    by (auto simp: b_def)
  have 4: "set a = set (leaf_classes command) \<union> (if has_nested_shell_execution command then {Opaque} else {})"
    by (simp add: a_def)
  show ?thesis unfolding 1 2 3 4 Let_def by simp
qed

lemma classify_leaf:
  assumes "seg \<in> set (split_segments command)" "trim seg \<noteq> []" "classify_segment (trim seg) \<noteq> Passthrough"
  shows "classify_segment (trim seg) \<in> set (classify command)"
proof -
  have "classify_segment (trim seg) \<in> set (leaf_classes command)" using assms by (auto simp: leaf_classes_def)
  then show ?thesis using assms(3) by (auto simp: set_classify Let_def)
qed

lemma classify_redirect: "has_output_redirect command \<Longrightarrow> FileWrite \<in> set (classify command)"
  by (auto simp: set_classify Let_def)

definition class_permitted :: "string list \<Rightarrow> op_class \<Rightarrow> bool" where
  "class_permitted allowed_tools cls \<longleftrightarrow>
     (case cls of
        Destructive \<Rightarrow> False
      | GitWrite \<Rightarrow> False
      | _ \<Rightarrow> required_tools cls = [] \<or>
          (\<exists>r \<in> set (required_tools cls). \<exists>a \<in> set allowed_tools. eq_ignore_ascii_case a r))"

lemma class_permitted_alt:
  "class_permitted allowed_tools cls \<longleftrightarrow>
     \<not> list_ex (\<lambda>r. starts_with r ''__'') (required_tools cls) \<and>
     (required_tools cls = [] \<or>
      list_ex (\<lambda>req. list_ex (\<lambda>allowed. eq_ignore_ascii_case allowed req) allowed_tools) (required_tools cls))"
  by (cases cls) (simp_all add: class_permitted_def starts_with_def list_ex_iff)

lemma check_classes_iff:
  "check_classes command allowed_tools classes = Ok () \<longleftrightarrow> list_all (class_permitted allowed_tools) classes"
  by (induction classes) (simp_all add: class_permitted_alt Let_def)

lemma class_permitted_write:
  "class_permitted allowed_tools FileWrite \<Longrightarrow> \<exists>a \<in> set allowed_tools. eq_ignore_ascii_case a ''Write''"
  by (simp add: class_permitted_def)

text \<open>
  A command is admitted exactly when every class of operation it performs is permitted: classes
  that change nothing always are, a destructive operation and a write to Git history never, every other one if one of
  the tools it requires is allowed (in any spelling of its letters).
\<close>

theorem check_against_allowed_iff:
  "check_against_allowed command allowed_tools = Ok () \<longleftrightarrow>
     list_all (class_permitted allowed_tools) (classify command)"
  unfolding check_against_allowed_def by (rule check_classes_iff)

text \<open>
  No part of a command line hides behind another. When one segment of the line is destructive or writes
  Git history, or needs a tool that is not allowed, the whole line is refused, whatever the other segments are; and a line with an
  output redirection that the scanner sees is refused unless Write is allowed.
\<close>

theorem no_segment_hides:
  assumes "check_against_allowed command allowed_tools = Ok ()"
  shows "list_all (\<lambda>seg. trim seg = [] \<or> class_permitted allowed_tools (classify_segment (trim seg)))
      (split_segments command) \<and>
    (has_output_redirect command \<longrightarrow> (\<exists>a \<in> set allowed_tools. eq_ignore_ascii_case a ''Write''))"
proof
  have all: "list_all (class_permitted allowed_tools) (classify command)"
    using assms check_classes_iff unfolding check_against_allowed_def by blast
  have "class_permitted allowed_tools (classify_segment (trim seg))"
    if "seg \<in> set (split_segments command)" "trim seg \<noteq> []" for seg
    using classify_leaf [OF that] all
    by (cases "classify_segment (trim seg) = Passthrough") (auto simp: list_all_iff class_permitted_def)
  then show "list_all (\<lambda>seg. trim seg = [] \<or> class_permitted allowed_tools (classify_segment (trim seg)))
      (split_segments command)" by (auto simp: list_all_iff)
  show "has_output_redirect command \<longrightarrow> (\<exists>a \<in> set allowed_tools. eq_ignore_ascii_case a ''Write'')"
    using classify_redirect [of command] all class_permitted_write by (auto simp: list_all_iff)
qed

theorem no_segment_hides_witness:
  "check_against_allowed ''cat a | grep b > c'' [''read'', ''write''] = Ok () \<and>
   list_all (\<lambda>seg. trim seg = [] \<or> class_permitted [''read'', ''write''] (classify_segment (trim seg)))
     (split_segments ''cat a | grep b > c'')"
proof -
  have "check_against_allowed ''cat a | grep b > c'' [''read'', ''write''] = Ok ()" by code_simp
  with no_segment_hides [OF this] show ?thesis by blast
qed

section \<open>Read-only commands\<close>

definition read_classes :: "op_class list" where
  "read_classes = [FileRead, ContentSearch, FileSearch, GitRead, SafeOutput, Passthrough]"

lemma segment_capability_Some:
  assumes "segment_capability seg = Some cap"
  obtains first rest where "simple_command_tokens seg = Some (first # rest)" "cap \<in> {''Read'', ''Grep'', ''Glob''}"
    "first \<noteq> ''git'' \<longrightarrow> classify_segment seg \<in> set read_classes"
proof -
  obtain first rest where t: "simple_command_tokens seg = Some (first # rest)"
    using assms by (auto simp: segment_capability_def split: option.splits list.splits)
  have git: "readonly_git_capability ts = Some c \<Longrightarrow> c = ''Read''" for ts c
    by (auto simp: readonly_git_capability_def Let_def split: list.splits option.splits if_splits)
  have pass: "readonly_passthrough_capability s = Some c \<Longrightarrow> c = ''Read''" for s c
    by (auto simp: readonly_passthrough_capability_def Let_def split: list.splits option.splits if_splits)
  have "cap \<in> {''Read'', ''Grep'', ''Glob''}" "first \<noteq> ''git'' \<longrightarrow> classify_segment seg \<in> set read_classes"
    using assms t
    by (auto simp: segment_capability_def read_classes_def Let_def dest: git pass
        split: if_splits op_class.splits)
  with t that show ?thesis by blast
qed

lemma segment_capabilities_Some:
  "segment_capabilities segs = Some caps \<Longrightarrow>
   list_all (\<lambda>s. \<exists>cap. segment_capability (trim s) = Some cap) segs \<and>
   set caps \<subseteq> {''Read'', ''Grep'', ''Glob''}"
proof (induction segs arbitrary: caps)
  case (Cons s segs)
  then obtain cap cs where "segment_capability (trim s) = Some cap" "segment_capabilities segs = Some cs"
    "caps = cap # cs" by (auto split: option.splits)
  then show ?case using Cons.IH by (auto elim: segment_capability_Some)
qed simp

lemma readonly_capabilities_SomeD:
  assumes "readonly_capabilities command = Some caps"
  obtains c' caps' where "strip_readonly_stderr_sink command = Some c'"
    "segment_capabilities (split_segments c') = Some caps'" "caps = remdups_adj (sort caps')" "caps \<noteq> []"
    "set command \<inter> {NEWLINE, RETURN} = {}"
  using assms by (auto simp: readonly_capabilities_def Let_def list_ex_iff split: if_splits option.splits)



section \<open>Allowed command prefixes\<close>

text \<open>
  An allowed command cannot be extended into another one. A command that matches an entry of the allowed
  commands is one simple command: no separator, pipe, background mark, redirection, expansion, substitution or line
  break is active in it, and its words start with the words of the entry (for a namespace entry
  \<open>task ... name:*\<close>, with all of them but the last, which is matched as a prefix).
\<close>

theorem matches_allowed_command_simple:
  assumes "matches_allowed_command command allowed"
  shows "list_all (\<lambda>c. c \<notin> set shell_metacharacters) (active_chars (Unquoted, False) command) \<and>
    (\<exists>cs as. simple_command_tokens command = Some cs \<and> simple_command_tokens allowed = Some as \<and>
      as \<noteq> [] \<and> length as \<le> length cs \<and> take (length as - 1) cs = butlast as \<and>
      (cs ! (length as - 1) = last as \<or> hd as = ''task'' \<and> ends_with (last as) '':*''))"
proof -
  obtain cs as where t: "simple_command_tokens command = Some cs" "simple_command_tokens allowed = Some as"
    using assms by (auto simp: matches_allowed_command_def split: option.splits)
  have "as \<noteq> []" "length as \<le> length cs" using assms t
    by (auto simp: matches_allowed_command_def Let_def split: if_splits)
  moreover have "take (length as - 1) cs = butlast as \<and>
      (cs ! (length as - 1) = last as \<or> hd as = ''task'' \<and> ends_with (last as) '':*'')"
  proof (cases "hd as = ''task'' \<and> ends_with (last as) '':*''")
    case True
    then show ?thesis using assms t \<open>as \<noteq> []\<close>
      by (simp add: matches_allowed_command_def Let_def butlast_conv_take split: if_splits)
  next
    case False
    then have "take (length as) cs = as" using assms t \<open>as \<noteq> []\<close> by (auto simp: matches_allowed_command_def)
    then show ?thesis using \<open>as \<noteq> []\<close> \<open>length as \<le> length cs\<close>
      by (metis butlast_conv_take diff_less last_conv_nth length_greater_0_conv less_numeral_extra(1) min_diff
          nth_take take_take length_take min.absorb2 min.commute diff_le_self)
  qed
  moreover have "list_all (\<lambda>c. c \<notin> set shell_metacharacters) (active_chars (Unquoted, False) command)"
    using simple_tokens_active t(1) unfolding simple_command_tokens_def by blast
  ultimately show ?thesis using t by blast
qed

theorem matches_allowed_command_simple_witness:
  "matches_allowed_command ''cargo test -p engine'' ''cargo test'' \<and>
   list_all (\<lambda>c. c \<notin> set shell_metacharacters) (active_chars (Unquoted, False) ''cargo test -p engine'')"
proof -
  have m: "matches_allowed_command ''cargo test -p engine'' ''cargo test''" by code_simp
  from matches_allowed_command_simple [OF m] m show ?thesis by blast
qed

section \<open>Gaps of the redirection scanner\<close>

text \<open>
  The scanner for output redirections knows no escapes outside quotes, takes every word that ends in 2 for
  the number of the diagnostic stream, and the fallback for assignment-prefixed Git commands looks for the
  subcommand at the wrong word. So three lines that write the file \<open>f\<close> are classified as plain output and admitted where nothing but the
  shell itself is allowed, and a push to a remote behind an assignment and a redirection is admitted in a state that
  forbids it without the assignment.
\<close>

theorem redirect_scanner_gaps:
  "check_against_allowed (''echo '' @ [BSLASH, DQ] @ '' > f'') [''Bash''] = Ok () \<and>
   check_against_allowed ''echo hi2>f'' [''Bash''] = Ok () \<and>
   check_against_allowed (''echo '' @ [BSLASH, BSLASH] @ ''>f'') [''Bash''] = Ok () \<and>
   \<not> is_ok (check_against_allowed ''echo hi >f'' [''Bash'']) \<and>
   check_against_allowed ''A=1 git push >f'' [''Bash'', ''Write''] = Ok () \<and>
   \<not> is_ok (check_against_allowed ''git push >f'' [''Bash'', ''Write''])"
proof (intro conjI)
  show "check_against_allowed (''echo '' @ [BSLASH, DQ] @ '' > f'') [''Bash''] = Ok ()" by code_simp
  show "check_against_allowed ''echo hi2>f'' [''Bash''] = Ok ()" by code_simp
  show "check_against_allowed (''echo '' @ [BSLASH, BSLASH] @ ''>f'') [''Bash''] = Ok ()" by code_simp
  show "\<not> is_ok (check_against_allowed ''echo hi >f'' [''Bash''])" by code_simp
  show "check_against_allowed ''A=1 git push >f'' [''Bash'', ''Write''] = Ok ()" by code_simp
  show "\<not> is_ok (check_against_allowed ''git push >f'' [''Bash'', ''Write''])" by code_simp
qed

end
