(* ===== verification/ToolIntent.thy ===== *)
theory ToolIntent
  imports Json
begin

text \<open>
  The identity of native adapter tools (\<open>crates/mcp-gateway/src/tool_intent.rs\<close>) and the description of
  registered tools that the gateway keeps (\<open>ToolInfo\<close> and \<open>ToolAnnotations\<close> of \<open>crates/mcp-gateway/src/protocol.rs\<close>).
\<close>

datatype native_tool_family = FamRead | FamWrite | FamCommand | FamTest | FamFetch | FamSearch | FamAgent

fun policy_name :: "native_tool_family \<Rightarrow> string" where
  "policy_name FamRead = ''read''"
| "policy_name FamWrite = ''write''"
| "policy_name FamCommand = ''command''"
| "policy_name FamTest = ''test''"
| "policy_name FamFetch = ''fetch''"
| "policy_name FamSearch = ''search''"
| "policy_name FamAgent = ''agent''"

definition native_leaf_name :: "string \<Rightarrow> string" where
  "native_leaf_name name =
     unwrap_or name (or_else (strip_prefix name ''functions.'') (strip_prefix name ''functions::''))"

definition native_tool_family_of :: "string \<Rightarrow> native_tool_family option" where
  "native_tool_family_of name =
     (let leaf = to_ascii_lowercase (native_leaf_name name)
      in if leaf \<in> set [''read'', ''read_file'', ''grep'', ''search_files'', ''glob'', ''find'', ''find_files'', ''ls'',
             ''list_directory'', ''view_image'', ''toolsearch''] then Some FamRead
         else if leaf \<in> set [''edit'', ''edit_file'', ''apply_patch'', ''applypatch'', ''patch_file'', ''multiedit'', ''write'',
             ''write_file'', ''create_file'', ''create_or_update_file'', ''strreplace'', ''str_replace''] then Some FamWrite
         else if leaf \<in> set [''bash'', ''exec_command'', ''run_command'', ''shell'', ''terminal''] then Some FamCommand
         else if leaf = ''run_test'' then Some FamTest
         else if leaf \<in> set [''webfetch'', ''fetch'', ''http_request''] then Some FamFetch
         else if leaf \<in> set [''websearch'', ''web_search''] then Some FamSearch
         else if leaf \<in> set [''agent'', ''subagent''] then Some FamAgent
         else None)"

record tool_annotations =
  an_title :: "string option"
  an_read_only_hint :: "bool option"
  an_destructive_hint :: "bool option"
  an_idempotent_hint :: "bool option"
  an_open_world_hint :: "bool option"
  an_extra :: "json btree"

record tool_info =
  ti_name :: string
  ti_annotations :: "tool_annotations option"
  ti_description :: "string option"
  ti_input_schema :: json

definition default_annotations :: tool_annotations where
  "default_annotations = \<lparr>an_title = None, an_read_only_hint = None, an_destructive_hint = None,
     an_idempotent_hint = None, an_open_world_hint = None, an_extra = []\<rparr>"

definition read_only_annotations :: tool_annotations where
  "read_only_annotations = default_annotations\<lparr>an_read_only_hint := Some True, an_destructive_hint := Some False,
     an_open_world_hint := Some False\<rparr>"

end
