(* ===== verification/RiskAssessment.thy ===== *)
theory RiskAssessment
  imports BashClassifier ToolIntent
begin

text \<open>
  Risk and exposure of a tool call before it runs (\<open>crates/mcp-gateway/src/risk_assessment.rs\<close>): the deterministic
  assessment of shell commands and registered tools, the arbitration with the syntax-tree
  classifier, the floor the semantic assessor may raise, and the resolution of the effect that the
  enforcement layer authorises.

  Parameters: the syntax-tree classifier (\<open>shell_ast_shadow::assess\<close>, built on a third-party parser) and its mode, which
  the environment selects; the fingerprints (UUIDs); the semantic assessor. Every theorem holds for all of
  them. Probabilities are \<open>f32\<close> values, given by their rational value; a literal threshold is the \<open>f32\<close>
  nearest to its decimal.
\<close>

datatype risk_band = Low | Moderate | High | Critical

datatype exposure_band = LocalExposure | ExternalExposure | AccountExposure | UnknownExposure

fun show_risk :: "risk_band \<Rightarrow> string" where
  "show_risk Low = ''Low''"
| "show_risk Moderate = ''Moderate''"
| "show_risk High = ''High''"
| "show_risk Critical = ''Critical''"

fun show_exposure :: "exposure_band \<Rightarrow> string" where
  "show_exposure LocalExposure = ''Local''"
| "show_exposure ExternalExposure = ''External''"
| "show_exposure AccountExposure = ''Account''"
| "show_exposure UnknownExposure = ''Unknown''"

type_synonym probability = rat

definition new_probability :: "rat \<Rightarrow> (probability, string) result" where
  "new_probability v =
     (if 0 \<le> v \<and> v \<le> 1 then Ok v else Err ''probability must be finite and within 0.0..=1.0'')"

definition f32_090 :: rat where "f32_090 = 15099494 / 2 ^ 24"
definition f32_085 :: rat where "f32_085 = 14260634 / 2 ^ 24"
definition f32_080 :: rat where "f32_080 = 13421773 / 2 ^ 24"
definition f32_010 :: rat where "f32_010 = 13421773 / 2 ^ 27"
definition f32_005 :: rat where "f32_005 = 13421773 / 2 ^ 28"

record semantic_risk_vector =
  rv_read_only :: probability
  rv_may_write :: probability
  rv_reversible :: probability
  rv_destructive :: probability
  rv_irreversible :: probability
  rv_external_or_account_effect :: probability

datatype resolved_effect =
    EffReadOnly
  | EffLocalWrite
  | EffBoundedLocalExecution
  | EffGitLocalWrite
  | EffLocalWriteAndGitLocalWrite
  | EffLocalWriteAndBoundedLocalExecution
  | EffBoundedLocalExecutionAndGitLocalWrite
  | EffLocalWriteAndBoundedLocalExecutionAndGitLocalWrite
  | EffDenyKnownRisk
  | EffDenyUncertain

datatype semantic_assessor_status =
    StDisabled | StQueued | StUnavailable | StTimeout | StMalformed | StQueueFull | StAssessed

fun show_status :: "semantic_assessor_status \<Rightarrow> string" where
  "show_status StDisabled = ''Disabled''"
| "show_status StQueued = ''Queued''"
| "show_status StUnavailable = ''Unavailable''"
| "show_status StTimeout = ''Timeout''"
| "show_status StMalformed = ''Malformed''"
| "show_status StQueueFull = ''QueueFull''"
| "show_status StAssessed = ''Assessed''"

datatype mcp_operation_intent = McpRead | McpWrite | McpDestructive | McpExternalWrite | McpUnknown

record mcp_invocation_shape =
  ms_registered_metadata :: bool
  ms_operation :: string
  ms_operation_intent :: mcp_operation_intent
  ms_selector_intent :: "mcp_operation_intent option"
  ms_schema_has_selector :: bool
  ms_delegates_unknown_effect :: bool
  ms_idempotent_hint :: "bool option"

datatype parse_status = Parsed | ParsedWithErrors | ParseUnavailable | LimitExceeded

record ast_assessment =
  aa_status :: parse_status
  aa_executable_nodes :: u64
  aa_conditional_nodes :: u64
  aa_loop_nodes :: u64
  aa_pipeline_nodes :: u64
  aa_substitution_nodes :: u64
  aa_function_definitions :: u64
  aa_redirect_nodes :: u64
  aa_shell_heredocs :: u64
  aa_foreign_code_heredocs :: u64
  aa_data_heredocs :: u64
  aa_external_heredocs :: u64
  aa_opaque_heredocs :: u64
  aa_foreign_code_units :: u64
  aa_foreign_code_units_with_complete_effect_evidence :: u64
  aa_classes :: "op_class list"
  aa_semantic_shapes :: "semantic_command_shape list"

record ast_shape =
  sh_status :: parse_status
  sh_executable_nodes :: u64
  sh_conditional_nodes :: u64
  sh_loop_nodes :: u64
  sh_pipeline_nodes :: u64
  sh_substitution_nodes :: u64
  sh_function_definitions :: u64
  sh_redirect_nodes :: u64
  sh_shell_heredocs :: u64
  sh_foreign_code_heredocs :: u64
  sh_data_heredocs :: u64
  sh_external_heredocs :: u64
  sh_opaque_heredocs :: u64
  sh_foreign_code_units :: u64
  sh_foreign_code_units_with_complete_effect_evidence :: u64
  sh_effect_candidates :: "string list"
  sh_commands :: "semantic_command_shape list"

record semantic_assessment_request =
  rq_tool_family :: string
  rq_tool_name :: string
  rq_state_intent :: "string option"
  rq_argument_keys :: "string list"
  rq_shell_shape :: "semantic_command_shape list"
  rq_shell_ast_shape :: "ast_shape option"
  rq_read_only_hint :: "bool option"
  rq_destructive_hint :: "bool option"
  rq_open_world_hint :: "bool option"
  rq_mcp_shape :: "mcp_invocation_shape option"

record semantic_assessment_receipt =
  rc_tool :: string
  rc_status :: semantic_assessor_status
  rc_vector :: "semantic_risk_vector option"
  rc_state_intent :: "string option"

record shadow_assessment =
  sa_risk :: risk_band
  sa_exposure :: exposure_band
  sa_source :: string
  sa_state_intent :: "string option"
  sa_invocation_fingerprint :: "string option"
  sa_required_capability :: "string option"
  sa_semantic_request :: "semantic_assessment_request option"
  sa_ast_semantic_request :: "semantic_assessment_request option"

record risk_pipeline_assessment =
  rp_deterministic :: shadow_assessment
  rp_semantic :: semantic_assessment_receipt
  rp_effective_risk :: risk_band
  rp_semantic_failsafe_escalated :: bool
  rp_semantic_authorization_enabled :: bool

datatype shell_ast_mode = AstDisabled | AstShadow | AstAuthority

record semantic_shadow_config =
  sg_enabled :: bool
  sg_authoritative_enabled :: bool
  sg_queue_capacity :: nat

definition shadow_enabled_for :: "string option \<Rightarrow> bool" where
  "shadow_enabled_for v \<longleftrightarrow> v \<in> set (map Some [''1'', ''true'', ''TRUE'', ''yes'', ''YES''])"

text \<open>\<open>parse::<usize>\<close> of a digit string, with an optional plus sign; anything else is an error.\<close>

definition parse_usize :: "string \<Rightarrow> nat option" where
  "parse_usize v =
     (let digits = (case v of c # cs \<Rightarrow> if c = CHR ''+'' then cs else v | [] \<Rightarrow> [])
      in if digits \<noteq> [] \<and> list_all is_ascii_digit digits \<and> parse_digits 0 digits < 2 ^ 64
         then Some (parse_digits 0 digits) else None)"

definition config_from_values ::
  "string option \<Rightarrow> string option \<Rightarrow> string option \<Rightarrow> string option \<Rightarrow> semantic_shadow_config" where
  "config_from_values environment shadow_enabled fallthrough_enabled capacity =
     (let telemetry_enabled = (environment = Some ''staging'' \<and> shadow_enabled_for shadow_enabled);
          authoritative_enabled = shadow_enabled_for fallthrough_enabled;
          queue_capacity = (case Option.bind capacity parse_usize of
             Some n \<Rightarrow> if 1 \<le> n \<and> n \<le> 1024 then n else 64
           | None \<Rightarrow> 64)
      in \<lparr>sg_enabled = (telemetry_enabled \<or> authoritative_enabled),
          sg_authoritative_enabled = authoritative_enabled, sg_queue_capacity = queue_capacity\<rparr>)"

section \<open>Labels and shapes\<close>

definition bounded_metadata_label :: "string \<Rightarrow> string" where
  "bounded_metadata_label v =
     (if length v \<le> 64 \<and> v \<noteq> [] \<and> list_all (\<lambda>c. is_ascii_alphanumeric c \<or> c \<in> set ''_-.'') v
      then v else ''unknown'')"

definition mcp_operation :: "string \<Rightarrow> string" where
  "mcp_operation tool_name =
     (case strip_prefix tool_name ''mcp__'' of
        None \<Rightarrow> tool_name
      | Some qualified \<Rightarrow>
          (case str_find qualified ''__'' of
             None \<Rightarrow> tool_name
           | Some k \<Rightarrow> drop (k + 2) qualified))"

definition is_agent_delegation_tool :: "string \<Rightarrow> bool" where
  "is_agent_delegation_tool tool_name \<longleftrightarrow>
     (let compact = to_ascii_lowercase (filter is_ascii_alphanumeric (mcp_operation tool_name))
      in compact = ''agent'' \<or> compact = ''spawnagent'' \<or> ends_with compact ''collaborationspawnagent'')"

definition destructive_verbs :: "string list" where
  "destructive_verbs = [''delete'', ''remove'', ''destroy'', ''revoke'', ''purge'']"

definition external_verbs :: "string list" where
  "external_verbs = [''send'', ''publish'', ''deploy'', ''push'']"

definition write_verbs :: "string list" where
  "write_verbs = [''create'', ''update'', ''write'', ''edit'', ''patch'', ''apply'', ''upload'', ''move'', ''rename'']"

definition read_verbs :: "string list" where
  "read_verbs = [''read'', ''get'', ''list'', ''search'', ''find'', ''inspect'', ''status'', ''describe'', ''lookup'']"

definition mcp_operation_intent_of :: "string \<Rightarrow> mcp_operation_intent" where
  "mcp_operation_intent_of operation =
     (let words = filter (\<lambda>w. w \<noteq> []) (split_on (\<lambda>c. \<not> is_ascii_alphanumeric c) (to_ascii_lowercase operation));
          has = (\<lambda>verbs. list_ex (\<lambda>w. w \<in> set verbs) words)
      in if has destructive_verbs then McpDestructive
         else if has external_verbs then McpExternalWrite
         else if has write_verbs then McpWrite
         else if words \<noteq> [] \<and> hd words \<in> set read_verbs then McpRead
         else McpUnknown)"

definition selector_value_intent :: "json \<Rightarrow> mcp_operation_intent" where
  "selector_value_intent v =
     (case as_str v of
        None \<Rightarrow> McpUnknown
      | Some s \<Rightarrow>
          if s \<in> set read_verbs then McpRead
          else if s \<in> set write_verbs then McpWrite
          else if s \<in> set destructive_verbs then McpDestructive
          else if s \<in> set external_verbs then McpExternalWrite
          else McpUnknown)"

definition selectors :: "string list" where
  "selectors = [''action'', ''operation'', ''method'']"

definition mcp_shape :: "tool_info option \<Rightarrow> string \<Rightarrow> json \<Rightarrow> mcp_invocation_shape" where
  "mcp_shape tool tool_name arguments =
     (let intents = map selector_value_intent (List.map_filter (jget arguments) selectors);
          selector_intent = find (\<lambda>i. i \<in> set intents)
            [McpDestructive, McpExternalWrite, McpUnknown, McpWrite, McpRead];
          schema_has_selector = is_some_and (\<lambda>properties. list_ex (\<lambda>key. jget properties key \<noteq> None) selectors)
            (Option.bind tool (\<lambda>t. jget (ti_input_schema t) ''properties''));
          operation = mcp_operation tool_name;
          first_word = hd (split_on (\<lambda>c. \<not> is_ascii_alphanumeric c) (to_ascii_lowercase operation));
          delegates = (selector_intent = Some McpUnknown \<or> (schema_has_selector \<and> selector_intent = None)
            \<or> first_word \<in> set [''query'', ''execute'', ''run'', ''eval'']
            \<or> list_ex (\<lambda>key. jget arguments key \<noteq> None) [''command'', ''cmd'', ''script'', ''code'', ''sql''])
      in \<lparr>ms_registered_metadata = (tool \<noteq> None), ms_operation = bounded_metadata_label operation,
          ms_operation_intent = mcp_operation_intent_of operation, ms_selector_intent = selector_intent,
          ms_schema_has_selector = schema_has_selector, ms_delegates_unknown_effect = delegates,
          ms_idempotent_hint = Option.bind (Option.bind tool ti_annotations) an_idempotent_hint\<rparr>)"

fun effect_label :: "op_class \<Rightarrow> string" where
  "effect_label FileWrite = ''file_write''"
| "effect_label FileModify = ''file_modify''"
| "effect_label FileRead = ''file_read''"
| "effect_label ContentSearch = ''content_search''"
| "effect_label FileSearch = ''file_search''"
| "effect_label Destructive = ''destructive''"
| "effect_label Network = ''network''"
| "effect_label GitWrite = ''git_write''"
| "effect_label GitRead = ''git_read''"
| "effect_label LocalWrite = ''local_write''"
| "effect_label BoundedLocalExecution = ''bounded_local_execution''"
| "effect_label GitLocalWrite = ''git_local_write''"
| "effect_label SafeOutput = ''safe_output''"
| "effect_label Opaque = ''opaque''"
| "effect_label Passthrough = ''passthrough''"

definition semantic_shape :: "ast_assessment \<Rightarrow> ast_shape" where
  "semantic_shape a =
     \<lparr>sh_status = aa_status a,
      sh_executable_nodes = aa_executable_nodes a,
      sh_conditional_nodes = aa_conditional_nodes a,
      sh_loop_nodes = aa_loop_nodes a,
      sh_pipeline_nodes = aa_pipeline_nodes a,
      sh_substitution_nodes = aa_substitution_nodes a,
      sh_function_definitions = aa_function_definitions a,
      sh_redirect_nodes = aa_redirect_nodes a,
      sh_shell_heredocs = aa_shell_heredocs a,
      sh_foreign_code_heredocs = aa_foreign_code_heredocs a,
      sh_data_heredocs = aa_data_heredocs a,
      sh_external_heredocs = aa_external_heredocs a,
      sh_opaque_heredocs = aa_opaque_heredocs a,
      sh_foreign_code_units = aa_foreign_code_units a,
      sh_foreign_code_units_with_complete_effect_evidence = aa_foreign_code_units_with_complete_effect_evidence a,
      sh_effect_candidates = map effect_label (aa_classes a),
      sh_commands = aa_semantic_shapes a\<rparr>"

definition safe_argument_keys :: "string list" where
  "safe_argument_keys = [''args'', ''cmd'', ''command'', ''cwd'', ''path'', ''pattern'', ''query'', ''workdir'']"

definition command_argument :: "json \<Rightarrow> string option" where
  "command_argument arguments = Option.bind (or_else (jget arguments ''command'') (jget arguments ''cmd'')) as_str"

definition annotation_hint :: "(tool_annotations \<Rightarrow> bool option) \<Rightarrow> tool_info option \<Rightarrow> bool option" where
  "annotation_hint hint tool = Option.bind (Option.bind tool ti_annotations) hint"

definition semantic_request ::
  "tool_info option \<Rightarrow> string \<Rightarrow> json \<Rightarrow> string option \<Rightarrow> bool \<Rightarrow> semantic_assessment_request" where
  "semantic_request tool tool_name arguments state_intent is_shell =
     \<lparr>rq_tool_family = (if is_shell then ''shell'' else ''mcp''),
      rq_tool_name = bounded_metadata_label tool_name,
      rq_state_intent = map_option bounded_metadata_label state_intent,
      rq_argument_keys = sort (take 16 (filter (\<lambda>k. k \<in> set safe_argument_keys)
         (case as_object arguments of None \<Rightarrow> [] | Some m \<Rightarrow> bt_keys m))),
      rq_shell_shape = (if is_shell
         then unwrap_or [] (Option.bind (command_argument arguments) semantic_command_shapes) else []),
      rq_shell_ast_shape = None,
      rq_read_only_hint = annotation_hint an_read_only_hint tool,
      rq_destructive_hint = annotation_hint an_destructive_hint tool,
      rq_open_world_hint = annotation_hint an_open_world_hint tool,
      rq_mcp_shape = (if is_shell then None else Some (mcp_shape tool tool_name arguments))\<rparr>"

section \<open>Deterministic assessment\<close>

definition assessment :: "risk_band \<Rightarrow> exposure_band \<Rightarrow> string \<Rightarrow> shadow_assessment" where
  "assessment risk exposure source =
     \<lparr>sa_risk = risk, sa_exposure = exposure, sa_source = source, sa_state_intent = None,
      sa_invocation_fingerprint = None, sa_required_capability = None, sa_semantic_request = None,
      sa_ast_semantic_request = None\<rparr>"

definition assessment_with_capability ::
  "risk_band \<Rightarrow> exposure_band \<Rightarrow> string \<Rightarrow> string \<Rightarrow> shadow_assessment" where
  "assessment_with_capability risk exposure source capability =
     (assessment risk exposure source)\<lparr>sa_required_capability := Some capability\<rparr>"

definition local_effect_capability :: "op_class list \<Rightarrow> string option" where
  "local_effect_capability classes =
     (let has_write = list_ex (\<lambda>c. c \<in> set [FileWrite, FileModify, LocalWrite]) classes;
          has_bounded_execution = (BoundedLocalExecution \<in> set classes);
          has_git_local_write = (GitLocalWrite \<in> set classes)
      in if has_write then
           (if has_bounded_execution
            then Some (if has_git_local_write then ''Write+BoundedLocalExecution+GitLocalWrite'' else ''Write+BoundedLocalExecution'')
            else Some (if has_git_local_write then ''Write+GitLocalWrite'' else ''Write''))
         else if has_bounded_execution
           then Some (if has_git_local_write then ''BoundedLocalExecution+GitLocalWrite'' else ''BoundedLocalExecution'')
           else (if has_git_local_write then Some ''GitLocalWrite'' else None))"

definition with_capability :: "risk_band \<Rightarrow> exposure_band \<Rightarrow> string \<Rightarrow> string option \<Rightarrow> shadow_assessment" where
  "with_capability risk exposure source capability =
     (case capability of
        None \<Rightarrow> assessment risk exposure source
      | Some c \<Rightarrow> assessment_with_capability risk exposure source c)"

definition assess_shell :: "string \<Rightarrow> shadow_assessment" where
  "assess_shell command =
     (let classes = classify command
      in if Destructive \<in> set classes then assessment Critical LocalExposure ''shell''
         else if Network \<in> set classes \<or> GitWrite \<in> set classes then assessment High ExternalExposure ''shell''
         else if readonly_capabilities command \<noteq> None then assessment Low LocalExposure ''shell''
         else let required_capability = local_effect_capability classes
         in if list_ex (\<lambda>c. c \<in> set [Opaque, Passthrough]) classes
            then with_capability Moderate UnknownExposure ''shell'' required_capability
            else case required_capability of
              Some capability \<Rightarrow> assessment_with_capability Moderate LocalExposure ''shell'' capability
            | None \<Rightarrow> assessment Moderate UnknownExposure ''shell'')"

definition foreign_wrapper_is_fully_classified :: "ast_assessment \<Rightarrow> bool" where
  "foreign_wrapper_is_fully_classified a \<longleftrightarrow>
     aa_status a = Parsed \<and> aa_foreign_code_units a > 0 \<and> aa_executable_nodes a = aa_foreign_code_units a
     \<and> aa_foreign_code_units a = aa_foreign_code_units_with_complete_effect_evidence a \<and> aa_opaque_heredocs a = 0"

definition assess_shell_ast :: "ast_assessment \<Rightarrow> shadow_assessment" where
  "assess_shell_ast a =
     (let classes = aa_classes a
      in if Destructive \<in> set classes then assessment Critical LocalExposure ''shell_ast''
         else if Network \<in> set classes \<or> GitWrite \<in> set classes then assessment High ExternalExposure ''shell_ast''
         else let required_capability = local_effect_capability classes;
                  covered = foreign_wrapper_is_fully_classified a
         in if (Opaque \<in> set classes \<or> Passthrough \<in> set classes) \<and> \<not> covered
            then with_capability Moderate UnknownExposure ''shell_ast'' required_capability
            else case required_capability of
              Some capability \<Rightarrow> assessment_with_capability Moderate LocalExposure ''shell_ast'' capability
            | None \<Rightarrow>
                if list_all (\<lambda>c. c \<in> set [FileRead, ContentSearch, FileSearch, GitRead, SafeOutput]
                     \<or> (covered \<and> c \<in> set [Opaque, Passthrough])) classes
                then assessment Low LocalExposure ''shell_ast''
                else assessment Moderate UnknownExposure ''shell_ast'')"

fun exposure_rank :: "exposure_band \<Rightarrow> nat" where
  "exposure_rank LocalExposure = 0"
| "exposure_rank UnknownExposure = 1"
| "exposure_rank ExternalExposure = 2"
| "exposure_rank AccountExposure = 3"

fun risk_rank :: "risk_band \<Rightarrow> nat" where
  "risk_rank Low = 0"
| "risk_rank Moderate = 1"
| "risk_rank High = 2"
| "risk_rank Critical = 3"

definition ast_authority_wins :: "shadow_assessment \<Rightarrow> shadow_assessment \<Rightarrow> parse_status \<Rightarrow> bool" where
  "ast_authority_wins legacy ast status =
     (if status \<noteq> Parsed then False
      else if risk_rank (sa_risk ast) > risk_rank (sa_risk legacy) then True
      else if risk_rank (sa_risk ast) = risk_rank (sa_risk legacy)
      then exposure_rank (sa_exposure ast) \<ge> exposure_rank (sa_exposure legacy)
      else sa_risk legacy = Moderate \<and> sa_exposure legacy = UnknownExposure
           \<and> sa_risk ast = Low \<and> sa_exposure ast = LocalExposure)"

definition apply_shell_ast_authority ::
  "shadow_assessment \<Rightarrow> ast_assessment \<Rightarrow> semantic_assessment_request \<Rightarrow> shadow_assessment" where
  "apply_shell_ast_authority legacy a ast_request =
     (let structured = (assess_shell_ast a)
            \<lparr>sa_state_intent := sa_state_intent legacy,
             sa_invocation_fingerprint := sa_invocation_fingerprint legacy,
             sa_semantic_request := Some ast_request\<rparr>;
          complete_structural_local_effect =
            (sa_risk legacy = Moderate \<and> sa_exposure legacy = UnknownExposure
             \<and> sa_risk structured = Moderate \<and> sa_exposure structured = LocalExposure
             \<and> sa_required_capability structured \<noteq> None \<and> aa_status a = Parsed)
      in if ast_authority_wins legacy structured (aa_status a) \<or> complete_structural_local_effect
         then structured else legacy\<lparr>sa_ast_semantic_request := Some ast_request\<rparr>)"

definition shell_ast_semantic_request ::
  "semantic_assessment_request \<Rightarrow> ast_assessment \<Rightarrow> shell_ast_mode \<Rightarrow> semantic_assessment_request" where
  "shell_ast_semantic_request legacy a mode =
     (let sfx = (case mode of AstAuthority \<Rightarrow> ''ast_authority'' | AstShadow \<Rightarrow> ''ast_shadow'' | AstDisabled \<Rightarrow> ''ast_disabled'')
      in legacy\<lparr>rq_tool_name := bounded_metadata_label (rq_tool_name legacy @ ''_'' @ sfx),
                rq_shell_shape := aa_semantic_shapes a,
                rq_shell_ast_shape := Some (semantic_shape a)\<rparr>)"

definition assess_mcp :: "tool_info option \<Rightarrow> string \<Rightarrow> shadow_assessment" where
  "assess_mcp tool tool_name =
     (let operation_intent = mcp_operation_intent_of (mcp_operation tool_name)
      in if is_agent_delegation_tool tool_name then assessment High UnknownExposure ''unmanaged_agent_delegation''
         else if annotation_hint an_destructive_hint tool = Some True
         then assessment Critical AccountExposure ''mcp_annotation''
         else if annotation_hint an_read_only_hint tool = Some True
                 \<and> operation_intent \<notin> set [McpWrite, McpDestructive, McpExternalWrite]
         then assessment Low (if annotation_hint an_open_world_hint tool = Some True then ExternalExposure else LocalExposure)
                ''mcp_annotation''
         else let open_world = (annotation_hint an_open_world_hint tool = Some True);
                  read_denied = (annotation_hint an_read_only_hint tool = Some False);
                  native_read = (tool_name \<in> set [''Grep'', ''grep'', ''Glob'', ''glob'', ''ls'', ''view_image'']);
                  result =
                    (if operation_intent \<in> set [McpDestructive, McpExternalWrite] then assessment High AccountExposure ''mcp_name''
                     else if operation_intent = McpWrite then assessment Moderate UnknownExposure ''mcp_name''
                     else if operation_intent = McpRead \<and> \<not> read_denied then assessment Low LocalExposure ''mcp_name''
                     else if native_read \<and> \<not> read_denied then assessment Low LocalExposure ''native_read''
                     else assessment Moderate UnknownExposure ''mcp_unknown'')
              in if open_world \<and> sa_exposure result \<noteq> AccountExposure
                 then assessment (sa_risk result) ExternalExposure (sa_source result) else result)"

definition is_shell_name :: "string \<Rightarrow> bool" where
  "is_shell_name tool_name \<longleftrightarrow>
     to_ascii_lowercase tool_name \<in> set [''bash'', ''shell'', ''terminal'', ''exec_command'', ''run_command'']"

text \<open>The assessment of a call that is not a shell call: its base and what its arguments can raise it to.\<close>

definition assess_non_shell :: "tool_info option \<Rightarrow> string \<Rightarrow> json \<Rightarrow> bool \<Rightarrow> shadow_assessment" where
  "assess_non_shell tool tool_name arguments trusted_native_adapter =
     (let known_native_write =
            (trusted_native_adapter \<and> tool = None \<and> native_tool_family_of tool_name = Some FamWrite);
          base =
            (if known_native_write then assessment Moderate LocalExposure ''native_write''
             else if trusted_native_adapter \<and> tool = None \<and> tool_name = ''ToolSearch''
             then assessment Low LocalExposure ''native_tool_discovery''
             else if trusted_native_adapter \<and> tool = None \<and> tool_name \<in> set [''WebFetch'', ''WebSearch'']
             then assessment Low ExternalExposure ''native_web_read''
             else assess_mcp tool tool_name);
          shape = mcp_shape tool tool_name arguments
      in if known_native_write \<or> sa_risk base \<in> set [High, Critical] then base
         else if ms_selector_intent shape \<in> set [Some McpDestructive, Some McpExternalWrite]
         then assessment High AccountExposure ''mcp_selector''
         else if ms_selector_intent shape = Some McpWrite then assessment Moderate UnknownExposure ''mcp_selector''
         else if ms_delegates_unknown_effect shape then assessment Moderate UnknownExposure ''mcp_opaque_payload''
         else base)"

definition assess_invocation_with_origin ::
  "(string \<Rightarrow> json \<Rightarrow> string) \<Rightarrow> (string \<Rightarrow> ast_assessment) \<Rightarrow> shell_ast_mode \<Rightarrow>
   tool_info option \<Rightarrow> string \<Rightarrow> json \<Rightarrow> string option \<Rightarrow> bool \<Rightarrow> shadow_assessment" where
  "assess_invocation_with_origin fingerprint ast_assess ast_mode tool tool_name arguments state_intent trusted_native_adapter =
     (let is_shell = is_shell_name tool_name;
          shell_command = (if is_shell then command_argument arguments else None);
          base = (if is_shell
             then (case shell_command of Some c \<Rightarrow> assess_shell c | None \<Rightarrow> assess_mcp tool tool_name)
             else assess_non_shell tool tool_name arguments trusted_native_adapter);
          request = semantic_request tool tool_name arguments state_intent is_shell;
          result = base\<lparr>sa_invocation_fingerprint := Some (fingerprint tool_name arguments),
                        sa_state_intent := state_intent, sa_semantic_request := Some request\<rparr>
      in case (ast_mode, shell_command) of
           (AstAuthority, Some c) \<Rightarrow>
             apply_shell_ast_authority result (ast_assess c) (shell_ast_semantic_request request (ast_assess c) ast_mode)
         | (AstShadow, Some c) \<Rightarrow>
             result\<lparr>sa_ast_semantic_request := Some (shell_ast_semantic_request request (ast_assess c) ast_mode)\<rparr>
         | _ \<Rightarrow> result)"

section \<open>The pipeline\<close>

definition semantic_failsafe_floor :: "risk_band \<Rightarrow> semantic_assessment_receipt \<Rightarrow> risk_band" where
  "semantic_failsafe_floor deterministic semantic =
     (case rc_vector semantic of
        None \<Rightarrow> deterministic
      | Some v \<Rightarrow>
          (let semantic_floor =
             (if rv_destructive v \<ge> f32_085 \<or> rv_irreversible v \<ge> f32_085 then Critical
              else if rv_external_or_account_effect v \<ge> f32_085 then High
              else if rv_may_write v \<ge> f32_085 then Moderate
              else Low)
           in if risk_rank semantic_floor > risk_rank deterministic then semantic_floor else deterministic))"

definition pipeline_from_parts ::
  "shadow_assessment \<Rightarrow> semantic_assessment_receipt \<Rightarrow> bool \<Rightarrow> risk_pipeline_assessment" where
  "pipeline_from_parts deterministic semantic enabled =
     (let effective_risk = (if sa_risk deterministic = Moderate \<and> sa_exposure deterministic = UnknownExposure
            then semantic_failsafe_floor (sa_risk deterministic) semantic else sa_risk deterministic)
      in \<lparr>rp_deterministic = deterministic, rp_semantic = semantic, rp_effective_risk = effective_risk,
          rp_semantic_failsafe_escalated = (effective_risk \<noteq> sa_risk deterministic),
          rp_semantic_authorization_enabled = enabled\<rparr>)"

definition semantic_receipt ::
  "semantic_assessment_request \<Rightarrow> semantic_assessor_status \<Rightarrow> semantic_assessment_receipt" where
  "semantic_receipt request status =
     \<lparr>rc_tool = rq_tool_name request, rc_status = status, rc_vector = None, rc_state_intent = rq_state_intent request\<rparr>"

type_synonym semantic_assessor =
  "semantic_assessment_request \<Rightarrow> (semantic_risk_vector, semantic_assessor_status) result"

definition evaluate_semantic ::
  "semantic_assessment_request \<Rightarrow> semantic_assessor option \<Rightarrow> semantic_assessment_receipt" where
  "evaluate_semantic request assessor =
     (case assessor of
        None \<Rightarrow> semantic_receipt request StDisabled
      | Some assess \<Rightarrow>
          (case assess request of
             Inr v \<Rightarrow> (semantic_receipt request StAssessed)\<lparr>rc_vector := Some v\<rparr>
           | Inl status \<Rightarrow> semantic_receipt request status))"

definition malformed_receipt :: semantic_assessment_receipt where
  "malformed_receipt = \<lparr>rc_tool = ''unknown'', rc_status = StMalformed, rc_vector = None, rc_state_intent = None\<rparr>"

definition assess_pipeline_with_config ::
  "(string \<Rightarrow> json \<Rightarrow> string) \<Rightarrow> (string \<Rightarrow> ast_assessment) \<Rightarrow> shell_ast_mode \<Rightarrow>
   tool_info option \<Rightarrow> string \<Rightarrow> json \<Rightarrow> string option \<Rightarrow> semantic_assessor option \<Rightarrow>
   semantic_shadow_config \<Rightarrow> risk_pipeline_assessment" where
  "assess_pipeline_with_config fingerprint ast_assess ast_mode tool tool_name arguments state_intent assessor config =
     (let deterministic =
            assess_invocation_with_origin fingerprint ast_assess ast_mode tool tool_name arguments state_intent False;
          semantic =
            (case sa_semantic_request deterministic of
               None \<Rightarrow> malformed_receipt
             | Some request \<Rightarrow>
                 if \<not> sg_enabled config then semantic_receipt request StDisabled
                 else (case assessor of
                         Some assess \<Rightarrow> evaluate_semantic request (Some assess)
                       | None \<Rightarrow> semantic_receipt request StUnavailable))
      in pipeline_from_parts deterministic semantic (sg_authoritative_enabled config))"

section \<open>Resolution of the effect\<close>

definition deterministic_local_effect :: "risk_pipeline_assessment \<Rightarrow> resolved_effect" where
  "deterministic_local_effect p =
     (let capability = sa_required_capability (rp_deterministic p)
      in if capability = Some ''BoundedLocalExecution'' then EffBoundedLocalExecution
         else if capability = Some ''GitLocalWrite'' then EffGitLocalWrite
         else if capability = Some ''Write+GitLocalWrite'' then EffLocalWriteAndGitLocalWrite
         else if capability = Some ''Write+BoundedLocalExecution'' then EffLocalWriteAndBoundedLocalExecution
         else if capability = Some ''BoundedLocalExecution+GitLocalWrite'' then EffBoundedLocalExecutionAndGitLocalWrite
         else if capability = Some ''Write+BoundedLocalExecution+GitLocalWrite''
         then EffLocalWriteAndBoundedLocalExecutionAndGitLocalWrite
         else EffLocalWrite)"

definition semantic_local_effect :: "risk_pipeline_assessment \<Rightarrow> resolved_effect" where
  "semantic_local_effect p =
     (let capability = sa_required_capability (rp_deterministic p)
      in if capability = Some ''BoundedLocalExecution'' then EffLocalWriteAndBoundedLocalExecution
         else if capability \<in> set [Some ''GitLocalWrite'', Some ''Write+GitLocalWrite''] then EffLocalWriteAndGitLocalWrite
         else if capability = Some ''Write+BoundedLocalExecution'' then EffLocalWriteAndBoundedLocalExecution
         else if capability \<in> set [Some ''BoundedLocalExecution+GitLocalWrite'', Some ''Write+BoundedLocalExecution+GitLocalWrite'']
         then EffLocalWriteAndBoundedLocalExecutionAndGitLocalWrite
         else EffLocalWrite)"

fun local_effect_basis :: "resolved_effect \<Rightarrow> string" where
  "local_effect_basis EffBoundedLocalExecution = ''deterministic_bounded_local_execution''"
| "local_effect_basis EffGitLocalWrite = ''deterministic_git_local_write''"
| "local_effect_basis EffLocalWriteAndGitLocalWrite = ''deterministic_combined_local_write''"
| "local_effect_basis EffLocalWriteAndBoundedLocalExecution = ''deterministic_local_write_and_bounded_execution''"
| "local_effect_basis EffBoundedLocalExecutionAndGitLocalWrite = ''deterministic_bounded_execution_and_git_local_write''"
| "local_effect_basis EffLocalWriteAndBoundedLocalExecutionAndGitLocalWrite = ''deterministic_combined_local_execution''"
| "local_effect_basis _ = ''deterministic_local_write''"

definition has_sufficient_semantic_evidence :: "risk_pipeline_assessment \<Rightarrow> bool" where
  "has_sufficient_semantic_evidence p =
     is_some_and (\<lambda>request.
       if rq_tool_family request = ''shell'' then
         is_some_and (\<lambda>shape. sh_status shape = Parsed \<and> sh_executable_nodes shape > 0
            \<and> sh_effect_candidates shape \<noteq> []
            \<and> sh_foreign_code_units shape = sh_foreign_code_units_with_complete_effect_evidence shape
            \<and> rq_shell_shape request \<noteq> []) (rq_shell_ast_shape request)
         \<or> (rq_shell_shape request \<noteq> []
            \<and> list_all (\<lambda>s. sc_operation s \<noteq> None \<and> \<not> sc_delegates_unknown_effect s) (rq_shell_shape request))
       else rq_tool_name request \<noteq> ''unknown''
            \<and> is_some_and (\<lambda>shape. \<not> ms_delegates_unknown_effect shape) (rq_mcp_shape request))
       (sa_semantic_request (rp_deterministic p))"

definition compatible_read :: "risk_pipeline_assessment \<Rightarrow> semantic_assessment_request \<Rightarrow> bool" where
  "compatible_read p request \<longleftrightarrow>
     sa_required_capability (rp_deterministic p) = None \<and> rq_read_only_hint request \<noteq> Some False
     \<and> is_none_or (\<lambda>shape. ms_operation_intent shape \<noteq> McpWrite \<and> ms_selector_intent shape \<noteq> Some McpWrite)
         (rq_mcp_shape request)"

definition harmless :: "semantic_risk_vector \<Rightarrow> bool" where
  "harmless v \<longleftrightarrow> rv_destructive v \<le> f32_005 \<and> rv_irreversible v \<le> f32_005
     \<and> rv_external_or_account_effect v \<le> f32_005"

definition resolve_unknown :: "risk_pipeline_assessment \<Rightarrow> resolved_effect \<times> string" where
  "resolve_unknown p =
     (if \<not> rp_semantic_authorization_enabled p then (EffDenyUncertain, ''semantic_authorization_disabled'')
      else if \<not> has_sufficient_semantic_evidence p then (EffDenyUncertain, ''incomplete_structural_evidence'')
      else case rc_vector (rp_semantic p) of
        None \<Rightarrow> (EffDenyUncertain, ''semantic_vector_unavailable'')
      | Some v \<Rightarrow>
          if rc_status (rp_semantic p) \<noteq> StAssessed then (EffDenyUncertain, ''semantic_assessment_incomplete'')
          else if is_some_and (compatible_read p) (sa_semantic_request (rp_deterministic p))
                  \<and> rv_read_only v \<ge> f32_090 \<and> rv_may_write v \<le> f32_010 \<and> harmless v
          then (EffReadOnly, ''semantic_read_only'')
          else if rv_may_write v \<ge> f32_090 \<and> rv_reversible v \<ge> f32_080 \<and> harmless v
          then (semantic_local_effect p, ''semantic_local_write'')
          else (EffDenyUncertain, ''semantic_threshold_not_met''))"

definition resolve_effect_with_basis :: "risk_pipeline_assessment \<Rightarrow> resolved_effect \<times> string" where
  "resolve_effect_with_basis p =
     (if rp_effective_risk p \<in> set [High, Critical] then (EffDenyKnownRisk, ''effective_known_risk'')
      else case sa_risk (rp_deterministic p) of
        Critical \<Rightarrow> (EffDenyKnownRisk, ''deterministic_known_risk'')
      | High \<Rightarrow> (EffDenyKnownRisk, ''deterministic_known_risk'')
      | Low \<Rightarrow> if rp_effective_risk p = Low then (EffReadOnly, ''deterministic_read_only'')
               else (EffLocalWrite, ''semantic_risk_escalation'')
      | Moderate \<Rightarrow>
          (case sa_exposure (rp_deterministic p) of
             LocalExposure \<Rightarrow>
               (let effect = deterministic_local_effect p in (effect, local_effect_basis effect))
           | UnknownExposure \<Rightarrow> resolve_unknown p
           | _ \<Rightarrow> (EffDenyKnownRisk, ''deterministic_nonlocal_risk'')))"

definition resolve_effect :: "risk_pipeline_assessment \<Rightarrow> resolved_effect" where
  "resolve_effect p = fst (resolve_effect_with_basis p)"

fun effect_name :: "resolved_effect \<Rightarrow> string" where
  "effect_name EffReadOnly = ''read_only''"
| "effect_name EffLocalWrite = ''local_write''"
| "effect_name EffBoundedLocalExecution = ''bounded_local_execution''"
| "effect_name EffGitLocalWrite = ''git_local_write''"
| "effect_name EffLocalWriteAndGitLocalWrite = ''local_write_and_git_local_write''"
| "effect_name EffLocalWriteAndBoundedLocalExecution = ''local_write_and_bounded_local_execution''"
| "effect_name EffBoundedLocalExecutionAndGitLocalWrite = ''bounded_local_execution_and_git_local_write''"
| "effect_name EffLocalWriteAndBoundedLocalExecutionAndGitLocalWrite =
     ''local_write_and_bounded_local_execution_and_git_local_write''"
| "effect_name EffDenyKnownRisk = ''deny_known_risk''"
| "effect_name EffDenyUncertain = ''deny_uncertain''"

fun required_authority :: "resolved_effect \<Rightarrow> string" where
  "required_authority EffReadOnly = ''Read''"
| "required_authority EffLocalWrite = ''Write''"
| "required_authority EffBoundedLocalExecution = ''BoundedLocalExecution''"
| "required_authority EffGitLocalWrite = ''GitLocalWrite''"
| "required_authority EffLocalWriteAndGitLocalWrite = ''Write+GitLocalWrite''"
| "required_authority EffLocalWriteAndBoundedLocalExecution = ''Write+BoundedLocalExecution''"
| "required_authority EffBoundedLocalExecutionAndGitLocalWrite = ''BoundedLocalExecution+GitLocalWrite''"
| "required_authority EffLocalWriteAndBoundedLocalExecutionAndGitLocalWrite = ''Write+BoundedLocalExecution+GitLocalWrite''"
| "required_authority EffDenyKnownRisk = ''separate_approved_execution_path''"
| "required_authority EffDenyUncertain = ''complete_structural_evidence_or_separate_approval''"

section \<open>The visible receipt\<close>

datatype final_decision = FinalAllowed | FinalDenied string string

definition reformulation_basis :: "string \<Rightarrow> bool" where
  "reformulation_basis basis \<longleftrightarrow> basis \<in> set [''semantic_threshold_not_met'', ''incomplete_structural_evidence'',
     ''semantic_vector_unavailable'', ''semantic_assessment_incomplete'', ''semantic_authorization_disabled'']"

definition json_object :: "(string \<times> json) list \<Rightarrow> json" where
  "json_object kvs = JObject (foldl (\<lambda>m (k, v). bt_insert k v m) [] kvs)"

definition opt_json :: "('a \<Rightarrow> json) \<Rightarrow> 'a option \<Rightarrow> json" where
  "opt_json f x = (case x of None \<Rightarrow> JNull | Some v \<Rightarrow> f v)"

definition vector_json :: "semantic_risk_vector \<Rightarrow> json" where
  "vector_json v = json_object
     [(''read_only'', JNumber (Float (rv_read_only v))),
      (''may_write'', JNumber (Float (rv_may_write v))),
      (''reversible'', JNumber (Float (rv_reversible v))),
      (''destructive'', JNumber (Float (rv_destructive v))),
      (''irreversible'', JNumber (Float (rv_irreversible v))),
      (''external_or_account_effect'', JNumber (Float (rv_external_or_account_effect v)))]"

definition reformulation_allowed :: "risk_pipeline_assessment \<Rightarrow> final_decision \<Rightarrow> bool" where
  "reformulation_allowed p decision \<longleftrightarrow>
     resolve_effect p = EffDenyUncertain
     \<and> reformulation_basis (case decision of FinalAllowed \<Rightarrow> snd (resolve_effect_with_basis p) | FinalDenied basis _ \<Rightarrow> basis)"

definition exact_retry_allowed :: "risk_pipeline_assessment \<Rightarrow> final_decision \<Rightarrow> bool" where
  "exact_retry_allowed p decision \<longleftrightarrow>
     decision = FinalAllowed \<and> resolve_effect p \<notin> set [EffDenyKnownRisk, EffDenyUncertain]"

definition decision_authority :: "risk_pipeline_assessment \<Rightarrow> final_decision \<Rightarrow> string" where
  "decision_authority p decision =
     (case decision of FinalAllowed \<Rightarrow> required_authority (resolve_effect p) | FinalDenied _ authority \<Rightarrow> authority)"

definition separate_approval_allowed :: "risk_pipeline_assessment \<Rightarrow> final_decision \<Rightarrow> bool" where
  "separate_approval_allowed p decision \<longleftrightarrow>
     decision \<noteq> FinalAllowed \<and> resolve_effect p = EffDenyUncertain \<and> reformulation_allowed p decision
     \<and> decision_authority p decision = ''complete_structural_evidence_or_separate_approval''"

definition visible_json_for_decision ::
  "(risk_pipeline_assessment \<Rightarrow> string) \<Rightarrow> risk_pipeline_assessment \<Rightarrow> final_decision \<Rightarrow> json" where
  "visible_json_for_decision intent_fingerprint p decision = json_object
     [(''intent_fingerprint'', JString (intent_fingerprint p)),
      (''invocation_fingerprint'', opt_json JString (sa_invocation_fingerprint (rp_deterministic p))),
      (''deterministic_risk'', JString (show_risk (sa_risk (rp_deterministic p)))),
      (''deterministic_exposure'', JString (show_exposure (sa_exposure (rp_deterministic p)))),
      (''deterministic_source'', JString (sa_source (rp_deterministic p))),
      (''effective_risk'', JString (show_risk (rp_effective_risk p))),
      (''semantic_status'', JString (show_status (rc_status (rp_semantic p)))),
      (''semantic_vector'', opt_json vector_json (rc_vector (rp_semantic p))),
      (''semantic_failsafe_escalated'', JBool (rp_semantic_failsafe_escalated p)),
      (''semantic_authorization_enabled'', JBool (rp_semantic_authorization_enabled p)),
      (''resolved_effect'', JString (effect_name (resolve_effect p))),
      (''resolution_basis'', JString (snd (resolve_effect_with_basis p))),
      (''final_denial_basis'', (case decision of FinalAllowed \<Rightarrow> JNull | FinalDenied basis _ \<Rightarrow> JString basis)),
      (''required_authority'', JString (decision_authority p decision)),
      (''equivalent_retry_allowed'', JBool (exact_retry_allowed p decision \<or> reformulation_allowed p decision)),
      (''reformulation_allowed'', JBool (reformulation_allowed p decision)),
      (''exact_invocation_retry_allowed'', JBool (exact_retry_allowed p decision)),
      (''separate_approval_allowed'', JBool (separate_approval_allowed p decision))]"

section \<open>Known risk\<close>

lemma pipeline_parts:
  "rp_semantic_authorization_enabled (pipeline_from_parts d s e) = e" "rp_semantic (pipeline_from_parts d s e) = s"
  "rp_deterministic (pipeline_from_parts d s e) = d"
  by (simp_all add: pipeline_from_parts_def Let_def)

definition known_risk :: "shadow_assessment \<Rightarrow> bool" where
  "known_risk d \<longleftrightarrow> risk_rank (sa_risk d) \<ge> 2"

lemma known_risk_iff: "known_risk d \<longleftrightarrow> sa_risk d = High \<or> sa_risk d = Critical"
  by (cases "sa_risk d") (simp_all add: known_risk_def)

lemma known_risk_denied: "known_risk d \<Longrightarrow> resolve_effect (pipeline_from_parts d s enabled) = EffDenyKnownRisk"
  by (auto simp: known_risk_iff resolve_effect_def resolve_effect_with_basis_def pipeline_from_parts_def)

lemma assess_shell_known_risk:
  assumes "cls \<in> set (classify command)" "cls \<in> {Destructive, Network, GitWrite}"
  shows "known_risk (assess_shell command)"
  using assms by (auto simp: known_risk_iff assess_shell_def Let_def assessment_def)

text \<open>The syntax tree replaces the assessment by a weaker one only when the latter knew nothing.\<close>

lemma ast_authority_keeps: "known_risk legacy \<Longrightarrow> known_risk (apply_shell_ast_authority legacy a rq)"
  by (auto simp: known_risk_def apply_shell_ast_authority_def Let_def ast_authority_wins_def split: if_splits)

lemma assess_invocation_shell_risk:
  assumes "is_shell_name tool_name" "command_argument arguments = Some command" "known_risk (assess_shell command)"
  shows "known_risk (assess_invocation_with_origin fp ast mode tool tool_name arguments si trusted)"
proof (cases mode)
  case AstAuthority
  then show ?thesis using assms
    by (simp add: assess_invocation_with_origin_def Let_def) (rule ast_authority_keeps, simp add: known_risk_def)
qed (use assms in \<open>simp_all add: assess_invocation_with_origin_def Let_def known_risk_def\<close>)

text \<open>
  C40: a known risk is never reasoned away. If a segment of a shell command is destructive, reaches the network or writes Git history, the
  effect of the call resolves to the denial of a known risk, whatever the rest of the command line is, whatever
  the syntax-tree classifier and its mode, the semantic assessor's answer, the configuration and the
  registration of the tool are.
\<close>

theorem known_risk_never_downgraded:
  assumes "is_shell_name tool_name" "command_argument arguments = Some command"
    and "seg \<in> set (split_segments command)" "trim seg \<noteq> []"
    and "classify_segment (trim seg) \<in> {Destructive, Network, GitWrite}"
  shows "resolve_effect (pipeline_from_parts
      (assess_invocation_with_origin fp ast mode tool tool_name arguments si trusted) receipt enabled) = EffDenyKnownRisk"
proof -
  have "classify_segment (trim seg) \<in> set (classify command)"
    by (rule classify_leaf) (use assms(3,4,5) in auto)
  then have "known_risk (assess_shell command)" using assms(5) by (rule assess_shell_known_risk)
  with assms(1,2) show ?thesis by (intro known_risk_denied assess_invocation_shell_risk)
qed

theorem known_risk_never_downgraded_witness:
  "resolve_effect (pipeline_from_parts
      (assess_invocation_with_origin (\<lambda>_ _. ''f'') (\<lambda>_. undefined) AstDisabled None ''Bash''
        (JObject [(''command'', JString ''ls; rm -rf /'')]) None False)
      (semantic_receipt (semantic_request None ''Bash'' JNull None True) StDisabled) True) = EffDenyKnownRisk"
proof -
  have "is_shell_name ''Bash''" "command_argument (JObject [(''command'', JString ''ls; rm -rf /'')]) = Some ''ls; rm -rf /''"
    "'' rm -rf /'' \<in> set (split_segments ''ls; rm -rf /'')" "trim '' rm -rf /'' \<noteq> []"
    "classify_segment (trim '' rm -rf /'') = Destructive" by code_simp+
  then show ?thesis by (intro known_risk_never_downgraded) auto
qed

text \<open>
  Inference decides only what code could not. Where the deterministic assessment knows the effect, the
  answer of the semantic assessor and its authorisation switch change nothing; where it does not, a call is let through only when the
  switch is on and an assessment arrived whose probabilities rule out destruction, irreversibility and
  outside effects, and a capability that the command needs is never dropped from what is then required.
\<close>

theorem semantic_inference_bounded:
  "(\<not> (sa_risk d = Moderate \<and> sa_exposure d = UnknownExposure) \<longrightarrow>
      resolve_effect_with_basis (pipeline_from_parts d s e) = resolve_effect_with_basis (pipeline_from_parts d s' e')) \<and>
   (sa_risk d = Moderate \<and> sa_exposure d = UnknownExposure \<and>
    resolve_effect (pipeline_from_parts d s e) \<notin> {EffDenyKnownRisk, EffDenyUncertain} \<longrightarrow>
      e \<and> rc_status s = StAssessed \<and> (\<exists>v. rc_vector s = Some v \<and> harmless v) \<and>
      (resolve_effect (pipeline_from_parts d s e) = EffReadOnly \<longrightarrow> sa_required_capability d = None))"
proof (intro conjI impI)
  show "resolve_effect_with_basis (pipeline_from_parts d s e) = resolve_effect_with_basis (pipeline_from_parts d s' e')"
    if "\<not> (sa_risk d = Moderate \<and> sa_exposure d = UnknownExposure)"
    using that by (cases "sa_risk d"; cases "sa_exposure d")
      (simp_all add: resolve_effect_with_basis_def pipeline_from_parts_def deterministic_local_effect_def)
next
  assume a: "sa_risk d = Moderate \<and> sa_exposure d = UnknownExposure \<and>
    resolve_effect (pipeline_from_parts d s e) \<notin> {EffDenyKnownRisk, EffDenyUncertain}"
  let ?p = "pipeline_from_parts d s e"
  have r: "resolve_effect ?p = fst (resolve_unknown ?p)" "fst (resolve_unknown ?p) \<noteq> EffDenyUncertain"
    using a by (auto simp: resolve_effect_def resolve_effect_with_basis_def pipeline_from_parts_def Let_def split: if_splits)
  note p = pipeline_parts [of d s e]
  note u = r(2) [unfolded resolve_unknown_def p]
  show e using u by (auto split: if_splits)
  show "rc_status s = StAssessed" using u by (auto split: if_splits option.splits)
  show "\<exists>v. rc_vector s = Some v \<and> harmless v" using u by (auto split: if_splits option.splits)
  have local: "semantic_local_effect ?p \<noteq> EffReadOnly" by (simp add: semantic_local_effect_def Let_def)
  show "sa_required_capability d = None" if "resolve_effect ?p = EffReadOnly"
    using that local unfolding r(1) resolve_unknown_def p
    by (auto simp: compatible_read_def is_some_and_iff pipeline_parts split: if_splits option.splits)
qed

theorem semantic_inference_bounded_witness:
  "resolve_effect_with_basis (pipeline_from_parts (assessment Low LocalExposure ''shell'') malformed_receipt True) =
   resolve_effect_with_basis (pipeline_from_parts (assessment Low LocalExposure ''shell'')
     (malformed_receipt\<lparr>rc_status := StAssessed, rc_vector := Some \<lparr>rv_read_only = 0, rv_may_write = 1,
        rv_reversible = 0, rv_destructive = 1, rv_irreversible = 1, rv_external_or_account_effect = 1\<rparr>\<rparr>) False)"
  using semantic_inference_bounded [of "assessment Low LocalExposure ''shell''" malformed_receipt True
      "malformed_receipt\<lparr>rc_status := StAssessed, rc_vector := Some \<lparr>rv_read_only = 0, rv_may_write = 1,
        rv_reversible = 0, rv_destructive = 1, rv_irreversible = 1, rv_external_or_account_effect = 1\<rparr>\<rparr>" False]
  by (simp add: assessment_def)

end
