(* ===== verification/Enforcement.thy ===== *)
theory Enforcement
  imports Session ToolEnforcer RiskAssessment
begin

text \<open>
  The enforcement pipeline of the gateway (\<open>crates/mcp-gateway/src/enforcement.rs\<close>): which name an adapter's
  tool is enforced under, the decision on a tool call in the current state, and the denials that the resolved effect of the
  call meets (risk first, then the capabilities of the state in which it would run).
\<close>

definition untrusted_exploratory_adapter :: string where
  "untrusted_exploratory_adapter = ''__statewright_untrusted_exploratory_adapter__''"

definition zsh_reason :: string where
  "zsh_reason = ''Zsh is not enabled for guarded shell execution. Use Bash so Statewright can apply its shell policy.''"

datatype enforcement_decision =
    Allow
  | Block string "string list"
  | ImplicitTransition string string
  | CheckpointReached u32 u32

datatype adapter_tool_origin = NativeUnregistered | RegisteredUpstream

definition unsupported_shell_dialect_reason :: "string \<Rightarrow> json \<Rightarrow> string option" where
  "unsupported_shell_dialect_reason requested_tool tool_input =
     (if to_ascii_lowercase requested_tool \<notin> set [''bash'', ''zsh'', ''exec_command'', ''run_command'', ''shell'', ''terminal'']
      then None
      else let requested_shell =
             (case jget_str tool_input ''shell'' of
                None \<Rightarrow> None
              | Some shell \<Rightarrow>
                  (case split_whitespace shell of [] \<Rightarrow> None | w # _ \<Rightarrow> Some (rsplit_next (CHR ''/'') w)))
           in if eq_ignore_ascii_case requested_tool ''zsh''
                 \<or> is_some_and (\<lambda>shell. eq_ignore_ascii_case shell ''zsh'') requested_shell
              then Some zsh_reason else None)"

definition session_allowed_tools :: "gateway_session \<Rightarrow> string list" where
  "session_allowed_tools s = unwrap_or [] (get_allowed_tools (gs_definition s) (gs_current_state s))"

definition allowed_name_for_family :: "gateway_session \<Rightarrow> native_tool_family \<Rightarrow> string option" where
  "allowed_name_for_family s family =
     find (\<lambda>candidate. native_tool_family_of candidate = Some family) (session_allowed_tools s)"

definition allowed_general_read_name :: "gateway_session \<Rightarrow> string option" where
  "allowed_general_read_name s =
     find (\<lambda>candidate. to_ascii_lowercase candidate \<in> set [''read'', ''read_file'']) (session_allowed_tools s)"

fun policy_name_from :: "gateway_session \<Rightarrow> string option \<Rightarrow> string list \<Rightarrow> string option" where
  "policy_name_from s selected [] = selected"
| "policy_name_from s selected (capability # rest) =
     (case native_tool_family_of capability of
        None \<Rightarrow> None
      | Some family \<Rightarrow>
          (case allowed_name_for_family s family of
             None \<Rightarrow> None
           | Some allowed \<Rightarrow> policy_name_from s (or_else selected (Some allowed)) rest))"

definition readonly_shell_policy_name :: "gateway_session \<Rightarrow> json \<Rightarrow> string option" where
  "readonly_shell_policy_name s tool_input =
     (case command_argument tool_input of
        None \<Rightarrow> None
      | Some command \<Rightarrow>
          (case readonly_capabilities (trim command) of
             None \<Rightarrow> None
           | Some capabilities \<Rightarrow> policy_name_from s None capabilities))"

definition resolve_adapter_tool_name_with_pipeline_and_origin ::
  "gateway_session \<Rightarrow> string \<Rightarrow> json \<Rightarrow> risk_pipeline_assessment option \<Rightarrow> adapter_tool_origin \<Rightarrow> string" where
  "resolve_adapter_tool_name_with_pipeline_and_origin s requested tool_input pipeline origin =
     (if tool_is_explicitly_disallowed (gs_definition s) (gs_current_state s) requested then requested
      else if origin = RegisteredUpstream then requested
      else if Option.bind (session_state_def s) sd_intent = Some ''exploratory_read_only'' then
        (case native_tool_family_of requested of
           Some FamRead \<Rightarrow> ''Read''
         | Some FamCommand \<Rightarrow> ''Bash''
         | _ \<Rightarrow> untrusted_exploratory_adapter @ '':'' @ requested)
      else if requested \<in> set (session_allowed_tools s) then requested
      else case native_tool_family_of requested of
        None \<Rightarrow> requested
      | Some family \<Rightarrow>
          (let pipeline_name =
             (if family = FamCommand \<and> is_some_and (\<lambda>p. resolve_effect p = EffReadOnly) pipeline
              then allowed_general_read_name s else None);
               shell_name = (if family = FamCommand then readonly_shell_policy_name s tool_input else None)
           in case pipeline_name of
                Some name \<Rightarrow> name
              | None \<Rightarrow>
                  (case shell_name of
                     Some name \<Rightarrow> name
                   | None \<Rightarrow> unwrap_or requested (allowed_name_for_family s family))))"

definition resolve_adapter_tool_name :: "gateway_session \<Rightarrow> string \<Rightarrow> json \<Rightarrow> string" where
  "resolve_adapter_tool_name s requested tool_input =
     resolve_adapter_tool_name_with_pipeline_and_origin s requested tool_input None NativeUnregistered"

definition resolve_adapter_tool_name_with_pipeline ::
  "gateway_session \<Rightarrow> string \<Rightarrow> json \<Rightarrow> risk_pipeline_assessment option \<Rightarrow> string" where
  "resolve_adapter_tool_name_with_pipeline s requested tool_input pipeline =
     resolve_adapter_tool_name_with_pipeline_and_origin s requested tool_input pipeline NativeUnregistered"

definition block_unavailable :: "gateway_session \<Rightarrow> string \<Rightarrow> enforcement_decision" where
  "block_unavailable s tool_name =
     Block (''Tool '' @ quoted tool_name @ '' is not available in state '' @ quoted (gs_current_state s) @
            ''. Available tools: '' @ join '', '' (session_allowed_tools s)) (session_allowed_tools s)"

definition enforce_tool_call :: "as_f64_fn \<Rightarrow> gateway_session \<Rightarrow> string \<Rightarrow> enforcement_decision" where
  "enforce_tool_call f s tool_name =
     (if starts_with tool_name untrusted_exploratory_adapter then
        Block ''Unregistered adapter tool has no authoritative read-only capability evidence in an exploratory state.''
          (session_allowed_tools s)
      else if eq_ignore_ascii_case tool_name ''zsh'' then Block zsh_reason (session_allowed_tools s)
      else if is_final s then
        Block (''State machine is in final state '' @ quoted (gs_current_state s) @ ''. No tools are available.'') []
      else let result = enforce_tools (gs_definition s) (gs_current_state s) [tool_name]
      in if tool_name \<in> set (te_allowed result) then
           (if is_checkpoint s then CheckpointReached (gs_iteration_count s) (the (max_iterations s)) else Allow)
         else case te_implicit_transition result of
           None \<Rightarrow> block_unavailable s tool_name
         | Some event \<Rightarrow>
             (case resolve_transition f (gs_current_state s) event (JObject []) (gs_context s) (gs_definition s) of
                Inr r \<Rightarrow> if tr_transitioned r then ImplicitTransition event (tr_new_state r) else block_unavailable s tool_name
              | Inl _ \<Rightarrow> block_unavailable s tool_name))"

section \<open>Denials by effect\<close>

definition uses_semantic_effect_policy :: "gateway_session \<Rightarrow> bool" where
  "uses_semantic_effect_policy s \<longleftrightarrow>
     jget_str (gs_context s) ''tool_policy_mode'' \<in>
       set [Some denylist_heuristic_policy_mode, Some legacy_denylist_heuristic_policy_mode]"

definition risk_tolerance :: "gateway_session \<Rightarrow> classifier_risk_tolerance" where
  "risk_tolerance s =
     (case or_else (Option.bind (session_state_def s) sd_classifier_policy)
             (Option.bind (md_meta (gs_definition s)) mm_classifier_policy) of
        Some policy \<Rightarrow> cp_risk_tolerance policy
      | None \<Rightarrow> default_risk_tolerance)"

record semantic_effect_denial =
  dn_reason :: string
  dn_basis :: string
  dn_required_authority :: string

definition local_effects :: "resolved_effect list" where
  "local_effects = [EffLocalWrite, EffBoundedLocalExecution, EffLocalWriteAndGitLocalWrite,
     EffLocalWriteAndBoundedLocalExecution, EffBoundedLocalExecutionAndGitLocalWrite,
     EffLocalWriteAndBoundedLocalExecutionAndGitLocalWrite]"

definition writing_effects :: "resolved_effect list" where
  "writing_effects = [EffLocalWrite, EffLocalWriteAndGitLocalWrite, EffLocalWriteAndBoundedLocalExecution,
     EffLocalWriteAndBoundedLocalExecutionAndGitLocalWrite]"

definition semantic_effect_risk_denial_details ::
  "gateway_session \<Rightarrow> risk_pipeline_assessment \<Rightarrow> semantic_effect_denial option" where
  "semantic_effect_risk_denial_details s p =
     (if \<not> uses_semantic_effect_policy s then None
      else let (effect, basis) = resolve_effect_with_basis p
      in if effect = EffDenyKnownRisk then
           Some \<lparr>dn_reason = ''Operation denied: classifier axis '' @ quoted basis @
                  '' resolved a known destructive, irreversible, or non-local effect. Required authority: '' @
                  required_authority effect @ ''. Equivalent retries are not allowed.'',
                dn_basis = basis, dn_required_authority = required_authority effect\<rparr>
         else if effect = EffDenyUncertain then
           Some \<lparr>dn_reason = ''Operation denied: classifier axis '' @ quoted basis @
                  '' left the effect uncertain after System One assessment. Required authority: '' @
                  required_authority effect @
                  ''. Inspect risk_assessment for the redacted bands and probabilities; do not retry the equivalent operation through another executable.'',
                dn_basis = basis, dn_required_authority = required_authority effect\<rparr>
         else if effect = EffReadOnly \<and> starts_with basis ''semantic_'' \<and> risk_tolerance s \<noteq> AssessedModerateLocal then
           Some \<lparr>dn_reason = ''Operation denied: workflow classifier_policy does not admit semantic resolution at axis '' @
                  quoted basis @ ''. Required authority: assessed_moderate_local. Equivalent retries are not allowed.'',
                dn_basis = ''classifier_policy_semantic_resolution'', dn_required_authority = ''assessed_moderate_local''\<rparr>
         else if effect \<in> set local_effects \<and> risk_tolerance s = LowLocal then
           Some \<lparr>dn_reason = ''Operation denied: workflow classifier_policy permits only low-risk local reads. Required authority: moderate_local or assessed_moderate_local. Equivalent retries are not allowed.'',
                dn_basis = ''classifier_policy_low_local'',
                dn_required_authority = ''moderate_local_or_assessed_moderate_local''\<rparr>
         else if effect \<in> set writing_effects \<and> starts_with basis ''semantic_'' \<and> risk_tolerance s \<noteq> AssessedModerateLocal then
           Some \<lparr>dn_reason = ''Operation denied: workflow classifier_policy does not admit semantic local-write resolution at axis '' @
                  quoted basis @ ''. Required authority: assessed_moderate_local. Equivalent retries are not allowed.'',
                dn_basis = ''classifier_policy_semantic_local_write'', dn_required_authority = ''assessed_moderate_local''\<rparr>
         else None)"

definition semantic_effect_risk_denial :: "gateway_session \<Rightarrow> risk_pipeline_assessment \<Rightarrow> string option" where
  "semantic_effect_risk_denial s p = map_option dn_reason (semantic_effect_risk_denial_details s p)"

definition explicitly_denied :: "gateway_session \<Rightarrow> string \<Rightarrow> bool" where
  "explicitly_denied s capability = tool_is_explicitly_disallowed (gs_definition s) (gs_current_state s) capability"

definition explicitly_allowed :: "gateway_session \<Rightarrow> string \<Rightarrow> bool" where
  "explicitly_allowed s capability =
     is_some_and (list_ex (\<lambda>entry. eq_ignore_ascii_case entry capability))
       (get_allowed_tools (gs_definition s) (gs_current_state s))"

definition has_capability_allowlist :: "gateway_session \<Rightarrow> bool" where
  "has_capability_allowlist s \<longleftrightarrow> Option.bind (session_state_def s) sd_allowed_tools \<noteq> None"

definition capability_denial :: "string \<Rightarrow> gateway_session \<Rightarrow> string \<Rightarrow> string \<Rightarrow> semantic_effect_denial" where
  "capability_denial reason s basis authority =
     \<lparr>dn_reason = reason @ quoted (gs_current_state s) @ ''.'', dn_basis = basis, dn_required_authority = authority\<rparr>"

definition semantic_effect_capability_denial_details ::
  "gateway_session \<Rightarrow> risk_pipeline_assessment \<Rightarrow> semantic_effect_denial option" where
  "semantic_effect_capability_denial_details s p =
     (if \<not> uses_semantic_effect_policy s then None
      else case resolve_effect p of
        EffReadOnly \<Rightarrow>
          if explicitly_denied s ''Read'' then
            Some (capability_denial ''Read-only effect is explicitly blocked in state '' s
              ''workflow_capability_read_denied'' ''Read'')
          else None
      | EffLocalWrite \<Rightarrow>
          if explicitly_denied s ''Write'' \<or> (has_capability_allowlist s \<and> \<not> explicitly_allowed s ''Write'') then
            Some (capability_denial ''Local write effect is explicitly blocked in state '' s
              ''workflow_capability_write_denied'' ''Write'')
          else None
      | EffBoundedLocalExecution \<Rightarrow>
          if explicitly_denied s ''BoundedLocalExecution'' \<or> \<not> explicitly_allowed s ''BoundedLocalExecution'' then
            Some (capability_denial ''Bounded local execution is not explicitly authorized in state '' s
              ''workflow_capability_bounded_local_execution_not_allowed'' ''BoundedLocalExecution'')
          else None
      | EffGitLocalWrite \<Rightarrow>
          if explicitly_denied s ''GitLocalWrite'' \<or> \<not> explicitly_allowed s ''GitLocalWrite'' then
            Some (capability_denial ''Bounded local Git closeout is not explicitly authorized in state '' s
              ''workflow_capability_git_local_write_not_allowed'' ''GitLocalWrite'')
          else None
      | EffLocalWriteAndGitLocalWrite \<Rightarrow>
          if explicitly_denied s ''Write'' \<or> explicitly_denied s ''GitLocalWrite''
             \<or> (has_capability_allowlist s \<and> \<not> explicitly_allowed s ''Write'') \<or> \<not> explicitly_allowed s ''GitLocalWrite'' then
            Some (capability_denial ''Combined local file and bounded Git effects are not authorized in state '' s
              ''workflow_capability_combined_local_write_not_allowed'' ''Write+GitLocalWrite'')
          else None
      | EffLocalWriteAndBoundedLocalExecution \<Rightarrow>
          if explicitly_denied s ''Write'' \<or> explicitly_denied s ''BoundedLocalExecution''
             \<or> (has_capability_allowlist s \<and> \<not> explicitly_allowed s ''Write'')
             \<or> \<not> explicitly_allowed s ''BoundedLocalExecution'' then
            Some (capability_denial ''Combined local file and bounded execution effects are not authorized in state '' s
              ''workflow_capability_write_and_bounded_execution_not_allowed'' ''Write+BoundedLocalExecution'')
          else None
      | EffBoundedLocalExecutionAndGitLocalWrite \<Rightarrow>
          if explicitly_denied s ''BoundedLocalExecution'' \<or> explicitly_denied s ''GitLocalWrite''
             \<or> \<not> explicitly_allowed s ''BoundedLocalExecution'' \<or> \<not> explicitly_allowed s ''GitLocalWrite'' then
            Some (capability_denial ''Combined bounded execution and local Git effects are not authorized in state '' s
              ''workflow_capability_bounded_execution_and_git_not_allowed'' ''BoundedLocalExecution+GitLocalWrite'')
          else None
      | EffLocalWriteAndBoundedLocalExecutionAndGitLocalWrite \<Rightarrow>
          if explicitly_denied s ''Write'' \<or> explicitly_denied s ''BoundedLocalExecution'' \<or> explicitly_denied s ''GitLocalWrite''
             \<or> (has_capability_allowlist s \<and> \<not> explicitly_allowed s ''Write'')
             \<or> \<not> explicitly_allowed s ''BoundedLocalExecution'' \<or> \<not> explicitly_allowed s ''GitLocalWrite'' then
            Some (capability_denial ''Combined local file, bounded execution, and local Git effects are not authorized in state '' s
              ''workflow_capability_combined_local_execution_not_allowed'' ''Write+BoundedLocalExecution+GitLocalWrite'')
          else None
      | EffDenyKnownRisk \<Rightarrow> None
      | EffDenyUncertain \<Rightarrow> None)"

definition semantic_effect_capability_denial :: "gateway_session \<Rightarrow> risk_pipeline_assessment \<Rightarrow> string option" where
  "semantic_effect_capability_denial s p = map_option dn_reason (semantic_effect_capability_denial_details s p)"

section \<open>The capabilities of an effect\<close>

text \<open>The reference: the capabilities an effect consists of, and when a state grants one.\<close>

fun effect_capabilities :: "resolved_effect \<Rightarrow> string set" where
  "effect_capabilities EffReadOnly = {''Read''}"
| "effect_capabilities EffLocalWrite = {''Write''}"
| "effect_capabilities EffBoundedLocalExecution = {''BoundedLocalExecution''}"
| "effect_capabilities EffGitLocalWrite = {''GitLocalWrite''}"
| "effect_capabilities EffLocalWriteAndGitLocalWrite = {''Write'', ''GitLocalWrite''}"
| "effect_capabilities EffLocalWriteAndBoundedLocalExecution = {''Write'', ''BoundedLocalExecution''}"
| "effect_capabilities EffBoundedLocalExecutionAndGitLocalWrite = {''BoundedLocalExecution'', ''GitLocalWrite''}"
| "effect_capabilities EffLocalWriteAndBoundedLocalExecutionAndGitLocalWrite =
     {''Write'', ''BoundedLocalExecution'', ''GitLocalWrite''}"
| "effect_capabilities EffDenyKnownRisk = {}"
| "effect_capabilities EffDenyUncertain = {}"

definition grants :: "gateway_session \<Rightarrow> string \<Rightarrow> bool" where
  "grants s capability \<longleftrightarrow>
     \<not> explicitly_denied s capability \<and>
     (capability \<in> {''BoundedLocalExecution'', ''GitLocalWrite''} \<longrightarrow> explicitly_allowed s capability) \<and>
     (capability = ''Write'' \<and> has_capability_allowlist s \<longrightarrow> explicitly_allowed s ''Write'')"

definition tolerated :: "classifier_risk_tolerance \<Rightarrow> resolved_effect \<Rightarrow> string \<Rightarrow> bool" where
  "tolerated tol effect basis \<longleftrightarrow>
     effect \<notin> {EffDenyKnownRisk, EffDenyUncertain} \<and>
     (tol = LowLocal \<longrightarrow> effect \<in> {EffReadOnly, EffGitLocalWrite}) \<and>
     (tol \<noteq> AssessedModerateLocal \<and> starts_with basis ''semantic_'' \<longrightarrow>
        effect \<in> {EffBoundedLocalExecution, EffGitLocalWrite, EffBoundedLocalExecutionAndGitLocalWrite})"

lemma risk_denial_None:
  assumes "uses_semantic_effect_policy s"
  shows "semantic_effect_risk_denial s p = None \<longleftrightarrow>
    tolerated (risk_tolerance s) (resolve_effect p) (snd (resolve_effect_with_basis p))"
proof (cases "resolve_effect_with_basis p")
  case (Pair effect basis)
  then show ?thesis using assms
    by (cases effect; cases "risk_tolerance s")
      (auto simp: semantic_effect_risk_denial_def semantic_effect_risk_denial_details_def resolve_effect_def
        tolerated_def local_effects_def writing_effects_def)
qed

lemma capability_denial_None:
  assumes "uses_semantic_effect_policy s"
  shows "semantic_effect_capability_denial s p = None \<longleftrightarrow> (\<forall>c \<in> effect_capabilities (resolve_effect p). grants s c)"
  using assms
  by (cases "resolve_effect p")
    (simp_all add: semantic_effect_capability_denial_def semantic_effect_capability_denial_details_def grants_def, auto)

text \<open>
  Under the heuristic policy an effect is let through exactly when the classifier's tolerance of
  the workflow admits it and the state grants every single capability it consists of: reading and
  writing unless denied (writing also when an allow list leaves it out), repository execution and the
  Git closeout only when listed. No combination of effects needs less than its parts together.
\<close>

theorem effect_authorised_iff:
  "uses_semantic_effect_policy s \<Longrightarrow>
   semantic_effect_risk_denial s p = None \<and> semantic_effect_capability_denial s p = None \<longleftrightarrow>
     tolerated (risk_tolerance s) (resolve_effect p) (snd (resolve_effect_with_basis p)) \<and>
     (\<forall>c \<in> effect_capabilities (resolve_effect p). grants s c)"
  using risk_denial_None capability_denial_None by blast

definition git_state :: state_def where
  "git_state = empty_state_def\<lparr>sd_allowed_tools := Some [''Read'', ''gitlocalwrite''],
     sd_on := [(''DONE'', Simple ''done'')], sd_max_iterations := Some 2\<rparr>"

definition git_machine :: machine_definition where
  "git_machine = \<lparr>md_id = ''m'', md_initial = ''commit'',
     md_context = JObject [(''tool_policy_mode'', JString ''denylist_heuristic_v1'')],
     md_states = [(''commit'', git_state), (''done'', empty_state_def\<lparr>sd_allowed_tools := Some [''Bash'']\<rparr>)],
     md_guards = [], md_meta = None, md_interrupts = []\<rparr>"

definition git_session :: gateway_session where
  "git_session = new_session ''a'' git_machine"

definition closeout_pipeline :: risk_pipeline_assessment where
  "closeout_pipeline = pipeline_from_parts (assess_shell ''statewright-git-closeout --message m -- a.txt'') malformed_receipt False"

theorem effect_authorised_iff_witness:
  "semantic_effect_risk_denial git_session closeout_pipeline = None \<and>
   semantic_effect_capability_denial git_session closeout_pipeline = None"
proof -
  have "uses_semantic_effect_policy git_session" by code_simp
  moreover have r: "resolve_effect_with_basis closeout_pipeline = (EffGitLocalWrite, ''deterministic_git_local_write'')"
    by code_simp
  moreover have "tolerated (risk_tolerance git_session) EffGitLocalWrite ''deterministic_git_local_write''" by code_simp
  moreover have "grants git_session ''GitLocalWrite''" by code_simp
  ultimately show ?thesis using effect_authorised_iff [of git_session closeout_pipeline]
    by (simp add: resolve_effect_def)
qed

section \<open>Decisions on a tool call\<close>

lemma implicit_from_permitted:
  "te_implicit_transition (enforce_tools d st [t]) = Some ev \<Longrightarrow> \<not> tool_permitted d st t \<and> \<not> tool_is_explicitly_disallowed d st t"
  by (auto simp: enforce_tools_def Let_def split: if_splits)

text \<open>
  The decision on a tool call. A name that is no refused adapter and not zsh is allowed exactly when the state is not final, the workflow
  permits the tool there and the iteration limit of the state is not reached; it is held at the checkpoint
  exactly when only the limit stands against it; and an implicit transition is offered only for a tool that the state does not
  permit and does not deny, by an event that resolves, guards included, to the offered state.
  Everything else is blocked.
\<close>

theorem enforce_tool_call_decision:
  assumes "\<not> starts_with tool untrusted_exploratory_adapter" "\<not> eq_ignore_ascii_case tool ''zsh''"
  shows "(enforce_tool_call f s tool = Allow \<longleftrightarrow>
      \<not> is_final s \<and> tool_permitted (gs_definition s) (gs_current_state s) tool \<and> \<not> is_checkpoint s) \<and>
    (\<forall>i m. enforce_tool_call f s tool = CheckpointReached i m \<longleftrightarrow>
      \<not> is_final s \<and> tool_permitted (gs_definition s) (gs_current_state s) tool \<and>
      i = gs_iteration_count s \<and> max_iterations s = Some m \<and> m \<le> i) \<and>
    (\<forall>ev st. enforce_tool_call f s tool = ImplicitTransition ev st \<longrightarrow>
      \<not> is_final s \<and> \<not> tool_permitted (gs_definition s) (gs_current_state s) tool \<and>
      \<not> explicitly_denied s tool \<and>
      (\<exists>r. resolve_transition f (gs_current_state s) ev (JObject []) (gs_context s) (gs_definition s) = Ok r \<and>
        tr_transitioned r \<and> tr_new_state r = st))"
proof -
  have cp: "is_checkpoint s \<longleftrightarrow> (\<exists>m. max_iterations s = Some m \<and> m \<le> gs_iteration_count s)"
    by (auto simp: is_checkpoint_def is_some_and_iff)
  show ?thesis
  proof (cases "is_final s \<or> tool_permitted (gs_definition s) (gs_current_state s) tool")
    case True
    then show ?thesis using assms cp
      by (auto simp: enforce_tool_call_def Let_def enforce_tools_parts block_unavailable_def split: option.splits sum.splits)
  next
    case False
    then show ?thesis using assms implicit_from_permitted
      by (fastforce simp: enforce_tool_call_def Let_def enforce_tools_parts block_unavailable_def explicitly_denied_def
          split: option.splits sum.splits if_splits)
  qed
qed

theorem enforce_tool_call_decision_witness:
  "enforce_tool_call (\<lambda>_. None) git_session ''READ'' = Allow"
proof -
  have "\<not> starts_with ''READ'' untrusted_exploratory_adapter" "\<not> eq_ignore_ascii_case ''READ'' ''zsh''"
    "\<not> is_final git_session" "tool_permitted (gs_definition git_session) (gs_current_state git_session) ''READ''"
    "\<not> is_checkpoint git_session" by code_simp+
  then show ?thesis using enforce_tool_call_decision [of "''READ''" "\<lambda>_. None" git_session] by blast
qed

section \<open>Adapter names\<close>

lemma find_family: "find P xs = Some x \<Longrightarrow> x \<in> set xs \<and> P x"
  by (induction xs) (auto split: if_splits)

lemma policy_name_from_Some:
  "policy_name_from s selected caps = Some n \<Longrightarrow> selected = Some n \<or> n \<in> set (session_allowed_tools s)"
proof (induction caps arbitrary: selected)
  case (Cons c caps)
  then obtain fam a where "native_tool_family_of c = Some fam" "allowed_name_for_family s fam = Some a"
    "policy_name_from s (or_else selected (Some a)) caps = Some n" by (auto split: option.splits)
  moreover from this have "a \<in> set (session_allowed_tools s)"
    by (auto simp: allowed_name_for_family_def dest: find_family)
  ultimately show ?case using Cons.IH [of "or_else selected (Some a)"] by (cases selected) auto
qed simp

text \<open>
  An alias never widens what a tool may do. A native call that the state denies by its own name keeps that
  name and is blocked under it; and a shell call is enforced under a name that is not a shell tool's, in a state that is not
  exploratory, only when its command was proved read-only, by the pipeline or by the classifier, and then under
  a name the state lists.
\<close>

theorem adapter_alias_sound:
  assumes "n = resolve_adapter_tool_name_with_pipeline_and_origin s requested input pipeline NativeUnregistered"
  shows "(explicitly_denied s requested \<longrightarrow> (\<forall>f. enforce_tool_call f s n \<noteq> Allow)) \<and>
    (Option.bind (session_state_def s) sd_intent \<noteq> Some ''exploratory_read_only'' \<and>
     native_tool_family_of requested = Some FamCommand \<and> native_tool_family_of n \<noteq> Some FamCommand \<longrightarrow>
       n \<in> set (session_allowed_tools s) \<and>
       ((\<exists>p. pipeline = Some p \<and> resolve_effect p = EffReadOnly) \<or>
        (\<exists>c. command_argument input = Some c \<and> readonly_capabilities (trim c) \<noteq> None)))"
proof (intro conjI impI allI)
  fix f
  assume "explicitly_denied s requested"
  then have "n = requested" "\<not> tool_permitted (gs_definition s) (gs_current_state s) requested"
    using assms permitted_denied
    by (auto simp: resolve_adapter_tool_name_with_pipeline_and_origin_def explicitly_denied_def)
  then show "enforce_tool_call f s n \<noteq> Allow"
    by (auto simp: enforce_tool_call_def Let_def enforce_tools_parts block_unavailable_def split: option.splits sum.splits)
next
  assume a: "Option.bind (session_state_def s) sd_intent \<noteq> Some ''exploratory_read_only'' \<and>
     native_tool_family_of requested = Some FamCommand \<and> native_tool_family_of n \<noteq> Some FamCommand"
  have ne: "n \<noteq> requested" using a by auto
  have fam: "n \<noteq> unwrap_or requested (allowed_name_for_family s FamCommand)"
    using a ne by (auto simp: allowed_name_for_family_def unwrap_or_def dest!: find_family split: option.splits)
  let ?byp = "is_some_and (\<lambda>p. resolve_effect p = EffReadOnly) pipeline \<and> allowed_general_read_name s = Some n"
  have "?byp \<or> readonly_shell_policy_name s input = Some n"
    using assms a ne fam
    by (auto simp: resolve_adapter_tool_name_with_pipeline_and_origin_def split: if_splits option.splits)
  moreover have "?byp \<Longrightarrow> n \<in> set (session_allowed_tools s) \<and> (\<exists>p. pipeline = Some p \<and> resolve_effect p = EffReadOnly)"
    by (auto simp: allowed_general_read_name_def is_some_and_iff dest: find_family)
  moreover have "readonly_shell_policy_name s input = Some n \<Longrightarrow> n \<in> set (session_allowed_tools s) \<and>
      (\<exists>c. command_argument input = Some c \<and> readonly_capabilities (trim c) \<noteq> None)"
    by (auto simp: readonly_shell_policy_name_def dest: policy_name_from_Some split: option.splits)
  ultimately show "n \<in> set (session_allowed_tools s)"
    and "(\<exists>p. pipeline = Some p \<and> resolve_effect p = EffReadOnly) \<or>
        (\<exists>c. command_argument input = Some c \<and> readonly_capabilities (trim c) \<noteq> None)" by blast+
qed

theorem adapter_alias_sound_witness:
  "''Read'' \<in> set (session_allowed_tools git_session) \<and>
   resolve_adapter_tool_name git_session ''bash'' (JObject [(''command'', JString ''cat a'')]) = ''Read''"
proof -
  let ?input = "JObject [(''command'', JString ''cat a'')]"
  have r: "''Read'' = resolve_adapter_tool_name_with_pipeline_and_origin git_session ''bash'' ?input None NativeUnregistered"
    by code_simp
  have "Option.bind (session_state_def git_session) sd_intent \<noteq> Some ''exploratory_read_only''"
    "native_tool_family_of ''bash'' = Some FamCommand" "native_tool_family_of ''Read'' \<noteq> Some FamCommand"
    by code_simp+
  then have "''Read'' \<in> set (session_allowed_tools git_session)" using adapter_alias_sound [OF r] by blast
  then show ?thesis using r by (simp add: resolve_adapter_tool_name_def)
qed

end
