(* ===== verification/Interceptors.thy ===== *)
theory Interceptors
  imports Enforcement
begin

text \<open>
  The interceptors around a tool call (\<open>crates/mcp-gateway/src/interceptors.rs\<close>): the checks that may refuse a
  call before it is forwarded (blocked environment variables, size of an edit, command policy, the effect of a shell
  command, number of files edited), the warnings that accompany it, and what is recorded of it afterwards. Each check is
  one definition that gives the reason of a refusal; they run in the order of the source and the first refusal decides.
\<close>

datatype pre_call_decision = PreAllow | PreBlock string | PreWarn string

record tool_result_content =
  tc_content_type :: string
  tc_text :: string

record tool_call_result =
  tcr_content :: "tool_result_content list"
  tcr_is_error :: bool

record post_call_update =
  pu_file_edited :: "string option"
  pu_file_read :: "string option"
  pu_result_bytes :: u64

section \<open>Identifying tools and arguments\<close>

definition is_edit_tool :: "string \<Rightarrow> bool" where
  "is_edit_tool name \<longleftrightarrow> to_ascii_lowercase name \<in> set [''edit'', ''write'', ''edit_file'', ''write_file'', ''multiedit'',
     ''apply_patch'', ''patch_file'', ''create_file'', ''create_or_update_file'']"

definition is_read_tool :: "string \<Rightarrow> bool" where
  "is_read_tool name \<longleftrightarrow> to_ascii_lowercase name \<in> set [''read'', ''read_file'', ''cat'']"

definition is_native_shell_tool :: "string \<Rightarrow> bool" where
  "is_native_shell_tool name \<longleftrightarrow>
     to_ascii_lowercase name \<in> set [''bash'', ''exec_command'', ''run_command'', ''shell'', ''terminal'']"

definition is_shell_tool :: "string \<Rightarrow> string \<Rightarrow> bool" where
  "is_shell_tool tool_name configured_tool \<longleftrightarrow>
     eq_ignore_ascii_case tool_name configured_tool
     \<or> is_native_shell_tool configured_tool \<and> is_native_shell_tool tool_name"

definition estimate_edit_lines :: "json \<Rightarrow> u32 option" where
  "estimate_edit_lines arguments =
     (case jget_str arguments ''new_string'' of
        Some new_str \<Rightarrow>
          (let old_lines = line_count (unwrap_or [] (jget_str arguments ''old_string''));
               new_lines = line_count new_str;
               diff = (if new_lines > old_lines then new_lines - old_lines else old_lines - new_lines)
           in Some (of_nat (max diff new_lines)))
      | None \<Rightarrow> map_option (\<lambda>content. of_nat (line_count content)) (jget_str arguments ''content''))"

definition extract_command :: "json \<Rightarrow> string option" where
  "extract_command arguments =
     map_option trim (Option.bind (or_else (jget arguments ''command'') (jget arguments ''cmd'')) as_str)"

definition extract_file_path :: "json \<Rightarrow> string option" where
  "extract_file_path arguments =
     Option.bind (or_else (or_else (jget arguments ''file_path'') (jget arguments ''path'')) (jget arguments ''file'')) as_str"

section \<open>The checks before a call\<close>

definition has_name :: "string list \<Rightarrow> string list \<Rightarrow> bool" where
  "has_name allowed_tools names =
     list_ex (\<lambda>allowed. list_ex (\<lambda>candidate. eq_ignore_ascii_case allowed candidate) names) allowed_tools"

fun pipeline_effect_has_capability :: "resolved_effect \<Rightarrow> string list \<Rightarrow> bool" where
  "pipeline_effect_has_capability EffReadOnly tools = has_name tools [''Read'', ''read_file'']"
| "pipeline_effect_has_capability EffLocalWrite tools = has_name tools [''Write'', ''write_file'']"
| "pipeline_effect_has_capability EffBoundedLocalExecution tools = has_name tools [''BoundedLocalExecution'']"
| "pipeline_effect_has_capability EffGitLocalWrite tools = has_name tools [''GitLocalWrite'']"
| "pipeline_effect_has_capability EffLocalWriteAndGitLocalWrite tools =
     (has_name tools [''Write'', ''write_file''] \<and> has_name tools [''GitLocalWrite''])"
| "pipeline_effect_has_capability EffLocalWriteAndBoundedLocalExecution tools =
     (has_name tools [''Write'', ''write_file''] \<and> has_name tools [''BoundedLocalExecution''])"
| "pipeline_effect_has_capability EffBoundedLocalExecutionAndGitLocalWrite tools =
     (has_name tools [''BoundedLocalExecution''] \<and> has_name tools [''GitLocalWrite''])"
| "pipeline_effect_has_capability EffLocalWriteAndBoundedLocalExecutionAndGitLocalWrite tools =
     (has_name tools [''Write'', ''write_file''] \<and> has_name tools [''BoundedLocalExecution'']
      \<and> has_name tools [''GitLocalWrite''])"
| "pipeline_effect_has_capability EffDenyKnownRisk tools = False"
| "pipeline_effect_has_capability EffDenyUncertain tools = False"

definition bash_tool_of :: "state_def \<Rightarrow> string" where
  "bash_tool_of sd = unwrap_or ''Bash'' (sd_allowed_commands_tool sd)"

definition missing_command :: "gateway_session \<Rightarrow> string" where
  "missing_command s = ''Shell invocation is missing command/cmd in state '' @ quoted (gs_current_state s) @ ''.''"

definition environment_check :: "gateway_session \<Rightarrow> state_def \<Rightarrow> string \<Rightarrow> json \<Rightarrow> string option" where
  "environment_check s sd tool_name arguments =
     (if \<not> is_shell_tool tool_name (bash_tool_of sd) then None
      else case sd_blocked_env sd of
        None \<Rightarrow> None
      | Some blocked_env \<Rightarrow>
          if blocked_env = [] then None
          else case extract_command arguments of
            None \<Rightarrow> Some (missing_command s)
          | Some command \<Rightarrow>
              if list_ex (references_environment_variable command) blocked_env
              then Some (''Shell invocation references a blocked environment variable in state '' @
                         quoted (gs_current_state s) @ ''.'')
              else None)"

definition edit_check :: "gateway_session \<Rightarrow> state_def \<Rightarrow> string \<Rightarrow> json \<Rightarrow> string option" where
  "edit_check s sd tool_name arguments =
     (case (sd_max_edit_lines sd, is_edit_tool tool_name, estimate_edit_lines arguments) of
        (Some max_lines, True, Some count) \<Rightarrow>
          if count > max_lines
          then Some (''Edit rejected: '' @ show_word count @ '' lines changed exceeds limit of '' @ show_word max_lines @
                     '' for state '' @ quoted (gs_current_state s) @ ''. Break the edit into smaller changes.'')
          else None
      | _ \<Rightarrow> None)"

definition command_check :: "gateway_session \<Rightarrow> state_def \<Rightarrow> string \<Rightarrow> json \<Rightarrow> string option" where
  "command_check s sd tool_name arguments =
     (if uses_semantic_effect_policy s then None
      else case sd_allowed_commands sd of
        None \<Rightarrow> None
      | Some allowed_cmds \<Rightarrow>
          if \<not> is_shell_tool tool_name (bash_tool_of sd) then None
          else case extract_command arguments of
            None \<Rightarrow> Some (missing_command s)
          | Some command \<Rightarrow>
              if list_ex (matches_allowed_command command) allowed_cmds then None
              else Some (''Command rejected: '' @ quoted command @ '' is not in the allowed commands for state '' @
                         quoted (gs_current_state s) @ ''. Allowed: '' @ join '', '' allowed_cmds))"

definition effective_tools :: "state_def \<Rightarrow> string list option" where
  "effective_tools sd =
     (if sd_intent sd = Some ''exploratory_read_only'' then Some [''Read'', ''Grep'', ''Glob'']
      else sd_allowed_tools sd)"

definition effect_check ::
  "gateway_session \<Rightarrow> state_def \<Rightarrow> string \<Rightarrow> resolved_effect option \<Rightarrow> string list \<Rightarrow> string option" where
  "effect_check s sd command resolved allowed_tools =
     (let pipeline_admitted = is_some_and (\<lambda>effect. pipeline_effect_has_capability effect allowed_tools) resolved;
          exploratory = (sd_intent sd = Some ''exploratory_read_only'')
      in if uses_semantic_effect_policy s \<and> resolved \<noteq> None \<and> \<not> pipeline_admitted
         then Some (''Shell effect is not authorized by the capabilities in state '' @ quoted (gs_current_state s) @ ''.'')
         else if exploratory \<and> \<not> pipeline_admitted \<and> readonly_capabilities command = None
         then Some (''Bash command blocked in exploratory state '' @ quoted (gs_current_state s) @
                    '': only proven read-only commands are permitted.'')
         else if \<not> exploratory \<and> \<not> pipeline_admitted
         then (case check_against_allowed command allowed_tools of
                 Err reason \<Rightarrow> Some (''Bash command blocked in state '' @ quoted (gs_current_state s) @ '': '' @ reason)
               | Ok _ \<Rightarrow> None)
         else None)"

definition shell_check ::
  "gateway_session \<Rightarrow> state_def \<Rightarrow> string \<Rightarrow> json \<Rightarrow> risk_pipeline_assessment option \<Rightarrow> string option" where
  "shell_check s sd tool_name arguments pipeline =
     (if \<not> is_shell_tool tool_name (bash_tool_of sd) then None
      else case extract_command arguments of
        None \<Rightarrow> Some (missing_command s)
      | Some command \<Rightarrow>
          if uses_semantic_effect_policy s \<and> pipeline = None
             \<and> list_ex (\<lambda>c. c \<in> {Opaque, Passthrough}) (classify command)
          then Some (''Shell command blocked in state '' @ quoted (gs_current_state s) @
                     '': unresolved execution requires the risk pipeline.'')
          else case effective_tools sd of
            None \<Rightarrow> None
          | Some allowed_tools \<Rightarrow> effect_check s sd command (map_option resolve_effect pipeline) allowed_tools)"

definition scope_check :: "gateway_session \<Rightarrow> state_def \<Rightarrow> string \<Rightarrow> json \<Rightarrow> string option" where
  "scope_check s sd tool_name arguments =
     (case (sd_max_files_per_state sd, is_edit_tool tool_name, extract_file_path arguments) of
        (Some max_files, True, Some file_path) \<Rightarrow>
          if file_path \<notin> set (gs_files_edited s) \<and> (of_nat (length (gs_files_edited s)) :: u32) \<ge> max_files
          then Some (''Edit rejected: already edited '' @ show_nat (length (gs_files_edited s)) @ '' files in state '' @
                     quoted (gs_current_state s) @ '' (limit: '' @ show_word max_files @
                     ''). Transition to next state or reduce scope. Files edited: '' @ join '', '' (gs_files_edited s))
          else None
      | _ \<Rightarrow> None)"

definition read_warning :: "gateway_session \<Rightarrow> string \<Rightarrow> json \<Rightarrow> string list" where
  "read_warning s tool_name arguments =
     (case (is_read_tool tool_name, extract_file_path arguments) of
        (True, Some file_path) \<Rightarrow>
          (let read_count = unwrap_or 0 (gs_files_read s file_path)
           in if read_count \<ge> 2
              then [''[STATEWRIGHT] You have read '' @ quoted file_path @ '' '' @ show_word read_count @
                    '' times in this state. The content is already in your context.'']
              else [])
      | _ \<Rightarrow> [])"

definition budget_percent :: "gateway_session \<Rightarrow> u64 \<Rightarrow> rat" where
  "budget_percent s budget = f64_mul (f64_div (f64_of_u64 (gs_context_bytes s)) (f64_of_u64 budget)) 100"

text \<open>\<open>{:.0}\<close> prints a double rounded to the nearest integer, ties to even.\<close>

definition budget_warning :: "gateway_session \<Rightarrow> state_def \<Rightarrow> string list" where
  "budget_warning s sd =
     (case sd_context_budget_bytes sd of
        None \<Rightarrow> []
      | Some budget \<Rightarrow>
          if budget > 0 \<and> budget_percent s budget \<ge> 90
          then [''[STATEWRIGHT] Context budget: '' @ show_nat (nat (round_half_even (budget_percent s budget))) @
                ''% used ('' @ show_word (gs_context_bytes s) @ ''/'' @ show_word budget @ '' bytes) in state '' @
                quoted (gs_current_state s) @ ''. Consider transitioning.'']
          else [])"

fun first_reason :: "string option list \<Rightarrow> string option" where
  "first_reason [] = None"
| "first_reason (Some r # rs) = Some r"
| "first_reason (None # rs) = first_reason rs"

definition pre_call_reason ::
  "gateway_session \<Rightarrow> state_def \<Rightarrow> string \<Rightarrow> json \<Rightarrow> risk_pipeline_assessment option \<Rightarrow> string option" where
  "pre_call_reason s sd tool_name arguments pipeline =
     first_reason [environment_check s sd tool_name arguments, edit_check s sd tool_name arguments,
       command_check s sd tool_name arguments, shell_check s sd tool_name arguments pipeline,
       scope_check s sd tool_name arguments]"

definition pre_call_check_with_pipeline ::
  "gateway_session \<Rightarrow> string \<Rightarrow> json \<Rightarrow> risk_pipeline_assessment option \<Rightarrow> pre_call_decision" where
  "pre_call_check_with_pipeline s tool_name arguments pipeline =
     (case unsupported_shell_dialect_reason tool_name arguments of
        Some reason \<Rightarrow> PreBlock reason
      | None \<Rightarrow>
          (case session_state_def s of
             None \<Rightarrow> PreAllow
           | Some sd \<Rightarrow>
               (case pre_call_reason s sd tool_name arguments pipeline of
                  Some reason \<Rightarrow> PreBlock reason
                | None \<Rightarrow>
                    (let warnings = read_warning s tool_name arguments @ budget_warning s sd
                     in if warnings = [] then PreAllow else PreWarn (join [CHR 0x0A] warnings)))))"

definition pre_call_check :: "gateway_session \<Rightarrow> string \<Rightarrow> json \<Rightarrow> pre_call_decision" where
  "pre_call_check s tool_name arguments = pre_call_check_with_pipeline s tool_name arguments None"

section \<open>What a call leaves behind\<close>

definition post_call_annotations :: "string \<Rightarrow> json \<Rightarrow> tool_call_result \<Rightarrow> post_call_update" where
  "post_call_annotations tool_name arguments result =
     \<lparr>pu_file_edited =
        (if \<not> tcr_is_error result \<and> is_edit_tool tool_name then extract_file_path arguments else None),
      pu_file_read =
        (if \<not> tcr_is_error result \<and> is_read_tool tool_name then extract_file_path arguments else None),
      pu_result_bytes = sum_list (map (\<lambda>c. of_nat (length (tc_text c))) (tcr_content result))\<rparr>"

section \<open>What a cleared call satisfies\<close>

definition cleared :: "pre_call_decision \<Rightarrow> bool" where
  "cleared d \<longleftrightarrow> (\<forall>reason. d \<noteq> PreBlock reason)"

lemma first_reason_None [simp]: "first_reason rs = None \<longleftrightarrow> (\<forall>r \<in> set rs. r = None)"
  by (induction rs rule: first_reason.induct) auto

lemma cleared_iff:
  "session_state_def s = Some sd \<Longrightarrow>
   cleared (pre_call_check_with_pipeline s tool args p) \<longleftrightarrow>
     unsupported_shell_dialect_reason tool args = None \<and> environment_check s sd tool args = None \<and>
     edit_check s sd tool args = None \<and> command_check s sd tool args = None \<and>
     shell_check s sd tool args p = None \<and> scope_check s sd tool args = None"
proof -
  assume "session_state_def s = Some sd"
  then have "cleared (pre_call_check_with_pipeline s tool args p) \<longleftrightarrow>
      unsupported_shell_dialect_reason tool args = None \<and> pre_call_reason s sd tool args p = None"
    by (auto simp: cleared_def pre_call_check_with_pipeline_def Let_def split: option.splits)
  then show ?thesis by (simp add: pre_call_reason_def)
qed

text \<open>The number of files edited in a state stays within the limit when an edit is cleared before it is recorded.\<close>

lemma scope_check_budget:
  assumes "scope_check s sd tool args = None" "sd_max_files_per_state sd = Some max_files"
    and "is_edit_tool tool" "extract_file_path args = Some path"
    and "length (gs_files_edited s) \<le> unat max_files"
  shows "length (gs_files_edited (note_file_edit path s)) \<le> unat max_files"
proof (cases "path \<in> set (gs_files_edited s)")
  case False
  have len: "unat (of_nat (length (gs_files_edited s)) :: u32) = length (gs_files_edited s)"
    using assms(5) unat_u32 [of max_files] by (simp add: unat_of_nat)
  from assms False have "\<not> (of_nat (length (gs_files_edited s)) :: u32) \<ge> max_files"
    by (simp add: scope_check_def split: if_splits)
  then have "length (gs_files_edited s) < unat max_files" by (simp add: word_le_nat_alt len)
  with False show ?thesis by (simp add: note_file_edit_def)
qed (use assms(5) in \<open>simp add: note_file_edit_def\<close>)

text \<open>What the checks leave of a shell command: the reference that the property below compares with.\<close>

definition shell_admitted ::
  "gateway_session \<Rightarrow> state_def \<Rightarrow> string \<Rightarrow> risk_pipeline_assessment option \<Rightarrow> bool" where
  "shell_admitted s sd command p \<longleftrightarrow>
     (\<forall>v \<in> set (unwrap_or [] (sd_blocked_env sd)). \<not> references_environment_variable command v) \<and>
     (uses_semantic_effect_policy s \<or> is_none_or (list_ex (matches_allowed_command command)) (sd_allowed_commands sd)) \<and>
     (uses_semantic_effect_policy s \<longrightarrow> p \<noteq> None \<or> set (classify command) \<inter> {Opaque, Passthrough} = {}) \<and>
     (\<forall>tools. effective_tools sd = Some tools \<longrightarrow>
        (\<exists>q. p = Some q \<and> pipeline_effect_has_capability (resolve_effect q) tools) \<or>
        (\<not> (uses_semantic_effect_policy s \<and> p \<noteq> None) \<and>
         (if sd_intent sd = Some ''exploratory_read_only'' then readonly_capabilities command \<noteq> None
          else check_against_allowed command tools = Ok ())))"

lemma effect_check_None:
  "effect_check s sd command resolved tools = None \<longleftrightarrow>
     is_some_and (\<lambda>e. pipeline_effect_has_capability e tools) resolved \<or>
     (\<not> (uses_semantic_effect_policy s \<and> resolved \<noteq> None) \<and>
      (if sd_intent sd = Some ''exploratory_read_only'' then readonly_capabilities command \<noteq> None
       else check_against_allowed command tools = Ok ()))"
  by (cases "check_against_allowed command tools") (auto simp: effect_check_def Let_def)

lemma shell_checks_None:
  assumes "is_shell_tool tool (bash_tool_of sd)"
  shows "environment_check s sd tool args = None \<and> command_check s sd tool args = None \<and> shell_check s sd tool args p = None \<longleftrightarrow>
    (\<exists>command. extract_command args = Some command \<and> shell_admitted s sd command p)"
proof (cases "extract_command args")
  case None
  then show ?thesis using assms by (simp add: shell_check_def)
next
  case (Some command)
  have e: "environment_check s sd tool args = None \<longleftrightarrow>
      (\<forall>v \<in> set (unwrap_or [] (sd_blocked_env sd)). \<not> references_environment_variable command v)"
    using assms Some by (cases "sd_blocked_env sd") (auto simp: environment_check_def list_ex_iff)
  have c: "command_check s sd tool args = None \<longleftrightarrow>
      uses_semantic_effect_policy s \<or> is_none_or (list_ex (matches_allowed_command command)) (sd_allowed_commands sd)"
    using assms Some by (cases "sd_allowed_commands sd") (auto simp: command_check_def)
  have "shell_check s sd tool args p = None \<longleftrightarrow>
      (uses_semantic_effect_policy s \<longrightarrow> p \<noteq> None \<or> set (classify command) \<inter> {Opaque, Passthrough} = {}) \<and>
      (\<forall>tools. effective_tools sd = Some tools \<longrightarrow> effect_check s sd command (map_option resolve_effect p) tools = None)"
    using assms Some by (cases "effective_tools sd") (auto simp: shell_check_def list_ex_iff)
  then show ?thesis using e c Some
    by (cases p) (simp_all add: shell_admitted_def effect_check_None)
qed

text \<open>
  C16: a shell command passes the interceptors exactly when it is present and admitted: it names no
  blocked environment variable; outside the effect policy it matches an allowed command; under the
  effect policy it was assessed or its operations are all understood; and where the state lists
  tools, either the state lists a capability for every part of the assessed effect, or (never when an assessment
  exists under the effect policy) the command is proved read-only in an exploratory state and
  within the allowed tools elsewhere. The size and the scope of edits are checked in addition.
\<close>

theorem pre_call_shell_iff:
  assumes "session_state_def s = Some sd" "is_shell_tool tool (bash_tool_of sd)"
  shows "cleared (pre_call_check_with_pipeline s tool args p) \<longleftrightarrow>
    unsupported_shell_dialect_reason tool args = None \<and>
    edit_check s sd tool args = None \<and> scope_check s sd tool args = None \<and>
    (\<exists>command. extract_command args = Some command \<and> shell_admitted s sd command p)"
  using shell_checks_None [OF assms(2), of s args p] by (auto simp: cleared_iff [OF assms(1)])

definition explore_session :: gateway_session where
  "explore_session = new_session ''a'' \<lparr>md_id = ''m'', md_initial = ''look'', md_context = JObject [],
     md_states = [(''look'', empty_state_def\<lparr>sd_intent := Some ''exploratory_read_only'',
        sd_blocked_env := Some [''TOKEN'']\<rparr>)],
     md_guards = [], md_meta = None, md_interrupts = []\<rparr>"

definition shell_call :: "string \<Rightarrow> json" where
  "shell_call command = JObject [(''command'', JString command)]"

theorem pre_call_shell_iff_witness:
  "cleared (pre_call_check_with_pipeline explore_session ''Bash'' (shell_call ''grep -n x a.txt'') None) \<and>
   \<not> cleared (pre_call_check_with_pipeline explore_session ''Bash'' (shell_call ''echo $TOKEN'') None)"
proof -
  obtain sd where sd: "session_state_def explore_session = Some sd" "is_shell_tool ''Bash'' (bash_tool_of sd)"
    "sd_intent sd = Some ''exploratory_read_only''" "sd_blocked_env sd = Some [''TOKEN'']"
    by (simp add: explore_session_def new_session_def session_state_def_def canonical_definition_def is_shell_tool_def
        bash_tool_of_def empty_state_def_def)
  have calls: "extract_command (shell_call ''grep -n x a.txt'') = Some ''grep -n x a.txt''"
    "extract_command (shell_call ''echo $TOKEN'') = Some ''echo $TOKEN''"
    "unsupported_shell_dialect_reason ''Bash'' (shell_call ''grep -n x a.txt'') = None"
    by code_simp+
  have cmds: "readonly_capabilities ''grep -n x a.txt'' \<noteq> None"
    "\<not> references_environment_variable ''grep -n x a.txt'' ''TOKEN''"
    "references_environment_variable ''echo $TOKEN'' ''TOKEN''"
    by code_simp+
  have np: "\<not> uses_semantic_effect_policy explore_session" "sd_allowed_commands sd = None"
    by code_simp (use sd(1) in \<open>auto simp: explore_session_def new_session_def session_state_def_def
      canonical_definition_def empty_state_def_def\<close>)
  have other: "edit_check explore_session sd ''Bash'' args = None" "scope_check explore_session sd ''Bash'' args = None" for args
  proof -
    have "\<not> is_edit_tool ''Bash''" by code_simp
    then show "edit_check explore_session sd ''Bash'' args = None" "scope_check explore_session sd ''Bash'' args = None"
      by (simp_all add: edit_check_def scope_check_def split: option.splits)
  qed
  have "shell_admitted explore_session sd ''grep -n x a.txt'' None"
    "\<not> shell_admitted explore_session sd ''echo $TOKEN'' None"
    using sd np cmds by (auto simp: shell_admitted_def)
  then show ?thesis
    using pre_call_shell_iff [OF sd(1,2)] calls other by auto
qed

end
