(* ===== verification/CustomTools.thy ===== *)
theory CustomTools
  imports Usage RiskAssessment Session
begin

text \<open>
  The tools that the gateway serves itself (\<open>crates/mcp-gateway/src/custom_tools.rs\<close>): the transition of
  a session with the JSON reply that describes it, the state projection, and the tools that are advertised and
  recognised. Replies are JSON objects as the source builds them, because the gateway reads their fields back.
  The conversion of guards, metadata and classifier policies to JSON is derived by serde and is a parameter.
\<close>

definition u64_json :: "u64 \<Rightarrow> json" where
  "u64_json n = JNumber (PosInt n)"

definition u32_json :: "u32 \<Rightarrow> json" where
  "u32_json n = JNumber (PosInt (ucast n))"

definition strings_json :: "string list \<Rightarrow> json" where
  "strings_json xs = JArray (map JString xs)"

section \<open>Transitions\<close>

definition usage_json :: "gateway_session \<Rightarrow> json" where
  "usage_json s =
     (case usage s of
        (used, limit, _) \<Rightarrow>
          (let base = json_object
             [(''transitions'', u64_json used),
              (''limit'', opt_json u64_json limit),
              (''remaining'', opt_json (\<lambda>l. u64_json (saturating_sub l used)) limit)]
           in case usage_warning s of
                Some warning \<Rightarrow> jset base ''warning'' (JString warning)
              | None \<Rightarrow> base))"

definition transition_reply :: "gateway_session \<Rightarrow> string \<Rightarrow> string \<Rightarrow> transition_result \<Rightarrow> json" where
  "transition_reply s old_state to r = json_object
     [(''transitioned'', JBool True),
      (''from'', JString old_state),
      (''to'', JString to),
      (''requires_approval'', JBool (tr_requires_approval r)),
      (''approval_message'', opt_json JString (tr_approval_message r)),
      (''transition_count'', u64_json (gs_transition_count s)),
      (''usage'', usage_json s)]"

definition invoke_json :: "invoke_result \<Rightarrow> json" where
  "invoke_json iv = json_object
     [(''machine'', JString (ir_machine iv)),
      (''on_complete'', JString (ir_on_complete iv)),
      (''on_fail'', opt_json JString (ir_on_fail iv)),
      (''input'', unwrap_or JNull (ir_input iv))]"

definition join_name :: "join_strategy \<Rightarrow> string" where
  "join_name j = (case j of JoinAll \<Rightarrow> ''all'' | JoinAny \<Rightarrow> ''any'')"

definition branch_json :: "branch_def \<Rightarrow> json" where
  "branch_json b = json_object [(''initial'', JString (br_initial b)), (''terminal'', JString (br_terminal b))]"

definition fork_json :: "fork_result \<Rightarrow> json" where
  "fork_json fork = json_object
     [(''branches'', json_object (map (\<lambda>(name, b). (name, branch_json b)) (fr_branches fork))),
      (''join'', JString (join_name (fr_join fork))),
      (''on_complete'', JString (fr_on_complete fork)),
      (''on_fail'', opt_json JString (fr_on_fail fork))]"

definition handle_transition ::
  "as_f64_fn \<Rightarrow> string \<Rightarrow> gateway_session \<Rightarrow> (json, string) result \<times> gateway_session" where
  "handle_transition f event s =
     (if is_final s then
        (Err (''Cannot transition: state machine is in final state '' @ quoted (gs_current_state s) @ ''.''), s)
      else case resolve_transition f (gs_current_state s) event (JObject []) (gs_context s) (gs_definition s) of
        Err e \<Rightarrow>
          (Err (''No transition for event '' @ quoted event @ '' in state '' @ quoted (gs_current_state s) @ '': '' @
                show_transition_error e), s)
      | Ok r \<Rightarrow>
          if \<not> tr_transitioned r then
            (Err (''Transition '' @ quoted event @ '' from state '' @ quoted (gs_current_state s) @
                  '' was blocked by a guard condition.''), s)
          else (case tr_invoke r of
             Some iv \<Rightarrow>
               (Ok (jset (transition_reply s (gs_current_state s) (ir_on_complete iv) r) ''invoke'' (invoke_json iv)), s)
           | None \<Rightarrow>
               (let s' = s\<lparr>gs_current_state := tr_new_state r,
                           gs_context := canonicalize_tool_policy_mode (tr_new_context r),
                           gs_iteration_count := 0\<rparr>;
                    reply = transition_reply s' (gs_current_state s) (tr_new_state r) r
                in (Ok (case tr_fork r of
                          Some fork \<Rightarrow> jset reply ''fork'' (fork_json fork)
                        | None \<Rightarrow> reply), s'))))"

section \<open>The state projection\<close>

record serde_fns =
  sv_guard :: "guard_def \<Rightarrow> json"
  sv_meta :: "machine_meta \<Rightarrow> json"
  sv_policy :: "classifier_policy \<Rightarrow> json"

fun reported_guards :: "transition_def \<Rightarrow> string list" where
  "reported_guards (Guarded branches) = List.map_filter gt_guard branches"
| "reported_guards t = guard_names t"

definition guard_info :: "serde_fns \<Rightarrow> gateway_session \<Rightarrow> json" where
  "guard_info sv s =
     (case session_state_def s of
        None \<Rightarrow> JNull
      | Some sd \<Rightarrow>
          (let names = concat (map reported_guards (bt_values (sd_on sd)));
               guards = List.map_filter (\<lambda>name.
                 map_option (\<lambda>g. (name, sv_guard sv g)) (bt_get (md_guards (gs_definition s)) name)) names
           in if guards = [] then JNull else json_object guards))"

definition state_policy :: "gateway_session \<Rightarrow> classifier_policy" where
  "state_policy s =
     unwrap_or default_classifier_policy
       (or_else (Option.bind (session_state_def s) sd_classifier_policy)
          (Option.bind (md_meta (gs_definition s)) mm_classifier_policy))"

definition state_field :: "gateway_session \<Rightarrow> (state_def \<Rightarrow> 'a option) \<Rightarrow> ('a \<Rightarrow> json) \<Rightarrow> json" where
  "state_field s field conv = opt_json conv (Option.bind (session_state_def s) field)"

definition state_base :: "serde_fns \<Rightarrow> gateway_session \<Rightarrow> json" where
  "state_base sv s =
     (let default_model = Option.bind (md_meta (gs_definition s)) mm_default_model
      in json_object
        [(''state'', JString (gs_current_state s)),
         (''is_final'', JBool (is_final s)),
         (''allowed_tools'', strings_json (unwrap_or [] (Option.bind (session_state_def s) sd_allowed_tools))),
         (''transitions'', JArray (case session_state_def s of
            None \<Rightarrow> []
          | Some sd \<Rightarrow> map (\<lambda>(event, t). json_object [(''event'', JString event), (''target'', JString (target t))]) (sd_on sd))),
         (''iteration'', u32_json (gs_iteration_count s)),
         (''max_iterations'', state_field s sd_max_iterations u32_json),
         (''instructions'', state_field s sd_instructions JString),
         (''model'', opt_json JString (or_else (Option.bind (session_state_def s) sd_model) default_model)),
         (''default_model'', opt_json JString default_model),
         (''thinking_level'', state_field s sd_thinking_level JString),
         (''transition_count'', u64_json (gs_transition_count s)),
         (''blocked_env'', state_field s sd_blocked_env strings_json),
         (''env_overrides'', state_field s sd_env_overrides (\<lambda>m. json_object (map (\<lambda>(k, v). (k, JString v)) m))),
         (''context'', canonicalize_tool_policy_mode (gs_context s)),
         (''guards'', guard_info sv s),
         (''meta'', opt_json (sv_meta sv) (md_meta (gs_definition s))),
         (''allowed_commands'', state_field s sd_allowed_commands strings_json),
         (''disallowed_tools'', state_field s sd_disallowed_tools strings_json),
         (''intent'', state_field s sd_intent JString),
         (''direct_execution'', JBool (unwrap_or False (Option.bind (session_state_def s) sd_direct_execution))),
         (''model_ladder'', state_field s sd_model_ladder JArray),
         (''classifier_policy'', sv_policy sv (state_policy s))])"

definition handle_get_state :: "serde_fns \<Rightarrow> gateway_session \<Rightarrow> json" where
  "handle_get_state sv s =
     (let base = state_base sv s;
          r1 = (if md_interrupts (gs_definition s) = [] then base
                else jset base ''interrupts'' (json_object (map (\<lambda>(name, i).
                  (name, json_object [(''file_pattern'', JString (id_file_pattern i)), (''target'', JString (id_target i))]))
                  (md_interrupts (gs_definition s)))));
          r2 = (case gs_pending_approval s of
                  None \<Rightarrow> r1
                | Some p \<Rightarrow> jset r1 ''pending_approval'' (json_object
                    [(''approval_id'', JString (pa_approval_id p)), (''event'', JString (pa_event p)),
                     (''from_state'', JString (pa_from_state p)), (''to_state'', JString (pa_to_state p)),
                     (''message'', opt_json JString (pa_message p))]))
      in case jget_str (gs_context s) return_key of
           None \<Rightarrow> r2
         | Some return_state \<Rightarrow> jset r2 ''interrupt_handler'' (json_object
             [(''return_state'', JString return_state),
              (''message'', JString ''You are in an interrupt handler. Complete validation and transition to return.'')]))"

section \<open>The tools on offer\<close>

definition tool_transition :: tool_info where
  "tool_transition = \<lparr>ti_name = ''statewright_transition'', ti_annotations = None,
     ti_description = Some ''Transition the state machine to a new state by emitting an event.'',
     ti_input_schema = json_object [(''type'', JString ''object''),
       (''properties'', json_object [(''event'', json_object [(''type'', JString ''string''),
       (''description'', JString ''The transition event name (e.g., DONE, FAIL, PLAN_READY)'')]),
       (''data'', json_object [(''type'', JString ''object''),
       (''description'', JString ''Optional context data merged after the transition completes. Available for guard evaluation on subsequent transitions, not the current one.'')])]),
       (''required'', JArray [JString ''event''])]\<rparr>"

definition tool_get_state :: tool_info where
  "tool_get_state = \<lparr>ti_name = ''statewright_get_state'', ti_annotations = Some read_only_annotations,
     ti_description = Some ''Get the current state machine state, available tools, transitions, and iteration count.'',
     ti_input_schema = json_object [(''type'', JString ''object''), (''properties'', json_object [])]\<rparr>"

definition tool_get_usage :: tool_info where
  "tool_get_usage = \<lparr>ti_name = ''statewright_get_usage'', ti_annotations = Some read_only_annotations,
     ti_description = Some ''Get state-level provider token usage, tool-result estimates, and non-tool overhead. Values identify whether they are exact or estimated.'',
     ti_input_schema = json_object [(''type'', JString ''object''), (''properties'', json_object [])]\<rparr>"

definition tool_list_workflows :: tool_info where
  "tool_list_workflows = \<lparr>ti_name = ''statewright_list_workflows'', ti_annotations = Some read_only_annotations,
     ti_description = Some ''List all available named workflows and which one is currently active.'',
     ti_input_schema = json_object [(''type'', JString ''object''), (''properties'', json_object [])]\<rparr>"

definition tool_get_workflow :: tool_info where
  "tool_get_workflow = \<lparr>ti_name = ''statewright_get_workflow'', ti_annotations = Some read_only_annotations,
     ti_description = Some ''Get the complete stored definition for one exact workflow name, including a disabled workflow being managed. Use it before create_workflow(overwrite=true) to preserve existing routing and controls.'',
     ti_input_schema = json_object [(''type'', JString ''object''),
       (''properties'', json_object [(''name'', json_object [(''type'', JString ''string''),
       (''minLength'', JNumber (PosInt 1)), (''description'', JString ''Exact stored workflow name'')])]),
       (''required'', JArray [JString ''name'']), (''additionalProperties'', JBool False)]\<rparr>"

definition tool_load_workflow :: tool_info where
  "tool_load_workflow = \<lparr>ti_name = ''statewright_load_workflow'', ti_annotations = None,
     ti_description = Some (''Load a named workflow, resetting the state machine to the workflow'' @ [CHR 0x27] @ ''s initial state.''),
     ti_input_schema = json_object [(''type'', JString ''object''),
       (''properties'', json_object [(''name'', json_object [(''type'', JString ''string''),
       (''description'', JString ''Exact workflow name returned by statewright_list_workflows or explicitly supplied by the user'')]),
       (''session_id'', json_object [(''type'', JString ''string''),
       (''description'', JString ''Client session identifier for per-session state isolation'')]),
       (''project_id'', json_object [(''type'', JString ''string''),
       (''description'', JString ''Project identifier (cwd hash) for per-project run scoping'')]),
       (''resume'', json_object [(''type'', JString ''boolean''),
       (''description'', JString ''Resume from the last paused run of this workflow instead of starting fresh'')]),
       (''run_id'', json_object [(''type'', JString ''string''), (''minLength'', JNumber (PosInt 1)),
       (''description'', JString ''Exact owned paused run to resume. Requires resume=true; a miss never creates a new run.'')]),
       (''branch'', json_object [(''type'', JString ''string''),
       (''description'', JString ''Connect to a specific fork branch session (for parallel sub-agents)'')])]),
       (''required'', JArray [JString ''name''])]\<rparr>"

definition tool_pause :: tool_info where
  "tool_pause = \<lparr>ti_name = ''statewright_pause'', ti_annotations = None,
     ti_description = Some ''Pause the current workflow. State and context are saved. Resume later with statewright_load_workflow(name, resume=true).'',
     ti_input_schema = json_object [(''type'', JString ''object''), (''properties'', json_object [])]\<rparr>"

definition tool_deactivate :: tool_info where
  "tool_deactivate = \<lparr>ti_name = ''statewright_deactivate'', ti_annotations = None,
     ti_description = Some ''Deactivate workflow enforcement. All tools pass through without restriction.'',
     ti_input_schema = json_object [(''type'', JString ''object''), (''properties'', json_object [])]\<rparr>"

definition tool_get_status :: tool_info where
  "tool_get_status = \<lparr>ti_name = ''statewright_get_status'', ti_annotations = None,
     ti_description = Some ''Get gateway status: active workflow, current state, available workflows.'',
     ti_input_schema = json_object [(''type'', JString ''object''), (''properties'', json_object [])]\<rparr>"

definition tool_create_workflow :: tool_info where
  "tool_create_workflow = \<lparr>ti_name = ''statewright_create_workflow'', ti_annotations = None,
     ti_description = Some ''Create or overwrite a workflow from a JSON definition. Set meta.enabled=false to keep it stored but unavailable to list/load. Schema at https://statewright.ai/workflow-schema.json'',
     ti_input_schema = json_object [(''type'', JString ''object''),
       (''properties'', json_object [(''name'', json_object [(''type'', JString ''string''),
       (''description'', JString (''Workflow name (lowercase, hyphens, e.g. '' @ [CHR 0x27] @ ''data-pipeline'' @ [CHR 0x27] @ '')''))]),
       (''definition'', json_object [(''type'', JString ''object''),
       (''description'', JString ''Full workflow definition matching the schema at /workflow-schema.json'')]),
       (''overwrite'', json_object [(''type'', JString ''boolean''),
       (''description'', JString ''If true, overwrite an existing workflow with the same name'')])]),
       (''required'', JArray [JString ''name'', JString ''definition''])]\<rparr>"

definition tool_run_agent :: tool_info where
  "tool_run_agent = \<lparr>ti_name = ''statewright_run_agent'', ti_annotations = None,
     ti_description = Some ''Run a state-machine-constrained agent to fix bugs or build features. Spawns the Rust agent executor and streams progress.'',
     ti_input_schema = json_object [(''type'', JString ''object''),
       (''properties'', json_object [(''task'', json_object [(''type'', JString ''string''),
       (''description'', JString ''What to fix or build'')]),
       (''model'', json_object [(''type'', JString ''string''),
       (''description'', JString ''Ollama model to use (default: gemma4:31b)'')]),
       (''workdir'', json_object [(''type'', JString ''string''),
       (''description'', JString ''Working directory (default: current directory)'')])]),
       (''required'', JArray [JString ''task''])]\<rparr>"

definition tool_get_model_traits :: tool_info where
  "tool_get_model_traits = \<lparr>ti_name = ''statewright_get_model_traits'', ti_annotations = None,
     ti_description = Some ''Get model behavioral traits from the registry. Returns tool_mode, reasoning support, context limits, and other characteristics the agent should use to configure itself for the given model.'',
     ti_input_schema = json_object [(''type'', JString ''object''),
       (''properties'', json_object [(''model'', json_object [(''type'', JString ''string''),
       (''description'', JString ''Model tag (e.g., qwen3:8b, devstral-small-2:24b). If omitted, returns the full registry.'')])])]\<rparr>"

definition force_state_tool_definition :: tool_info where
  "force_state_tool_definition = \<lparr>ti_name = ''statewright_force_state'', ti_annotations = None,
     ti_description = Some ''Force the state machine to a specific state, bypassing guards and transitions. Debug mode only.'',
     ti_input_schema = json_object [(''type'', JString ''object''),
       (''properties'', json_object [(''state'', json_object [(''type'', JString ''string''),
       (''description'', JString ''Target state name to jump to'')]),
       (''context'', json_object [(''type'', JString ''object''),
       (''description'', JString ''Optional context to set (merged with existing context)'')])]),
       (''required'', JArray [JString ''state''])]\<rparr>"

definition custom_tool_definitions :: "tool_info list" where
  "custom_tool_definitions = [tool_transition, tool_get_state, tool_get_usage, tool_list_workflows,
     tool_get_workflow, tool_load_workflow, tool_pause, tool_deactivate,
     tool_get_status, tool_create_workflow, tool_run_agent, tool_get_model_traits]"

definition is_custom_tool :: "string \<Rightarrow> bool" where
  "is_custom_tool name \<longleftrightarrow> name \<in> set
     [''statewright_transition'', ''statewright_get_state'', ''statewright_get_usage'', ''statewright_report_runtime_usage'',
      ''statewright_list_workflows'', ''statewright_get_workflow'', ''statewright_load_workflow'', ''statewright_deactivate'',
      ''statewright_pause'', ''statewright_get_status'', ''statewright_create_workflow'', ''statewright_force_state'',
      ''statewright_run_agent'', ''statewright_adapter_pre_tool'', ''statewright_adapter_post_tool'',
      ''statewright_adapter_stop'']"

section \<open>Reading replies back\<close>

lemma jget_fold: "jget (JObject (foldl (\<lambda>m (k, v). bt_insert k v m) acc kvs)) k = (case map_of (rev kvs) k of None \<Rightarrow> bt_get acc k | Some v \<Rightarrow> Some v)"
  by (induction kvs arbitrary: acc) (auto simp: bt_simps map_add_def split: option.splits)

lemma jget_object [simp]: "jget (json_object kvs) k = map_of (rev kvs) k"
  unfolding json_object_def using jget_fold [of "[]" kvs k] by (simp split: option.splits)

lemma is_object_object [simp]: "is_object (json_object kvs)"
  by (simp add: json_object_def)

lemma jindex_object [simp]: "jindex (json_object kvs) k = unwrap_or JNull (map_of (rev kvs) k)"
  by (simp add: jindex_def)

lemma jindex_set [simp]: "is_object j \<Longrightarrow> jindex (jset j k v) k' = (if k' = k then v else jindex j k')"
  by (simp add: jindex_def)

text \<open>
  Every tool that is offered is recognised as one of the gateway's own, except
  \<open>statewright_get_model_traits\<close>: calls of it are treated as calls of an upstream tool.
\<close>

lemma offered_tools_recognised:
  "\<forall>t \<in> set custom_tool_definitions. is_custom_tool (ti_name t) \<longleftrightarrow> ti_name t \<noteq> ''statewright_get_model_traits''"
  "tool_get_model_traits \<in> set custom_tool_definitions"
  by (simp_all add: custom_tool_definitions_def tool_transition_def tool_get_state_def tool_get_usage_def
      tool_list_workflows_def tool_get_workflow_def tool_load_workflow_def tool_pause_def tool_deactivate_def
      tool_get_status_def tool_create_workflow_def tool_run_agent_def tool_get_model_traits_def is_custom_tool_def)

end
