(* ===== verification/CommandEvidence.thy ===== *)
theory CommandEvidence
  imports RiskAssessment
begin

text \<open>
  Local evidence for repository commands (\<open>apply_native_command_evidence\<close> of \<open>crates/mcp-gateway/src/risk_assessment.rs\<close>):
  a managed hook expands a task runner's command into the commands it would run, and the gateway classifies every one of
  them instead of the runner's name. The clock, serde's reading of the evidence and the length of its text are parameters.
\<close>

record local_command_unit =
  lu_original :: string
  lu_resolved :: string
  lu_cwd :: string
  lu_invocation :: "invocation option"

record local_command_file =
  lf_path :: string
  lf_sha256 :: string

record local_command_evidence =
  le_schema :: string
  le_tool_name :: string
  le_command :: string
  le_requested_cwd :: "string option"
  le_cwd :: "string option"
  le_invocation :: invocation
  le_collected_at_ms :: int
  le_complete :: bool
  le_commands :: "local_command_unit list"
  le_files :: "local_command_file list"
  le_reason :: "string option"

text \<open>\<open>Path::is_absolute\<close> on Unix.\<close>

definition is_absolute :: "string \<Rightarrow> bool" where
  "is_absolute path \<longleftrightarrow> starts_with path ''/''"

definition is_ascii_hexdigit :: "char \<Rightarrow> bool" where
  "is_ascii_hexdigit c \<longleftrightarrow> is_ascii_digit c \<or> 65 \<le> char_code c \<and> char_code c \<le> 70
     \<or> 97 \<le> char_code c \<and> char_code c \<le> 102"

definition odd_path_part :: "string \<Rightarrow> bool" where
  "odd_path_part part \<longleftrightarrow> part \<in> set [[], ''.'', ''..'']"

definition path_parts :: "string \<Rightarrow> string list" where
  "path_parts path = split_on (\<lambda>c. c = CHR ''/'') path"

definition supported_root :: "invocation \<Rightarrow> bool" where
  "supported_root inv0 =
     (if li_executable inv0 = ''task'' then
        (case li_args inv0 of
           [target0] \<Rightarrow> \<not> starts_with target0 ''-''
         | [flag, directory, target0] \<Rightarrow>
             flag \<in> set [''-d'', ''--dir''] \<and> directory \<noteq> [] \<and> \<not> starts_with target0 ''-''
         | [flag, target0] \<Rightarrow>
             starts_with flag ''--dir='' \<and> length flag > length ''--dir='' \<and> \<not> starts_with target0 ''-''
         | _ \<Rightarrow> False)
      else if li_executable inv0 \<in> set [''npm'', ''pnpm''] then
        (case li_args inv0 of
           [op0] \<Rightarrow> op0 = ''test''
         | [op0, name] \<Rightarrow> op0 = ''run'' \<and> \<not> starts_with name ''-''
         | _ \<Rightarrow> False)
      else if li_executable inv0 = ''npx'' then
        (case li_args inv0 of runner # op0 # _ \<Rightarrow> runner = ''vitest'' \<and> op0 = ''run'' | _ \<Rightarrow> False)
      else if li_executable inv0 = ''vitest'' then
        (case li_args inv0 of op0 # _ \<Rightarrow> op0 = ''run'' | _ \<Rightarrow> False)
      else if li_executable inv0 = ''node'' then bounded_node_repository_entrypoint inv0 \<noteq> None
      else False)"

definition file_ok :: "local_command_file \<Rightarrow> bool" where
  "file_ok file \<longleftrightarrow> lf_path file \<noteq> [] \<and> \<not> is_absolute (lf_path file)
     \<and> \<not> list_ex odd_path_part (path_parts (lf_path file))
     \<and> length (lf_sha256 file) = 64 \<and> list_all is_ascii_hexdigit (lf_sha256 file)"

text \<open>The binding of the evidence to this call, its age in milliseconds and its completeness.\<close>

definition evidence_bound ::
  "int \<Rightarrow> string \<Rightarrow> string \<Rightarrow> invocation \<Rightarrow> string option \<Rightarrow> local_command_evidence \<Rightarrow> bool" where
  "evidence_bound now_ms tool_name command inv0 requested_cwd proof \<longleftrightarrow>
     le_schema proof = ''statewright/local-command-evidence/v1'' \<and> le_tool_name proof = tool_name
     \<and> le_command proof = command \<and> le_invocation proof = inv0 \<and> le_requested_cwd proof = requested_cwd
     \<and> is_some_and is_absolute (le_cwd proof)
     \<and> (let age = now_ms - le_collected_at_ms proof in - 5000 \<le> age \<and> age \<le> 30000)
     \<and> le_complete proof \<and> le_reason proof = None
     \<and> le_commands proof \<noteq> [] \<and> length (le_commands proof) \<le> 32
     \<and> le_files proof \<noteq> [] \<and> length (le_files proof) \<le> 64 \<and> list_all file_ok (le_files proof)"

definition unit_bound :: "local_command_unit \<Rightarrow> bool" where
  "unit_bound unit \<longleftrightarrow> length (lu_original unit) \<le> 8192 \<and> length (lu_resolved unit) \<le> 8192
     \<and> lu_invocation unit = literal_invocation (lu_original unit)
     \<and> (lu_cwd unit = ''.''
        \<or> \<not> (lu_cwd unit = [] \<or> is_absolute (lu_cwd unit) \<or> list_ex odd_path_part (path_parts (lu_cwd unit))))"

definition resolution_ok :: "local_command_unit \<Rightarrow> bool" where
  "resolution_ok unit \<longleftrightarrow>
     lu_original unit = lu_resolved unit
     \<or> (case literal_invocation (lu_original unit) of
          None \<Rightarrow> False
        | Some ui \<Rightarrow>
            li_executable ui = ''npx'' \<and> li_args ui \<noteq> [] \<and> hd (li_args ui) = ''vitest''
            \<and> simple_command_tokens (lu_resolved unit) = Some (''node_modules/.bin/vitest'' # tl (li_args ui))
            \<and> classify (lu_resolved unit) = [BoundedLocalExecution])"

text \<open>The classes one expanded command contributes; \<open>None\<close> where the evidence is incomplete.\<close>

definition unit_classes ::
  "(string \<Rightarrow> ast_assessment) \<Rightarrow> local_command_file list \<Rightarrow> local_command_unit \<Rightarrow> op_class list option" where
  "unit_classes ast_assess files unit =
     (if \<not> unit_bound unit then None
      else case Option.bind (literal_invocation (lu_original unit)) bounded_node_repository_entrypoint of
        Some entrypoint \<Rightarrow>
          if lu_original unit \<noteq> lu_resolved unit then None
          else let bound_path = (if lu_cwd unit = ''.'' then entrypoint else lu_cwd unit @ ''/'' @ entrypoint)
               in if list_ex (\<lambda>file. lf_path file = bound_path) files then Some [BoundedLocalExecution] else None
      | None \<Rightarrow>
          if \<not> resolution_ok unit then None
          else let ast = ast_assess (lu_resolved unit)
               in Some ((if aa_status ast \<noteq> Parsed then [Opaque] else []) @ aa_classes ast))"

fun all_unit_classes ::
  "(string \<Rightarrow> ast_assessment) \<Rightarrow> local_command_file list \<Rightarrow> local_command_unit list \<Rightarrow> op_class list option" where
  "all_unit_classes ast_assess files [] = Some []"
| "all_unit_classes ast_assess files (unit # units) =
     (case unit_classes ast_assess files unit of
        None \<Rightarrow> None
      | Some cs \<Rightarrow> map_option (\<lambda>rest. cs @ rest) (all_unit_classes ast_assess files units))"

definition evidence_risk :: "op_class list \<Rightarrow> risk_band \<times> exposure_band" where
  "evidence_risk classes =
     (if Destructive \<in> set classes then (Critical, LocalExposure)
      else if Network \<in> set classes \<or> GitWrite \<in> set classes then (High, ExternalExposure)
      else if list_ex (\<lambda>c. c \<in> set [Opaque, Passthrough]) classes then (Moderate, UnknownExposure)
      else (Moderate, LocalExposure))"

definition incomplete_evidence :: "risk_pipeline_assessment \<Rightarrow> risk_pipeline_assessment" where
  "incomplete_evidence p =
     pipeline_from_parts ((rp_deterministic p)\<lparr>sa_risk := Moderate, sa_exposure := UnknownExposure,
       sa_source := ''native_command_evidence_incomplete''\<rparr>) (rp_semantic p) False"

definition proven_evidence :: "op_class list \<Rightarrow> risk_pipeline_assessment \<Rightarrow> risk_pipeline_assessment" where
  "proven_evidence classes p =
     pipeline_from_parts ((rp_deterministic p)\<lparr>sa_risk := fst (evidence_risk classes),
       sa_exposure := snd (evidence_risk classes), sa_required_capability := local_effect_capability classes,
       sa_source := ''native_command_evidence''\<rparr>) (rp_semantic p) False"

record evidence_env =
  ee_now_ms :: int
  ee_text_length :: "json \<Rightarrow> nat"
  ee_from_value :: "json \<Rightarrow> local_command_evidence option"
  ee_ast_assess :: "string \<Rightarrow> ast_assessment"

definition judge_evidence ::
  "evidence_env \<Rightarrow> risk_pipeline_assessment \<Rightarrow> string \<Rightarrow> json \<Rightarrow> string \<Rightarrow> invocation \<Rightarrow> json \<Rightarrow> risk_pipeline_assessment" where
  "judge_evidence env p tool_name arguments command inv0 evidence =
     (if ee_text_length env evidence > 128 * 1024 then incomplete_evidence p
      else case ee_from_value env evidence of
        None \<Rightarrow> incomplete_evidence p
      | Some proof \<Rightarrow>
          (let requested_cwd = Option.bind (or_else (jget arguments ''workdir'') (jget arguments ''cwd'')) as_str
           in if \<not> evidence_bound (ee_now_ms env) tool_name command inv0 requested_cwd proof then incomplete_evidence p
              else case all_unit_classes (ee_ast_assess env) (le_files proof) (le_commands proof) of
                None \<Rightarrow> incomplete_evidence p
              | Some classes \<Rightarrow> proven_evidence (BoundedLocalExecution # classes) p))"

definition apply_native_command_evidence ::
  "evidence_env \<Rightarrow> risk_pipeline_assessment \<Rightarrow> tool_info option \<Rightarrow> string \<Rightarrow> json \<Rightarrow> json option \<Rightarrow>
   risk_pipeline_assessment" where
  "apply_native_command_evidence env p registered_tool tool_name arguments evidence =
     (case evidence of
        None \<Rightarrow> p
      | Some e \<Rightarrow>
          if e = JNull \<or> registered_tool \<noteq> None \<or> native_tool_family_of tool_name \<noteq> Some FamCommand
             \<or> sa_risk (rp_deterministic p) \<in> set [High, Critical]
          then p
          else case command_argument arguments of
            None \<Rightarrow> p
          | Some command \<Rightarrow>
              (case literal_invocation command of
                 None \<Rightarrow> p
               | Some inv0 \<Rightarrow>
                   if supported_root inv0 then judge_evidence env p tool_name arguments command inv0 e else p))"

section \<open>What evidence can do\<close>

lemma unknown_is_denied:
  assumes "sa_exposure d = UnknownExposure"
  shows "resolve_effect (pipeline_from_parts d receipt False) \<in> {EffDenyKnownRisk, EffDenyUncertain} \<or> sa_risk d = Low"
  using assms
  by (cases "sa_risk d")
    (auto simp: resolve_effect_def resolve_effect_with_basis_def pipeline_from_parts_def resolve_unknown_def Let_def)

lemma incomplete_is_denied: "resolve_effect (incomplete_evidence p) \<in> {EffDenyKnownRisk, EffDenyUncertain}"
  using unknown_is_denied [of "(rp_deterministic p)\<lparr>sa_risk := Moderate, sa_exposure := UnknownExposure,
       sa_source := ''native_command_evidence_incomplete''\<rparr>"]
  by (auto simp: incomplete_evidence_def)

definition executing_effects :: "resolved_effect set" where
  "executing_effects = {EffBoundedLocalExecution, EffLocalWriteAndBoundedLocalExecution,
     EffBoundedLocalExecutionAndGitLocalWrite, EffLocalWriteAndBoundedLocalExecutionAndGitLocalWrite}"

lemma capability_executing:
  assumes "BoundedLocalExecution \<in> set classes" "sa_required_capability (rp_deterministic p) = local_effect_capability classes"
  shows "deterministic_local_effect p \<in> executing_effects"
  using assms by (auto simp: deterministic_local_effect_def local_effect_capability_def executing_effects_def Let_def)

lemma proven_effect:
  assumes "BoundedLocalExecution \<in> set classes"
    and "resolve_effect (proven_evidence classes p) \<notin> {EffDenyKnownRisk, EffDenyUncertain}"
  shows "resolve_effect (proven_evidence classes p) \<in> executing_effects"
    and "set classes \<inter> {Destructive, Network, GitWrite, Opaque, Passthrough} = {}"
proof -
  have risk: "evidence_risk classes = (Moderate, LocalExposure)"
  proof (rule ccontr)
    assume "evidence_risk classes \<noteq> (Moderate, LocalExposure)"
    then have "evidence_risk classes \<in> {(Critical, LocalExposure), (High, ExternalExposure), (Moderate, UnknownExposure)}"
      by (simp add: evidence_risk_def split: if_splits)
    then have "resolve_effect (proven_evidence classes p) \<in> {EffDenyKnownRisk, EffDenyUncertain}"
      by (auto simp: proven_evidence_def resolve_effect_def resolve_effect_with_basis_def pipeline_from_parts_def
          resolve_unknown_def Let_def)
    with assms(2) show False by simp
  qed
  then show "set classes \<inter> {Destructive, Network, GitWrite, Opaque, Passthrough} = {}"
    by (auto simp: evidence_risk_def list_ex_iff split: if_splits)
  have "resolve_effect (proven_evidence classes p) = deterministic_local_effect (proven_evidence classes p)"
    using risk by (simp add: resolve_effect_def resolve_effect_with_basis_def proven_evidence_def pipeline_from_parts_def Let_def)
  then show "resolve_effect (proven_evidence classes p) \<in> executing_effects"
    using capability_executing [OF assms(1), of "proven_evidence classes p"]
    by (simp add: proven_evidence_def pipeline_from_parts_def Let_def)
qed

lemma all_unit_classes_Some:
  "all_unit_classes ast files units = Some classes \<Longrightarrow> u \<in> set units \<Longrightarrow>
   \<exists>cs. unit_classes ast files u = Some cs \<and> set cs \<subseteq> set classes"
  by (induction units arbitrary: classes) (fastforce split: option.splits)+


definition task_unit :: local_command_unit where
  "task_unit = \<lparr>lu_original = ''node scripts/check.mjs'', lu_resolved = ''node scripts/check.mjs'', lu_cwd = ''.'',
     lu_invocation = literal_invocation ''node scripts/check.mjs''\<rparr>"

definition task_evidence :: local_command_evidence where
  "task_evidence = \<lparr>le_schema = ''statewright/local-command-evidence/v1'', le_tool_name = ''Bash'',
     le_command = ''task check'', le_requested_cwd = None, le_cwd = Some ''/repo'',
     le_invocation = the (literal_invocation ''task check''), le_collected_at_ms = 1000, le_complete = True,
     le_commands = [task_unit],
     le_files = [\<lparr>lf_path = ''scripts/check.mjs'', lf_sha256 = replicate 64 CHR ''a''\<rparr>], le_reason = None\<rparr>"

definition task_env :: evidence_env where
  "task_env = \<lparr>ee_now_ms = 2000, ee_text_length = (\<lambda>_. 900), ee_from_value = (\<lambda>_. Some task_evidence),
     ee_ast_assess = (\<lambda>_. undefined)\<rparr>"

definition task_pipeline :: risk_pipeline_assessment where
  "task_pipeline = pipeline_from_parts (assess_shell ''task check'') malformed_receipt False"


end
