(* ===== verification/Upstream.thy ===== *)
theory Upstream
  imports Interceptors
begin

text \<open>
  The upstream tool servers (\<open>crates/mcp-gateway/src/upstream.rs\<close>): the registry that says which server
  provides a tool, the lookup of a tool's metadata and the forwarding of a call. The exchange with the server's
  process (writing the request, reading and parsing the answer) and serde's reading of a result are parameters;
  everything the manager decides around them is modelled.
\<close>

record upstream_server =
  us_name :: string
  us_tools :: "tool_info list"
  us_next_id :: u64

record upstream_manager =
  um_servers :: "upstream_server list"
  um_tool_to_server :: "string \<rightharpoonup> nat"
  um_mock_tools :: "(string \<times> tool_info \<times> tool_call_result) list"

definition text_content :: "string \<Rightarrow> tool_result_content" where
  "text_content t = \<lparr>tc_content_type = ''text'', tc_text = t\<rparr>"

definition result_text :: "string \<Rightarrow> tool_call_result" where
  "result_text t = \<lparr>tcr_content = [text_content t], tcr_is_error = False\<rparr>"

definition result_error :: "string \<Rightarrow> tool_call_result" where
  "result_error message = \<lparr>tcr_content = [text_content message], tcr_is_error = True\<rparr>"

definition empty_manager :: upstream_manager where
  "empty_manager = \<lparr>um_servers = [], um_tool_to_server = Map.empty, um_mock_tools = []\<rparr>"

text \<open>The loop of \<open>start\<close> over the servers that were spawned, initialised and asked for their tools.\<close>

definition register_server :: "upstream_server \<Rightarrow> upstream_manager \<Rightarrow> upstream_manager" where
  "register_server server um =
     um\<lparr>um_tool_to_server :=
          fold (\<lambda>tool m. hm_insert (ti_name tool) (length (um_servers um)) m) (us_tools server) (um_tool_to_server um),
        um_servers := um_servers um @ [server]\<rparr>"

definition start_manager :: "upstream_server list \<Rightarrow> upstream_manager" where
  "start_manager servers = fold register_server servers empty_manager"

definition all_tools :: "upstream_manager \<Rightarrow> tool_info list" where
  "all_tools um = concat (map us_tools (um_servers um)) @ map (\<lambda>(_, info, _). info) (um_mock_tools um)"

definition missing_metadata :: string where
  "missing_metadata = ''MCP dispatch metadata is missing''"

definition tool_info_of :: "upstream_manager \<Rightarrow> string \<Rightarrow> (tool_info option, string) result" where
  "tool_info_of um name =
     (case map_of (um_mock_tools um) name of
        Some (info, _) \<Rightarrow> Ok (Some info)
      | None \<Rightarrow>
          (case um_tool_to_server um name of
             None \<Rightarrow> Ok None
           | Some index \<Rightarrow>
               if index < length (um_servers um) then
                 (case filter (\<lambda>tool. ti_name tool = name) (us_tools (um_servers um ! index)) of
                    [] \<Rightarrow> Err missing_metadata
                  | [info] \<Rightarrow> Ok (Some info)
                  | _ \<Rightarrow> Err ''MCP dispatch metadata is ambiguous'')
               else Err missing_metadata))"

text \<open>The answer of a server: an error, a result, or neither.\<close>

record rpc_response =
  rr_error :: "string option"
  rr_result :: "json option"

record 's upstream_env =
  ue_exchange :: "nat \<Rightarrow> u64 \<Rightarrow> string \<Rightarrow> json \<Rightarrow> 's \<Rightarrow> (rpc_response, string) result \<times> 's"
  ue_tool_result :: "json \<Rightarrow> (tool_call_result, string) result"

definition read_answer :: "'s upstream_env \<Rightarrow> rpc_response \<Rightarrow> (tool_call_result, string) result" where
  "read_answer env r =
     (case rr_error r of
        Some message \<Rightarrow> Ok (result_error message)
      | None \<Rightarrow>
          (case rr_result r of
             None \<Rightarrow> Ok (result_text [])
           | Some v \<Rightarrow>
               (case ue_tool_result env v of
                  Err e \<Rightarrow> Err (''Failed to parse tool result: '' @ e)
                | Ok result \<Rightarrow> Ok result)))"

definition call_tool ::
  "'s upstream_env \<Rightarrow> string \<Rightarrow> json \<Rightarrow> upstream_manager \<Rightarrow> 's \<Rightarrow>
   (tool_call_result, string) result \<times> upstream_manager \<times> 's" where
  "call_tool env name arguments um w =
     (case map_of (um_mock_tools um) name of
        Some (_, result) \<Rightarrow> (Ok result, um, w)
      | None \<Rightarrow>
          (case um_tool_to_server um name of
             None \<Rightarrow> (Err (''No upstream server provides tool '' @ quoted name), um, w)
           | Some index \<Rightarrow>
               if index < length (um_servers um) then
                 (let server = um_servers um ! index;
                      um' = um\<lparr>um_servers := (um_servers um)[index := server\<lparr>us_next_id := us_next_id server + 1\<rparr>]\<rparr>
                  in case ue_exchange env index (us_next_id server) name arguments w of
                       (Err e, w') \<Rightarrow> (Err e, um', w')
                     | (Ok r, w') \<Rightarrow> (read_answer env r, um', w'))
               else (Err ''Server index out of bounds'', um, w)))"

section \<open>Metadata and dispatch\<close>

text \<open>The registry points to a server that offers the tool.\<close>

definition registry_ok :: "upstream_manager \<Rightarrow> bool" where
  "registry_ok um \<longleftrightarrow> (\<forall>name i. um_tool_to_server um name = Some i \<longrightarrow>
     i < length (um_servers um) \<and> name \<in> ti_name ` set (us_tools (um_servers um ! i)))"

lemma fold_register:
  "fold (\<lambda>tool m. hm_insert (ti_name tool) i m) tools m name =
     (if name \<in> ti_name ` set tools then Some i else m name)"
  by (induction tools arbitrary: m) (auto simp: hm_insert_def)

lemma registry_ok_register: "registry_ok um \<Longrightarrow> registry_ok (register_server server um)"
  unfolding registry_ok_def
  by (auto simp: register_server_def fold_register nth_append split: if_splits) (metis imageI less_SucI)+

lemma registry_ok_start: "registry_ok (start_manager servers)"
proof -
  have "registry_ok um \<Longrightarrow> registry_ok (fold register_server servers um)" for um
    by (induction servers arbitrary: um) (auto intro: registry_ok_register)
  moreover have "registry_ok empty_manager" by (simp add: registry_ok_def empty_manager_def)
  ultimately show ?thesis by (simp add: start_manager_def)
qed

text \<open>The metadata that is consulted for a call is that of the server the call is dispatched to.\<close>

lemma tool_info_dispatch:
  assumes "tool_info_of um name = Ok (Some info)" "map_of (um_mock_tools um) name = None"
  shows "\<exists>i < length (um_servers um). um_tool_to_server um name = Some i \<and>
    filter (\<lambda>tool. ti_name tool = name) (us_tools (um_servers um ! i)) = [info] \<and> ti_name info = name"
proof -
  obtain i where i: "um_tool_to_server um name = Some i" "i < length (um_servers um)"
      "filter (\<lambda>tool. ti_name tool = name) (us_tools (um_servers um ! i)) = [info]"
    using assms by (auto simp: tool_info_of_def split: option.splits if_splits list.splits)
  then have "info \<in> set (filter (\<lambda>tool. ti_name tool = name) (us_tools (um_servers um ! i)))" by simp
  then have "ti_name info = name" by (simp only: set_filter mem_Collect_eq)
  with i show ?thesis by blast
qed

lemma tool_info_unavailable:
  assumes "tool_info_of um name = Ok None"
  shows "fst (call_tool env name arguments um w) = Err (''No upstream server provides tool '' @ quoted name)"
  using assms by (auto simp: tool_info_of_def call_tool_def split: option.splits if_splits list.splits)

end
