(* ===== verification/GatewayCalls.thy ===== *)
theory GatewayCalls
  imports Upstream CustomTools CommandEvidence Glob
begin

text \<open>
  The gateway's treatment of tool calls (\<open>crates/mcp-gateway/src/gateway.rs\<close>): its state, the listing of tools, calls
  that it proxies to an upstream server, and the two questions native adapters ask before and after a tool of the host runs.

  The handlers are \<open>async\<close>: while one waits for the semantic assessor, for an upstream server or for the
  database, other handlers may use the session store, which all gateways of an owner and the hook server share. Such a wait is
  a parameter that takes and returns the store together with the outside world (type \<open>'w\<close>), so that every theorem covers
  any interference. Database writes that the source spawns and forgets are queued in \<open>gw_writes\<close> in the order in which they are
  spawned; their time stamps come from the clock and are left out.
  The catalogue of workflows is a \<open>HashMap\<close>; it is looked up, extended and listed in sorted order, so it is kept sorted by name. A reply is the text of a JSON value (\<open>ReplyText\<close>), a tool error,
  a tool result, a JSON-RPC error, or no reply at all because the handler panics; the id of the request is echoed by the transport.
\<close>

section \<open>The gateway\<close>

datatype db_write =
    StepWrite string
  | TransitionWrite string string string string json "string option"
  | EndWrite string string string

record gateway =
  gw_sessions :: sessions
  gw_upstream :: upstream_manager
  gw_session_id :: string
  gw_transport_session_id :: string
  gw_workflows :: "machine_definition btree"
  gw_active_workflow :: "string option"
  gw_owner_id :: string
  gw_durable :: bool
  gw_current_run_id :: "string option"
  gw_project_id :: "string option"
  gw_usage :: usage_ledger
  gw_usage_control_token :: "string option"
  gw_host_controls_model :: bool
  gw_web_workflow_guidance :: bool
  gw_host_client_name :: "string option"
  gw_writes :: "db_write list"

datatype reply =
    ReplyText json
  | ReplyToolError string
  | ReplyResult tool_call_result
  | ReplyError int string
  | ReplyPanic

type_synonym 'w shared = "sessions \<times> 'w"

record 'w gateway_env =
  ge_as_f64 :: as_f64_fn
  ge_fingerprint :: "string \<Rightarrow> json \<Rightarrow> string"
  ge_ast_mode :: shell_ast_mode
  ge_evidence :: evidence_env
  ge_semantic :: "semantic_assessment_request \<Rightarrow> 'w shared \<Rightarrow> semantic_assessment_receipt \<times> 'w shared"
  ge_authoritative :: bool
  ge_intent_fingerprint :: "risk_pipeline_assessment \<Rightarrow> string"
  ge_upstream :: "'w shared upstream_env"
  ge_persist :: "gateway \<Rightarrow> 'w shared \<Rightarrow> bool \<times> 'w shared"
  ge_uuid :: "'w \<Rightarrow> string \<times> 'w"

definition live_session :: "gateway \<Rightarrow> gateway_session option" where
  "live_session gw = get_session (gw_sessions gw) (gw_session_id gw)"

definition on_sessions :: "(sessions \<Rightarrow> sessions) \<Rightarrow> gateway \<Rightarrow> gateway" where
  "on_sessions f gw = gw\<lparr>gw_sessions := f (gw_sessions gw)\<rparr>"

definition move_session :: "string \<Rightarrow> json \<Rightarrow> gateway \<Rightarrow> gateway" where
  "move_session state ctx gw = on_sessions (\<lambda>S. snd (update_state (gw_session_id gw) state ctx S)) gw"

definition count_iteration :: "gateway \<Rightarrow> gateway" where
  "count_iteration gw = on_sessions (\<lambda>S. snd (increment_iteration (gw_session_id gw) S)) gw"

definition queue_write :: "db_write \<Rightarrow> gateway \<Rightarrow> gateway" where
  "queue_write w gw = (if gw_durable gw then gw\<lparr>gw_writes := gw_writes gw @ [w]\<rparr> else gw)"

definition record_step :: "gateway \<Rightarrow> gateway" where
  "record_step gw = queue_write (StepWrite (gw_owner_id gw)) gw"

text \<open>\<open>chars().take(n)\<close> on the UTF-8 bytes of a string: a continuation byte belongs to the character before it.\<close>

definition continuation_byte :: "char \<Rightarrow> bool" where
  "continuation_byte c \<longleftrightarrow> 128 \<le> char_code c \<and> char_code c < 192"

fun take_chars :: "nat \<Rightarrow> string \<Rightarrow> string" where
  "take_chars n [] = []"
| "take_chars n (c # cs) =
     (if continuation_byte c then c # take_chars n cs
      else case n of 0 \<Rightarrow> [] | Suc m \<Rightarrow> c # take_chars m cs)"

definition decision_summary :: "json \<Rightarrow> string option" where
  "decision_summary data =
     (case Option.bind (or_else (jget data ''decision_summary'') (jget data ''rationale'')) as_str of
        None \<Rightarrow> None
      | Some v \<Rightarrow> if trim v = [] then None else Some (take_chars 2000 v))"

definition record_run_transition ::
  "string \<Rightarrow> string \<Rightarrow> string \<Rightarrow> string \<Rightarrow> json \<Rightarrow> gateway \<Rightarrow> gateway" where
  "record_run_transition from audit_to usage_to event data gw =
     (let context_budget = Option.bind (live_session gw) (\<lambda>s.
            Option.bind (bt_get (md_states (gs_definition s)) usage_to) sd_context_budget_bytes);
          usage_from = unwrap_or from (ledger_state_name (gw_usage gw));
          gw' = gw\<lparr>gw_usage := ledger_transition usage_from usage_to event (decision_summary data) context_budget (gw_usage gw)\<rparr>
      in case gw_current_run_id gw' of
           None \<Rightarrow> gw'
         | Some run_id \<Rightarrow> queue_write (TransitionWrite run_id from audit_to event data (jget_str data ''approval_id'')) gw')"

definition record_run_end :: "string \<Rightarrow> string \<Rightarrow> gateway \<Rightarrow> gateway" where
  "record_run_end final_state status gw =
     (case gw_current_run_id gw of
        None \<Rightarrow> gw
      | Some run_id \<Rightarrow> queue_write (EndWrite run_id final_state status) gw)"

section \<open>Waiting\<close>

definition assess_pipeline_visible ::
  "'w gateway_env \<Rightarrow> bool \<Rightarrow> tool_info option \<Rightarrow> string \<Rightarrow> json \<Rightarrow> string option \<Rightarrow> gateway \<Rightarrow> 'w \<Rightarrow>
   risk_pipeline_assessment \<times> gateway \<times> 'w" where
  "assess_pipeline_visible env trusted tool tool_name arguments intent gw w =
     (let deterministic = assess_invocation_with_origin (ge_fingerprint env) (ee_ast_assess (ge_evidence env)) (ge_ast_mode env)
            tool tool_name arguments intent trusted;
          (semantic, S, w') =
            (case sa_semantic_request deterministic of
               Some request \<Rightarrow> ge_semantic env request (gw_sessions gw, w)
             | None \<Rightarrow> (malformed_receipt, gw_sessions gw, w))
      in (pipeline_from_parts deterministic semantic (ge_authoritative env), gw\<lparr>gw_sessions := S\<rparr>, w'))"

definition forward ::
  "'w gateway_env \<Rightarrow> string \<Rightarrow> json \<Rightarrow> gateway \<Rightarrow> 'w \<Rightarrow> (tool_call_result, string) result \<times> gateway \<times> 'w" where
  "forward env name arguments gw w =
     (case call_tool (ge_upstream env) name arguments (gw_upstream gw) (gw_sessions gw, w) of
        (r, um, S, w') \<Rightarrow> (r, gw\<lparr>gw_upstream := um, gw_sessions := S\<rparr>, w'))"

section \<open>Exploratory states\<close>

definition exploratory_policy_tool :: "tool_info \<Rightarrow> string option" where
  "exploratory_policy_tool tool =
     (if is_some_and (\<lambda>a. an_read_only_hint a = Some False \<or> an_destructive_hint a = Some True) (ti_annotations tool)
      then None
      else let name = to_ascii_lowercase (ti_name tool)
      in if name \<in> set [''bash'', ''exec_command'', ''run_command'', ''shell'', ''terminal''] then Some ''Bash''
         else if name \<in> set [''read'', ''read_file'', ''grep'', ''search_files'', ''glob'', ''find'', ''find_files'', ''ls'',
                            ''list_directory''] then Some ''Read''
         else if Option.bind (ti_annotations tool) an_read_only_hint = Some True then Some ''Read''
         else None)"

definition is_exploratory_read_only_tool :: "tool_info \<Rightarrow> bool" where
  "is_exploratory_read_only_tool tool \<longleftrightarrow> exploratory_policy_tool tool \<noteq> None"

definition is_exploratory_read_only_state :: "gateway_session \<Rightarrow> bool" where
  "is_exploratory_read_only_state s \<longleftrightarrow> Option.bind (session_state_def s) sd_intent = Some ''exploratory_read_only''"

definition denied_here :: "gateway_session \<Rightarrow> string \<Rightarrow> bool" where
  "denied_here s tool = tool_is_explicitly_disallowed (gs_definition s) (gs_current_state s) tool"

section \<open>Listing tools\<close>

definition meta_flag :: "gateway_session \<Rightarrow> string \<Rightarrow> bool" where
  "meta_flag s key = unwrap_or False (Option.bind (Option.bind (md_meta (gs_definition s)) (\<lambda>m. bt_get (mm_extra m) key)) as_bool)"

definition advertised :: "gateway_session \<Rightarrow> tool_info \<Rightarrow> bool" where
  "advertised s tool \<longleftrightarrow>
     (if is_exploratory_read_only_state s then
        \<not> (denied_here s (ti_name tool) \<or> is_some_and (denied_here s) (exploratory_policy_tool tool))
        \<and> is_exploratory_read_only_tool tool
      else case get_allowed_tools (gs_definition s) (gs_current_state s) of
        Some allowed_list \<Rightarrow> ti_name tool \<in> set allowed_list \<and> \<not> denied_here s (ti_name tool)
      | None \<Rightarrow> \<not> denied_here s (ti_name tool))"

definition handle_tools_list :: "gateway \<Rightarrow> (tool_info list, int \<times> string) result" where
  "handle_tools_list gw =
     (if gw_active_workflow gw = None then Ok (all_tools (gw_upstream gw) @ custom_tool_definitions)
      else case live_session gw of
        None \<Rightarrow> Err (-32600, ''No active session'')
      | Some s \<Rightarrow>
          if is_checkpoint s \<or> is_final s then Ok custom_tool_definitions
          else Ok (filter (advertised s) (all_tools (gw_upstream gw)) @ custom_tool_definitions @
                   (if meta_flag s ''debug'' then [force_state_tool_definition] else [])))"

section \<open>Proxied calls\<close>

definition call_reply :: "(tool_call_result, string) result \<Rightarrow> reply" where
  "call_reply r = (case r of Ok result \<Rightarrow> ReplyResult result | Err e \<Rightarrow> ReplyError (-32603) e)"

definition add_notice :: "string \<Rightarrow> tool_call_result \<Rightarrow> tool_call_result" where
  "add_notice notice result = result\<lparr>tcr_content := tcr_content result @ [text_content notice]\<rparr>"

definition arrow :: string where
  "arrow = [CHR 0xE2, CHR 0x86, CHR 0x92]"

definition interrupt_notice :: "string \<Rightarrow> string \<Rightarrow> string \<Rightarrow> string \<Rightarrow> string" where
  "interrupt_notice path name prev_state target0 =
     [CHR 0x0A] @ ''[STATEWRIGHT INTERRUPT] File '' @ quoted path @ '' triggered interrupt '' @ quoted name @
     ''. State changed: '' @ prev_state @ '' '' @ arrow @ '' '' @ target0 @
     ''. Complete the required validation, then transition to return to your previous state.''"

definition interrupt_data :: "string \<Rightarrow> json" where
  "interrupt_data path = json_object [(''trigger_file'', JString path)]"

definition interrupt_label :: "string \<Rightarrow> string" where
  "interrupt_label name = ''INTERRUPT:'' @ name"

text \<open>Entering an interrupt handler: the state to return to goes into the context.\<close>

definition enter_interrupt :: "gateway_session \<Rightarrow> string \<Rightarrow> interrupt_def \<Rightarrow> json \<Rightarrow> gateway \<Rightarrow> gateway" where
  "enter_interrupt s name i data gw =
     record_run_transition (gs_current_state s) (id_target i) (id_target i) (interrupt_label name) data
       (record_step
         (move_session (id_target i) (jset (gs_context s) return_key (JString (gs_current_state s))) gw))"

definition triggered_interrupt :: "gateway_session \<Rightarrow> string option \<Rightarrow> (string \<times> string \<times> interrupt_def) option" where
  "triggered_interrupt s edited =
     (case edited of
        None \<Rightarrow> None
      | Some path \<Rightarrow>
          if jget (gs_context s) return_key \<noteq> None then None
          else (case match_interrupts path (gs_definition s) of
                  [] \<Rightarrow> None
                | (name, i) # _ \<Rightarrow> Some (path, name, i)))"

definition record_call :: "string \<Rightarrow> post_call_update \<Rightarrow> bool \<Rightarrow> gateway \<Rightarrow> gateway" where
  "record_call tool update is_error gw =
     (let i = gw_session_id gw;
          gw1 = (case pu_file_edited update of None \<Rightarrow> gw | Some path \<Rightarrow> on_sessions (record_file_edit i path) gw);
          gw2 = (case pu_file_read update of None \<Rightarrow> gw1 | Some path \<Rightarrow> on_sessions (\<lambda>S. snd (record_file_read i path S)) gw1);
          gw3 = (if pu_result_bytes update > 0
                 then on_sessions (\<lambda>S. snd (add_context_bytes i (pu_result_bytes update) S)) gw2 else gw2)
      in gw3\<lparr>gw_usage := note_gateway_tool tool (pu_result_bytes update) is_error (gw_usage gw3)\<rparr>)"

definition finish_call ::
  "gateway_session \<Rightarrow> string \<Rightarrow> json \<Rightarrow> tool_call_result \<Rightarrow> gateway \<Rightarrow> tool_call_result \<times> gateway" where
  "finish_call s name arguments result gw =
     (let update = post_call_annotations name arguments result;
          gw1 = record_call name update (tcr_is_error result) gw
      in case triggered_interrupt s (pu_file_edited update) of
           None \<Rightarrow> (result, gw1)
         | Some (path, iname, i) \<Rightarrow>
             (add_notice (interrupt_notice path iname (gs_current_state s) (id_target i)) result,
              enter_interrupt s iname i (interrupt_data path) gw1))"

definition allowed_call ::
  "'w gateway_env \<Rightarrow> gateway_session \<Rightarrow> risk_pipeline_assessment \<Rightarrow> string \<Rightarrow> json \<Rightarrow> gateway \<Rightarrow> 'w \<Rightarrow> reply \<times> gateway \<times> 'w" where
  "allowed_call env s p name arguments gw w =
     (case semantic_effect_capability_denial s p of
        Some reason \<Rightarrow> (ReplyToolError reason, gw, w)
      | None \<Rightarrow>
          (case pre_call_check_with_pipeline s name arguments (Some p) of
             PreBlock reason \<Rightarrow> (ReplyToolError reason, gw, w)
           | decision \<Rightarrow>
               (case forward env name arguments (count_iteration gw) w of
                  (Err e, gw1, w1) \<Rightarrow> (ReplyError (-32603) e, gw1, w1)
                | (Ok result, gw1, w1) \<Rightarrow>
                    (let (result2, gw2) = finish_call s name arguments result gw1
                     in (ReplyResult (case decision of PreWarn warning \<Rightarrow> add_notice warning result2 | _ \<Rightarrow> result2), gw2, w1)))))"

definition implicit_data :: json where
  "implicit_data = json_object [(''implicit'', JBool True)]"

definition implicit_call ::
  "'w gateway_env \<Rightarrow> gateway_session \<Rightarrow> risk_pipeline_assessment \<Rightarrow> string \<Rightarrow> json \<Rightarrow> string \<Rightarrow> string \<Rightarrow> gateway \<Rightarrow> 'w \<Rightarrow>
   reply \<times> gateway \<times> 'w" where
  "implicit_call env s p name arguments event new_state gw w =
     (case semantic_effect_capability_denial (s\<lparr>gs_current_state := new_state\<rparr>) p of
        Some reason \<Rightarrow> (ReplyToolError reason, gw, w)
      | None \<Rightarrow>
          (let gw1 = record_run_transition (gs_current_state s) new_state new_state event implicit_data
                       (move_session new_state (gs_context s) gw)
           in case forward env name arguments (count_iteration gw1) w of
                (r, gw2, w2) \<Rightarrow> (call_reply r, gw2, w2)))"

definition checkpoint_notice :: "u32 \<Rightarrow> u32 \<Rightarrow> string \<Rightarrow> string" where
  "checkpoint_notice iteration max0 state =
     [CHR 0x0A] @ ''[STATEWRIGHT CHECKPOINT: iteration '' @ show_word iteration @ ''/'' @ show_word max0 @ '' in state '' @ quoted state @
     ''. You should transition to the next state using statewright_transition.]''"

definition checkpoint_call ::
  "'w gateway_env \<Rightarrow> gateway_session \<Rightarrow> risk_pipeline_assessment \<Rightarrow> string \<Rightarrow> json \<Rightarrow> u32 \<Rightarrow> u32 \<Rightarrow> gateway \<Rightarrow> 'w \<Rightarrow>
   reply \<times> gateway \<times> 'w" where
  "checkpoint_call env s p name arguments iteration max0 gw w =
     (case semantic_effect_capability_denial s p of
        Some reason \<Rightarrow> (ReplyToolError reason, gw, w)
      | None \<Rightarrow>
          (case forward env name arguments (count_iteration gw) w of
             (Err e, gw1, w1) \<Rightarrow> (ReplyError (-32603) e, gw1, w1)
           | (Ok result, gw1, w1) \<Rightarrow>
               (ReplyResult (add_notice (checkpoint_notice iteration max0 (gs_current_state s)) result), gw1, w1)))"

definition exploratory_refusal :: "gateway_session \<Rightarrow> string \<Rightarrow> string option \<Rightarrow> risk_pipeline_assessment \<Rightarrow> string option" where
  "exploratory_refusal s name policy p =
     (if \<not> is_exploratory_read_only_state s then None
      else if denied_here s name \<or> is_some_and (denied_here s) policy
      then Some (''Tool '' @ quoted name @ '' is explicitly denied in state '' @ quoted (gs_current_state s) @ ''.'')
      else if policy = None \<or> policy = Some ''Read'' \<and> resolve_effect p \<noteq> EffReadOnly
      then Some (''Tool '' @ quoted name @ '' is not registered as read-only in exploratory state '' @
                 quoted (gs_current_state s) @ ''.'')
      else None)"

definition enforced_call ::
  "'w gateway_env \<Rightarrow> tool_info option \<Rightarrow> string \<Rightarrow> json \<Rightarrow> gateway_session \<Rightarrow> risk_pipeline_assessment \<Rightarrow> gateway \<Rightarrow> 'w \<Rightarrow>
   reply \<times> gateway \<times> 'w" where
  "enforced_call env tool name arguments s p gw w =
     (case semantic_effect_risk_denial s p of
        Some reason \<Rightarrow> (ReplyToolError reason, gw, w)
      | None \<Rightarrow>
          (let policy = Option.bind tool exploratory_policy_tool
           in case exploratory_refusal s name policy p of
                Some reason \<Rightarrow> (ReplyToolError reason, gw, w)
              | None \<Rightarrow>
                  (case enforce_tool_call (ge_as_f64 env) s (if is_exploratory_read_only_state s then the policy else name) of
                     Allow \<Rightarrow> allowed_call env s p name arguments gw w
                   | Block reason available \<Rightarrow>
                       (ReplyToolError (reason @ [CHR 0x0A] @ ''Available tools: '' @ join '', '' available), gw, w)
                   | ImplicitTransition event new_state \<Rightarrow> implicit_call env s p name arguments event new_state gw w
                   | CheckpointReached iteration max0 \<Rightarrow> checkpoint_call env s p name arguments iteration max0 gw w)))"

definition session_intent :: "gateway \<Rightarrow> string option" where
  "session_intent gw = Option.bind (live_session gw) (\<lambda>s. Option.bind (session_state_def s) sd_intent)"

definition proxy_call ::
  "'w gateway_env \<Rightarrow> string \<Rightarrow> json \<Rightarrow> gateway \<Rightarrow> 'w \<Rightarrow> reply \<times> gateway \<times> 'w" where
  "proxy_call env name arguments gw w =
     (case (gw_active_workflow gw, tool_info_of (gw_upstream gw) name) of
        (None, _) \<Rightarrow> (case forward env name arguments gw w of (r, gw1, w1) \<Rightarrow> (call_reply r, gw1, w1))
      | (Some _, Err reason) \<Rightarrow> (ReplyToolError reason, gw, w)
      | (Some _, Ok tool) \<Rightarrow>
          (case live_session gw of
             None \<Rightarrow> (ReplyError (-32600) ''No active session'', gw, w)
           | Some s \<Rightarrow>
               (case assess_pipeline_visible env False tool name arguments (session_intent gw) gw w of
                  (p, gw1, w1) \<Rightarrow> enforced_call env tool name arguments s p gw1 w1)))"

section \<open>Effects on the store\<close>

lemmas handler_defs = on_sessions_def move_session_def count_iteration_def record_step_def queue_write_def
  record_run_transition_def record_run_end_def

lemma gw_session_id_handlers [simp]:
  "gw_session_id (on_sessions f gw) = gw_session_id gw" "gw_session_id (move_session st ctx gw) = gw_session_id gw"
  "gw_session_id (count_iteration gw) = gw_session_id gw" "gw_session_id (record_step gw) = gw_session_id gw"
  "gw_session_id (record_run_transition a b c e d gw) = gw_session_id gw"
  "gw_session_id (record_run_end st status gw) = gw_session_id gw"
  by (simp_all add: handler_defs Let_def split: option.splits)

lemma gw_sessions_handlers [simp]:
  "gw_sessions (on_sessions f gw) = f (gw_sessions gw)" "gw_sessions (record_step gw) = gw_sessions gw"
  "gw_sessions (record_run_transition a b c e d gw) = gw_sessions gw"
  "gw_sessions (record_run_end st status gw) = gw_sessions gw"
  "gw_sessions (move_session st ctx gw) = modify_session (gw_session_id gw) (enter_state st ctx) (gw_sessions gw)"
  "gw_sessions (count_iteration gw) = modify_session (gw_session_id gw) note_iteration (gw_sessions gw)"
  by (simp_all add: handler_defs Let_def update_state_def increment_iteration_def split: option.splits)

lemma modify_at [simp]: "modify_session i f S i = map_option f (S i)"
  by (simp add: modify_session_def hm_insert_def split: option.splits)

lemma modify_frame: "j \<noteq> i \<Longrightarrow> modify_session i f S j = S j"
  by (simp add: modify_session_def hm_insert_def split: option.splits)

lemma modify_cases: "modify_session i f S j = (if j = i then map_option f (S i) else S j)"
  by (simp add: modify_frame)

lemma gw_sessions_record_call:
  "gw_sessions (record_call tool update is_error gw) =
     (if pu_result_bytes update > 0 then modify_session (gw_session_id gw) (note_context_bytes (pu_result_bytes update)) else id)
       ((case pu_file_read update of None \<Rightarrow> id | Some path \<Rightarrow> modify_session (gw_session_id gw) (note_file_read path))
          ((case pu_file_edited update of None \<Rightarrow> id | Some path \<Rightarrow> modify_session (gw_session_id gw) (note_file_edit path))
             (gw_sessions gw)))"
  by (simp add: record_call_def Let_def record_file_edit_def record_file_read_def add_context_bytes_def split: option.splits)

lemma gw_session_id_record_call [simp]: "gw_session_id (record_call tool update is_error gw) = gw_session_id gw"
  by (simp add: record_call_def Let_def split: option.splits)

lemma live_session_cong: "gw_sessions gw = gw_sessions gw' \<Longrightarrow> gw_session_id gw = gw_session_id gw' \<Longrightarrow> live_session gw = live_session gw'"
  by (simp add: live_session_def)

lemma live_move [simp]: "live_session (move_session st ctx gw) = map_option (enter_state st ctx) (live_session gw)"
  by (simp add: live_session_def get_session_def)

lemma live_count [simp]: "live_session (count_iteration gw) = map_option note_iteration (live_session gw)"
  by (simp add: live_session_def get_session_def)

lemma live_record [simp]:
  "live_session (record_run_transition a b c e d gw) = live_session gw" "live_session (record_step gw) = live_session gw"
  "live_session (record_run_end st status gw) = live_session gw"
  by (simp_all add: live_session_def)

text \<open>An environment in which nobody else uses the store while a handler waits.\<close>

definition undisturbed :: "'w gateway_env \<Rightarrow> bool" where
  "undisturbed env \<longleftrightarrow>
     (\<forall>rq S w. fst (snd (ge_semantic env rq (S, w))) = S) \<and>
     (\<forall>i n name args S w. fst (snd (ue_exchange (ge_upstream env) i n name args (S, w))) = S)"

lemma forward_frame: "forward env name args gw w = (r, gw', w') \<Longrightarrow> gw_session_id gw' = gw_session_id gw"
  by (auto simp: forward_def split: prod.splits)

lemma call_tool_undisturbed:
  assumes "undisturbed env" "call_tool (ge_upstream env) name args um (S, w) = (r, um', S', w')"
  shows "S' = S"
proof -
  have "fst (snd (ue_exchange (ge_upstream env) i n name args (S, w))) = S" for i n
    using assms(1) by (simp add: undisturbed_def)
  with assms(2) show ?thesis
    by (auto simp: call_tool_def Let_def split: option.splits prod.splits if_splits sum.splits)
      (metis fst_conv snd_conv)+
qed

lemma forward_undisturbed:
  "undisturbed env \<Longrightarrow> forward env name args gw w = (r, gw', w') \<Longrightarrow> gw_sessions gw' = gw_sessions gw"
  by (auto simp: forward_def dest: call_tool_undisturbed split: prod.splits)

lemma assess_frame: "assess_pipeline_visible env trusted tool name args intent gw w = (p, gw', w') \<Longrightarrow>
  gw_session_id gw' = gw_session_id gw"
  by (auto simp: assess_pipeline_visible_def Let_def split: option.splits prod.splits)

lemma assess_undisturbed:
  "undisturbed env \<Longrightarrow> assess_pipeline_visible env trusted tool name args intent gw w = (p, gw', w') \<Longrightarrow>
   gw_sessions gw' = gw_sessions gw"
  by (auto simp: assess_pipeline_visible_def undisturbed_def Let_def split: option.splits prod.splits)
    (metis fst_conv snd_conv)

section \<open>The limit on edited files\<close>

definition files_ok :: "gateway_session \<Rightarrow> bool" where
  "files_ok s \<longleftrightarrow> (\<forall>sd m. session_state_def s = Some sd \<longrightarrow> sd_max_files_per_state sd = Some m \<longrightarrow>
     length (gs_files_edited s) \<le> unat m)"

definition files_within :: "sessions \<Rightarrow> bool" where
  "files_within S \<longleftrightarrow> (\<forall>i s. S i = Some s \<longrightarrow> files_ok s)"

lemma files_within_modify:
  "files_within S \<Longrightarrow> (\<And>s. S i = Some s \<Longrightarrow> files_ok s \<Longrightarrow> files_ok (f s)) \<Longrightarrow> files_within (modify_session i f S)"
  by (auto simp: files_within_def modify_cases split: if_splits)

lemma files_ok_updates [simp]:
  "files_ok (enter_state st ctx s)" "files_ok (note_iteration s) = files_ok s"
  "files_ok (note_file_read path s) = files_ok s" "files_ok (note_context_bytes n s) = files_ok s"
  by (simp_all add: files_ok_def session_upd_defs session_state_def_def)

lemma files_within_moves [simp]:
  "files_within S \<Longrightarrow> files_within (modify_session i (enter_state st ctx) S)"
  "files_within S \<Longrightarrow> files_within (modify_session i note_iteration S)"
  by (auto intro: files_within_modify)

lemma files_ok_edit:
  assumes "files_ok s" "\<And>sd. session_state_def s = Some sd \<Longrightarrow> scope_check s sd tool args = None"
    and "is_edit_tool tool" "extract_file_path args = Some path"
  shows "files_ok (note_file_edit path s)"
proof -
  have "session_state_def (note_file_edit path s) = session_state_def s"
    by (simp add: note_file_edit_def session_state_def_def)
  then show ?thesis using assms scope_check_budget [of s _ tool args] by (fastforce simp: files_ok_def)
qed

lemma files_within_record:
  assumes "files_within S" and
    edit: "\<And>path s. pu_file_edited update = Some path \<Longrightarrow> S (gw_session_id gw) = Some s \<Longrightarrow> files_ok s \<Longrightarrow>
      files_ok (note_file_edit path s)" and S: "gw_sessions gw = S"
  shows "files_within (gw_sessions (record_call tool update is_error gw))"
proof -
  have 1: "files_within ((case pu_file_edited update of None \<Rightarrow> id
      | Some path \<Rightarrow> modify_session (gw_session_id gw) (note_file_edit path)) S)"
    using assms(1) edit by (cases "pu_file_edited update") (auto intro: files_within_modify)
  have 2: "files_within T \<Longrightarrow> files_within ((case pu_file_read update of None \<Rightarrow> id
      | Some path \<Rightarrow> modify_session (gw_session_id gw) (note_file_read path)) T)" for T
    by (cases "pu_file_read update") (auto intro: files_within_modify)
  show ?thesis
    using 2 [OF 1] unfolding gw_sessions_record_call S by (auto intro: files_within_modify)
qed

lemma files_within_finish:
  assumes "files_within (gw_sessions gw)" "live_session gw = Some (note_iteration s)"
    and "\<And>sd. session_state_def s = Some sd \<Longrightarrow> scope_check s sd name args = None"
    and "finish_call s name args result gw = (result', gw')"
  shows "files_within (gw_sessions gw')"
proof -
  let ?update = "post_call_annotations name args result"
  have "files_within (gw_sessions (record_call name ?update (tcr_is_error result) gw))"
  proof (rule files_within_record [OF assms(1) _ refl])
    fix path s' assume u: "pu_file_edited ?update = Some path" and s': "gw_sessions gw (gw_session_id gw) = Some s'"
      and ok: "files_ok s'"
    have edit: "is_edit_tool name" "extract_file_path args = Some path"
      using u by (auto simp: post_call_annotations_def split: if_splits)
    have "s' = note_iteration s" using s' assms(2) by (simp add: live_session_def get_session_def)
    then have "session_state_def s' = session_state_def s" "scope_check s' sd name args = scope_check s sd name args" for sd
      by (simp_all add: note_iteration_def session_state_def_def scope_check_def split: option.splits bool.splits)
    with files_ok_edit [OF ok _ edit] assms(3) show "files_ok (note_file_edit path s')" by auto
  qed
  then show ?thesis using assms(4)
    by (auto simp: finish_call_def Let_def enter_interrupt_def split: option.splits prod.splits)
qed

lemma files_within_allowed:
  assumes "undisturbed env" "files_within (gw_sessions gw)" "live_session gw = Some s"
    and "allowed_call env s p name args gw w = (reply, gw', w')"
  shows "files_within (gw_sessions gw')"
proof (cases "semantic_effect_capability_denial s p = None \<and> cleared (pre_call_check_with_pipeline s name args (Some p))")
  case False
  then show ?thesis using assms(2,4)
    by (auto simp: allowed_call_def cleared_def split: option.splits)
next
  case True
  obtain r gw1 w1 where f: "forward env name args (count_iteration gw) w = (r, gw1, w1)" by (metis prod_cases3)
  have S: "gw_sessions gw1 = modify_session (gw_session_id gw) note_iteration (gw_sessions gw)"
    using forward_undisturbed [OF assms(1) f] by simp
  have live: "live_session gw1 = Some (note_iteration s)"
    using forward_undisturbed [OF assms(1) f] forward_frame [OF f] assms(3)
    by (simp add: live_session_def get_session_def)
  have within: "files_within (gw_sessions gw1)" unfolding S using assms(2) by (auto intro: files_within_modify)
  have scope: "session_state_def s = Some sd \<Longrightarrow> scope_check s sd name args = None" for sd
    using True cleared_iff [of s sd name args "Some p"] by simp
  show ?thesis
  proof (cases r)
    case (Inl e)
    then show ?thesis using assms(4) True f within
      by (auto simp: allowed_call_def cleared_def split: pre_call_decision.splits)
  next
    case (Inr result)
    obtain result2 gw2 where fin: "finish_call s name args result gw1 = (result2, gw2)" by fastforce
    have "gw' = gw2" using assms(4) True f Inr fin
      by (auto simp: allowed_call_def cleared_def split: pre_call_decision.splits)
    then show ?thesis using files_within_finish [OF within live scope fin] by simp
  qed
qed

lemma files_within_forward:
  assumes "undisturbed env" "files_within (gw_sessions gw)"
  shows "files_within (gw_sessions (fst (snd (forward env name args gw w))))"
proof -
  obtain r gw1 w1 where f: "forward env name args gw w = (r, gw1, w1)" by (metis prod_cases3)
  then show ?thesis using forward_undisturbed [OF assms(1) f] assms(2) by simp
qed


definition quiet_env :: "unit gateway_env" where
  "quiet_env = \<lparr>ge_as_f64 = (\<lambda>_. None), ge_fingerprint = (\<lambda>_ _. ''f''), ge_ast_mode = AstDisabled, ge_evidence = task_env,
     ge_semantic = (\<lambda>rq S. (semantic_receipt rq StDisabled, S)), ge_authoritative = False,
     ge_intent_fingerprint = (\<lambda>_. ''i''),
     ge_upstream = \<lparr>ue_exchange = (\<lambda>_ _ _ _ S. (Err ''down'', S)), ue_tool_result = (\<lambda>_. Err ''bad'')\<rparr>,
     ge_persist = (\<lambda>_ S. (True, S)), ge_uuid = (\<lambda>w. (''1'', w))\<rparr>"

lemma undisturbed_quiet: "undisturbed quiet_env"
  by (simp add: undisturbed_def quiet_env_def)

definition mock_tool :: "string \<Rightarrow> string \<times> tool_info \<times> tool_call_result" where
  "mock_tool name = (name, \<lparr>ti_name = name, ti_annotations = None, ti_description = None, ti_input_schema = JNull\<rparr>,
     result_text ''ok'')"

definition gateway_on :: "machine_definition \<Rightarrow> string list \<Rightarrow> gateway" where
  "gateway_on d tools =
     \<lparr>gw_sessions = [''g'' \<mapsto> new_session ''g'' d], gw_upstream = empty_manager\<lparr>um_mock_tools := map mock_tool tools\<rparr>,
      gw_session_id = ''g'', gw_transport_session_id = ''g'', gw_workflows = [], gw_active_workflow = Some ''w'',
      gw_owner_id = ''o'', gw_durable = True, gw_current_run_id = Some ''r'', gw_project_id = None, gw_usage = default_ledger,
      gw_usage_control_token = None, gw_host_controls_model = False, gw_web_workflow_guidance = False, gw_host_client_name = None,
      gw_writes = []\<rparr>"

lemma live_gateway_on [simp]: "live_session (gateway_on d tools) = Some (new_session ''g'' d)"
  by (simp add: live_session_def gateway_on_def get_session_def)

definition one_file_machine :: machine_definition where
  "one_file_machine = \<lparr>md_id = ''m'', md_initial = ''fix'', md_context = JObject [],
     md_states = [(''fix'', empty_state_def\<lparr>sd_allowed_tools := Some [''edit_file''], sd_max_files_per_state := Some 1\<rparr>)],
     md_guards = [], md_meta = None, md_interrupts = []\<rparr>"


section \<open>What a proxied call is not asked\<close>

text \<open>
  An implicit transition moves the session and forwards the call. Whether the transition it takes
  requires approval plays no part, nor do the interceptors.
\<close>

lemma implicit_call_moves:
  assumes "undisturbed env" "live_session gw = Some s"
    and "semantic_effect_capability_denial (s\<lparr>gs_current_state := new_state\<rparr>) p = None"
  shows "live_session (fst (snd (implicit_call env s p name args event new_state gw w))) =
    Some (note_iteration (enter_state new_state (gs_context s) s))"
proof -
  let ?gw1 = "count_iteration (record_run_transition (gs_current_state s) new_state new_state event implicit_data
      (move_session new_state (gs_context s) gw))"
  obtain r gw2 w2 where f: "forward env name args ?gw1 w = (r, gw2, w2)" by (metis prod_cases3)
  have "live_session gw2 = live_session ?gw1"
    using forward_undisturbed [OF assms(1) f] forward_frame [OF f] by (rule live_session_cong)
  then show ?thesis using assms(2,3) f by (simp add: implicit_call_def Let_def)
qed

lemma proxy_call_implicit:
  assumes "undisturbed env" "gw_active_workflow gw \<noteq> None" "tool_info_of (gw_upstream gw) name = Ok tool"
    and "live_session gw = Some s" "\<not> uses_semantic_effect_policy s" "\<not> is_exploratory_read_only_state s"
    and "enforce_tool_call (ge_as_f64 env) s name = ImplicitTransition event new_state"
  shows "live_session (fst (snd (proxy_call env name args gw w))) = Some (note_iteration (enter_state new_state (gs_context s) s))"
proof -
  obtain p gw1 w1 where a: "assess_pipeline_visible env False tool name args (session_intent gw) gw w = (p, gw1, w1)"
    by (metis prod_cases3)
  have live: "live_session gw1 = Some s"
    using assess_undisturbed [OF assms(1) a] assess_frame [OF a] assms(4) live_session_cong by metis
  have ctx: "\<not> uses_semantic_effect_policy (s\<lparr>gs_current_state := new_state\<rparr>)"
    using assms(5) by (simp add: uses_semantic_effect_policy_def)
  have "proxy_call env name args gw w = implicit_call env s p name args event new_state gw1 w1"
    using assms a by (auto simp: proxy_call_def enforced_call_def Let_def exploratory_refusal_def semantic_effect_risk_denial_def
        semantic_effect_risk_denial_details_def)
  moreover have "semantic_effect_capability_denial (s\<lparr>gs_current_state := new_state\<rparr>) p = None"
    using ctx by (simp add: semantic_effect_capability_denial_def semantic_effect_capability_denial_details_def)
  ultimately show ?thesis using implicit_call_moves [OF assms(1) live, of new_state p name args event w1] by simp
qed

definition review_machine :: machine_definition where
  "review_machine = \<lparr>md_id = ''m'', md_initial = ''plan'', md_context = JObject [],
     md_states = [(''plan'', empty_state_def\<lparr>sd_allowed_tools := Some [''read_file''],
        sd_on := [(''SHIP'', Full \<lparr>ft_target = ''ship'', ft_guard = None, ft_guards = None, ft_requires_approval = Some True,
          ft_approval_message = None, ft_approval_reviewer = None\<rparr>)]\<rparr>),
        (''ship'', empty_state_def\<lparr>sd_allowed_tools := Some [''deploy'']\<rparr>)],
     md_guards = [], md_meta = None, md_interrupts = []\<rparr>"


end
