(* ===== verification/GatewayAdapter.thy ===== *)
theory GatewayAdapter
  imports GatewayCalls
begin

text \<open>
  Native adapters (\<open>crates/mcp-gateway/src/gateway.rs\<close>): before a tool of the host runs, the adapter asks the gateway
  (\<open>adapter_pre_tool_with_evidence\<close>), afterwards it reports the outcome (\<open>adapter_post_tool\<close>), and before the host stops it asks again
  (\<open>adapter_stop\<close>). The first part of the decision does not change the session; it is \<open>adapter_refusal\<close> and
  \<open>adapter_policy_name\<close>. Raw delegation to another agent is answered with the policy for managed delegation.
\<close>

section \<open>Delegation\<close>

definition normalized_route_model :: "string \<Rightarrow> string" where
  "normalized_route_model model = rsplit_next (CHR ''/'') model"

definition route_model_changed :: "string \<Rightarrow> string \<Rightarrow> bool" where
  "route_model_changed current requested =
     (if CHR ''/'' \<in> set current \<and> CHR ''/'' \<in> set requested then current \<noteq> requested
      else normalized_route_model current \<noteq> normalized_route_model requested)"

definition requested_text :: "json option \<Rightarrow> string option" where
  "requested_text v =
     (case map_option trim (Option.bind v as_str) of
        Some t \<Rightarrow> if t = [] then None else Some t
      | None \<Rightarrow> None)"

definition route_change_requested :: "gateway_session \<Rightarrow> json \<Rightarrow> bool" where
  "route_change_requested s tool_input \<longleftrightarrow>
     is_some_and (\<lambda>requested. is_none_or (\<lambda>current. route_model_changed current requested)
        (Option.bind (session_state_def s) sd_model)) (requested_text (jget tool_input ''model''))
     \<or> is_some_and (\<lambda>requested. Option.bind (session_state_def s) sd_thinking_level \<noteq> Some requested)
         (requested_text (or_else (jget tool_input ''reasoning_effort'') (jget tool_input ''reasoningEffort'')))"

fun managed_event :: "string \<times> transition_def \<Rightarrow> json option" where
  "managed_event (event, Fork _) = Some (json_object [(''event'', JString event), (''kind'', JString ''fork'')])"
| "managed_event (event, Invoke _) = Some (json_object [(''event'', JString event), (''kind'', JString ''subworkflow'')])"
| "managed_event _ = None"

definition managed_delegation_policy :: "gateway_session \<Rightarrow> json \<Rightarrow> json" where
  "managed_delegation_policy s tool_input =
     (let change = route_change_requested s tool_input
      in json_object
        [(''schema'', JString ''statewright/managed-delegation/v1''),
         (''raw_delegation_allowed'', JBool False),
         (''recommendation'', JString (if change then ''statewright_managed_fork'' else ''continue_inline'')),
         (''route_change_requested'', JBool change),
         (''evidence_owner'', JString ''parent_workflow''),
         (''managed_transition_candidates'', JArray (case session_state_def s of
            None \<Rightarrow> [] | Some sd \<Rightarrow> List.map_filter managed_event (sd_on sd)))])"

section \<open>Before the tool runs\<close>

definition decision :: "string \<Rightarrow> string \<times> json" where
  "decision d = (''decision'', JString d)"

definition deny :: "string \<Rightarrow> (string \<times> json) list \<Rightarrow> json" where
  "deny reason entries = json_object ([decision ''deny'', (''reason'', JString reason)] @ entries)"

definition allows :: "json \<Rightarrow> bool" where
  "allows j \<longleftrightarrow> jget j ''decision'' = Some (JString ''allow'')"

definition visible_denial :: "'w gateway_env \<Rightarrow> risk_pipeline_assessment \<Rightarrow> string \<Rightarrow> string \<Rightarrow> string \<times> json" where
  "visible_denial env p basis authority =
     (''risk_assessment'', visible_json_for_decision (ge_intent_fingerprint env) p (FinalDenied basis authority))"

definition state_entry :: "gateway_session \<Rightarrow> string \<times> json" where
  "state_entry s = (''state'', JString (gs_current_state s))"

definition approval_pending_reason :: "gateway_session \<Rightarrow> pending_approval \<Rightarrow> string" where
  "approval_pending_reason s pa =
     ''APPROVAL PENDING (id: '' @ pa_approval_id pa @ ''): the workflow is parked at state '' @ quoted (gs_current_state s) @
     '' awaiting a human decision on event '' @ quoted (pa_event pa) @ '' ('' @
     unwrap_or ''Review before proceeding'' (pa_message pa) @
     ''). All tool calls are blocked until an authorized reviewer approves or rejects the pending approval; do not attempt further tool calls or transitions.''"

definition delegation_reason :: string where
  "delegation_reason = ''Raw agent delegation is not an execution boundary. Continue inline by default so evidence stays attached to the parent workflow; when a model or reasoning route change is required, use a declared Statewright-managed fork or subworkflow.''"

definition denial_entries ::
  "'w gateway_env \<Rightarrow> gateway_session \<Rightarrow> risk_pipeline_assessment \<Rightarrow> semantic_effect_denial \<Rightarrow> json" where
  "denial_entries env s p d =
     deny (dn_reason d) [state_entry s, visible_denial env p (dn_basis d) (dn_required_authority d)]"

text \<open>The refusals that precede the choice of the policy name, in order.\<close>

definition adapter_refusal ::
  "'w gateway_env \<Rightarrow> gateway_session \<Rightarrow> risk_pipeline_assessment \<Rightarrow> string \<Rightarrow> json \<Rightarrow> json option" where
  "adapter_refusal env s p tool_name tool_input =
     (case gs_pending_approval s of
        Some pa \<Rightarrow>
          Some (deny (approval_pending_reason s pa)
            [(''approval_pending'', JBool True), (''approval_id'', JString (pa_approval_id pa)), state_entry s,
             visible_denial env p ''approval_pending'' ''human_approval''])
      | None \<Rightarrow>
          if sa_source (rp_deterministic p) = ''unmanaged_agent_delegation'' then
            Some (deny delegation_reason
              [state_entry s, (''delegation'', managed_delegation_policy s tool_input),
               (''risk_assessment'', visible_json_for_decision (ge_intent_fingerprint env) p FinalAllowed)])
          else case unsupported_shell_dialect_reason tool_name tool_input of
            Some reason \<Rightarrow>
              Some (deny reason
                [(''available_tools'', strings_json (session_allowed_tools s)), state_entry s,
                 visible_denial env p ''unsupported_shell_dialect'' ''supported_bash_dialect''])
          | None \<Rightarrow> map_option (denial_entries env s p) (semantic_effect_risk_denial_details s p))"

definition adapter_policy_name ::
  "'w gateway_env \<Rightarrow> gateway_session \<Rightarrow> tool_info option \<Rightarrow> risk_pipeline_assessment \<Rightarrow> string \<Rightarrow> json \<Rightarrow>
   (string, json) result" where
  "adapter_policy_name env s registered p tool_name tool_input =
     (if is_exploratory_read_only_state s \<and> registered \<noteq> None \<and> \<not> denied_here s tool_name then
        (case Option.bind registered exploratory_policy_tool of
           None \<Rightarrow>
             Err (deny ''MCP tool is not registered as read-only in this exploratory state.''
               [state_entry s, visible_denial env p ''exploratory_registration_missing'' ''registered_read_only_tool''])
         | Some policy \<Rightarrow>
             if policy = ''Read'' \<and> resolve_effect p \<noteq> EffReadOnly then
               Err (deny ''MCP invocation has unresolved or mutating effects in this exploratory state.''
                 [state_entry s, visible_denial env p ''exploratory_effect_unresolved'' ''registered_read_only_effect''])
             else Ok policy)
      else Ok (resolve_adapter_tool_name_with_pipeline_and_origin s tool_name tool_input (Some p)
                 (if registered \<noteq> None then RegisteredUpstream else NativeUnregistered)))"

definition adapter_interceptors ::
  "'w gateway_env \<Rightarrow> gateway_session \<Rightarrow> risk_pipeline_assessment \<Rightarrow> string \<Rightarrow> json \<Rightarrow> string \<Rightarrow> string option \<Rightarrow> json" where
  "adapter_interceptors env s p tool_name tool_input policy_tool notice =
     (case semantic_effect_capability_denial_details s p of
        Some d \<Rightarrow> denial_entries env s p d
      | None \<Rightarrow>
          (let allowed = [(''policy_tool_name'', JString policy_tool), (''additional_context'', opt_json JString notice), state_entry s,
                 (''risk_assessment'', visible_json_for_decision (ge_intent_fingerprint env) p FinalAllowed)]
           in case pre_call_check_with_pipeline s tool_name tool_input (Some p) of
                PreBlock reason \<Rightarrow>
                  deny reason [state_entry s, visible_denial env p ''interceptor_policy'' ''interceptor_clearance'']
              | PreWarn warning \<Rightarrow> json_object ([decision ''allow'', (''warning'', JString warning)] @ allowed)
              | PreAllow \<Rightarrow> json_object (decision ''allow'' # allowed)))"

definition implicit_adapter_data :: json where
  "implicit_adapter_data = json_object [(''implicit'', JBool True), (''adapter'', JBool True)]"

definition session_gone :: "'w gateway_env \<Rightarrow> risk_pipeline_assessment \<Rightarrow> string \<Rightarrow> json" where
  "session_gone env p reason =
     deny reason [visible_denial env p ''workflow_session_unavailable'' ''active_workflow_session'']"

definition adapter_enforce ::
  "'w gateway_env \<Rightarrow> gateway_session \<Rightarrow> risk_pipeline_assessment \<Rightarrow> string \<Rightarrow> json \<Rightarrow> string \<Rightarrow> gateway \<Rightarrow> json \<times> gateway" where
  "adapter_enforce env s p tool_name tool_input policy_tool gw =
     (case enforce_tool_call (ge_as_f64 env) s policy_tool of
        Allow \<Rightarrow> (adapter_interceptors env s p tool_name tool_input policy_tool None, gw)
      | Block reason available \<Rightarrow>
          (deny reason [(''available_tools'', strings_json available), state_entry s,
             visible_denial env p ''workflow_tool_policy'' ''declared_tool_capability''], gw)
      | CheckpointReached iteration max0 \<Rightarrow>
          (adapter_interceptors env s p tool_name tool_input policy_tool
             (Some (''CHECKPOINT: iteration '' @ show_word iteration @ ''/'' @ show_word max0 @ '' in state '' @
                quoted (gs_current_state s) @ ''. Make the best bounded edit and transition.'')), gw)
      | ImplicitTransition event new_state \<Rightarrow>
          (case semantic_effect_capability_denial_details (s\<lparr>gs_current_state := new_state\<rparr>) p of
             Some d \<Rightarrow> (denial_entries env s p d, gw)
           | None \<Rightarrow>
               (let gw1 = record_run_transition (gs_current_state s) new_state new_state event implicit_adapter_data
                            (move_session new_state (gs_context s) gw)
                in case live_session gw1 of
                     None \<Rightarrow> (session_gone env p ''workflow session disappeared during implicit transition'', gw1)
                   | Some updated \<Rightarrow>
                       (adapter_interceptors env updated p tool_name tool_input policy_tool
                          (Some (''State transitioned: '' @ gs_current_state s @ '' -> '' @ new_state @ '' (via '' @ event @ '').'')),
                        gw1))))"

definition inactive_allow :: json where
  "inactive_allow = json_object [decision ''allow'', (''active'', JBool False)]"

definition adapter_pre_tool_with_evidence ::
  "'w gateway_env \<Rightarrow> string \<Rightarrow> json \<Rightarrow> json option \<Rightarrow> gateway \<Rightarrow> 'w \<Rightarrow> json \<times> gateway \<times> 'w" where
  "adapter_pre_tool_with_evidence env tool_name tool_input evidence gw w =
     (if gw_active_workflow gw = None then (inactive_allow, gw, w)
      else case live_session gw of
        None \<Rightarrow> (deny ''No active session'' [], gw, w)
      | Some initial \<Rightarrow>
          (case tool_info_of (gw_upstream gw) tool_name of
             Err reason \<Rightarrow> (deny reason [], gw, w)
           | Ok registered \<Rightarrow>
               (case assess_pipeline_visible env True registered tool_name tool_input
                       (Option.bind (session_state_def initial) sd_intent) gw w of
                  (p0, gw1, w1) \<Rightarrow>
                    (let p = apply_native_command_evidence (ge_evidence env) p0 registered tool_name tool_input evidence
                     in case live_session gw1 of
                          None \<Rightarrow>
                            (session_gone env p ''workflow session disappeared while semantic risk was assessed'', gw1, w1)
                        | Some s \<Rightarrow>
                            (case adapter_refusal env s p tool_name tool_input of
                               Some denial \<Rightarrow> (denial, gw1, w1)
                             | None \<Rightarrow>
                                 (case adapter_policy_name env s registered p tool_name tool_input of
                                    Err denial \<Rightarrow> (denial, gw1, w1)
                                  | Ok policy_tool \<Rightarrow>
                                      (case adapter_enforce env s p tool_name tool_input policy_tool gw1 of
                                         (reply, gw2) \<Rightarrow> (reply, gw2, w1))))))))"

section \<open>After the tool ran\<close>

definition native_result :: "string \<Rightarrow> bool \<Rightarrow> tool_call_result" where
  "native_result response is_error = \<lparr>tcr_content = [text_content response], tcr_is_error = is_error\<rparr>"

definition inactive_error :: json where
  "inactive_error = json_object [(''active'', JBool False), (''error'', JString ''No active session'')]"

definition adapter_interrupt :: "string option \<Rightarrow> gateway \<Rightarrow> json \<times> gateway" where
  "adapter_interrupt edited gw =
     (case Option.bind (live_session gw) (\<lambda>s. map_option (\<lambda>t. (s, t)) (triggered_interrupt s edited)) of
        None \<Rightarrow> (JNull, gw)
      | Some (s, path, name, i) \<Rightarrow>
          (json_object [(''name'', JString name), (''trigger_file'', JString path), (''from'', JString (gs_current_state s)),
             (''to'', JString (id_target i))],
           enter_interrupt s name i (interrupt_data path) gw))"

definition adapter_post_tool ::
  "string \<Rightarrow> json \<Rightarrow> string \<Rightarrow> bool \<Rightarrow> gateway \<Rightarrow> json \<times> gateway" where
  "adapter_post_tool tool_name tool_input response is_error gw =
     (if gw_active_workflow gw = None then (json_object [(''active'', JBool False)], gw)
      else case live_session gw of
        None \<Rightarrow> (inactive_error, gw)
      | Some before \<Rightarrow>
          (let origin = (case tool_info_of (gw_upstream gw) tool_name of Ok (Some _) \<Rightarrow> RegisteredUpstream | _ \<Rightarrow> NativeUnregistered);
               policy_tool = resolve_adapter_tool_name_with_pipeline_and_origin before tool_name tool_input None origin;
               update = post_call_annotations tool_name tool_input (native_result response is_error);
               gw1 = record_call policy_tool update is_error (count_iteration gw);
               (interrupt, gw2) = adapter_interrupt (pu_file_edited update) gw1
           in case live_session gw2 of
                None \<Rightarrow> (inactive_error, gw2)
              | Some s \<Rightarrow>
                  (json_object
                    [(''active'', JBool True), (''policy_tool_name'', JString policy_tool), state_entry s,
                     (''previous_state'', JString (gs_current_state before)), (''iteration'', u32_json (gs_iteration_count s)),
                     (''max_iterations'', opt_json u32_json (max_iterations s)), (''completed'', JBool (is_final s)),
                     (''interrupt'', interrupt)], gw2)))"

definition adapter_stop :: "gateway \<Rightarrow> json" where
  "adapter_stop gw =
     (if gw_active_workflow gw = None then inactive_allow
      else case live_session gw of
        None \<Rightarrow> inactive_allow
      | Some s \<Rightarrow>
          if is_final s then json_object [decision ''allow'', (''active'', JBool True), state_entry s]
          else json_object [decision ''block'', (''active'', JBool True), state_entry s,
            (''reason'', JString (''Task is not complete. Current Statewright state: '' @ quoted (gs_current_state s) @ ''.''))])"

section \<open>What an allowed call satisfies\<close>

lemma map_of_rev_None: "k \<notin> fst ` set kvs \<Longrightarrow> map_of (rev kvs) k = None"
  by (simp add: map_of_eq_None_iff)

lemma deny_denies: "''decision'' \<notin> fst ` set entries \<Longrightarrow> \<not> allows (deny reason entries)"
  by (simp add: allows_def deny_def decision_def map_add_def map_of_rev_None split: option.splits)

lemmas entry_defs = state_entry_def visible_denial_def

lemma denial_denies [simp]: "\<not> allows (denial_entries env s p d)" "\<not> allows (session_gone env p reason)"
  unfolding denial_entries_def session_gone_def by (rule deny_denies, simp add: entry_defs)+

lemma adapter_refusal_denies: "adapter_refusal env s p tool input = Some j \<Longrightarrow> \<not> allows j"
  unfolding adapter_refusal_def
  by (auto split: option.splits if_splits intro!: deny_denies simp: entry_defs)

lemma adapter_policy_denies: "adapter_policy_name env s registered p tool input = Err j \<Longrightarrow> \<not> allows j"
  unfolding adapter_policy_name_def
  by (auto split: option.splits if_splits intro!: deny_denies simp: entry_defs)

lemma adapter_interceptors_allows:
  "allows (adapter_interceptors env s p tool input policy notice) \<longleftrightarrow>
     semantic_effect_capability_denial s p = None \<and> cleared (pre_call_check_with_pipeline s tool input (Some p))"
proof -
  have "\<not> allows (deny reason [state_entry s, visible_denial env p a b])" for reason a b
    by (rule deny_denies) (simp add: entry_defs)
  moreover have "allows (json_object (decision ''allow'' # entries))" if "''decision'' \<notin> fst ` set entries" for entries
    using that by (simp add: allows_def decision_def map_add_def map_of_rev_None split: option.splits)
  ultimately show ?thesis
    by (cases "semantic_effect_capability_denial_details s p"; cases "pre_call_check_with_pipeline s tool input (Some p)")
      (simp_all add: adapter_interceptors_def semantic_effect_capability_denial_def cleared_def Let_def entry_defs)
qed

text \<open>The session in which a call is judged: the one before, or the one an implicit transition leads to.\<close>

definition execution_session :: "as_f64_fn \<Rightarrow> gateway_session \<Rightarrow> string \<Rightarrow> gateway_session option" where
  "execution_session f s policy =
     (case enforce_tool_call f s policy of
        Allow \<Rightarrow> Some s
      | CheckpointReached _ _ \<Rightarrow> Some s
      | ImplicitTransition _ new_state \<Rightarrow> Some (enter_state new_state (gs_context s) s)
      | Block _ _ \<Rightarrow> None)"

lemma adapter_enforce_allows:
  assumes "adapter_enforce env s p tool input policy gw = (j, gw')" "allows j" "live_session gw = Some s"
  shows "\<exists>x. execution_session (ge_as_f64 env) s policy = Some x \<and> live_session gw' = Some x \<and>
    semantic_effect_capability_denial x p = None \<and> cleared (pre_call_check_with_pipeline x tool input (Some p))"
proof -
  have "\<not> allows (deny reason [(''available_tools'', strings_json available), state_entry s, visible_denial env p a b])"
    for reason available a b
    by (rule deny_denies) (simp add: entry_defs)
  with assms show ?thesis
    by (auto simp: adapter_enforce_def execution_session_def Let_def adapter_interceptors_allows
        split: enforcement_decision.splits option.splits prod.splits)
qed

lemma pending_execution: "execution_session f s policy = Some x \<Longrightarrow> gs_pending_approval x = gs_pending_approval s"
  by (auto simp: execution_session_def session_upd_defs split: enforcement_decision.splits)

lemma policy_execution:
  "execution_session f s policy = Some x \<Longrightarrow> uses_semantic_effect_policy x = uses_semantic_effect_policy s"
proof -
  have "uses_semantic_effect_policy (enter_state st (gs_context s) s) = uses_semantic_effect_policy s" for st
    by (cases "gs_context s")
      (auto simp: uses_semantic_effect_policy_def session_upd_defs canonicalize_tool_policy_mode_def jget_str_def bt_simps
        legacy_denylist_heuristic_policy_mode_def denylist_heuristic_policy_mode_def)
  then show "execution_session f s policy = Some x \<Longrightarrow> ?thesis"
    by (auto simp: execution_session_def split: enforcement_decision.splits)
qed

text \<open>The assessment that an adapter's question is answered on.\<close>

definition adapter_assessment ::
  "'w gateway_env \<Rightarrow> string \<Rightarrow> json \<Rightarrow> json option \<Rightarrow> gateway \<Rightarrow> 'w \<Rightarrow> risk_pipeline_assessment" where
  "adapter_assessment env tool input evidence gw w =
     (let registered = (case tool_info_of (gw_upstream gw) tool of Ok r \<Rightarrow> r | Err _ \<Rightarrow> None)
      in apply_native_command_evidence (ge_evidence env)
           (fst (assess_pipeline_visible env True registered tool input (session_intent gw) gw w)) registered tool input evidence)"

lemma adapter_gates:
  assumes "adapter_pre_tool_with_evidence env tool input evidence gw w = (j, gw', w')"
    and "allows j" "gw_active_workflow gw \<noteq> None"
  shows "\<exists>s x policy. gs_pending_approval s = None \<and>
    semantic_effect_risk_denial s (adapter_assessment env tool input evidence gw w) = None \<and>
    execution_session (ge_as_f64 env) s policy = Some x \<and> live_session gw' = Some x \<and> gs_pending_approval x = None \<and>
    semantic_effect_capability_denial x (adapter_assessment env tool input evidence gw w) = None \<and>
    cleared (pre_call_check_with_pipeline x tool input (Some (adapter_assessment env tool input evidence gw w)))"
proof -
  let ?p = "adapter_assessment env tool input evidence gw w"
  have no: "\<not> allows (deny reason [])" for reason by (rule deny_denies) simp
  obtain initial where initial: "live_session gw = Some initial"
    using assms no by (cases "live_session gw") (auto simp: adapter_pre_tool_with_evidence_def)
  obtain registered where registered: "tool_info_of (gw_upstream gw) tool = Ok registered"
    using assms no initial by (cases "tool_info_of (gw_upstream gw) tool") (auto simp: adapter_pre_tool_with_evidence_def)
  obtain p0 gw1 w1 where a: "assess_pipeline_visible env True registered tool input
      (Option.bind (session_state_def initial) sd_intent) gw w = (p0, gw1, w1)" by (metis prod_cases3)
  have p: "apply_native_command_evidence (ge_evidence env) p0 registered tool input evidence = ?p"
    using a initial registered by (simp add: adapter_assessment_def session_intent_def)
  obtain s where s: "live_session gw1 = Some s"
    using assms initial registered a by (cases "live_session gw1") (auto simp: adapter_pre_tool_with_evidence_def)
  have refuse: "adapter_refusal env s ?p tool input = None"
    using assms initial registered a s p adapter_refusal_denies [of env s ?p tool input]
    by (cases "adapter_refusal env s ?p tool input") (auto simp: adapter_pre_tool_with_evidence_def Let_def)
  obtain policy where policy: "adapter_policy_name env s registered ?p tool input = Ok policy"
    using assms initial registered a s p refuse adapter_policy_denies [of env s registered ?p tool input]
    by (cases "adapter_policy_name env s registered ?p tool input") (auto simp: adapter_pre_tool_with_evidence_def Let_def)
  have enf: "adapter_enforce env s ?p tool input policy gw1 = (j, gw')"
    using assms initial registered a s p refuse policy
    by (auto simp: adapter_pre_tool_with_evidence_def Let_def split: prod.splits)
  have gates: "gs_pending_approval s = None" "semantic_effect_risk_denial s ?p = None"
    using refuse by (auto simp: adapter_refusal_def semantic_effect_risk_denial_def split: option.splits if_splits)
  from adapter_enforce_allows [OF enf assms(2) s] gates show ?thesis using pending_execution by metis
qed


definition shell_machine :: machine_definition where
  "shell_machine = \<lparr>md_id = ''m'', md_initial = ''work'',
     md_context = JObject [(''tool_policy_mode'', JString ''denylist_heuristic_v1'')],
     md_states = [(''work'', empty_state_def\<lparr>sd_allowed_tools := Some [''Bash'', ''Read'']\<rparr>)],
     md_guards = [], md_meta = None, md_interrupts = []\<rparr>"

definition ask_shell :: "string \<Rightarrow> json \<times> gateway \<times> unit" where
  "ask_shell command =
     adapter_pre_tool_with_evidence quiet_env ''Bash'' (shell_call command) None (gateway_on shell_machine []) ()"

lemma ls_allowed: "allows (fst (ask_shell ''ls src | grep x''))"
  by code_simp


lemma segment_known_risk:
  assumes "is_shell_name tool" "command_argument input = Some command"
    and "seg \<in> set (split_segments command)" "trim seg \<noteq> []"
    and "classify_segment (trim seg) \<in> {Destructive, Network, GitWrite}"
  shows "known_risk (assess_invocation_with_origin fp ast mode registered tool input intent trusted)"
proof -
  have "classify_segment (trim seg) \<in> set (classify command)"
    by (rule classify_leaf) (use assms(3,4,5) in auto)
  then have "known_risk (assess_shell command)" using assms(5) by (rule assess_shell_known_risk)
  with assms(1,2) show ?thesis by (intro assess_invocation_shell_risk)
qed

lemma assessed_known_risk:
  assumes "\<And>registered. known_risk (assess_invocation_with_origin (ge_fingerprint env) (ee_ast_assess (ge_evidence env))
      (ge_ast_mode env) registered tool input (session_intent gw) True)"
  shows "resolve_effect (adapter_assessment env tool input evidence gw w) = EffDenyKnownRisk"
proof -
  let ?r = "case tool_info_of (gw_upstream gw) tool of Ok r \<Rightarrow> r | Err _ \<Rightarrow> None"
  let ?d = "assess_invocation_with_origin (ge_fingerprint env) (ee_ast_assess (ge_evidence env)) (ge_ast_mode env)
      ?r tool input (session_intent gw) True"
  obtain receipt where p0: "fst (assess_pipeline_visible env True ?r tool input (session_intent gw) gw w) =
      pipeline_from_parts ?d receipt (ge_authoritative env)"
    by (cases "case sa_semantic_request ?d of Some rq \<Rightarrow> ge_semantic env rq (gw_sessions gw, w)
        | None \<Rightarrow> (malformed_receipt, gw_sessions gw, w)")
      (simp add: assess_pipeline_visible_def Let_def)
  have "sa_risk (rp_deterministic (pipeline_from_parts ?d receipt (ge_authoritative env))) \<in> set [High, Critical]"
    using assms [of ?r] by (auto simp: known_risk_iff pipeline_from_parts_def Let_def)
  then have "adapter_assessment env tool input evidence gw w = pipeline_from_parts ?d receipt (ge_authoritative env)"
    using p0 unfolding adapter_assessment_def Let_def apply_native_command_evidence_def by (simp split: option.splits)
  then show ?thesis using known_risk_denied [OF assms [of ?r]] by simp
qed

text \<open>
  C8: no allowed shell command carries a known risk, end to end. Under the effect policy, a
  native shell call that the gateway allows has no segment that destroys data, reaches the network
  or writes Git history, whatever the command around the segment, the syntax-tree classifier, the
  semantic assessor, the local evidence and the concurrent use of the store.
\<close>

theorem allowed_shell_command_safe:
  assumes "adapter_pre_tool_with_evidence env tool input evidence gw w = (j, gw', w')"
    and "allows j" "gw_active_workflow gw \<noteq> None"
    and "live_session gw' = Some x" "uses_semantic_effect_policy x"
    and "is_shell_name tool" "command_argument input = Some command"
    and "seg \<in> set (split_segments command)" "trim seg \<noteq> []"
  shows "classify_segment (trim seg) \<notin> {Destructive, Network, GitWrite}"
proof
  assume "classify_segment (trim seg) \<in> {Destructive, Network, GitWrite}"
  then have effect: "resolve_effect (adapter_assessment env tool input evidence gw w) = EffDenyKnownRisk"
    using segment_known_risk [OF assms(6-9)] by (intro assessed_known_risk)
  obtain s policy where s: "semantic_effect_risk_denial s (adapter_assessment env tool input evidence gw w) = None"
      "execution_session (ge_as_f64 env) s policy = Some x"
    using adapter_gates [OF assms(1-3)] assms(4) by (metis option.inject)
  have "uses_semantic_effect_policy s" using policy_execution [OF s(2)] assms(5) by simp
  then show False using s(1) effect by (simp add: risk_denial_None tolerated_def)
qed

theorem allowed_shell_command_safe_witness:
  "list_all (\<lambda>seg. classify_segment (trim seg) \<notin> {Destructive, Network, GitWrite}) (split_segments ''ls src | grep x'')"
  unfolding list_all_iff
proof
  fix seg assume seg: "seg \<in> set (split_segments ''ls src | grep x'')"
  obtain j gw' w' where r: "ask_shell ''ls src | grep x'' = (j, gw', w')" by (metis prod_cases3)
  have "allows j" using ls_allowed r by simp
  moreover have active: "gw_active_workflow (gateway_on shell_machine []) \<noteq> None" by (simp add: gateway_on_def)
  moreover obtain x where x: "live_session gw' = Some x" "uses_semantic_effect_policy x"
  proof -
    have "is_some_and uses_semantic_effect_policy (live_session (fst (snd (ask_shell ''ls src | grep x''))))" by code_simp
    then show ?thesis using r that by (auto simp: is_some_and_iff)
  qed
  moreover have "is_shell_name ''Bash''" "command_argument (shell_call ''ls src | grep x'') = Some ''ls src | grep x''" by code_simp+
  moreover have "trim seg \<noteq> []" using seg
  proof -
    have "list_all (\<lambda>seg. trim seg \<noteq> []) (split_segments ''ls src | grep x'')" by code_simp
    then show ?thesis using seg by (simp add: list_all_iff)
  qed
  ultimately show "classify_segment (trim seg) \<notin> {Destructive, Network, GitWrite}"
    using allowed_shell_command_safe [OF r [unfolded ask_shell_def]] seg by blast
qed

end
