(* ===== verification/GatewayTransitions.thy ===== *)
theory GatewayTransitions
  imports GatewayCalls
begin

text \<open>
  The workflow tools of the gateway (\<open>crates/mcp-gateway/src/gateway.rs\<close>): the handler of \<open>statewright_transition\<close> with its
  interrupts, forked branches, approvals and subflows, \<open>statewright_force_state\<close>, \<open>statewright_deactivate\<close>, and the decision of a
  human reviewer on a parked transition. A transition that needs approval is parked in the session and stored; the reviewer
  sees its projection, and the receipt of the decision moves the session or drops the request.
\<close>

section \<open>Reading and writing nested values\<close>

text \<open>\<open>value[key] = v\<close> below an object.\<close>

definition jupdate :: "json \<Rightarrow> string \<Rightarrow> (json \<Rightarrow> json) \<Rightarrow> json" where
  "jupdate v k f = jset v k (f (jindex v k))"

definition jstr :: "json \<Rightarrow> string \<Rightarrow> string option" where
  "jstr v k = as_str (jindex v k)"

definition count_json :: "nat \<Rightarrow> json" where
  "count_json n = u64_json (of_nat n)"

definition fork_key :: string where
  "fork_key = ''_fork''"

text \<open>Data from the caller is laid over the context unless it is empty or no object.\<close>

definition with_data :: "json \<Rightarrow> json \<Rightarrow> json" where
  "with_data ctx data = (if is_object data \<and> data \<noteq> JObject [] then apply_context_patch ctx data else ctx)"

definition event_data :: "json \<Rightarrow> json" where
  "event_data arguments = jremove (jremove (unwrap_or (JObject []) (jget arguments ''data'')) return_key) fork_key"

definition final_run_status :: "string \<Rightarrow> string" where
  "final_run_status final_state = (if final_state \<in> set [''blocked'', ''failed''] then final_state else ''completed'')"

section \<open>Interrupts asked for by a plugin\<close>

definition interrupt_request :: "gateway_session \<Rightarrow> string \<Rightarrow> json \<Rightarrow> gateway \<Rightarrow> reply \<times> gateway" where
  "interrupt_request s name data gw =
     (case bt_get (md_interrupts (gs_definition s)) name of
        None \<Rightarrow> (ReplyToolError (''Unknown interrupt '' @ quoted name), gw)
      | Some i \<Rightarrow>
          if jget (gs_context s) return_key \<noteq> None then
            (ReplyText (json_object [(''skipped'', JBool True), (''reason'', JString ''Already in interrupt handler'')]), gw)
          else
            (ReplyText (json_object [(''interrupted'', JBool True), (''from'', JString (gs_current_state s)),
               (''to'', JString (id_target i)), (''interrupt'', JString name)]),
             enter_interrupt s name i data gw))"

section \<open>Branches of a fork\<close>

definition branch_status :: "json \<Rightarrow> string option" where
  "branch_status b = jstr b ''status''"

definition branches_of :: "json \<Rightarrow> (string \<times> json) list" where
  "branches_of fork = unwrap_or [] (as_object (jindex fork ''branches''))"

definition set_branch_status :: "json \<Rightarrow> string \<Rightarrow> string \<Rightarrow> json" where
  "set_branch_status fork name status =
     jupdate fork ''branches'' (\<lambda>bs. jupdate bs name (\<lambda>b. jset b ''status'' (JString status)))"

definition count_status :: "json \<Rightarrow> string \<Rightarrow> nat" where
  "count_status fork status = length (filter (\<lambda>b. branch_status (snd b) = Some status) (branches_of fork))"

definition join_all :: "json \<Rightarrow> bool" where
  "join_all fork \<longleftrightarrow> unwrap_or ''all'' (jstr fork ''join'') \<noteq> ''any''"

definition join_met :: "json \<Rightarrow> json \<Rightarrow> bool" where
  "join_met fork new_fork \<longleftrightarrow>
     (if join_all fork then count_status new_fork ''completed'' = length (branches_of new_fork)
      else count_status new_fork ''completed'' \<ge> 1)"

definition join_failed :: "json \<Rightarrow> json \<Rightarrow> bool" where
  "join_failed fork new_fork \<longleftrightarrow> unwrap_or ''all'' (jstr fork ''join'') = ''all'' \<and> count_status new_fork ''failed'' > 0"

text \<open>The parent leaves the fork for the given state.\<close>

definition join_to :: "gateway_session \<Rightarrow> string \<Rightarrow> string \<Rightarrow> json \<Rightarrow> gateway \<Rightarrow> gateway" where
  "join_to s state event data gw =
     record_run_transition (gs_current_state s) state state event data
       (record_step (move_session state (jremove (gs_context s) fork_key) gw))"

definition next_branch_of :: "json \<Rightarrow> string option" where
  "next_branch_of fork = map_option fst (find (\<lambda>b. branch_status (snd b) = Some ''pending'') (branches_of fork))"

definition start_branch :: "json \<Rightarrow> string \<Rightarrow> json" where
  "start_branch fork name = set_branch_status (jset fork ''current_branch'' (JString name)) name ''running''"

definition continue_fork :: "gateway_session \<Rightarrow> json \<Rightarrow> json \<Rightarrow> string \<Rightarrow> gateway \<Rightarrow> reply \<times> gateway" where
  "continue_fork s fork new_fork branch gw =
     (let completed = count_json (count_status new_fork ''completed'');
          remaining = count_json (length (branches_of new_fork) - count_status new_fork ''completed'');
          next_branch = next_branch_of new_fork;
          usage_state = unwrap_or (gs_current_state s)
            (Option.bind next_branch (\<lambda>name. jstr (jindex (jindex fork ''branches'') name) ''initial''));
          stored = (case next_branch of None \<Rightarrow> new_fork | Some name \<Rightarrow> start_branch new_fork name)
      in (ReplyText (json_object [(''branch_completed'', JString branch), (''next_branch'', opt_json JString next_branch),
            (''completed'', completed), (''remaining'', remaining)]),
          record_run_transition (gs_current_state s) (gs_current_state s) usage_state (''BRANCH_DONE:'' @ branch)
            (json_object [(''completed'', completed), (''remaining'', remaining)])
            (move_session (gs_current_state s) (jset (gs_context s) fork_key stored) gw)))"

definition branch_done :: "gateway_session \<Rightarrow> string \<Rightarrow> gateway \<Rightarrow> reply \<times> gateway" where
  "branch_done s branch gw =
     (case jget (gs_context s) fork_key of
        None \<Rightarrow> (ReplyToolError ''No active fork. Cannot complete branch.'', gw)
      | Some fork \<Rightarrow>
          (let info = jindex (jindex fork ''branches'') branch
           in if info = JNull then (ReplyToolError (''Unknown branch '' @ quoted branch), gw)
              else if \<not> is_object info then (ReplyPanic, gw)
              else (let new_fork = set_branch_status fork branch ''completed'';
                        completed = count_status new_fork ''completed''
                    in if join_met fork new_fork then
                         (let on_complete = unwrap_or [] (jstr fork ''on_complete'')
                          in (ReplyText (json_object [(''joined'', JBool True), (''to'', JString on_complete),
                                (''completed_branches'', count_json completed)]),
                              join_to s on_complete ''FORK_JOIN'' (json_object [(''completed_branches'', count_json completed)]) gw))
                       else if join_failed fork new_fork then
                         (let on_fail = unwrap_or ''failed'' (jstr fork ''on_fail'')
                          in (ReplyText (json_object [(''joined'', JBool False), (''failed'', JBool True), (''to'', JString on_fail)]),
                              join_to s on_fail ''FORK_JOIN_FAILED''
                                (json_object [(''failed_branches'', count_json (count_status new_fork ''failed''))]) gw))
                       else continue_fork s fork new_fork branch gw)))"

text \<open>
  Creating a fork: one session per branch, in the order of the branch names. The first branch runs and the
  parent keeps its state.
\<close>

definition branch_session_key :: "gateway \<Rightarrow> string \<Rightarrow> string" where
  "branch_session_key gw name = gw_session_id gw @ ''_br_'' @ name"

definition create_branch :: "gateway_session \<Rightarrow> string \<times> json \<Rightarrow> gateway \<Rightarrow> gateway" where
  "create_branch s nb gw =
     (let key = branch_session_key gw (fst nb);
          gw1 = on_sessions (\<lambda>S. snd (create key (gs_definition s) S)) gw;
          gw2 = on_sessions (\<lambda>S. snd (update_state key (unwrap_or [] (jstr (snd nb) ''initial'')) (JObject []) S)) gw1
      in case gs_plan_limit s of None \<Rightarrow> gw2 | Some limit \<Rightarrow> on_sessions (set_plan_limit key limit) gw2)"

fun fork_branches :: "gateway \<Rightarrow> bool \<Rightarrow> (string \<times> json) list \<Rightarrow> (string \<times> json) list" where
  "fork_branches gw started [] = []"
| "fork_branches gw started ((name, b) # bs) =
     (name, json_object
        [(''session_key'', JString (branch_session_key gw name)),
         (''initial'', JString (unwrap_or [] (jstr b ''initial''))),
         (''terminal'', JString (unwrap_or [] (jstr b ''terminal''))),
         (''status'', JString (if started then ''pending'' else ''running''))])
     # fork_branches gw (started \<or> name \<noteq> []) bs"

fun first_branch_name :: "(string \<times> json) list \<Rightarrow> string" where
  "first_branch_name [] = []"
| "first_branch_name ((name, _) # bs) = (if name = [] then first_branch_name bs else name)"

definition new_fork_context :: "gateway \<Rightarrow> json \<Rightarrow> json" where
  "new_fork_context gw info = json_object
     [(''branches'', json_object (fork_branches gw False (branches_of info))),
      (''join'', JString (unwrap_or ''all'' (jstr info ''join''))),
      (''on_complete'', JString (unwrap_or [] (jstr info ''on_complete''))),
      (''on_fail'', opt_json JString (jstr info ''on_fail'')),
      (''current_branch'', JString (first_branch_name (branches_of info)))]"

definition create_fork ::
  "gateway_session \<Rightarrow> string \<Rightarrow> string \<Rightarrow> json \<Rightarrow> json \<Rightarrow> gateway \<Rightarrow> reply \<times> gateway" where
  "create_fork s prev_state event data info gw =
     (let fork = new_fork_context gw info;
          first_branch = first_branch_name (branches_of info);
          gw1 = fold (create_branch s) (branches_of info) gw;
          parent_ctx = jremove (jset (with_data (object_or_empty (gs_context s)) data) fork_key fork) return_key;
          first_state = unwrap_or prev_state (jstr (jindex (jindex fork ''branches'') first_branch) ''initial'')
      in (ReplyText (json_object [(''forked'', JBool True), (''branches'', jindex fork ''branches''),
            (''current_branch'', JString first_branch), (''join'', jindex fork ''join''),
            (''on_complete'', jindex fork ''on_complete'')]),
          record_run_transition prev_state (''FORK:'' @ first_branch) first_state event data
            (record_step (move_session prev_state parent_ctx gw1))))"

section \<open>Subflows\<close>

text \<open>The built-in child workflow (\<open>plugins/codex/workflows/adr-record.json\<close>).\<close>

definition adr_record :: machine_definition where
  "adr_record = \<lparr>md_id = ''adr-record'', md_initial = ''record'', md_context = JNull,
     md_states =
       [(''completed'', empty_state_def\<lparr>sd_state_type := Some Final\<rparr>),
        (''failed'', empty_state_def\<lparr>sd_state_type := Some Final\<rparr>),
        (''record'', empty_state_def\<lparr>sd_allowed_tools := Some [''Read'', ''Edit'', ''Write'', ''Bash''],
           sd_instructions := Some ''Create the project-local ADR at context.adr_path before any parent implementation. Include task, decision, scope, constraints, evidence, intended edits, verification, and an initially pending outcome. Do not edit product files.'',
           sd_on := [(''ADR_WRITTEN'', Simple ''completed''), (''FAIL'', Simple ''failed'')]\<rparr>)],
     md_guards = [], md_meta = None, md_interrupts = []\<rparr>"

definition child_definition :: "gateway \<Rightarrow> string \<Rightarrow> machine_definition option" where
  "child_definition gw machine =
     or_else (bt_get (gw_workflows gw) machine) (if machine = ''adr-record'' then Some adr_record else None)"

definition begin_subflow :: "string \<Rightarrow> string \<Rightarrow> json \<Rightarrow> json \<Rightarrow> gateway \<Rightarrow> reply \<times> gateway" where
  "begin_subflow prev_state event data invoke gw =
     (let machine = unwrap_or [] (jstr invoke ''machine'')
      in case child_definition gw machine of
           None \<Rightarrow> (ReplyToolError (''Unknown subflow '' @ quoted machine @ ''. Register it before invoking it.''), gw)
         | Some child \<Rightarrow>
             (let on_complete = unwrap_or ''failed'' (jstr invoke ''on_complete'');
                  input = unwrap_or (JObject []) (jget invoke ''input'')
              in (ReplyText (json_object [(''subflow_started'', JString machine), (''parent_state'', JString prev_state),
                    (''on_complete'', JString on_complete)]),
                  record_run_transition prev_state (''SUBFLOW:'' @ machine) (md_initial child) event data
                    (record_step
                      (on_sessions (\<lambda>S. snd (start_subflow (gw_session_id gw) machine child input on_complete
                         (jstr invoke ''on_fail'') S)) gw)))))"

section \<open>Approvals\<close>

definition approval_mode :: "gateway_session \<Rightarrow> string" where
  "approval_mode s =
     unwrap_or ''ui'' (Option.bind (Option.bind (md_meta (gs_definition s)) (\<lambda>m. bt_get (mm_extra m) ''approval_mode'')) as_str)"

definition persist_approval_checkpoint :: "'w gateway_env \<Rightarrow> gateway \<Rightarrow> 'w \<Rightarrow> string option \<times> gateway \<times> 'w" where
  "persist_approval_checkpoint env gw w =
     (if \<not> gw_durable gw then (None, gw, w)
      else if gw_current_run_id gw = None then (Some ''Approval has no durable run'', gw, w)
      else if live_session gw = None then (Some ''Workflow unavailable'', gw, w)
      else (case ge_persist env gw (gw_sessions gw, w) of
              (saved, S, w') \<Rightarrow>
                (if saved then None else Some ''Approval checkpoint could not be saved'', gw\<lparr>gw_sessions := S\<rparr>, w')))"

definition park_transition ::
  "'w gateway_env \<Rightarrow> gateway_session \<Rightarrow> string \<Rightarrow> string \<Rightarrow> json \<Rightarrow> json \<Rightarrow> gateway \<Rightarrow> 'w \<Rightarrow> reply \<times> gateway \<times> 'w" where
  "park_transition env s prev_state event data result gw w =
     (let (uuid, w1) = ge_uuid env w;
          approval_id = ''apr_'' @ uuid;
          message = jstr result ''approval_message'';
          pending = \<lparr>pa_approval_id = approval_id, pa_event = event, pa_from_state = prev_state,
            pa_to_state = gs_current_state s, pa_new_context = with_data (gs_context s) data, pa_message = message\<rparr>;
          gw1 = on_sessions (set_pending_approval (gw_session_id gw) pending) gw
      in case persist_approval_checkpoint env gw1 w1 of
           (Some e, gw2, w2) \<Rightarrow>
             (ReplyError (-32600) e, on_sessions (\<lambda>S. snd (clear_pending_approval (gw_session_id gw2) S)) gw2, w2)
         | (None, gw2, w2) \<Rightarrow>
             (ReplyText (json_object [(''status'', JString ''pending_approval''), (''approval_id'', JString approval_id),
                (''run_id'', opt_json JString (gw_current_run_id gw2)),
                (''run_session_id'', JString (gw_transport_session_id gw2)), (''from'', JString prev_state),
                (''to'', JString (gs_current_state s)), (''message'', opt_json JString message)]), gw2, w2))"

section \<open>The transition tool\<close>

text \<open>The ordinary path: the session moves, a child workflow that ends resumes its parent, and a workflow that ends ends its run.\<close>

definition apply_transition :: "gateway_session \<Rightarrow> string \<Rightarrow> string \<Rightarrow> json \<Rightarrow> json \<Rightarrow> gateway \<Rightarrow> reply \<times> gateway" where
  "apply_transition s prev_state event data result gw =
     (let new_state = gs_current_state s;
          gw1 = record_run_transition prev_state new_state new_state event data
                  (record_step (move_session new_state (with_data (gs_context s) data) gw))
      in if is_final s \<and> gs_subflow s \<noteq> None then
           (case complete_subflow (gw_session_id gw1) (new_state \<noteq> ''failed'') (gw_sessions gw1) of
              (None, S) \<Rightarrow> (ReplyText result, gw1\<lparr>gw_sessions := S\<rparr>)
            | (Some (child_final, parent_target), S) \<Rightarrow>
                (ReplyText (json_object [(''subflow_completed'', JBool True), (''child_final'', JString child_final),
                   (''resumed_parent_state'', JString parent_target)]),
                 record_run_transition child_final parent_target parent_target ''SUBFLOW_COMPLETE'' data
                   (gw1\<lparr>gw_sessions := S\<rparr>)))
         else if is_final s then (ReplyText result, record_run_end new_state (final_run_status new_state) gw1)
         else (ReplyText result, gw1))"

definition resolved_transition ::
  "'w gateway_env \<Rightarrow> gateway_session \<Rightarrow> string \<Rightarrow> string \<Rightarrow> json \<Rightarrow> json \<Rightarrow> gateway \<Rightarrow> 'w \<Rightarrow> reply \<times> gateway \<times> 'w" where
  "resolved_transition env s prev_state event data result gw w =
     (if unwrap_or False (as_bool (jindex result ''requires_approval'')) \<and> approval_mode s = ''ui''
      then park_transition env s prev_state event data result gw w
      else if is_object (jindex (jindex result ''fork'') ''branches'') then
        (case create_fork s prev_state event data (jindex result ''fork'') gw of (r, gw1) \<Rightarrow> (r, gw1, w))
      else (case jget result ''invoke'' of
              Some invoke \<Rightarrow> (case begin_subflow prev_state event data invoke gw of (r, gw1) \<Rightarrow> (r, gw1, w))
            | None \<Rightarrow> (case apply_transition s prev_state event data result gw of (r, gw1) \<Rightarrow> (r, gw1, w))))"

definition transition_tool :: "'w gateway_env \<Rightarrow> json \<Rightarrow> gateway \<Rightarrow> 'w \<Rightarrow> reply \<times> gateway \<times> 'w" where
  "transition_tool env arguments gw w =
     (let event = unwrap_or [] (jget_str arguments ''event'');
          data = event_data arguments
      in case live_session gw of
           None \<Rightarrow> (ReplyError (-32600) ''No active session'', gw, w)
         | Some s \<Rightarrow>
             if starts_with event ''INTERRUPT:'' then
               (case interrupt_request s (drop 10 event) data gw of (r, gw1) \<Rightarrow> (r, gw1, w))
             else if starts_with event ''BRANCH_DONE:'' then
               (case branch_done s (drop 12 event) gw of (r, gw1) \<Rightarrow> (r, gw1, w))
             else if gs_pending_approval s \<noteq> None then
               (ReplyToolError ''A transition is pending approval. Approve or reject it before transitioning.'', gw, w)
             else (case handle_transition (ge_as_f64 env) event s of
                     (Err e, _) \<Rightarrow> (ReplyToolError e, gw, w)
                   | (Ok result, s') \<Rightarrow> resolved_transition env s' (gs_current_state s) event data result gw w))"

section \<open>The decision of the reviewer\<close>

definition reviewer_of :: "gateway_session \<Rightarrow> pending_approval \<Rightarrow> json option" where
  "reviewer_of s p =
     (case Option.bind (bt_get (md_states (gs_definition s)) (pa_from_state p)) (\<lambda>sd. bt_get (sd_on sd) (pa_event p)) of
        Some (Full f) \<Rightarrow> ft_approval_reviewer f
      | _ \<Rightarrow> None)"

definition approval_projection :: "gateway \<Rightarrow> string \<Rightarrow> string \<Rightarrow> (json, string) result" where
  "approval_projection gw run_id approval_id =
     (if gw_current_run_id gw \<noteq> Some run_id then Err ''Approval run mismatch''
      else case live_session gw of
        None \<Rightarrow> Err ''Workflow unavailable''
      | Some s \<Rightarrow>
          (let projection = (\<lambda>pending. json_object [(''owner'', JString (gw_owner_id gw)),
                 (''instance_id'', JString (gw_transport_session_id gw)), (''run_id'', JString run_id),
                 (''approval_id'', JString approval_id), (''pending'', pending)])
           in case gs_pending_approval s of
                None \<Rightarrow> Ok (projection JNull)
              | Some p \<Rightarrow>
                  if pa_approval_id p = approval_id then
                    Ok (projection (json_object [(''from_state'', JString (pa_from_state p)), (''to_state'', JString (pa_to_state p)),
                      (''message'', opt_json JString (pa_message p)), (''context_snapshot'', pa_new_context p),
                      (''reviewer'', unwrap_or JNull (reviewer_of s p))]))
                  else Err ''A different approval is pending''))"

definition apply_approval_receipt :: "string \<Rightarrow> string \<Rightarrow> json \<Rightarrow> gateway \<Rightarrow> string option \<times> gateway" where
  "apply_approval_receipt run_id approval_id receipt gw =
     (if gw_current_run_id gw \<noteq> Some run_id \<or> jindex receipt ''run_id'' \<noteq> JString run_id
         \<or> jindex receipt ''approval_id'' \<noteq> JString approval_id
      then (Some ''Approval receipt identity mismatch'', gw)
      else case jstr receipt ''status'' of
        None \<Rightarrow> (Some ''Missing approval status'', gw)
      | Some status \<Rightarrow>
          if status \<notin> set [''pending'', ''approved'', ''rejected''] then (Some ''Invalid approval status'', gw)
          else case live_session gw of
            None \<Rightarrow> (Some ''Workflow unavailable'', gw)
          | Some s \<Rightarrow>
              (case gs_pending_approval s of
                 None \<Rightarrow> (None, gw)
               | Some p \<Rightarrow>
                   (let drop_it = on_sessions (\<lambda>S. snd (clear_pending_approval (gw_session_id gw) S))
                    in if pa_approval_id p \<noteq> approval_id \<or> jindex receipt ''from_state'' \<noteq> JString (pa_from_state p)
                          \<or> jindex receipt ''to_state'' \<noteq> JString (pa_to_state p)
                       then (Some ''Approval transition mismatch'', gw)
                       else if status = ''pending'' then (None, gw)
                       else if status = ''approved'' then
                         (case jget receipt ''context_snapshot'' of
                            Some (JObject m) \<Rightarrow>
                              (None, drop_it
                                (record_run_transition (pa_from_state p) (pa_to_state p) (pa_to_state p) (pa_event p)
                                  (json_object [(''approval_id'', JString approval_id), (''review_note'', jindex receipt ''review_note'')])
                                  (move_session (pa_to_state p) (JObject m) gw)))
                          | _ \<Rightarrow> (Some ''Missing approved context'', gw))
                       else (None, drop_it gw))))"

section \<open>Forcing a state and deactivating\<close>

definition force_state :: "json \<Rightarrow> gateway \<Rightarrow> reply \<times> gateway" where
  "force_state arguments gw =
     (let target0 = unwrap_or [] (jget_str arguments ''state'');
          patch = unwrap_or (JObject []) (jget arguments ''context'')
      in case live_session gw of
           None \<Rightarrow> (ReplyError (-32600) ''No active session'', gw)
         | Some s \<Rightarrow>
             if \<not> meta_flag s ''debug'' then
               (ReplyToolError ''statewright_force_state is only available when meta.debug is true.'', gw)
             else if \<not> bt_contains_key (md_states (gs_definition s)) target0 then
               (ReplyToolError (''State '' @ quoted target0 @ '' does not exist in the workflow.''), gw)
             else
               (ReplyText (json_object [(''forced'', JBool True), (''from'', JString (gs_current_state s)),
                  (''to'', JString target0),
                  (''warning'', JString ''State forced via debug mode. Guards and transitions bypassed.'')]),
                record_run_transition (gs_current_state s) target0 target0 ''FORCE_STATE'' patch
                  (record_step
                    (move_session target0 (with_data (gs_context s) patch)
                      (on_sessions (\<lambda>S. snd (clear_pending_approval (gw_session_id gw) S)) gw)))))"

definition deactivate :: "gateway \<Rightarrow> reply \<times> gateway" where
  "deactivate gw =
     (let gw1 = (case live_session gw of
                   None \<Rightarrow> gw
                 | Some s \<Rightarrow>
                     (let gw0 = (if is_final s then gw else record_run_end (gs_current_state s) ''stopped'' gw)
                      in if jget (gs_context s) fork_key = None then gw0
                         else move_session (gs_current_state s) (jremove (gs_context s) fork_key) gw0))
      in (ReplyText (json_object [(''deactivated'', JBool True)]),
          gw1\<lparr>gw_active_workflow := None, gw_current_run_id := None\<rparr>))"

section \<open>Parking and deciding\<close>

lemma live_sessions [simp]:
  "live_session (on_sessions (set_pending_approval i p) gw) =
     (if i = gw_session_id gw then map_option (park_approval p) (live_session gw) else live_session gw)"
  "live_session (on_sessions (\<lambda>S. snd (clear_pending_approval i S)) gw) =
     (if i = gw_session_id gw then map_option drop_approval (live_session gw) else live_session gw)"
  by (auto simp: live_session_def get_session_def set_pending_approval_def clear_pending_approval_def modify_cases)

lemma gw_fields_on_sessions [simp]:
  "gw_writes (on_sessions f gw) = gw_writes gw" "gw_current_run_id (on_sessions f gw) = gw_current_run_id gw"
  "gw_durable (on_sessions f gw) = gw_durable gw"
  by (simp_all add: on_sessions_def)

text \<open>Only a full transition asks for approval, so nothing else hides behind a request.\<close>

lemma resolve_branches_plain:
  "resolve_branches f d data ctx bs = Ok r \<Longrightarrow> \<not> tr_requires_approval r \<and> tr_invoke r = None \<and> tr_fork r = None"
  by (induction bs) (auto simp: plain_result_def split: if_splits sum.splits)

lemma approval_excludes:
  assumes "resolve_transition f st event data ctx d = Ok r" "tr_requires_approval r"
  shows "tr_invoke r = None \<and> tr_fork r = None"
proof -
  have sel: "resolve_selected f d data ctx t = Ok r \<Longrightarrow> ?thesis" for t
    using assms(2) resolve_branches_plain
    by (cases t) (auto simp: moved_result_def split: option.splits sum.splits)
  have "\<not> tr_requires_approval (plain_result t c)" for t c by (simp add: plain_result_def)
  with assms sel show ?thesis
    by (auto simp: resolve_transition_def Let_def split: option.splits if_splits)
qed

definition ordinary_event :: "string \<Rightarrow> bool" where
  "ordinary_event event \<longleftrightarrow> \<not> starts_with event ''INTERRUPT:'' \<and> \<not> starts_with event ''BRANCH_DONE:''"

definition event_of :: "json \<Rightarrow> string" where
  "event_of arguments = unwrap_or [] (jget_str arguments ''event'')"

text \<open>The session after the engine's step, before the store is written.\<close>

definition stepped :: "gateway_session \<Rightarrow> transition_result \<Rightarrow> gateway_session" where
  "stepped s r = s\<lparr>gs_current_state := tr_new_state r, gs_context := canonicalize_tool_policy_mode (tr_new_context r),
     gs_iteration_count := 0\<rparr>"

definition resolves :: "as_f64_fn \<Rightarrow> gateway_session \<Rightarrow> string \<Rightarrow> transition_result \<Rightarrow> bool" where
  "resolves f s event r \<longleftrightarrow> \<not> is_final s \<and>
     resolve_transition f (gs_current_state s) event (JObject []) (gs_context s) (gs_definition s) = Ok r \<and> tr_transitioned r"

definition storing :: "'w gateway_env \<Rightarrow> bool" where
  "storing env \<longleftrightarrow> (\<forall>g S w. fst (snd (ge_persist env g (S, w))) = S)"

lemma handle_transition_moves:
  assumes "resolves f s event r" "tr_invoke r = None"
  shows "\<exists>result. handle_transition f event s = (Ok result, stepped s r) \<and> is_object result \<and>
    jget result ''requires_approval'' = Some (JBool (tr_requires_approval r)) \<and>
    jget result ''approval_message'' = Some (opt_json JString (tr_approval_message r)) \<and>
    jget result ''fork'' = map_option fork_json (tr_fork r) \<and> jget result ''invoke'' = None"
  using assms
  by (auto simp: handle_transition_def resolves_def stepped_def transition_reply_def Let_def split: option.splits)

lemma jstr_opt [simp]: "jget j k = Some (opt_json JString v) \<Longrightarrow> jstr j k = v"
  by (cases v) (simp_all add: jstr_def jindex_def opt_json_def)

definition parked :: "string \<Rightarrow> string \<Rightarrow> json \<Rightarrow> gateway_session \<Rightarrow> transition_result \<Rightarrow> pending_approval" where
  "parked approval_id event data s r =
     \<lparr>pa_approval_id = approval_id, pa_event = event, pa_from_state = gs_current_state s, pa_to_state = tr_new_state r,
      pa_new_context = with_data (canonicalize_tool_policy_mode (tr_new_context r)) data,
      pa_message = tr_approval_message r\<rparr>"

lemma approval_mode_stepped [simp]: "approval_mode (stepped s r) = approval_mode s"
  by (simp add: approval_mode_def stepped_def)

lemma persist_keeps:
  assumes "storing env" "persist_approval_checkpoint env gw w = (e, gw', w')"
  shows "gw' = gw"
proof -
  have "fst (snd (ge_persist env gw (gw_sessions gw, w))) = gw_sessions gw" using assms(1) by (simp add: storing_def)
  with assms(2) show ?thesis
    by (auto simp: persist_approval_checkpoint_def split: if_splits prod.splits)
qed

lemma transition_tool_parks:
  assumes "live_session gw = Some s" "gs_pending_approval s = None" "ordinary_event (event_of arguments)"
    and "resolves (ge_as_f64 env) s (event_of arguments) r" "tr_requires_approval r" "approval_mode s = ''ui''" "storing env"
  shows "\<exists>p gw1 w1 e w2. p = parked (''apr_'' @ fst (ge_uuid env w)) (event_of arguments) (event_data arguments) s r \<and>
    gw1 = on_sessions (set_pending_approval (gw_session_id gw) p) gw \<and>
    persist_approval_checkpoint env gw1 w1 = (e, gw1, w2) \<and>
    (case e of
       Some msg \<Rightarrow> transition_tool env arguments gw w =
         (ReplyError (-32600) msg, on_sessions (\<lambda>S. snd (clear_pending_approval (gw_session_id gw) S)) gw1, w2)
     | None \<Rightarrow> \<exists>reply. transition_tool env arguments gw w = (ReplyText reply, gw1, w2) \<and>
         jget reply ''approval_id'' = Some (JString (pa_approval_id p)))"
proof -
  let ?p = "parked (''apr_'' @ fst (ge_uuid env w)) (event_of arguments) (event_data arguments) s r"
  let ?g = "on_sessions (set_pending_approval (gw_session_id gw) ?p) gw"
  have "tr_invoke r = None" using approval_excludes assms(4,5) by (auto simp: resolves_def)
  then obtain result where h: "handle_transition (ge_as_f64 env) (event_of arguments) s = (Ok result, stepped s r)"
      "jget result ''requires_approval'' = Some (JBool True)"
      "jget result ''approval_message'' = Some (opt_json JString (tr_approval_message r))"
    using handle_transition_moves [OF assms(4)] assms(5) by auto
  have run: "transition_tool env arguments gw w =
      park_transition env (stepped s r) (gs_current_state s) (event_of arguments) (event_data arguments) result gw w"
    using assms(1-3,6) h
    by (simp add: transition_tool_def resolved_transition_def ordinary_event_def event_of_def [symmetric] jindex_def)
  obtain e g w2 where p: "persist_approval_checkpoint env ?g (snd (ge_uuid env w)) = (e, g, w2)" by (metis prod_cases3)
  then have g: "g = ?g" using persist_keeps [OF assms(7)] by blast
  have "jstr result ''approval_message'' = tr_approval_message r" using h(3) by simp
  then have "pending_approval.make (''apr_'' @ fst (ge_uuid env w)) (event_of arguments) (gs_current_state s)
      (gs_current_state (stepped s r)) (with_data (gs_context (stepped s r)) (event_data arguments))
      (jstr result ''approval_message'') = ?p"
    by (simp add: pending_approval.defs parked_def stepped_def)
  then show ?thesis
    using p g run
    by (cases e; intro exI [of _ ?p] exI [of _ ?g] exI [of _ "snd (ge_uuid env w)"] exI [of _ e] exI [of _ w2])
      (auto simp: park_transition_def pending_approval.defs parked_def Let_def split: prod.splits)
qed

lemma is_object_with_data [simp]: "is_object (with_data ctx data) = is_object ctx"
  by (simp add: with_data_def)

lemma resolve_branches_object:
  "resolve_branches f d data ctx bs = Ok r \<Longrightarrow> is_object ctx \<Longrightarrow> is_object (tr_new_context r)"
  by (induction bs) (auto simp: plain_result_def moved_context_def Let_def split: if_splits sum.splits)

lemma resolve_transition_object:
  assumes "resolve_transition f st event data ctx d = Ok r" "is_object ctx"
  shows "is_object (tr_new_context r)"
proof -
  have "resolve_selected f d data ctx t = Ok r \<Longrightarrow> is_object (tr_new_context r)" for t
    using assms(2) resolve_branches_object
    by (cases t) (auto simp: moved_result_def moved_context_def Let_def split: option.splits sum.splits)
  with assms show ?thesis
    by (auto simp: resolve_transition_def plain_result_def Let_def split: option.splits if_splits)
qed

lemma park_drop [simp]: "gs_pending_approval s = None \<Longrightarrow> drop_approval (park_approval p s) = s"
  by (simp add: drop_approval_def park_approval_def)

text \<open>
  C9: the approval gate. When the resolved transition requires approval and the workflow does not opt out of the
  built-in review, the transition tool leaves the state, the context and the run history alone: the session is
  the old one with exactly this transition parked in it, or, when the checkpoint cannot be stored, exactly the old one.
\<close>

theorem approval_gate:
  assumes "live_session gw = Some s" "gs_pending_approval s = None" "ordinary_event (event_of arguments)"
    and "resolves (ge_as_f64 env) s (event_of arguments) r" "tr_requires_approval r" "approval_mode s = ''ui''" "storing env"
    and "transition_tool env arguments gw w = (reply, gw', w')"
  shows "gw_writes gw' = gw_writes gw \<and>
    live_session gw' =
      (case reply of
         ReplyText _ \<Rightarrow> Some (s\<lparr>gs_pending_approval :=
           Some (parked (''apr_'' @ fst (ge_uuid env w)) (event_of arguments) (event_data arguments) s r)\<rparr>)
       | _ \<Rightarrow> Some s)"
  using transition_tool_parks [OF assms(1-7), of w] assms(1,2,8)
  by (auto simp: park_approval_def [symmetric] split: option.splits)

definition review_of :: "string \<Rightarrow> transition_def" where
  "review_of target0 = Full \<lparr>ft_target = target0, ft_guard = None, ft_guards = None, ft_requires_approval = Some True,
     ft_approval_message = None, ft_approval_reviewer = None\<rparr>"

definition gate_machine :: machine_definition where
  "gate_machine = \<lparr>md_id = ''m'', md_initial = ''plan'', md_context = JObject [],
     md_states = [(''audit'', empty_state_def\<lparr>sd_on := [(''OK'', Simple ''$return'')]\<rparr>),
        (''plan'', empty_state_def\<lparr>sd_on := [(''SHIP'', review_of ''ship'')]\<rparr>),
        (''ship'', empty_state_def\<lparr>sd_state_type := Some Final\<rparr>)],
     md_guards = [], md_meta = None,
     md_interrupts = [(''audit'', \<lparr>id_file_pattern = ''*.sql'', id_target = ''audit''\<rparr>)]\<rparr>"

definition gate_gateway :: gateway where
  "gate_gateway = gateway_on gate_machine []"

definition call_event :: "string \<Rightarrow> json" where
  "call_event event = json_object [(''event'', JString event)]"

definition send_event :: "string \<Rightarrow> gateway \<Rightarrow> gateway" where
  "send_event event gw = fst (snd (transition_tool quiet_env (call_event event) gw ()))"

lemma storing_quiet: "storing quiet_env"
  by (simp add: storing_def quiet_env_def)

definition gate_result :: transition_result where
  "gate_result = (plain_result ''ship'' (JObject []))\<lparr>tr_requires_approval := True\<rparr>"

lemma gate_facts:
  "live_session gate_gateway = Some (new_session ''g'' gate_machine)"
  "gs_pending_approval (new_session ''g'' gate_machine) = None"
  "ordinary_event (event_of (call_event ''SHIP''))" "event_of (call_event ''SHIP'') = ''SHIP''"
  "resolves (ge_as_f64 quiet_env) (new_session ''g'' gate_machine) (event_of (call_event ''SHIP'')) gate_result"
  "tr_requires_approval gate_result" "approval_mode (new_session ''g'' gate_machine) = ''ui''"
  by (simp add: gate_gateway_def) code_simp+

theorem approval_gate_witness:
  "gw_writes (send_event ''SHIP'' gate_gateway) = gw_writes gate_gateway \<and>
   is_some_and (\<lambda>s. gs_current_state s = ''plan'') (live_session (send_event ''SHIP'' gate_gateway))"
proof -
  obtain reply gw' w' where r: "transition_tool quiet_env (call_event ''SHIP'') gate_gateway () = (reply, gw', w')"
    by (metis prod_cases3)
  have "gs_current_state (new_session ''g'' gate_machine) = ''plan''" by code_simp
  then show ?thesis
    using approval_gate [OF gate_facts(1-3,5-7) storing_quiet r] r
    by (cases reply) (auto simp: send_event_def)
qed

text \<open>A receipt of the review service that answers the projection it was given.\<close>

definition answers :: "json \<Rightarrow> string \<Rightarrow> json \<Rightarrow> bool" where
  "answers projection status receipt \<longleftrightarrow>
     jindex receipt ''run_id'' = jindex projection ''run_id'' \<and>
     jindex receipt ''approval_id'' = jindex projection ''approval_id'' \<and>
     jindex receipt ''status'' = JString status \<and>
     jindex receipt ''from_state'' = jindex (jindex projection ''pending'') ''from_state'' \<and>
     jindex receipt ''to_state'' = jindex (jindex projection ''pending'') ''to_state'' \<and>
     jget receipt ''context_snapshot'' = jget (jindex projection ''pending'') ''context_snapshot''"

lemma enter_parked:
  "gs_pending_approval s = None \<Longrightarrow> drop_approval (enter_state st ctx (park_approval p s)) = enter_state st ctx s"
  by (simp add: session_upd_defs)

lemma approval_projection_parked:
  assumes "live_session gw = Some (park_approval p s)" "gw_current_run_id gw = Some run_id"
    and "approval_projection gw run_id (pa_approval_id p) = Ok projection"
  shows "jindex projection ''run_id'' = JString run_id" "jindex projection ''approval_id'' = JString (pa_approval_id p)"
    "jindex (jindex projection ''pending'') ''from_state'' = JString (pa_from_state p)"
    "jindex (jindex projection ''pending'') ''to_state'' = JString (pa_to_state p)"
    "jget (jindex projection ''pending'') ''context_snapshot'' = Some (pa_new_context p)"
  using assms by (auto simp: approval_projection_def park_approval_def Let_def)

lemma decided_session:
  assumes "live_session gw = Some (park_approval p s)" "gs_pending_approval s = None" "gw_current_run_id gw = Some run_id"
    and "approval_projection gw run_id (pa_approval_id p) = Ok projection" "answers projection status receipt"
    and "is_object (pa_new_context p)"
  shows "status = ''approved'' \<Longrightarrow> apply_approval_receipt run_id (pa_approval_id p) receipt gw = (e, gw') \<Longrightarrow>
      e = None \<and> live_session gw' = Some (enter_state (pa_to_state p) (pa_new_context p) s)"
    and "status = ''rejected'' \<Longrightarrow> apply_approval_receipt run_id (pa_approval_id p) receipt gw = (e, gw') \<Longrightarrow>
      e = None \<and> live_session gw' = Some s"
proof -
  note proj = approval_projection_parked [OF assms(1,3,4)]
  have pend: "gs_pending_approval (park_approval p s) = Some p" by (simp add: park_approval_def)
  obtain m where m: "pa_new_context p = JObject m" using assms(6) by (cases "pa_new_context p") auto
  have r: "jindex receipt ''run_id'' = JString run_id" "jindex receipt ''approval_id'' = JString (pa_approval_id p)"
    "jstr receipt ''status'' = Some status" "jindex receipt ''from_state'' = JString (pa_from_state p)"
    "jindex receipt ''to_state'' = JString (pa_to_state p)" "jget receipt ''context_snapshot'' = Some (JObject m)"
    using assms(5) proj m by (simp_all add: answers_def jstr_def)
  show "e = None \<and> live_session gw' = Some (enter_state (pa_to_state p) (pa_new_context p) s)"
    if "status = ''approved''" "apply_approval_receipt run_id (pa_approval_id p) receipt gw = (e, gw')"
    using that r assms(1,2,3) pend m
    by (auto simp: apply_approval_receipt_def Let_def enter_parked)
  show "e = None \<and> live_session gw' = Some s"
    if "status = ''rejected''" "apply_approval_receipt run_id (pa_approval_id p) receipt gw = (e, gw')"
    using that r assms(1,2,3) pend by (auto simp: apply_approval_receipt_def Let_def)
qed


definition receipt_on :: "json \<Rightarrow> string \<Rightarrow> json" where
  "receipt_on projection status = json_object
     [(''run_id'', jindex projection ''run_id''), (''approval_id'', jindex projection ''approval_id''), (''status'', JString status),
      (''from_state'', jindex (jindex projection ''pending'') ''from_state''),
      (''to_state'', jindex (jindex projection ''pending'') ''to_state''),
      (''context_snapshot'', jindex (jindex projection ''pending'') ''context_snapshot'')]"

definition gate_projection :: json where
  "gate_projection = (case approval_projection (send_event ''SHIP'' gate_gateway) ''r'' ''apr_1'' of Ok j \<Rightarrow> j | Err _ \<Rightarrow> JNull)"

definition decide :: "string \<Rightarrow> gateway \<Rightarrow> gateway" where
  "decide status gw = snd (apply_approval_receipt ''r'' ''apr_1'' (receipt_on gate_projection status) gw)"


text \<open>
  A parked workflow can still be moved. In a workflow whose transition to \<open>ship\<close> waits for review, the event
  \<open>INTERRUPT:audit\<close> moves the session into the interrupt handler although the approval is pending, and the later
  approval moves it on from there: the handler is abandoned, and the address it was to return to is lost.
\<close>

theorem parked_workflow_moves:
  "is_some_and (\<lambda>s. gs_current_state s = ''audit'' \<and> gs_pending_approval s \<noteq> None \<and>
       jget_str (gs_context s) return_key = Some ''plan'')
     (live_session (send_event ''INTERRUPT:audit'' (send_event ''SHIP'' gate_gateway))) \<and>
   is_some_and (\<lambda>s. gs_current_state s = ''ship'' \<and> gs_previous_state s = Some ''audit'' \<and> jget (gs_context s) return_key = None)
     (live_session (decide ''approved'' (send_event ''INTERRUPT:audit'' (send_event ''SHIP'' gate_gateway))))"
  by (intro conjI; code_simp)

definition calling_machine :: machine_definition where
  "calling_machine = \<lparr>md_id = ''p'', md_initial = ''start'', md_context = JObject [],
     md_states = [(''end'', empty_state_def\<lparr>sd_state_type := Some Final\<rparr>),
        (''start'', empty_state_def\<lparr>sd_on := [(''GO'', Invoke \<lparr>iv_machine = ''gate'', iv_on_complete = ''end'', iv_on_fail = None,
           iv_input = None\<rparr>)]\<rparr>)],
     md_guards = [], md_meta = None, md_interrupts = []\<rparr>"

definition calling_gateway :: gateway where
  "calling_gateway = (gateway_on calling_machine [])\<lparr>gw_workflows := [(''gate'', gate_machine)]\<rparr>"

definition ends_run :: "db_write \<Rightarrow> bool" where
  "ends_run x = (case x of EndWrite _ _ _ \<Rightarrow> True | _ \<Rightarrow> False)"

lemma final_refuses: "is_final s \<Longrightarrow> \<exists>e. handle_transition f event s = (Err e, s)"
  by (simp add: handle_transition_def)

text \<open>
  An approved transition into a final state does not end the workflow. The ordinary path ends the run, or
  completes the subflow and resumes its parent; the path of an approval does neither. So the run of the approved
  workflow gets no end record, and a child workflow whose last transition is reviewed stays in
  its final state with the parent suspended, from where no event can ever be taken.
\<close>

theorem approved_end_is_lost:
  "is_some_and (\<lambda>s. is_final s) (live_session (decide ''approved'' (send_event ''SHIP'' gate_gateway))) \<and>
   \<not> list_ex ends_run (gw_writes (decide ''approved'' (send_event ''SHIP'' gate_gateway))) \<and>
   (\<exists>s. live_session (decide ''approved'' (send_event ''SHIP'' (send_event ''GO'' calling_gateway))) = Some s \<and>
        gs_subflow s \<noteq> None \<and> gs_current_state s = ''ship'' \<and> (\<forall>f event. \<exists>e. handle_transition f event s = (Err e, s)))"
proof (intro conjI)
  show "is_some_and (\<lambda>s. is_final s) (live_session (decide ''approved'' (send_event ''SHIP'' gate_gateway)))" by code_simp
  show "\<not> list_ex ends_run (gw_writes (decide ''approved'' (send_event ''SHIP'' gate_gateway)))" by code_simp
  have "is_some_and (\<lambda>s. is_final s \<and> gs_subflow s \<noteq> None \<and> gs_current_state s = ''ship'')
      (live_session (decide ''approved'' (send_event ''SHIP'' (send_event ''GO'' calling_gateway))))" by code_simp
  then obtain s where s: "live_session (decide ''approved'' (send_event ''SHIP'' (send_event ''GO'' calling_gateway))) = Some s"
      "is_final s" "gs_subflow s \<noteq> None" "gs_current_state s = ''ship''" by (auto simp: is_some_and_iff)
  then show "\<exists>s. live_session (decide ''approved'' (send_event ''SHIP'' (send_event ''GO'' calling_gateway))) = Some s \<and>
        gs_subflow s \<noteq> None \<and> gs_current_state s = ''ship'' \<and> (\<forall>f event. \<exists>e. handle_transition f event s = (Err e, s))"
    using final_refuses by blast
qed

end
