(* ===== verification/GatewayForks.thy ===== *)
theory GatewayForks
  imports GatewayTransitions
begin

text \<open>
  Forks of the gateway (\<open>crates/mcp-gateway/src/gateway.rs\<close>): the record of a fork that the parent's context keeps,
  read as the set of its branches and the set of those completed, and the proof that a fork joins. The definitions of the
  handlers are in \<open>GatewayTransitions\<close>.
\<close>

section \<open>The record of a fork\<close>

definition tracked :: "string set \<Rightarrow> string \<Rightarrow> json \<Rightarrow> bool" where
  "tracked finished n b \<longleftrightarrow> is_object b \<and> branch_status b \<noteq> Some ''failed'' \<and>
     (branch_status b = Some ''completed'' \<longleftrightarrow> n \<in> finished)"

definition fork_tracks :: "json \<Rightarrow> string set \<Rightarrow> string set \<Rightarrow> bool" where
  "fork_tracks fork names finished \<longleftrightarrow> is_object fork \<and> (\<exists>bs. jget fork ''branches'' = Some (JObject bs) \<and> bt_wf bs \<and>
     set (bt_keys bs) = names \<and> (\<forall>n b. bt_get bs n = Some b \<longrightarrow> tracked finished n b))"

lemma branch_status_set [simp]: "is_object b \<Longrightarrow> branch_status (jset b ''status'' (JString st)) = Some st"
  by (simp add: branch_status_def jstr_def)

lemma branches_set_status:
  assumes "is_object fork" "jget fork ''branches'' = Some (JObject bs)"
  shows "jget (set_branch_status fork n st) k =
    (if k = ''branches'' then Some (JObject (bt_insert n (jset (jindex (JObject bs) n) ''status'' (JString st)) bs)) else jget fork k)"
  using assms by (simp add: set_branch_status_def jupdate_def jindex_def)

lemma bt_get_key: "n \<in> set (bt_keys bs) \<Longrightarrow> \<exists>b. bt_get bs n = Some b"
  by (cases "bt_get bs n") (auto simp: map_of_eq_None_iff)

lemma set_status_tracks:
  assumes "fork_tracks fork names finished" "n \<in> names" "st \<noteq> ''failed''"
    and "\<And>m. m \<in> finished' \<longleftrightarrow> (if m = n then st = ''completed'' else m \<in> finished)"
  shows "fork_tracks (set_branch_status fork n st) names finished'"
proof -
  obtain bs where bs: "is_object fork" "jget fork ''branches'' = Some (JObject bs)" "bt_wf bs" "set (bt_keys bs) = names"
      "\<And>m b. bt_get bs m = Some b \<Longrightarrow> tracked finished m b"
    using assms(1) by (auto simp: fork_tracks_def)
  obtain b where b: "bt_get bs n = Some b" using bt_get_key [of n bs] bs(4) assms(2) by auto
  then have obj: "is_object b" using bs(5) by (simp add: tracked_def)
  let ?bs = "bt_insert n (jset b ''status'' (JString st)) bs"
  have "jget (set_branch_status fork n st) ''branches'' = Some (JObject ?bs)"
    using branches_set_status [OF bs(1,2)] b by (simp add: jindex_def)
  moreover have "is_object (set_branch_status fork n st)" using bs(1) by (simp add: set_branch_status_def jupdate_def)
  moreover have "bt_wf ?bs" using bs(3) by (rule bt_wf_insert)
  moreover have "set (bt_keys ?bs) = names" using bs(4) assms(2) bt_keys_insert [of n _ bs] by auto
  moreover have "tracked finished' m c" if "bt_get ?bs m = Some c" for m c
    using that bs(5) obj assms(3,4) by (cases "m = n") (auto simp: bt_simps tracked_def)
  ultimately show ?thesis by (auto simp: fork_tracks_def)
qed

lemma filter_keys_card:
  assumes "distinct (bt_keys bs)"
  shows "length (filter (\<lambda>x. P (snd x)) bs) = card {n. \<exists>b. bt_get bs n = Some b \<and> P b}"
proof -
  have "length (filter (\<lambda>x. P (snd x)) bs) = card (fst ` set (filter (\<lambda>x. P (snd x)) bs))"
    using assms by (metis distinct_card distinct_map_filter length_map set_map)
  moreover have "fst ` set (filter (\<lambda>x. P (snd x)) bs) = {n. \<exists>b. bt_get bs n = Some b \<and> P b}"
    using assms by (force dest: map_of_SomeD)
  ultimately show ?thesis by simp
qed

lemma fork_counts:
  assumes "fork_tracks fork names finished" "finished \<subseteq> names"
  shows "count_status fork ''completed'' = card finished" "count_status fork ''failed'' = 0"
    "length (branches_of fork) = card names" "finite names"
proof -
  obtain bs where bs: "jget fork ''branches'' = Some (JObject bs)" "bt_wf bs" "set (bt_keys bs) = names"
      "\<And>m b. bt_get bs m = Some b \<Longrightarrow> tracked finished m b"
    using assms(1) by (auto simp: fork_tracks_def)
  have of: "branches_of fork = bs" using bs(1) by (simp add: branches_of_def jindex_def)
  have d: "distinct (bt_keys bs)" using bs(2) by (rule bt_wf_distinct)
  have "\<exists>b. bt_get bs n = Some b" if "n \<in> names" for n
    using that bs(3) bt_get_key [of n bs] by simp
  then have "{n. \<exists>b. bt_get bs n = Some b \<and> branch_status b = Some ''completed''} = finished"
    using bs(4) assms(2) by (auto simp: tracked_def) blast+
  then show "count_status fork ''completed'' = card finished"
    using filter_keys_card [OF d, of "\<lambda>b. branch_status b = Some ''completed''"] by (simp add: count_status_def of)
  have none: "{n. \<exists>b. bt_get bs n = Some b \<and> branch_status b = Some ''failed''} = {}" using bs(4) by (auto simp: tracked_def)
  show "count_status fork ''failed'' = 0"
    using filter_keys_card [OF d, of "\<lambda>b. branch_status b = Some ''failed''"] by (simp only: count_status_def of none card.empty)
  show "length (branches_of fork) = card names" "finite names"
    using of d bs(3) by (metis distinct_card length_map, metis finite_set)
qed

section \<open>Completing a branch\<close>

definition fork_of :: "gateway_session \<Rightarrow> json \<Rightarrow> bool" where
  "fork_of s fork \<longleftrightarrow> is_object (gs_context s) \<and> jget (gs_context s) fork_key = Some fork"

lemma fork_tracks_info:
  assumes "fork_tracks fork names finished" "n \<in> names"
  shows "is_object (jindex (jindex fork ''branches'') n)"
  using assms bt_get_key by (fastforce simp: fork_tracks_def jindex_def tracked_def)

lemma set_status_others: "is_object fork \<Longrightarrow> jget fork ''branches'' = Some (JObject bs) \<Longrightarrow> k \<noteq> ''branches'' \<Longrightarrow>
  jget (set_branch_status fork n st) k = jget fork k"
  by (simp add: branches_set_status)

lemma fork_tracks_set: "fork_tracks fork names finished \<Longrightarrow> k \<noteq> ''branches'' \<Longrightarrow> fork_tracks (jset fork k v) names finished"
  by (auto simp: fork_tracks_def)

definition same_terms :: "json \<Rightarrow> json \<Rightarrow> bool" where
  "same_terms fork fork' \<longleftrightarrow> jget fork' ''join'' = jget fork ''join'' \<and> jget fork' ''on_complete'' = jget fork ''on_complete''"

lemma set_status_terms: "fork_tracks fork names finished \<Longrightarrow> same_terms fork (set_branch_status fork n st)"
  by (auto simp: fork_tracks_def same_terms_def set_status_others)

lemma join_all_terms: "same_terms fork fork' \<Longrightarrow> join_all fork' = join_all fork"
  by (simp add: same_terms_def join_all_def jstr_def jindex_def)

lemma next_branch_tracked:
  assumes "fork_tracks fork names finished" "next_branch_of fork = Some n"
  shows "n \<in> names" "n \<notin> finished"
proof -
  obtain bs where bs: "jget fork ''branches'' = Some (JObject bs)" "bt_wf bs" "set (bt_keys bs) = names"
      "\<And>m b. bt_get bs m = Some b \<Longrightarrow> tracked finished m b"
    using assms(1) by (auto simp: fork_tracks_def)
  obtain b where b: "(n, b) \<in> set bs" "branch_status b = Some ''pending''"
    using assms(2) bs(1)
    by (auto simp: next_branch_of_def branches_of_def jindex_def find_Some_iff) (metis nth_mem snd_conv)
  then have "tracked finished n b" using bs(2,4) by (simp add: bt_get_in)
  with b show "n \<in> names" "n \<notin> finished" using bs(3) by (force simp: tracked_def)+
qed

lemma stored_fork:
  assumes "fork_tracks fork names finished"
  shows "\<exists>fork'. (case next_branch_of fork of None \<Rightarrow> fork | Some n \<Rightarrow> start_branch fork n) = fork' \<and>
    fork_tracks fork' names finished \<and> same_terms fork fork'"
proof (cases "next_branch_of fork")
  case None
  with assms show ?thesis by (simp add: same_terms_def)
next
  case (Some n)
  let ?f = "jset fork ''current_branch'' (JString n)"
  have f: "fork_tracks ?f names finished" using assms by (simp add: fork_tracks_set)
  have "fork_tracks (set_branch_status ?f n ''running'') names finished"
    using f next_branch_tracked [OF assms Some] by (intro set_status_tracks [OF f]) auto
  moreover have "same_terms fork ?f" using assms by (auto simp: same_terms_def fork_tracks_def)
  ultimately show ?thesis using Some set_status_terms [OF f, of n "''running''"] by (auto simp: start_branch_def same_terms_def)
qed

lemma branch_done_step:
  assumes "live_session gw = Some s" "fork_of s fork" "fork_tracks fork names finished" "finished \<subseteq> names" "n \<in> names" "join_all fork"
  shows "insert n finished = names \<Longrightarrow>
      live_session (snd (branch_done s n gw)) =
        Some (enter_state (unwrap_or [] (jstr fork ''on_complete'')) (jremove (gs_context s) fork_key) s)"
    and "insert n finished \<noteq> names \<Longrightarrow>
      \<exists>fork'. live_session (snd (branch_done s n gw)) = Some (enter_state (gs_current_state s) (jset (gs_context s) fork_key fork') s) \<and>
        fork_tracks fork' names (insert n finished) \<and> same_terms fork fork'"
proof -
  let ?new = "set_branch_status fork n ''completed''"
  have new: "fork_tracks ?new names (insert n finished)"
    by (rule set_status_tracks [OF assms(3,5)]) auto
  have sub: "insert n finished \<subseteq> names" using assms(4,5) by blast
  note counts = fork_counts [OF new sub]
  have "card (insert n finished) = card names \<longleftrightarrow> insert n finished = names"
    using card_subset_eq [OF counts(4) sub] by auto
  then have met: "join_met fork ?new \<longleftrightarrow> insert n finished = names"
    using counts assms(6) by (simp add: join_met_def)
  have failed: "\<not> join_failed fork ?new" using counts(2) by (simp add: join_failed_def)
  have info: "is_object (jindex (jindex fork ''branches'') n)" using fork_tracks_info [OF assms(3,5)] .
  then have nn: "jindex (jindex fork ''branches'') n \<noteq> JNull" by auto
  have fork: "jget (gs_context s) fork_key = Some fork" using assms(2) by (simp add: fork_of_def)
  show "live_session (snd (branch_done s n gw)) =
      Some (enter_state (unwrap_or [] (jstr fork ''on_complete'')) (jremove (gs_context s) fork_key) s)"
    if "insert n finished = names"
    using that met info nn fork assms(1) by (simp add: branch_done_def join_to_def Let_def)
  show "\<exists>fork'. live_session (snd (branch_done s n gw)) = Some (enter_state (gs_current_state s) (jset (gs_context s) fork_key fork') s) \<and>
        fork_tracks fork' names (insert n finished) \<and> same_terms fork fork'"
    if neq: "insert n finished \<noteq> names"
  proof -
    obtain fork' where f: "(case next_branch_of ?new of None \<Rightarrow> ?new | Some m \<Rightarrow> start_branch ?new m) = fork'"
        "fork_tracks fork' names (insert n finished)" "same_terms ?new fork'"
      using stored_fork [OF new] by blast
    have "live_session (snd (branch_done s n gw)) = Some (enter_state (gs_current_state s) (jset (gs_context s) fork_key fork') s)"
      using neq met failed info nn fork assms(1) f(1) by (simp add: branch_done_def continue_fork_def Let_def)
    moreover have "same_terms fork fork'"
      using f(3) set_status_terms [OF assms(3), of n "''completed''"] by (simp add: same_terms_def)
    ultimately show ?thesis using f(2) by blast
  qed
qed

section \<open>Completing every branch\<close>

definition branch_call :: "string \<Rightarrow> json" where
  "branch_call n = json_object [(''event'', JString (''BRANCH_DONE:'' @ n))]"

definition complete_branch :: "'w gateway_env \<Rightarrow> string \<Rightarrow> gateway \<times> 'w \<Rightarrow> gateway \<times> 'w" where
  "complete_branch env n gw = snd (transition_tool env (branch_call n) (fst gw) (snd gw))"

definition complete_branches :: "'w gateway_env \<Rightarrow> string list \<Rightarrow> gateway \<times> 'w \<Rightarrow> gateway \<times> 'w" where
  "complete_branches env ns gw = fold (complete_branch env) ns gw"

lemma complete_branch_live:
  "live_session (fst gw) = Some s \<Longrightarrow> complete_branch env n gw = (snd (branch_done s n (fst gw)), snd gw)"
  by (simp add: complete_branch_def transition_tool_def branch_call_def jget_str_def starts_with_def
      split: prod.splits)

lemma fork_of_enter:
  assumes "fork_of s fork" "is_object (gs_context s)"
  shows "fork_of (enter_state st (jset (gs_context s) fork_key fork') s) fork'"
  using assms by (auto simp: fork_of_def enter_state_def fork_key_def jget_canonicalize)

lemma complete_branches_steps:
  assumes "live_session (fst gw) = Some s" "fork_of s fork" "fork_tracks fork names finished" "finished \<subseteq> names" "join_all fork"
    and "distinct ns" "set ns \<inter> finished = {}" "set ns \<union> finished \<subset> names"
  shows "\<exists>s' fork'. live_session (fst (complete_branches env ns gw)) = Some s' \<and> fork_of s' fork' \<and>
    fork_tracks fork' names (set ns \<union> finished) \<and> same_terms fork fork' \<and> gs_current_state s' = gs_current_state s"
  using assms
proof (induction ns arbitrary: gw s fork finished)
  case Nil
  then show ?case by (auto simp: complete_branches_def same_terms_def)
next
  case (Cons n ns)
  have n: "n \<in> names" "insert n finished \<noteq> names" "insert n finished \<subseteq> names" using Cons.prems(4,8) by auto
  obtain fork1 where f1: "live_session (snd (branch_done s n (fst gw))) =
        Some (enter_state (gs_current_state s) (jset (gs_context s) fork_key fork1) s)"
      "fork_tracks fork1 names (insert n finished)" "same_terms fork fork1"
    using branch_done_step(2) [OF Cons.prems(1-4) n(1) Cons.prems(5) n(2)] by blast
  let ?s1 = "enter_state (gs_current_state s) (jset (gs_context s) fork_key fork1) s"
  let ?gw1 = "complete_branch env n gw"
  have live1: "live_session (fst ?gw1) = Some ?s1" using complete_branch_live [OF Cons.prems(1)] f1(1) by simp
  have fork1: "fork_of ?s1 fork1" using Cons.prems(2) by (intro fork_of_enter) (auto simp: fork_of_def)
  have rest: "distinct ns" "set ns \<inter> insert n finished = {}" "set ns \<union> insert n finished \<subset> names"
    using Cons.prems(6-8) by auto
  obtain s' fork' where "live_session (fst (complete_branches env ns ?gw1)) = Some s'" "fork_of s' fork'"
      "fork_tracks fork' names (set ns \<union> insert n finished)" "same_terms fork1 fork'" "gs_current_state s' = gs_current_state ?s1"
    using Cons.IH [OF live1 fork1 f1(2) n(3) _ rest] join_all_terms [OF f1(3)] Cons.prems(5) by blast
  with f1(3) show ?case by (auto simp: complete_branches_def same_terms_def enter_state_def)
qed

lemma complete_branches_join:
  assumes "live_session (fst gw) = Some s" "fork_of s fork" "fork_tracks fork names {}" "join_all fork"
    and "distinct ns" "set ns = names" "ns \<noteq> []"
  shows "\<exists>s'. live_session (fst (complete_branches env ns gw)) = Some s' \<and>
    gs_current_state s' = unwrap_or [] (jstr fork ''on_complete'') \<and> jget (gs_context s') fork_key = None"
proof -
  obtain ns' n where ns: "ns = ns' @ [n]" using assms(7) by (metis append_butlast_last_id)
  have sub: "set ns' \<union> {} \<subset> names" "n \<in> names" "distinct ns'" "insert n (set ns') = names" "set ns' \<subseteq> names"
    using assms(5,6) ns by auto
  obtain s1 fork1 where s1: "live_session (fst (complete_branches env ns' gw)) = Some s1" "fork_of s1 fork1"
      "fork_tracks fork1 names (set ns')" "same_terms fork fork1"
    using complete_branches_steps [OF assms(1-3) _ assms(4) sub(3) _ sub(1), of env] by auto
  have "join_all fork1" using assms(4) join_all_terms [OF s1(4)] by simp
  then have "live_session (snd (branch_done s1 n (fst (complete_branches env ns' gw)))) =
      Some (enter_state (unwrap_or [] (jstr fork1 ''on_complete'')) (jremove (gs_context s1) fork_key) s1)"
    using branch_done_step(1) [OF s1(1-3) sub(5,2)] sub(4) by blast
  moreover have "jstr fork1 ''on_complete'' = jstr fork ''on_complete''"
    using s1(4) by (simp add: same_terms_def jstr_def jindex_def)
  ultimately show ?thesis
    using complete_branch_live [OF s1(1)]
    by (auto simp: ns complete_branches_def enter_state_def fork_key_def jget_canonicalize)
qed

section \<open>From the fork to the join\<close>

lemma fork_excludes:
  assumes "resolve_transition f st event data ctx d = Ok r" "tr_fork r = Some fork"
  shows "tr_invoke r = None \<and> \<not> tr_requires_approval r"
proof -
  have sel: "resolve_selected f d data ctx t = Ok r \<Longrightarrow> ?thesis" for t
    using assms(2) resolve_branches_plain
    by (cases t) (auto simp: moved_result_def split: option.splits sum.splits)
  with assms show ?thesis
    by (auto simp: resolve_transition_def plain_result_def Let_def split: option.splits if_splits)
qed

lemma live_create_branch: "live_session (create_branch s nb gw) = live_session gw"
proof -
  have "gw_session_id gw \<noteq> branch_session_key gw (fst nb)" by (simp add: branch_session_key_def)
  then show ?thesis
    by (simp add: create_branch_def Let_def live_session_def get_session_def update_state_def set_plan_limit_def
        modify_cases create_def hm_insert_def split: option.splits)
qed

lemma session_id_create_branch [simp]: "gw_session_id (create_branch s nb gw) = gw_session_id gw"
  by (simp add: create_branch_def Let_def split: option.splits)

lemma live_create_branches: "live_session (fold (create_branch s) bs gw) = live_session gw"
  by (induction bs arbitrary: gw) (simp_all add: live_create_branch)

lemma fork_branches_tracked: "(n, b) \<in> set (fork_branches gw started bs) \<Longrightarrow> tracked {} n b"
  by (induction gw started bs rule: fork_branches.induct)
    (auto simp: tracked_def branch_status_def jstr_def split: if_splits)

lemma fork_branches_keys: "fst ` set (fork_branches gw started bs) = fst ` set bs"
  by (induction gw started bs rule: fork_branches.induct) auto

lemma json_object_keys: "\<exists>bs. json_object kvs = JObject bs \<and> bt_wf bs \<and> set (bt_keys bs) = fst ` set kvs"
proof -
  have "bt_wf acc \<Longrightarrow> bt_wf (foldl (\<lambda>m (k, v). bt_insert k v m) acc kvs) \<and>
      set (bt_keys (foldl (\<lambda>m (k, v). bt_insert k v m) acc kvs)) = set (bt_keys acc) \<union> fst ` set kvs" for acc :: "(string \<times> json) list"
  proof (induction kvs arbitrary: acc)
    case (Cons kv kvs)
    have "bt_wf (bt_insert (fst kv) (snd kv) acc)" using Cons.prems by (rule bt_wf_insert)
    from Cons.IH [OF this] show ?case using bt_keys_insert [of "fst kv" "snd kv" acc] by (auto simp: case_prod_beta)
  qed simp
  from this [of "[]"] show ?thesis by (simp add: json_object_def bt_wf_def)
qed

lemma new_fork_tracks: "fork_tracks (new_fork_context gw info) (fst ` set (branches_of info)) {}"
proof -
  let ?kvs = "fork_branches gw False (branches_of info)"
  obtain bs where bs: "json_object ?kvs = JObject bs" "bt_wf bs" "set (bt_keys bs) = fst ` set ?kvs"
    using json_object_keys by blast
  have "tracked {} n b" if "bt_get bs n = Some b" for n b
  proof -
    have "map_of (rev ?kvs) n = Some b" using that jget_object [of ?kvs n] bs(1) by simp
    then show ?thesis using fork_branches_tracked by (auto dest: map_of_SomeD)
  qed
  then show ?thesis using bs by (auto simp: fork_tracks_def new_fork_context_def fork_branches_keys)
qed

lemma branches_of_fork_json: "fst ` set (branches_of (fork_json fork)) = fst ` set (fr_branches fork)"
proof -
  let ?kvs = "map (\<lambda>(name, b). (name, branch_json b)) (fr_branches fork)"
  obtain bs where bs: "json_object ?kvs = JObject bs" "set (bt_keys bs) = fst ` set ?kvs" using json_object_keys by blast
  have "branches_of (fork_json fork) = bs" using bs(1) by (simp add: branches_of_def fork_json_def)
  then show ?thesis using bs(2) by (simp add: image_image case_prod_beta)
qed

lemma fork_created:
  assumes "live_session gw = Some s" "gs_pending_approval s = None" "ordinary_event (event_of arguments)"
    and "resolves (ge_as_f64 env) s (event_of arguments) r" "tr_fork r = Some fork"
    and "transition_tool env arguments gw w = (reply, gw1, w1)"
  shows "\<exists>s1. live_session gw1 = Some s1 \<and> gs_current_state s1 = gs_current_state s \<and>
    fork_of s1 (new_fork_context gw (fork_json fork))"
proof -
  have ex: "tr_invoke r = None" "\<not> tr_requires_approval r" using fork_excludes assms(4,5) by (auto simp: resolves_def)
  obtain result where h: "handle_transition (ge_as_f64 env) (event_of arguments) s = (Ok result, stepped s r)"
      "jget result ''requires_approval'' = Some (JBool False)" "jget result ''fork'' = Some (fork_json fork)"
    using handle_transition_moves [OF assms(4) ex(1)] ex(2) assms(5) by auto
  have "is_object (jindex (fork_json fork) ''branches'')" by (simp add: fork_json_def)
  then have "(reply, gw1) = create_fork (stepped s r) (gs_current_state s) (event_of arguments) (event_data arguments) (fork_json fork) gw"
    using assms(1-3,6) h
    by (simp add: transition_tool_def resolved_transition_def ordinary_event_def event_of_def [symmetric] jindex_def split: prod.splits)
  then show ?thesis
    using assms(1)
    by (auto simp: create_fork_def Let_def live_create_branches fork_of_def enter_state_def fork_key_def return_key_def jget_canonicalize)
qed

text \<open>
  C12: a fork joins. After a transition that forks with the strategy \<open>all\<close>, report the branches complete in any order: the parent
  waits in its state as long as a branch is missing, and the report of the last one moves it to the declared target and clears the record of the fork.
\<close>

theorem fork_joins:
  assumes "live_session gw = Some s" "gs_pending_approval s = None" "ordinary_event (event_of arguments)"
    and "resolves (ge_as_f64 env) s (event_of arguments) r" "tr_fork r = Some fork" "fr_join fork = JoinAll"
    and "transition_tool env arguments gw w = (reply, gw1, w1)"
    and "distinct order" "set order = set (bt_keys (fr_branches fork))" "order \<noteq> []"
  shows "(\<forall>k < length order. \<exists>s'. live_session (fst (complete_branches env (take k order) (gw1, w1))) = Some s' \<and>
      gs_current_state s' = gs_current_state s \<and> jget (gs_context s') fork_key \<noteq> None) \<and>
    (\<exists>s'. live_session (fst (complete_branches env order (gw1, w1))) = Some s' \<and>
      gs_current_state s' = fr_on_complete fork \<and> jget (gs_context s') fork_key = None)"
proof -
  let ?fork = "new_fork_context gw (fork_json fork)"
  obtain s1 where s1: "live_session (fst (gw1, w1)) = Some s1" "gs_current_state s1 = gs_current_state s" "fork_of s1 ?fork"
    using fork_created [OF assms(1-5,7)] by auto
  have tracks: "fork_tracks ?fork (set order) {}" using new_fork_tracks [of gw "fork_json fork"] branches_of_fork_json [of fork] assms(9) by simp
  have all: "join_all ?fork" using assms(6) by (simp add: join_all_def new_fork_context_def fork_json_def jstr_def join_name_def)
  have target: "jstr ?fork ''on_complete'' = Some (fr_on_complete fork)" by (simp add: new_fork_context_def fork_json_def jstr_def)
  have "\<exists>s'. live_session (fst (complete_branches env (take k order) (gw1, w1))) = Some s' \<and>
      gs_current_state s' = gs_current_state s \<and> jget (gs_context s') fork_key \<noteq> None" if "k < length order" for k
  proof -
    have "set (take k order) \<noteq> set order"
      using that assms(8) distinct_card [of order] distinct_card [OF distinct_take [OF assms(8)], of k] by auto
    then have "set (take k order) \<union> {} \<subset> set order" using set_take_subset by fastforce
    from complete_branches_steps [OF s1(1,3) tracks _ all distinct_take [OF assms(8)] _ this, of env] s1(2)
    show ?thesis by (auto simp: fork_of_def)
  qed
  moreover have "\<exists>s'. live_session (fst (complete_branches env order (gw1, w1))) = Some s' \<and>
      gs_current_state s' = fr_on_complete fork \<and> jget (gs_context s') fork_key = None"
    using complete_branches_join [OF s1(1,3) tracks all assms(8) refl assms(10), of env] target by simp
  ultimately show ?thesis by blast
qed

definition split_machine :: machine_definition where
  "split_machine = \<lparr>md_id = ''m'', md_initial = ''start'', md_context = JObject [],
     md_states = [(''a'', empty_state_def), (''b'', empty_state_def), (''merge'', empty_state_def\<lparr>sd_state_type := Some Final\<rparr>),
        (''start'', empty_state_def\<lparr>sd_on := [(''SPLIT'', Fork
           \<lparr>fk_branches = [(''left'', \<lparr>br_initial = ''a'', br_terminal = ''a''\<rparr>), (''right'', \<lparr>br_initial = ''b'', br_terminal = ''b''\<rparr>)],
            fk_join = JoinAll, fk_on_complete = ''merge'', fk_on_fail = None\<rparr>)]\<rparr>)],
     md_guards = [], md_meta = None, md_interrupts = []\<rparr>"

definition split_fork :: fork_result where
  "split_fork = \<lparr>fr_branches = [(''left'', \<lparr>br_initial = ''a'', br_terminal = ''a''\<rparr>), (''right'', \<lparr>br_initial = ''b'', br_terminal = ''b''\<rparr>)],
     fr_join = JoinAll, fr_on_complete = ''merge'', fr_on_fail = None\<rparr>"

theorem fork_joins_witness:
  "\<exists>s'. live_session (fst (complete_branches quiet_env [''right'', ''left'']
       (snd (transition_tool quiet_env (call_event ''SPLIT'') (gateway_on split_machine []) ())))) = Some s' \<and>
     gs_current_state s' = ''merge''"
proof -
  let ?s = "new_session ''g'' split_machine" and ?r = "(plain_result ''merge'' (JObject []))\<lparr>tr_fork := Some split_fork\<rparr>"
  obtain reply gw1 w1 where r: "transition_tool quiet_env (call_event ''SPLIT'') (gateway_on split_machine []) () = (reply, gw1, w1)"
    by (metis prod_cases3)
  have facts: "gs_pending_approval ?s = None" "ordinary_event (event_of (call_event ''SPLIT''))"
    "resolves (ge_as_f64 quiet_env) ?s (event_of (call_event ''SPLIT'')) ?r" "tr_fork ?r = Some split_fork"
    "fr_join split_fork = JoinAll" by code_simp+
  have order: "distinct [''right'', ''left'']" "set [''right'', ''left''] = set (bt_keys (fr_branches split_fork))"
    "[''right'', ''left''] \<noteq> []" "fr_on_complete split_fork = ''merge''"
    by (auto simp: split_fork_def)
  show ?thesis using fork_joins [OF live_gateway_on facts r order(1-3)] r order(4) by auto
qed

end
