(* ===== verification/GatewayRuns.thy ===== *)
theory GatewayRuns
  imports GatewayAdapter GatewayForks
begin

text \<open>
  Runs of the gateway (\<open>crates/mcp-gateway/src/gateway.rs\<close>): any sequence of the handlers that
  change a session, whatever else happens while they wait, keeps the session store well formed, and the
  history that they queue for the database only grows. Every handler is a sequence of store calls, so the proof is about the calls
  and a handler inherits it.
\<close>

abbreviation gw_ok :: "gateway \<Rightarrow> bool" where
  "gw_ok gw \<equiv> store_ok (gw_sessions gw)"

lemma live_ok: "gw_ok gw \<Longrightarrow> live_session gw = Some s \<Longrightarrow> session_ok s"
  by (auto simp: store_ok_def live_session_def get_session_def)

lemma session_ok_object: "session_ok s \<Longrightarrow> is_object (gs_context s)"
  by (simp add: session_ok_def)

lemma update_state_keeps: "is_object ctx \<Longrightarrow> store_ok S \<Longrightarrow> store_ok (snd (update_state i st ctx S))"
  using su_enter.store_ok_op [where st = st and ctx = ctx and S = S and i = i] by (simp add: object_or_empty_def)

lemma create_keeps: "store_ok S \<Longrightarrow> store_ok (snd (create i d S))"
proof -
  have "gs_instance_id (new_session i d) = i" by (simp add: new_session_def Let_def)
  then show "store_ok S \<Longrightarrow> store_ok (snd (create i d S))"
    using session_ok_new by (auto simp: create_def store_ok_def hm_insert_def Let_def split: option.splits)
qed

lemmas store_calls = update_state_keeps create_keeps su_iteration.store_ok_op [unfolded o_apply]
  su_park.store_ok_op su_drop.store_ok_op [unfolded o_apply] su_start.store_ok_op [unfolded o_apply]
  su_complete.store_ok_op [unfolded o_apply] su_limit.store_ok_op su_edit.store_ok_op
  su_read.store_ok_op [unfolded o_apply] su_bytes.store_ok_op [unfolded o_apply]

definition disciplined :: "'w gateway_env \<Rightarrow> bool" where
  "disciplined env \<longleftrightarrow>
     (\<forall>rq S w. store_ok S \<longrightarrow> store_ok (fst (snd (ge_semantic env rq (S, w))))) \<and>
     (\<forall>i n name args S w. store_ok S \<longrightarrow> store_ok (fst (snd (ue_exchange (ge_upstream env) i n name args (S, w))))) \<and>
     (\<forall>g S w. store_ok S \<longrightarrow> store_ok (fst (snd (ge_persist env g (S, w)))))"

lemma handle_transition_object:
  assumes "handle_transition f event s = (Ok result, s')" "is_object (gs_context s)"
  shows "is_object (gs_context s')"
  using assms resolve_transition_object
  by (auto simp: handle_transition_def Let_def split: if_splits sum.splits option.splits)

section \<open>Invariants of the gateway\<close>

text \<open>
  What the handlers do to the gateway besides waiting: they call the store, queue a record for the database, and change
  the usage ledger, the connections to the upstream servers and the active workflow. A property that
  survives these is kept by every handler.
\<close>

locale gateway_invariant =
  fixes I :: "gateway \<Rightarrow> bool"
  assumes stored: "I gw \<Longrightarrow> gw_ok gw"
    and calls: "I gw \<Longrightarrow> (\<And>S. store_ok S \<Longrightarrow> store_ok (f S)) \<Longrightarrow> I (on_sessions f gw)"
    and queues: "I gw \<Longrightarrow> I (queue_write x gw)"
    and meters: "I gw \<Longrightarrow> I (gw\<lparr>gw_usage := u\<rparr>)"
    and connects: "I gw \<Longrightarrow> I (gw\<lparr>gw_upstream := um\<rparr>)"
    and stops: "I gw \<Longrightarrow> I (gw\<lparr>gw_active_workflow := None, gw_current_run_id := None\<rparr>)"
begin

lemma waits: "I gw \<Longrightarrow> store_ok S \<Longrightarrow> I (gw\<lparr>gw_sessions := S\<rparr>)"
  using calls [of gw "\<lambda>_. S"] by (simp add: on_sessions_def)

lemma live_object: "I gw \<Longrightarrow> live_session gw = Some s \<Longrightarrow> is_object (gs_context s)"
  using stored live_ok session_ok_object by blast

lemma moves: "I gw \<Longrightarrow> is_object ctx \<Longrightarrow> I (move_session st ctx gw)"
  unfolding move_session_def by (intro calls update_state_keeps)

lemma counts: "I gw \<Longrightarrow> I (count_iteration gw)"
  unfolding count_iteration_def by (intro calls store_calls(3))

lemma store_steps:
  "I gw \<Longrightarrow> I (on_sessions (set_pending_approval i p) gw)"
  "I gw \<Longrightarrow> I (on_sessions (\<lambda>S. snd (clear_pending_approval i S)) gw)"
  "I gw \<Longrightarrow> I (on_sessions (\<lambda>S. snd (start_subflow i n d input oc onf S)) gw)"
  "I gw \<Longrightarrow> I (on_sessions (set_plan_limit i l) gw)"
  "I gw \<Longrightarrow> I (on_sessions (record_file_edit i path) gw)"
  "I gw \<Longrightarrow> I (on_sessions (\<lambda>S. snd (record_file_read i path S)) gw)"
  "I gw \<Longrightarrow> I (on_sessions (\<lambda>S. snd (add_context_bytes i bytes S)) gw)"
  "I gw \<Longrightarrow> I (on_sessions (\<lambda>S. snd (create i d S)) gw)"
  "I gw \<Longrightarrow> is_object ctx \<Longrightarrow> I (on_sessions (\<lambda>S. snd (update_state i st ctx S)) gw)"
  by (intro calls; simp add: store_calls)+

lemma records:
  "I gw \<Longrightarrow> I (record_step gw)" "I gw \<Longrightarrow> I (record_run_transition a b c e data gw)" "I gw \<Longrightarrow> I (record_run_end st status gw)"
  by (auto simp: record_step_def record_run_transition_def record_run_end_def Let_def queues meters split: option.splits)

lemmas keeps = moves counts store_steps records

lemma record_call_keeps: "I gw \<Longrightarrow> I (record_call tool update is_error gw)"
  by (auto simp: record_call_def Let_def keeps intro!: meters split: option.splits)

lemma enter_interrupt_keeps: "I gw \<Longrightarrow> is_object (gs_context s) \<Longrightarrow> I (enter_interrupt s n i data gw)"
  by (simp add: enter_interrupt_def keeps)

lemma forward_keeps:
  assumes "disciplined env" "I gw" "forward env name args gw w = (r, gw', w')"
  shows "I gw'"
proof -
  have ok: "store_ok (gw_sessions gw)" using assms(2) by (rule stored)
  then have "store_ok (fst (snd (ue_exchange (ge_upstream env) i n name args (gw_sessions gw, w))))" for i n
    using assms(1) by (simp add: disciplined_def)
  with ok have "store_ok S" if "call_tool (ge_upstream env) name args um (gw_sessions gw, w) = (r', um', S, v)" for r' um um' S v
    using that
    by (auto simp: call_tool_def Let_def split: option.splits prod.splits if_splits sum.splits) (metis fst_conv snd_conv)+
  with assms(3) show ?thesis
    by (auto simp: forward_def intro!: waits [OF connects [OF assms(2)]] split: prod.splits)
qed

lemma assess_keeps:
  assumes "disciplined env" "I gw" "assess_pipeline_visible env trusted tool name args intent gw w = (p, gw', w')"
  shows "I gw'"
proof -
  have ok: "store_ok (gw_sessions gw)" using assms(2) by (rule stored)
  then have "store_ok (fst (snd (ge_semantic env rq (gw_sessions gw, w))))" for rq using assms(1) by (simp add: disciplined_def)
  then have "store_ok S" if "ge_semantic env rq (gw_sessions gw, w) = (x, S, v)" for rq x S v using that by (metis fst_conv snd_conv)
  with ok assms(2,3) show ?thesis
    by (auto simp: assess_pipeline_visible_def Let_def intro!: waits [OF assms(2)] split: option.splits prod.splits)
qed

lemma persist_keeps_inv:
  assumes "disciplined env" "I gw" "persist_approval_checkpoint env gw w = (e, gw', w')"
  shows "I gw'"
proof -
  have "store_ok (fst (snd (ge_persist env gw (gw_sessions gw, w))))" using assms(1) stored [OF assms(2)] by (simp add: disciplined_def)
  with assms(2,3) show ?thesis
    by (auto simp: persist_approval_checkpoint_def intro!: waits split: if_splits prod.splits)
qed

end

section \<open>The handlers\<close>

context gateway_invariant
begin

lemma finish_call_keeps:
  assumes "is_object (gs_context s)" "I gw" "finish_call s name args result gw = (result', gw')"
  shows "I gw'"
  using assms by (auto simp: finish_call_def Let_def record_call_keeps enter_interrupt_keeps split: option.splits)

lemma enforced_call_keeps:
  assumes "disciplined env" "is_object (gs_context s)" "I gw" "enforced_call env tool name args s p gw w = (r, gw', w')"
  shows "I gw'"
proof -
  note fwd = forward_keeps [OF assms(1) counts]
  have "I gw'" if "allowed_call env s p name args gw w = (r, gw', w')"
    using that assms(2,3)
    by (auto simp: allowed_call_def Let_def dest: fwd [OF assms(3)] intro: finish_call_keeps
        split: option.splits pre_call_decision.splits prod.splits sum.splits)
  moreover have "I gw'" if "implicit_call env s p name args event st gw w = (r, gw', w')" for event st
  proof -
    have "I (record_run_transition (gs_current_state s) st st event implicit_data (move_session st (gs_context s) gw))"
      using assms(2,3) by (simp add: keeps)
    from fwd [OF this] show ?thesis
      using that assms(3) by (auto simp: implicit_call_def Let_def split: option.splits prod.splits)
  qed
  moreover have "I gw'" if "checkpoint_call env s p name args n m gw w = (r, gw', w')" for n m
    using that assms(3)
    by (auto simp: checkpoint_call_def dest: fwd [OF assms(3)] split: option.splits prod.splits sum.splits)
  ultimately show ?thesis
    using assms(3,4) by (auto simp: enforced_call_def Let_def split: option.splits enforcement_decision.splits)
qed

lemma proxy_call_keeps:
  assumes "disciplined env" "I gw" "proxy_call env name args gw w = (r, gw', w')"
  shows "I gw'"
  using assms
  by (auto simp: proxy_call_def intro: forward_keeps [OF assms(1,2)] enforced_call_keeps assess_keeps live_object
      split: option.splits sum.splits prod.splits)

lemma adapter_pre_keeps:
  assumes "disciplined env" "I gw" "adapter_pre_tool_with_evidence env tool input evidence gw w = (j, gw', w')"
  shows "I gw'"
proof -
  have enforce: "I g'" if "I g" "is_object (gs_context s)" "adapter_enforce env s p tool input policy g = (j', g')" for s p policy g j' g'
    using that by (auto simp: adapter_enforce_def Let_def keeps split: enforcement_decision.splits option.splits)
  from assms show ?thesis
    by (auto simp: adapter_pre_tool_with_evidence_def Let_def dest: assess_keeps [OF assms(1,2)]
        split: if_splits option.splits sum.splits prod.splits)
      (meson assess_keeps [OF assms(1,2)] enforce live_object)
qed

lemma adapter_post_keeps:
  assumes "I gw" "adapter_post_tool tool input response is_error gw = (j, gw')"
  shows "I gw'"
proof -
  have interrupted: "I g'" if "I g" "adapter_interrupt edited g = (j', g')" for edited g j' g'
    using that
    by (auto simp: adapter_interrupt_def bind_eq_Some_conv intro!: enter_interrupt_keeps intro: live_object split: option.splits)
  have recorded: "I (record_call policy update err (count_iteration gw))" for policy update err
    using assms(1) by (simp add: counts record_call_keeps)
  show ?thesis
    using assms
    by (auto simp: adapter_post_tool_def Let_def dest: interrupted [OF recorded] split: if_splits option.splits prod.splits)
qed

lemma branch_done_keeps:
  "is_object (gs_context s) \<Longrightarrow> I gw \<Longrightarrow> branch_done s n gw = (r, gw') \<Longrightarrow> I gw'"
  by (auto simp: branch_done_def join_to_def continue_fork_def Let_def keeps split: option.splits if_splits)

lemma create_fork_keeps:
  assumes "I gw" "create_fork s st event data info gw = (r, gw')"
  shows "I gw'"
proof -
  have "I (create_branch s b g)" if "I g" for b g
    using that by (auto simp: create_branch_def Let_def keeps split: option.splits)
  then have "I g \<Longrightarrow> I (fold (create_branch s) bs g)" for bs g by (induction bs arbitrary: g) simp_all
  with assms show ?thesis by (auto simp: create_fork_def Let_def keeps)
qed

lemma begin_subflow_keeps: "I gw \<Longrightarrow> begin_subflow st event data invoke gw = (r, gw') \<Longrightarrow> I gw'"
  by (auto simp: begin_subflow_def Let_def keeps split: option.splits)

lemma apply_transition_keeps:
  assumes "is_object (gs_context s)" "I gw" "apply_transition s st event data result gw = (r, gw')"
  shows "I gw'"
proof -
  let ?g = "record_run_transition st (gs_current_state s) (gs_current_state s) event data
      (record_step (move_session (gs_current_state s) (with_data (gs_context s) data) gw))"
  have g: "I ?g" using assms(1,2) by (simp add: keeps)
  have "I (?g\<lparr>gw_sessions := S\<rparr>)" if "complete_subflow i b (gw_sessions ?g) = (x, S)" for i b x S
    using waits [OF g] store_calls(7) [OF stored [OF g], of i b] that by simp
  with g assms(3) show ?thesis
    by (auto simp: apply_transition_def Let_def records split: if_splits option.splits prod.splits)
qed

lemma park_transition_keeps:
  assumes "disciplined env" "I gw" "park_transition env s st event data result gw w = (r, gw', w')"
  shows "I gw'"
proof -
  obtain uuid v where u: "ge_uuid env w = (uuid, v)" by fastforce
  let ?g = "on_sessions (set_pending_approval (gw_session_id gw) \<lparr>pa_approval_id = ''apr_'' @ uuid, pa_event = event,
    pa_from_state = st, pa_to_state = gs_current_state s, pa_new_context = with_data (gs_context s) data,
    pa_message = jstr result ''approval_message''\<rparr>) gw"
  obtain e g2 v2 where p: "persist_approval_checkpoint env ?g v = (e, g2, v2)" by (metis prod_cases3)
  have "I ?g" using assms(2) by (rule store_steps)
  from persist_keeps_inv [OF assms(1) this p] have "I g2" .
  with assms(3) u p show ?thesis by (auto simp: park_transition_def Let_def keeps split: option.splits)
qed

lemma transition_tool_keeps:
  assumes "disciplined env" "I gw" "transition_tool env args gw w = (r, gw', w')"
  shows "I gw'"
proof (cases "live_session gw")
  case None
  with assms show ?thesis by (simp add: transition_tool_def)
next
  case (Some s)
  then have obj: "is_object (gs_context s)" using assms(2) live_object by blast
  have resolved: "I g'" if "is_object (gs_context t)" "resolved_transition env t st event data result gw w = (r', g', v')"
    for t st event data result r' g' v'
    using that assms(2) park_transition_keeps [OF assms(1,2)]
    by (auto simp: resolved_transition_def intro: create_fork_keeps begin_subflow_keeps apply_transition_keeps
        split: if_splits option.splits prod.splits)
  have interrupted: "I g'" if "interrupt_request s n data gw = (r', g')" for n data r' g'
    using that obj assms(2) by (auto simp: interrupt_request_def enter_interrupt_keeps split: option.splits if_splits)
  let ?e = "unwrap_or [] (jget_str args ''event'')"
  obtain h s' where h: "handle_transition (ge_as_f64 env) ?e s = (h, s')" by fastforce
  consider (interrupt) "starts_with ?e ''INTERRUPT:''" | (branch) "\<not> starts_with ?e ''INTERRUPT:''" "starts_with ?e ''BRANCH_DONE:''"
    | (other) "\<not> starts_with ?e ''INTERRUPT:''" "\<not> starts_with ?e ''BRANCH_DONE:''" by blast
  then show ?thesis
  proof cases
    case interrupt
    with Some assms(3) show ?thesis by (auto simp: transition_tool_def Let_def dest: interrupted split: prod.splits)
  next
    case branch
    with Some assms(3) show ?thesis
      by (auto simp: transition_tool_def Let_def dest: branch_done_keeps [OF obj assms(2)] split: prod.splits)
  next
    case other
    show ?thesis
    proof (cases h)
      case (Inl e)
      with other Some assms(2,3) h show ?thesis by (auto simp: transition_tool_def Let_def split: if_splits)
    next
      case (Inr result)
      then have "is_object (gs_context s')" using handle_transition_object h obj by blast
      with other Inr Some assms(2,3) h show ?thesis
        by (auto simp: transition_tool_def Let_def dest: resolved split: if_splits)
    qed
  qed
qed

lemma apply_approval_receipt_keeps:
  "I gw \<Longrightarrow> apply_approval_receipt run_id approval_id receipt gw = (e, gw') \<Longrightarrow> I gw'"
  by (auto simp: apply_approval_receipt_def Let_def keeps split: if_splits option.splits json.splits)

lemma force_state_keeps: "I gw \<Longrightarrow> force_state args gw = (r, gw') \<Longrightarrow> I gw'"
  by (auto simp: force_state_def Let_def keeps live_object split: if_splits option.splits)

lemma deactivate_keeps: "I gw \<Longrightarrow> deactivate gw = (r, gw') \<Longrightarrow> I gw'"
  by (auto simp: deactivate_def Let_def keeps live_object intro!: stops split: if_splits option.splits)

end

section \<open>Runs\<close>

text \<open>
  One handler of this gateway, or a change of the shared store by another gateway of the owner; such a change
  also runs handlers, so it leaves the store well formed.
\<close>

inductive gateway_step :: "'w gateway_env \<Rightarrow> gateway \<times> 'w \<Rightarrow> gateway \<times> 'w \<Rightarrow> bool" for env where
  transition: "transition_tool env args gw w = (r, gw', w') \<Longrightarrow> gateway_step env (gw, w) (gw', w')"
| forced: "force_state args gw = (r, gw') \<Longrightarrow> gateway_step env (gw, w) (gw', w)"
| deactivated: "deactivate gw = (r, gw') \<Longrightarrow> gateway_step env (gw, w) (gw', w)"
| decided: "apply_approval_receipt run_id approval_id receipt gw = (e, gw') \<Longrightarrow> gateway_step env (gw, w) (gw', w)"
| called: "proxy_call env name args gw w = (r, gw', w') \<Longrightarrow> gateway_step env (gw, w) (gw', w')"
| asked: "adapter_pre_tool_with_evidence env tool input evidence gw w = (j, gw', w') \<Longrightarrow> gateway_step env (gw, w) (gw', w')"
| reported: "adapter_post_tool tool input response is_error gw = (j, gw') \<Longrightarrow> gateway_step env (gw, w) (gw', w)"
| elsewhere: "store_ok S \<Longrightarrow> gateway_step env (gw, w) (gw\<lparr>gw_sessions := S\<rparr>, w')"

inductive_cases gateway_stepE: "gateway_step env x y"

context gateway_invariant
begin

lemma step_keeps: "gateway_step env x y \<Longrightarrow> disciplined env \<Longrightarrow> I (fst x) \<Longrightarrow> I (fst y)"
  by (induction rule: gateway_step.induct)
    (auto intro: transition_tool_keeps force_state_keeps deactivate_keeps apply_approval_receipt_keeps proxy_call_keeps
      adapter_pre_keeps adapter_post_keeps waits)

lemma run_keeps: "(gateway_step env)\<^sup>*\<^sup>* x y \<Longrightarrow> disciplined env \<Longrightarrow> I (fst x) \<Longrightarrow> I (fst y)"
  by (induction rule: rtranclp_induct) (auto intro: step_keeps)

end

lemma gw_fields_queue [simp]:
  "gw_sessions (queue_write x gw) = gw_sessions gw" "gw_owner_id (queue_write x gw) = gw_owner_id gw"
  "gw_transport_session_id (queue_write x gw) = gw_transport_session_id gw" "gw_session_id (queue_write x gw) = gw_session_id gw"
  "gw_owner_id (on_sessions f gw) = gw_owner_id gw"
  "gw_transport_session_id (on_sessions f gw) = gw_transport_session_id gw"
  by (simp_all add: queue_write_def on_sessions_def)

interpretation gi_store: gateway_invariant gw_ok
  by unfold_locales auto

interpretation gi_history: gateway_invariant "\<lambda>gw. gw_ok gw \<and> (\<exists>xs. gw_writes gw = ws @ xs)" for ws
  by unfold_locales (auto simp: queue_write_def)

interpretation gi_identity: gateway_invariant
    "\<lambda>gw. gw_ok gw \<and> gw_owner_id gw = ow \<and> gw_transport_session_id gw = ts \<and> gw_session_id gw = si" for ow ts si
  by unfold_locales auto


lemma disciplined_quiet: "disciplined quiet_env"
  by (simp add: disciplined_def quiet_env_def)


end
