(* ===== verification/GatewayWorkflows.thy ===== *)
theory GatewayWorkflows
  imports GatewayTransitions Validate
begin

text \<open>
  The catalogue and the life of a run (\<open>crates/mcp-gateway/src/gateway.rs\<close>, \<open>config.rs\<close>): loading a workflow or one
  branch of a fork, resuming a paused run, pausing, creating workflows, and the tools that only report. The queries
  to the database and serde's conversions are the parameter \<open>'w run_db\<close>; a query may let other handlers use the
  store while it runs. The gateway is built with its database feature; a gateway without a pool is not durable.
\<close>

section \<open>The catalogue\<close>

definition engineering :: string where
  "engineering = ''engineering''"

definition resolve_workflow_name :: "machine_definition btree \<Rightarrow> string \<Rightarrow> string" where
  "resolve_workflow_name workflows requested =
     (if \<not> bt_contains_key workflows requested \<and> requested = engineering \<and> bt_contains_key workflows ''agentic-engineering''
      then ''agentic-engineering'' else requested)"

definition workflow_enabled :: "machine_definition \<Rightarrow> bool" where
  "workflow_enabled d = unwrap_or True (Option.bind (md_meta d) mm_enabled)"

definition available_workflow_names :: "machine_definition btree \<Rightarrow> string list" where
  "available_workflow_names workflows = map fst (filter (\<lambda>(_, d). workflow_enabled d) workflows)"

definition workflow_aliases :: "machine_definition btree \<Rightarrow> (string \<times> string) list" where
  "workflow_aliases workflows =
     (let resolved = resolve_workflow_name workflows engineering
      in if resolved \<noteq> engineering \<and> is_some_and workflow_enabled (bt_get workflows resolved)
         then [(engineering, resolved)] else [])"

record 'w run_db =
  rd_workflow :: "string \<Rightarrow> string \<Rightarrow> string \<Rightarrow> 'w shared \<Rightarrow> ((string \<times> json) option, string) result \<times> 'w shared"
  rd_paused :: "string \<Rightarrow> string \<Rightarrow> string \<Rightarrow> string \<Rightarrow> string option \<Rightarrow> 'w shared \<Rightarrow>
    (string \<times> string option \<times> json option) option option \<times> 'w shared"
  rd_claim :: "string \<Rightarrow> 'w shared \<Rightarrow> bool \<times> 'w shared"
  rd_insert :: "string \<Rightarrow> string \<Rightarrow> string \<Rightarrow> string \<Rightarrow> string \<Rightarrow> gateway_session \<Rightarrow> json \<Rightarrow> 'w shared \<Rightarrow> bool \<times> 'w shared"
  rd_confirm :: "string \<Rightarrow> string \<Rightarrow> string \<Rightarrow> string \<Rightarrow> string \<Rightarrow> gateway_session \<Rightarrow> json \<Rightarrow> 'w shared \<Rightarrow> bool \<times> 'w shared"
  rd_pause :: "string \<Rightarrow> string \<Rightarrow> json \<Rightarrow> 'w shared \<Rightarrow> bool \<times> 'w shared"
  rd_save :: "string \<Rightarrow> string \<Rightarrow> json \<Rightarrow> bool \<Rightarrow> 'w shared \<Rightarrow> (unit, string option \<times> string) result \<times> 'w shared"
  rd_to_value :: "gateway_session \<Rightarrow> json"
  rd_from_value :: "json \<Rightarrow> gateway_session option"
  rd_definition :: "json \<Rightarrow> (machine_definition, string) result"
  rd_size :: "json \<Rightarrow> nat"
  rd_serde :: serde_fns
  rd_usage_json :: "state_usage_summary list \<Rightarrow> json"
  rd_usage_report :: "json \<Rightarrow> (runtime_usage_report, string) result"
  rd_tool_report :: "json \<Rightarrow> (runtime_tool_report, string) result"

definition disabled_text :: "string \<Rightarrow> string" where
  "disabled_text name = ''Workflow '' @ quoted name @ '' is disabled and cannot be loaded or resumed.''"

definition unavailable_text :: "string \<Rightarrow> string" where
  "unavailable_text name =
     ''Workflow '' @ quoted name @ '' is not available. Call statewright_list_workflows for selectable names.''"

definition authoritative_workflow_definition ::
  "'w run_db \<Rightarrow> string \<Rightarrow> machine_definition \<Rightarrow> json option \<Rightarrow> (machine_definition, string) result" where
  "authoritative_workflow_definition db name catalog durable =
     (case durable of
        None \<Rightarrow> Ok catalog
      | Some value \<Rightarrow>
          if \<not> unwrap_or True (Option.bind (Option.bind (jget value ''meta'') (\<lambda>m. jget m ''enabled'')) as_bool)
          then Err (disabled_text name)
          else (case rd_definition db value of
                  Ok d \<Rightarrow> Ok d
                | Err e \<Rightarrow> Err (''Stored workflow '' @ quoted name @ '' is invalid: '' @ e)))"

definition execution_definition :: "machine_definition \<Rightarrow> gateway_session option \<Rightarrow> machine_definition" where
  "execution_definition fresh paused = (case paused of None \<Rightarrow> fresh | Some s \<Rightarrow> gs_definition s)"

section \<open>State snapshots\<close>

definition host_model_routing_warning :: string where
  "host_model_routing_warning = ''This remote MCP host controls the conversation model, so Statewright cannot apply this workflow'' @
     [CHR 0x27] @ ''s model or thinking_level route in the current chat. Treat those fields as recommendations and tell the user once when a workflow is activated. Statewright checks calls made through this MCP connection and workflow transitions; it cannot gate tools the host offers outside this connector. statewright_run_agent starts a separate server-side execution; it does not change this conversation'' @
     [CHR 0x27] @ ''s model.''"

definition opt_set :: "string \<Rightarrow> string option \<Rightarrow> json \<Rightarrow> json" where
  "opt_set k v j = (case v of None \<Rightarrow> j | Some x \<Rightarrow> jset j k (JString x))"

definition enrich_state_snapshot :: "gateway \<Rightarrow> json \<Rightarrow> bool \<Rightarrow> json" where
  "enrich_state_snapshot gw state capture_output =
     (let j = opt_set ''workflow'' (gw_active_workflow gw) (opt_set ''run_id'' (gw_current_run_id gw) state);
          j = jset j ''run_session_id'' (JString (gw_transport_session_id gw));
          j = jset j ''state_epoch'' (u64_json (ul_state_epoch (gw_usage gw)));
          j = jset j ''capture_output'' (JBool capture_output)
      in if gw_host_controls_model gw then
           jset j ''model_routing'' (json_object [(''status'', JString ''host_controlled''), (''enforced'', JBool False),
             (''host_client'', opt_json JString (gw_host_client_name gw)), (''message'', JString host_model_routing_warning)])
         else j)"

definition current_state_snapshot :: "'w run_db \<Rightarrow> gateway \<Rightarrow> bool \<Rightarrow> json option" where
  "current_state_snapshot db gw capture_output =
     map_option (\<lambda>s. enrich_state_snapshot gw (handle_get_state (rd_serde db) s) capture_output) (live_session gw)"

definition capture_output_of :: "machine_definition \<Rightarrow> bool" where
  "capture_output_of d = unwrap_or False (Option.bind (md_meta d) mm_capture_output)"

text \<open>With an active fork the state of the current branch is reported, or the parent's when the branch session is gone.\<close>

definition fork_info :: "json \<Rightarrow> json" where
  "fork_info fork = json_object
     [(''active'', JBool True), (''current_branch'', JString (unwrap_or [] (jstr fork ''current_branch''))),
      (''branches'', case as_object (jindex fork ''branches'') of
         None \<Rightarrow> json_object []
       | Some bs \<Rightarrow> json_object (map (\<lambda>(name, b). (name, json_object
           [(''status'', jindex b ''status''), (''initial'', jindex b ''initial''), (''terminal'', jindex b ''terminal'')])) bs)),
      (''join'', jindex fork ''join'')]"

definition get_state_tool :: "'w run_db \<Rightarrow> gateway \<Rightarrow> reply" where
  "get_state_tool db gw =
     (if gw_active_workflow gw = None then ReplyToolError ''No active workflow. Load a workflow before requesting state.''
      else case live_session gw of
        None \<Rightarrow> ReplyError (-32600) ''No active session''
      | Some s \<Rightarrow>
          (let capture = capture_output_of (gs_definition s)
           in case jget (gs_context s) fork_key of
                Some fork \<Rightarrow>
                  (let branch = unwrap_or [] (jstr fork ''current_branch'');
                       key = unwrap_or [] (jstr (jindex (jindex fork ''branches'') branch) ''session_key'');
                       shown = (case get_session (gw_sessions gw) key of Some b \<Rightarrow> b | None \<Rightarrow> s)
                   in ReplyText (enrich_state_snapshot gw
                        (jset (handle_get_state (rd_serde db) shown) ''fork'' (fork_info fork)) capture))
              | None \<Rightarrow> ReplyText (enrich_state_snapshot gw (handle_get_state (rd_serde db) s) capture)))"

section \<open>Loading\<close>

fun has_control :: "string \<Rightarrow> bool" where
  "has_control [] = False"
| "has_control (c # cs) =
     (char_code c < 32 \<or> char_code c = 127
      \<or> char_code c = 194 \<and> (case cs of [] \<Rightarrow> False | d # _ \<Rightarrow> 128 \<le> char_code d \<and> char_code d < 160)
      \<or> has_control cs)"

definition exact_run :: "bool \<Rightarrow> json \<Rightarrow> (string option, string) result" where
  "exact_run resume arguments =
     (case jget arguments ''run_id'' of
        None \<Rightarrow> Ok None
      | Some v \<Rightarrow>
          (case as_str v of
             Some run_id \<Rightarrow>
               if resume \<and> trim run_id \<noteq> [] \<and> length run_id \<le> 1024 \<and> \<not> has_control run_id \<and> jget arguments ''branch'' = None
               then Ok (Some run_id)
               else Err ''run_id must be a nonempty exact resume selector with resume=true and no branch''
           | None \<Rightarrow> Err ''run_id must be a nonempty exact resume selector with resume=true and no branch''))"

definition requested_project :: "json \<Rightarrow> gateway \<Rightarrow> string option" where
  "requested_project arguments gw =
     or_else (or_else (jget_str arguments ''project_id'') (jget_str arguments ''session_id'')) (gw_project_id gw)"

definition load_branch :: "'w run_db \<Rightarrow> string \<Rightarrow> string \<Rightarrow> gateway \<Rightarrow> reply \<times> gateway" where
  "load_branch db workflow_name branch gw =
     (case Option.bind (live_session gw) (\<lambda>ps. Option.bind (jget (gs_context ps) fork_key) (\<lambda>fork.
             Option.bind (jstr (jindex (jindex fork ''branches'') branch) ''session_key'') (\<lambda>key.
               map_option (Pair key) (get_session (gw_sessions gw) key)))) of
        None \<Rightarrow> (ReplyToolError (''Branch '' @ quoted branch @ '' not found. Is a fork active?''), gw)
      | Some (key, bs) \<Rightarrow>
          (let gw1 = gw\<lparr>gw_session_id := key\<rparr>
           in case current_state_snapshot db gw1 False of
                None \<Rightarrow> (ReplyError (-32603) ''Branch workflow state snapshot was unavailable'', gw1)
              | Some snapshot \<Rightarrow>
                  (ReplyText (json_object [(''loaded'', JString workflow_name), (''branch'', JString branch),
                     (''initial_state'', JString (gs_current_state bs)), (''states'', strings_json (bt_keys (md_states (gs_definition bs)))),
                     (''capture_output'', JBool False), (''resumed'', JBool False), (''state_snapshot'', snapshot)]), gw1)))"

text \<open>The definition to run: the catalogue's, checked against the stored record when there is a database.\<close>

definition load_definition ::
  "'w run_db \<Rightarrow> string \<Rightarrow> gateway \<Rightarrow> 'w \<Rightarrow> (string \<times> machine_definition, reply) result \<times> gateway \<times> 'w" where
  "load_definition db requested gw w =
     (let name = resolve_workflow_name (gw_workflows gw) requested
      in case bt_get (gw_workflows gw) name of
           None \<Rightarrow> (Err (ReplyToolError (unavailable_text name)), gw, w)
         | Some d \<Rightarrow>
             if \<not> workflow_enabled d then (Err (ReplyToolError (disabled_text name)), gw, w)
             else if \<not> gw_durable gw then (Ok (name, d), gw, w)
             else (case rd_workflow db (gw_owner_id gw) requested name (gw_sessions gw, w) of
                     (stored, S, w1) \<Rightarrow>
                       (case stored of
                          Err e \<Rightarrow> Err (ReplyError (-32603) (''Failed to verify workflow availability: '' @ e))
                        | Ok None \<Rightarrow> Err (ReplyToolError (unavailable_text name))
                        | Ok (Some (stored_name, value)) \<Rightarrow>
                            (case authoritative_workflow_definition db stored_name d (Some value) of
                               Err e \<Rightarrow> Err (ReplyToolError e)
                             | Ok d' \<Rightarrow> Ok (stored_name, d')), gw\<lparr>gw_sessions := S\<rparr>, w1)))"

definition paused_run ::
  "'w run_db \<Rightarrow> string \<Rightarrow> string \<Rightarrow> string option \<Rightarrow> gateway \<Rightarrow> 'w \<Rightarrow> (string \<times> gateway_session, string) result \<times> gateway \<times> 'w" where
  "paused_run db workflow project expected_run gw w =
     (if \<not> gw_durable gw then (Err ''Resume requires durable run storage'', gw, w)
      else case rd_paused db (gw_owner_id gw) workflow (gw_session_id gw) project expected_run (gw_sessions gw, w) of
        (row, S, w1) \<Rightarrow>
          (case row of
             None \<Rightarrow> Err ''Paused run lookup failed''
           | Some None \<Rightarrow> Err ''No paused run matches this owner, session, workflow and project; no new run was created''
           | Some (Some (_, None, _)) \<Rightarrow> Err ''Paused run has no state''
           | Some (Some (_, Some _, None)) \<Rightarrow> Err ''Paused run has no checkpoint''
           | Some (Some (run_id, Some state, Some saved)) \<Rightarrow>
               (case from_checkpoint (rd_from_value db) saved (gw_session_id gw) state of
                  Err e \<Rightarrow> Err e
                | Ok s \<Rightarrow> Ok (run_id, s)), gw\<lparr>gw_sessions := S\<rparr>, w1))"

text \<open>A paused run is taken over by a conditional update: a run that another client resumed first is refused.\<close>

definition resume_run ::
  "'w run_db \<Rightarrow> bool \<Rightarrow> string \<Rightarrow> string \<Rightarrow> string option \<Rightarrow> gateway \<Rightarrow> 'w \<Rightarrow>
   ((string \<times> gateway_session) option, string) result \<times> gateway \<times> 'w" where
  "resume_run db resume workflow project expected_run gw w =
     (if \<not> resume then (Ok None, gw, w)
      else case paused_run db workflow project expected_run gw w of
        (Err e, gw1, w1) \<Rightarrow> (Err e, gw1, w1)
      | (Ok (run_id, s), gw1, w1) \<Rightarrow>
          (case rd_claim db run_id (gw_sessions gw1, w1) of
             (claimed, S, w2) \<Rightarrow>
               (if claimed then Ok (Some (run_id, s)) else Err ''Paused run changed or storage update failed; resume denied'',
                gw1\<lparr>gw_sessions := S\<rparr>, w2)))"

definition record_run_start ::
  "'w run_db \<Rightarrow> string \<Rightarrow> string \<Rightarrow> string \<Rightarrow> gateway_session \<Rightarrow> gateway \<Rightarrow> 'w \<Rightarrow> string option \<times> gateway \<times> 'w" where
  "record_run_start db run_id workflow project s gw w =
     (let saved = checkpoint (rd_to_value db) s
      in if \<not> gw_durable gw then (None, gw, w)
         else if gs_instance_id s \<noteq> gw_session_id gw \<or> rd_size db saved > 524288
         then (Some ''Initial workflow checkpoint is invalid or exceeds the storage limit'', gw, w)
         else (case rd_insert db run_id (gw_owner_id gw) workflow (gw_session_id gw) project s saved (gw_sessions gw, w) of
                 (True, S, w1) \<Rightarrow> (None, gw\<lparr>gw_sessions := S\<rparr>, w1)
               | (False, S, w1) \<Rightarrow>
                   (case rd_confirm db run_id (gw_owner_id gw) workflow (gw_session_id gw) project s saved (S, w1) of
                      (confirmed, S2, w2) \<Rightarrow>
                        (if confirmed then None
                         else Some ''Workflow start could not be persisted; existing session unchanged. Check storage before retrying.'',
                         gw\<lparr>gw_sessions := S2\<rparr>, w2))))"

definition adr_path :: "string \<Rightarrow> string option \<Rightarrow> string" where
  "adr_path workflow run_id = ''.statewright/adr/'' @ workflow @ ''-'' @ unwrap_or ''local'' run_id @ ''.md''"

definition wants_adr :: "machine_definition \<Rightarrow> bool" where
  "wants_adr d =
     unwrap_or False (Option.bind (Option.bind (md_meta d) (\<lambda>m. bt_get (mm_extra m) ''agent-decision-record'')) as_bool)"

text \<open>The session to install, made off to the side; the plan limit of the session it replaces is kept.\<close>

definition prepared_session ::
  "string \<Rightarrow> machine_definition \<Rightarrow> gateway_session option \<Rightarrow> string option \<Rightarrow> gateway \<Rightarrow> gateway_session" where
  "prepared_session workflow d paused run_id gw =
     (let base = (case paused of Some s \<Rightarrow> s | None \<Rightarrow> new_session (gw_session_id gw) d);
          limited = (case Option.bind (live_session gw) gs_plan_limit of None \<Rightarrow> base | Some limit \<Rightarrow> limit_plan limit base);
          execution = execution_definition d paused
      in if wants_adr execution \<and> paused = None then
           enter_subflow ''adr-record'' adr_record
             (json_object [(''adr_path'', JString (adr_path workflow run_id)), (''parent_workflow'', JString workflow)])
             (md_initial execution) (Some ''failed'') limited
         else limited)"

definition install_run ::
  "'w run_db \<Rightarrow> string \<Rightarrow> machine_definition \<Rightarrow> gateway_session option \<Rightarrow> string option \<Rightarrow> string option \<Rightarrow> gateway_session \<Rightarrow> gateway \<Rightarrow>
   reply \<times> gateway" where
  "install_run db workflow d paused run_id project s gw =
     (let execution = execution_definition d paused;
          capture = capture_output_of execution;
          adr = (if wants_adr execution \<and> paused = None then Some (adr_path workflow run_id) else None);
          current = (if adr \<noteq> None then ''record''
                     else case paused of Some p \<Rightarrow> gs_current_state p | None \<Rightarrow> md_initial execution);
          gw1 = (on_sessions (restore s) gw)\<lparr>gw_active_workflow := Some workflow, gw_project_id := project, gw_current_run_id := run_id\<rparr>;
          budget = Option.bind (live_session gw1) (\<lambda>x. Option.bind (bt_get (md_states (gs_definition x)) current) sd_context_budget_bytes);
          gw2 = gw1\<lparr>gw_usage := ledger_start current budget (gw_usage gw1)\<rparr>
      in case current_state_snapshot db gw2 capture of
           None \<Rightarrow> (ReplyError (-32603) ''Workflow loaded but its initial state snapshot was unavailable'', gw2)
         | Some snapshot \<Rightarrow>
             (ReplyText (json_object [(''loaded'', JString workflow), (''initial_state'', JString current),
                (''states'', strings_json (bt_keys (md_states execution))), (''run_id'', opt_json JString run_id),
                (''capture_output'', JBool capture), (''resumed'', JBool (paused \<noteq> None)),
                (''agent_decision_record'', opt_json JString adr), (''state_snapshot'', snapshot)]), gw2))"

definition start_run ::
  "'w gateway_env \<Rightarrow> 'w run_db \<Rightarrow> string \<Rightarrow> machine_definition \<Rightarrow> string option \<Rightarrow> (string \<times> gateway_session) option \<Rightarrow> gateway \<Rightarrow> 'w \<Rightarrow>
   reply \<times> gateway \<times> 'w" where
  "start_run env db workflow d project paused gw w =
     (case paused of
        Some (run_id, p) \<Rightarrow>
          (let s = prepared_session workflow d (Some p) (Some run_id) gw
           in case install_run db workflow d (Some p) (Some run_id) project s gw of (r, gw1) \<Rightarrow> (r, gw1, w))
      | None \<Rightarrow>
          (if \<not> gw_durable gw then
             (let s = prepared_session workflow d None None gw
              in case install_run db workflow d None None project s gw of (r, gw1) \<Rightarrow> (r, gw1, w))
           else
             (let (run_id, w1) = ge_uuid env w;
                  s = prepared_session workflow d None (Some run_id) gw
              in case record_run_start db run_id workflow (unwrap_or [] project) s gw w1 of
                   (Some e, gw1, w2) \<Rightarrow>
                     (ReplyError (-32603) (e @ '' Candidate run: '' @ run_id @
                        ''. If storage acknowledgement was lost, inspect this exact run before another load; automatic retry is unsafe.''),
                      gw1, w2)
                 | (None, gw1, w2) \<Rightarrow>
                     (case install_run db workflow d None (Some run_id) project s gw1 of (r, gw2) \<Rightarrow> (r, gw2, w2)))))"

definition load_workflow ::
  "'w gateway_env \<Rightarrow> 'w run_db \<Rightarrow> json \<Rightarrow> gateway \<Rightarrow> 'w \<Rightarrow> reply \<times> gateway \<times> 'w" where
  "load_workflow env db arguments gw w =
     (let requested = unwrap_or [] (jget_str arguments ''name'');
          resume = unwrap_or False (Option.bind (jget arguments ''resume'') as_bool);
          project = requested_project arguments gw
      in case exact_run resume arguments of
           Err e \<Rightarrow> (ReplyError (-32602) e, gw, w)
         | Ok expected_run \<Rightarrow>
             (case jget_str arguments ''branch'' of
                Some branch \<Rightarrow>
                  (case load_branch db (resolve_workflow_name (gw_workflows gw) requested) branch gw of (r, gw1) \<Rightarrow> (r, gw1, w))
              | None \<Rightarrow>
                  (case load_definition db requested gw w of
                     (Err r, gw1, w1) \<Rightarrow> (r, gw1, w1)
                   | (Ok (workflow, d), gw1, w1) \<Rightarrow>
                       (case validate_definition d of
                          Err e \<Rightarrow>
                            (ReplyToolError (''Invalid workflow '' @ quoted workflow @ '': '' @ show_validation_error e), gw1, w1)
                        | Ok _ \<Rightarrow>
                            if is_some_and (\<lambda>s. jget (gs_context s) fork_key \<noteq> None) (live_session gw1) then
                              (ReplyToolError ''Cannot load workflow while a fork is active. Complete or deactivate the fork first.'', gw1, w1)
                            else (case resume_run db resume workflow (unwrap_or [] project) expected_run gw1 w1 of
                                    (Err e, gw2, w2) \<Rightarrow> (ReplyError (-32600) e, gw2, w2)
                                  | (Ok paused, gw2, w2) \<Rightarrow> start_run env db workflow d project paused gw2 w2)))))"

section \<open>Pausing\<close>

definition pause_workflow :: "'w run_db \<Rightarrow> gateway \<Rightarrow> 'w \<Rightarrow> reply \<times> gateway \<times> 'w" where
  "pause_workflow db gw w =
     (if \<not> gw_durable gw then (ReplyError (-32600) ''Pause requires durable run storage'', gw, w)
      else case live_session gw of
        None \<Rightarrow> (ReplyError (-32600) ''No active session'', gw, w)
      | Some s \<Rightarrow>
          (case gw_current_run_id gw of
             None \<Rightarrow> (ReplyError (-32600) ''Pause requires a durable run'', gw, w)
           | Some run_id \<Rightarrow>
               (case rd_pause db run_id (gs_current_state s) (checkpoint (rd_to_value db) s) (gw_sessions gw, w) of
                  (saved, S, w1) \<Rightarrow>
                    (if \<not> saved then
                       (ReplyError (-32600) ''Pause checkpoint was not saved; workflow remains active'', gw\<lparr>gw_sessions := S\<rparr>, w1)
                     else
                       (ReplyText (json_object [(''paused'', JBool True), (''state'', JString (gs_current_state s)),
                          (''workflow'', JString (unwrap_or [] (gw_active_workflow gw))), (''run_id'', JString run_id),
                          (''message'', JString ''Workflow paused. Use statewright_load_workflow with resume=true to continue.'')]),
                        gw\<lparr>gw_sessions := S, gw_active_workflow := None\<rparr>, w1)))))"

section \<open>Creating workflows and reporting\<close>

definition schema_hint :: string where
  "schema_hint = ''. See schema at https://statewright.ai/workflow-schema.json''"

definition workflow_quota_message :: "string option \<Rightarrow> string option" where
  "workflow_quota_message code =
     (if code = Some ''SWQ01'' then
        Some ''Workflow limit reached for your plan. Delete a saved workflow or upgrade at https://statewright.ai/billing. Updating an existing workflow with overwrite=true does not use another slot.''
      else if code = Some ''SWQ02'' then
        Some ''Workflow quota could not be verified. No workflow was created. Contact support to check your plan configuration.''
      else None)"

definition exists_text :: "string \<Rightarrow> string" where
  "exists_text name = ''Workflow '' @ quoted name @ '' already exists. Use overwrite=true to replace it.''"

definition created_text :: "string \<Rightarrow> string \<Rightarrow> string \<Rightarrow> string" where
  "created_text name verb kind =
     ''Workflow '' @ quoted name @ '' '' @ verb @ kind @ ''. Use statewright_load_workflow(name='' @ quoted name @ '') to activate it.''"

definition add_workflow :: "string \<Rightarrow> machine_definition \<Rightarrow> gateway \<Rightarrow> gateway" where
  "add_workflow name d gw = gw\<lparr>gw_workflows := bt_insert name d (gw_workflows gw)\<rparr>"

definition create_workflow :: "'w run_db \<Rightarrow> json \<Rightarrow> gateway \<Rightarrow> 'w \<Rightarrow> reply \<times> gateway \<times> 'w" where
  "create_workflow db arguments gw w =
     (let name = unwrap_or [] (jget_str arguments ''name'');
          definition = unwrap_or (JObject []) (jget arguments ''definition'');
          overwrite = unwrap_or False (Option.bind (jget arguments ''overwrite'') as_bool);
          known = bt_contains_key (gw_workflows gw) name
      in if name = [] then (ReplyToolError ''Workflow name is required'', gw, w)
         else case rd_definition db definition of
           Err e \<Rightarrow> (ReplyToolError (''Invalid workflow definition: '' @ e @ schema_hint), gw, w)
         | Ok d \<Rightarrow>
             (case validate_definition d of
                Err e \<Rightarrow> (ReplyToolError (''Workflow validation failed: '' @ show_validation_error e @ schema_hint), gw, w)
              | Ok _ \<Rightarrow>
                  if gw_durable gw then
                    (case rd_save db (gw_owner_id gw) name definition overwrite (gw_sessions gw, w) of
                       (Ok _, S, w1) \<Rightarrow>
                         (ReplyResult (result_text (created_text name (if overwrite \<and> known then ''updated'' else ''created'') [])),
                          add_workflow name d (gw\<lparr>gw_sessions := S\<rparr>), w1)
                     | (Err (code, msg), S, w1) \<Rightarrow>
                         (ReplyToolError (case workflow_quota_message code of
                            Some message \<Rightarrow> message
                          | None \<Rightarrow> if str_contains msg ''unique'' \<or> str_contains msg ''duplicate'' then exists_text name
                                    else ''Failed to save workflow: '' @ msg), gw\<lparr>gw_sessions := S\<rparr>, w1))
                  else if \<not> overwrite \<and> known then (ReplyToolError (exists_text name), gw, w)
                  else (ReplyResult (result_text (created_text name (if known then ''updated'' else ''created'') '' (in-memory)'')),
                        add_workflow name d gw, w)))"

definition get_workflow :: "'w run_db \<Rightarrow> json \<Rightarrow> gateway \<Rightarrow> 'w \<Rightarrow> reply \<times> gateway \<times> 'w" where
  "get_workflow db arguments gw w =
     (let name = unwrap_or [] (jget_str arguments ''name'')
      in if name = [] then (ReplyToolError ''Workflow name is required'', gw, w)
         else if \<not> gw_durable gw then (ReplyError (-32600) ''statewright_get_workflow requires durable workflow storage'', gw, w)
         else (case rd_workflow db (gw_owner_id gw) name (resolve_workflow_name (gw_workflows gw) name) (gw_sessions gw, w) of
                 (stored, S, w1) \<Rightarrow>
                   (case stored of
                      Err e \<Rightarrow> ReplyError (-32603) (''Failed to read workflow definition: '' @ e)
                    | Ok None \<Rightarrow> ReplyToolError (''Workflow '' @ quoted name @
                        '' was not found in durable storage. Use statewright_list_workflows to discover available names.'')
                    | Ok (Some (stored_name, value)) \<Rightarrow>
                        ReplyText (json_object [(''name'', JString stored_name), (''definition'', value)]), gw\<lparr>gw_sessions := S\<rparr>, w1)))"

definition list_workflows :: "gateway \<Rightarrow> reply" where
  "list_workflows gw = ReplyText (json_object
     [(''workflows'', strings_json (available_workflow_names (gw_workflows gw))),
      (''workflow_aliases'', json_object (map (\<lambda>(k, v). (k, JString v)) (workflow_aliases (gw_workflows gw)))),
      (''active'', opt_json JString (gw_active_workflow gw))])"

definition status_usage :: "gateway_session \<Rightarrow> json" where
  "status_usage s =
     (case usage s of
        (used, limit, _) \<Rightarrow> json_object
          [(''transitions'', u64_json used), (''limit'', opt_json u64_json limit),
           (''remaining'', opt_json (\<lambda>l. u64_json (saturating_sub l used)) limit), (''warning'', opt_json JString (usage_warning s))])"

definition get_status :: "gateway \<Rightarrow> reply" where
  "get_status gw =
     (let s = (if gw_active_workflow gw = None then None else live_session gw)
      in ReplyText (json_object
           [(''active_workflow'', opt_json JString (gw_active_workflow gw)),
            (''current_state'', opt_json (\<lambda>s. JString (gs_current_state s)) s),
            (''iteration'', opt_json (\<lambda>s. u32_json (gs_iteration_count s)) s),
            (''transition_count'', opt_json (\<lambda>s. u64_json (gs_transition_count s)) s),
            (''is_final'', opt_json (\<lambda>s. JBool (is_final s)) s),
            (''available_workflows'', strings_json (available_workflow_names (gw_workflows gw))),
            (''usage'', opt_json status_usage s)]))"

definition usage_control_allowed :: "json \<Rightarrow> gateway \<Rightarrow> bool" where
  "usage_control_allowed arguments gw =
     (case gw_usage_control_token gw of
        None \<Rightarrow> False
      | Some expected \<Rightarrow> jget_str arguments ''control_token'' = Some expected)"

definition report_runtime_usage :: "'w run_db \<Rightarrow> json \<Rightarrow> gateway \<Rightarrow> reply \<times> gateway" where
  "report_runtime_usage db arguments gw =
     (if \<not> usage_control_allowed arguments gw then (ReplyToolError ''Runtime usage reporting is controller-only.'', gw)
      else let kind = unwrap_or [] (jget_str arguments ''kind'');
               report = unwrap_or (JObject []) (jget arguments ''report'');
               (result, ledger) =
                 (if kind = ''usage'' then
                    (case rd_usage_report db report of Err e \<Rightarrow> (Err e, gw_usage gw) | Ok r \<Rightarrow> report_usage r (gw_usage gw))
                  else if kind = ''tool'' then
                    (case rd_tool_report db report of Err e \<Rightarrow> (Err e, gw_usage gw) | Ok r \<Rightarrow> report_tool r (gw_usage gw))
                  else (Err ''Unknown runtime usage report kind'', gw_usage gw))
           in (case result of Ok _ \<Rightarrow> ReplyResult (result_text ''ok'') | Err e \<Rightarrow> ReplyToolError e, gw\<lparr>gw_usage := ledger\<rparr>))"

definition get_usage :: "'w run_db \<Rightarrow> gateway \<Rightarrow> reply" where
  "get_usage db gw = ReplyText (rd_usage_json db (ledger_summaries (gw_usage gw)))"

section \<open>A load that fails changes nothing\<close>

text \<open>A database that lets nobody else use the store while it answers.\<close>

definition quiet_db :: "'w run_db \<Rightarrow> bool" where
  "quiet_db db \<longleftrightarrow>
     (\<forall>o0 r n S w. fst (snd (rd_workflow db o0 r n (S, w))) = S) \<and>
     (\<forall>o0 wn i p e S w. fst (snd (rd_paused db o0 wn i p e (S, w))) = S) \<and>
     (\<forall>r S w. fst (snd (rd_claim db r (S, w))) = S) \<and>
     (\<forall>r o0 n i p s c S w. fst (snd (rd_insert db r o0 n i p s c (S, w))) = S) \<and>
     (\<forall>r o0 n i p s c S w. fst (snd (rd_confirm db r o0 n i p s c (S, w))) = S) \<and>
     (\<forall>r st c S w. fst (snd (rd_pause db r st c (S, w))) = S)"

lemma quiet_dbD:
  assumes "quiet_db db"
  shows "rd_workflow db o0 r n (S, w) = (x, S', w') \<Longrightarrow> S' = S"
    "rd_paused db o0 wn i p e (S, w) = (x2, S', w') \<Longrightarrow> S' = S"
    "rd_claim db r (S, w) = (b, S', w') \<Longrightarrow> S' = S"
    "rd_insert db r o0 n i p s c (S, w) = (b, S', w') \<Longrightarrow> S' = S"
    "rd_confirm db r o0 n i p s c (S, w) = (b, S', w') \<Longrightarrow> S' = S"
    "rd_pause db r st c (S, w) = (b, S', w') \<Longrightarrow> S' = S"
  using assms by (auto simp: quiet_db_def) (metis fst_conv snd_conv)+

lemma load_definition_quiet: "quiet_db db \<Longrightarrow> load_definition db requested gw w = (r, gw', w') \<Longrightarrow> gw' = gw"
  by (auto simp: load_definition_def Let_def dest: quiet_dbD(1) split: option.splits if_splits prod.splits)

lemma paused_run_quiet: "quiet_db db \<Longrightarrow> paused_run db wn p e gw w = (r, gw', w') \<Longrightarrow> gw' = gw"
  by (auto simp: paused_run_def dest: quiet_dbD(2) split: if_splits prod.splits)

lemma resume_run_quiet:
  assumes "quiet_db db" "resume_run db b wn p e gw w = (r, gw', w')"
  shows "gw' = gw"
proof (cases b)
  case True
  obtain q gw1 w1 where q: "paused_run db wn p e gw w = (q, gw1, w1)" by (metis prod_cases3)
  have gw1: "gw1 = gw" using paused_run_quiet [OF assms(1) q] .
  show ?thesis
  proof (cases q)
    case (Inl x)
    with True q gw1 assms(2) show ?thesis by (simp add: resume_run_def)
  next
    case (Inr x)
    obtain run_id s where x: "x = (run_id, s)" by fastforce
    obtain claimed S w2 where c: "rd_claim db run_id (gw_sessions gw1, w1) = (claimed, S, w2)" by (metis prod_cases3)
    have "S = gw_sessions gw1" using quiet_dbD(3) [OF assms(1) c] .
    with True q gw1 Inr x c assms(2) show ?thesis by (auto simp: resume_run_def)
  qed
qed (use assms in \<open>simp add: resume_run_def\<close>)

lemma record_run_start_quiet:
  assumes "quiet_db db" "record_run_start db r n p s gw w = (e, gw', w')"
  shows "gw' = gw"
proof -
  let ?c = "checkpoint (rd_to_value db) s"
  obtain b S w1 where i: "rd_insert db r (gw_owner_id gw) n (gw_session_id gw) p s ?c (gw_sessions gw, w) = (b, S, w1)"
    by (metis prod_cases3)
  obtain b2 S2 w2 where c: "rd_confirm db r (gw_owner_id gw) n (gw_session_id gw) p s ?c (S, w1) = (b2, S2, w2)"
    by (metis prod_cases3)
  show ?thesis
    using assms(2) i c quiet_dbD(4) [OF assms(1) i] quiet_dbD(5) [OF assms(1) c]
    by (cases b) (auto simp: record_run_start_def Let_def split: if_splits)
qed

lemma paused_run_identity: "paused_run db wn p e gw w = (Ok (run_id, s), gw', w') \<Longrightarrow> gs_instance_id s = gw_session_id gw"
  by (auto simp: paused_run_def from_checkpoint_def split: if_splits prod.splits option.splits sum.splits)

lemma resume_run_identity: "resume_run db b wn p e gw w = (Ok (Some (run_id, s)), gw', w') \<Longrightarrow> gs_instance_id s = gw_session_id gw"
  by (auto simp: resume_run_def dest: paused_run_identity split: if_splits prod.splits sum.splits)

lemma prepared_identity:
  "(\<And>s. paused = Some s \<Longrightarrow> gs_instance_id s = gw_session_id gw) \<Longrightarrow>
   gs_instance_id (prepared_session wn d paused run_id gw) = gw_session_id gw"
  by (cases paused) (simp_all add: prepared_session_def Let_def new_session_def session_upd_defs split: option.split)

lemma install_run_replies:
  assumes "gs_instance_id s = gw_session_id gw" "install_run db wn d paused run_id project s gw = (r, gw')"
  shows "\<exists>j. r = ReplyText j" "live_session gw' = Some s" "gw_active_workflow gw' = Some wn" "gw_current_run_id gw' = run_id"
    "gw_project_id gw' = project"
  using assms
  by (auto simp: install_run_def Let_def current_state_snapshot_def live_session_def get_session_def restore_def hm_insert_def
      on_sessions_def)

lemma load_branch_fails: "load_branch db wn b gw = (r, gw') \<Longrightarrow> \<forall>j. r \<noteq> ReplyText j \<Longrightarrow> gw' = gw"
  by (auto simp: load_branch_def Let_def current_state_snapshot_def live_session_def bind_eq_Some_conv split: option.splits)

lemma start_run_fails:
  assumes "quiet_db db" "\<And>x. paused = Some x \<Longrightarrow> gs_instance_id (snd x) = gw_session_id gw"
    and "start_run env db wn d project paused gw w = (r, gw', w')" "\<forall>j. r \<noteq> ReplyText j"
  shows "gw' = gw"
proof (cases paused)
  case (Some x)
  have "gs_instance_id (prepared_session wn d (Some (snd x)) (Some (fst x)) gw) = gw_session_id gw"
    using assms(2) Some by (intro prepared_identity) auto
  with Some assms(3,4) show ?thesis
    by (auto simp: start_run_def Let_def dest: install_run_replies(1) split: prod.splits)
next
  case None
  have id: "gs_instance_id (prepared_session wn d None run_id gw) = gw_session_id gw" for run_id
    by (intro prepared_identity) simp
  show ?thesis
  proof (cases "gw_durable gw")
    case False
    with None assms(3,4) show ?thesis
      by (auto simp: start_run_def Let_def dest: install_run_replies(1) [OF id] split: prod.splits)
  next
    case True
    obtain run_id w1 where u: "ge_uuid env w = (run_id, w1)" by fastforce
    let ?s = "prepared_session wn d None (Some run_id) gw"
    obtain e gw1 w2 where rs: "record_run_start db run_id wn (unwrap_or [] project) ?s gw w1 = (e, gw1, w2)" by (metis prod_cases3)
    have "gw1 = gw" using record_run_start_quiet [OF assms(1) rs] .
    with None True u rs assms(3,4) show ?thesis
      by (cases e) (auto simp: start_run_def Let_def dest: install_run_replies(1) [OF id] split: prod.splits)
  qed
qed

text \<open>
  C14: a load that fails changes nothing. Unless loading a workflow (fresh, resumed, or one branch of a fork) answers with the
  loaded state, the gateway is exactly what it was: the sessions, the active workflow, the run, the project and the usage
  ledger. This covers unknown, disabled, invalid and stale definitions, an active fork, a paused run that is
  missing, malformed or taken by another client, and a start that the database did not record.
\<close>

theorem failed_load_changes_nothing:
  assumes "quiet_db db" "load_workflow env db arguments gw w = (r, gw', w')" "\<forall>j. r \<noteq> ReplyText j"
  shows "gw' = gw"
proof (cases "exact_run (unwrap_or False (Option.bind (jget arguments ''resume'') as_bool)) arguments")
  case (Inl e)
  with assms show ?thesis by (simp add: load_workflow_def Let_def)
next
  case (Inr expected)
  let ?n = "unwrap_or [] (jget_str arguments ''name'')"
  show ?thesis
  proof (cases "jget_str arguments ''branch''")
    case (Some b)
    with Inr assms show ?thesis by (auto simp: load_workflow_def Let_def dest: load_branch_fails split: prod.splits)
  next
    case None
    obtain ld gw1 w1 where ld: "load_definition db ?n gw w = (ld, gw1, w1)" by (metis prod_cases3)
    have gw1: "gw1 = gw" using load_definition_quiet [OF assms(1) ld] .
    show ?thesis
    proof (cases ld)
      case (Inl e)
      with None Inr ld gw1 assms show ?thesis by (simp add: load_workflow_def Let_def)
    next
      case (Inr wd)
      obtain wn d where wd: "wd = (wn, d)" by fastforce
      let ?project = "requested_project arguments gw" and ?resume = "unwrap_or False (Option.bind (jget arguments ''resume'') as_bool)"
      obtain p gw2 w2 where p: "resume_run db ?resume wn (unwrap_or [] ?project) expected gw w1 = (p, gw2, w2)" by (metis prod_cases3)
      have gw2: "gw2 = gw" using resume_run_quiet [OF assms(1) p] .
      have own: "gs_instance_id (snd x) = gw_session_id gw" if "p = Ok (Some x)" for x
        using that p resume_run_identity by (cases x) fastforce
      have go: "gw' = gw" if "p = Ok q" "start_run env db wn d ?project q gw w2 = (r, gw', w')" for q
        using start_run_fails [OF assms(1) _ that(2) assms(3)] own that(1) by blast
      show ?thesis
        using assms(2) None \<open>exact_run _ _ = _\<close> ld gw1 Inr wd p gw2 go
        by (cases p) (simp_all add: load_workflow_def Let_def split: sum.splits if_splits)
    qed
  qed
qed

definition plain_serde :: serde_fns where
  "plain_serde = \<lparr>sv_guard = \<lambda>_. JNull, sv_meta = \<lambda>_. JNull, sv_policy = \<lambda>_. JNull\<rparr>"

text \<open>A database with one workflow and one run, the run saved in the session given.\<close>

definition one_run_db :: "machine_definition \<Rightarrow> gateway_session \<Rightarrow> unit run_db" where
  "one_run_db d s =
     \<lparr>rd_workflow = \<lambda>_ requested _ sw. (if requested = ''w'' then Ok (Some (''w'', JObject [])) else Ok None, sw),
      rd_paused = \<lambda>_ _ _ _ _ sw.
        (Some (Some (''r'', Some (gs_current_state s), Some (checkpoint (\<lambda>_. JObject [(''pending_approval'', JNull)]) s))), sw),
      rd_claim = \<lambda>run_id sw. (run_id = ''r'', sw), rd_insert = \<lambda>_ _ _ _ _ _ _ sw. (True, sw),
      rd_confirm = \<lambda>_ _ _ _ _ _ _ sw. (True, sw), rd_pause = \<lambda>_ _ _ sw. (True, sw), rd_save = \<lambda>_ _ _ _ sw. (Ok (), sw),
      rd_to_value = \<lambda>_. JObject [(''pending_approval'', JNull)], rd_from_value = \<lambda>_. Some s, rd_definition = \<lambda>_. Ok d,
      rd_size = \<lambda>_. 0, rd_serde = plain_serde, rd_usage_json = \<lambda>_. JNull, rd_usage_report = \<lambda>_. Err [],
      rd_tool_report = \<lambda>_. Err []\<rparr>"

lemma quiet_one_run: "quiet_db (one_run_db d s)"
  by (simp add: quiet_db_def one_run_db_def)

definition catalogued :: "machine_definition \<Rightarrow> gateway" where
  "catalogued d = (gateway_on d [])\<lparr>gw_workflows := [(''v'', d), (''w'', d)]\<rparr>"

theorem failed_load_changes_nothing_witness:
  "let gw = catalogued gate_machine; db = one_run_db gate_machine (new_session ''g'' gate_machine);
       call = (\<lambda>name. load_workflow quiet_env db (json_object [(''name'', JString name)]) gw ())
   in (\<forall>j. fst (call ''v'') \<noteq> ReplyText j) \<and> fst (snd (call ''v'')) = gw"
proof -
  let ?gw = "catalogued gate_machine" and ?db = "one_run_db gate_machine (new_session ''g'' gate_machine)"
  let ?call = "load_workflow quiet_env ?db (json_object [(''name'', JString ''v'')]) ?gw ()"
  obtain r gw' w' where c: "?call = (r, gw', w')" by (metis prod_cases3)
  have "case fst ?call of ReplyText _ \<Rightarrow> False | _ \<Rightarrow> True" by code_simp
  then have r: "\<forall>j. r \<noteq> ReplyText j" using c by (cases r) auto
  show ?thesis using failed_load_changes_nothing [OF quiet_one_run c r] c r by simp
qed

section \<open>Pausing and resuming\<close>

lemma paused_saved:
  assumes "quiet_db db" "live_session gw = Some s" "pause_workflow db gw w = (ReplyText j, gw1, w1)"
  shows "gw1 = gw\<lparr>gw_active_workflow := None\<rparr>" "gw_current_run_id gw \<noteq> None" "gw_durable gw"
proof -
  from assms(2,3) obtain run_id where run: "gw_current_run_id gw = Some run_id" "gw_durable gw"
    by (auto simp: pause_workflow_def split: if_splits option.splits)
  obtain saved S w2 where p: "rd_pause db run_id (gs_current_state s) (checkpoint (rd_to_value db) s) (gw_sessions gw, w) = (saved, S, w2)"
    by (metis prod_cases3)
  show "gw1 = gw\<lparr>gw_active_workflow := None\<rparr>" "gw_current_run_id gw \<noteq> None" "gw_durable gw"
    using assms(2,3) run p quiet_dbD(6) [OF assms(1) p] by (auto simp: pause_workflow_def split: if_splits)
qed

text \<open>The row that a successful pause of \<open>s\<close> writes, as a query for it returns it.\<close>

definition saved_row :: "'w run_db \<Rightarrow> string \<Rightarrow> gateway_session \<Rightarrow> (string \<times> string option \<times> json option) option option" where
  "saved_row db run_id s = Some (Some (run_id, Some (gs_current_state s), Some (checkpoint (rd_to_value db) s)))"

lemma resume_saved:
  assumes "quiet_db db" "gw_durable gw" "gs_instance_id s = gw_session_id gw" "session_ok s" "resumable s"
    and "rd_from_value db (rd_to_value db s) = Some s" "jget (rd_to_value db s) ''pending_approval'' \<noteq> None"
    and "\<And>x. fst (rd_paused db (gw_owner_id gw) wn (gw_session_id gw) project expected x) = saved_row db run_id s"
    and "\<And>x. fst (rd_claim db run_id x)"
  obtains w2 where "resume_run db True wn project expected gw w = (Ok (Some (run_id, s)), gw, w2)"
proof -
  obtain row S w1 where p: "rd_paused db (gw_owner_id gw) wn (gw_session_id gw) project expected (gw_sessions gw, w) = (row, S, w1)"
    by (metis prod_cases3)
  have row: "row = saved_row db run_id s" "S = gw_sessions gw"
    using assms(8) [of "(gw_sessions gw, w)"] p quiet_dbD(2) [OF assms(1) p] by simp_all
  have "paused_run db wn project expected gw w = (Ok (run_id, s), gw, w1)"
    using assms(2,3) p row from_own_checkpoint [of "rd_from_value db" "rd_to_value db" s, OF assms(6,7,4,5)] by (simp add: paused_run_def saved_row_def)
  moreover obtain claimed S' w2 where c: "rd_claim db run_id (gw_sessions gw, w1) = (claimed, S', w2)" by (metis prod_cases3)
  moreover have "claimed" "S' = gw_sessions gw"
    using assms(9) [of "(gw_sessions gw, w1)"] c quiet_dbD(3) [OF assms(1) c] by simp_all
  ultimately show ?thesis using that by (simp add: resume_run_def)
qed

lemma resumed_session_kept:
  "live_session gw = Some s \<Longrightarrow> prepared_session wn d (Some s) run_id gw = s"
  by (auto simp: prepared_session_def Let_def limit_plan_def split: option.splits)



end
