(* ===== verification/TestSignals.thy ===== *)
theory TestSignals
  imports Json
begin

text \<open>
  What the command-line agent reads from the output of a test run (\<open>crates/cli/src/repair_feedback.rs\<close>,
  \<open>validation_oracle.rs\<close>, \<open>patch_authority.rs\<close>, \<open>baseline_qualification.rs\<close>): the kind of the outcome, the fingerprint of a
  failure, how far an outcome is trusted against the baseline recorded for the same scope, and the ledger of baselines.

  The ledger lives in two environment variables and in an optional manifest file. The state of the model is
  that environment and the JSON value of every file that can be read and parsed; a file that cannot is absent, which is how
  the code treats it. serde's conversions are the parameter \<open>oracle_serde\<close>.
\<close>

section \<open>Lines and numbers\<close>

text \<open>\<open>str::lines\<close>: a carriage return before a line feed belongs to the line ending.\<close>

definition strip_cr :: "string \<Rightarrow> string" where
  "strip_cr s = (if s \<noteq> [] \<and> last s = CHR 0x0D then butlast s else s)"

definition str_lines :: "string \<Rightarrow> string list" where
  "str_lines s =
     (let ls = split_on (\<lambda>c. c = CHR 0x0A) s
      in map strip_cr (butlast ls) @ (if last ls = [] then [] else [last ls]))"

fun find_map :: "('a \<Rightarrow> 'b option) \<Rightarrow> 'a list \<Rightarrow> 'b option" where
  "find_map f [] = None"
| "find_map f (x # xs) = (case f x of Some y \<Rightarrow> Some y | None \<Rightarrow> find_map f xs)"

fun digits_value :: "nat \<Rightarrow> string \<Rightarrow> nat option" where
  "digits_value acc [] = Some acc"
| "digits_value acc (c # cs) =
     (if is_ascii_digit c then digits_value (10 * acc + (char_code c - 48)) cs else None)"

definition decimal :: "string \<Rightarrow> nat option" where
  "decimal s = (if s = [] then None else digits_value 0 s)"

definition parse_i32 :: "string \<Rightarrow> int option" where
  "parse_i32 s =
     (case (case s of
              [] \<Rightarrow> None
            | c # cs \<Rightarrow>
                if c = CHR ''-'' then map_option (\<lambda>n. - int n) (decimal cs)
                else if c = CHR ''+'' then map_option int (decimal cs)
                else map_option int (decimal s)) of
        None \<Rightarrow> None
      | Some i \<Rightarrow> if - (2 ^ 31) \<le> i \<and> i < 2 ^ 31 then Some i else None)"

definition slashes :: "string \<Rightarrow> string" where
  "slashes s = map (\<lambda>c. if c = CHR 0x5C then CHR ''/'' else c) s"

definition contains_any :: "string \<Rightarrow> string list \<Rightarrow> bool" where
  "contains_any s needles \<longleftrightarrow> list_ex (str_contains s) needles"

definition starts_any :: "string \<Rightarrow> string list \<Rightarrow> bool" where
  "starts_any s ps \<longleftrightarrow> list_ex (starts_with s) ps"

section \<open>The kind of an outcome\<close>

datatype repair_signal_kind =
  Passed | AssertionFailure | SyntaxOrCollection | InvalidScope | EnvUnavailable | Timeout | UnknownFailure

fun signal_kind_str :: "repair_signal_kind \<Rightarrow> string" where
  "signal_kind_str Passed = ''passed''"
| "signal_kind_str AssertionFailure = ''assertion_failure''"
| "signal_kind_str SyntaxOrCollection = ''syntax_or_collection''"
| "signal_kind_str InvalidScope = ''invalid_scope''"
| "signal_kind_str EnvUnavailable = ''env_unavailable''"
| "signal_kind_str Timeout = ''timeout''"
| "signal_kind_str UnknownFailure = ''unknown_failure''"

definition is_candidate_blocking :: "repair_signal_kind \<Rightarrow> bool" where
  "is_candidate_blocking k \<longleftrightarrow> k \<in> {AssertionFailure, SyntaxOrCollection, UnknownFailure}"

definition exit_code :: "string \<Rightarrow> int option" where
  "exit_code output =
     Option.bind (find_map (\<lambda>line. strip_prefix (trim line) ''SW_TEST_EXIT_CODE='') (str_lines output))
       (\<lambda>value. parse_i32 (trim value))"

definition command_line :: "string \<Rightarrow> string option" where
  "command_line output = find_map (\<lambda>line. strip_prefix line ''SW_TEST_COMMAND='') (str_lines output)"

definition contains_failure_signal :: "string \<Rightarrow> bool" where
  "contains_failure_signal output \<longleftrightarrow>
     contains_any output [''FAILED'', ''FAIL:'', ''ERROR:'', ''Traceback'', ''AssertionError'', CHR 0x0A # ''E   '', ''assert '']"

definition contains_case_insensitive :: "string \<Rightarrow> string \<Rightarrow> bool" where
  "contains_case_insensitive output needle \<longleftrightarrow> str_contains (to_ascii_lowercase output) (to_ascii_lowercase needle)"

definition classify_output :: "string \<Rightarrow> repair_signal_kind" where
  "classify_output output =
     (if contains_any output [''SW_TEST_ENV_UNAVAILABLE=1'', ''test runner unavailable'', ''environment unavailable''] then EnvUnavailable
      else if contains_any output [''SW_TEST_TIMED_OUT=1'', ''signal: timed out'', ''timed out''] then Timeout
      else if exit_code output = Some 5 \<or> contains_case_insensitive output ''no tests collected''
           \<or> contains_case_insensitive output ''no tests ran'' \<or> contains_any output [''collected 0 items'', ''Ran 0 tests''] then InvalidScope
      else if exit_code output = Some 4 \<or> contains_any output [''ERROR collecting'', ''errors during collection'',
           ''ImportError while loading conftest'', ''ModuleNotFoundError'', ''ImportError:'', ''SyntaxError'', ''IndentationError'', ''TabError'']
      then SyntaxOrCollection
      else if exit_code output = Some 0 \<and> \<not> contains_failure_signal output then Passed
      else if is_some_and (\<lambda>code. code \<noteq> 0) (exit_code output) then
        (if contains_failure_signal output then AssertionFailure else UnknownFailure)
      else if contains_failure_signal output then AssertionFailure
      else UnknownFailure)"

section \<open>Paths that count as source\<close>

fun trim_char_start :: "char \<Rightarrow> string \<Rightarrow> string" where
  "trim_char_start c [] = []"
| "trim_char_start c (d # ds) = (if d = c then trim_char_start c ds else d # ds)"

definition trim_char :: "char \<Rightarrow> string \<Rightarrow> string" where
  "trim_char c s = rev (trim_char_start c (rev (trim_char_start c s)))"

definition normalize_path :: "string \<Rightarrow> string" where
  "normalize_path path =
     slashes (trim_start_matches ''b/'' (trim_start_matches ''a/'' (trim_char (CHR 0x27) (trim_char (CHR 0x22) (trim path)))))"

definition is_test_path :: "string \<Rightarrow> bool" where
  "is_test_path path =
     (let normalized = normalize_path path
      in str_contains normalized ''/tests/'' \<or> starts_with normalized ''tests/'' \<or> ends_with normalized ''_test.py''
         \<or> ends_with normalized ''_tests.py'' \<or> starts_with normalized ''test_'' \<or> str_contains normalized ''/test_'')"

definition is_generated_or_build_path :: "string \<Rightarrow> bool" where
  "is_generated_or_build_path path \<longleftrightarrow>
     starts_any path [''.eggs/'', ''.mypy_cache/'', ''.pytest_cache/'', ''.tox/'', ''.venv/'', ''__pycache__/'', ''build/'', ''dist/'',
       ''node_modules/'', ''site-packages/'', ''target/'', ''venv/'']
     \<or> contains_any path [''/__pycache__/'', ''/build/'', ''/dist/'', ''/node_modules/'', ''/site-packages/'']
     \<or> ends_with path ''.egg-info'' \<or> str_contains path ''.egg-info/''"

definition is_authoritative_source_path :: "string \<Rightarrow> bool" where
  "is_authoritative_source_path path =
     (let normalized = normalize_path path
      in normalized \<noteq> [] \<and> \<not> is_generated_or_build_path normalized \<and> \<not> is_test_path normalized)"

definition patch_has_authoritative_source :: "string list \<Rightarrow> nat \<Rightarrow> bool" where
  "patch_has_authoritative_source changed_files changed_lines \<longleftrightarrow>
     changed_lines > 0 \<and> changed_files \<noteq> [] \<and> list_all is_authoritative_source_path changed_files"

definition non_authoritative_patch_paths :: "string list \<Rightarrow> string list" where
  "non_authoritative_patch_paths changed_files = filter (\<lambda>path. \<not> is_authoritative_source_path path) changed_files"

section \<open>Fingerprints and references\<close>

definition specific_marks :: "string list" where
  "specific_marks = [''assertionerror'', ''syntaxerror'', ''indentationerror'', ''taberror'', ''modulenotfounderror'', ''importerror'',
     ''nameerror'', ''typeerror'', ''valueerror'', ''indexerror'', ''keyerror'', ''attributeerror'', ''runtimeerror'']"

definition summary_marks :: "string list" where
  "summary_marks = [''FAILED '', ''ERROR '', ''FAIL: '', ''ERROR: '', ''E '']"

definition push_new :: "'a \<Rightarrow> 'a list \<Rightarrow> 'a list" where
  "push_new x xs = (if x \<in> set xs then xs else xs @ [x])"

definition note_failure_line :: "string \<Rightarrow> string list \<times> string list \<Rightarrow> string list \<times> string list" where
  "note_failure_line raw acc =
     (let line = trim raw;
          is_specific = contains_any (to_ascii_lowercase line) specific_marks;
          compact = join '' '' (split_whitespace line)
      in case acc of (specific, summaries) \<Rightarrow>
           if line = [] \<or> \<not> (is_specific \<or> starts_any line summary_marks) then (specific, summaries)
           else if is_specific then (push_new compact specific, summaries)
           else (specific, push_new compact summaries))"

definition failure_fingerprint :: "string \<Rightarrow> string" where
  "failure_fingerprint output =
     (case fold note_failure_line (str_lines output) ([], []) of
        (specific, summaries) \<Rightarrow> join [CHR 0x0A] (take 16 (specific @ summaries)))"

definition normalize_repo_path :: "string \<Rightarrow> string" where
  "normalize_repo_path path = trim_start_matches ''./'' (slashes (trim path))"

text \<open>\<open>Path::file_name\<close>: trailing separators and \<open>.\<close> components are skipped, \<open>..\<close> names no file.\<close>

definition path_components :: "string \<Rightarrow> string list" where
  "path_components path = filter (\<lambda>w. w \<noteq> [] \<and> w \<noteq> ''.'') (split_on (\<lambda>c. c = CHR ''/'') path)"

definition file_name :: "string \<Rightarrow> string option" where
  "file_name path =
     (let cs = path_components path in if cs = [] \<or> last cs = ''..'' then None else Some (last cs))"

definition changed_source_reference_tokens :: "string \<Rightarrow> string list" where
  "changed_source_reference_tokens path =
     (let normalized = normalize_repo_path path;
          parts = split_on (\<lambda>c. c = CHR ''/'') normalized
      in if normalized = [] then []
         else sort (remdups
           ([normalized]
            @ (case strip_suffix normalized ''.py'' of
                 None \<Rightarrow> []
               | Some m \<Rightarrow> [map (\<lambda>c. if c = CHR ''/'' then CHR ''.'' else c) m])
            @ concat (map (\<lambda>width. if length parts \<ge> width then [join ''/'' (drop (length parts - width) parts)] else []) [3, 2])
            @ (case file_name normalized of
                 None \<Rightarrow> []
               | Some name \<Rightarrow>
                   if name \<in> set [''__init__.py'', ''base.py'', ''core.py'', ''utils.py'', ''common.py''] then []
                   else [''File '' @ [CHR 0x22] @ name, ''File '' @ [CHR 0x27] @ name, ''/'' @ name]))))"

type_synonym diff_stat = "string \<times> nat \<times> nat"

definition output_references_changed_source :: "string \<Rightarrow> diff_stat list \<Rightarrow> bool" where
  "output_references_changed_source output changed_files =
     (let normalized_output = slashes output;
          lower = to_ascii_lowercase normalized_output
      in list_ex (\<lambda>(path, _, _).
           list_ex (\<lambda>token. str_contains normalized_output token \<or> str_contains lower (to_ascii_lowercase token))
             (changed_source_reference_tokens (normalize_repo_path path))) changed_files)"

definition contains_forbidden_oracle_marker :: "string \<Rightarrow> bool" where
  "contains_forbidden_oracle_marker output \<longleftrightarrow>
     contains_any output [''FAIL_TO_PASS'', ''PASS_TO_PASS'', ''test_patch'', ''hints_text'']"

section \<open>Deltas\<close>

datatype evidence_provenance = TaskReproducer | PublicRegression | Structural | Diagnostic

datatype test_delta = Fixed | Regressed | UnchangedPass | ChangedFail | UnchangedFail | InvalidDelta | UnavailableDelta

fun test_delta_str :: "test_delta \<Rightarrow> string" where
  "test_delta_str Fixed = ''fixed''"
| "test_delta_str Regressed = ''regressed''"
| "test_delta_str UnchangedPass = ''unchanged_pass''"
| "test_delta_str ChangedFail = ''changed_fail''"
| "test_delta_str UnchangedFail = ''unchanged_fail''"
| "test_delta_str InvalidDelta = ''invalid''"
| "test_delta_str UnavailableDelta = ''unavailable''"

definition parse_test_delta :: "string \<Rightarrow> test_delta option" where
  "parse_test_delta value =
     (let v = to_ascii_lowercase (trim value)
      in if v = ''fixed'' then Some Fixed
         else if v = ''regressed'' then Some Regressed
         else if v = ''unchanged_pass'' then Some UnchangedPass
         else if v = ''changed_fail'' then Some ChangedFail
         else if v = ''unchanged_fail'' then Some UnchangedFail
         else if v = ''invalid'' then Some InvalidDelta
         else if v = ''unavailable'' then Some UnavailableDelta
         else None)"

definition delta_for :: "evidence_provenance \<Rightarrow> repair_signal_kind \<Rightarrow> repair_signal_kind \<Rightarrow> test_delta" where
  "delta_for provenance baseline candidate =
     (if candidate \<in> {EnvUnavailable, Timeout} then UnavailableDelta
      else if candidate \<in> {InvalidScope, SyntaxOrCollection} \<and> provenance \<noteq> Structural then InvalidDelta
      else if baseline = Passed then (if candidate = Passed then UnchangedPass else Regressed)
      else if candidate = Passed then
        (case provenance of
           TaskReproducer \<Rightarrow> Fixed | PublicRegression \<Rightarrow> UnchangedPass | Structural \<Rightarrow> Fixed | Diagnostic \<Rightarrow> UnchangedPass)
      else UnchangedFail)"

definition delta_for_observations ::
  "evidence_provenance \<Rightarrow> repair_signal_kind \<Rightarrow> repair_signal_kind \<Rightarrow> string \<Rightarrow> string \<Rightarrow> test_delta" where
  "delta_for_observations provenance baseline candidate baseline_fingerprint candidate_fingerprint =
     (let broad_delta = delta_for provenance baseline candidate
      in if broad_delta = UnchangedFail \<and> trim baseline_fingerprint \<noteq> [] \<and> trim candidate_fingerprint \<noteq> []
            \<and> trim baseline_fingerprint \<noteq> trim candidate_fingerprint
         then ChangedFail else broad_delta)"

section \<open>The trust of an outcome\<close>

datatype validation_trust_tier =
  TrustedPublicScope | StructuralPatchCheck | FeedbackOnly | ValidationUnavailable | ForbiddenOracle

fun trust_tier_str :: "validation_trust_tier \<Rightarrow> string" where
  "trust_tier_str TrustedPublicScope = ''trusted_public_scope''"
| "trust_tier_str StructuralPatchCheck = ''structural_patch_check''"
| "trust_tier_str FeedbackOnly = ''feedback_only''"
| "trust_tier_str ValidationUnavailable = ''validation_unavailable''"
| "trust_tier_str ForbiddenOracle = ''forbidden_oracle''"

record validation_decision =
  vd_kind :: repair_signal_kind
  vd_trust_tier :: validation_trust_tier
  vd_candidate_blocking :: bool
  vd_reason :: string

definition vd_skip :: "repair_signal_kind \<Rightarrow> string \<Rightarrow> validation_decision" where
  "vd_skip kind reason =
     \<lparr>vd_kind = kind, vd_trust_tier = ValidationUnavailable, vd_candidate_blocking = False, vd_reason = reason\<rparr>"

definition vd_feedback :: "repair_signal_kind \<Rightarrow> string \<Rightarrow> validation_decision" where
  "vd_feedback kind reason =
     \<lparr>vd_kind = kind, vd_trust_tier = FeedbackOnly, vd_candidate_blocking = False, vd_reason = reason\<rparr>"

definition vd_structural :: "repair_signal_kind \<Rightarrow> string \<Rightarrow> validation_decision" where
  "vd_structural kind reason =
     \<lparr>vd_kind = kind, vd_trust_tier = StructuralPatchCheck, vd_candidate_blocking = True, vd_reason = reason\<rparr>"

definition vd_trusted :: "repair_signal_kind \<Rightarrow> string \<Rightarrow> validation_decision" where
  "vd_trusted kind reason =
     \<lparr>vd_kind = kind, vd_trust_tier = TrustedPublicScope, vd_candidate_blocking = is_candidate_blocking kind, vd_reason = reason\<rparr>"

lemmas vd_defs = vd_skip_def vd_feedback_def vd_structural_def vd_trusted_def

datatype baseline_scope_relation = UnknownRelation | RegressionRelation | TaskRelated | UnrelatedFailure

record baseline_scope_outcome =
  bo_files :: "string list"
  bo_kind :: string
  bo_fingerprint :: string
  bo_relation :: baseline_scope_relation
  bo_elapsed_ms :: u64

definition forbidden_decision :: "repair_signal_kind \<Rightarrow> validation_decision" where
  "forbidden_decision kind =
     \<lparr>vd_kind = kind, vd_trust_tier = ForbiddenOracle, vd_candidate_blocking = False,
      vd_reason = ''validation output referenced forbidden SWE-bench oracle data''\<rparr>"

definition classify_repair_scope ::
  "repair_signal_kind \<Rightarrow> string \<Rightarrow> diff_stat list \<Rightarrow> string list \<Rightarrow> bool \<Rightarrow> validation_decision" where
  "classify_repair_scope kind output changed_files attempted_files baseline_runnable =
     (if contains_forbidden_oracle_marker output then forbidden_decision kind
      else case kind of
        EnvUnavailable \<Rightarrow> vd_skip kind ''test environment unavailable''
      | InvalidScope \<Rightarrow> vd_skip kind ''scope did not run tests''
      | Timeout \<Rightarrow> vd_skip kind ''scope validation timed out''
      | Passed \<Rightarrow>
          if baseline_runnable then vd_trusted kind ''baseline-runnable public scope passed''
          else vd_feedback kind ''unproven scoped pass is feedback only''
      | SyntaxOrCollection \<Rightarrow>
          if output_references_changed_source output changed_files
          then vd_structural kind ''collection/syntax failure references changed source''
          else vd_skip kind ''collection/setup failure did not reach changed source''
      | UnknownFailure \<Rightarrow>
          if length attempted_files > 1 then vd_feedback kind ''grouped scope failure is not trusted without singleton baseline proof''
          else if baseline_runnable then vd_feedback kind ''scope is runnable but its baseline outcome is unknown''
          else vd_feedback kind ''unproven public scope failed without baseline proof''
      | AssertionFailure \<Rightarrow>
          if length attempted_files > 1 \<and> \<not> baseline_runnable
          then vd_feedback kind ''grouped assertion failure is feedback only without baseline proof''
          else if baseline_runnable then vd_feedback kind ''scope is runnable but its baseline outcome is unknown''
          else vd_feedback kind ''assertion failure is feedback only until the scope is baseline-proven'')"

definition classify_failure ::
  "repair_signal_kind \<Rightarrow> string \<Rightarrow> diff_stat list \<Rightarrow> string list \<Rightarrow> baseline_scope_outcome option \<Rightarrow> validation_decision" where
  "classify_failure kind output changed_files attempted_files baseline =
     (case baseline of
        None \<Rightarrow> classify_repair_scope kind output changed_files attempted_files False
      | Some b \<Rightarrow>
          if bo_kind b = signal_kind_str Passed then vd_trusted kind ''candidate regressed a baseline-passing public scope''
          else if bo_relation b = TaskRelated then
            (if output_references_changed_source output changed_files
             then vd_structural kind ''task-related baseline scope still fails and references changed source''
             else vd_trusted kind ''task-related baseline scope still fails'')
          else if bo_fingerprint b \<noteq> [] \<and> bo_fingerprint b = failure_fingerprint output
          then vd_feedback kind ''candidate reproduced a recorded non-issue baseline failure''
          else if output_references_changed_source output changed_files
          then vd_structural kind ''candidate failure differs from baseline and references changed source''
          else vd_feedback kind ''candidate failure differs from baseline but is not tied to changed source'')"

definition classify_candidate_scope_against_baseline ::
  "repair_signal_kind \<Rightarrow> string \<Rightarrow> diff_stat list \<Rightarrow> string list \<Rightarrow> baseline_scope_outcome option \<Rightarrow> validation_decision" where
  "classify_candidate_scope_against_baseline kind output changed_files attempted_files baseline =
     (if contains_forbidden_oracle_marker output then forbidden_decision kind
      else if kind = SyntaxOrCollection
           \<and> is_some_and (\<lambda>b. bo_fingerprint b \<noteq> [] \<and> bo_fingerprint b = failure_fingerprint output) baseline then
        (if is_some_and (\<lambda>b. bo_relation b = TaskRelated) baseline
         then vd_trusted kind ''task-related baseline collection/syntax failure is unchanged''
         else vd_feedback kind ''candidate reproduced the baseline collection/setup failure'')
      else if kind = SyntaxOrCollection \<and> output_references_changed_source output changed_files then
        vd_structural kind ''collection/syntax failure references changed source and differs from baseline''
      else case kind of
        EnvUnavailable \<Rightarrow> vd_skip kind ''test environment unavailable''
      | InvalidScope \<Rightarrow> vd_skip kind ''scope did not run tests''
      | Timeout \<Rightarrow> vd_skip kind ''scope validation timed out''
      | Passed \<Rightarrow>
          (case baseline of
             Some b \<Rightarrow>
               if bo_kind b = signal_kind_str Passed then vd_trusted kind ''baseline-passing public scope still passes''
               else if bo_relation b = TaskRelated
               then vd_trusted kind ''task-related public scope improved relative to its recorded baseline failure''
               else vd_feedback kind ''non-issue baseline failure disappeared; this is not repair proof''
           | None \<Rightarrow> vd_feedback kind ''public scope passed without a recorded baseline outcome'')
      | _ \<Rightarrow> classify_failure kind output changed_files attempted_files baseline)"

record baseline_qualification =
  bq_relation :: baseline_scope_relation
  bq_reason :: string

definition qualify_source_mapped_public_scope :: "repair_signal_kind \<Rightarrow> baseline_qualification" where
  "qualify_source_mapped_public_scope kind =
     (case kind of
        Passed \<Rightarrow> \<lparr>bq_relation = RegressionRelation, bq_reason = ''source-mapped public scope passed on the unmodified baseline''\<rparr>
      | AssertionFailure \<Rightarrow> \<lparr>bq_relation = UnrelatedFailure, bq_reason = ''source-mapped public scope already failed on the unmodified baseline; only a separately identified task-derived reproducer can establish issue causality''\<rparr>
      | UnknownFailure \<Rightarrow> \<lparr>bq_relation = UnrelatedFailure, bq_reason = ''source-mapped public scope already failed on the unmodified baseline; only a separately identified task-derived reproducer can establish issue causality''\<rparr>
      | _ \<Rightarrow> \<lparr>bq_relation = UnknownRelation, bq_reason = signal_kind_str kind @ '' is not a runnable public baseline outcome''\<rparr>)"

section \<open>The ledger of baselines\<close>

record solver_validation_manifest =
  sm_baseline_runnable_scopes :: "string list"
  sm_baseline_scope_outcomes :: "baseline_scope_outcome list"
  sm_public_test_files :: "string list"
  sm_protected_setup_artifacts :: "string list"

record oracle_serde =
  os_manifest :: "json \<Rightarrow> solver_validation_manifest option"
  os_outcome :: "json \<Rightarrow> baseline_scope_outcome option"
  os_outcome_value :: "baseline_scope_outcome \<Rightarrow> json option"
  os_outcomes :: "string \<Rightarrow> baseline_scope_outcome list option"
  os_outcomes_text :: "baseline_scope_outcome list \<Rightarrow> string option"

record oracle_world =
  ow_env :: "string \<rightharpoonup> string"
  ow_files :: "string \<rightharpoonup> json"
  ow_writable :: "string \<Rightarrow> bool"

definition runnable_var :: string where
  "runnable_var = ''SW_BASELINE_RUNNABLE_SCOPES_INLINE''"

definition outcomes_var :: string where
  "outcomes_var = ''SW_BASELINE_SCOPE_OUTCOMES_INLINE''"

definition set_env :: "string \<Rightarrow> string \<Rightarrow> oracle_world \<Rightarrow> oracle_world" where
  "set_env k v w = w\<lparr>ow_env := (ow_env w)(k \<mapsto> v)\<rparr>"

definition manifest_path_from_env :: "oracle_world \<Rightarrow> string option" where
  "manifest_path_from_env w =
     (case or_else (ow_env w ''SW_VALIDATION_MANIFEST'') (ow_env w ''SW_SOLVER_VALIDATION_MANIFEST'') of
        None \<Rightarrow> None
      | Some value \<Rightarrow> if trim value \<noteq> [] then Some value else None)"

definition load_manifest :: "oracle_serde \<Rightarrow> oracle_world \<Rightarrow> solver_validation_manifest option" where
  "load_manifest sd w = Option.bind (Option.bind (manifest_path_from_env w) (ow_files w)) (os_manifest sd)"

definition manifest_list :: "(solver_validation_manifest \<Rightarrow> 'a list) \<Rightarrow> oracle_serde \<Rightarrow> oracle_world \<Rightarrow> 'a list" where
  "manifest_list field sd w = (case load_manifest sd w of None \<Rightarrow> [] | Some m \<Rightarrow> field m)"

definition repo_paths :: "string list \<Rightarrow> string list" where
  "repo_paths files = filter (\<lambda>path. path \<noteq> []) (map normalize_repo_path files)"

definition normalized_scope_files :: "string list \<Rightarrow> string list" where
  "normalized_scope_files files = sort (remdups (repo_paths files))"

definition protected_setup_artifacts :: "oracle_serde \<Rightarrow> oracle_world \<Rightarrow> string list" where
  "protected_setup_artifacts sd w = sort (remdups (repo_paths (manifest_list sm_protected_setup_artifacts sd w)))"

definition public_test_files :: "oracle_serde \<Rightarrow> oracle_world \<Rightarrow> string list" where
  "public_test_files sd w = sort (remdups (repo_paths (manifest_list sm_public_test_files sd w)))"

definition inline_baseline_runnable_scopes :: "oracle_world \<Rightarrow> string list" where
  "inline_baseline_runnable_scopes w =
     remdups (repo_paths (split_on (\<lambda>c. c = CHR '':'') (unwrap_or [] (ow_env w runnable_var))))"

definition inline_baseline_scope_outcomes :: "oracle_serde \<Rightarrow> oracle_world \<Rightarrow> baseline_scope_outcome list" where
  "inline_baseline_scope_outcomes sd w = unwrap_or [] (Option.bind (ow_env w outcomes_var) (os_outcomes sd))"

definition baseline_runnable_scopes :: "oracle_serde \<Rightarrow> oracle_world \<Rightarrow> string list" where
  "baseline_runnable_scopes sd w =
     sort (remdups (repo_paths (manifest_list sm_baseline_runnable_scopes sd w) @ inline_baseline_runnable_scopes w))"

definition baseline_scope_outcome_of :: "oracle_serde \<Rightarrow> string list \<Rightarrow> oracle_world \<Rightarrow> baseline_scope_outcome option" where
  "baseline_scope_outcome_of sd files w =
     (let normalized = normalized_scope_files files
      in if normalized = [] then None
         else find (\<lambda>outcome. normalized_scope_files (bo_files outcome) = normalized)
           (rev (manifest_list sm_baseline_scope_outcomes sd w @ inline_baseline_scope_outcomes sd w)))"

definition baseline_scope_elapsed_ms :: "oracle_serde \<Rightarrow> string list \<Rightarrow> oracle_world \<Rightarrow> u64 option" where
  "baseline_scope_elapsed_ms sd files w =
     (case baseline_scope_outcome_of sd files w of
        None \<Rightarrow> None
      | Some outcome \<Rightarrow> if bo_elapsed_ms outcome > 0 then Some (bo_elapsed_ms outcome) else None)"

definition scope_baseline_runnable :: "oracle_serde \<Rightarrow> string list \<Rightarrow> oracle_world \<Rightarrow> bool" where
  "scope_baseline_runnable sd files w \<longleftrightarrow>
     files \<noteq> [] \<and> list_all (\<lambda>path. normalize_repo_path path \<in> set (baseline_runnable_scopes sd w)) files"

definition record_inline_baseline_runnable_scopes :: "string list \<Rightarrow> oracle_world \<Rightarrow> oracle_world" where
  "record_inline_baseline_runnable_scopes files w =
     set_env runnable_var (join '':'' (sort (remdups (inline_baseline_runnable_scopes w @ repo_paths files)))) w"

definition record_inline_baseline_scope_outcome :: "oracle_serde \<Rightarrow> baseline_scope_outcome \<Rightarrow> oracle_world \<Rightarrow> oracle_world" where
  "record_inline_baseline_scope_outcome sd outcome w =
     (let outcomes = filter (\<lambda>existing. normalized_scope_files (bo_files existing) \<noteq> normalized_scope_files (bo_files outcome))
            (inline_baseline_scope_outcomes sd w) @ [outcome]
      in case os_outcomes_text sd outcomes of None \<Rightarrow> w | Some serialized \<Rightarrow> set_env outcomes_var serialized w)"

text \<open>The manifest is read, changed at one array and written back; what is not an object is left alone.\<close>

definition rewrite_manifest :: "string \<Rightarrow> (json list \<Rightarrow> json list) \<Rightarrow> oracle_world \<Rightarrow> oracle_world" where
  "rewrite_manifest key change w =
     (case manifest_path_from_env w of
        None \<Rightarrow> w
      | Some path \<Rightarrow>
          (let value = unwrap_or (JObject []) (ow_files w path)
           in if \<not> is_object value then w
              else let entries = unwrap_or [] (Option.bind (jget value key) as_array)
                   in if ow_writable w path
                      then w\<lparr>ow_files := (ow_files w)(path \<mapsto> jset value key (JArray (change entries)))\<rparr> else w))"

definition add_scope :: "string \<Rightarrow> json list \<Rightarrow> json list" where
  "add_scope scope scopes =
     (if list_ex (\<lambda>existing. is_some_and (\<lambda>e. normalize_repo_path e = scope) (as_str existing)) scopes then scopes
      else scopes @ [JString scope])"

definition record_baseline_runnable_scope :: "string list \<Rightarrow> oracle_world \<Rightarrow> oracle_world" where
  "record_baseline_runnable_scope files w =
     (let normalized = repo_paths files
      in if normalized = [] then w
         else rewrite_manifest ''baseline_runnable_scopes'' (fold add_scope normalized)
                (record_inline_baseline_runnable_scopes normalized w))"

definition replace_outcome :: "oracle_serde \<Rightarrow> baseline_scope_outcome \<Rightarrow> string list \<Rightarrow> json list \<Rightarrow> json list" where
  "replace_outcome sd outcome normalized outcomes =
     (let kept = filter (\<lambda>existing. is_some_and (\<lambda>e. normalized_scope_files (bo_files e) \<noteq> normalized) (os_outcome sd existing)) outcomes
      in case os_outcome_value sd outcome of None \<Rightarrow> kept | Some serialized \<Rightarrow> kept @ [serialized])"

definition record_baseline_scope_outcome_timed ::
  "oracle_serde \<Rightarrow> string list \<Rightarrow> repair_signal_kind \<Rightarrow> string \<Rightarrow> baseline_scope_relation \<Rightarrow> nat \<Rightarrow> oracle_world \<Rightarrow> oracle_world" where
  "record_baseline_scope_outcome_timed sd files kind output relation elapsed_ms w =
     (let normalized = normalized_scope_files files;
          outcome = \<lparr>bo_files = normalized, bo_kind = signal_kind_str kind, bo_fingerprint = failure_fingerprint output,
                     bo_relation = relation, bo_elapsed_ms = word_of_int (min (int elapsed_ms) (2 ^ 64 - 1))\<rparr>;
          w1 = (if kind \<in> {Passed, AssertionFailure, UnknownFailure} then record_baseline_runnable_scope normalized w else w)
      in if normalized = [] then w
         else rewrite_manifest ''baseline_scope_outcomes'' (replace_outcome sd outcome normalized)
                (record_inline_baseline_scope_outcome sd outcome w1))"

definition record_baseline_scope_outcome ::
  "oracle_serde \<Rightarrow> string list \<Rightarrow> repair_signal_kind \<Rightarrow> string \<Rightarrow> baseline_scope_relation \<Rightarrow> oracle_world \<Rightarrow> oracle_world" where
  "record_baseline_scope_outcome sd files kind output relation w =
     record_baseline_scope_outcome_timed sd files kind output relation 0 w"

definition is_common_setup_artifact :: "string \<Rightarrow> bool" where
  "is_common_setup_artifact path =
     (case file_name path of
        None \<Rightarrow> False
      | Some name \<Rightarrow>
          list_ex (ends_with name) [''.so'', ''.pyd'', ''.dll'', ''.dylib'', ''.egg-info'']
          \<or> str_contains path ''.egg-info/'' \<or> starts_with path ''build/'' \<or> str_contains path ''/build/'')"

definition is_protected_setup_artifact :: "oracle_serde \<Rightarrow> string \<Rightarrow> oracle_world \<Rightarrow> bool" where
  "is_protected_setup_artifact sd path w =
     (let normalized = normalize_repo_path path
      in normalized \<noteq> [] \<and>
         (list_ex (\<lambda>entry. normalized = entry \<or> starts_with normalized (entry @ ''/''))
            (map normalize_repo_path (manifest_list sm_protected_setup_artifacts sd w))
          \<or> is_common_setup_artifact normalized))"

definition classify_candidate_scope ::
  "oracle_serde \<Rightarrow> repair_signal_kind \<Rightarrow> string \<Rightarrow> diff_stat list \<Rightarrow> string list \<Rightarrow> oracle_world \<Rightarrow> validation_decision" where
  "classify_candidate_scope sd kind output changed_files attempted_files w =
     classify_candidate_scope_against_baseline kind output changed_files attempted_files (baseline_scope_outcome_of sd attempted_files w)"

section \<open>The ledger keeps what was recorded\<close>

lemma trim_start_matches_step: "p \<noteq> [] \<Longrightarrow> \<not> starts_with (trim_start_matches p s) p"
  by (induction p s rule: trim_start_matches.induct) (metis trim_start_matches.simps)

lemma trim_start_matches_sub: "\<exists>a. s = a @ trim_start_matches p s"
proof (induction p s rule: trim_start_matches.induct)
  case (1 p s)
  show ?case
  proof (cases "p \<noteq> [] \<and> starts_with s p")
    case True
    then obtain t where t: "s = p @ t" by (auto simp: starts_with_iff)
    from 1 [OF True] obtain a where "drop (length p) s = a @ trim_start_matches p (drop (length p) s)" by blast
    with True t have "s = (p @ a) @ trim_start_matches p s" by (subst trim_start_matches.simps) simp
    then show ?thesis by blast
  next
    case False
    then have "trim_start_matches p s = s" by (subst trim_start_matches.simps) auto
    then show ?thesis by simp
  qed
qed

lemma trim_start_matches_stop: "\<not> starts_with s p \<Longrightarrow> trim_start_matches p s = s"
  by (subst trim_start_matches.simps) simp

lemma trim_solid: "\<forall>c \<in> set s. \<not> is_whitespace c \<Longrightarrow> trim s = s"
proof -
  assume s: "\<forall>c \<in> set s. \<not> is_whitespace c"
  then have "dropWhile is_whitespace s = s" by (cases s) auto
  moreover have "dropWhile is_whitespace (rev s) = rev s" using s by (cases "rev s") (auto dest: arg_cong [of _ _ set])
  ultimately show ?thesis by (simp add: trim_def trim_start_def trim_end_def)
qed

definition solid :: "string \<Rightarrow> bool" where
  "solid s \<longleftrightarrow> list_all (\<lambda>c. \<not> is_whitespace c) s"

lemma normalize_solid: "solid p \<Longrightarrow> solid (normalize_repo_path p)"
proof -
  assume p: "solid p"
  have "\<not> is_whitespace (CHR ''/'')" by (simp add: is_whitespace_def char_code_def)
  with p have s: "solid (slashes (trim p))" by (auto simp: solid_def list_all_iff slashes_def trim_solid)
  obtain a where "slashes (trim p) = a @ normalize_repo_path p"
    using trim_start_matches_sub [of "slashes (trim p)" "''./''"] by (auto simp: normalize_repo_path_def)
  with s show ?thesis by (metis list_all_append solid_def)
qed

lemma normalize_idem:
  assumes "solid p"
  shows "normalize_repo_path (normalize_repo_path p) = normalize_repo_path p"
proof -
  let ?n = "normalize_repo_path p"
  obtain a where a: "slashes (trim p) = a @ ?n"
    using trim_start_matches_sub [of "slashes (trim p)" "''./''"] by (auto simp: normalize_repo_path_def)
  have "CHR 0x5C \<notin> set (slashes (trim p))" by (auto simp: slashes_def)
  with a have "CHR 0x5C \<notin> set ?n" by (metis Un_iff set_append)
  then have "slashes ?n = ?n" by (auto simp: slashes_def intro: map_idI)
  moreover have "trim ?n = ?n" using normalize_solid [OF assms] by (auto simp: solid_def list_all_iff intro: trim_solid)
  moreover have "\<not> starts_with ?n ''./''" unfolding normalize_repo_path_def by (rule trim_start_matches_step) simp
  ultimately show ?thesis by (simp add: normalize_repo_path_def trim_start_matches_stop)
qed

lemma repo_paths_idem: "list_all solid files \<Longrightarrow> repo_paths (repo_paths files) = repo_paths files"
  by (induction files) (auto simp: repo_paths_def normalize_idem)

lemma repo_paths_map: "\<forall>p \<in> set ps. p \<noteq> [] \<and> normalize_repo_path p = p \<Longrightarrow> repo_paths ps = ps"
  by (induction ps) (auto simp: repo_paths_def)

lemma normalized_idem:
  assumes "list_all solid files"
  shows "normalized_scope_files (normalized_scope_files files) = normalized_scope_files files"
proof -
  have "p \<noteq> [] \<and> normalize_repo_path p = p" if "p \<in> set (normalized_scope_files files)" for p
    using that assms by (auto simp: normalized_scope_files_def repo_paths_def list_all_iff normalize_idem)
  then have "repo_paths (normalized_scope_files files) = normalized_scope_files files" by (intro repo_paths_map) blast
  moreover have "remdups (normalized_scope_files files) = normalized_scope_files files"
    by (simp add: normalized_scope_files_def distinct_remdups_id)
  moreover have "sort (normalized_scope_files files) = normalized_scope_files files"
    by (simp add: normalized_scope_files_def sorted_sort_id)
  ultimately show ?thesis by (metis normalized_scope_files_def)
qed

lemma var_names [simp]:
  "runnable_var \<noteq> outcomes_var" "outcomes_var \<noteq> runnable_var"
  "''SW_VALIDATION_MANIFEST'' \<noteq> runnable_var" "''SW_VALIDATION_MANIFEST'' \<noteq> outcomes_var"
  "''SW_SOLVER_VALIDATION_MANIFEST'' \<noteq> runnable_var" "''SW_SOLVER_VALIDATION_MANIFEST'' \<noteq> outcomes_var"
  by (simp_all add: runnable_var_def outcomes_var_def)

lemma set_env_apply [simp]:
  "ow_env (set_env k v w) k' = (if k' = k then Some v else ow_env w k')" "ow_files (set_env k v w) = ow_files w"
  by (simp_all add: set_env_def)

lemma rewrite_manifest_env [simp]: "ow_env (rewrite_manifest key change w) = ow_env w"
  by (auto simp: rewrite_manifest_def Let_def split: option.splits)

lemma runnable_keeps_outcomes: "ow_env (record_baseline_runnable_scope files w) outcomes_var = ow_env w outcomes_var"
  by (simp add: record_baseline_runnable_scope_def record_inline_baseline_runnable_scopes_def Let_def)

lemma inline_outcomes_cong: "ow_env w outcomes_var = ow_env w' outcomes_var \<Longrightarrow> inline_baseline_scope_outcomes sd w = inline_baseline_scope_outcomes sd w'"
  by (simp add: inline_baseline_scope_outcomes_def)

definition timed_outcome :: "string list \<Rightarrow> repair_signal_kind \<Rightarrow> string \<Rightarrow> baseline_scope_relation \<Rightarrow> nat \<Rightarrow> baseline_scope_outcome" where
  "timed_outcome files kind output relation elapsed_ms =
     \<lparr>bo_files = normalized_scope_files files, bo_kind = signal_kind_str kind, bo_fingerprint = failure_fingerprint output,
      bo_relation = relation, bo_elapsed_ms = word_of_int (min (int elapsed_ms) (2 ^ 64 - 1))\<rparr>"

definition ledger_with :: "oracle_serde \<Rightarrow> string list \<Rightarrow> baseline_scope_outcome \<Rightarrow> oracle_world \<Rightarrow> baseline_scope_outcome list" where
  "ledger_with sd files out w =
     filter (\<lambda>e. normalized_scope_files (bo_files e) \<noteq> normalized_scope_files files) (inline_baseline_scope_outcomes sd w) @ [out]"

definition reads_back :: "oracle_serde \<Rightarrow> baseline_scope_outcome list \<Rightarrow> bool" where
  "reads_back sd xs \<longleftrightarrow> Option.bind (os_outcomes_text sd xs) (os_outcomes sd) = Some xs"

lemma record_inline_read:
  assumes "reads_back sd (ledger_with sd (bo_files out) out w)"
  shows "inline_baseline_scope_outcomes sd (record_inline_baseline_scope_outcome sd out w) = ledger_with sd (bo_files out) out w"
proof -
  let ?xs = "ledger_with sd (bo_files out) out w"
  obtain text0 where t: "os_outcomes_text sd ?xs = Some text0" "os_outcomes sd text0 = Some ?xs"
    using assms by (meson bind_eq_Some_conv reads_back_def)
  then have "record_inline_baseline_scope_outcome sd out w = set_env outcomes_var text0 w"
    by (simp add: record_inline_baseline_scope_outcome_def ledger_with_def)
  then show ?thesis using t(2) by (simp add: inline_baseline_scope_outcomes_def unwrap_or_def)
qed

lemma record_timed_inline:
  assumes "normalized_scope_files files \<noteq> []"
  shows "ow_env (record_baseline_scope_outcome_timed sd files kind output relation ms w) =
    ow_env (record_inline_baseline_scope_outcome sd (timed_outcome files kind output relation ms)
      (if kind \<in> {Passed, AssertionFailure, UnknownFailure} then record_baseline_runnable_scope (normalized_scope_files files) w else w))"
  using assms by (simp only: record_baseline_scope_outcome_timed_def Let_def timed_outcome_def if_False rewrite_manifest_env)

lemma inline_after_record:
  assumes law: "reads_back sd (ledger_with sd files (timed_outcome files kind output relation ms) w)"
    and ne: "normalized_scope_files files \<noteq> []" and solid: "list_all solid files"
  shows "inline_baseline_scope_outcomes sd (record_baseline_scope_outcome_timed sd files kind output relation ms w) =
    ledger_with sd files (timed_outcome files kind output relation ms) w"
proof -
  let ?o = "timed_outcome files kind output relation ms"
  let ?w1 = "if kind \<in> {Passed, AssertionFailure, UnknownFailure} then record_baseline_runnable_scope (normalized_scope_files files) w else w"
  have "inline_baseline_scope_outcomes sd ?w1 = inline_baseline_scope_outcomes sd w"
    by (rule inline_outcomes_cong) (simp add: runnable_keeps_outcomes)
  then have same: "ledger_with sd (bo_files ?o) ?o ?w1 = ledger_with sd files ?o w"
    using normalized_idem [OF solid] by (simp add: ledger_with_def timed_outcome_def)
  have "inline_baseline_scope_outcomes sd (record_baseline_scope_outcome_timed sd files kind output relation ms w) =
      inline_baseline_scope_outcomes sd (record_inline_baseline_scope_outcome sd ?o ?w1)"
    by (rule inline_outcomes_cong) (simp only: record_timed_inline [OF ne])
  also have "\<dots> = ledger_with sd (bo_files ?o) ?o ?w1" by (rule record_inline_read) (simp only: same law)
  finally show ?thesis by (simp only: same)
qed

lemma record_keeps_manifest_path:
  "manifest_path_from_env (record_baseline_scope_outcome_timed sd files kind output relation ms w) = manifest_path_from_env w"
proof -
  have "ow_env (record_baseline_runnable_scope fs w) k = ow_env w k" if "k \<noteq> runnable_var" for fs w k
    using that by (simp add: record_baseline_runnable_scope_def record_inline_baseline_runnable_scopes_def Let_def)
  moreover have "ow_env (record_inline_baseline_scope_outcome sd out w) k = ow_env w k" if "k \<noteq> outcomes_var" for out w k
    using that by (auto simp: record_inline_baseline_scope_outcome_def Let_def split: option.splits)
  moreover have "record_baseline_scope_outcome_timed sd files kind output relation ms w = w" if "normalized_scope_files files = []"
    using that by (simp add: record_baseline_scope_outcome_timed_def Let_def)
  ultimately have "ow_env (record_baseline_scope_outcome_timed sd files kind output relation ms w) k = ow_env w k"
    if "k \<noteq> runnable_var" "k \<noteq> outcomes_var" for k
    using that by (cases "normalized_scope_files files = []") (simp_all add: record_timed_inline)
  then show ?thesis by (simp add: manifest_path_from_env_def)
qed

lemma find_rev_filter:
  assumes "\<And>x. P x \<Longrightarrow> Q x"
  shows "find P (rev (filter Q xs)) = find P (rev xs)"
proof -
  have "find P (filter Q ys) = find P ys" for ys using assms by (induction ys) auto
  then show ?thesis by (simp add: rev_filter)
qed

lemma find_append: "find P (xs @ ys) = (case find P xs of Some e \<Rightarrow> Some e | None \<Rightarrow> find P ys)"
  by (induction xs) auto

lemma normalized_lookup:
  "baseline_scope_outcome_of sd files w =
     (if normalized_scope_files files = [] then None
      else case find (\<lambda>e. normalized_scope_files (bo_files e) = normalized_scope_files files) (rev (inline_baseline_scope_outcomes sd w)) of
        Some e \<Rightarrow> Some e
      | None \<Rightarrow> find (\<lambda>e. normalized_scope_files (bo_files e) = normalized_scope_files files)
          (rev (manifest_list sm_baseline_scope_outcomes sd w)))"
  by (simp add: baseline_scope_outcome_of_def Let_def find_append)

lemma no_manifest: "manifest_path_from_env w = None \<Longrightarrow> manifest_list field sd w = []"
  by (simp add: manifest_list_def load_manifest_def)

text \<open>
  The ledger of baselines keeps what was recorded. After the outcome of a scope is recorded, the scope, written in any
  order, with repetitions and with other spellings of its paths, finds exactly this outcome, also when a manifest
  or an earlier record says something else; and without a manifest the outcome of every other scope is what it was.
  The serialisation of outcomes reads back what it wrote, and the paths contain no blanks.
\<close>

theorem baseline_ledger:
  assumes "reads_back sd (ledger_with sd files (timed_outcome files kind output relation ms) w)"
    and "normalized_scope_files files \<noteq> []" "list_all solid files"
  shows "(normalized_scope_files same = normalized_scope_files files \<longrightarrow>
      baseline_scope_outcome_of sd same (record_baseline_scope_outcome_timed sd files kind output relation ms w) =
        Some (timed_outcome files kind output relation ms)) \<and>
    (normalized_scope_files other \<noteq> normalized_scope_files files \<and> manifest_path_from_env w = None \<longrightarrow>
      baseline_scope_outcome_of sd other (record_baseline_scope_outcome_timed sd files kind output relation ms w) =
        baseline_scope_outcome_of sd other w)"
proof (intro conjI impI; (elim conjE)?)
  let ?o = "timed_outcome files kind output relation ms"
  have key: "normalized_scope_files (bo_files ?o) = normalized_scope_files files"
    using normalized_idem [OF assms(3)] by (simp add: timed_outcome_def)
  {
    assume "normalized_scope_files same = normalized_scope_files files"
    then show "baseline_scope_outcome_of sd same (record_baseline_scope_outcome_timed sd files kind output relation ms w) = Some ?o"
      using assms(2) inline_after_record [OF assms] key by (simp add: normalized_lookup ledger_with_def)
  next
    assume other: "normalized_scope_files other \<noteq> normalized_scope_files files" and none: "manifest_path_from_env w = None"
    have path: "manifest_path_from_env (record_baseline_scope_outcome_timed sd files kind output relation ms w) = None"
      using none by (simp only: record_keeps_manifest_path)
    have "find (\<lambda>e. normalized_scope_files (bo_files e) = normalized_scope_files other)
        (rev (filter (\<lambda>e. normalized_scope_files (bo_files e) \<noteq> normalized_scope_files files) (inline_baseline_scope_outcomes sd w))) =
        find (\<lambda>e. normalized_scope_files (bo_files e) = normalized_scope_files other) (rev (inline_baseline_scope_outcomes sd w))"
      by (rule find_rev_filter) (use other in auto)
    then show "baseline_scope_outcome_of sd other (record_baseline_scope_outcome_timed sd files kind output relation ms w) =
        baseline_scope_outcome_of sd other w"
      using other key
      by (simp add: normalized_lookup inline_after_record [OF assms] ledger_with_def no_manifest [OF none] no_manifest [OF path] split: option.split)
  }
qed

definition table_serde :: "baseline_scope_outcome list \<Rightarrow> oracle_serde" where
  "table_serde xs =
     \<lparr>os_manifest = \<lambda>_. None, os_outcome = \<lambda>_. None, os_outcome_value = \<lambda>_. None,
      os_outcomes = \<lambda>t. if t = ''table'' then Some xs else None, os_outcomes_text = \<lambda>_. Some ''table''\<rparr>"

definition fresh_world :: oracle_world where
  "fresh_world = \<lparr>ow_env = Map.empty, ow_files = Map.empty, ow_writable = \<lambda>_. True\<rparr>"

theorem baseline_ledger_witness:
  "let out = timed_outcome [''./tests/b.py'', ''tests/a.py''] Passed ''SW_TEST_EXIT_CODE=0'' RegressionRelation 7;
       sd = table_serde [out];
       w = record_baseline_scope_outcome_timed sd [''./tests/b.py'', ''tests/a.py''] Passed ''SW_TEST_EXIT_CODE=0'' RegressionRelation 7 fresh_world
   in baseline_scope_outcome_of sd [''tests/a.py'', ''tests/b.py'', ''./tests/a.py''] w = Some out \<and>
      baseline_scope_outcome_of sd [''tests/c.py''] w = None"
proof -
  let ?files = "[''./tests/b.py'', ''tests/a.py'']" and ?same = "[''tests/a.py'', ''tests/b.py'', ''./tests/a.py'']"
  let ?out = "timed_outcome ?files Passed ''SW_TEST_EXIT_CODE=0'' RegressionRelation 7"
  have none: "inline_baseline_scope_outcomes (table_serde [?out]) fresh_world = []"
    by (simp add: inline_baseline_scope_outcomes_def fresh_world_def unwrap_or_def)
  then have law: "reads_back (table_serde [?out]) (ledger_with (table_serde [?out]) ?files ?out fresh_world)"
    by (simp add: reads_back_def ledger_with_def table_serde_def)
  have facts: "normalized_scope_files ?files \<noteq> []" "list_all solid ?files"
    "normalized_scope_files ?same = normalized_scope_files ?files" "normalized_scope_files [''tests/c.py''] \<noteq> normalized_scope_files ?files"
    "manifest_path_from_env fresh_world = None"
    by code_simp+
  have "baseline_scope_outcome_of (table_serde [?out]) [''tests/c.py''] fresh_world = None"
    using none facts(5) by (simp add: normalized_lookup no_manifest)
  then show ?thesis
    using baseline_ledger [OF law facts(1,2), of ?same "[''tests/c.py'']"] facts(3-5) by (simp add: Let_def)
qed

end
