(* ===== verification/CausalRepair.thy ===== *)
theory CausalRepair
  imports TestSignals
begin

text \<open>
  The serial repair controller of the command-line agent: the assessment of a candidate against its baseline
  (\<open>crates/cli/src/candidate_validation.rs\<close>, \<open>causal_validation.rs\<close>), the routing policy (\<open>causal_control.rs\<close>)
  and the traced state machine of a repair (\<open>causal_repair.rs\<close>). The trace is the list of events
  written; a write that fails is reported and not retried, so the list is what a file that accepts every write holds.
\<close>

section \<open>Assessing a candidate\<close>

record validation_assessment =
  va_signal :: string
  va_kind :: repair_signal_kind
  va_decision :: validation_decision
  va_diagnostic :: string

definition label_scope_key :: "string \<Rightarrow> string" where
  "label_scope_key label = ''__test_label__/'' @ trim label"

definition diagnostic_line :: "string \<Rightarrow> bool" where
  "diagnostic_line line \<longleftrightarrow>
     starts_any line [''SW_TEST_EXIT_CODE='', ''FAILED '', ''ERROR '', ''E '']
     \<or> contains_any (to_ascii_lowercase line) [''traceback'', ''syntaxerror'', ''indentationerror'', ''assertionerror'', ''modulenotfounderror'', ''importerror'']"

definition compact_diagnostic :: "string \<Rightarrow> string" where
  "compact_diagnostic output = join [CHR 0x0A] (take 12 (filter diagnostic_line (map trim (str_lines output))))"

definition assess_against_baseline ::
  "string \<Rightarrow> diff_stat list \<Rightarrow> string list \<Rightarrow> baseline_scope_outcome option \<Rightarrow> validation_assessment" where
  "assess_against_baseline output changed_files baseline_keys baseline =
     (let kind = classify_output output;
          decision = classify_candidate_scope_against_baseline kind output changed_files baseline_keys baseline;
          signal = (if kind = Passed then
                      (if is_some_and (\<lambda>b. bo_kind b = signal_kind_str Passed) baseline then ''regression_pass''
                       else if is_some_and (\<lambda>b. bo_relation b = TaskRelated) baseline then ''source_scope_pass''
                       else ''feedback_pass'')
                    else if vd_candidate_blocking decision then ''fail''
                    else ''unavailable'')
      in \<lparr>va_signal = signal, va_kind = kind, va_decision = decision, va_diagnostic = compact_diagnostic output\<rparr>)"

definition assess_with_baseline_keys ::
  "oracle_serde \<Rightarrow> string \<Rightarrow> diff_stat list \<Rightarrow> string list \<Rightarrow> oracle_world \<Rightarrow> validation_assessment" where
  "assess_with_baseline_keys sd output changed_files baseline_keys w =
     assess_against_baseline output changed_files baseline_keys (baseline_scope_outcome_of sd baseline_keys w)"

datatype causal_scope_signal =
  RegressionPass | RegressionFailure | TaskScopeImproved | TaskScopeStillFailing | StructuralPass | StructuralFailure
| FeedbackFailure | UnavailableSignal

fun scope_signal_str :: "causal_scope_signal \<Rightarrow> string" where
  "scope_signal_str RegressionPass = ''regression_pass''"
| "scope_signal_str RegressionFailure = ''regression_failure''"
| "scope_signal_str TaskScopeImproved = ''task_scope_improved''"
| "scope_signal_str TaskScopeStillFailing = ''task_scope_still_failing''"
| "scope_signal_str StructuralPass = ''structural_pass''"
| "scope_signal_str StructuralFailure = ''structural_failure''"
| "scope_signal_str FeedbackFailure = ''feedback_failure''"
| "scope_signal_str UnavailableSignal = ''unavailable''"

definition is_pass_like :: "causal_scope_signal \<Rightarrow> bool" where
  "is_pass_like s \<longleftrightarrow> s \<in> {RegressionPass, TaskScopeImproved, StructuralPass}"

record causal_scope_assessment =
  ca_scope_keys :: "string list"
  ca_baseline :: "baseline_scope_outcome option"
  ca_validation :: validation_assessment
  ca_signal :: causal_scope_signal

definition push_unique :: "string \<Rightarrow> string list \<Rightarrow> string list" where
  "push_unique value target = (let v = trim value in if v \<noteq> [] \<and> v \<notin> set target then target @ [v] else target)"

definition string_items :: "json \<Rightarrow> string \<Rightarrow> string list" where
  "string_items scope field = List.map_filter as_str (unwrap_or [] (Option.bind (jget scope field) as_array))"

definition string_fields :: "json \<Rightarrow> string list \<Rightarrow> string list" where
  "string_fields scope names = List.map_filter (jget_str scope) names"

definition scope_keys :: "json \<Rightarrow> string list" where
  "scope_keys scope =
     fold push_unique
       (string_fields scope [''path'', ''file'', ''test_file''] @ string_items scope ''args''
        @ map label_scope_key (string_fields scope [''label'', ''test_label''] @ string_items scope ''labels'')) []"

definition classify_signal :: "validation_assessment \<Rightarrow> baseline_scope_outcome option \<Rightarrow> causal_scope_signal" where
  "classify_signal validation baseline =
     (let baseline_passed = is_some_and (\<lambda>b. bo_kind b = signal_kind_str Passed) baseline;
          baseline_task_related = is_some_and (\<lambda>b. bo_relation b = TaskRelated) baseline;
          tier = vd_trust_tier (va_decision validation)
      in if va_kind validation \<in> {EnvUnavailable, InvalidScope, Timeout} \<or> tier \<in> {ValidationUnavailable, ForbiddenOracle}
         then UnavailableSignal
         else if va_kind validation = Passed then
           (if baseline_passed then RegressionPass else if baseline_task_related then TaskScopeImproved else StructuralPass)
         else if baseline_passed then RegressionFailure
         else if tier = StructuralPatchCheck then StructuralFailure
         else if baseline_task_related then TaskScopeStillFailing
         else if vd_candidate_blocking (va_decision validation) then StructuralFailure
         else FeedbackFailure)"

definition assess_scope :: "oracle_serde \<Rightarrow> json \<Rightarrow> string \<Rightarrow> diff_stat list \<Rightarrow> oracle_world \<Rightarrow> causal_scope_assessment" where
  "assess_scope sd scope output changed_files w =
     (let keys = scope_keys scope;
          baseline = baseline_scope_outcome_of sd keys w;
          validation = assess_against_baseline output changed_files keys baseline
      in \<lparr>ca_scope_keys = keys, ca_baseline = baseline, ca_validation = validation, ca_signal = classify_signal validation baseline\<rparr>)"

section \<open>Routing\<close>

datatype evidence_tier_kind = NoEvidence | Safety | Efficacy

datatype serial_route =
  AcceptFirstClean | AuditChangedFailure | AcquireTaskEvidence | AuditRegressionCandidate | AuditBoundedSafety | RefineSafety
| Repair | Reset

record serial_repair_policy =
  rp_safety_edit_budget :: u32
  rp_valid_edits :: u32
  rp_last_failure_signature :: "string option"
  rp_repeated_failure_count :: u32
  rp_task_evidence_acquisition_used :: bool

definition saturating_inc :: "u32 \<Rightarrow> u32" where
  "saturating_inc n = (if n = - 1 then n else n + 1)"

definition new_policy :: "u32 \<Rightarrow> serial_repair_policy" where
  "new_policy budget =
     \<lparr>rp_safety_edit_budget = max budget 2, rp_valid_edits = 0, rp_last_failure_signature = None,
      rp_repeated_failure_count = 0, rp_task_evidence_acquisition_used = False\<rparr>"

definition record_valid_edit :: "serial_repair_policy \<Rightarrow> serial_repair_policy" where
  "record_valid_edit p = p\<lparr>rp_valid_edits := saturating_inc (rp_valid_edits p)\<rparr>"

definition clear_failure :: "serial_repair_policy \<Rightarrow> serial_repair_policy" where
  "clear_failure p = p\<lparr>rp_last_failure_signature := None, rp_repeated_failure_count := 0\<rparr>"

definition evidence_tier :: "bool \<Rightarrow> test_delta option \<Rightarrow> causal_scope_signal \<Rightarrow> evidence_tier_kind" where
  "evidence_tier has_qualified_reproducer reproducer_delta scope_signal =
     (if has_qualified_reproducer then
        (if reproducer_delta = Some Fixed \<and> is_pass_like scope_signal then Efficacy else NoEvidence)
      else if scope_signal = TaskScopeImproved then Efficacy
      else if scope_signal \<in> {RegressionPass, StructuralPass} then Safety
      else NoEvidence)"

definition first_clean_candidate_gate :: "bool \<Rightarrow> test_delta option \<Rightarrow> causal_scope_signal \<Rightarrow> bool \<Rightarrow> bool" where
  "first_clean_candidate_gate has_qualified_reproducer reproducer_delta scope_signal candidate_blocking \<longleftrightarrow>
     \<not> candidate_blocking \<and> evidence_tier has_qualified_reproducer reproducer_delta scope_signal = Efficacy"

definition note_failure :: "string \<Rightarrow> serial_repair_policy \<Rightarrow> serial_repair_policy" where
  "note_failure signature p =
     (if rp_last_failure_signature p = Some signature
      then p\<lparr>rp_repeated_failure_count := saturating_inc (rp_repeated_failure_count p)\<rparr>
      else p\<lparr>rp_last_failure_signature := Some signature, rp_repeated_failure_count := 1\<rparr>)"

definition decide_route ::
  "bool \<Rightarrow> test_delta option \<Rightarrow> causal_scope_signal \<Rightarrow> bool \<Rightarrow> string \<Rightarrow> bool \<Rightarrow> serial_repair_policy \<Rightarrow> serial_route \<times> serial_repair_policy" where
  "decide_route has_qualified_reproducer reproducer_delta scope_signal candidate_blocking failure_signature has_checkpoint p =
     (if first_clean_candidate_gate has_qualified_reproducer reproducer_delta scope_signal candidate_blocking
      then (AcceptFirstClean, clear_failure p)
      else if reproducer_delta = Some ChangedFail \<and> is_pass_like scope_signal \<and> \<not> candidate_blocking
      then (AuditChangedFailure, clear_failure p)
      else if \<not> has_qualified_reproducer \<and> reproducer_delta = None \<and> scope_signal = RegressionPass \<and> \<not> candidate_blocking \<and> has_checkpoint
      then (if \<not> rp_task_evidence_acquisition_used p
            then (AcquireTaskEvidence, (clear_failure p)\<lparr>rp_task_evidence_acquisition_used := True\<rparr>)
            else (AuditRegressionCandidate, clear_failure p))
      else if rp_valid_edits p \<ge> rp_safety_edit_budget p \<and> has_checkpoint then (AuditBoundedSafety, clear_failure p)
      else if candidate_blocking \<or> evidence_tier has_qualified_reproducer reproducer_delta scope_signal = NoEvidence
      then (let p1 = note_failure failure_signature p
            in if rp_repeated_failure_count p1 \<ge> 2 \<and> has_checkpoint then (Reset, clear_failure p1) else (Repair, p1))
      else (RefineSafety, clear_failure p))"

definition normalized_diff_stats :: "diff_stat list \<Rightarrow> diff_stat list" where
  "normalized_diff_stats stats = sort_key fst (sort_key (fst \<circ> snd) (sort_key (snd \<circ> snd) stats))"

definition candidate_state_changed ::
  "string \<Rightarrow> diff_stat list \<Rightarrow> string \<Rightarrow> string \<Rightarrow> diff_stat list \<Rightarrow> string \<Rightarrow> bool" where
  "candidate_state_changed before_fingerprint before_stats before_targets after_fingerprint after_stats after_targets \<longleftrightarrow>
     before_fingerprint \<noteq> after_fingerprint \<or> normalized_diff_stats before_stats \<noteq> normalized_diff_stats after_stats
     \<or> before_targets \<noteq> after_targets"

definition combined_failure_signature :: "string \<Rightarrow> string option \<Rightarrow> string" where
  "combined_failure_signature scope_signature reproducer_output =
     (case reproducer_output of
        None \<Rightarrow> scope_signature
      | Some out \<Rightarrow>
          if failure_fingerprint out = [] then scope_signature
          else scope_signature @ ''; reproducer='' @ failure_fingerprint out)"

definition patch_shape_violation :: "diff_stat list \<Rightarrow> nat \<Rightarrow> string option" where
  "patch_shape_violation changed max_diff_lines =
     (let oversized = map (\<lambda>(file, changed_lines, total). file @ '' ('' @ show_nat changed_lines @ ''/'' @ show_nat total @ '')'')
            (take 4 (filter (\<lambda>(_, changed_lines, total). total > 0 \<and> changed_lines > max_diff_lines) changed))
      in if changed = [] then None
         else if oversized \<noteq> [] then
           Some (''oversized edit: '' @ join '', '' oversized @ '' changed more than '' @ show_nat max_diff_lines @ '' lines'')
         else if length changed > 12 then
           Some (''wide patch: '' @ show_nat (length changed) @ '' files changed (max 12)'')
         else None)"

section \<open>The traced state machine\<close>

datatype causal_state =
  Prepared | BaselineMapped | ReproducerQualified | DirectRepairNoOracle | RepairPlanned | PatchApplied | StructuralGreen
| ReproducerGreen | RegressionGreen | BroadenedGreen | Frozen

datatype causal_event =
  EvBaselineMapped nat
| EvReproducerQualified
| EvNoCausalOracle string
| EvRepairPlanned string
| EvPatchApplied string
| EvStructuralPass
| EvStructuralFailure string
| EvStructuralUnavailable string
| EvReproducerDelta test_delta
| EvRegressionPass
| EvRegressionFailure string
| EvValidationObserved string string
| EvBroadenedPass
| EvFreeze string

fun causal_event_name :: "causal_event \<Rightarrow> string" where
  "causal_event_name (EvBaselineMapped _) = ''baseline_mapped''"
| "causal_event_name EvReproducerQualified = ''reproducer_qualified''"
| "causal_event_name (EvNoCausalOracle _) = ''no_causal_oracle''"
| "causal_event_name (EvRepairPlanned _) = ''repair_planned''"
| "causal_event_name (EvPatchApplied _) = ''patch_applied''"
| "causal_event_name EvStructuralPass = ''structural_pass''"
| "causal_event_name (EvStructuralFailure _) = ''structural_failure''"
| "causal_event_name (EvStructuralUnavailable _) = ''structural_unavailable''"
| "causal_event_name (EvReproducerDelta _) = ''reproducer_delta''"
| "causal_event_name EvRegressionPass = ''regression_pass''"
| "causal_event_name (EvRegressionFailure _) = ''regression_failure''"
| "causal_event_name (EvValidationObserved _ _) = ''validation_observed''"
| "causal_event_name EvBroadenedPass = ''broadened_pass''"
| "causal_event_name (EvFreeze _) = ''freeze''"

fun causal_event_detail :: "causal_event \<Rightarrow> string" where
  "causal_event_detail (EvBaselineMapped n) = ''candidate_count='' @ show_nat n"
| "causal_event_detail (EvNoCausalOracle reason) = reason"
| "causal_event_detail (EvRepairPlanned reason) = reason"
| "causal_event_detail (EvStructuralFailure reason) = reason"
| "causal_event_detail (EvStructuralUnavailable reason) = reason"
| "causal_event_detail (EvRegressionFailure reason) = reason"
| "causal_event_detail (EvFreeze reason) = reason"
| "causal_event_detail (EvValidationObserved signal detail) = ''signal='' @ signal @ '' '' @ detail"
| "causal_event_detail (EvPatchApplied fingerprint) = ''patch_fingerprint='' @ fingerprint"
| "causal_event_detail (EvReproducerDelta delta) = ''delta='' @ test_delta_str delta"
| "causal_event_detail _ = []"

fun causal_event_delta :: "causal_event \<Rightarrow> test_delta option" where
  "causal_event_delta (EvReproducerDelta delta) = Some delta"
| "causal_event_delta _ = None"

definition running :: "causal_state \<Rightarrow> bool" where
  "running s \<longleftrightarrow> s \<noteq> Prepared \<and> s \<noteq> Frozen"

fun next_state :: "causal_state \<Rightarrow> causal_event \<Rightarrow> causal_state option" where
  "next_state s (EvFreeze _) = Some Frozen"
| "next_state s (EvValidationObserved _ _) = (if s \<noteq> Frozen then Some s else None)"
| "next_state s (EvBaselineMapped _) = (if s = Prepared then Some BaselineMapped else None)"
| "next_state s EvReproducerQualified = (if running s then Some ReproducerQualified else None)"
| "next_state s (EvNoCausalOracle _) = (if s = BaselineMapped then Some DirectRepairNoOracle else None)"
| "next_state s (EvRepairPlanned _) = (if running s then Some RepairPlanned else None)"
| "next_state s (EvPatchApplied _) = (if s = RepairPlanned then Some PatchApplied else None)"
| "next_state s EvStructuralPass = (if s = PatchApplied then Some StructuralGreen else None)"
| "next_state s (EvStructuralFailure _) = (if running s then Some RepairPlanned else None)"
| "next_state s (EvStructuralUnavailable _) = (if running s then Some RepairPlanned else None)"
| "next_state s (EvRegressionFailure _) = (if running s then Some RepairPlanned else None)"
| "next_state s (EvReproducerDelta delta) =
     (if s = StructuralGreen then Some (if delta = Fixed then ReproducerGreen else RepairPlanned) else None)"
| "next_state s EvRegressionPass = (if s = StructuralGreen \<or> s = ReproducerGreen then Some RegressionGreen else None)"
| "next_state s EvBroadenedPass = (if s = RegressionGreen then Some BroadenedGreen else None)"

record causal_trace_event =
  te_schema_version :: u8
  te_sequence :: u32
  te_state_before :: causal_state
  te_state_after :: causal_state
  te_event :: string
  te_accepted :: bool
  te_detail :: string
  te_delta :: "test_delta option"

record causal_repair_controller =
  rc_state :: causal_state
  rc_sequence :: u32
  rc_trace :: "causal_trace_event list"

definition new_controller :: causal_repair_controller where
  "new_controller = \<lparr>rc_state = Prepared, rc_sequence = 0, rc_trace = []\<rparr>"

definition record_event :: "causal_event \<Rightarrow> causal_repair_controller \<Rightarrow> causal_repair_controller" where
  "record_event event c =
     (let seq = saturating_inc (rc_sequence c);
          from0 = rc_state c;
          next0 = next_state from0 event;
          to0 = unwrap_or from0 next0
      in \<lparr>rc_state = to0, rc_sequence = seq,
          rc_trace = rc_trace c @ [\<lparr>te_schema_version = 1, te_sequence = seq, te_state_before = from0, te_state_after = to0,
            te_event = causal_event_name event, te_accepted = (next0 \<noteq> None), te_detail = causal_event_detail event,
            te_delta = causal_event_delta event\<rparr>]\<rparr>)"

section \<open>Acceptance rests on task evidence\<close>

lemma classify_output_passed:
  "classify_output output = Passed \<longleftrightarrow>
     exit_code output = Some 0 \<and> \<not> contains_failure_signal output \<and>
     \<not> contains_any output [''SW_TEST_ENV_UNAVAILABLE=1'', ''test runner unavailable'', ''environment unavailable''] \<and>
     \<not> contains_any output [''SW_TEST_TIMED_OUT=1'', ''signal: timed out'', ''timed out''] \<and>
     \<not> (contains_case_insensitive output ''no tests collected'' \<or> contains_case_insensitive output ''no tests ran''
        \<or> contains_any output [''collected 0 items'', ''Ran 0 tests'']) \<and>
     \<not> contains_any output [''ERROR collecting'', ''errors during collection'', ''ImportError while loading conftest'',
        ''ModuleNotFoundError'', ''ImportError:'', ''SyntaxError'', ''IndentationError'', ''TabError'']"
  unfolding classify_output_def by (simp split: if_split)

lemma pass_like_signal:
  assumes "is_pass_like (ca_signal (assess_scope sd scope output changed w))"
  shows "classify_output output = Passed" "\<not> contains_forbidden_oracle_marker output"
proof -
  let ?v = "ca_validation (assess_scope sd scope output changed w)"
  have sg: "ca_signal (assess_scope sd scope output changed w) = classify_signal ?v (ca_baseline (assess_scope sd scope output changed w))"
    by (simp add: assess_scope_def Let_def)
  have "va_kind ?v = classify_output output" by (simp add: assess_scope_def assess_against_baseline_def Let_def)
  moreover have "va_kind ?v = Passed" "vd_trust_tier (va_decision ?v) \<noteq> ForbiddenOracle"
    using assms unfolding sg classify_signal_def is_pass_like_def by (auto simp: Let_def split: if_splits)
  moreover have "vd_trust_tier (va_decision ?v) = ForbiddenOracle" if "contains_forbidden_oracle_marker output"
    using that
    by (simp add: assess_scope_def assess_against_baseline_def classify_candidate_scope_against_baseline_def forbidden_decision_def Let_def)
  ultimately show "classify_output output = Passed" "\<not> contains_forbidden_oracle_marker output" by auto
qed

lemma improved_signal:
  assumes "ca_signal (assess_scope sd scope output changed w) = TaskScopeImproved"
  obtains b where "baseline_scope_outcome_of sd (scope_keys scope) w = Some b" "bo_relation b = TaskRelated"
    "bo_kind b \<noteq> signal_kind_str Passed"
  using assms
  by (auto simp: assess_scope_def Let_def classify_signal_def is_some_and_iff split: if_splits)

lemma decide_accept_iff:
  "fst (decide_route q d s blocking sg chk p) = AcceptFirstClean \<longleftrightarrow> first_clean_candidate_gate q d s blocking"
  by (auto simp: decide_route_def Let_def split: if_splits)

lemma delta_fixed:
  "delta_for_observations TaskReproducer before0 after0 f g = Fixed \<longleftrightarrow> before0 \<noteq> Passed \<and> after0 = Passed"
  by (auto simp: delta_for_observations_def delta_for_def Let_def)

text \<open>
  C19: A candidate is accepted only on task evidence. When the route of a repair step is acceptance, the test run of the
  scope exited with zero and shows no failure, no missing or timed-out tests and no hidden oracle data; and either a
  reproducer of the task that failed on the baseline now passes, or, without a reproducer, the very scope that was run
  is recorded as a failure on the baseline that belongs to the task. A passing regression scope alone is never enough.
\<close>

theorem accepted_candidate_has_task_evidence:
  assumes "fst (decide_route has_reproducer delta (ca_signal (assess_scope sd scope output changed w)) blocking signature has_checkpoint p) =
      AcceptFirstClean"
    and "\<And>d. delta = Some d \<Longrightarrow> d = delta_for_observations TaskReproducer before0 after0 f g"
  shows "classify_output output = Passed \<and> \<not> contains_forbidden_oracle_marker output \<and> \<not> blocking \<and>
    (if has_reproducer then before0 \<noteq> Passed \<and> after0 = Passed
     else \<exists>b. baseline_scope_outcome_of sd (scope_keys scope) w = Some b \<and> bo_relation b = TaskRelated \<and> bo_kind b \<noteq> ''passed'')"
proof -
  let ?s = "ca_signal (assess_scope sd scope output changed w)"
  have gate: "\<not> blocking" "evidence_tier has_reproducer delta ?s = Efficacy"
    using assms(1) by (simp_all add: decide_accept_iff first_clean_candidate_gate_def)
  then have like: "is_pass_like ?s" by (auto simp: evidence_tier_def is_pass_like_def split: if_splits)
  show ?thesis
  proof (cases has_reproducer)
    case True
    with gate have "delta = Some Fixed" by (auto simp: evidence_tier_def split: if_splits)
    with assms(2) have "before0 \<noteq> Passed \<and> after0 = Passed" by (metis delta_fixed)
    with True gate like show ?thesis by (simp add: pass_like_signal)
  next
    case False
    with gate have "?s = TaskScopeImproved" by (auto simp: evidence_tier_def split: if_splits)
    then obtain b where "baseline_scope_outcome_of sd (scope_keys scope) w = Some b" "bo_relation b = TaskRelated"
      "bo_kind b \<noteq> signal_kind_str Passed" by (rule improved_signal)
    with False gate like show ?thesis by (simp add: pass_like_signal)
  qed
qed

definition task_failure :: baseline_scope_outcome where
  "task_failure = timed_outcome [''tests/a.py''] AssertionFailure ''FAILED tests/a.py'' TaskRelated 9"

definition mapped_world :: oracle_world where
  "mapped_world = set_env outcomes_var ''table'' fresh_world"

definition passing_run :: string where
  "passing_run = ''SW_TEST_EXIT_CODE=0'' @ [CHR 0x0A] @ ''1 passed''"

theorem accepted_candidate_has_task_evidence_witness:
  "let sd = table_serde [task_failure]; scope = JObject [(''path'', JString ''./tests/a.py'')];
       a = assess_scope sd scope passing_run [(''src/a.py'', 1, 9)] mapped_world
   in fst (decide_route False None (ca_signal a) False [] True (new_policy 6)) = AcceptFirstClean \<and>
      baseline_scope_outcome_of sd (scope_keys scope) mapped_world = Some task_failure"
proof -
  let ?sd = "table_serde [task_failure]" and ?scope = "JObject [(''path'', JString ''./tests/a.py'')]"
  let ?a = "assess_scope ?sd ?scope passing_run [(''src/a.py'', 1, 9)] mapped_world"
  have "fst (decide_route False None (ca_signal ?a) False [] True (new_policy 6)) = AcceptFirstClean" by code_simp
  moreover have "is_some_and (\<lambda>b. b = task_failure) (baseline_scope_outcome_of ?sd (scope_keys ?scope) mapped_world)" by code_simp
  ultimately show ?thesis
    using accepted_candidate_has_task_evidence [of False None ?sd ?scope passing_run "[(''src/a.py'', 1, 9)]" mapped_world False "[]" True "new_policy 6"]
    by (auto simp: is_some_and_iff)
qed

section \<open>The search is bounded\<close>

type_synonym observation = "bool \<times> test_delta option \<times> causal_scope_signal \<times> bool \<times> string"

definition repair_round :: "observation \<Rightarrow> serial_repair_policy \<Rightarrow> serial_route \<times> serial_repair_policy" where
  "repair_round obs p =
     (case obs of (q, d, s, blocking, signature) \<Rightarrow> decide_route q d s blocking signature True (record_valid_edit p))"

fun repair_rounds :: "observation list \<Rightarrow> serial_repair_policy \<Rightarrow> serial_route list" where
  "repair_rounds [] p = []"
| "repair_rounds (obs # rest) p = (case repair_round obs p of (r, p') \<Rightarrow> r # repair_rounds rest p')"

definition searches_on :: "serial_route \<Rightarrow> bool" where
  "searches_on r \<longleftrightarrow> r \<in> {RefineSafety, Repair, Reset}"

definition ends_search :: "serial_route \<Rightarrow> bool" where
  "ends_search r \<longleftrightarrow> r \<in> {AcceptFirstClean, AuditChangedFailure, AuditRegressionCandidate, AuditBoundedSafety}"

lemma route_kinds: "searches_on r \<or> ends_search r \<or> r = AcquireTaskEvidence"
  by (cases r) (simp_all add: searches_on_def ends_search_def)

lemma decide_route_keeps:
  "rp_safety_edit_budget (snd (decide_route q d s blocking sg chk p)) = rp_safety_edit_budget p"
  "rp_valid_edits (snd (decide_route q d s blocking sg chk p)) = rp_valid_edits p"
  by (simp_all add: decide_route_def Let_def clear_failure_def note_failure_def)

lemma decide_route_acquires:
  "rp_task_evidence_acquisition_used (snd (decide_route q d s blocking sg chk p)) =
     (rp_task_evidence_acquisition_used p \<or> fst (decide_route q d s blocking sg chk p) = AcquireTaskEvidence)"
  "fst (decide_route q d s blocking sg chk p) = AcquireTaskEvidence \<Longrightarrow> \<not> rp_task_evidence_acquisition_used p"
  by (simp_all add: decide_route_def Let_def clear_failure_def note_failure_def split: if_split_asm)

lemma decide_route_searches:
  "searches_on (fst (decide_route q d s blocking sg True p)) \<Longrightarrow> rp_valid_edits p < rp_safety_edit_budget p"
  by (rule ccontr) (simp add: decide_route_def searches_on_def split: if_split_asm)

lemma decide_route_fields:
  assumes "decide_route q d s blocking sg True p = (r, p')"
  shows "rp_safety_edit_budget p' = rp_safety_edit_budget p" "rp_valid_edits p' = rp_valid_edits p"
    "rp_task_evidence_acquisition_used p' = (rp_task_evidence_acquisition_used p \<or> r = AcquireTaskEvidence)"
    "r = AcquireTaskEvidence \<Longrightarrow> \<not> rp_task_evidence_acquisition_used p"
    "searches_on r \<Longrightarrow> rp_valid_edits p < rp_safety_edit_budget p"
  using decide_route_keeps [of q d s blocking sg True p] decide_route_acquires [of q d s blocking sg True p]
    decide_route_searches [of q d s blocking sg p]
  by (simp_all add: assms)

lemma saturating_inc_unat: "unat (saturating_inc n) = min (Suc (unat n)) (2 ^ 32 - 1)"
proof -
  have top: "unat (- 1 :: u32) = 2 ^ 32 - 1" by (simp add: unsigned_minus_1_eq_mask mask_eq_exp_minus_1)
  show ?thesis
  proof (cases "n = - 1")
    case True
    with top show ?thesis by (simp add: saturating_inc_def)
  next
    case False
    with top have "unat n \<noteq> 2 ^ 32 - 1" by (metis word_unat_eq_iff)
    with unat_u32 [of n] have "unat n < 2 ^ 32 - 1" by simp
    moreover have "unat (n + 1) = Suc (unat n)"
      using False by (metis Suc_eq_plus1 add.commute unatSuc add_eq_0_iff)
    ultimately show ?thesis using False by (simp add: saturating_inc_def)
  qed
qed

lemma rounds_searching:
  "length (filter searches_on (repair_rounds os p)) + unat (rp_valid_edits p) < max (unat (rp_safety_edit_budget p)) (Suc (unat (rp_valid_edits p)))"
proof (induction os arbitrary: p)
  case (Cons obs os)
  obtain q d s b sg where obs: "obs = (q, d, s, b, sg)" by (metis prod.exhaust)
  obtain r p' where r: "decide_route q d s b sg True (record_valid_edit p) = (r, p')" by fastforce
  note f = decide_route_fields [OF r]
  have e: "unat (rp_valid_edits p') = min (Suc (unat (rp_valid_edits p))) (2 ^ 32 - 1)"
    using f(2) by (simp add: record_valid_edit_def saturating_inc_unat)
  have bud: "rp_safety_edit_budget p' = rp_safety_edit_budget p" using f(1) by (simp add: record_valid_edit_def)
  have "unat (rp_safety_edit_budget p) < 2 ^ 32" by (rule unat_u32)
  show ?case
  proof (cases "searches_on r")
    case True
    then have "unat (rp_valid_edits p') < unat (rp_safety_edit_budget p)"
      using f(2,5) by (simp add: record_valid_edit_def word_less_nat_alt)
    with True obs r Cons [of p'] e bud unat_u32 [of "rp_safety_edit_budget p"] show ?thesis by (simp add: repair_round_def)
  next
    case False
    with obs r Cons [of p'] e bud unat_u32 [of "rp_safety_edit_budget p"] unat_u32 [of "rp_valid_edits p"]
    show ?thesis by (auto simp: repair_round_def)
  qed
qed simp

lemma rounds_acquire:
  "length (filter (\<lambda>r. r = AcquireTaskEvidence) (repair_rounds os p)) \<le> (if rp_task_evidence_acquisition_used p then 0 else 1)"
proof (induction os arbitrary: p)
  case (Cons obs os)
  obtain q d s b sg where obs: "obs = (q, d, s, b, sg)" by (metis prod.exhaust)
  obtain r p' where r: "decide_route q d s b sg True (record_valid_edit p) = (r, p')" by fastforce
  have round0: "repair_round obs p = (r, p')" by (simp add: obs r repair_round_def)
  have "rp_task_evidence_acquisition_used (record_valid_edit p) = rp_task_evidence_acquisition_used p" by (simp add: record_valid_edit_def)
  with decide_route_fields(3,4) [OF r] Cons [of p'] show ?case by (auto simp: round0 split: if_splits)
qed simp

lemma length_rounds [simp]: "length (repair_rounds os p) = length os"
  by (induction os arbitrary: p) (auto split: prod.splits)



section \<open>Green states are earned\<close>

definition run_events :: "causal_event list \<Rightarrow> causal_repair_controller" where
  "run_events es = fold record_event es new_controller"

type_synonym mark = "string \<times> test_delta option"

definition event_mark :: "causal_event \<Rightarrow> mark" where
  "event_mark e = (causal_event_name e, causal_event_delta e)"

text \<open>The accepted events of a part of the trace, without the observations, which change no state.\<close>

definition effective :: "causal_trace_event list \<Rightarrow> mark list" where
  "effective ts = map (\<lambda>t. (te_event t, te_delta t)) (filter (\<lambda>t. te_accepted t \<and> te_event t \<noteq> ''validation_observed'') ts)"

definition tested :: "mark list" where
  "tested = [(''patch_applied'', None), (''structural_pass'', None)]"

definition fixed_marks :: "mark list" where
  "fixed_marks = tested @ [(''reproducer_delta'', Some Fixed)]"

definition earned :: "causal_state \<Rightarrow> mark list \<Rightarrow> bool" where
  "earned s marks =
     (case s of
        PatchApplied \<Rightarrow> marks = [(''patch_applied'', None)]
      | StructuralGreen \<Rightarrow> marks = tested
      | ReproducerGreen \<Rightarrow> marks = fixed_marks
      | RegressionGreen \<Rightarrow> marks \<in> {tested @ [(''regression_pass'', None)], fixed_marks @ [(''regression_pass'', None)]}
      | BroadenedGreen \<Rightarrow> marks \<in> {tested @ [(''regression_pass'', None), (''broadened_pass'', None)],
          fixed_marks @ [(''regression_pass'', None), (''broadened_pass'', None)]}
      | _ \<Rightarrow> True)"

lemma record_event_parts:
  "rc_state (record_event e c) = unwrap_or (rc_state c) (next_state (rc_state c) e)"
  "rc_trace (record_event e c) = rc_trace c @ [last (rc_trace (record_event e c))]"
  "te_event (last (rc_trace (record_event e c))) = causal_event_name e"
  "te_accepted (last (rc_trace (record_event e c))) = (next_state (rc_state c) e \<noteq> None)"
  "te_delta (last (rc_trace (record_event e c))) = causal_event_delta e"
  "te_state_before (last (rc_trace (record_event e c))) = rc_state c"
  "te_state_after (last (rc_trace (record_event e c))) = rc_state (record_event e c)"
  by (simp_all add: record_event_def Let_def)

lemma effective_snoc:
  "effective (ts @ [t]) = effective ts @ (if te_accepted t \<and> te_event t \<noteq> ''validation_observed'' then [(te_event t, te_delta t)] else [])"
  by (simp add: effective_def)

lemma earned_step:
  assumes "earned s marks" "next_state s e = Some s'" "causal_event_name e \<noteq> ''validation_observed''"
  shows "earned s' (marks @ [event_mark e]) \<or> earned s' [event_mark e]"
  using assms by (cases e) (auto simp: earned_def event_mark_def tested_def fixed_marks_def split: if_splits causal_state.splits)

lemma observed_keeps: "next_state s e = Some s' \<Longrightarrow> causal_event_name e = ''validation_observed'' \<Longrightarrow> s' = s"
  by (cases e) (simp_all split: if_splits)

lemma clean_step:
  assumes "rc_trace c = a @ b" "earned (rc_state c) (effective b)"
  shows "\<exists>a b. rc_trace (record_event e c) = a @ b \<and> earned (rc_state (record_event e c)) (effective b)"
proof (cases "next_state (rc_state c) e = None \<or> causal_event_name e = ''validation_observed''")
  case True
  then have "rc_state (record_event e c) = rc_state c"
    using observed_keeps by (cases "next_state (rc_state c) e") (auto simp: record_event_parts(1) unwrap_or_def)
  moreover have "effective (b @ [last (rc_trace (record_event e c))]) = effective b"
    using True by (auto simp: effective_snoc record_event_parts(3,4))
  ultimately show ?thesis using assms record_event_parts(2) [of e c] by (metis append.assoc)
next
  case False
  then obtain s' where s': "next_state (rc_state c) e = Some s'" "causal_event_name e \<noteq> ''validation_observed''" by auto
  let ?t = "last (rc_trace (record_event e c))"
  have eff: "effective (xs @ [?t]) = effective xs @ [event_mark e]" for xs
    using s' by (simp add: effective_snoc record_event_parts(3-5) event_mark_def)
  have state: "rc_state (record_event e c) = s'" using s' by (simp add: record_event_parts(1) unwrap_or_def)
  from earned_step [OF assms(2) s'] show ?thesis
  proof
    assume "earned s' (effective b @ [event_mark e])"
    then show ?thesis using assms(1) eff state record_event_parts(2) [of e c] by (metis append.assoc)
  next
    assume "earned s' [event_mark e]"
    moreover have "effective [?t] = [event_mark e]" using eff [of "[]"] by (simp add: effective_def)
    ultimately have "earned (rc_state (record_event e c)) (effective [?t])" using state by simp
    with record_event_parts(2) show ?thesis by blast
  qed
qed

lemma run_earned: "\<exists>a b. rc_trace (run_events es) = a @ b \<and> earned (rc_state (run_events es)) (effective b)"
proof (induction es rule: rev_induct)
  case Nil
  show ?case by (simp add: run_events_def new_controller_def earned_def)
next
  case (snoc e es)
  have "run_events (es @ [e]) = record_event e (run_events es)" by (simp add: run_events_def)
  with snoc clean_step show ?case by metis
qed

text \<open>
  C21: A green state is earned by the current patch. Whatever events the harness reports, also out of order, a repair in the
  state \<open>RegressionGreen\<close> or \<open>BroadenedGreen\<close> has a trace that ends with an applied patch, a structural pass, possibly a reproducer that it fixed, and a
  passing regression scope, with no other accepted event in between: no failure, no unavailable validation, no new plan.
\<close>

theorem green_is_earned:
  assumes "rc_state (run_events es) \<in> {RegressionGreen, BroadenedGreen}"
  shows "\<exists>earlier since fix broad. rc_trace (run_events es) = earlier @ since \<and>
    effective since = [(''patch_applied'', None), (''structural_pass'', None)] @ fix @ [(''regression_pass'', None)] @ broad \<and>
    fix \<in> {[], [(''reproducer_delta'', Some Fixed)]} \<and>
    broad = (if rc_state (run_events es) = BroadenedGreen then [(''broadened_pass'', None)] else [])"
proof -
  let ?broad = "if rc_state (run_events es) = BroadenedGreen then [(''broadened_pass'', None)] else []"
  obtain a b where ab: "rc_trace (run_events es) = a @ b" "earned (rc_state (run_events es)) (effective b)" using run_earned by metis
  have "\<exists>fix. effective b = [(''patch_applied'', None), (''structural_pass'', None)] @ fix @ [(''regression_pass'', None)] @ ?broad \<and>
      fix \<in> {[], [(''reproducer_delta'', Some Fixed)]}"
    using ab(2) assms by (auto simp: earned_def tested_def fixed_marks_def)
  with ab(1) show ?thesis by blast
qed

theorem green_is_earned_witness:
  "\<exists>earlier since. rc_trace (run_events [EvBaselineMapped 1, EvRepairPlanned [], EvPatchApplied ''f'', EvStructuralPass,
      EvValidationObserved [] [], EvReproducerDelta Fixed, EvPatchApplied ''g'', EvRegressionPass]) = earlier @ since \<and>
    effective since = [(''patch_applied'', None), (''structural_pass'', None), (''reproducer_delta'', Some Fixed), (''regression_pass'', None)]"
proof -
  let ?es = "[EvBaselineMapped 1, EvRepairPlanned [], EvPatchApplied ''f'', EvStructuralPass,
      EvValidationObserved [] [], EvReproducerDelta Fixed, EvPatchApplied ''g'', EvRegressionPass]"
  have green: "rc_state (run_events ?es) = RegressionGreen" by code_simp
  have all: "effective (rc_trace (run_events ?es)) = [(''baseline_mapped'', None), (''repair_planned'', None), (''patch_applied'', None),
      (''structural_pass'', None), (''reproducer_delta'', Some Fixed), (''regression_pass'', None)]" by code_simp
  obtain a b fix0 broad where s: "rc_trace (run_events ?es) = a @ b"
    "effective b = [(''patch_applied'', None), (''structural_pass'', None)] @ fix0 @ [(''regression_pass'', None)] @ broad"
    "fix0 \<in> {[], [(''reproducer_delta'', Some Fixed)]}" "broad = []"
    using green_is_earned [of ?es] green by auto
  have "effective (a @ b) = effective a @ effective b" by (simp add: effective_def)
  with all s have "fix0 = [(''reproducer_delta'', Some Fixed)]" by (auto simp: append_eq_Cons_conv)
  with s show ?thesis by auto
qed

end
