(* ===== verification/CausalCheckpoint.thy ===== *)
theory CausalCheckpoint
  imports CausalRepair "HOL-Library.Multiset"
begin

text \<open>
  Retaining the best candidate of a serial repair (\<open>crates/cli/src/causal_checkpoint.rs\<close>) and the functions of \<open>main.rs\<close> that feed
  the controller and the store with what the tests report. The working tree and the three Git commands the code runs on it
  (status, diff, apply) are the parameter \<open>'w git\<close>; a patch is the text of a diff. Artifacts are written for the reader of
  a run, a failed write changes nothing, and they are left out.
\<close>

record 'w git =
  git_status :: "'w \<Rightarrow> (string, string) result"
  git_diff :: "'w \<Rightarrow> (string, string) result"
  git_apply :: "string \<Rightarrow> bool \<Rightarrow> 'w \<Rightarrow> (unit, string) result \<times> 'w"

unbundle bit_operations_syntax

section \<open>Evidence\<close>

record checkpoint_evidence =
  ce_structural_pass :: bool
  ce_task_scope_improved :: bool
  ce_regression_pass :: bool
  ce_reproducer_fixed :: bool
  ce_changed_lines :: nat

definition no_evidence :: checkpoint_evidence where
  "no_evidence = \<lparr>ce_structural_pass = False, ce_task_scope_improved = False, ce_regression_pass = False,
     ce_reproducer_fixed = False, ce_changed_lines = 0\<rparr>"

definition quality :: "checkpoint_evidence \<Rightarrow> nat list" where
  "quality e = map of_bool [ce_reproducer_fixed e, ce_task_scope_improved e, ce_regression_pass e, ce_structural_pass e]"

definition is_evidence_backed :: "checkpoint_evidence \<Rightarrow> bool" where
  "is_evidence_backed e \<longleftrightarrow>
     ce_structural_pass e \<or> ce_task_scope_improved e \<or> ce_regression_pass e \<or> ce_reproducer_fixed e"

definition note_scope :: "causal_scope_signal \<Rightarrow> checkpoint_evidence \<Rightarrow> checkpoint_evidence" where
  "note_scope signal e =
     (case signal of
        StructuralPass \<Rightarrow> e\<lparr>ce_structural_pass := True\<rparr>
      | TaskScopeImproved \<Rightarrow> e\<lparr>ce_structural_pass := True, ce_task_scope_improved := True\<rparr>
      | RegressionPass \<Rightarrow> e\<lparr>ce_structural_pass := True, ce_regression_pass := True\<rparr>
      | _ \<Rightarrow> e)"

definition note_reproducer :: "test_delta \<Rightarrow> checkpoint_evidence \<Rightarrow> checkpoint_evidence" where
  "note_reproducer delta e =
     (if delta = Fixed then e\<lparr>ce_structural_pass := True, ce_reproducer_fixed := True\<rparr> else e)"

section \<open>Patches\<close>

text \<open>The hash FNV-1a in 64 bits, printed as sixteen hexadecimal digits.\<close>

definition fnv_step :: "char \<Rightarrow> u64 \<Rightarrow> u64" where
  "fnv_step c h = (h XOR of_nat (char_code c)) * 0x100000001b3"

definition hex_digit :: "nat \<Rightarrow> char" where
  "hex_digit n = (if n < 10 then char_of (48 + n) else char_of (87 + n))"

fun hex_digits :: "nat \<Rightarrow> u64 \<Rightarrow> string" where
  "hex_digits 0 h = []"
| "hex_digits (Suc n) h = hex_digits n (drop_bit 4 h) @ [hex_digit (unat (h AND 15))]"

definition stable_hash :: "string \<Rightarrow> string" where
  "stable_hash bytes = hex_digits 16 (fold fnv_step bytes 0xcbf29ce484222325)"

definition patch_fingerprint :: "'w git \<Rightarrow> 'w \<Rightarrow> string" where
  "patch_fingerprint g w =
     ''fnv1a64-'' @ stable_hash (case git_diff g w of Ok bytes \<Rightarrow> bytes | Err _ \<Rightarrow> [])"

type_synonym atom = "string \<times> char \<times> string"

definition note_patch_line :: "string \<Rightarrow> string \<times> atom list \<Rightarrow> string \<times> atom list" where
  "note_patch_line line acc =
     (case acc of (file, atoms) \<Rightarrow>
        (case strip_prefix line ''diff --git '' of
           Some header \<Rightarrow> (header, atoms)
         | None \<Rightarrow>
             (case line of
                [] \<Rightarrow> (file, atoms)
              | c # content \<Rightarrow>
                  if c \<notin> set ''+-'' \<or> starts_with line ''+++'' \<or> starts_with line ''---'' \<or> file = [] then (file, atoms)
                  else (file, atoms @ [(file, c, content)]))))"

definition patch_change_atoms :: "string \<Rightarrow> atom list" where
  "patch_change_atoms patch = snd (fold note_patch_line (str_lines patch) ([], []))"

definition patch_strictly_contains :: "string \<Rightarrow> string \<Rightarrow> bool" where
  "patch_strictly_contains candidate retained =
     (let candidate_atoms = patch_change_atoms candidate; retained_atoms = patch_change_atoms retained
      in if retained_atoms = [] \<or> length candidate_atoms \<le> length retained_atoms then False
         else list_all (\<lambda>atom. count_list candidate_atoms atom \<ge> count_list retained_atoms atom) (remdups retained_atoms))"

record current_patch_info =
  cp_fingerprint :: string
  cp_patch :: string
  cp_changed_lines :: nat

definition changed_line :: "string \<Rightarrow> bool" where
  "changed_line line \<longleftrightarrow>
     starts_with line ''+'' \<and> \<not> starts_with line ''+++'' \<or> starts_with line ''-'' \<and> \<not> starts_with line ''---''"

definition current_patch :: "'w git \<Rightarrow> 'w \<Rightarrow> (current_patch_info, string) result" where
  "current_patch g w =
     (case git_status g w of
        Err e \<Rightarrow> Err e
      | Ok status \<Rightarrow>
          if list_ex (\<lambda>line. starts_with line ''??'') (str_lines status)
          then Err ''untracked files prevent reversible causal checkpoint capture''
          else (case git_diff g w of
                  Err e \<Rightarrow> Err e
                | Ok patch \<Rightarrow>
                    Ok \<lparr>cp_fingerprint = stable_hash patch, cp_patch = patch,
                        cp_changed_lines = length (filter changed_line (split_on (\<lambda>c. c = CHR 0x0A) patch))\<rparr>))"

definition apply_patch :: "'w git \<Rightarrow> string \<Rightarrow> bool \<Rightarrow> 'w \<Rightarrow> (unit, string) result \<times> 'w" where
  "apply_patch g patch rev0 w = (if patch = [] then (Ok (), w) else git_apply g patch rev0 w)"

section \<open>The store\<close>

record checkpoint_rec =
  ck_fingerprint :: string
  ck_patch :: string
  ck_evidence :: checkpoint_evidence

datatype checkpoint_update = Captured string | Retained string | SkippedUpdate string

datatype checkpoint_restore = Restored string | AlreadySelected string | NoCheckpoint | SkippedRestore string

record checkpoint_store =
  cs_current_fingerprint :: "string option"
  cs_current_evidence :: checkpoint_evidence
  cs_best :: "checkpoint_rec option"

definition empty_store :: checkpoint_store where
  "empty_store = \<lparr>cs_current_fingerprint = None, cs_current_evidence = no_evidence, cs_best = None\<rparr>"

definition begin_patch :: "string \<Rightarrow> checkpoint_store \<Rightarrow> checkpoint_store" where
  "begin_patch fingerprint s =
     (if cs_current_fingerprint s \<noteq> Some fingerprint
      then s\<lparr>cs_current_fingerprint := Some fingerprint, cs_current_evidence := no_evidence\<rparr> else s)"

definition has_checkpoint :: "checkpoint_store \<Rightarrow> bool" where
  "has_checkpoint s \<longleftrightarrow> cs_best s \<noteq> None"

definition should_replace :: "checkpoint_rec \<Rightarrow> checkpoint_rec \<Rightarrow> bool" where
  "should_replace best candidate =
     (if quality (ck_evidence candidate) \<noteq> quality (ck_evidence best)
      then quality (ck_evidence candidate) > quality (ck_evidence best)
      else patch_strictly_contains (ck_patch candidate) (ck_patch best))"

definition consider_current :: "'w git \<Rightarrow> 'w \<Rightarrow> checkpoint_store \<Rightarrow> checkpoint_update \<times> checkpoint_store" where
  "consider_current g w s =
     (if \<not> is_evidence_backed (cs_current_evidence s) then (SkippedUpdate ''no positive typed evidence for current patch'', s)
      else case current_patch g w of
        Err reason \<Rightarrow> (SkippedUpdate reason, s)
      | Ok current \<Rightarrow>
          if cp_patch current = [] then (SkippedUpdate ''no tracked candidate diff to checkpoint'', s)
          else
            (let e = (cs_current_evidence s)\<lparr>ce_changed_lines := cp_changed_lines current\<rparr>;
                 s1 = s\<lparr>cs_current_fingerprint := Some (cp_fingerprint current), cs_current_evidence := e\<rparr>;
                 candidate = \<lparr>ck_fingerprint = cp_fingerprint current, ck_patch = cp_patch current, ck_evidence = e\<rparr>
             in case cs_best s1 of
                  None \<Rightarrow> (Captured (ck_fingerprint candidate), s1\<lparr>cs_best := Some candidate\<rparr>)
                | Some best \<Rightarrow>
                    if should_replace best candidate then (Captured (ck_fingerprint candidate), s1\<lparr>cs_best := Some candidate\<rparr>)
                    else (Retained (ck_fingerprint best), s1)))"

definition observe_scope :: "'w git \<Rightarrow> 'w \<Rightarrow> causal_scope_signal \<Rightarrow> checkpoint_store \<Rightarrow> checkpoint_update \<times> checkpoint_store" where
  "observe_scope g w signal s =
     consider_current g w (s\<lparr>cs_current_evidence := note_scope signal (cs_current_evidence s)\<rparr>)"

definition observe_reproducer :: "'w git \<Rightarrow> 'w \<Rightarrow> test_delta \<Rightarrow> checkpoint_store \<Rightarrow> checkpoint_update \<times> checkpoint_store" where
  "observe_reproducer g w delta s =
     consider_current g w (s\<lparr>cs_current_evidence := note_reproducer delta (cs_current_evidence s)\<rparr>)"

definition restore_best :: "'w git \<Rightarrow> checkpoint_store \<Rightarrow> 'w \<Rightarrow> checkpoint_restore \<times> 'w" where
  "restore_best g s w =
     (case cs_best s of
        None \<Rightarrow> (NoCheckpoint, w)
      | Some best \<Rightarrow>
          (case current_patch g w of
             Err reason \<Rightarrow> (SkippedRestore reason, w)
           | Ok current \<Rightarrow>
               if cp_fingerprint current = ck_fingerprint best then (AlreadySelected (ck_fingerprint best), w)
               else (case apply_patch g (cp_patch current) True w of
                       (Err reason, w1) \<Rightarrow> (SkippedRestore reason, w1)
                     | (Ok _, w1) \<Rightarrow>
                         (case apply_patch g (ck_patch best) False w1 of
                            (Ok _, w2) \<Rightarrow> (Restored (ck_fingerprint best), w2)
                          | (Err reason, w2) \<Rightarrow>
                              (case apply_patch g (cp_patch current) False w2 of
                                 (Ok _, w3) \<Rightarrow>
                                   (SkippedRestore (''apply checkpoint failed: '' @ reason @ ''; original diff restored''), w3)
                               | (Err recovery_error, w3) \<Rightarrow>
                                   (SkippedRestore (''apply checkpoint failed: '' @ reason @
                                      ''; restoring original diff also failed: '' @ recovery_error), w3))))))"

section \<open>Feeding the controller and the store\<close>

record causal_loop =
  cl_controller :: "causal_repair_controller option"
  cl_store :: "checkpoint_store option"

definition record_causal_event :: "causal_event \<Rightarrow> causal_loop \<Rightarrow> causal_loop" where
  "record_causal_event event l = l\<lparr>cl_controller := map_option (record_event event) (cl_controller l)\<rparr>"

definition on_store :: "(checkpoint_store \<Rightarrow> checkpoint_store) \<Rightarrow> causal_loop \<Rightarrow> causal_loop" where
  "on_store f l = l\<lparr>cl_store := map_option f (cl_store l)\<rparr>"

definition causal_reason_from_tool_output :: "string \<Rightarrow> string" where
  "causal_reason_from_tool_output output =
     take 240 (case find (\<lambda>line. str_contains line ''reason='') (str_lines output) of
                 Some line \<Rightarrow> line
               | None \<Rightarrow> (case str_lines output of [] \<Rightarrow> ''no detail'' | line # _ \<Rightarrow> line))"

definition causal_task_reproducer_delta :: "string \<Rightarrow> test_delta option" where
  "causal_task_reproducer_delta output =
     Option.bind (find_map (\<lambda>line. strip_prefix line ''SW_TASK_REPRODUCER_DELTA='') (str_lines output)) parse_test_delta"

definition task_evidence_transition_for_output :: "string \<Rightarrow> string" where
  "task_evidence_transition_for_output output =
     (case causal_task_reproducer_delta output of
        Some Fixed \<Rightarrow> ''TASK_EVIDENCE_FIXED''
      | Some ChangedFail \<Rightarrow> ''TASK_EVIDENCE_CHANGED''
      | Some Regressed \<Rightarrow> ''TASK_EVIDENCE_REPAIR''
      | Some UnchangedFail \<Rightarrow> ''TASK_EVIDENCE_REPAIR''
      | _ \<Rightarrow> ''TASK_EVIDENCE_UNAVAILABLE'')"

definition run_reproducer_result :: "'w git \<Rightarrow> 'w \<Rightarrow> string \<Rightarrow> causal_loop \<Rightarrow> causal_loop" where
  "run_reproducer_result g w output l =
     (case causal_task_reproducer_delta output of
        None \<Rightarrow> record_causal_event (EvStructuralUnavailable (causal_reason_from_tool_output output)) l
      | Some InvalidDelta \<Rightarrow> record_causal_event (EvStructuralFailure (causal_reason_from_tool_output output)) l
      | Some UnavailableDelta \<Rightarrow> record_causal_event (EvStructuralUnavailable (causal_reason_from_tool_output output)) l
      | Some delta \<Rightarrow>
          on_store (\<lambda>s. snd (observe_reproducer g w delta s))
            (record_causal_event (EvReproducerDelta delta) (record_causal_event EvStructuralPass l)))"

definition record_causal_reproducer_result :: "'w git \<Rightarrow> 'w \<Rightarrow> string \<Rightarrow> string \<Rightarrow> causal_loop \<Rightarrow> causal_loop" where
  "record_causal_reproducer_result g w tool_name output l =
     (if tool_name = ''write_task_reproducer'' \<and> str_contains output ''SW_TASK_REPRODUCER_STATUS=qualified'' then
        record_causal_event (EvRepairPlanned ''baseline-qualified task reproducer'') (record_causal_event EvReproducerQualified l)
      else if tool_name = ''write_task_reproducer'' \<and> str_contains output ''SW_TASK_REPRODUCER_STATUS=no_causal_oracle'' then
        record_causal_event (EvRepairPlanned ''direct repair after reproducer qualification failed'')
          (record_causal_event (EvNoCausalOracle (causal_reason_from_tool_output output)) l)
      else if tool_name = ''run_task_reproducer'' then run_reproducer_result g w output l
      else l)"

definition post_patch_signal :: "string \<Rightarrow> string \<Rightarrow> string" where
  "post_patch_signal tool_name output =
     (if tool_name = ''write_task_reproducer'' then
        (if str_contains output ''SW_TASK_REPRODUCER_STATUS=qualified'' then ''post_patch_task_reproducer_qualified''
         else ''post_patch_task_reproducer_unavailable'')
      else if tool_name = ''run_task_reproducer'' then
        (if causal_task_reproducer_delta output \<noteq> None then ''post_patch_task_reproducer_delta''
         else ''post_patch_task_reproducer_unavailable'')
      else ''post_patch_task_evidence_observed'')"

definition record_post_patch_task_evidence_result :: "'w git \<Rightarrow> 'w \<Rightarrow> string \<Rightarrow> string \<Rightarrow> causal_loop \<Rightarrow> causal_loop" where
  "record_post_patch_task_evidence_result g w tool_name output l =
     (let delta = causal_task_reproducer_delta output;
          detail = (case delta of Some d \<Rightarrow> ''delta='' @ test_delta_str d | None \<Rightarrow> causal_reason_from_tool_output output);
          l1 = record_causal_event (EvValidationObserved (post_patch_signal tool_name output) detail) l
      in case delta of None \<Rightarrow> l1 | Some d \<Rightarrow> on_store (\<lambda>s. snd (observe_reproducer g w d s)) l1)"

definition loop_state :: "causal_loop \<Rightarrow> causal_state option" where
  "loop_state l = map_option rc_state (cl_controller l)"

definition prepare_causal_patch :: "string \<Rightarrow> causal_loop \<Rightarrow> causal_loop" where
  "prepare_causal_patch fingerprint l =
     (let l1 = on_store (begin_patch fingerprint) l
      in case loop_state l1 of
           None \<Rightarrow> l1
         | Some state \<Rightarrow>
             (let l2 = (if state = BaselineMapped
                        then record_causal_event (EvNoCausalOracle ''production edit began before a task reproducer was qualified'') l1 else l1);
                  l3 = (if is_some_and (\<lambda>s. s \<noteq> RepairPlanned) (loop_state l2)
                        then record_causal_event (EvRepairPlanned ''production edit accepted'') l2 else l2)
              in record_causal_event (EvPatchApplied fingerprint) l3))"

definition show_bool :: "bool \<Rightarrow> string" where
  "show_bool b = (if b then ''true'' else ''false'')"

definition trace_detail :: "causal_scope_assessment \<Rightarrow> string \<Rightarrow> string" where
  "trace_detail a scope_desc =
     ''scope='' @ scope_desc @ '' keys='' @ join '','' (ca_scope_keys a) @ '' signal='' @ scope_signal_str (ca_signal a)
     @ '' kind='' @ signal_kind_str (va_kind (ca_validation a)) @ '' trust='' @ trust_tier_str (vd_trust_tier (va_decision (ca_validation a)))
     @ '' blocking='' @ show_bool (vd_candidate_blocking (va_decision (ca_validation a)))
     @ '' reason='' @ vd_reason (va_decision (ca_validation a))"

definition route_signal :: "causal_scope_assessment \<Rightarrow> causal_loop \<Rightarrow> causal_loop" where
  "route_signal a l =
     (let reason = vd_reason (va_decision (ca_validation a));
          passed = (if loop_state l = Some PatchApplied then record_causal_event EvStructuralPass l else l)
      in case ca_signal a of
           RegressionPass \<Rightarrow> record_causal_event EvRegressionPass passed
         | RegressionFailure \<Rightarrow> record_causal_event (EvRegressionFailure reason) l
         | TaskScopeImproved \<Rightarrow> passed
         | StructuralPass \<Rightarrow> passed
         | StructuralFailure \<Rightarrow> record_causal_event (EvStructuralFailure reason) l
         | UnavailableSignal \<Rightarrow> record_causal_event (EvStructuralUnavailable reason) l
         | _ \<Rightarrow> record_causal_event (EvRepairPlanned (scope_signal_str (ca_signal a) @ '': '' @ reason)) l)"

definition record_causal_scope_validation ::
  "oracle_serde \<Rightarrow> oracle_world \<Rightarrow> 'w git \<Rightarrow> 'w \<Rightarrow> json \<Rightarrow> string \<Rightarrow> string \<Rightarrow> diff_stat list \<Rightarrow> causal_loop \<Rightarrow>
   causal_scope_assessment \<times> causal_loop" where
  "record_causal_scope_validation sd ow g w scope scope_desc output changed_files l =
     (let a = assess_scope sd scope output changed_files ow;
          l1 = record_causal_event (EvValidationObserved (scope_signal_str (ca_signal a)) (trace_detail a scope_desc)) l
      in (a, on_store (\<lambda>s. snd (observe_scope g w (ca_signal a) s)) (route_signal a l1)))"

definition record_causal_validation_unavailable :: "string \<Rightarrow> string \<Rightarrow> causal_loop \<Rightarrow> causal_loop" where
  "record_causal_validation_unavailable scope_desc reason l =
     record_causal_event (EvStructuralUnavailable reason)
       (record_causal_event (EvValidationObserved ''unavailable'' (''scope='' @ scope_desc @ '' reason='' @ reason)) l)"

definition record_causal_structural_checkpoint :: "'w git \<Rightarrow> 'w \<Rightarrow> causal_loop \<Rightarrow> causal_loop" where
  "record_causal_structural_checkpoint g w l =
     on_store (\<lambda>s. snd (observe_scope g w StructuralPass s)) (record_causal_event EvStructuralPass l)"

definition record_first_clean_candidate_acceptance :: "'w git \<Rightarrow> 'w \<Rightarrow> causal_loop \<Rightarrow> string \<times> causal_loop" where
  "record_first_clean_candidate_acceptance g w l =
     (let fingerprint = patch_fingerprint g w
      in (fingerprint, record_causal_event (EvFreeze (''first benchmark-clean candidate accepted fingerprint='' @ fingerprint)) l))"

section \<open>The best candidate only improves\<close>

lemma patch_strictly_contains_iff:
  "patch_strictly_contains candidate retained \<longleftrightarrow>
     patch_change_atoms retained \<noteq> [] \<and> mset (patch_change_atoms retained) \<subset># mset (patch_change_atoms candidate)"
proof -
  let ?c = "patch_change_atoms candidate" and ?r = "patch_change_atoms retained"
  have sub: "list_all (\<lambda>a. count_list ?c a \<ge> count_list ?r a) (remdups ?r) \<longleftrightarrow> mset ?r \<subseteq># mset ?c"
    by (auto simp: list_all_iff subseteq_mset_def count_mset)
  have "mset ?r \<subset># mset ?c \<longleftrightarrow> mset ?r \<subseteq># mset ?c \<and> length ?r < length ?c"
    by (metis mset_subset_size size_mset subset_mset.less_le order_less_irrefl)
  with sub show ?thesis by (auto simp: patch_strictly_contains_def Let_def)
qed

definition improves :: "checkpoint_rec \<Rightarrow> checkpoint_rec \<Rightarrow> bool" where
  "improves b b' \<longleftrightarrow> b' = b \<or> quality (ck_evidence b) < quality (ck_evidence b') \<or>
     quality (ck_evidence b) = quality (ck_evidence b') \<and>
     mset (patch_change_atoms (ck_patch b)) \<subset># mset (patch_change_atoms (ck_patch b'))"

lemma improves_trans: "improves a b \<Longrightarrow> improves b c \<Longrightarrow> improves a c"
  by (auto simp: improves_def)

lemma should_replace_improves: "should_replace b c \<Longrightarrow> improves b c"
  by (auto simp: should_replace_def improves_def patch_strictly_contains_iff split: if_splits)

datatype store_op = Begin string | Scope causal_scope_signal | Reproducer test_delta

fun store_step :: "'w git \<Rightarrow> store_op \<times> 'w \<Rightarrow> checkpoint_store \<Rightarrow> checkpoint_store" where
  "store_step g (Begin f, w) s = begin_patch f s"
| "store_step g (Scope signal, w) s = snd (observe_scope g w signal s)"
| "store_step g (Reproducer delta, w) s = snd (observe_reproducer g w delta s)"

definition store_run :: "'w git \<Rightarrow> (store_op \<times> 'w) list \<Rightarrow> checkpoint_store" where
  "store_run g ops = fold (store_step g) ops empty_store"

definition sound_checkpoint :: "'w git \<Rightarrow> 'w set \<Rightarrow> checkpoint_rec \<Rightarrow> bool" where
  "sound_checkpoint g W b \<longleftrightarrow>
     is_evidence_backed (ck_evidence b) \<and> ck_patch b \<noteq> [] \<and> ck_fingerprint b = stable_hash (ck_patch b) \<and>
     (\<exists>w \<in> W. git_diff g w = Ok (ck_patch b))"

lemma current_patch_diff:
  "current_patch g w = Ok p \<Longrightarrow> git_diff g w = Ok (cp_patch p) \<and> cp_fingerprint p = stable_hash (cp_patch p)"
  by (auto simp: current_patch_def split: sum.splits if_splits)

lemma backed_lines [simp]: "is_evidence_backed (e\<lparr>ce_changed_lines := n\<rparr>) = is_evidence_backed e"
  by (simp add: is_evidence_backed_def)

lemma consider_current_best:
  "cs_best (snd (consider_current g w s)) = cs_best s \<or>
   (\<exists>c. cs_best (snd (consider_current g w s)) = Some c \<and> sound_checkpoint g {w} c \<and>
      (case cs_best s of None \<Rightarrow> True | Some b \<Rightarrow> improves b c))"
proof (cases "is_evidence_backed (cs_current_evidence s)")
  case backed: True
  show ?thesis
  proof (cases "current_patch g w")
    case (Inr p)
    let ?e = "(cs_current_evidence s)\<lparr>ce_changed_lines := cp_changed_lines p\<rparr>"
    let ?c = "\<lparr>ck_fingerprint = cp_fingerprint p, ck_patch = cp_patch p, ck_evidence = ?e\<rparr>"
    show ?thesis
    proof (cases "cp_patch p = []")
      case False
      with backed current_patch_diff [OF Inr] have "sound_checkpoint g {w} ?c" by (simp add: sound_checkpoint_def)
      then show ?thesis
        using backed Inr False should_replace_improves [of _ ?c]
        by (auto simp: consider_current_def Let_def split: option.splits)
    qed (use backed Inr in \<open>simp add: consider_current_def\<close>)
  qed (use backed in \<open>simp add: consider_current_def\<close>)
qed (simp add: consider_current_def)

lemma store_step_best:
  "cs_best (store_step g (op0, w) s) = cs_best s \<or>
   (\<exists>c. cs_best (store_step g (op0, w) s) = Some c \<and> sound_checkpoint g {w} c \<and>
      (case cs_best s of None \<Rightarrow> True | Some b \<Rightarrow> improves b c))"
proof (cases op0)
  case (Begin f)
  then show ?thesis by (simp add: begin_patch_def)
next
  case (Scope signal)
  then show ?thesis
    using consider_current_best [of g w "s\<lparr>cs_current_evidence := note_scope signal (cs_current_evidence s)\<rparr>"]
    by (simp add: observe_scope_def)
next
  case (Reproducer delta)
  then show ?thesis
    using consider_current_best [of g w "s\<lparr>cs_current_evidence := note_reproducer delta (cs_current_evidence s)\<rparr>"]
    by (simp add: observe_reproducer_def)
qed

lemma sound_mono: "sound_checkpoint g W b \<Longrightarrow> W \<subseteq> W' \<Longrightarrow> sound_checkpoint g W' b"
  by (auto simp: sound_checkpoint_def)

lemma store_fold:
  assumes "\<And>b. cs_best s = Some b \<Longrightarrow> sound_checkpoint g W b"
  shows "(\<forall>b. cs_best (fold (store_step g) ops s) = Some b \<longrightarrow> sound_checkpoint g (W \<union> snd ` set ops) b) \<and>
    (\<forall>b. cs_best s = Some b \<longrightarrow> (\<exists>b'. cs_best (fold (store_step g) ops s) = Some b' \<and> improves b b'))"
  using assms
proof (induction ops arbitrary: s W)
  case Nil
  then show ?case by (auto simp: improves_def)
next
  case (Cons x ops)
  obtain op0 w where x: "x = (op0, w)" by fastforce
  let ?s = "store_step g (op0, w) s"
  note st = store_step_best [of g op0 w s]
  have sound: "sound_checkpoint g (insert w W) b" if "cs_best ?s = Some b" for b
  proof (cases "cs_best ?s = cs_best s")
    case True
    with that Cons.prems [of b] show ?thesis using sound_mono [of g W b "insert w W"] by auto
  next
    case False
    with st that have "sound_checkpoint g {w} b" by auto
    then show ?thesis using sound_mono [of g "{w}" b "insert w W"] by auto
  qed
  have step: "\<exists>b'. cs_best ?s = Some b' \<and> improves b b'" if "cs_best s = Some b" for b
    using st that by (auto simp: improves_def)
  note IH = Cons.IH [of ?s "insert w W", OF sound]
  have W: "insert w W \<union> snd ` set ops = W \<union> snd ` set (x # ops)" using x by auto
  have run: "fold (store_step g) (x # ops) s = fold (store_step g) ops ?s" using x by simp
  have "\<exists>b'. cs_best (fold (store_step g) ops ?s) = Some b' \<and> improves b b'" if "cs_best s = Some b" for b
  proof -
    from step [OF that] obtain c where c: "cs_best ?s = Some c" "improves b c" by blast
    from IH c(1) obtain b' where "cs_best (fold (store_step g) ops ?s) = Some b'" "improves c b'" by blast
    then show ?thesis using improves_trans [OF c(2)] by blast
  qed
  with IH show ?case unfolding run W by blast
qed

lemma best_sound: "cs_best (store_run g ops) = Some b \<Longrightarrow> sound_checkpoint g (snd ` set ops) b"
  using store_fold [of empty_store g "{}" ops] by (simp add: store_run_def empty_store_def)


definition text_git :: "string git" where
  "text_git =
     \<lparr>git_status = \<lambda>_. Ok [], git_diff = Ok,
      git_apply = \<lambda>p rev0 w. if rev0 then (if p = w then (Ok (), []) else (Err ''patch does not apply'', w))
        else if w = [] then (Ok (), p) else (Err ''patch does not apply'', w)\<rparr>"

definition patch_one :: string where
  "patch_one = ''diff --git a/f b/f'' @ [CHR 0x0A] @ ''+x'' @ [CHR 0x0A]"

definition patch_two :: string where
  "patch_two = patch_one @ ''+y'' @ [CHR 0x0A]"

lemma length_hex_digits [simp]: "length (hex_digits n h) = n"
  by (induction n arbitrary: h) simp_all

lemma length_stable_hash [simp]: "length (stable_hash p) = 16"
  by (simp add: stable_hash_def)

lemma hash_not_short: "length f < 16 \<Longrightarrow> stable_hash p \<noteq> f"
  using length_stable_hash [of p] by force

lemma patch_facts:
  "patch_one \<noteq> []" "patch_two \<noteq> []" "patch_two \<noteq> patch_one" "patch_strictly_contains patch_two patch_one"
  by code_simp+

lemma current_text:
  "current_patch text_git w = Ok \<lparr>cp_fingerprint = stable_hash w, cp_patch = w,
     cp_changed_lines = length (filter changed_line (split_on (\<lambda>c. c = CHR 0x0A) w))\<rparr>"
  by (simp add: current_patch_def text_git_def str_lines_def)

lemma apply_text:
  "p \<noteq> [] \<Longrightarrow> apply_patch text_git p True p = (Ok (), [])" "apply_patch text_git p False [] = (Ok (), p)"
  by (simp_all add: apply_patch_def text_git_def)

lemmas store_run_simps = store_run_def empty_store_def begin_patch_def observe_scope_def observe_reproducer_def consider_current_def
  note_scope_def note_reproducer_def no_evidence_def is_evidence_backed_def should_replace_def quality_def current_text patch_facts Let_def


section \<open>Restoring\<close>

text \<open>
  What the code relies on: a patch that does not apply leaves the tree alone, taking back the whole diff of a
  tree leaves a tree without a diff, from which the diff can be applied again, and a diff applied to such a tree is its diff.
\<close>

definition git_lawful :: "'w git \<Rightarrow> bool" where
  "git_lawful g \<longleftrightarrow>
     (\<forall>p r w e w'. git_apply g p r w = (Err e, w') \<longrightarrow> w' = w) \<and>
     (\<forall>p w w'. git_diff g w = Ok p \<longrightarrow> git_apply g p True w = (Ok (), w') \<longrightarrow>
        git_diff g w' = Ok [] \<and> git_apply g p False w' = (Ok (), w)) \<and>
     (\<forall>p v w w'. git_diff g v = Ok p \<longrightarrow> git_diff g w = Ok [] \<longrightarrow> git_apply g p False w = (Ok (), w') \<longrightarrow> git_diff g w' = Ok p)"

lemma lawful_fails: "git_lawful g \<Longrightarrow> git_apply g p r w = (Err e, w') \<Longrightarrow> w' = w"
  unfolding git_lawful_def by blast

lemma lawful_reverts:
  "git_lawful g \<Longrightarrow> git_diff g w = Ok p \<Longrightarrow> git_apply g p True w = (Ok (), w') \<Longrightarrow>
     git_diff g w' = Ok [] \<and> git_apply g p False w' = (Ok (), w)"
  unfolding git_lawful_def by blast

lemma lawful_applies:
  "git_lawful g \<Longrightarrow> git_diff g v = Ok p \<Longrightarrow> git_diff g w = Ok [] \<Longrightarrow> git_apply g p False w = (Ok (), w') \<Longrightarrow> git_diff g w' = Ok p"
  unfolding git_lawful_def by blast

lemma lawful_revert:
  assumes "git_lawful g" "git_diff g w = Ok p" "apply_patch g p True w = (r, w1)"
  shows "r = Err e \<Longrightarrow> w1 = w" "r = Ok () \<Longrightarrow> git_diff g w1 = Ok []" "r = Ok () \<Longrightarrow> apply_patch g p False w1 = (Ok (), w)"
  using assms(2,3) lawful_fails [OF assms(1), of p True w e w1] lawful_reverts [OF assms(1,2), of w1]
  by (simp_all add: apply_patch_def split: if_splits)

lemma lawful_forward:
  assumes "git_lawful g" "git_diff g w = Ok []" "apply_patch g p False w = (r, w2)"
  shows "r = Err e \<Longrightarrow> w2 = w" "r = Ok () \<Longrightarrow> git_diff g v = Ok p \<Longrightarrow> git_diff g w2 = Ok p"
  using assms(2,3) lawful_fails [OF assms(1), of p False w e w2] lawful_applies [OF assms(1) _ assms(2), of v p w2]
  by (simp_all add: apply_patch_def split: if_splits)



section \<open>Two gaps of the bookkeeping\<close>

lemma fingerprint_never_matches: "patch_fingerprint g w \<noteq> stable_hash p"
proof
  assume "patch_fingerprint g w = stable_hash p"
  then have "length (patch_fingerprint g w) = 16" by simp
  then show False by (simp add: patch_fingerprint_def)
qed

text \<open>
  Evidence does not follow the patch. The store keeps its evidence when the working tree changes between two
  observations, so a larger patch inherits the fixed reproducer of the smaller one and replaces it as the best candidate; and the
  fingerprint the harness announces for a patch never equals the store's own, so announcing the unchanged patch again
  drops the evidence collected for it.
\<close>

theorem evidence_not_tied_to_patch:
  "is_some_and (\<lambda>b. ck_patch b = patch_two \<and> ce_reproducer_fixed (ck_evidence b))
     (cs_best (store_run text_git [(Reproducer Fixed, patch_one), (Scope StructuralPass, patch_two)])) \<and>
   patch_fingerprint g w \<noteq> stable_hash p \<and>
   cs_current_evidence (begin_patch (patch_fingerprint text_git patch_one) (store_run text_git [(Scope RegressionPass, patch_one)])) = no_evidence"
  using fingerprint_never_matches [of text_git patch_one patch_one]
  by (intro conjI fingerprint_never_matches; simp add: store_run_simps)

section \<open>The controller follows the validation\<close>

lemma loop_state_event [simp]:
  "loop_state (record_causal_event e l) = map_option (\<lambda>s. unwrap_or s (next_state s e)) (loop_state l)"
  by (simp add: loop_state_def record_causal_event_def option.map_comp comp_def record_event_parts(1))

lemma loop_state_store [simp]: "loop_state (on_store f l) = loop_state l"
  by (simp add: loop_state_def on_store_def)

text \<open>
  C24: The controller says what the last validation said. A production edit takes any started repair that is not frozen to \<open>PatchApplied\<close>. After a
  validation of that patch the repair is regression green exactly when a baseline-passing scope passed, structurally green when it passed without that
  baseline, and planned again when it failed or could not run; while in any running state a failed or unavailable
  validation leads back to planning, so that no green state outlives it.
\<close>

theorem controller_follows_validation:
  assumes "loop_state l = Some s" "running s"
    and "record_causal_scope_validation sd ow g w scope scope_desc output changed (prepare_causal_patch fingerprint l) = (a, l1)"
    and "record_causal_scope_validation sd ow g w scope scope_desc output changed l = (b, l2)"
  shows "loop_state (prepare_causal_patch fingerprint l) = Some PatchApplied \<and>
    loop_state l1 = Some (if ca_signal a = RegressionPass then RegressionGreen
        else if is_pass_like (ca_signal a) then StructuralGreen else RepairPlanned) \<and>
    (is_pass_like (ca_signal b) \<or> loop_state l2 = Some RepairPlanned)"
proof -
  have prep: "loop_state (prepare_causal_patch fingerprint l) = Some PatchApplied"
    using assms by (cases s) (auto simp: prepare_causal_patch_def Let_def unwrap_or_def running_def)
  moreover have "loop_state l1 = Some (if ca_signal a = RegressionPass then RegressionGreen
        else if is_pass_like (ca_signal a) then StructuralGreen else RepairPlanned)"
    using assms(3) prep
    by (cases "ca_signal a")
      (auto simp: record_causal_scope_validation_def Let_def route_signal_def unwrap_or_def is_pass_like_def running_def)
  moreover have "is_pass_like (ca_signal b) \<or> loop_state l2 = Some RepairPlanned"
    using assms(1,2,4)
    by (cases "ca_signal b")
      (auto simp: record_causal_scope_validation_def Let_def route_signal_def unwrap_or_def is_pass_like_def running_def)
  ultimately show ?thesis by blast
qed

theorem controller_follows_validation_witness:
  "let l = \<lparr>cl_controller = Some (run_events [EvBaselineMapped 1]), cl_store = Some empty_store\<rparr>;
       validate = record_causal_scope_validation (table_serde []) fresh_world text_git patch_one (JObject []) [] passing_run []
   in loop_state (snd (validate (prepare_causal_patch ''f'' l))) = Some StructuralGreen"
proof -
  let ?l = "\<lparr>cl_controller = Some (run_events [EvBaselineMapped 1]), cl_store = Some empty_store\<rparr>"
  let ?v = "record_causal_scope_validation (table_serde []) fresh_world text_git patch_one (JObject []) [] passing_run []"
  have s: "loop_state ?l = Some BaselineMapped" "running BaselineMapped" by code_simp+
  have sig: "ca_signal (fst (?v (prepare_causal_patch ''f'' ?l))) = StructuralPass" by code_simp
  obtain a l1 b l2 where v: "?v (prepare_causal_patch ''f'' ?l) = (a, l1)" "?v ?l = (b, l2)" by (metis prod.exhaust)
  show ?thesis using controller_follows_validation [OF s v] sig v(1) by (simp add: is_pass_like_def)
qed

end
