(* ===== verification/CandidateBank.thy ===== *)
theory CandidateBank
  imports TestSignals
begin

text \<open>
  Snapshots of the working tree (\<open>crates/cli/src/tools.rs\<close>) and the bank of candidate patches the command-line agent retains
  (\<open>crates/cli/src/candidate_bank.rs\<close>). A tree is the sorted dictionary of its files; reading and writing succeed. The listing by \<open>git ls-files\<close> and the
  current diff are parameters. Reports and events are written for the reader of a run and left out.
\<close>

type_synonym tree = "(string \<times> string) list"

section \<open>Snapshots\<close>

definition should_ignore_snapshot_path :: "string \<Rightarrow> bool" where
  "should_ignore_snapshot_path path =
     (let normalized = slashes path
      in normalized = ''.git''
         \<or> starts_any normalized [''.git/'', ''.venv/'', ''venv/'', ''__pycache__/'', ''.pytest_cache/'', ''.mypy_cache/'', ''.ruff_cache/'',
             ''.tox/'', ''node_modules/'', ''target/'', ''dist/'', ''build/'']
         \<or> contains_any normalized [''/__pycache__/'', ''/.pytest_cache/'', ''/node_modules/'', ''/target/''])"

text \<open>The walk skips ignored directories, whose files are ignored too: an ignored path stays ignored when it is extended.\<close>

definition list_current_files :: "tree \<Rightarrow> string list" where
  "list_current_files t = filter (\<lambda>path. \<not> should_ignore_snapshot_path path) (bt_keys t)"

definition list_repo_files :: "(tree \<Rightarrow> string option) \<Rightarrow> tree \<Rightarrow> string list" where
  "list_repo_files ls_files t =
     (case ls_files t of
        None \<Rightarrow> list_current_files t
      | Some stdout \<Rightarrow>
          (let files = filter (\<lambda>line. line \<noteq> [] \<and> \<not> should_ignore_snapshot_path line) (map trim (str_lines stdout))
           in if files \<noteq> [] then files else list_current_files t))"

definition add_file :: "tree \<Rightarrow> string \<Rightarrow> tree \<Rightarrow> tree" where
  "add_file t path snap = (case bt_get t path of None \<Rightarrow> snap | Some content \<Rightarrow> bt_insert path content snap)"

definition snapshot_workdir :: "(tree \<Rightarrow> string option) \<Rightarrow> tree \<Rightarrow> tree" where
  "snapshot_workdir ls_files t = fold (add_file t) (list_repo_files ls_files t) []"

definition kept_by_restore :: "oracle_serde \<Rightarrow> oracle_world \<Rightarrow> string \<Rightarrow> bool" where
  "kept_by_restore sd ow path \<longleftrightarrow> ow_env ow ''SW_EVAL_IMAGE'' = Some ''1'' \<and> is_protected_setup_artifact sd path ow"

definition remove_foreign :: "oracle_serde \<Rightarrow> oracle_world \<Rightarrow> tree \<Rightarrow> string \<Rightarrow> tree \<Rightarrow> tree" where
  "remove_foreign sd ow snap path t =
     (if bt_contains_key snap path \<or> kept_by_restore sd ow path then t else bt_remove path t)"

definition restore_snapshot_inner :: "oracle_serde \<Rightarrow> oracle_world \<Rightarrow> tree \<Rightarrow> tree \<Rightarrow> tree" where
  "restore_snapshot_inner sd ow snap t =
     fold (\<lambda>(path, content). bt_insert path content) snap (fold (remove_foreign sd ow snap) (list_current_files t) t)"

section \<open>Scores\<close>

text \<open>Arithmetic of \<open>i32\<close>, which wraps in a release build.\<close>

definition to_i32 :: "int \<Rightarrow> int" where
  "to_i32 x = signed_take_bit 31 x"

definition total_lines :: "diff_stat list \<Rightarrow> nat" where
  "total_lines changed = sum_list (map (\<lambda>(_, lines, _). lines) changed)"

definition invalid_test_scope_signal :: "string \<Rightarrow> bool" where
  "invalid_test_scope_signal output \<longleftrightarrow>
     contains_any (to_ascii_lowercase output)
       [''one of the test labels is a path to a file'', ''use a dotted module name or path to a directory instead'', ''sw_test_exit_code=5'',
        ''no tests ran'', ''no tests collected'', ''collected 0 items'', ''importerror while loading conftest'',
        ''astropy.logger.loggingerror'', ''cannot disable warnings logging'', ''could not determine astropy package version'']"

definition score_candidate :: "diff_stat list \<Rightarrow> string \<Rightarrow> u32 \<Rightarrow> int" where
  "score_candidate changed test_output same_failure_count =
     (let lower = to_ascii_lowercase test_output
      in to_i32 (100 - int (length changed - 1) * 8 - int (total_lines changed - 4) - int (unat same_failure_count - 1) * 6
           - (if contains_any lower [''syntaxerror'', ''indentationerror'', ''parse''] then 35 else 0)
           - (if invalid_test_scope_signal test_output then 50 else 0)
           - (if contains_any lower [''modulenotfounderror'', ''importerror''] then 18 else 0)
           - (if contains_any lower [''sw_test_exit_code=5'', ''no tests ran'', ''collected 0 items''] then 20 else 0)))"

definition score_feedback_pass_candidate :: "diff_stat list \<Rightarrow> bool \<Rightarrow> u32 \<Rightarrow> int" where
  "score_feedback_pass_candidate changed feedback_only validation_hits =
     to_i32 ((if feedback_only then 45 + int (min (unat validation_hits - 1) 3) * 8 else 140)
       - int (length changed - 1) * 10 - int (total_lines changed - 8))"

definition score_current_diff :: "diff_stat list \<Rightarrow> int" where
  "score_current_diff changed =
     (if changed = [] then - (2 ^ 30) else to_i32 (100 - int (length changed - 1) * 8 - int (total_lines changed - 4)))"

definition failure_signature :: "string \<Rightarrow> string" where
  "failure_signature output =
     (let lines = map (take 180) (take 8 (filter (\<lambda>line. contains_any (to_ascii_lowercase line)
            [''failed'', ''error'', ''assert'', ''traceback'', ''sw_test_exit_code'']) (map trim (str_lines output))))
      in join '' | '' (if lines = []
           then [take 180 (case str_lines output of [] \<Rightarrow> ''unknown failure'' | line # _ \<Rightarrow> line)] else lines))"

section \<open>The bank\<close>

datatype candidate_bank_mode = Sequential | BestOfN

record candidate_patch =
  cp_id :: u32
  cp_score :: int
  cp_snapshot :: tree
  cp_changed_files :: "string list"
  cp_changed_lines :: nat
  cp_failure_signature :: string
  cp_scope_desc :: string
  cp_positive_feedback :: bool
  cp_feedback_only :: bool
  cp_validation_hits :: u32

record candidate_bank =
  cb_enabled :: bool
  cb_max_candidates :: nat
  cb_reanchor_best_path :: bool
  cb_early_stop :: bool
  cb_early_stop_min_score :: int
  cb_early_stop_fail_count :: u32
  cb_next_id :: u32
  cb_candidates :: "candidate_patch list"
  cb_mode :: candidate_bank_mode

definition env_flag :: "string \<Rightarrow> bool \<Rightarrow> oracle_world \<Rightarrow> bool" where
  "env_flag name default0 w =
     (case ow_env w name of
        None \<Rightarrow> default0
      | Some value \<Rightarrow> to_ascii_lowercase (trim value) \<in> set [''1'', ''true'', ''yes'', ''on'', ''bank'', ''candidate''])"

definition clamp :: "'a::linorder \<Rightarrow> 'a \<Rightarrow> 'a \<Rightarrow> 'a" where
  "clamp lo hi x = (if x < lo then lo else if x > hi then hi else x)"

text \<open>\<open>str::parse\<close> for the unsigned integers of the given width.\<close>

definition parse_unsigned :: "nat \<Rightarrow> string \<Rightarrow> nat option" where
  "parse_unsigned bits s =
     (case decimal (case s of c # cs \<Rightarrow> if c = CHR ''+'' then cs else s | [] \<Rightarrow> s) of
        None \<Rightarrow> None
      | Some n \<Rightarrow> if int n < 2 ^ bits then Some n else None)"

definition env_number :: "(string \<Rightarrow> 'a::linorder option) \<Rightarrow> string \<Rightarrow> 'a \<Rightarrow> 'a \<Rightarrow> 'a \<Rightarrow> oracle_world \<Rightarrow> 'a" where
  "env_number parse name default0 lo hi w =
     (case Option.bind (ow_env w name) (\<lambda>value. parse (trim value)) of None \<Rightarrow> default0 | Some v \<Rightarrow> clamp lo hi v)"

definition mode_from_env :: "oracle_world \<Rightarrow> candidate_bank_mode" where
  "mode_from_env w =
     (if to_ascii_lowercase (trim (unwrap_or [] (or_else (ow_env w ''SW_CANDIDATE_BANK_MODE'') (ow_env w ''SW_PATCH_TOURNAMENT''))))
         \<in> set [''1'', ''true'', ''yes'', ''on'', ''best_of_n'', ''best-of-n'', ''bestofn'', ''parallel'', ''fanout'', ''tournament'']
      then BestOfN else Sequential)"

definition bank_from_env :: "oracle_world \<Rightarrow> candidate_bank" where
  "bank_from_env w =
     \<lparr>cb_enabled = env_flag ''SW_CANDIDATE_BANK'' False w,
      cb_max_candidates = env_number (parse_unsigned 64) ''SW_CANDIDATE_BANK_MAX'' 4 1 12 w,
      cb_reanchor_best_path = env_flag ''SW_CANDIDATE_BANK_REANCHOR'' False w,
      cb_early_stop = env_flag ''SW_CANDIDATE_BANK_EARLY_STOP'' False w,
      cb_early_stop_min_score = env_number parse_i32 ''SW_CANDIDATE_BANK_EARLY_STOP_MIN_SCORE'' 60 (- 200) 200 w,
      cb_early_stop_fail_count =
        of_nat (env_number (parse_unsigned 32) ''SW_CANDIDATE_BANK_EARLY_STOP_FAIL_COUNT'' 6 3 20 w),
      cb_next_id = 1, cb_candidates = [], cb_mode = mode_from_env w\<rparr>"

definition has_authoritative_source_patch :: "candidate_patch \<Rightarrow> bool" where
  "has_authoritative_source_patch c \<longleftrightarrow> patch_has_authoritative_source (cp_changed_files c) (cp_changed_lines c)"

definition restore_allowed_without_early_stop :: "candidate_patch \<Rightarrow> bool" where
  "restore_allowed_without_early_stop c \<longleftrightarrow>
     \<not> (\<not> has_authoritative_source_patch c \<or> cp_feedback_only c) \<and> cp_positive_feedback c"

definition final_restore_allowed :: "candidate_patch \<Rightarrow> bool" where
  "final_restore_allowed c \<longleftrightarrow> has_authoritative_source_patch c \<and> cp_positive_feedback c \<and> \<not> cp_feedback_only c"

definition reanchor_allowed :: "candidate_patch \<Rightarrow> bool" where
  "reanchor_allowed c \<longleftrightarrow> has_authoritative_source_patch c \<and> cp_positive_feedback c"

text \<open>\<open>Iterator::max_by\<close>: the last of several maximal elements.\<close>

definition max_by :: "('a \<Rightarrow> 'a \<Rightarrow> bool) \<Rightarrow> 'a list \<Rightarrow> 'a option" where
  "max_by le xs = fold (\<lambda>c best. case best of None \<Rightarrow> Some c | Some b \<Rightarrow> if le b c then Some c else Some b) xs None"

definition score_le :: "candidate_patch \<Rightarrow> candidate_patch \<Rightarrow> bool" where
  "score_le a b \<longleftrightarrow> cp_score a < cp_score b \<or> cp_score a = cp_score b \<and> cp_changed_lines b \<le> cp_changed_lines a"

definition final_le :: "candidate_patch \<Rightarrow> candidate_patch \<Rightarrow> bool" where
  "final_le a b \<longleftrightarrow>
     cp_score a < cp_score b \<or> cp_score a = cp_score b \<and>
       (cp_validation_hits a < cp_validation_hits b \<or>
        cp_validation_hits a = cp_validation_hits b \<and> cp_changed_lines b \<le> cp_changed_lines a)"

definition best_candidate_matching :: "(candidate_patch \<Rightarrow> bool) \<Rightarrow> candidate_bank \<Rightarrow> candidate_patch option" where
  "best_candidate_matching P b = max_by score_le (filter P (cb_candidates b))"

definition best_candidate_for_final_restore :: "candidate_bank \<Rightarrow> candidate_patch option" where
  "best_candidate_for_final_restore b = max_by final_le (filter final_restore_allowed (cb_candidates b))"

definition best_changed_files :: "candidate_bank \<Rightarrow> string list" where
  "best_changed_files b = (case best_candidate_matching reanchor_allowed b of None \<Rightarrow> [] | Some c \<Rightarrow> cp_changed_files c)"

definition feedback_only_branch_can_discard_current :: "candidate_bank \<Rightarrow> bool" where
  "feedback_only_branch_can_discard_current b =
     (case best_candidate_for_final_restore b of None \<Rightarrow> False | Some c \<Rightarrow> cp_positive_feedback c \<and> cp_feedback_only c)"

definition prune :: "candidate_bank \<Rightarrow> candidate_bank" where
  "prune b = b\<lparr>cb_candidates :=
     take (cb_max_candidates b) (sort_key (\<lambda>c. - cp_score c) (sort_key cp_changed_lines (cb_candidates b)))\<rparr>"

definition next_bank_id :: "u32 \<Rightarrow> u32" where
  "next_bank_id n = (if n = - 1 then n else n + 1)"

definition add_candidate :: "candidate_patch \<Rightarrow> candidate_bank \<Rightarrow> candidate_bank" where
  "add_candidate c b = prune (b\<lparr>cb_next_id := next_bank_id (cb_next_id b), cb_candidates := cb_candidates b @ [c]\<rparr>)"

definition record_failed_candidate ::
  "(tree \<Rightarrow> string option) \<Rightarrow> tree \<Rightarrow> diff_stat list \<Rightarrow> string \<Rightarrow> string \<Rightarrow> u32 \<Rightarrow> candidate_bank \<Rightarrow> candidate_bank" where
  "record_failed_candidate ls_files t changed test_output scope_desc same_failure_count b =
     (let files = map fst changed; lines = total_lines changed; signature = failure_signature test_output
      in if \<not> cb_enabled b \<or> changed = [] then b
         else if lines = 0 then b
         else if \<not> patch_has_authoritative_source files lines then b
         else if invalid_test_scope_signal test_output then b
         else if list_ex (\<lambda>c. cp_changed_files c = files \<and> cp_failure_signature c = signature) (cb_candidates b) then b
         else add_candidate
           \<lparr>cp_id = cb_next_id b, cp_score = score_candidate changed test_output same_failure_count,
            cp_snapshot = snapshot_workdir ls_files t, cp_changed_files = files, cp_changed_lines = lines,
            cp_failure_signature = signature, cp_scope_desc = scope_desc, cp_positive_feedback = False,
            cp_feedback_only = False, cp_validation_hits = 0\<rparr> b)"

definition corroborates :: "string list \<Rightarrow> string \<Rightarrow> candidate_patch \<Rightarrow> bool" where
  "corroborates files scope_desc c \<longleftrightarrow>
     cp_positive_feedback c \<and> cp_feedback_only c \<and> cp_changed_files c = files \<and> cp_scope_desc c \<noteq> scope_desc"

definition corroborate :: "diff_stat list \<Rightarrow> string \<Rightarrow> candidate_patch \<Rightarrow> candidate_patch" where
  "corroborate changed signature c =
     (let hits = next_bank_id (cp_validation_hits c)
      in c\<lparr>cp_validation_hits := hits, cp_score := score_feedback_pass_candidate changed True hits, cp_failure_signature := signature\<rparr>)"

definition record_feedback_pass_candidate ::
  "(tree \<Rightarrow> string option) \<Rightarrow> tree \<Rightarrow> diff_stat list \<Rightarrow> string \<Rightarrow> string \<Rightarrow> bool \<Rightarrow> candidate_bank \<Rightarrow> candidate_bank" where
  "record_feedback_pass_candidate ls_files t changed test_output scope_desc feedback_only b =
     (let files = map fst changed; lines = total_lines changed;
          signature = ''pass:'' @ (if feedback_only then ''feedback'' else ''trusted'') @ '':'' @ failure_signature test_output
      in if \<not> cb_enabled b \<or> changed = [] then b
         else if lines = 0 then b
         else if \<not> patch_has_authoritative_source files lines then b
         else if feedback_only \<and> invalid_test_scope_signal test_output then b
         else if list_ex (\<lambda>c. cp_positive_feedback c \<and> cp_changed_files c = files \<and> cp_scope_desc c = scope_desc) (cb_candidates b) then b
         else if feedback_only \<and> list_ex (corroborates files scope_desc) (cb_candidates b)
         then prune (b\<lparr>cb_candidates := update_first (corroborates files scope_desc) (corroborate changed signature) (cb_candidates b)\<rparr>)
         else add_candidate
           \<lparr>cp_id = cb_next_id b, cp_score = score_feedback_pass_candidate changed feedback_only 1,
            cp_snapshot = snapshot_workdir ls_files t, cp_changed_files = files, cp_changed_lines = lines,
            cp_failure_signature = signature, cp_scope_desc = scope_desc, cp_positive_feedback = True,
            cp_feedback_only = feedback_only, cp_validation_hits = 1\<rparr> b)"

definition restore_best_for_stagnation :: "oracle_serde \<Rightarrow> oracle_world \<Rightarrow> candidate_bank \<Rightarrow> tree \<Rightarrow> bool \<times> tree" where
  "restore_best_for_stagnation sd ow b t =
     (if \<not> cb_enabled b \<or> \<not> cb_early_stop b then (False, t)
      else case best_candidate_matching restore_allowed_without_early_stop b of
        None \<Rightarrow> (False, t)
      | Some best \<Rightarrow>
          if cp_score best < cb_early_stop_min_score b then (False, t)
          else (True, restore_snapshot_inner sd ow (cp_snapshot best) t))"

text \<open>\<open>i32::saturating_sub\<close>.\<close>

definition saturating_sub_i32 :: "int \<Rightarrow> int \<Rightarrow> int" where
  "saturating_sub_i32 a b = clamp (- (2 ^ 31)) (2 ^ 31 - 1) (a - b)"

definition bank_restore_best_before_final ::
  "oracle_serde \<Rightarrow> oracle_world \<Rightarrow> candidate_bank \<Rightarrow> diff_stat list \<Rightarrow> tree \<Rightarrow> bool \<times> tree" where
  "bank_restore_best_before_final sd ow b current_changed t =
     (if \<not> cb_enabled b \<or> cb_candidates b = [] then (False, t)
      else case best_candidate_for_final_restore b of
        None \<Rightarrow> (False, t)
      | Some best \<Rightarrow>
          if current_changed = [] \<or> saturating_sub_i32 (cp_score best) (score_current_diff current_changed) \<ge> 20
          then (True, restore_snapshot_inner sd ow (cp_snapshot best) t)
          else (False, t))"

section \<open>What a snapshot restores\<close>

lemma bt_get_add_file: "bt_get (add_file t path snap) p = (if p = path \<and> bt_get t path \<noteq> None then bt_get t path else bt_get snap p)"
  by (auto simp: add_file_def bt_simps split: option.splits)

lemma bt_get_snapshot:
  "bt_get (snapshot_workdir ls_files t) p = (if p \<in> set (list_repo_files ls_files t) then bt_get t p else None)"
proof -
  have "bt_get (fold (add_file t) ps snap) p = (if p \<in> set ps \<and> bt_get t p \<noteq> None then bt_get t p else bt_get snap p)" for ps snap
    by (induction ps arbitrary: snap) (auto simp: bt_get_add_file)
  then show ?thesis by (auto simp: snapshot_workdir_def)
qed

lemma bt_get_fold_remove:
  "bt_get (fold (remove_foreign sd ow snap) ps t) p =
     (if p \<in> set ps \<and> \<not> bt_contains_key snap p \<and> \<not> kept_by_restore sd ow p then None else bt_get t p)"
  by (induction ps arbitrary: t) (auto simp: remove_foreign_def bt_simps)

lemma bt_get_fold_insert:
  "bt_get (fold (\<lambda>(path, content). bt_insert path content) snap t) p = (case bt_get (rev snap) p of Some c \<Rightarrow> Some c | None \<Rightarrow> bt_get t p)"
proof (induction snap rule: rev_induct)
  case (snoc x xs)
  obtain k v where "x = (k, v)" by fastforce
  with snoc show ?case by (simp add: bt_simps)
qed simp

lemma bt_get_restore:
  assumes "bt_wf snap"
  shows "bt_get (restore_snapshot_inner sd ow snap t) p =
    (case bt_get snap p of
       Some c \<Rightarrow> Some c
     | None \<Rightarrow> if should_ignore_snapshot_path p \<or> kept_by_restore sd ow p then bt_get t p else None)"
proof -
  have "distinct (bt_keys snap)" using assms by (auto simp: bt_wf_def strict_sorted_iff)
  then have "bt_get (rev snap) p = Some c \<longleftrightarrow> bt_get snap p = Some c" for c
    by (simp add: map_of_eq_Some_iff rev_map [symmetric])
  then have "bt_get (rev snap) p = bt_get snap p" by (metis not_Some_eq)
  moreover have "p \<in> set (list_current_files t) \<longleftrightarrow> bt_get t p \<noteq> None \<and> \<not> should_ignore_snapshot_path p"
    by (auto simp: list_current_files_def map_of_eq_None_iff)
  ultimately show ?thesis
    by (auto simp: restore_snapshot_inner_def bt_get_fold_insert bt_get_fold_remove bt_contains_key_def split: option.splits)
qed

lemma snapshot_wf: "bt_wf (snapshot_workdir ls_files t)"
proof -
  have "bt_wf snap \<Longrightarrow> bt_wf (fold (add_file t) ps snap)" for ps snap
    by (induction ps arbitrary: snap) (auto simp: add_file_def bt.wf_insert split: option.splits)
  moreover have "bt_wf ([] :: tree)" by (simp add: bt_wf_def)
  ultimately show ?thesis by (simp add: snapshot_workdir_def)
qed

text \<open>
  C26: What restoring a snapshot does, exactly. Every file that the listing named when the snapshot was taken gets its old
  content back; ignored paths, and on an evaluation image the protected artifacts, keep what the tree has now; every other file of the tree is removed.
\<close>

theorem snapshot_restore_exact:
  "bt_get (restore_snapshot_inner sd ow (snapshot_workdir ls_files before0) now) p =
     (if p \<in> set (list_repo_files ls_files before0) \<and> bt_get before0 p \<noteq> None then bt_get before0 p
      else if should_ignore_snapshot_path p \<or> kept_by_restore sd ow p then bt_get now p
      else None)"
  by (auto simp: bt_get_restore [OF snapshot_wf] bt_get_snapshot split: option.splits)

definition listed_source :: "tree \<Rightarrow> string option" where
  "listed_source t = Some (join [CHR 0x0A] (filter (\<lambda>p. p \<noteq> ''.env'') (bt_keys t)))"

text \<open>
  Restoring deletes files that Git ignores. The snapshot lists the files Git knows or would add, while restoring walks the
  directory: a file under an ignore rule, such as \<open>.env\<close>, is not in the snapshot and is removed, even when nothing changed in between.
\<close>

theorem restore_deletes_ignored_files:
  "let t = [(''.env'', ''SECRET=1''), (''src/a.py'', ''x'')]; sd = \<lparr>os_manifest = \<lambda>_. None, os_outcome = \<lambda>_. None,
        os_outcome_value = \<lambda>_. None, os_outcomes = \<lambda>_. None, os_outcomes_text = \<lambda>_. None\<rparr>
   in restore_snapshot_inner sd fresh_world (snapshot_workdir listed_source t) t = [(''src/a.py'', ''x'')]"
  by code_simp

section \<open>The bank stays small, ranked and authoritative\<close>

definition ranked_before :: "candidate_patch \<Rightarrow> candidate_patch \<Rightarrow> bool" where
  "ranked_before a b \<longleftrightarrow> cp_score b < cp_score a \<or> cp_score b = cp_score a \<and> cp_changed_lines a \<le> cp_changed_lines b"

definition bank_ok :: "candidate_bank \<Rightarrow> bool" where
  "bank_ok b \<longleftrightarrow>
     length (cb_candidates b) \<le> cb_max_candidates b \<and> sorted_wrt ranked_before (cb_candidates b) \<and>
     list_all (\<lambda>c. has_authoritative_source_patch c \<and> (cp_feedback_only c \<longrightarrow> cp_positive_feedback c)
       \<and> (cp_positive_feedback c \<longleftrightarrow> cp_validation_hits c \<noteq> 0) \<and> bt_wf (cp_snapshot c)) (cb_candidates b)"

lemma sorted_two_keys:
  fixes f :: "'a \<Rightarrow> 'b::linorder" and g :: "'a \<Rightarrow> 'c::linorder"
  assumes "sorted (map g xs)"
  shows "sorted_wrt (\<lambda>a b. f a < f b \<or> f a = f b \<and> g a \<le> g b) (sort_key f xs)"
  using assms
proof (induction xs)
  case (Cons x xs)
  let ?R = "\<lambda>a b. f a < f b \<or> f a = f b \<and> g a \<le> g b"
  have "sorted_wrt ?R (insort_key f x ys)" if "sorted_wrt ?R ys" "\<forall>y \<in> set ys. g x \<le> g y" for ys
    using that by (induction ys) (auto simp: set_insort_key)
  with Cons show ?case by auto
qed simp

lemma prune_ok:
  assumes "list_all (\<lambda>c. has_authoritative_source_patch c \<and> (cp_feedback_only c \<longrightarrow> cp_positive_feedback c)
       \<and> (cp_positive_feedback c \<longleftrightarrow> cp_validation_hits c \<noteq> 0) \<and> bt_wf (cp_snapshot c)) (cb_candidates b)"
  shows "bank_ok (prune b)"
proof -
  let ?cs = "sort_key (\<lambda>c. - cp_score c) (sort_key cp_changed_lines (cb_candidates b))"
  have "sorted_wrt (\<lambda>a b. - cp_score a < - cp_score b \<or> - cp_score a = - cp_score b \<and> cp_changed_lines a \<le> cp_changed_lines b) ?cs"
    by (rule sorted_two_keys) simp
  then have "sorted_wrt ranked_before ?cs" by (rule sorted_wrt_mono_rel [rotated]) (auto simp: ranked_before_def)
  then have "sorted_wrt ranked_before (take n ?cs)" for n by (rule sorted_wrt_take)
  with assms show ?thesis by (auto simp: bank_ok_def prune_def list_all_iff dest: in_set_takeD)
qed

definition candidate_ok :: "candidate_patch \<Rightarrow> bool" where
  "candidate_ok c \<longleftrightarrow> has_authoritative_source_patch c \<and> (cp_feedback_only c \<longrightarrow> cp_positive_feedback c) \<and>
     (cp_positive_feedback c \<longleftrightarrow> cp_validation_hits c \<noteq> 0) \<and> bt_wf (cp_snapshot c)"

lemma next_bank_id_nonzero: "next_bank_id n \<noteq> 0"
proof (cases "n = - 1")
  case False
  then have "n + 1 \<noteq> 0" using eq_neg_iff_add_eq_0 [of n 1] by simp
  with False show ?thesis by (simp add: next_bank_id_def)
qed (simp add: next_bank_id_def)

lemma bank_ok_all: "bank_ok b \<Longrightarrow> list_all candidate_ok (cb_candidates b)"
  by (simp add: bank_ok_def list_all_iff candidate_ok_def)

lemma prune_all: "list_all candidate_ok (cb_candidates b) \<Longrightarrow> bank_ok (prune b)"
  by (rule prune_ok) (simp add: list_all_iff candidate_ok_def)

lemma add_candidate_ok: "bank_ok b \<Longrightarrow> candidate_ok c \<Longrightarrow> bank_ok (add_candidate c b)"
  unfolding add_candidate_def by (rule prune_all) (simp add: bank_ok_all)

lemma corroborate_ok: "corroborates files desc c \<Longrightarrow> candidate_ok c \<Longrightarrow> candidate_ok (corroborate changed sg c)"
  by (auto simp: candidate_ok_def corroborate_def corroborates_def Let_def has_authoritative_source_patch_def next_bank_id_nonzero)

lemma record_failed_ok: "bank_ok b \<Longrightarrow> bank_ok (record_failed_candidate ls_files t changed output desc n b)"
  by (auto simp: record_failed_candidate_def Let_def candidate_ok_def has_authoritative_source_patch_def snapshot_wf intro!: add_candidate_ok)

lemma record_feedback_ok:
  assumes "bank_ok b"
  shows "bank_ok (record_feedback_pass_candidate ls_files t changed output desc only b)"
proof -
  have "list_all candidate_ok (update_first (corroborates files desc) (corroborate changed sg) (cb_candidates b))" for files sg
    using bank_ok_all [OF assms] corroborate_ok by (rule update_first_all)
  then have "bank_ok (prune (b\<lparr>cb_candidates := update_first (corroborates files desc) (corroborate changed sg) (cb_candidates b)\<rparr>))" for files sg
    by (intro prune_all) simp
  with assms show ?thesis
    by (auto simp: record_feedback_pass_candidate_def Let_def candidate_ok_def has_authoritative_source_patch_def snapshot_wf intro!: add_candidate_ok)
qed

datatype bank_op =
  Failed tree "diff_stat list" string string u32
| FeedbackPass tree "diff_stat list" string string bool

fun bank_step :: "(tree \<Rightarrow> string option) \<Rightarrow> bank_op \<Rightarrow> candidate_bank \<Rightarrow> candidate_bank" where
  "bank_step ls_files (Failed t changed output desc n) b = record_failed_candidate ls_files t changed output desc n b"
| "bank_step ls_files (FeedbackPass t changed output desc only) b = record_feedback_pass_candidate ls_files t changed output desc only b"

definition bank_run :: "(tree \<Rightarrow> string option) \<Rightarrow> oracle_world \<Rightarrow> bank_op list \<Rightarrow> candidate_bank" where
  "bank_run ls_files w ops = fold (bank_step ls_files) ops (bank_from_env w)"

lemma bank_run_ok: "bank_ok (bank_run ls_files w ops)"
proof -
  have "bank_ok (bank_from_env w)" by (simp add: bank_ok_def bank_from_env_def)
  moreover have "bank_ok b \<Longrightarrow> bank_ok (bank_step ls_files x b)" for x b
    by (cases x) (simp_all add: record_failed_ok record_feedback_ok)
  ultimately show ?thesis unfolding bank_run_def by (induction ops arbitrary: w rule: rev_induct) simp_all
qed

lemma bank_run_max: "cb_max_candidates (bank_run ls_files w ops) \<le> 12"
proof -
  have "cb_max_candidates (bank_step ls_files x b) = cb_max_candidates b" for x b
    by (cases x) (simp_all add: record_failed_candidate_def record_feedback_pass_candidate_def Let_def add_candidate_def prune_def)
  then have "cb_max_candidates (bank_run ls_files w ops) = cb_max_candidates (bank_from_env w)"
    unfolding bank_run_def by (induction ops rule: rev_induct) simp_all
  then show ?thesis by (auto simp: bank_from_env_def env_number_def clamp_def split: option.splits)
qed

locale ranking =
  fixes le :: "'a \<Rightarrow> 'a \<Rightarrow> bool"
  assumes le_trans: "le a b \<Longrightarrow> le b c \<Longrightarrow> le a c"
    and le_total: "le a b \<or> le b a"
begin

lemma max_by_sound: "case max_by le xs of None \<Rightarrow> xs = [] | Some m \<Rightarrow> m \<in> set xs \<and> (\<forall>x \<in> set xs. le x m)"
proof (induction xs rule: rev_induct)
  case (snoc x xs)
  have step: "max_by le (xs @ [x]) = (case max_by le xs of None \<Rightarrow> Some x | Some b \<Rightarrow> if le b x then Some x else Some b)"
    by (simp add: max_by_def)
  show ?case
  proof (cases "max_by le xs")
    case None
    with snoc step le_total [of x x] show ?thesis by simp
  next
    case (Some b)
    with snoc have b: "b \<in> set xs" "\<And>y. y \<in> set xs \<Longrightarrow> le y b" by simp_all
    show ?thesis
    proof (cases "le b x")
      case True
      have "le y x" if "y \<in> set (xs @ [x])" for y using that b(2) le_trans [OF _ True] le_total [of x x] by auto
      with Some step True show ?thesis by simp
    next
      case False
      with le_total [of x b] have "le x b" by simp
      with Some step False b show ?thesis by auto
    qed
  qed
qed (simp add: max_by_def)

lemma max_by_Some:
  assumes "max_by le xs = Some m"
  shows "m \<in> set xs" "x \<in> set xs \<Longrightarrow> le x m"
  using max_by_sound [of xs] assms by simp_all

end

interpretation final: ranking final_le
  by unfold_locales (auto simp: final_le_def)

interpretation scored: ranking score_le
  by unfold_locales (auto simp: score_le_def)

text \<open>
  C25: Only a trusted candidate is put back at the end. When the bank replaces the final tree, whatever was recorded before, the candidate it restores
  changed source files only, passed a trusted scope, and no other such candidate of the bank has a higher score; its score exceeds that of
  the current diff by at least twenty, or there is no diff. The bank holds at most twelve candidates, ranked by score and size.
\<close>

theorem bank_restores_trusted_candidate:
  assumes "bank_restore_best_before_final sd ow (bank_run ls_files w ops) current t = (restored, t')"
  shows "length (cb_candidates (bank_run ls_files w ops)) \<le> 12 \<and>
    sorted_wrt ranked_before (cb_candidates (bank_run ls_files w ops)) \<and>
    (if restored then
       \<exists>c \<in> set (cb_candidates (bank_run ls_files w ops)).
         t' = restore_snapshot_inner sd ow (cp_snapshot c) t \<and> list_all is_authoritative_source_path (cp_changed_files c) \<and>
         cp_positive_feedback c \<and> \<not> cp_feedback_only c \<and>
         (current = [] \<or> saturating_sub_i32 (cp_score c) (score_current_diff current) \<ge> 20) \<and>
         (\<forall>d \<in> set (cb_candidates (bank_run ls_files w ops)). final_restore_allowed d \<longrightarrow> cp_score d \<le> cp_score c)
     else t' = t)"
proof -
  let ?b = "bank_run ls_files w ops"
  have ok: "length (cb_candidates ?b) \<le> 12" "sorted_wrt ranked_before (cb_candidates ?b)"
    using bank_run_ok [of ls_files w ops] bank_run_max [of ls_files w ops] by (auto simp: bank_ok_def)
  show ?thesis
  proof (cases restored)
    case False
    with assms ok show ?thesis by (auto simp: bank_restore_best_before_final_def split: if_splits option.splits)
  next
    case True
    with assms obtain c where c: "best_candidate_for_final_restore ?b = Some c" "t' = restore_snapshot_inner sd ow (cp_snapshot c) t"
      "current = [] \<or> saturating_sub_i32 (cp_score c) (score_current_diff current) \<ge> 20"
      by (auto simp: bank_restore_best_before_final_def split: if_splits option.splits)
    note m = final.max_by_Some [OF c(1) [unfolded best_candidate_for_final_restore_def]]
    have "final_restore_allowed c" "c \<in> set (cb_candidates ?b)" using m(1) by simp_all
    moreover have "cp_score d \<le> cp_score c" if "d \<in> set (cb_candidates ?b)" "final_restore_allowed d" for d
      using m(2) [of d] that by (auto simp: final_le_def)
    ultimately show ?thesis
      using True c ok by (auto simp: final_restore_allowed_def has_authoritative_source_patch_def patch_has_authoritative_source_def)
  qed
qed

definition trusted_run :: "bank_op list" where
  "trusted_run = [Failed [] [(''src/a.py'', 40, 90)] ''FAILED test_a'' ''scope a'' 1,
     FeedbackPass [(''src/a.py'', ''fixed'')] [(''src/a.py'', 2, 90)] ''SW_TEST_EXIT_CODE=0'' ''scope b'' False]"

definition bank_world :: oracle_world where
  "bank_world = set_env ''SW_CANDIDATE_BANK'' ''1'' fresh_world"

theorem bank_restores_trusted_candidate_witness:
  "\<exists>c \<in> set (cb_candidates (bank_run (\<lambda>_. None) bank_world trusted_run)).
     bank_restore_best_before_final (table_serde []) fresh_world (bank_run (\<lambda>_. None) bank_world trusted_run) [] [] =
       (True, restore_snapshot_inner (table_serde []) fresh_world (cp_snapshot c) []) \<and> cp_positive_feedback c \<and> \<not> cp_feedback_only c"
proof -
  obtain restored t' where r: "bank_restore_best_before_final (table_serde []) fresh_world (bank_run (\<lambda>_. None) bank_world trusted_run) [] [] =
      (restored, t')" by fastforce
  have "fst (bank_restore_best_before_final (table_serde []) fresh_world (bank_run (\<lambda>_. None) bank_world trusted_run) [] [])" by code_simp
  with bank_restores_trusted_candidate [OF r] r show ?thesis by auto
qed

section \<open>Two gaps of the bank\<close>

definition scope_pass :: "string \<Rightarrow> bank_op" where
  "scope_pass desc = FeedbackPass [] [(''m'', 1, 1)] [] desc True"

text \<open>
  Feedback can be counted twice, and the escape for feedback-only branches is dead. A candidate keeps the description of its first scope, so the
  same second scope corroborates it again, and two scopes get the score of three; and because only candidates that are not
  feedback-only can be restored at the end, the test that a feedback-only candidate may discard the current diff never succeeds.
\<close>

theorem feedback_counted_twice:
  "\<not> feedback_only_branch_can_discard_current b \<and>
   map cp_score (cb_candidates (bank_run (\<lambda>_. None) bank_world [scope_pass ''a'', scope_pass ''b'', scope_pass ''b''])) = [61]"
proof
  show "\<not> feedback_only_branch_can_discard_current b"
    using final.max_by_Some(1)
    by (fastforce simp: feedback_only_branch_can_discard_current_def best_candidate_for_final_restore_def final_restore_allowed_def split: option.splits)
  show "map cp_score (cb_candidates (bank_run (\<lambda>_. None) bank_world [scope_pass ''a'', scope_pass ''b'', scope_pass ''b''])) = [61]"
    by code_simp
qed

end
