(* ===== verification/CandidateEvidence.thy ===== *)
theory CandidateEvidence
  imports CandidateBank
begin

text \<open>
  What the output of a candidate run proves (\<open>crates/cli/src/candidate_evidence.rs\<close>) and when a failed candidate is
  given one more repair (\<open>candidate_strengthening.rs\<close>). Evidence is read from the part of the output after the last epoch
  marker, which the tournament writes before it appends the output of that repair.
\<close>

section \<open>Evidence\<close>

datatype candidate_evidence_kind =
    DidNotRun | EvidenceUnavailable | GenericFeedbackPass | BaselineRegressionPass | TrustedSourceScopePass
  | IssueMappedBaselinePass | CanonicalHarnessPass | ConcreteFail

record candidate_evidence =
  ev_kind :: candidate_evidence_kind
  ev_source :: string
  ev_scope_files :: "string list"

definition epoch_marker :: string where
  "epoch_marker = ''[CANDIDATE_EVIDENCE_EPOCH]''"

text \<open>The text after the last occurrence of a pattern, the second part of \<open>str::rsplit_once\<close>.\<close>

fun rsplit_after :: "string \<Rightarrow> string \<Rightarrow> string option" where
  "rsplit_after nd [] = (if nd = [] then Some [] else None)"
| "rsplit_after nd (c # cs) =
     (case rsplit_after nd cs of
        Some t \<Rightarrow> Some t
      | None \<Rightarrow> if starts_with (c # cs) nd then Some (drop (length nd) (c # cs)) else None)"

definition latest_epoch :: "string \<Rightarrow> string" where
  "latest_epoch output = unwrap_or output (rsplit_after epoch_marker output)"

fun trim_chars_start :: "string \<Rightarrow> string \<Rightarrow> string" where
  "trim_chars_start cs [] = []"
| "trim_chars_start cs (c # s) = (if c \<in> set cs then trim_chars_start cs s else c # s)"

definition trim_chars :: "string \<Rightarrow> string \<Rightarrow> string" where
  "trim_chars cs s = rev (trim_chars_start cs (rev (trim_chars_start cs s)))"

definition scope_of_line :: "string \<Rightarrow> string option" where
  "scope_of_line line =
     find_map (\<lambda>part. or_else (strip_prefix part ''scope=SOURCE_SCOPE_TEST_FILES='')
                              (strip_prefix part ''scope=EDITED_SOURCE_TEST_FILES='')) (split_whitespace line)"

definition source_scope_files :: "string \<Rightarrow> string list" where
  "source_scope_files output =
     fold (\<lambda>line files.
        case scope_of_line line of
          None \<Rightarrow> files
        | Some scope \<Rightarrow>
            (let normalized = trim_chars '',;'' (trim scope)
             in if normalized \<noteq> [] \<and> normalized \<notin> set files then files @ [normalized] else files))
       (filter (\<lambda>line. str_contains line ''[POST_EDIT_REPAIR]'' \<or> str_contains line ''[SOURCE_SCOPE_REPAIR]'') (str_lines output)) []"

definition line_has :: "string \<Rightarrow> string \<Rightarrow> string \<Rightarrow> bool" where
  "line_has output a b \<longleftrightarrow> list_ex (\<lambda>line. str_contains line a \<and> str_contains line b) (str_lines output)"

definition fail_marks :: "string list" where
  "fail_marks = [''[FINAL_VERIFICATION] FAIL'', ''[PARENT_CANDIDATE_VALIDATION] SIGNAL=fail'',
     ''[PARENT_TIMEOUT_VALIDATION] SIGNAL=fail'', ''[POST_EDIT_REPAIR] FAIL'', ''[SOURCE_SCOPE_REPAIR] FAIL'']"

text \<open>A parent's old signal \<open>pass\<close> meant that a scope that passed on the baseline still passed.\<close>

definition epoch_evidence :: "string \<Rightarrow> candidate_evidence_kind \<times> string" where
  "epoch_evidence output =
     (if contains_any output fail_marks then (ConcreteFail, ''concrete_failure'')
      else if str_contains output ''[FINAL_VERIFICATION] PASS'' then (CanonicalHarnessPass, ''final_verification'')
      else if contains_any output [''[PARENT_CANDIDATE_VALIDATION] SIGNAL=source_scope_pass'', ''[PARENT_TIMEOUT_VALIDATION] SIGNAL=source_scope_pass'']
              \<or> line_has output ''[POST_EDIT_REPAIR] PASS'' ''authority=baseline_failure_repaired''
      then (IssueMappedBaselinePass, ''baseline_proven_scope'')
      else if contains_any output [''[PARENT_CANDIDATE_VALIDATION] SIGNAL=regression_pass'', ''[PARENT_TIMEOUT_VALIDATION] SIGNAL=regression_pass'',
                ''[PARENT_CANDIDATE_VALIDATION] SIGNAL=pass'', ''[PARENT_TIMEOUT_VALIDATION] SIGNAL=pass'']
              \<or> list_ex (\<lambda>line. str_contains line ''[POST_EDIT_REPAIR] REGRESSION_PASS''
                   \<or> str_contains line ''[POST_EDIT_REPAIR] PASS'' \<and> str_contains line ''authority=baseline_proven_source_scope'')
                  (str_lines output)
      then (BaselineRegressionPass, ''baseline_regression_scope'')
      else if line_has output ''[POST_EDIT_REPAIR] PASS'' ''authority=trusted_source_scope''
      then (TrustedSourceScopePass, ''trusted_source_scope'')
      else if contains_any output [''[PARENT_CANDIDATE_VALIDATION] SIGNAL=feedback_pass'', ''[PARENT_TIMEOUT_VALIDATION] SIGNAL=feedback_pass'']
              \<or> source_scope_files output \<noteq> [] \<and> contains_any output [''[POST_EDIT_REPAIR] PASS'', ''[SOURCE_SCOPE_REPAIR] PASS'']
      then (GenericFeedbackPass, ''feedback_scope'')
      else if contains_any output [''[FINAL_VERIFICATION] UNAVAILABLE'', ''[PARENT_CANDIDATE_VALIDATION] SIGNAL=unavailable'',
                ''[PARENT_TIMEOUT_VALIDATION] SIGNAL=unavailable'']
      then (EvidenceUnavailable, ''validation_unavailable'')
      else (DidNotRun, ''no_validation_signal''))"

definition from_output :: "string \<Rightarrow> candidate_evidence" where
  "from_output output0 =
     (let output = latest_epoch output0; (kind, source) = epoch_evidence output
      in \<lparr>ev_kind = kind, ev_source = source, ev_scope_files = source_scope_files output\<rparr>)"

fun selection_signal :: "candidate_evidence_kind \<Rightarrow> string" where
  "selection_signal ConcreteFail = ''fail''"
| "selection_signal CanonicalHarnessPass = ''pass''"
| "selection_signal IssueMappedBaselinePass = ''source_scope_pass''"
| "selection_signal BaselineRegressionPass = ''regression_pass''"
| "selection_signal TrustedSourceScopePass = ''regression_pass''"
| "selection_signal GenericFeedbackPass = ''feedback_pass''"
| "selection_signal EvidenceUnavailable = ''unavailable''"
| "selection_signal DidNotRun = ''none''"

definition actual_locus :: "string list \<Rightarrow> string \<Rightarrow> string" where
  "actual_locus changed_files launched_path =
     (let source_files = filter (\<lambda>p. \<not> is_test_path p) changed_files
      in if launched_path \<in> set source_files then launched_path
         else (case source_files of [only] \<Rightarrow> only | _ \<Rightarrow> launched_path))"

section \<open>Strengthening\<close>

record strengthening_config =
  sc_enabled :: bool
  sc_steps :: nat
  sc_timeout_ms :: nat

definition flag_in :: "string list \<Rightarrow> string \<Rightarrow> bool \<Rightarrow> oracle_world \<Rightarrow> bool" where
  "flag_in accepted name default0 w =
     (case ow_env w name of None \<Rightarrow> default0 | Some value \<Rightarrow> to_ascii_lowercase (trim value) \<in> set accepted)"

definition clamped_number :: "(string \<Rightarrow> 'a::linorder option) \<Rightarrow> string \<Rightarrow> 'a \<Rightarrow> 'a \<Rightarrow> 'a \<Rightarrow> oracle_world \<Rightarrow> 'a" where
  "clamped_number parse name default0 lo hi w = clamp lo hi (unwrap_or default0 (Option.bind (ow_env w name) parse))"

abbreviation env_unsigned :: "nat \<Rightarrow> string \<Rightarrow> nat \<Rightarrow> nat \<Rightarrow> nat \<Rightarrow> oracle_world \<Rightarrow> nat" where
  "env_unsigned bits \<equiv> clamped_number (\<lambda>value. parse_unsigned bits (trim value))"

definition strengthening_from_env :: "oracle_world \<Rightarrow> strengthening_config" where
  "strengthening_from_env w =
     \<lparr>sc_enabled = flag_in [''1'', ''true'', ''yes'', ''on''] ''SW_CANDIDATE_STRENGTHENING'' True w,
      sc_steps = env_unsigned 32 ''SW_CANDIDATE_STRENGTHENING_STEPS'' 16 4 60 w,
      sc_timeout_ms = 1000 * env_unsigned 64 ''SW_CANDIDATE_STRENGTHENING_TIMEOUT_SECONDS'' 180 30 900 w\<rparr>"

definition should_attempt :: "strengthening_config \<Rightarrow> candidate_evidence \<Rightarrow> string \<Rightarrow> nat option \<Rightarrow> bool" where
  "should_attempt config evidence patch remaining_ms \<longleftrightarrow>
     sc_enabled config \<and> ev_kind evidence = ConcreteFail \<and> trim patch \<noteq> [] \<and> is_none_or (\<lambda>ms. ms \<ge> 15000) remaining_ms"

definition compact_tail :: "string \<Rightarrow> nat \<Rightarrow> string" where
  "compact_tail value0 limit =
     (if length value0 \<le> limit then value0
      else ''...[earlier output omitted]'' @ [CHR 0x0A] @ drop (length value0 - limit) value0)"

definition repair_task :: "string \<Rightarrow> string \<Rightarrow> string \<Rightarrow> string \<Rightarrow> string" where
  "repair_task original_task candidate_id locus feedback =
     original_task @ [CHR 0x0A, CHR 0x0A] @ ''## Candidate Repair Continuation'' @ [CHR 0x0A] @
     ''Candidate `'' @ candidate_id @ ''` produced a source patch at `'' @ locus @
     ''`, but a harness-visible validation scope concretely failed. '' @
     ''Repair this existing patch in place. Read the failure below, make at most one minimal source correction, rerun the named scope, and stop. '' @
     ''Do not discard the patch, switch to broad exploration, edit tests, or infer hidden benchmark data.'' @ [CHR 0x0A, CHR 0x0A] @
     ''Validation failure:'' @ [CHR 0x0A] @ ''```text'' @ [CHR 0x0A] @ compact_tail feedback 6000 @ [CHR 0x0A] @ ''```'' @ [CHR 0x0A]"

section \<open>Epochs\<close>

lemma starts_with_split:
  assumes "n \<notin> set nd"
  shows "starts_with (s @ n # later) nd \<longleftrightarrow> starts_with s nd"
proof
  assume "starts_with (s @ n # later) nd"
  then obtain t where t: "s @ n # later = nd @ t" by (auto simp: starts_with_iff)
  then obtain us where "s = nd @ us \<or> s @ us = nd \<and> n # later = us @ t" by (auto simp: append_eq_append_conv2)
  then show "starts_with s nd" using assms by (cases us) (auto simp: starts_with_iff)
qed (auto simp: starts_with_iff)

lemma starts_with_length: "starts_with s nd \<Longrightarrow> length nd \<le> length s"
  by (auto simp: starts_with_iff)

lemma rsplit_after_None: "nd \<noteq> [] \<Longrightarrow> rsplit_after nd s = None \<longleftrightarrow> \<not> str_contains s nd"
  by (induction s) (auto split: option.split)

lemma rsplit_after_append:
  assumes "nd \<noteq> []" "n \<notin> set nd" "\<not> str_contains later nd"
  shows "rsplit_after nd (s @ n # later) = map_option (\<lambda>t. t @ n # later) (rsplit_after nd s)"
proof (induction s)
  case Nil
  have "\<not> starts_with (n # later) nd" using starts_with_split [OF assms(2), of "[]" later] assms(1) by (simp add: starts_with_def)
  then show ?case using assms rsplit_after_None [OF assms(1), of later] by simp
next
  case (Cons c s)
  have "drop (length nd) (c # s @ n # later) = drop (length nd) (c # s) @ n # later" if "starts_with (c # s) nd"
    using drop_append [of "length nd" "c # s" "n # later"] starts_with_length [OF that] by simp
  with Cons show ?case using starts_with_split [OF assms(2), of "c # s" later] by (auto split: option.split)
qed

text \<open>A pattern whose first character does not occur in its rest cannot overlap itself.\<close>

lemma contains_behind:
  assumes "c \<notin> set w" "\<not> str_contains b (c # nd)"
  shows "\<not> str_contains (w @ b) (c # nd)"
  using assms(1)
proof (induction w)
  case (Cons x w)
  then show ?case by (auto simp: starts_with_def)
qed (use assms(2) in simp)

lemma rsplit_after_last:
  assumes "c \<notin> set w" "\<not> str_contains b (c # w)"
  shows "rsplit_after (c # w) (a @ (c # w) @ b) = Some b"
proof (induction a)
  case Nil
  have "rsplit_after (c # w) (w @ b) = None"
    using contains_behind [OF assms(1,2)] by (simp add: rsplit_after_None)
  then show ?case by (simp add: starts_with_def)
qed simp

lemma epoch_marker_chars: "epoch_marker \<noteq> []" "CHR 0x0A \<notin> set epoch_marker"
  "CHR ''['' \<notin> set (tl epoch_marker)" "epoch_marker = CHR ''['' # tl epoch_marker"
  by code_simp+

lemma latest_epoch_marked:
  assumes "\<not> str_contains later epoch_marker"
  shows "latest_epoch (a @ epoch_marker @ later) = later" "latest_epoch later = later"
proof -
  have "rsplit_after epoch_marker (a @ epoch_marker @ later) = Some later"
    using rsplit_after_last [OF epoch_marker_chars(3), of later a] epoch_marker_chars(4) assms by simp
  then show "latest_epoch (a @ epoch_marker @ later) = later" by (simp add: latest_epoch_def)
  show "latest_epoch later = later"
    using rsplit_after_None [OF epoch_marker_chars(1), of later] assms by (simp add: latest_epoch_def)
qed

lemma latest_epoch_append:
  assumes "\<not> str_contains later epoch_marker"
  shows "latest_epoch (out @ CHR 0x0A # later) = latest_epoch out @ CHR 0x0A # later"
  using rsplit_after_append [OF epoch_marker_chars(1,2) assms]
  by (cases "rsplit_after epoch_marker out") (auto simp: latest_epoch_def)

lemma str_contains_append: "str_contains s nd \<Longrightarrow> str_contains (s @ t) nd"
  unfolding str_contains_iff by (metis append.assoc)

lemma contains_any_append: "contains_any s needles \<Longrightarrow> contains_any (s @ t) needles"
  by (auto simp: contains_any_def list_ex_iff intro: str_contains_append)

lemma concrete_fail_iff: "ev_kind (from_output out) = ConcreteFail \<longleftrightarrow> contains_any (latest_epoch out) fail_marks"
  by (simp add: from_output_def epoch_evidence_def Let_def)

text \<open>
  Within an epoch a concrete failure is final: output that follows on a new line, whatever it reports, cannot turn it into a pass.
  A new epoch, on the other hand, is judged by its own output alone.
\<close>

theorem concrete_failure_final:
  assumes "\<not> str_contains later epoch_marker"
  shows "(ev_kind (from_output out) = ConcreteFail \<longrightarrow> ev_kind (from_output (out @ CHR 0x0A # later)) = ConcreteFail) \<and>
    from_output (out @ epoch_marker @ later) = from_output later"
proof
  show "ev_kind (from_output out) = ConcreteFail \<longrightarrow> ev_kind (from_output (out @ CHR 0x0A # later)) = ConcreteFail"
    by (simp add: concrete_fail_iff latest_epoch_append [OF assms] contains_any_append)
  show "from_output (out @ epoch_marker @ later) = from_output later"
    by (simp add: from_output_def latest_epoch_marked [OF assms])
qed

theorem concrete_failure_final_witness:
  "let failed = ''[POST_EDIT_REPAIR] FAIL kind=assertion_failure''; passed = ''[FINAL_VERIFICATION] PASS''
   in ev_kind (from_output (failed @ CHR 0x0A # passed)) = ConcreteFail \<and>
      ev_kind (from_output (failed @ epoch_marker @ passed)) = CanonicalHarnessPass"
proof -
  let ?failed = "''[POST_EDIT_REPAIR] FAIL kind=assertion_failure''" and ?passed = "''[FINAL_VERIFICATION] PASS''"
  have facts: "\<not> str_contains ?passed epoch_marker" "ev_kind (from_output ?failed) = ConcreteFail"
    "ev_kind (from_output ?passed) = CanonicalHarnessPass"
    by code_simp+
  show ?thesis using concrete_failure_final [OF facts(1), of ?failed] facts(2,3) by (simp add: Let_def)
qed

end
