(* ===== verification/CandidateFanout.thy ===== *)
theory CandidateFanout
  imports CandidateEvidence
begin

text \<open>
  The selection of the tournament of candidate patches (\<open>crates/cli/src/candidate_fanout.rs\<close>): the quality and the score of a patch, the
  ranking, the tie break and the arbiter that a model plays. Measurements that are only reported (durations, the kind of
  working tree) and the events written for the reader of a run are left out.
\<close>

section \<open>Candidates\<close>

record candidate_hypothesis =
  hy_id :: nat
  hy_path :: string
  hy_score :: nat
  hy_reason :: string

record candidate_execution =
  cx_hypothesis :: candidate_hypothesis
  cx_candidate_id :: string
  cx_stdout :: string
  cx_stderr :: string
  cx_patch :: string
  cx_changed_files :: "string list"
  cx_changed_lines :: nat
  cx_exit_code :: "int option"
  cx_timed_out :: bool
  cx_evidence :: candidate_evidence
  cx_actual_locus :: string
  cx_issue_locus_aligned :: bool
  cx_strengthening_attempted :: bool
  cx_strengthening_signal :: "string option"
  cx_parent_output :: string
  cx_parent_provenance :: "json option"

definition candidate_validation_signal :: "string \<Rightarrow> string" where
  "candidate_validation_signal stdout = selection_signal (ev_kind (from_output stdout))"

definition validation_signal_rank :: "string \<Rightarrow> int" where
  "validation_signal_rank signal =
     (if signal = ''pass'' then 4 else if signal = ''source_scope_pass'' then 3 else if signal = ''regression_pass'' then 2
      else if signal = ''fail'' then 0 else 1)"

definition final_verification_signal :: "string \<Rightarrow> string" where
  "final_verification_signal stdout =
     (if str_contains stdout ''[FINAL_VERIFICATION] PASS'' then ''pass''
      else if str_contains stdout ''[FINAL_VERIFICATION] FAIL'' then ''fail''
      else if str_contains stdout ''[FINAL_VERIFICATION] UNAVAILABLE'' then ''unavailable''
      else ''none'')"

definition parent_validation_signal :: "string \<Rightarrow> string option" where
  "parent_validation_signal stdout =
     (case find_map (\<lambda>line. or_else (strip_prefix (trim line) ''[PARENT_CANDIDATE_VALIDATION] SIGNAL='')
                                     (strip_prefix (trim line) ''[PARENT_TIMEOUT_VALIDATION] SIGNAL='')) (rev (str_lines stdout)) of
        None \<Rightarrow> None
      | Some signal \<Rightarrow> if trim signal \<noteq> [] then Some (trim signal) else None)"

section \<open>The quality of a patch\<close>

definition changed_line_count :: "string \<Rightarrow> nat" where
  "changed_line_count patch =
     length (filter (\<lambda>line. starts_with line ''+'' \<and> \<not> starts_with line ''+++'' \<or> starts_with line ''-'' \<and> \<not> starts_with line ''---'')
       (str_lines patch))"

definition patch_added_lines :: "string \<Rightarrow> string list" where
  "patch_added_lines patch =
     map (trim_char_start (CHR ''+'')) (filter (\<lambda>line. starts_with line ''+'' \<and> \<not> starts_with line ''+++'') (str_lines patch))"

definition patch_removed_lines :: "string \<Rightarrow> string list" where
  "patch_removed_lines patch =
     map (trim_char_start (CHR ''-'')) (filter (\<lambda>line. starts_with line ''-'' \<and> \<not> starts_with line ''---'') (str_lines patch))"

definition class_name_from_diff_line :: "string \<Rightarrow> string option" where
  "class_name_from_diff_line line =
     (let source = trim_start (unwrap_or line (or_else (strip_prefix line '' '') (or_else (strip_prefix line ''+'') (strip_prefix line ''-''))))
      in case strip_prefix source ''class '' of
           None \<Rightarrow> None
         | Some rest \<Rightarrow>
             (let name = takeWhile (\<lambda>c. is_ascii_alphanumeric c \<or> c = CHR ''_'') rest
              in if name \<noteq> [] then Some name else None))"

definition note_class_line :: "string \<Rightarrow> string option \<times> string list \<Rightarrow> string option \<times> string list" where
  "note_class_line line acc =
     (case acc of (current_class, names) \<Rightarrow>
        if starts_any line [''diff --git'', ''index '', ''+++'', ''---''] then (None, names)
        else case class_name_from_diff_line line of
          Some name \<Rightarrow> (Some name, names)
        | None \<Rightarrow>
            if starts_any line [''+'', ''-''] \<and> \<not> starts_any line [''+++'', ''---''] then
              (current_class, (case current_class of Some name \<Rightarrow> push_new name names | None \<Rightarrow> names))
            else (current_class, names))"

definition changed_class_names :: "string \<Rightarrow> string list" where
  "changed_class_names patch = snd (fold note_class_line (str_lines patch) (None, []))"

definition looks_like_incomplete_sibling_update :: "string \<Rightarrow> bool" where
  "looks_like_incomplete_sibling_update patch =
     (case changed_class_names patch of
        [class_name] \<Rightarrow>
          starts_with class_name ''ASCII'' \<or> starts_with class_name ''Unicode''
          \<or> ends_with class_name ''ASCII'' \<or> ends_with class_name ''Unicode''
      | _ \<Rightarrow> False)"

definition is_comment_only_added_line :: "string \<Rightarrow> bool" where
  "is_comment_only_added_line line =
     (let trimmed = trim line
      in starts_any trimmed [''#'', ''//'', ''/*'', ''*''] \<or> trimmed = replicate 3 (CHR 0x22) \<or> trimmed = replicate 3 (CHR 0x27))"

definition is_fallback_only_added_line :: "string \<Rightarrow> bool" where
  "is_fallback_only_added_line line =
     (let trimmed = trim line
      in trimmed \<in> set [''pass'', ''...'', ''return None'', ''return True'', ''return False'', ''return []'', ''return {}'',
             ''return '' @ replicate 2 (CHR 0x22), ''return '' @ replicate 2 (CHR 0x27), ''continue'', ''break'']
         \<or> starts_with trimmed ''raise NotImplementedError'')"

definition contains_placeholder_marker :: "string \<Rightarrow> bool" where
  "contains_placeholder_marker line =
     contains_any (to_ascii_lowercase line)
       [''todo'', ''fixme'', ''placeholder'', ''dummy'', ''stub'', ''temporary hack'', ''rest of implementation'']"

definition contains_broad_exception_swallow :: "string \<Rightarrow> bool" where
  "contains_broad_exception_swallow line =
     (let lower = to_ascii_lowercase line
      in starts_any lower [''except:'', ''except exception'', ''except baseexception'']
         \<or> contains_any lower [''except exception'', ''except baseexception''])"

definition contains_dynamic_code_execution :: "string \<Rightarrow> bool" where
  "contains_dynamic_code_execution line =
     contains_any (filter (\<lambda>c. c \<noteq> CHR '' '') line) [''eval('', ''exec('', ''__import__('', ''os.system('', ''subprocess.'']"

fun repeated_semantic_added_line_count :: "string list \<Rightarrow> nat" where
  "repeated_semantic_added_line_count [] = 0"
| "repeated_semantic_added_line_count (line # lines) =
     max (if length line < 8 then 0 else count_list (line # lines) line) (repeated_semantic_added_line_count lines)"

record patch_quality =
  pq_penalty :: int
  pq_flags :: "string list"

definition push_quality_flag :: "bool \<Rightarrow> string \<Rightarrow> int \<Rightarrow> patch_quality \<Rightarrow> patch_quality" where
  "push_quality_flag found flag value0 q =
     (if found \<and> flag \<notin> set (pq_flags q) then \<lparr>pq_penalty = pq_penalty q + value0, pq_flags = pq_flags q @ [flag]\<rparr> else q)"

definition patch_quality_of :: "string \<Rightarrow> patch_quality" where
  "patch_quality_of patch =
     (let added = patch_added_lines patch; removed = patch_removed_lines patch;
          semantic_added = filter (\<lambda>line. \<not> is_comment_only_added_line line) (filter (\<lambda>line. line \<noteq> []) (map trim added));
          tests = [(added = [] \<and> removed \<noteq> [], ''deletion_only_patch'', 70),
            (length removed \<ge> 8 \<and> length removed > max (length added * 3) 1, ''deletion_heavy_patch'', 35),
            (added \<noteq> [] \<and> semantic_added = [], ''comment_only_patch'', 80),
            (semantic_added \<noteq> [] \<and> list_all is_fallback_only_added_line semantic_added, ''fallback_only_patch'', 45),
            (list_ex contains_placeholder_marker added, ''placeholder_marker'', 55),
            (list_ex contains_broad_exception_swallow semantic_added, ''broad_exception_swallow'', 45),
            (list_ex contains_dynamic_code_execution semantic_added, ''dynamic_code_execution'', 50),
            (repeated_semantic_added_line_count semantic_added \<ge> 3, ''repeated_added_line'', 30),
            (looks_like_incomplete_sibling_update patch, ''incomplete_sibling_update'', 25)]
      in fold (\<lambda>(found, flag, value0). push_quality_flag found flag value0) tests \<lparr>pq_penalty = 0, pq_flags = []\<rparr>)"

definition format_quality_flags :: "string list \<Rightarrow> string" where
  "format_quality_flags flags = (if flags = [] then ''none'' else join '','' flags)"

section \<open>Which candidates can be selected\<close>

definition output_contains_any :: "candidate_execution \<Rightarrow> string list \<Rightarrow> bool" where
  "output_contains_any e needles \<longleftrightarrow>
     list_ex (\<lambda>needle. str_contains (cx_stdout e) needle \<or> str_contains (cx_stderr e) needle \<or> str_contains (cx_parent_output e) needle)
       needles"

definition has_syntax_failure :: "candidate_execution \<Rightarrow> bool" where
  "has_syntax_failure e \<longleftrightarrow> output_contains_any e [''SyntaxError'', ''IndentationError'', ''TabError'']"

definition has_collection_failure :: "candidate_execution \<Rightarrow> bool" where
  "has_collection_failure e \<longleftrightarrow>
     output_contains_any e [''SW_TEST_EXIT_CODE=4'', ''exit: Some(4)'', ''ERROR collecting'', ''errors during collection'',
       ''ImportError while loading conftest'', ''ModuleNotFoundError'', ''ImportError:'']"

definition has_post_edit_repair_failure :: "candidate_execution \<Rightarrow> bool" where
  "has_post_edit_repair_failure e \<longleftrightarrow> output_contains_any e [''[POST_EDIT_REPAIR] FAIL'', ''[SOURCE_SCOPE_REPAIR] FAIL'']"

definition final_verification_failed :: "candidate_execution \<Rightarrow> bool" where
  "final_verification_failed e \<longleftrightarrow> candidate_validation_signal (cx_stdout e) = ''fail''"

definition validation_did_not_run :: "candidate_execution \<Rightarrow> bool" where
  "validation_did_not_run e \<longleftrightarrow>
     output_contains_any e [''SW_TEST_EXIT_CODE=5'', ''exit: Some(5)'', ''no tests ran'', ''no tests collected'', ''collected 0 items'',
       ''did not run any tests'']"

definition candidate_has_source_patch :: "candidate_execution \<Rightarrow> bool" where
  "candidate_has_source_patch e \<longleftrightarrow> patch_has_authoritative_source (cx_changed_files e) (cx_changed_lines e)"

definition candidate_rejection_reasons :: "candidate_execution \<Rightarrow> string list" where
  "candidate_rejection_reasons e =
     concat (map (\<lambda>(found, reason). if found then [reason] else [])
       [(trim (cx_patch e) = [], ''empty_patch''),
        (\<not> candidate_has_source_patch e, ''non_authoritative_patch_path''),
        (cx_timed_out e \<and> trim (cx_patch e) = [], ''candidate_timeout''),
        (list_ex is_test_path (cx_changed_files e), ''test_file_touched''),
        (has_syntax_failure e, ''syntax_error_signal''),
        (has_collection_failure e, ''collection_error_signal''),
        (final_verification_failed e, ''final_verification_failed''),
        (validation_did_not_run e, ''validation_did_not_run'')])"

definition candidate_is_selectable :: "candidate_execution \<Rightarrow> bool" where
  "candidate_is_selectable e \<longleftrightarrow> candidate_rejection_reasons e = []"

definition score_without_strict_validation :: "candidate_execution \<Rightarrow> int" where
  "score_without_strict_validation e =
     (if trim (cx_patch e) = [] \<or> list_ex is_test_path (cx_changed_files e) \<or> \<not> candidate_has_source_patch e \<or> has_syntax_failure e
         \<or> has_collection_failure e \<or> final_verification_failed e \<or> validation_did_not_run e
      then - 1000
      else
        (let signal = candidate_validation_signal (cx_stdout e);
             score = int (min (hy_score (cx_hypothesis e)) 200) + 30
               + (if signal = ''pass'' then 120 else if signal = ''source_scope_pass'' then 60 else if signal = ''regression_pass'' then 30
                  else if signal = ''feedback_pass'' then 25 else if signal = ''unavailable'' \<or> signal = ''none'' then - 45 else 0)
               + (if cx_issue_locus_aligned e then 30 else 0)
               - (if list_ex is_test_path (cx_changed_files e) then 80 else 0)
               - (if contains_any (cx_stdout e) [''ModuleNotFoundError'', ''ImportError''] then 20 else 0)
               - (if cx_timed_out e then 10 else 0)
               - (if has_post_edit_repair_failure e then 10 else 0)
               - pq_penalty (patch_quality_of (cx_patch e))
         in to_i32 (score - min (to_i32 (int (cx_changed_lines e))) 80)))"

definition score_execution :: "candidate_execution \<Rightarrow> int" where
  "score_execution e = (if candidate_is_selectable e then score_without_strict_validation e else - 1000)"

section \<open>Ranking\<close>

datatype ordering = Less | Equal | Greater

definition cmp :: "'a::linorder \<Rightarrow> 'a \<Rightarrow> ordering" where
  "cmp a b = (if a < b then Less else if a = b then Equal else Greater)"

fun then_with :: "ordering \<Rightarrow> ordering \<Rightarrow> ordering" where
  "then_with Equal b = b"
| "then_with a b = a"

text \<open>\<open>slice::sort_by\<close> is stable; \<open>Iterator::min_by\<close> gives the first of several minimal elements.\<close>

fun insert_by :: "('a \<Rightarrow> 'a \<Rightarrow> ordering) \<Rightarrow> 'a \<Rightarrow> 'a list \<Rightarrow> 'a list" where
  "insert_by f x [] = [x]"
| "insert_by f x (y # ys) = (if f x y = Greater then y # insert_by f x ys else x # y # ys)"

definition sort_by :: "('a \<Rightarrow> 'a \<Rightarrow> ordering) \<Rightarrow> 'a list \<Rightarrow> 'a list" where
  "sort_by f xs = foldr (insert_by f) xs []"

definition min_by :: "('a \<Rightarrow> 'a \<Rightarrow> ordering) \<Rightarrow> 'a list \<Rightarrow> 'a option" where
  "min_by f xs = fold (\<lambda>c best. case best of None \<Rightarrow> Some c | Some b \<Rightarrow> if f b c = Greater then Some c else Some b) xs None"

definition median_changed_lines_x2 :: "candidate_execution list \<Rightarrow> nat list \<Rightarrow> nat option" where
  "median_changed_lines_x2 es indices =
     (let sizes = sort (filter (\<lambda>n. n > 0) (map (\<lambda>i. cx_changed_lines (es ! i)) (filter (\<lambda>i. i < length es) indices)));
          mid = length sizes div 2
      in if sizes = [] then None
         else if length sizes mod 2 = 1 then Some (sizes ! mid * 2)
         else Some (sizes ! (mid - 1) + sizes ! mid))"

definition median_distance_x2 :: "nat \<Rightarrow> nat \<Rightarrow> nat" where
  "median_distance_x2 changed_lines median_x2 = nat \<bar>int (changed_lines * 2) - int median_x2\<bar>"

definition compare_execution_rank :: "nat option \<Rightarrow> candidate_execution \<Rightarrow> candidate_execution \<Rightarrow> ordering" where
  "compare_execution_rank median_x2 l r =
     then_with (cmp (score_execution r) (score_execution l))
      (then_with (case median_x2 of
                    Some m \<Rightarrow> cmp (median_distance_x2 (cx_changed_lines l) m) (median_distance_x2 (cx_changed_lines r) m)
                  | None \<Rightarrow> Equal)
      (then_with (cmp (pq_penalty (patch_quality_of (cx_patch l))) (pq_penalty (patch_quality_of (cx_patch r))))
      (then_with (cmp (hy_score (cx_hypothesis r)) (hy_score (cx_hypothesis l)))
      (then_with (cmp (cx_changed_lines l) (cx_changed_lines r))
        (cmp (cx_candidate_id l) (cx_candidate_id r))))))"

definition compare_static_risk :: "candidate_execution \<Rightarrow> candidate_execution \<Rightarrow> ordering" where
  "compare_static_risk l r =
     then_with (cmp (validation_signal_rank (candidate_validation_signal (cx_stdout r))) (validation_signal_rank (candidate_validation_signal (cx_stdout l))))
      (then_with (cmp (cx_issue_locus_aligned r) (cx_issue_locus_aligned l))
      (then_with (cmp (pq_penalty (patch_quality_of (cx_patch l))) (pq_penalty (patch_quality_of (cx_patch r))))
      (then_with (cmp (cx_timed_out l) (cx_timed_out r))
      (then_with (cmp (cx_changed_lines l) (cx_changed_lines r))
      (then_with (cmp (score_execution r) (score_execution l))
      (then_with (cmp (hy_score (cx_hypothesis r)) (hy_score (cx_hypothesis l)))
        (cmp (cx_candidate_id l) (cx_candidate_id r))))))))"

definition ranked_selectable :: "candidate_execution list \<Rightarrow> nat list" where
  "ranked_selectable es =
     (let indices = filter (\<lambda>i. candidate_is_selectable (es ! i)) [0..<length es]; median_x2 = median_changed_lines_x2 es indices
      in sort_by (\<lambda>l r. compare_execution_rank median_x2 (es ! l) (es ! r)) indices)"

definition static_risk_tiebreak_index :: "candidate_execution list \<Rightarrow> nat list \<Rightarrow> nat option" where
  "static_risk_tiebreak_index es indices = min_by (\<lambda>l r. compare_static_risk (es ! l) (es ! r)) indices"

definition selection_needs_arbitration :: "candidate_execution list \<Rightarrow> nat list \<Rightarrow> int \<Rightarrow> bool" where
  "selection_needs_arbitration es ranked margin =
     (case ranked of
        best # runner_up # _ \<Rightarrow>
          (let a = candidate_validation_signal (cx_stdout (es ! best)); b = candidate_validation_signal (cx_stdout (es ! runner_up))
           in if a = ''pass'' \<and> b \<noteq> ''pass'' then False
              else if a \<in> set [''unavailable'', ''none''] \<and> b \<in> set [''unavailable'', ''none''] then True
              else saturating_sub_i32 (score_execution (es ! best)) (score_execution (es ! runner_up)) \<le> margin)
      | _ \<Rightarrow> False)"

definition clean_source_candidate :: "candidate_execution \<Rightarrow> bool \<Rightarrow> bool" where
  "clean_source_candidate e allow_timeout \<longleftrightarrow>
     trim (cx_patch e) \<noteq> [] \<and> (allow_timeout \<or> \<not> cx_timed_out e) \<and> cx_issue_locus_aligned e \<and>
     pq_penalty (patch_quality_of (cx_patch e)) = 0 \<and> cx_changed_lines e > 0 \<and> cx_changed_lines e \<le> 48 \<and>
     \<not> has_syntax_failure e \<and> \<not> has_collection_failure e \<and> \<not> validation_did_not_run e \<and>
     candidate_has_source_patch e \<and> \<not> list_ex is_test_path (cx_changed_files e)"

definition early_lane_selection_allowed :: "candidate_execution \<Rightarrow> bool" where
  "early_lane_selection_allowed e =
     (let signal = candidate_validation_signal (cx_stdout e)
      in if signal = ''pass'' then candidate_has_source_patch e
         else if signal = ''source_scope_pass'' then clean_source_candidate e True
         else if signal = ''fail'' then False
         else clean_source_candidate e False)"

definition arbiter_selection_allowed :: "candidate_execution \<Rightarrow> candidate_execution \<Rightarrow> bool" where
  "arbiter_selection_allowed selected fallback =
     (let sr = validation_signal_rank (candidate_validation_signal (cx_stdout selected));
          fr = validation_signal_rank (candidate_validation_signal (cx_stdout fallback));
          sp = pq_penalty (patch_quality_of (cx_patch selected)); fp = pq_penalty (patch_quality_of (cx_patch fallback))
      in if \<not> candidate_is_selectable selected then False
         else if \<not> candidate_is_selectable fallback then True
         else if sr > fr then True
         else if sr < fr then False
         else if sp > fp then False
         else if fp > sp then True
         else if cx_issue_locus_aligned fallback \<and> \<not> cx_issue_locus_aligned selected then False
         else if cx_issue_locus_aligned selected \<and> \<not> cx_issue_locus_aligned fallback then True
         else \<not> (sr \<le> 1 \<and> cx_changed_lines selected > cx_changed_lines fallback + 8))"

section \<open>The arbiter\<close>

record arbiter_report =
  ar_status :: string
  ar_selected_candidate_id :: "string option"
  ar_confidence :: "string option"
  ar_reason :: string
  ar_concerns :: "string list"
  ar_raw_response :: "string option"
  ar_fallback_candidate_id :: "string option"

definition compact_block :: "string \<Rightarrow> nat \<Rightarrow> string" where
  "compact_block value0 limit =
     (if length value0 \<le> limit then value0 else take limit value0 @ [CHR 0x0A] @ ''...[truncated]'')"

definition compact_one_line :: "string \<Rightarrow> nat \<Rightarrow> string" where
  "compact_one_line value0 limit =
     join '' '' (filter (\<lambda>line. line \<noteq> []) (map trim (str_lines (compact_block value0 limit))))"

text \<open>
  A response that is not JSON is read from its first opening to its last closing brace; the slice panics when
  it would start behind its end. \<open>from_str\<close> is the JSON parser.
\<close>

definition arbiter_json :: "(string \<Rightarrow> json option) \<Rightarrow> string \<Rightarrow> json option outcome" where
  "arbiter_json from_str response =
     (case from_str response of
        Some v \<Rightarrow> Returns (Some v)
      | None \<Rightarrow>
          (case (char_find (\<lambda>c. c = CHR ''{'') response, char_rfind (\<lambda>c. c = CHR ''}'') response) of
             (Some start, Some stop) \<Rightarrow>
               if start \<le> stop + 1 then Returns (from_str (take (stop + 1 - start) (drop start response))) else Panics
           | _ \<Rightarrow> Returns None))"

definition arbiter_field :: "json option \<Rightarrow> string \<Rightarrow> string option" where
  "arbiter_field v name =
     (case Option.bind (Option.bind v (\<lambda>j. jget j name)) as_str of
        None \<Rightarrow> None
      | Some s \<Rightarrow> if trim s \<noteq> [] then Some (trim s) else None)"

definition is_hypothesis_token :: "string \<Rightarrow> bool" where
  "is_hypothesis_token token \<longleftrightarrow> length token > 1 \<and> starts_with token ''h'' \<and> list_all is_ascii_digit (tl token)"

definition arbiter_candidate_id :: "json option \<Rightarrow> string \<Rightarrow> string option" where
  "arbiter_candidate_id v response =
     or_else (arbiter_field v ''candidate_id'')
      (or_else (arbiter_field v ''selected_candidate_id'')
        (find is_hypothesis_token
          (split_on (\<lambda>c. is_whitespace c \<or> c \<in> set [CHR 0x22, CHR 0x27, CHR '','', CHR '':'', CHR ''{'', CHR ''}'']) response)))"

definition arbiter_confidence :: "json option \<Rightarrow> string option" where
  "arbiter_confidence v =
     map_option (\<lambda>s. let lower = to_ascii_lowercase s in if lower \<in> set [''high'', ''medium'', ''low''] then lower else s)
       (arbiter_field v ''confidence'')"

definition arbiter_concerns :: "json option \<Rightarrow> string list" where
  "arbiter_concerns v =
     (case Option.bind v (\<lambda>j. jget j ''concerns'') of
        Some (JArray items) \<Rightarrow> filter (\<lambda>s. s \<noteq> []) (map trim (List.map_filter as_str items))
      | Some (JString item) \<Rightarrow> filter (\<lambda>s. s \<noteq> []) (map trim (split_on (\<lambda>c. c = CHR '';'') item))
      | _ \<Rightarrow> [])"

datatype arbiter_reply = ArbiterTimedOut | ArbiterFails string | ArbiterAnswers string

definition plain_report :: "string \<Rightarrow> string \<Rightarrow> string \<Rightarrow> arbiter_report" where
  "plain_report status reason concern =
     \<lparr>ar_status = status, ar_selected_candidate_id = None, ar_confidence = None, ar_reason = reason, ar_concerns = [concern],
      ar_raw_response = None, ar_fallback_candidate_id = None\<rparr>"

definition answer_report :: "json option \<Rightarrow> string \<Rightarrow> arbiter_report" where
  "answer_report v response =
     (let selected = arbiter_candidate_id v response
      in \<lparr>ar_status = (if selected \<noteq> None then ''selected'' else ''invalid_response''), ar_selected_candidate_id = selected,
          ar_confidence = arbiter_confidence v, ar_reason = unwrap_or response (arbiter_field v ''reason''),
          ar_concerns = arbiter_concerns v, ar_raw_response = Some response, ar_fallback_candidate_id = None\<rparr>)"

definition arbiter_report_of :: "(string \<Rightarrow> json option) \<Rightarrow> nat \<Rightarrow> arbiter_reply \<Rightarrow> arbiter_report outcome" where
  "arbiter_report_of from_str timeout_seconds reply =
     (case reply of
        ArbiterTimedOut \<Rightarrow>
          Returns (plain_report ''timeout'' (''arbiter exceeded '' @ show_nat timeout_seconds @ '' second selection budget'')
            ''arbiter timed out; static risk tiebreak used'')
      | ArbiterFails err \<Rightarrow> Returns (plain_report ''error'' err ''arbiter call failed'')
      | ArbiterAnswers response \<Rightarrow>
          (case arbiter_json from_str response of
             Returns v \<Rightarrow> Returns (answer_report v response)
           | Panics \<Rightarrow> Panics
           | OutOfFuel \<Rightarrow> OutOfFuel))"

section \<open>Selection\<close>

record fanout_config =
  fc_enabled :: bool
  fc_child :: bool
  fc_child_depth :: nat
  fc_max_depth :: nat
  fc_parent_pid :: "string option"
  fc_max_candidates :: nat
  fc_concurrency :: nat
  fc_child_max_steps :: nat
  fc_child_timeout_seconds :: nat
  fc_fanout_wall_seconds :: nat
  fc_timeout_stop_count :: nat
  fc_child_max_retries :: nat
  fc_child_profile :: string
  fc_child_machine :: string
  fc_context_pump :: bool
  fc_fallback_to_sequential :: bool
  fc_arbiter_enabled :: bool
  fc_arbiter_margin :: int
  fc_arbiter_max_candidates :: nat
  fc_arbiter_timeout_seconds :: nat
  fc_require_strong_selection :: bool
  fc_work_root :: "string option"
  fc_keep_workdirs :: bool
  fc_strengthening :: strengthening_config

record selection_decision =
  se_selected_index :: "nat option"
  se_detail :: string
  se_selector :: string
  se_no_clear_winner :: bool
  se_arbiter :: "arbiter_report option"

definition show_int :: "int \<Rightarrow> string" where
  "show_int i = (if i < 0 then ''-'' @ show_nat (nat (- i)) else show_nat (nat i))"

definition show_bool :: "bool \<Rightarrow> string" where
  "show_bool b = (if b then ''true'' else ''false'')"

text \<open>The prompt of the arbiter. A percent sign in the literals below stands for a line feed.\<close>

definition lines_of :: "string \<Rightarrow> string" where
  "lines_of s = map (\<lambda>c. if c = CHR ''%'' then CHR 0x0A else c) s"

definition format_median_x2 :: "nat \<Rightarrow> string" where
  "format_median_x2 median_x2 = show_nat (median_x2 div 2) @ (if median_x2 mod 2 = 0 then [] else ''.5'')"

definition show_exit :: "int option \<Rightarrow> string" where
  "show_exit code = (case code of None \<Rightarrow> ''None'' | Some i \<Rightarrow> ''Some('' @ show_int i @ '')'')"

definition arbitration_entry :: "nat option \<Rightarrow> candidate_execution \<Rightarrow> string" where
  "arbitration_entry median_x2 e =
     (let quality = patch_quality_of (cx_patch e); h = cx_hypothesis e
      in lines_of ''%## Candidate `'' @ cx_candidate_id e @ lines_of ''`%- hypothesis path: `'' @ hy_path h @
         lines_of ''`%- hypothesis score: '' @ show_nat (hy_score h) @ lines_of ''%- heuristic score: '' @ show_int (score_execution e) @
         lines_of ''%- candidate validation signal: '' @ candidate_validation_signal (cx_stdout e) @
         lines_of ''%- quality penalty: '' @ show_int (pq_penalty quality) @
         lines_of ''%- quality flags: '' @ format_quality_flags (pq_flags quality) @
         lines_of ''%- changed files: '' @ (if cx_changed_files e = [] then ''<none>'' else join '', '' (cx_changed_files e)) @
         lines_of ''%- changed lines: '' @ show_nat (cx_changed_lines e) @ '' ('' @
         (case median_x2 of
            None \<Rightarrow> ''median=unavailable''
          | Some m \<Rightarrow> ''median='' @ format_median_x2 m @ '', distance_x2='' @ show_nat (median_distance_x2 (cx_changed_lines e) m)) @
         lines_of '')%- child exit: '' @ show_exit (cx_exit_code e) @ '', timeout: '' @ show_bool (cx_timed_out e) @
         lines_of ''%- hypothesis reason: '' @ compact_one_line (hy_reason h) 240 @
         lines_of ''%%Diff excerpt:%```diff%'' @ compact_block (cx_patch e) 2200 @ lines_of ''%```%'')"

definition arbitration_prompt :: "string \<Rightarrow> candidate_execution list \<Rightarrow> nat list \<Rightarrow> string" where
  "arbitration_prompt task es indices =
     lines_of (''Select the best candidate patch. If there is no clear winner, still choose the candidate you would apply, set confidence to low, and explain the risk.%%'') @
     lines_of (map (\<lambda>c. if c = CHR ''|'' then CHR 0x22 else if c = CHR ''#'' then CHR ''|'' else c)
       ''Return JSON only, replacing the placeholder with an exact candidate ID shown below: {|candidate_id|:|<exact candidate ID>|,|confidence|:|high#medium#low|,|reason|:|short benchmark-clean reason|,|concerns|:[|short concern|]}%%'') @
     lines_of (''Selection rules:%'' @
       ''- Prefer the patch most directly tied to the issue behavior.%'' @
       ''- Prefer smaller source-only patches when confidence is similar.%'' @
       ''- If candidates are otherwise tied, prefer the patch closest to the median changed-line count across candidate diffs; avoid both trivial one-line guesses and broad rewrites.%'' @
       ''- Treat source_scope_pass as useful source-derived scoped evidence, not final verification proof.%'' @
       ''- Treat regression_pass only as evidence that a baseline-passing public scope did not regress; it is not evidence that the issue was repaired.%'' @
       ''- Prefer stronger validation when patches are otherwise comparable, but if every candidate is feedback-only, unavailable, or none, choose the cleanest issue-grounded source patch and mark confidence low.%'' @
       ''- Do reject candidates that look unrelated, overbroad, or unsupported by their own diff/telemetry.%%'' @
       ''Problem statement:%'') @ compact_block task 2400 @ lines_of ''%%Candidates:%'' @
     concat (map (\<lambda>i. arbitration_entry (median_changed_lines_x2 es indices) (es ! i)) indices)"

definition candidate_detail :: "candidate_execution \<Rightarrow> string" where
  "candidate_detail e =
     (let quality = patch_quality_of (cx_patch e)
      in ''selected '' @ cx_candidate_id e @ '' path='' @ cx_actual_locus e @ '' score='' @ show_int (score_execution e) @
         '' quality_penalty='' @ show_int (pq_penalty quality) @ '' quality_flags='' @ format_quality_flags (pq_flags quality))"

definition static_risk_tiebreak_detail :: "candidate_execution \<Rightarrow> string" where
  "static_risk_tiebreak_detail e =
     (let quality = patch_quality_of (cx_patch e)
      in ''static_risk_tiebreak validation='' @ candidate_validation_signal (cx_stdout e) @ '' path_aligned='' @
         show_bool (cx_issue_locus_aligned e) @ '' changed_lines='' @ show_nat (cx_changed_lines e) @ '' quality_penalty='' @
         show_int (pq_penalty quality) @ '' quality_flags='' @ format_quality_flags (pq_flags quality) @ '' timed_out='' @
         show_bool (cx_timed_out e))"

definition no_selection :: selection_decision where
  "no_selection =
     \<lparr>se_selected_index = None,
      se_detail = ''no selectable candidate patch selected; only unsafe, empty, or concrete-failing candidates were available'',
      se_selector = ''none'', se_no_clear_winner = False, se_arbiter = None\<rparr>"

definition fallback_decision :: "candidate_execution list \<Rightarrow> nat \<Rightarrow> arbiter_report \<Rightarrow> selection_decision" where
  "fallback_decision es fallback report =
     (let how = (if ar_status report = ''error'' then ''error'' else ''unavailable'')
      in \<lparr>se_selected_index = Some fallback,
          se_detail = candidate_detail (es ! fallback) @ '' no_clear_winner=true selector=static_risk_tiebreak_after_arbiter_'' @ how @
            '' arbiter_status='' @ ar_status report @ '' arbiter_reason='' @ compact_one_line (ar_reason report) 180 @ '' '' @
            static_risk_tiebreak_detail (es ! fallback),
          se_selector = ''static_risk_tiebreak_after_arbiter_'' @ how, se_no_clear_winner = True, se_arbiter = Some report\<rparr>)"

definition arbiter_decision :: "candidate_execution list \<Rightarrow> nat \<Rightarrow> arbiter_report \<Rightarrow> selection_decision" where
  "arbiter_decision es index report =
     \<lparr>se_selected_index = Some index,
      se_detail = candidate_detail (es ! index) @ '' selector=llm_arbiter no_clear_winner=true confidence='' @
        unwrap_or ''unspecified'' (ar_confidence report) @ '' reason='' @ compact_one_line (ar_reason report) 240 @ '' concerns='' @
        (if ar_concerns report = [] then ''none'' else compact_one_line (join ''; '' (ar_concerns report)) 200),
      se_selector = ''llm_arbiter'', se_no_clear_winner = True, se_arbiter = Some report\<rparr>"

text \<open>What is made of the report of the arbiter; \<open>pool\<close> is what it could choose from.\<close>

definition decide_with_report :: "candidate_execution list \<Rightarrow> nat list \<Rightarrow> nat \<Rightarrow> arbiter_report \<Rightarrow> selection_decision" where
  "decide_with_report es pool fallback report0 =
     (let report = report0\<lparr>ar_fallback_candidate_id := Some (cx_candidate_id (es ! fallback))\<rparr>
      in case ar_selected_candidate_id report of
           None \<Rightarrow> fallback_decision es fallback report
         | Some selected_id \<Rightarrow>
             (case find (\<lambda>i. cx_candidate_id (es ! i) = selected_id) pool of
                None \<Rightarrow> fallback_decision es fallback (report\<lparr>ar_status := ''invalid_selection''\<rparr>)
              | Some index \<Rightarrow>
                  if arbiter_selection_allowed (es ! index) (es ! fallback) then arbiter_decision es index report
                  else fallback_decision es fallback (report\<lparr>ar_status := ''rejected_static_risk''\<rparr>)))"

definition arbiter_pool :: "fanout_config \<Rightarrow> candidate_execution list \<Rightarrow> nat list" where
  "arbiter_pool config es =
     (let ranked = ranked_selectable es in take (max 1 (min (fc_arbiter_max_candidates config) (length ranked))) ranked)"

definition select_candidate_index ::
  "(string \<Rightarrow> json option) \<Rightarrow> (string \<Rightarrow> 'w \<Rightarrow> arbiter_reply \<times> 'w) \<Rightarrow> string \<Rightarrow> fanout_config \<Rightarrow> candidate_execution list \<Rightarrow> 'w
   \<Rightarrow> (selection_decision \<times> 'w) outcome" where
  "select_candidate_index from_str ask task config es w =
     (let ranked = ranked_selectable es
      in case ranked of
           [] \<Rightarrow> Returns (no_selection, w)
         | heuristic # _ \<Rightarrow>
             (let needs_arbitration = selection_needs_arbitration es ranked (fc_arbiter_margin config)
              in if \<not> needs_arbitration \<or> \<not> fc_arbiter_enabled config then
                   Returns (\<lparr>se_selected_index = Some heuristic, se_detail = candidate_detail (es ! heuristic) @ '' selector=heuristic'',
                     se_selector = ''heuristic'', se_no_clear_winner = needs_arbitration, se_arbiter = None\<rparr>, w)
                 else
                   (let pool = arbiter_pool config es;
                        fallback = unwrap_or heuristic (static_risk_tiebreak_index es pool);
                        (reply, w') = ask (arbitration_prompt task es pool) w
                    in case arbiter_report_of from_str (fc_arbiter_timeout_seconds config) reply of
                         Returns report \<Rightarrow> Returns (decide_with_report es pool fallback report, w')
                       | Panics \<Rightarrow> Panics
                       | OutOfFuel \<Rightarrow> OutOfFuel)))"

section \<open>The two orders\<close>

lemma then_cmp: "then_with (cmp a b) c \<noteq> Greater \<longleftrightarrow> a < b \<or> a = b \<and> c \<noteq> Greater"
  by (auto simp: cmp_def)

lemma cmp_le: "cmp a b \<noteq> Greater \<longleftrightarrow> a \<le> b"
  by (auto simp: cmp_def)

lemma ranking_key: "ranking (\<lambda>a b. k a \<le> (k b :: 'k::linorder))"
  by unfold_locales auto

lemma ranking_then:
  assumes "ranking le"
  shows "ranking (\<lambda>a b. k a < (k b :: 'k::linorder) \<or> k a = k b \<and> le a b)"
proof
  fix a b c assume ab: "k a < k b \<or> k a = k b \<and> le a b" and bc: "k b < k c \<or> k b = k c \<and> le b c"
  show "k a < k c \<or> k a = k c \<and> le a c"
    using ab bc ranking.le_trans [OF assms, of a b c] by auto
next
  fix a b show "(k a < k b \<or> k a = k b \<and> le a b) \<or> (k b < k a \<or> k b = k a \<and> le b a)"
    using ranking.le_total [OF assms, of a b] by auto
qed

lemma ranking_then_desc:
  assumes "ranking le"
  shows "ranking (\<lambda>a b. k b < (k a :: 'k::linorder) \<or> k b = k a \<and> le a b)"
proof
  fix a b c assume ab: "k b < k a \<or> k b = k a \<and> le a b" and bc: "k c < k b \<or> k c = k b \<and> le b c"
  show "k c < k a \<or> k c = k a \<and> le a c"
    using ab bc ranking.le_trans [OF assms, of a b c] by auto
next
  fix a b show "(k b < k a \<or> k b = k a \<and> le a b) \<or> (k a < k b \<or> k a = k b \<and> le b a)"
    using ranking.le_total [OF assms, of a b] by auto
qed

definition rank_le :: "nat option \<Rightarrow> candidate_execution \<Rightarrow> candidate_execution \<Rightarrow> bool" where
  "rank_le m a b \<longleftrightarrow> compare_execution_rank m a b \<noteq> Greater"

definition risk_le :: "candidate_execution \<Rightarrow> candidate_execution \<Rightarrow> bool" where
  "risk_le a b \<longleftrightarrow> compare_static_risk a b \<noteq> Greater"

lemma then_median:
  "then_with (case m of Some x \<Rightarrow> cmp (median_distance_x2 a x) (median_distance_x2 b x) | None \<Rightarrow> Equal) c \<noteq> Greater \<longleftrightarrow>
     (let d = \<lambda>n. case m of Some x \<Rightarrow> median_distance_x2 n x | None \<Rightarrow> 0 in d a < d b \<or> d a = d b \<and> c \<noteq> Greater)"
  by (cases m) (simp_all add: then_cmp)

interpretation rank: ranking "rank_le m" for m
  unfolding rank_le_def [abs_def] compare_execution_rank_def then_cmp then_median cmp_le Let_def
  by (intro ranking_then ranking_then_desc ranking_key)

interpretation risk: ranking risk_le
  unfolding risk_le_def [abs_def] compare_static_risk_def then_cmp cmp_le
  by (intro ranking_then ranking_then_desc ranking_key)

context ranking
begin

lemma min_by_sound:
  assumes f: "\<And>a b. f a b \<noteq> Greater \<longleftrightarrow> le a b"
  shows "case min_by f xs of None \<Rightarrow> xs = [] | Some m \<Rightarrow> m \<in> set xs \<and> (\<forall>x \<in> set xs. le m x)"
proof (induction xs rule: rev_induct)
  case (snoc x xs)
  have step: "min_by f (xs @ [x]) = (case min_by f xs of None \<Rightarrow> Some x | Some b \<Rightarrow> if le b x then Some b else Some x)"
    using f by (auto simp: min_by_def split: option.split)
  show ?case
  proof (cases "min_by f xs")
    case None
    with snoc step le_total [of x x] show ?thesis by simp
  next
    case (Some b)
    with snoc have b: "b \<in> set xs" "\<And>y. y \<in> set xs \<Longrightarrow> le b y" by simp_all
    show ?thesis
    proof (cases "le b x")
      case False
      with le_total [of x b] have "le x b" by simp
      then have "le x y" if "y \<in> set (xs @ [x])" for y using that b(2) le_trans [of x b y] le_total [of x x] by auto
      with Some step False show ?thesis by simp
    qed (use Some step b in auto)
  qed
qed (simp add: min_by_def)

lemma insert_by_set [simp]: "set (insert_by f x xs) = insert x (set xs)"
  by (induction xs) auto

lemma sort_by_set: "set (sort_by f xs) = set xs"
  by (induction xs) (simp_all add: sort_by_def)

lemma insert_by_sorted:
  assumes f: "\<And>a b. f a b \<noteq> Greater \<longleftrightarrow> le a b"
  shows "sorted_wrt le xs \<Longrightarrow> sorted_wrt le (insert_by f x xs)"
proof (induction xs)
  case (Cons y ys)
  show ?case
  proof (cases "f x y = Greater")
    case True
    then have "le y x" using f [of x y] le_total [of x y] by blast
    with True Cons show ?thesis by simp
  next
    case False
    then have "le x y" using f [of x y] by blast
    with False Cons.prems le_trans [of x y] show ?thesis by auto
  qed
qed simp

lemma sort_by_sorted:
  assumes "\<And>a b. f a b \<noteq> Greater \<longleftrightarrow> le a b"
  shows "sorted_wrt le (sort_by f xs)"
  by (induction xs) (simp_all add: sort_by_def insert_by_sorted [OF assms])

end

section \<open>The selected candidate\<close>

interpretation rank_at: ranking "\<lambda>l r. rank_le m (es ! l) (es ! r)" for m es
  by unfold_locales (blast intro: rank.le_trans, rule rank.le_total)

interpretation risk_at: ranking "\<lambda>l r. risk_le (es ! l) (es ! r)" for es
  by unfold_locales (blast intro: risk.le_trans, rule risk.le_total)

lemma rank_le_score: "rank_le m a b \<Longrightarrow> score_execution b \<le> score_execution a"
  unfolding rank_le_def compare_execution_rank_def then_cmp by auto

lemma risk_le_signal:
  "risk_le a b \<Longrightarrow> validation_signal_rank (candidate_validation_signal (cx_stdout b)) \<le>
     validation_signal_rank (candidate_validation_signal (cx_stdout a))"
  unfolding risk_le_def compare_static_risk_def then_cmp by auto

lemma ranked_selectable_set: "set (ranked_selectable es) = {i. i < length es \<and> candidate_is_selectable (es ! i)}"
  by (auto simp: ranked_selectable_def Let_def rank_at.sort_by_set)

lemma ranked_selectable_best:
  assumes "ranked_selectable es = best # rest" "e \<in> set es" "candidate_is_selectable e"
  shows "score_execution e \<le> score_execution (es ! best)"
proof -
  let ?indices = "filter (\<lambda>i. candidate_is_selectable (es ! i)) [0..<length es]"
  have "sorted_wrt (\<lambda>l r. rank_le (median_changed_lines_x2 es ?indices) (es ! l) (es ! r)) (ranked_selectable es)"
    unfolding ranked_selectable_def Let_def by (rule rank_at.sort_by_sorted) (simp add: rank_le_def)
  moreover obtain i where i: "i < length es" "es ! i = e" using assms(2) by (auto simp: in_set_conv_nth)
  moreover have "i \<in> set (best # rest)" using ranked_selectable_set [of es] assms(1,3) i by auto
  ultimately show ?thesis using assms(1) rank_le_score by auto
qed

lemma tiebreak_sound:
  assumes "static_risk_tiebreak_index es pool = Some i"
  shows "i \<in> set pool" "j \<in> set pool \<Longrightarrow> validation_signal_rank (candidate_validation_signal (cx_stdout (es ! j))) \<le>
     validation_signal_rank (candidate_validation_signal (cx_stdout (es ! i)))"
  using risk_at.min_by_sound [of "\<lambda>l r. compare_static_risk (es ! l) (es ! r)" es pool] assms risk_le_signal
  by (auto simp: static_risk_tiebreak_index_def risk_le_def)

lemma tiebreak_some: "pool \<noteq> [] \<Longrightarrow> \<exists>i. static_risk_tiebreak_index es pool = Some i"
  using risk_at.min_by_sound [of "\<lambda>l r. compare_static_risk (es ! l) (es ! r)" es pool]
  by (auto simp: static_risk_tiebreak_index_def risk_le_def split: option.splits)

lemma arbiter_keeps_signal:
  assumes "arbiter_selection_allowed s b" "candidate_is_selectable b"
  shows "candidate_is_selectable s \<and> validation_signal_rank (candidate_validation_signal (cx_stdout b)) \<le>
     validation_signal_rank (candidate_validation_signal (cx_stdout s))"
  using assms by (auto simp: arbiter_selection_allowed_def Let_def split: if_splits)

lemma decide_with_report_cases:
  "se_selected_index (decide_with_report es pool fallback report) = Some fallback \<or>
   (\<exists>i \<in> set pool. se_selected_index (decide_with_report es pool fallback report) = Some i \<and> arbiter_selection_allowed (es ! i) (es ! fallback))"
  "se_selector (decide_with_report es pool fallback report) \<noteq> ''heuristic''"
  by (auto simp: decide_with_report_def fallback_decision_def arbiter_decision_def Let_def find_Some_iff split: option.split)

lemma decided_in_pool:
  assumes "pool = arbiter_pool config es" "pool \<noteq> []"
    and "d = decide_with_report es pool (unwrap_or h (static_risk_tiebreak_index es pool)) report"
  shows "\<exists>i \<in> set pool. se_selected_index d = Some i \<and> i < length es \<and> candidate_is_selectable (es ! i) \<and>
    (\<forall>j \<in> set pool. validation_signal_rank (candidate_validation_signal (cx_stdout (es ! j))) \<le>
       validation_signal_rank (candidate_validation_signal (cx_stdout (es ! i))))"
proof -
  obtain b where b: "static_risk_tiebreak_index es pool = Some b" using tiebreak_some [OF assms(2)] by blast
  have in_es: "i < length es \<and> candidate_is_selectable (es ! i)" if "i \<in> set pool" for i
    using that ranked_selectable_set [of es] set_take_subset by (fastforce simp: assms(1) arbiter_pool_def Let_def)
  note best = tiebreak_sound [OF b]
  from decide_with_report_cases(1) [of es pool b report] show ?thesis
  proof (elim disjE bexE conjE)
    assume "se_selected_index (decide_with_report es pool b report) = Some b"
    then show ?thesis using assms(3) b best in_es by auto
  next
    fix i assume i: "i \<in> set pool" "se_selected_index (decide_with_report es pool b report) = Some i"
      "arbiter_selection_allowed (es ! i) (es ! b)"
    have "candidate_is_selectable (es ! b)" using in_es best(1) by blast
    from arbiter_keeps_signal [OF i(3) this] i assms(3) b best(2) in_es show ?thesis by force
  qed
qed

text \<open>How a selection comes about: by rank, or by the tie break and the arbiter.\<close>

lemma select_cases:
  assumes "select_candidate_index from_str ask task config es w = Returns (d, w')"
  obtains (none) "ranked_selectable es = []" "se_selected_index d = None"
    | (heuristic) h rest where "ranked_selectable es = h # rest" "se_selected_index d = Some h" "se_selector d = ''heuristic''"
    | (arbitrated) i where "se_selected_index d = Some i" "se_selector d \<noteq> ''heuristic''" "i \<in> set (arbiter_pool config es)"
        "i < length es" "candidate_is_selectable (es ! i)"
        "\<And>j. j \<in> set (arbiter_pool config es) \<Longrightarrow> validation_signal_rank (candidate_validation_signal (cx_stdout (es ! j))) \<le>
           validation_signal_rank (candidate_validation_signal (cx_stdout (es ! i)))"
proof (cases "ranked_selectable es")
  case Nil
  with assms show ?thesis by (intro none) (auto simp: select_candidate_index_def no_selection_def)
next
  case (Cons h rest)
  have pool: "arbiter_pool config es \<noteq> []" by (simp add: arbiter_pool_def Cons Let_def)
  show ?thesis
  proof (cases "selection_needs_arbitration es (ranked_selectable es) (fc_arbiter_margin config) \<and> fc_arbiter_enabled config")
    case False
    with assms Cons show ?thesis by (intro heuristic [OF Cons]) (auto simp: select_candidate_index_def Let_def split: if_splits)
  next
    case True
    with assms Cons obtain report where report: "d = decide_with_report es (arbiter_pool config es)
        (unwrap_or h (static_risk_tiebreak_index es (arbiter_pool config es))) report"
      by (auto simp: select_candidate_index_def Let_def split: prod.splits outcome.splits)
    show ?thesis
      using decided_in_pool [OF refl pool report] decide_with_report_cases(2) report by (auto intro: arbitrated)
  qed
qed

lemma selected_choice:
  assumes "select_candidate_index from_str ask task config es w = Returns (d, w')" "se_selected_index d = Some i"
  shows "es ! i \<in> set es" "candidate_is_selectable (es ! i)"
proof -
  have "i < length es \<and> candidate_is_selectable (es ! i)"
    using assms(1)
  proof (cases rule: select_cases)
    case (heuristic h rest)
    then show ?thesis using ranked_selectable_set [of es] assms(2) by auto
  qed (use assms(2) in auto)
  then show "es ! i \<in> set es" "candidate_is_selectable (es ! i)" by auto
qed

text \<open>
  C28: The tournament selects soundly, whatever the model that arbitrates says. Nothing is selected only when no candidate
  is selectable. Otherwise the selected candidate is selectable; without arbitration no selectable candidate has a higher score;
  and with it no candidate among which the arbiter could choose has better validation, so that a model can neither
  bring back a rejected patch nor override stronger evidence.
\<close>

theorem selected_candidate_sound:
  assumes "select_candidate_index from_str ask task config es w = Returns (d, w')"
  shows "case se_selected_index d of
      None \<Rightarrow> \<not> list_ex candidate_is_selectable es
    | Some i \<Rightarrow> i < length es \<and> candidate_is_selectable (es ! i) \<and>
        (if se_selector d = ''heuristic'' then \<forall>e \<in> set es. candidate_is_selectable e \<longrightarrow> score_execution e \<le> score_execution (es ! i)
         else i \<in> set (arbiter_pool config es) \<and>
           (\<forall>j \<in> set (arbiter_pool config es). validation_signal_rank (candidate_validation_signal (cx_stdout (es ! j))) \<le>
              validation_signal_rank (candidate_validation_signal (cx_stdout (es ! i)))))"
  using assms
proof (cases rule: select_cases)
  case none
  then show ?thesis using ranked_selectable_set [of es] by (auto simp: list_ex_iff in_set_conv_nth)
next
  case (heuristic h rest)
  then show ?thesis using ranked_selectable_set [of es] ranked_selectable_best [OF heuristic(1)] by auto
qed simp

definition source_candidate :: "nat \<Rightarrow> string \<Rightarrow> candidate_execution" where
  "source_candidate n out0 =
     \<lparr>cx_hypothesis = \<lparr>hy_id = n, hy_path = ''a.py'', hy_score = 0, hy_reason = []\<rparr>, cx_candidate_id = ''h'' @ show_nat n,
      cx_stdout = out0, cx_stderr = [], cx_patch = ''+x'', cx_changed_files = [''a.py''], cx_changed_lines = 1, cx_exit_code = None,
      cx_timed_out = False, cx_evidence = from_output out0, cx_actual_locus = ''a.py'', cx_issue_locus_aligned = True,
      cx_strengthening_attempted = False, cx_strengthening_signal = None, cx_parent_output = [], cx_parent_provenance = None\<rparr>"

definition two_candidates :: "candidate_execution list" where
  "two_candidates = [source_candidate 1 ''[FINAL_VERIFICATION] FAIL'', source_candidate 2 [] ]"

definition plain_config :: fanout_config where
  "plain_config =
     \<lparr>fc_enabled = True, fc_child = False, fc_child_depth = 0, fc_max_depth = 1, fc_parent_pid = None, fc_max_candidates = 4, fc_concurrency = 2,
      fc_child_max_steps = 45, fc_child_timeout_seconds = 900, fc_fanout_wall_seconds = 1200, fc_timeout_stop_count = 2, fc_child_max_retries = 1,
      fc_child_profile = ''speed'', fc_child_machine = ''speed'', fc_context_pump = False, fc_fallback_to_sequential = False,
      fc_arbiter_enabled = True, fc_arbiter_margin = 30, fc_arbiter_max_candidates = 3, fc_arbiter_timeout_seconds = 90,
      fc_require_strong_selection = False, fc_work_root = None, fc_keep_workdirs = False,
      fc_strengthening = \<lparr>sc_enabled = True, sc_steps = 16, sc_timeout_ms = 180000\<rparr>\<rparr>"

lemma source_candidates_selectable:
  "candidate_rejection_reasons (source_candidate 1 ''[FINAL_VERIFICATION] FAIL'') = [''final_verification_failed'']"
  "candidate_rejection_reasons (source_candidate 2 []) = []"
  by code_simp+

lemma two_candidates_ranked: "ranked_selectable two_candidates = [1]"
  using source_candidates_selectable
  by (simp add: ranked_selectable_def two_candidates_def candidate_is_selectable_def sort_by_def Let_def upt_rec)

theorem selected_candidate_sound_witness:
  "\<exists>d. select_candidate_index (\<lambda>_. None) (\<lambda>_ w. (ArbiterTimedOut, w)) ''t'' plain_config two_candidates () = Returns (d, ()) \<and>
     se_selected_index d = Some 1 \<and> candidate_is_selectable (two_candidates ! 1)"
proof -
  obtain d where d: "select_candidate_index (\<lambda>_. None) (\<lambda>_ w. (ArbiterTimedOut, w)) ''t'' plain_config two_candidates () = Returns (d, ())"
    "se_selected_index d = Some 1" "se_selector d = ''heuristic''"
    using two_candidates_ranked by (simp add: select_candidate_index_def selection_needs_arbitration_def Let_def)
  then show ?thesis using selected_candidate_sound [OF d(1)] by simp
qed

end
