(* ===== verification/CandidateRuns.thy ===== *)
theory CandidateRuns
  imports CandidateFanout
begin

text \<open>
  The processes and the effects of the tournament (\<open>crates/cli/src/candidate_fanout.rs\<close>): its configuration, the command of a
  child, the evidence packet (\<open>candidate_context.rs\<close>), the run of one candidate with its one repair, the collection in chunks under a
  budget, and the application of the selected patch. Child processes, Git, files, the clock and the validation of a candidate by
  the parent are parameters on a state \<open>'w\<close> of the outside world.
\<close>

section \<open>Configuration and the processes it starts\<close>

abbreviation fanout_flag :: "string \<Rightarrow> bool \<Rightarrow> oracle_world \<Rightarrow> bool" where
  "fanout_flag \<equiv> flag_in [''1'', ''true'', ''yes'', ''on'', ''best_of_n'', ''fanout'', ''parallel'']"

definition env_string :: "string \<Rightarrow> oracle_world \<Rightarrow> string option" where
  "env_string name w =
     (case ow_env w name of None \<Rightarrow> None | Some value \<Rightarrow> if trim value \<noteq> [] then Some (trim value) else None)"

definition feature_enabled :: "oracle_world \<Rightarrow> bool" where
  "feature_enabled w =
     (if is_some_and (\<lambda>value. eq_ignore_ascii_case (trim value) ''causal_one_pass'') (ow_env w ''SW_REPAIR_CONTROLLER'') then False
      else if fanout_flag ''SW_CANDIDATE_FANOUT_DISABLED'' False w then False
      else case env_string ''DEPRECATED_SW_CANDIDATE_FANOUT_MODE'' w of
        None \<Rightarrow> False
      | Some mode \<Rightarrow> to_ascii_lowercase (trim mode) \<in> set [''1'', ''on'', ''true'', ''fanout'', ''parallel''])"

definition process_depth_from_env :: "oracle_world \<Rightarrow> nat" where
  "process_depth_from_env w =
     (let explicit_depth = env_unsigned 64 ''SW_CANDIDATE_FANOUT_DEPTH'' 0 0 64 w
      in if explicit_depth = 0 \<and> fanout_flag ''SW_CANDIDATE_FANOUT_CHILD'' False w then 1 else explicit_depth)"

definition fanout_config_from_env :: "oracle_world \<Rightarrow> fanout_config" where
  "fanout_config_from_env w =
     (let child_depth = process_depth_from_env w
      in \<lparr>fc_enabled = feature_enabled w \<and> fanout_flag ''SW_CANDIDATE_FANOUT'' False w,
          fc_child = child_depth > 0,
          fc_child_depth = child_depth,
          fc_max_depth = env_unsigned 64 ''SW_CANDIDATE_FANOUT_MAX_DEPTH'' 1 0 8 w,
          fc_parent_pid = env_string ''SW_CANDIDATE_FANOUT_PARENT_PID'' w,
          fc_max_candidates = env_unsigned 64 ''SW_CANDIDATE_FANOUT_MAX'' 4 1 12 w,
          fc_concurrency = env_unsigned 64 ''SW_CANDIDATE_FANOUT_CONCURRENCY'' 2 1 8 w,
          fc_child_max_steps = env_unsigned 32 ''SW_CANDIDATE_FANOUT_CHILD_MAX_STEPS'' 45 8 200 w,
          fc_child_timeout_seconds = env_unsigned 64 ''SW_CANDIDATE_FANOUT_CHILD_TIMEOUT_SECONDS'' 900 60 7200 w,
          fc_fanout_wall_seconds = env_unsigned 64 ''SW_CANDIDATE_FANOUT_WALL_SECONDS'' 1200 0 7200 w,
          fc_timeout_stop_count = env_unsigned 64 ''SW_CANDIDATE_FANOUT_TIMEOUT_STOP_COUNT'' 2 0 32 w,
          fc_child_max_retries = env_unsigned 32 ''SW_CANDIDATE_FANOUT_CHILD_MAX_RETRIES'' 1 0 20 w,
          fc_child_profile = unwrap_or ''speed'' (env_string ''SW_CANDIDATE_FANOUT_CHILD_PROFILE'' w),
          fc_child_machine = unwrap_or ''speed'' (env_string ''SW_CANDIDATE_FANOUT_CHILD_MACHINE'' w),
          fc_context_pump = fanout_flag ''SW_CANDIDATE_FANOUT_CONTEXT_PUMP'' True w,
          fc_fallback_to_sequential = fanout_flag ''DEPRECATED_SW_CANDIDATE_FANOUT_FALLBACK'' False w,
          fc_arbiter_enabled = fanout_flag ''SW_CANDIDATE_FANOUT_ARBITER'' True w,
          fc_arbiter_margin = clamped_number parse_i32 ''SW_CANDIDATE_FANOUT_ARBITER_MARGIN'' 30 0 200 w,
          fc_arbiter_max_candidates = env_unsigned 64 ''SW_CANDIDATE_FANOUT_ARBITER_MAX'' 3 2 8 w,
          fc_arbiter_timeout_seconds = env_unsigned 64 ''SW_CANDIDATE_FANOUT_ARBITER_TIMEOUT_SECONDS'' 90 10 600 w,
          fc_require_strong_selection = fanout_flag ''SW_CANDIDATE_FANOUT_REQUIRE_STRONG_SELECTION'' False w,
          fc_work_root = env_string ''SW_CANDIDATE_FANOUT_WORK_ROOT'' w,
          fc_keep_workdirs = fanout_flag ''SW_CANDIDATE_FANOUT_KEEP_WORKDIRS'' False w,
          fc_strengthening = strengthening_from_env w\<rparr>)"

definition parent_enabled :: "fanout_config \<Rightarrow> bool" where
  "parent_enabled config \<longleftrightarrow> fc_enabled config \<and> \<not> fc_child config \<and> fc_child_depth config = 0 \<and> fc_max_depth config > 0"

definition plan_mode_from_env :: "bool \<Rightarrow> oracle_world \<Rightarrow> string" where
  "plan_mode_from_env patch_tournament_enabled w =
     (if patch_tournament_enabled \<and> parent_enabled (fanout_config_from_env w) then ''parallel_candidate_fanout''
      else if patch_tournament_enabled then ''sequential_candidate_packets'' else ''disabled'')"

text \<open>\<open>iv_model_size\<close> is the size as it is printed.\<close>

record agent_invocation =
  iv_task :: string
  iv_ollama_url :: string
  iv_model :: string
  iv_max_retries :: nat
  iv_hardcoded_machine :: string
  iv_use_hardcoded_machine :: bool
  iv_tool_mode :: string
  iv_model_size :: string
  iv_config_path :: "string option"

record child_machine =
  cm_variant :: string
  cm_force_hardcoded :: bool

definition child_machine_variant :: "fanout_config \<Rightarrow> agent_invocation \<Rightarrow> child_machine" where
  "child_machine_variant config iv =
     (let requested = trim (fc_child_machine config)
      in if requested = [] \<or> eq_ignore_ascii_case requested ''inherit'' \<or> eq_ignore_ascii_case requested ''parent''
         then \<lparr>cm_variant = iv_hardcoded_machine iv, cm_force_hardcoded = False\<rparr>
         else \<lparr>cm_variant = requested, cm_force_hardcoded = True\<rparr>)"

definition bool_string :: "bool \<Rightarrow> string" where
  "bool_string b = (if b then ''1'' else ''0'')"

record child_command =
  cc_args :: "string list"
  cc_env :: "(string \<times> string) list"

definition candidate_command ::
  "fanout_config \<Rightarrow> agent_invocation \<Rightarrow> candidate_hypothesis \<Rightarrow> string \<Rightarrow> string \<Rightarrow> string \<Rightarrow> nat \<Rightarrow> nat \<Rightarrow> child_machine \<Rightarrow> string \<Rightarrow> child_command" where
  "candidate_command config iv h workdir artifact_dir task max_steps max_retries machine pid =
     \<lparr>cc_args = [''--task'', task, ''--workdir'', workdir, ''--ollama-url'', iv_ollama_url iv, ''--model'', iv_model iv,
        ''--max-retries'', show_nat max_retries, ''--max-steps'', show_nat max_steps, ''--hardcoded-machine'', cm_variant machine,
        ''--tool-mode'', iv_tool_mode iv, ''--model-size'', iv_model_size iv, ''--no-restore''] @
        (if cm_force_hardcoded machine \<or> iv_use_hardcoded_machine iv then [''--use-hardcoded-machine''] else []) @
        (case iv_config_path iv of Some path \<Rightarrow> [''--config'', path] | None \<Rightarrow> []),
      cc_env = [(''SW_CANDIDATE_FANOUT'', ''0''), (''SW_CANDIDATE_FANOUT_CHILD'', ''1''),
        (''SW_CANDIDATE_FANOUT_DEPTH'', show_nat (fc_child_depth config + 1)),
        (''SW_CANDIDATE_FANOUT_MAX_DEPTH'', show_nat (fc_max_depth config)), (''SW_CANDIDATE_FANOUT_PARENT_PID'', pid),
        (''SW_SCOUT_FANOUT'', ''0''), (''SW_SCOUT_LANE_ESCALATION'', ''0''),
        (''SW_SPEED_SOLVER'', bool_string (eq_ignore_ascii_case (fc_child_profile config) ''speed'')),
        (''SW_HARDCODED_MACHINE'', cm_variant machine), (''SW_CANDIDATE_FANOUT_CHILD_PROFILE'', fc_child_profile config),
        (''SW_CANDIDATE_FANOUT_CHILD_MACHINE'', cm_variant machine),
        (''SW_CANDIDATE_FANOUT_CONTEXT_PUMP'', bool_string (fc_context_pump config)),
        (''SW_CANDIDATE_FANOUT_HYPOTHESIS_ID'', show_nat (hy_id h)), (''SW_CANDIDATE_FANOUT_HYPOTHESIS_PATH'', hy_path h),
        (''SW_CANDIDATE_FANOUT_HYPOTHESIS_SCORE'', show_nat (hy_score h)),
        (''SW_CANDIDATE_FANOUT_HYPOTHESIS_REASON'', hy_reason h), (''SW_ARTIFACT_DIR'', artifact_dir)]\<rparr>"

text \<open>The environment of the child: that of the parent with the variables of the command.\<close>

definition child_world :: "child_command \<Rightarrow> oracle_world \<Rightarrow> oracle_world" where
  "child_world command w = fold (\<lambda>(name, value0). set_env name value0) (cc_env command) w"

section \<open>The evidence packet of the parent\<close>

record context_file =
  cf_path :: string
  cf_score :: nat
  cf_reasons :: "string list"

record context_packet =
  ck_source_artifact_dir :: "string option"
  ck_top_files :: "context_file list"
  ck_trusted_test_scope :: bool
  ck_advisory_test_files :: "string list"
  ck_advisory_test_labels :: "string list"
  ck_baseline_runnable_scopes :: "string list"
  ck_policy_profile :: "string option"
  ck_workflow_lane :: "string option"
  ck_policy_reasons :: "string list"

definition bare_repo_path :: "string \<Rightarrow> string" where
  "bare_repo_path path = trim_start_matches ''./'' (trim path)"

definition ranks_source_path :: "context_packet \<Rightarrow> string \<Rightarrow> bool" where
  "ranks_source_path packet path \<longleftrightarrow> list_ex (\<lambda>c. bare_repo_path (cf_path c) = bare_repo_path path) (ck_top_files packet)"

definition json_string :: "json option \<Rightarrow> string \<Rightarrow> string option" where
  "json_string v key =
     (case Option.bind (Option.bind v (\<lambda>j. jget j key)) as_str of
        None \<Rightarrow> None
      | Some s \<Rightarrow> if trim s \<noteq> [] then Some (trim s) else None)"

definition json_items :: "json option \<Rightarrow> json list" where
  "json_items v = unwrap_or [] (Option.bind v as_array)"

definition json_strings :: "json option \<Rightarrow> nat \<Rightarrow> string list" where
  "json_strings v limit = take limit (filter (\<lambda>s. s \<noteq> []) (map trim (List.map_filter as_str (json_items v))))"

text \<open>\<open>dedup\<close> drops repetitions of neighbours.\<close>

fun dedup :: "'a list \<Rightarrow> 'a list" where
  "dedup (x # y # xs) = (if x = y then dedup (y # xs) else x # dedup (y # xs))"
| "dedup xs = xs"

definition context_file_of :: "json \<Rightarrow> context_file option" where
  "context_file_of entry =
     (case json_string (Some entry) ''path'' of
        None \<Rightarrow> None
      | Some path \<Rightarrow> Some \<lparr>cf_path = path,
          cf_score = (case jget entry ''score'' of Some (JNumber (PosInt n)) \<Rightarrow> unat n | _ \<Rightarrow> 0),
          cf_reasons = json_strings (jget entry ''reasons'') 3\<rparr>)"

text \<open>
  The two artifacts are the JSON values found in the directory or one of its first five ancestors, if any; \<open>shape_dir\<close> is the
  directory of the first.
\<close>

definition load_packet :: "string option \<Rightarrow> json option \<Rightarrow> json option \<Rightarrow> string list \<Rightarrow> context_packet" where
  "load_packet shape_dir shape policy scopes =
     (let field = \<lambda>key. Option.bind shape (\<lambda>j. jget j key)
      in \<lparr>ck_source_artifact_dir = shape_dir,
          ck_top_files = take 6 (List.map_filter context_file_of (json_items (field ''top_files''))),
          ck_trusted_test_scope = unwrap_or False (Option.bind (field ''trusted_test_scope'') as_bool),
          ck_advisory_test_files = json_strings (field ''advisory_test_files'') 8,
          ck_advisory_test_labels = json_strings (field ''advisory_test_labels'') 8,
          ck_baseline_runnable_scopes = take 8 (dedup (sort scopes)),
          ck_policy_profile = json_string policy ''profile'',
          ck_workflow_lane = json_string policy ''workflow_lane'',
          ck_policy_reasons = json_strings (Option.bind policy (\<lambda>j. jget j ''reasons'')) 4\<rparr>)"

definition list_line :: "string \<Rightarrow> string list \<Rightarrow> string list" where
  "list_line label values0 = (if values0 = [] then [] else [''- '' @ label @ '': `'' @ join ''`, `'' values0 @ ''`.''])"

definition render_packet :: "context_packet \<Rightarrow> string" where
  "render_packet p =
     join [CHR 0x0A]
       ([''## Parent Evidence Packet'',
         ''Provenance: deterministic parent localization over the public repository and harness-visible public test telemetry only.''] @
        (if ck_top_files p = [] then [''- Ranked source loci: unavailable; inspect the forced path directly.'']
         else ''- Ranked source loci:'' #
           map (\<lambda>c. ''  - `'' @ cf_path c @ ''` score='' @ show_nat (cf_score c) @ '' ('' @
             (if cf_reasons c = [] then ''no additional reason'' else join ''; '' (cf_reasons c)) @ '')'') (ck_top_files p)) @
        [''- Parent test-scope trust: '' @ (if ck_trusted_test_scope p then ''baseline-proven public scope'' else ''advisory only'') @ ''.''] @
        list_line ''Baseline-runnable public test files'' (ck_baseline_runnable_scopes p) @
        list_line ''Advisory test files'' (ck_advisory_test_files p) @
        list_line ''Advisory test labels'' (ck_advisory_test_labels p) @
        (case ck_policy_profile p of Some profile \<Rightarrow> [''- CLU profile: `'' @ profile @ ''`.''] | None \<Rightarrow> []) @
        (case ck_workflow_lane p of Some lane \<Rightarrow> [''- CLU workflow lane: `'' @ lane @ ''`.''] | None \<Rightarrow> []) @
        (if ck_policy_reasons p = [] then [] else [''- Policy reasons: '' @ join ''; '' (ck_policy_reasons p) @ ''.'']))"

definition speed_solver_task :: "string \<Rightarrow> fanout_config \<Rightarrow> candidate_hypothesis \<Rightarrow> string \<Rightarrow> nat \<Rightarrow> context_packet \<Rightarrow> string" where
  "speed_solver_task original_task config h candidate_id child_max_retries packet =
     original_task @ lines_of ''%%## Candidate Speed Solver Packet%'' @
     ''You are child candidate `'' @ candidate_id @ ''` in a benchmark-clean patch tournament. '' @
     ''Your parent will compare generated source patches using harness-visible telemetry only; '' @
     lines_of ''official SWE-bench verification remains the only solve authority.%%'' @
     lines_of ''Forced source hypothesis:%- path: `'' @ hy_path h @ lines_of ''`%- score: '' @ show_nat (hy_score h) @
     lines_of ''%- reason: '' @ hy_reason h @ lines_of ''%%Execution contract:%- Profile: `'' @ fc_child_profile config @
     lines_of ''`.%- Step budget: '' @ show_nat (fc_child_max_steps config) @ '' steps, '' @ show_nat child_max_retries @
     '' state-machine retry attempt(s), '' @ show_nat (fc_child_timeout_seconds config) @ lines_of ''s wall timeout.%'' @
     lines_of (''- Treat the typed parent evidence packet below as ranked starting evidence, not proof; validate it against public repo code and harness-visible test telemetry.%'' @
       ''- Read the forced path first. Make one minimal source-only patch unless concrete source evidence proves this path cannot be the bug locus.%'' @
       ''- Do not edit tests, generated localization assets, benchmark harness files, or unrelated files.%'' @
       ''- If validation telemetry is unavailable, still leave the smallest defensible source patch for parent scoring; do not loop trying broad/full-suite variants.%'' @
       ''- If syntax, collection, or import feedback appears after your edit, repair that patch once instead of switching hypotheses.%%'') @
     render_packet packet @ [CHR 0x0A]"

section \<open>One candidate\<close>

text \<open>
  \<open>fe_deadline\<close> gives the time left until the deadline of the tournament in milliseconds, if it has one. \<open>fe_run\<close> runs a child under a
  timeout, \<open>fe_validate\<close> lets the parent run a test scope in the candidate's tree, \<open>fe_json\<close> writes the record of a candidate as JSON text.
\<close>

record child_output =
  co_stdout :: string
  co_stderr :: string
  co_exit_code :: "int option"
  co_timed_out :: bool

record parent_validation =
  pv_signal :: string
  pv_output :: string
  pv_provenance :: "json option"

record 'w fanout_env =
  fe_prepare :: "string \<Rightarrow> 'w \<Rightarrow> (unit, string) result \<times> 'w"
  fe_workdir :: "string \<Rightarrow> string"
  fe_artifacts :: "string \<Rightarrow> string"
  fe_pid :: string
  fe_deadline :: "'w \<Rightarrow> nat option"
  fe_run :: "child_command \<Rightarrow> nat \<Rightarrow> 'w \<Rightarrow> (child_output, string) result \<times> 'w"
  fe_diff :: "string \<Rightarrow> 'w \<Rightarrow> (string, string) result"
  fe_changed :: "string \<Rightarrow> 'w \<Rightarrow> string list"
  fe_validate :: "string \<Rightarrow> bool \<Rightarrow> candidate_evidence \<Rightarrow> string list \<Rightarrow> 'w \<Rightarrow> parent_validation \<times> 'w"
  fe_feedback :: "string \<Rightarrow> 'w \<Rightarrow> string option"
  fe_write :: "string \<Rightarrow> string \<Rightarrow> 'w \<Rightarrow> (unit, string) result \<times> 'w"
  fe_json :: "candidate_execution \<Rightarrow> string"

definition then_io :: "('a, 'e) result \<times> 'w \<Rightarrow> ('a \<Rightarrow> 'w \<Rightarrow> ('b, 'e) result \<times> 'w) \<Rightarrow> ('b, 'e) result \<times> 'w" where
  "then_io m k = (case m of (Err e, w) \<Rightarrow> (Err e, w) | (Ok x, w) \<Rightarrow> k x w)"

definition remaining_timeout :: "nat option \<Rightarrow> nat \<Rightarrow> nat option" where
  "remaining_timeout left requested =
     (case left of None \<Rightarrow> Some requested | Some ms \<Rightarrow> if ms = 0 then None else Some (min requested ms))"

definition candidate_needs_parent_validation :: "string \<Rightarrow> bool" where
  "candidate_needs_parent_validation stdout \<longleftrightarrow>
     candidate_validation_signal stdout \<in> set [''source_scope_pass'', ''regression_pass'', ''feedback_pass'', ''unavailable'', ''none'']"

definition candidate_issue_locus_aligned :: "string list \<Rightarrow> string \<Rightarrow> context_packet \<Rightarrow> bool" where
  "candidate_issue_locus_aligned files launched_path packet \<longleftrightarrow>
     list_ex (\<lambda>path. \<not> is_test_path path \<and> (bare_repo_path path = bare_repo_path launched_path \<or> ranks_source_path packet path)) files"

definition candidate_id :: "candidate_hypothesis \<Rightarrow> string" where
  "candidate_id h = ''h'' @ show_nat (hy_id h)"

record lane =
  ln_stdout :: string
  ln_stderr :: string
  ln_exit_code :: "int option"
  ln_timed_out :: bool
  ln_patch :: string
  ln_files :: "string list"
  ln_parent_output :: string
  ln_provenance :: "json option"

definition validate_lane :: "'w fanout_env \<Rightarrow> string \<Rightarrow> bool \<Rightarrow> lane \<Rightarrow> 'w \<Rightarrow> lane \<times> 'w" where
  "validate_lane env cid timed_out l w =
     (if trim (ln_patch l) \<noteq> [] \<and> candidate_needs_parent_validation (ln_stdout l) then
        (case fe_validate env cid timed_out (from_output (ln_stdout l)) (ln_files l) w of (v, w') \<Rightarrow>
           (l\<lparr>ln_stdout := ln_stdout l @ ''[PARENT_CANDIDATE_VALIDATION] SIGNAL='' @ pv_signal v @ [CHR 0x0A],
              ln_parent_output := pv_output v, ln_provenance := pv_provenance v\<rparr>, w'))
      else (l, w))"

definition read_lane :: "'w fanout_env \<Rightarrow> string \<Rightarrow> string \<Rightarrow> lane \<Rightarrow> 'w \<Rightarrow> (lane, string) result \<times> 'w" where
  "read_lane env what cid l w =
     (case fe_diff env cid w of
        Err err \<Rightarrow> (Err (''read '' @ what @ '' diff '' @ cid @ '': '' @ err), w)
      | Ok patch \<Rightarrow> (Ok (l\<lparr>ln_patch := patch, ln_files := fe_changed env cid w\<rparr>), w))"

text \<open>The one repair of a candidate that failed concretely, in a new epoch; without time left the lane stays as it is.\<close>

definition strengthen_lane ::
  "'w fanout_env \<Rightarrow> fanout_config \<Rightarrow> agent_invocation \<Rightarrow> candidate_hypothesis \<Rightarrow> lane \<Rightarrow> 'w \<Rightarrow> (lane \<times> string option, string) result \<times> 'w" where
  "strengthen_lane env config iv h l w =
     (let cid = candidate_id h;
          feedback = unwrap_or (ln_stdout l) (fe_feedback env cid w);
          task = repair_task (iv_task iv) cid (actual_locus (ln_files l) (hy_path h)) feedback;
          command = candidate_command config iv h (fe_workdir env cid) (fe_artifacts env cid @ ''/strengthening'') task
            (sc_steps (fc_strengthening config)) 0 (child_machine_variant config iv) (fe_pid env)
      in then_io (fe_prepare env (cid @ ''/strengthening'') w) (\<lambda>_ w.
         case remaining_timeout (fe_deadline env w) (sc_timeout_ms (fc_strengthening config)) of
           None \<Rightarrow> (Ok (l, None), w)
         | Some timeout \<Rightarrow>
             then_io (fe_run env command timeout w) (\<lambda>s w.
             then_io (fe_write env (cid @ ''/strengthening.stdout.log'') (co_stdout s) w) (\<lambda>_ w.
             then_io (fe_write env (cid @ ''/strengthening.stderr.log'') (co_stderr s) w) (\<lambda>_ w.
             then_io (read_lane env ''strengthened'' cid
               (l\<lparr>ln_stdout := ln_stdout l @ epoch_marker @ [CHR 0x0A] @ co_stdout s, ln_stderr := ln_stderr l @ co_stderr s,
                  ln_exit_code := or_else (co_exit_code s) (ln_exit_code l), ln_timed_out := ln_timed_out l \<or> co_timed_out s\<rparr>) w) (\<lambda>l1 w.
             (case validate_lane env cid (co_timed_out s) l1 w of (l2, w2) \<Rightarrow>
                (Ok (l2, Some (selection_signal (ev_kind (from_output (ln_stdout l2))))), w2))))))))"

definition finished_candidate ::
  "candidate_hypothesis \<Rightarrow> context_packet \<Rightarrow> bool \<Rightarrow> string option \<Rightarrow> lane \<Rightarrow> candidate_execution" where
  "finished_candidate h packet attempted signal l =
     \<lparr>cx_hypothesis = h, cx_candidate_id = candidate_id h, cx_stdout = ln_stdout l, cx_stderr = ln_stderr l, cx_patch = ln_patch l,
      cx_changed_files = ln_files l, cx_changed_lines = changed_line_count (ln_patch l), cx_exit_code = ln_exit_code l,
      cx_timed_out = ln_timed_out l, cx_evidence = from_output (ln_stdout l), cx_actual_locus = actual_locus (ln_files l) (hy_path h),
      cx_issue_locus_aligned = candidate_issue_locus_aligned (ln_files l) (hy_path h) packet, cx_strengthening_attempted = attempted,
      cx_strengthening_signal = signal, cx_parent_output = ln_parent_output l, cx_parent_provenance = ln_provenance l\<rparr>"

definition write_candidate :: "'w fanout_env \<Rightarrow> candidate_execution \<Rightarrow> 'w \<Rightarrow> (candidate_execution, string) result \<times> 'w" where
  "write_candidate env e w =
     (let cid = cx_candidate_id e
      in then_io (if trim (cx_patch e) = [] then (Ok (), w) else fe_write env (cid @ ''/diff.patch'') (cx_patch e) w) (\<lambda>_ w.
         then_io (fe_write env (cid @ ''/harness.stdout.log'') (cx_stdout e) w) (\<lambda>_ w.
         then_io (fe_write env (cid @ ''/harness.stderr.log'') (cx_stderr e) w) (\<lambda>_ w.
         then_io (fe_write env (cid @ ''/candidate.json'') (fe_json env e) w) (\<lambda>_ w. (Ok e, w))))))"

definition run_one_candidate ::
  "'w fanout_env \<Rightarrow> fanout_config \<Rightarrow> agent_invocation \<Rightarrow> context_packet \<Rightarrow> candidate_hypothesis \<Rightarrow> 'w \<Rightarrow> (candidate_execution, string) result \<times> 'w" where
  "run_one_candidate env config iv packet h w =
     (let cid = candidate_id h;
          retries = min (fc_child_max_retries config) (iv_max_retries iv);
          task = (if fc_context_pump config then speed_solver_task (iv_task iv) config h cid retries packet else iv_task iv);
          command = candidate_command config iv h (fe_workdir env cid) (fe_artifacts env cid) task (fc_child_max_steps config) retries
            (child_machine_variant config iv) (fe_pid env)
      in then_io (fe_prepare env cid w) (\<lambda>_ w.
         (case remaining_timeout (fe_deadline env w) (1000 * fc_child_timeout_seconds config) of
            None \<Rightarrow> (Err (''fanout deadline reached before candidate '' @ cid @ '' start''), w)
          | Some timeout \<Rightarrow>
              then_io (fe_run env command timeout w) (\<lambda>out0 w.
              then_io (read_lane env ''candidate'' cid
                \<lparr>ln_stdout = co_stdout out0, ln_stderr = co_stderr out0, ln_exit_code = co_exit_code out0, ln_timed_out = co_timed_out out0,
                 ln_patch = [], ln_files = [], ln_parent_output = [], ln_provenance = None\<rparr> w) (\<lambda>l w.
              (case validate_lane env cid (co_timed_out out0) l w of (l1, w1) \<Rightarrow>
                 if should_attempt (fc_strengthening config) (from_output (ln_stdout l1)) (ln_patch l1) (fe_deadline env w1) then
                   then_io (strengthen_lane env config iv h l1 w1) (\<lambda>(l2, signal) w2.
                     write_candidate env (finished_candidate h packet True signal l2) w2)
                 else write_candidate env (finished_candidate h packet False None l1) w1))))))"

section \<open>Collecting candidates under a budget\<close>

record fanout_batch =
  fb_namespace :: string
  fb_executions :: "candidate_execution list"
  fb_stop_reason :: "string option"

definition patch_timeout :: "candidate_execution \<Rightarrow> bool" where
  "patch_timeout e \<longleftrightarrow> cx_timed_out e \<and> trim (cx_patch e) \<noteq> []"

definition has_discriminating_candidate :: "fanout_batch \<Rightarrow> bool" where
  "has_discriminating_candidate b \<longleftrightarrow>
     list_ex (\<lambda>e. candidate_is_selectable e \<and> ev_kind (cx_evidence e) \<in> {CanonicalHarnessPass, IssueMappedBaselinePass}) (fb_executions b)"

definition fanout_budget_stop_reason :: "fanout_config \<Rightarrow> nat \<Rightarrow> candidate_execution list \<Rightarrow> string option" where
  "fanout_budget_stop_reason config elapsed_ms es =
     (let timed_out = length (filter patch_timeout es)
      in if fc_timeout_stop_count config > 0 \<and> timed_out \<ge> fc_timeout_stop_count config then
           Some (''timeout_stop_count reached patch_timeouts='' @ show_nat timed_out @ '' limit='' @ show_nat (fc_timeout_stop_count config))
         else if fc_fanout_wall_seconds config > 0 \<and> elapsed_ms \<ge> 1000 * fc_fanout_wall_seconds config then
           Some (''fanout_wall_seconds reached elapsed_ms='' @ show_nat elapsed_ms @ '' limit_s='' @ show_nat (fc_fanout_wall_seconds config))
         else None)"

definition namespaced_candidate_id :: "string \<Rightarrow> string \<Rightarrow> string" where
  "namespaced_candidate_id namespace cid =
     (let clean = trim_char (CHR ''-'')
            (map (\<lambda>c. if is_ascii_alphanumeric c \<or> c \<in> set ''-_'' then c else CHR ''-'') namespace)
      in if clean = [] then cid else clean @ ''--'' @ cid)"

fun chunks :: "nat \<Rightarrow> 'a list \<Rightarrow> 'a list list" where
  "chunks n xs = (if xs = [] \<or> n = 0 then [] else take n xs # chunks n (drop n xs))"

declare chunks.simps [simp del]

text \<open>
  The threads of a chunk work in trees of their own; they are run one after the other, and what failed is dropped. \<open>run\<close> is the run of
  one candidate, \<open>left\<close> the time to the deadline, \<open>elapsed\<close> the time since the start.
\<close>

fun run_chunk :: "(candidate_hypothesis \<Rightarrow> 'w \<Rightarrow> (candidate_execution, string) result \<times> 'w) \<Rightarrow> candidate_hypothesis list \<Rightarrow> 'w \<Rightarrow> candidate_execution list \<times> 'w" where
  "run_chunk run [] w = ([], w)"
| "run_chunk run (h # hs) w =
     (case run h w of (r, w1) \<Rightarrow> case run_chunk run hs w1 of (es, w2) \<Rightarrow>
        ((case r of Ok e \<Rightarrow> e # es | Err _ \<Rightarrow> es), w2))"

fun collect_chunks ::
  "(candidate_hypothesis \<Rightarrow> 'w \<Rightarrow> (candidate_execution, string) result \<times> 'w) \<Rightarrow> ('w \<Rightarrow> nat option) \<Rightarrow> ('w \<Rightarrow> nat) \<Rightarrow> fanout_config \<Rightarrow> string \<Rightarrow>
   candidate_hypothesis list list \<Rightarrow> candidate_execution list \<Rightarrow> 'w \<Rightarrow> (candidate_execution list \<times> string option) \<times> 'w" where
  "collect_chunks run left elapsed config namespace [] es w = ((es, None), w)"
| "collect_chunks run left elapsed config namespace (c # cs) es w =
     (if left w = Some 0 then ((es, Some ''shared fanout deadline reached''), w)
      else case fanout_budget_stop_reason config (elapsed w) es of
        Some reason \<Rightarrow> ((es, Some reason), w)
      | None \<Rightarrow>
          (case run_chunk run c w of (new, w1) \<Rightarrow>
             (let es1 = es @ map (\<lambda>e. e\<lparr>cx_candidate_id := namespaced_candidate_id namespace (cx_candidate_id e)\<rparr>) new
              in case fanout_budget_stop_reason config (elapsed w1) es1 of
                   Some reason \<Rightarrow> ((es1, Some reason), w1)
                 | None \<Rightarrow> collect_chunks run left elapsed config namespace cs es1 w1)))"

text \<open>
  \<open>cl_left\<close> and \<open>cl_elapsed\<close> are the time to the deadline and since the start; \<open>cl_create\<close> creates the artifact directory, \<open>cl_set_up\<close> the
  directories of the candidates with the plan and the packet, \<open>cl_clean\<close> removes the work root.
\<close>

record 'w collect_env =
  cl_left :: "'w \<Rightarrow> nat option"
  cl_elapsed :: "'w \<Rightarrow> nat"
  cl_create :: "'w \<Rightarrow> (unit, string) result \<times> 'w"
  cl_set_up :: "'w \<Rightarrow> (unit, string) result \<times> 'w"
  cl_clean :: "'w \<Rightarrow> 'w"

definition empty_batch :: "string \<Rightarrow> fanout_batch" where
  "empty_batch namespace = \<lparr>fb_namespace = namespace, fb_executions = [], fb_stop_reason = None\<rparr>"

definition collect_enabled ::
  "(candidate_hypothesis \<Rightarrow> 'w \<Rightarrow> (candidate_execution, string) result \<times> 'w) \<Rightarrow> 'w collect_env \<Rightarrow> fanout_config \<Rightarrow> string \<Rightarrow> candidate_hypothesis list \<Rightarrow>
   'w \<Rightarrow> (fanout_batch, string) result \<times> 'w" where
  "collect_enabled run env config namespace hs w =
     (case collect_chunks run (cl_left env) (cl_elapsed env) config namespace (chunks (max 1 (fc_concurrency config)) hs) [] w of
        ((es, reason), w1) \<Rightarrow>
          (Ok \<lparr>fb_namespace = namespace, fb_executions = es, fb_stop_reason = reason\<rparr>,
           if fc_keep_workdirs config then w1 else cl_clean env w1))"

definition collect ::
  "(candidate_hypothesis \<Rightarrow> 'w \<Rightarrow> (candidate_execution, string) result \<times> 'w) \<Rightarrow> 'w collect_env \<Rightarrow> fanout_config \<Rightarrow> string \<Rightarrow> candidate_hypothesis list \<Rightarrow>
   'w \<Rightarrow> (fanout_batch, string) result \<times> 'w" where
  "collect run env config namespace hypotheses w =
     (if \<not> parent_enabled config then (Ok (empty_batch namespace), w)
      else let hs = take (max 1 (fc_max_candidates config)) hypotheses
      in then_io (cl_create env w) (\<lambda>_ w.
           if hs = [] then (Ok (empty_batch namespace), w)
           else then_io (cl_set_up env w) (\<lambda>_. collect_enabled run env config namespace hs)))"

section \<open>Applying the selected patch\<close>

record candidate_run_report =
  rp_candidate_id :: string
  rp_hypothesis_id :: nat
  rp_path :: string
  rp_score :: int
  rp_accepted :: bool
  rp_rejection_reasons :: "string list"
  rp_patch_path :: "string option"
  rp_patch_hash :: "string option"
  rp_changed_files :: "string list"
  rp_changed_lines :: nat
  rp_quality_penalty :: int
  rp_quality_flags :: "string list"
  rp_final_signal :: string
  rp_validation_signal :: string
  rp_parent_signal :: "string option"
  rp_parent_provenance :: "json option"
  rp_parent_excerpt :: "string option"
  rp_timeout_signal :: "string option"
  rp_exit_code :: "int option"
  rp_timed_out :: bool
  rp_evidence :: candidate_evidence
  rp_launched_path :: string
  rp_issue_locus_aligned :: bool
  rp_strengthening_attempted :: bool
  rp_strengthening_signal :: "string option"

text \<open>\<open>hash\<close> is the fingerprint of a patch, the function \<open>stable_hash\<close> of theory \<open>CausalCheckpoint\<close>.\<close>

definition report_for_execution :: "(string \<Rightarrow> string) \<Rightarrow> candidate_execution \<Rightarrow> candidate_run_report" where
  "report_for_execution hash e =
     (let reasons = candidate_rejection_reasons e; quality = patch_quality_of (cx_patch e); empty = (trim (cx_patch e) = [])
      in \<lparr>rp_candidate_id = cx_candidate_id e, rp_hypothesis_id = hy_id (cx_hypothesis e), rp_path = cx_actual_locus e,
          rp_score = score_execution e, rp_accepted = (reasons = []), rp_rejection_reasons = reasons,
          rp_patch_path = (if empty then None else Some (''candidates/'' @ cx_candidate_id e @ ''/diff.patch'')),
          rp_patch_hash = (if empty then None else Some (hash (cx_patch e))), rp_changed_files = cx_changed_files e,
          rp_changed_lines = cx_changed_lines e, rp_quality_penalty = pq_penalty quality, rp_quality_flags = pq_flags quality,
          rp_final_signal = final_verification_signal (cx_stdout e), rp_validation_signal = candidate_validation_signal (cx_stdout e),
          rp_parent_signal = parent_validation_signal (cx_stdout e), rp_parent_provenance = cx_parent_provenance e,
          rp_parent_excerpt = (if trim (cx_parent_output e) = [] then None else Some (compact_block (cx_parent_output e) 2000)),
          rp_timeout_signal = (if cx_timed_out e then parent_validation_signal (cx_stdout e) else None),
          rp_exit_code = cx_exit_code e, rp_timed_out = cx_timed_out e, rp_evidence = cx_evidence e,
          rp_launched_path = hy_path (cx_hypothesis e), rp_issue_locus_aligned = cx_issue_locus_aligned e,
          rp_strengthening_attempted = cx_strengthening_attempted e, rp_strengthening_signal = cx_strengthening_signal e\<rparr>)"

record selection_report =
  sr_selected_id :: "string option"
  sr_patch_source :: string
  sr_selector :: string
  sr_no_clear_winner :: bool
  sr_stop_reason :: "string option"
  sr_reason :: string
  sr_provenance :: "json option"
  sr_arbiter :: "arbiter_report option"
  sr_candidates :: "candidate_run_report list"

record fanout_outcome =
  fo_applied :: bool
  fo_selected_candidate_id :: "string option"
  fo_candidate_count :: nat
  fo_timed_out_count :: nat
  fo_timed_out_with_patch_count :: nat
  fo_stop_reason :: "string option"
  fo_selected_patch_hash :: "string option"
  fo_selected_validation :: "json option"
  fo_detail :: string

record 'w selection_env =
  sl_create :: "'w \<Rightarrow> (unit, string) result \<times> 'w"
  sl_hash :: "string \<Rightarrow> string"
  sl_json :: "string \<Rightarrow> json option"
  sl_ask :: "string \<Rightarrow> 'w \<Rightarrow> arbiter_reply \<times> 'w"
  sl_write :: "string \<Rightarrow> string \<Rightarrow> 'w \<Rightarrow> (unit, string) result \<times> 'w"
  sl_apply :: "string \<Rightarrow> 'w \<Rightarrow> (unit, string) result \<times> 'w"
  sl_report :: "selection_report \<Rightarrow> 'w \<Rightarrow> (unit, string) result \<times> 'w"

definition selection_allowed_to_apply :: "fanout_config \<Rightarrow> candidate_execution \<Rightarrow> bool" where
  "selection_allowed_to_apply config e =
     (if \<not> candidate_is_selectable e then False
      else if \<not> fc_require_strong_selection config then True
      else early_lane_selection_allowed e)"

definition deferred_detail :: "selection_decision \<Rightarrow> candidate_execution \<Rightarrow> string" where
  "deferred_detail d e =
     ''deferred '' @ cx_candidate_id e @ '' path='' @ cx_actual_locus e @ '' selector='' @ se_selector d @
     '' reason=weak_early_lane_selection validation='' @ candidate_validation_signal (cx_stdout e) @ '' path_aligned='' @
     show_bool (cx_issue_locus_aligned e) @ '' changed_lines='' @ show_nat (cx_changed_lines e) @ '' quality_penalty='' @
     show_int (pq_penalty (patch_quality_of (cx_patch e))) @ '' original='' @ se_detail d"

fun persist_patches :: "'w selection_env \<Rightarrow> candidate_execution list \<Rightarrow> 'w \<Rightarrow> (unit, string) result \<times> 'w" where
  "persist_patches env [] w = (Ok (), w)"
| "persist_patches env (e # es) w =
     (if trim (cx_patch e) = [] then persist_patches env es w
      else then_io (sl_write env (''candidates/'' @ cx_candidate_id e @ ''/diff.patch'') (cx_patch e) w) (\<lambda>_. persist_patches env es))"

definition batches_stop_reason :: "fanout_batch list \<Rightarrow> string option" where
  "batches_stop_reason bs =
     (let reasons = List.map_filter (\<lambda>b. map_option (\<lambda>r. fb_namespace b @ '':'' @ r) (fb_stop_reason b)) bs
      in if reasons = [] then None else Some (join ''; '' reasons))"

text \<open>What follows the decision: the patch is applied, then the report is written.\<close>

definition apply_selection ::
  "'w selection_env \<Rightarrow> fanout_config \<Rightarrow> fanout_batch list \<Rightarrow> selection_decision \<Rightarrow> 'w \<Rightarrow> (fanout_outcome, string) result \<times> 'w" where
  "apply_selection env config bs d w =
     (let es = concat (map fb_executions bs);
          chosen = (case se_selected_index d of
                      Some i \<Rightarrow> if selection_allowed_to_apply config (es ! i) then Some (es ! i) else None
                    | None \<Rightarrow> None);
          detail = (case (chosen, se_selected_index d) of (None, Some i) \<Rightarrow> deferred_detail d (es ! i) | _ \<Rightarrow> se_detail d);
          outcome = \<lparr>fo_applied = (chosen \<noteq> None), fo_selected_candidate_id = map_option cx_candidate_id chosen,
            fo_candidate_count = length es, fo_timed_out_count = length (filter cx_timed_out es),
            fo_timed_out_with_patch_count = length (filter patch_timeout es), fo_stop_reason = batches_stop_reason bs,
            fo_selected_patch_hash = map_option (sl_hash env \<circ> cx_patch) chosen,
            fo_selected_validation = Option.bind chosen cx_parent_provenance, fo_detail = detail\<rparr>
      in then_io (case chosen of Some e \<Rightarrow> sl_apply env (cx_patch e) w | None \<Rightarrow> (Ok (), w)) (\<lambda>_ w.
         then_io (sl_report env
           \<lparr>sr_selected_id = fo_selected_candidate_id outcome,
            sr_patch_source = (if fo_applied outcome then ''candidate_fanout'' else ''none''), sr_selector = se_selector d,
            sr_no_clear_winner = se_no_clear_winner d, sr_stop_reason = fo_stop_reason outcome, sr_reason = detail,
            sr_provenance = fo_selected_validation outcome, sr_arbiter = se_arbiter d,
            sr_candidates = map (report_for_execution (sl_hash env)) es\<rparr> w) (\<lambda>_ w. (Ok outcome, w))))"

definition select_and_apply ::
  "'w selection_env \<Rightarrow> string \<Rightarrow> fanout_config \<Rightarrow> fanout_batch list \<Rightarrow> 'w \<Rightarrow> ((fanout_outcome, string) result \<times> 'w) outcome" where
  "select_and_apply env task config bs w =
     (let es = concat (map fb_executions bs)
      in case then_io (sl_create env w) (\<lambda>_. persist_patches env es) of
           (Err err, w1) \<Rightarrow> Returns (Err err, w1)
         | (Ok _, w1) \<Rightarrow>
             (case select_candidate_index (sl_json env) (sl_ask env) task config es w1 of
                Returns (d, w2) \<Rightarrow> Returns (apply_selection env config bs d w2)
              | Panics \<Rightarrow> Panics
              | OutOfFuel \<Rightarrow> OutOfFuel))"

text \<open>One tournament of its own: what was collected is selected from and applied.\<close>

definition fanout_run ::
  "(candidate_hypothesis \<Rightarrow> 'w \<Rightarrow> (candidate_execution, string) result \<times> 'w) \<Rightarrow> 'w collect_env \<Rightarrow> 'w selection_env \<Rightarrow> fanout_config \<Rightarrow> string \<Rightarrow>
   candidate_hypothesis list \<Rightarrow> 'w \<Rightarrow> ((fanout_outcome, string) result \<times> 'w) outcome" where
  "fanout_run run cenv senv config task hypotheses w =
     (case collect run cenv config [] hypotheses w of
        (Err err, w1) \<Rightarrow> Returns (Err err, w1)
      | (Ok batch, w1) \<Rightarrow> select_and_apply senv task config [batch] w1)"

section \<open>What is applied\<close>

lemma then_io_Ok: "then_io m k = (Ok y, w') \<longleftrightarrow> (\<exists>x w. m = (Ok x, w) \<and> k x w = (Ok y, w'))"
  by (auto simp: then_io_def split: prod.split sum.split)

lemma selectable_iff:
  "candidate_is_selectable e \<longleftrightarrow> trim (cx_patch e) \<noteq> [] \<and> candidate_has_source_patch e \<and> \<not> list_ex is_test_path (cx_changed_files e) \<and>
     \<not> has_syntax_failure e \<and> \<not> has_collection_failure e \<and> \<not> final_verification_failed e \<and> \<not> validation_did_not_run e"
  by (auto simp: candidate_is_selectable_def candidate_rejection_reasons_def)

lemma push_quality_flag_penalty:
  assumes "0 < v" "0 \<le> pq_penalty q" "pq_penalty q = 0 \<longleftrightarrow> pq_flags q = []"
  shows "0 \<le> pq_penalty (push_quality_flag found flag v q) \<and>
    (pq_penalty (push_quality_flag found flag v q) = 0 \<longleftrightarrow> pq_flags (push_quality_flag found flag v q) = [])"
  using assms by (auto simp: push_quality_flag_def)

lemma fold_quality:
  assumes "list_all (\<lambda>(found, flag, v). 0 < v) tests" "0 \<le> pq_penalty q" "pq_penalty q = 0 \<longleftrightarrow> pq_flags q = []"
  shows "pq_penalty (fold (\<lambda>(found, flag, v). push_quality_flag found flag v) tests q) = 0 \<longleftrightarrow>
    pq_flags (fold (\<lambda>(found, flag, v). push_quality_flag found flag v) tests q) = []"
  using assms
proof (induction tests arbitrary: q)
  case (Cons x tests)
  obtain found flag v where x: "x = (found, flag, v)" by (cases x)
  with Cons.prems have "0 < v" by simp
  from push_quality_flag_penalty [OF this Cons.prems(2,3), of found flag] Cons.IH Cons.prems(1) show ?case by (simp add: x)
qed simp

lemma no_penalty_iff: "pq_penalty (patch_quality_of patch) = 0 \<longleftrightarrow> pq_flags (patch_quality_of patch) = []"
  unfolding patch_quality_of_def Let_def by (rule fold_quality) simp_all

text \<open>
  C27: Only a clean source patch is applied. When the tournament reports an applied candidate, the patch was given to Git, it changes
  source files only, no test file, its validation did not fail, and neither a syntax nor a collection failure was seen; and
  when strong selection is required it passed the final verification, or it has no quality flag and changes at most 48 lines.
\<close>

theorem applied_patch_clean:
  assumes "select_and_apply env task config bs w = Returns (Ok r, w')" "fo_applied r"
  shows "\<exists>e \<in> set (concat (map fb_executions bs)). fo_selected_candidate_id r = Some (cx_candidate_id e) \<and>
    fo_selected_patch_hash r = Some (sl_hash env (cx_patch e)) \<and> (\<exists>w1 w2. sl_apply env (cx_patch e) w1 = (Ok (), w2)) \<and>
    list_all is_authoritative_source_path (cx_changed_files e) \<and> \<not> list_ex is_test_path (cx_changed_files e) \<and>
    candidate_validation_signal (cx_stdout e) \<noteq> ''fail'' \<and> \<not> has_syntax_failure e \<and> \<not> has_collection_failure e \<and>
    (fc_require_strong_selection config \<longrightarrow> candidate_validation_signal (cx_stdout e) = ''pass'' \<or>
       pq_flags (patch_quality_of (cx_patch e)) = [] \<and> cx_changed_lines e \<le> 48)"
proof -
  let ?es = "concat (map fb_executions bs)"
  from assms(1) obtain d w1 w2 where d: "select_candidate_index (sl_json env) (sl_ask env) task config ?es w1 = Returns (d, w2)"
    "apply_selection env config bs d w2 = (Ok r, w')"
    by (auto simp: select_and_apply_def Let_def split: prod.splits sum.splits outcome.splits)
  then obtain i where i: "se_selected_index d = Some i" "selection_allowed_to_apply config (?es ! i)"
    using assms(2) by (auto simp: apply_selection_def Let_def then_io_Ok split: option.splits if_splits)
  have e: "?es ! i \<in> set ?es" "candidate_is_selectable (?es ! i)"
    using selected_choice [OF d(1)] i(1) by (simp_all del: set_concat)
  have r: "fo_selected_candidate_id r = Some (cx_candidate_id (?es ! i))" "fo_selected_patch_hash r = Some (sl_hash env (cx_patch (?es ! i)))"
    "\<exists>w1 w2. sl_apply env (cx_patch (?es ! i)) w1 = (Ok (), w2)"
    using d(2) i by (auto simp: apply_selection_def Let_def then_io_Ok simp del: map_concat set_concat)
  show ?thesis
    using e r i(2)
    by (intro bexI [of _ "?es ! i"])
      (auto simp: selectable_iff candidate_has_source_patch_def patch_has_authoritative_source_def final_verification_failed_def
        selection_allowed_to_apply_def early_lane_selection_allowed_def clean_source_candidate_def no_penalty_iff Let_def split: if_splits)
qed

definition quiet_selection :: "(unit, string) result \<Rightarrow> string list selection_env" where
  "quiet_selection report =
     \<lparr>sl_create = \<lambda>w. (Ok (), w), sl_hash = \<lambda>p. p, sl_json = \<lambda>_. None, sl_ask = \<lambda>_ w. (ArbiterTimedOut, w), sl_write = \<lambda>_ _ w. (Ok (), w),
      sl_apply = \<lambda>p w. (Ok (), w @ [p]), sl_report = \<lambda>_ w. (report, w)\<rparr>"

definition two_batch :: fanout_batch where
  "two_batch = \<lparr>fb_namespace = [], fb_executions = two_candidates, fb_stop_reason = None\<rparr>"

lemma persist_quiet: "persist_patches (quiet_selection report) es w = (Ok (), w)"
  by (induction es arbitrary: w) (simp_all add: quiet_selection_def then_io_def)

lemma quiet_create: "sl_create (quiet_selection report) w = (Ok (), w)"
  by (simp add: quiet_selection_def)

lemma two_candidates_selected:
  "\<exists>d. select_candidate_index from_str ask task plain_config two_candidates w = Returns (d, w) \<and> se_selected_index d = Some 1"
  using two_candidates_ranked by (simp add: select_candidate_index_def selection_needs_arbitration_def Let_def)

lemma two_batch_allowed: "selection_allowed_to_apply plain_config (two_candidates ! 1)" "cx_patch (two_candidates ! 1) = ''+x''"
  using source_candidates_selectable(2)
  by (simp_all add: selection_allowed_to_apply_def candidate_is_selectable_def two_candidates_def plain_config_def source_candidate_def)

lemma two_batch_id: "cx_candidate_id (two_candidates ! 1) = ''h2''"
  by code_simp

lemma two_batch_applied:
  "\<exists>d. select_and_apply (quiet_selection report) task plain_config [two_batch] w =
     Returns (apply_selection (quiet_selection report) plain_config [two_batch] d w) \<and> se_selected_index d = Some 1"
  using two_candidates_selected [of "sl_json (quiet_selection report)" "sl_ask (quiet_selection report)" task w]
  by (auto simp: select_and_apply_def two_batch_def persist_quiet then_io_def quiet_create)

theorem applied_patch_clean_witness:
  "\<exists>r. select_and_apply (quiet_selection (Ok ())) ''t'' plain_config [two_batch] [] = Returns (Ok r, [''+x'']) \<and>
     fo_selected_candidate_id r = Some ''h2''"
proof -
  obtain r where r: "select_and_apply (quiet_selection (Ok ())) ''t'' plain_config [two_batch] [] = Returns (Ok r, [''+x''])"
    "fo_applied r" "fo_selected_candidate_id r = Some ''h2''"
    using two_batch_applied [of "Ok ()" "''t''" "[]"] two_batch_allowed two_batch_id
    by (auto simp: apply_selection_def two_batch_def quiet_selection_def then_io_def Let_def)
  then show ?thesis using applied_patch_clean [OF r(1,2)] by blast
qed

text \<open>
  A failed report hides an applied patch. The report is written after the patch was applied, and its failure is the result of the whole
  selection: the caller then goes on repairing a tree that already holds the patch it was told nothing about.
\<close>

lemma failed_report_hides_patch:
  "select_and_apply (quiet_selection (Err ''disk full'')) ''t'' plain_config [two_batch] [] = Returns (Err ''disk full'', [''+x''])"
  using two_batch_applied [of "Err ''disk full''" "''t''" "[]"] two_batch_allowed
  by (auto simp: apply_selection_def two_batch_def quiet_selection_def then_io_def Let_def)

section \<open>Candidates do not multiply\<close>

lemma child_world_env:
  "ow_env (child_world (candidate_command config iv h workdir dir task steps retries machine pid) w) ''SW_CANDIDATE_FANOUT'' = Some ''0''"
  "ow_env (child_world (candidate_command config iv h workdir dir task steps retries machine pid) w) ''SW_CANDIDATE_FANOUT_CHILD'' = Some ''1''"
  by (simp_all add: child_world_def candidate_command_def set_env_def)

text \<open>
  C31: A candidate starts no candidates. Whatever the environment of the parent, a process with the environment of a child
  command knows that it is a child and its tournament is off, so the processes cannot multiply.
\<close>

theorem child_never_fans_out:
  "let config' = fanout_config_from_env (child_world (candidate_command config iv h workdir dir task steps retries machine pid) w)
   in fc_child config' \<and> \<not> fc_enabled config' \<and> \<not> parent_enabled config' \<and>
      collect run env config' namespace hs v = (Ok (empty_batch namespace), v)"
proof -
  let ?w = "child_world (candidate_command config iv h workdir dir task steps retries machine pid) w"
  have "fanout_flag ''SW_CANDIDATE_FANOUT_CHILD'' False ?w" "\<not> fanout_flag ''SW_CANDIDATE_FANOUT'' False ?w"
    unfolding flag_in_def child_world_env by code_simp+
  then have "process_depth_from_env ?w > 0" "\<not> fc_enabled (fanout_config_from_env ?w)"
    by (auto simp: process_depth_from_env_def fanout_config_from_env_def Let_def)
  then show ?thesis by (simp add: parent_enabled_def fanout_config_from_env_def collect_def Let_def)
qed

section \<open>The budget of a collection\<close>

lemma chunks_lengths: "c \<in> set (chunks n xs) \<Longrightarrow> length c \<le> n"
proof (induction n xs rule: chunks.induct)
  case (1 n xs)
  then show ?case by (cases "xs = [] \<or> n = 0") (auto simp: chunks.simps [of n xs])
qed

lemma chunks_total: "length (concat (chunks n xs)) \<le> length xs"
proof (induction n xs rule: chunks.induct)
  case (1 n xs)
  then show ?case by (cases "xs = [] \<or> n = 0") (auto simp: chunks.simps [of n xs])
qed

lemma run_chunk_length: "run_chunk run hs w = (es, w') \<Longrightarrow> length es \<le> length hs"
  by (induction hs arbitrary: w es w') (fastforce split: prod.splits sum.splits)+

lemma patch_timeouts_le: "length (filter patch_timeout es) \<le> length es"
  by (rule length_filter_le)

lemma patch_timeout_renamed [simp]: "patch_timeout \<circ> (\<lambda>e. e\<lparr>cx_candidate_id := f e\<rparr>) = patch_timeout"
  by (auto simp: patch_timeout_def)

lemma within_budget:
  "fanout_budget_stop_reason config ms es = None \<Longrightarrow> 0 < fc_timeout_stop_count config \<Longrightarrow>
     length (filter patch_timeout es) < fc_timeout_stop_count config"
  by (auto simp: fanout_budget_stop_reason_def Let_def split: if_splits)

lemma collect_chunks_bounds:
  assumes "collect_chunks run left0 elapsed config ns cs es w = ((es', reason), w')"
    and "\<And>c. c \<in> set cs \<Longrightarrow> length c \<le> k" "1 \<le> k"
  shows "length es' \<le> length es + length (concat cs) \<and>
    (0 < fc_timeout_stop_count config \<longrightarrow> length (filter patch_timeout es) < fc_timeout_stop_count config + k \<longrightarrow>
       length (filter patch_timeout es') < fc_timeout_stop_count config + k)"
  using assms(1,2)
proof (induction cs arbitrary: es w)
  case (Cons c cs)
  let ?rename = "map (\<lambda>e. e\<lparr>cx_candidate_id := namespaced_candidate_id ns (cx_candidate_id e)\<rparr>)"
  show ?case
  proof (cases "left0 w = Some 0 \<or> fanout_budget_stop_reason config (elapsed w) es \<noteq> None")
    case True
    then show ?thesis using Cons.prems(1) by (auto split: if_splits option.splits)
  next
    case False
    obtain new w1 where new: "run_chunk run c w = (new, w1)" by fastforce
    then have len: "length new \<le> length c" "length c \<le> k" using run_chunk_length Cons.prems(2) by auto
    have grown: "length (filter patch_timeout (es @ ?rename new)) < fc_timeout_stop_count config + k" if "0 < fc_timeout_stop_count config"
      using within_budget [OF _ that, of "elapsed w" es] False le_trans [OF patch_timeouts_le le_trans [OF len]] by force
    show ?thesis
    proof (cases "fanout_budget_stop_reason config (elapsed w1) (es @ ?rename new)")
      case None
      with False new Cons.prems(1) have "collect_chunks run left0 elapsed config ns cs (es @ ?rename new) w1 = ((es', reason), w')"
        by (simp add: Let_def split: if_splits)
      from Cons.IH [OF this] Cons.prems(2) len grown show ?thesis by auto
    next
      case (Some r)
      with False new Cons.prems(1) have "es' = es @ ?rename new" by (auto simp: Let_def split: if_splits)
      then show ?thesis using len grown by auto
    qed
  qed
qed simp


definition slow_run :: "candidate_hypothesis \<Rightarrow> nat \<Rightarrow> (candidate_execution, string) result \<times> nat" where
  "slow_run h w = (Ok ((source_candidate (hy_id h) [])\<lparr>cx_timed_out := True\<rparr>), w + 1)"

definition hypotheses_of :: "nat list \<Rightarrow> candidate_hypothesis list" where
  "hypotheses_of = map (\<lambda>i. \<lparr>hy_id = i, hy_path = [], hy_score = 0, hy_reason = []\<rparr>)"

definition plain_collection :: "nat collect_env" where
  "plain_collection =
     \<lparr>cl_left = \<lambda>_. None, cl_elapsed = \<lambda>_. 0, cl_create = \<lambda>w. (Ok (), w), cl_set_up = \<lambda>w. (Ok (), w), cl_clean = \<lambda>w. w\<rparr>"


section \<open>The record of a candidate\<close>

lemma read_lane_Ok:
  "read_lane env what cid l w = (Ok l', w') \<longleftrightarrow>
     w' = w \<and> (\<exists>patch. fe_diff env cid w = Ok patch \<and> l' = l\<lparr>ln_patch := patch, ln_files := fe_changed env cid w\<rparr>)"
  by (auto simp: read_lane_def split: sum.split)

lemma validate_lane_tree:
  "validate_lane env cid late l w = (l', w') \<Longrightarrow> ln_patch l' = ln_patch l \<and> ln_files l' = ln_files l"
  "validate_lane env cid late l w = (l', w') \<Longrightarrow> \<exists>t. ln_stdout l' = ln_stdout l @ t"
  by (auto simp: validate_lane_def split: if_splits prod.splits)

definition reads_tree :: "'w fanout_env \<Rightarrow> string \<Rightarrow> lane \<Rightarrow> bool" where
  "reads_tree env cid l \<longleftrightarrow> (\<exists>v. fe_diff env cid v = Ok (ln_patch l) \<and> fe_changed env cid v = ln_files l)"

lemma reads_tree_read: "read_lane env what cid l w = (Ok l', w') \<Longrightarrow> reads_tree env cid l'"
  by (auto simp: read_lane_Ok reads_tree_def)

lemma reads_tree_validate: "validate_lane env cid late l w = (l', w') \<Longrightarrow> reads_tree env cid l' = reads_tree env cid l"
  using validate_lane_tree(1) [of env cid late l w l' w'] by (simp add: reads_tree_def)

lemma case_pair_ex: "(case p of (a, b) \<Rightarrow> k a b) = r \<longleftrightarrow> (\<exists>a b. p = (a, b) \<and> k a b = r)"
  by (cases p) simp

lemma strengthen_lane_cases:
  assumes "strengthen_lane env config iv h l w = (Ok (l', s), w')"
  obtains (late) "(l' :: lane) = l" "s = None"
    | (repaired) l0 l1 late0 v1 v2 more0 where "ln_stdout l0 = ln_stdout l @ more0"
        "read_lane env ''strengthened'' (candidate_id h) l0 v1 = (Ok l1, v2)" "validate_lane env (candidate_id h) late0 l1 v2 = (l', w')"
        "s = Some (candidate_validation_signal (ln_stdout l'))"
proof -
  let ?cid = "candidate_id h"
  obtain p where prep: "fe_prepare env (?cid @ ''/strengthening'') w = (Ok (), p)"
    using assms by (auto simp: strengthen_lane_def Let_def then_io_Ok [of "fe_prepare env x w" for x w])
  show ?thesis
  proof (cases "remaining_timeout (fe_deadline env p) (sc_timeout_ms (fc_strengthening config))")
    case None
    then show ?thesis using assms prep late by (simp add: strengthen_lane_def Let_def then_io_def)
  next
    case (Some timeout)
    with assms prep have "\<exists>(out0 :: child_output) v1 (l1 :: lane) v2.
      read_lane env ''strengthened'' ?cid (l\<lparr>ln_stdout := ln_stdout l @ epoch_marker @ [CHR 0x0A] @ co_stdout out0, ln_stderr := ln_stderr l @ co_stderr out0,
         ln_exit_code := or_else (co_exit_code out0) (ln_exit_code l), ln_timed_out := ln_timed_out l \<or> co_timed_out out0\<rparr>) v1 = (Ok l1, v2) \<and>
      validate_lane env ?cid (co_timed_out out0) l1 v2 = (l', w') \<and> s = Some (candidate_validation_signal (ln_stdout l'))"
      by (clarsimp simp: strengthen_lane_def Let_def then_io_Ok case_pair_ex candidate_validation_signal_def)
        (intro exI conjI; assumption)+
    then obtain out0 :: child_output and v1 l1 v2 where read: "read_lane env ''strengthened'' ?cid
        (l\<lparr>ln_stdout := ln_stdout l @ epoch_marker @ [CHR 0x0A] @ co_stdout out0, ln_stderr := ln_stderr l @ co_stderr out0,
         ln_exit_code := or_else (co_exit_code out0) (ln_exit_code l), ln_timed_out := ln_timed_out l \<or> co_timed_out out0\<rparr>) v1 = (Ok l1, v2)"
      and rest: "validate_lane env ?cid (co_timed_out out0) l1 v2 = (l', w')" "s = Some (candidate_validation_signal (ln_stdout l'))" by blast
    show ?thesis by (rule repaired [OF _ read rest]) simp
  qed
qed

lemma strengthen_lane_Ok:
  assumes "strengthen_lane env config iv h l w = (Ok (l', s), w')" "reads_tree env (candidate_id h) l"
  shows "reads_tree env (candidate_id h) l'" "s = None \<or> s = Some (candidate_validation_signal (ln_stdout l'))"
proof -
  have "reads_tree env (candidate_id h) l' \<and> (s = None \<or> s = Some (candidate_validation_signal (ln_stdout l')))"
    using assms(1)
  proof (cases rule: strengthen_lane_cases)
    case (repaired l0 l1 late0 v1 v2 more0)
    then show ?thesis using reads_tree_read [OF repaired(2)] reads_tree_validate [OF repaired(3)] by simp
  qed (use assms(2) in simp)
  then show "reads_tree env (candidate_id h) l'" "s = None \<or> s = Some (candidate_validation_signal (ln_stdout l'))" by auto
qed

lemma strengthen_lane_stdout:
  assumes "strengthen_lane env config iv h l w = (Ok (l', s), w')"
  shows "\<exists>t. ln_stdout l' = ln_stdout l @ t"
  using assms
proof (cases rule: strengthen_lane_cases)
  case (repaired l0 l1 late0 v1 v2 more0)
  have "ln_stdout l1 = ln_stdout l @ more0" using repaired(1,2) by (auto simp: read_lane_Ok)
  with validate_lane_tree(2) [OF repaired(3)] show ?thesis by auto
qed simp

lemma write_candidate_Ok: "write_candidate env e w = (Ok e', w') \<Longrightarrow> e' = e"
  by (auto simp: write_candidate_def Let_def then_io_Ok)


text \<open>
  A repair cannot bring back a candidate whose first run failed to import. The evidence starts anew with the
  repair, but the reasons for rejection read the whole output: one \<open>ImportError:\<close> before the repair rejects the candidate for good, even
  when the repaired patch passes the final verification.
\<close>

theorem repair_cannot_undo_rejection:
  assumes "strengthen_lane env config iv h l w = (Ok (l', s), w')" "str_contains (ln_stdout l) ''ImportError:''"
  shows "''collection_error_signal'' \<in> set (candidate_rejection_reasons (finished_candidate h packet attempted s l'))"
proof -
  obtain t where "ln_stdout l' = ln_stdout l @ t" using strengthen_lane_stdout [OF assms(1)] by blast
  then have "str_contains (ln_stdout l') ''ImportError:''" using str_contains_append [OF assms(2)] by simp
  then show ?thesis
    by (simp add: candidate_rejection_reasons_def has_collection_failure_def output_contains_any_def finished_candidate_def)
qed


section \<open>A repaired candidate\<close>

text \<open>A child whose first run fails to import and whose repair passes the final verification; the world counts the children.\<close>

definition failed_run :: string where
  "failed_run = ''ImportError: x'' @ [CHR 0x0A] @ ''[FINAL_VERIFICATION] FAIL'' @ [CHR 0x0A]"

definition repaired_run :: string where
  "repaired_run = ''[FINAL_VERIFICATION] PASS'' @ [CHR 0x0A]"

definition repair_env :: "nat fanout_env" where
  "repair_env =
     \<lparr>fe_prepare = \<lambda>_ n. (Ok (), n), fe_workdir = \<lambda>cid. cid, fe_artifacts = \<lambda>cid. cid, fe_pid = ''7'', fe_deadline = \<lambda>_. None,
      fe_run = \<lambda>_ _ n. (Ok \<lparr>co_stdout = (if n = 0 then failed_run else repaired_run), co_stderr = [], co_exit_code = Some 0, co_timed_out = False\<rparr>, n + 1),
      fe_diff = \<lambda>_ n. Ok ''+x'', fe_changed = \<lambda>_ _. [''a.py''],
      fe_validate = \<lambda>_ _ _ _ n. (\<lparr>pv_signal = ''none'', pv_output = [], pv_provenance = None\<rparr>, n), fe_feedback = \<lambda>_ _. None,
      fe_write = \<lambda>_ _ n. (Ok (), n), fe_json = \<lambda>_. []\<rparr>"

definition plain_invocation :: agent_invocation where
  "plain_invocation =
     \<lparr>iv_task = ''t'', iv_ollama_url = [], iv_model = [], iv_max_retries = 1, iv_hardcoded_machine = ''speed'', iv_use_hardcoded_machine = True,
      iv_tool_mode = [], iv_model_size = [], iv_config_path = None\<rparr>"

definition empty_packet :: context_packet where
  "empty_packet =
     \<lparr>ck_source_artifact_dir = None, ck_top_files = [], ck_trusted_test_scope = False, ck_advisory_test_files = [], ck_advisory_test_labels = [],
      ck_baseline_runnable_scopes = [], ck_policy_profile = None, ck_workflow_lane = None, ck_policy_reasons = []\<rparr>"

definition first_hypothesis :: candidate_hypothesis where
  "first_hypothesis = \<lparr>hy_id = 1, hy_path = ''a.py'', hy_score = 0, hy_reason = []\<rparr>"

definition failed_lane :: lane where
  "failed_lane =
     \<lparr>ln_stdout = failed_run, ln_stderr = [], ln_exit_code = Some 0, ln_timed_out = False, ln_patch = ''+x'', ln_files = [''a.py''],
      ln_parent_output = [], ln_provenance = None\<rparr>"

lemma repair_evidence:
  "ev_kind (from_output failed_run) = ConcreteFail"
  "ev_kind (from_output (failed_run @ epoch_marker @ CHR 0x0A # repaired_run)) = CanonicalHarnessPass"
  "str_contains failed_run ''ImportError:''" "trim ''+x'' = ''+x''"
  by code_simp+

lemma repair_needs_no_parent:
  "\<not> candidate_needs_parent_validation failed_run"
  "\<not> candidate_needs_parent_validation (failed_run @ epoch_marker @ CHR 0x0A # repaired_run)"
  by (simp_all add: candidate_needs_parent_validation_def candidate_validation_signal_def repair_evidence)

lemma repaired_lane:
  "strengthen_lane repair_env plain_config plain_invocation first_hypothesis failed_lane (Suc 0) =
     (Ok (failed_lane\<lparr>ln_stdout := failed_run @ epoch_marker @ CHR 0x0A # repaired_run\<rparr>, Some ''pass''), 2)"
  by (simp add: strengthen_lane_def repair_env_def then_io_def remaining_timeout_def read_lane_def validate_lane_def repair_needs_no_parent
      repair_evidence failed_lane_def or_else_def Let_def)

lemma repaired_candidate:
  "run_one_candidate repair_env plain_config plain_invocation empty_packet first_hypothesis 0 =
     (Ok (finished_candidate first_hypothesis empty_packet True (Some ''pass'')
        (failed_lane\<lparr>ln_stdout := failed_run @ epoch_marker @ CHR 0x0A # repaired_run\<rparr>)), 2)"
proof -
  have "remaining_timeout (fe_deadline repair_env w) n = Some n" "fe_prepare repair_env s w = (Ok (), w)" "fe_write repair_env s v w = (Ok (), w)" for w n s v
    by (simp_all add: repair_env_def remaining_timeout_def)
  note env = this
  have lane: "read_lane repair_env s cid \<lparr>ln_stdout = failed_run, ln_stderr = [], ln_exit_code = Some 0, ln_timed_out = False, ln_patch = [],
      ln_files = [], ln_parent_output = [], ln_provenance = None\<rparr> w = (Ok failed_lane, w)" for s cid w
    by (simp add: read_lane_def repair_env_def failed_lane_def)
  have valid: "validate_lane repair_env cid late failed_lane w = (failed_lane, w)" for cid late w
    by (simp add: validate_lane_def failed_lane_def repair_needs_no_parent)
  have run: "fe_run repair_env c n 0 = (Ok \<lparr>co_stdout = failed_run, co_stderr = [], co_exit_code = Some 0, co_timed_out = False\<rparr>, Suc 0)" for c n
    by (simp add: repair_env_def)
  have attempt: "should_attempt (fc_strengthening plain_config) (from_output (ln_stdout failed_lane)) (ln_patch failed_lane) (fe_deadline repair_env w)" for w
    by (simp add: should_attempt_def plain_config_def failed_lane_def repair_evidence repair_env_def)
  show ?thesis
    by (simp add: run_one_candidate_def then_io_def Let_def env run lane valid attempt repaired_lane write_candidate_def)
qed


theorem repair_cannot_undo_rejection_witness:
  "\<exists>l. strengthen_lane repair_env plain_config plain_invocation first_hypothesis failed_lane 1 = (Ok (l, Some ''pass''), 2) \<and>
     ''collection_error_signal'' \<in> set (candidate_rejection_reasons (finished_candidate first_hypothesis empty_packet True (Some ''pass'') l))"
proof -
  obtain l where l: "strengthen_lane repair_env plain_config plain_invocation first_hypothesis failed_lane 1 = (Ok (l, Some ''pass''), 2)"
    using repaired_lane by simp
  have "str_contains (ln_stdout failed_lane) ''ImportError:''" by (simp add: failed_lane_def repair_evidence)
  from repair_cannot_undo_rejection [OF l this] l show ?thesis by blast
qed

end
