(* ===== verification/Spec2Isabelle.thy ===== *)
theory Spec2Isabelle
  imports Glob Guard Transition Validate ToolEnforcer AgentValidator Executor Orchestrator Generator ToolProtocol ToolRescue
    Session Usage BashClassifier ToolIntent RiskAssessment Enforcement
    Interceptors CustomTools CommandEvidence Upstream GatewayCalls GatewayAdapter
    GatewayTransitions GatewayForks GatewayRuns GatewayWorkflows
    TestSignals CausalRepair CausalCheckpoint CandidateBank
    CandidateEvidence CandidateFanout CandidateRuns
begin

text \<open>
  \<^bold>\<open>Statewright, a verification library.\<close>

  Statewright constrains coding agents by state machines: a workflow definition says which tools a phase of the work
  permits, which commands, how many steps and edits, and which transitions need a guard or a human approval. The
  repository is a Rust workspace; this library models its logic as HOL functions and proves what the parts promise.

  \<^bold>\<open>The parts of the program and how they interact.\<close>

  \<^item> The \<^emph>\<open>engine\<close> (\<open>crates/engine/src\<close>) is pure: machine definitions, guards, glob-triggered interrupts, the resolution
    of a transition, structural validation.
  \<^item> The \<^emph>\<open>agent\<close> (\<open>crates/agent/src\<close>) runs a machine with a language model: it generates a machine and validates it, asks the
    model for an action, enforces the tools of the state, resolves the requested event with the engine, suspends for
    approvals and sub-machines, and repairs tool calls that a model wrote as text.
  \<^item> The \<^emph>\<open>gateway\<close> (\<open>crates/mcp-gateway/src\<close>) puts the same machines between a host and its tools: a session
    per run, a classifier for shell commands, a risk pipeline, enforcement and interceptors on every call, and the workflow tools
    that move a session, with approvals, subflows, forks and interrupts.
  \<^item> The \<^emph>\<open>command-line agent\<close> (\<open>crates/cli/src\<close>) repairs repositories: it reads test output, keeps a ledger of baselines, drives a
    repair state machine, retains the best candidate patch, restores working trees,
    and holds a tournament of candidate patches that child processes wrote.

  \<^bold>\<open>Theories, in the order of the imports, and the code they model.\<close>

  Shared: \<open>Prelude\<close> (results, machine integers, the string functions of Rust's standard library, dictionaries with
  the locale \<open>dict\<close> interpreted by sorted association lists for \<open>BTreeMap\<close> and by maps for \<open>HashMap\<close>), \<open>Json\<close>
  (\<open>serde_json::Value\<close>), \<open>Float64\<close> (double arithmetic with rounding).

  Engine: \<open>EngineTypes\<close> (\<open>types.rs\<close>), \<open>Guard\<close> (\<open>guard.rs\<close>), \<open>Glob\<close> (\<open>interrupt.rs\<close>), \<open>Transition\<close> (\<open>transition.rs\<close>), \<open>Validate\<close>
  (\<open>validate.rs\<close>). Shown: the glob loop never indexes out of range and decides the declarative meaning of its
  pattern; resolution computes exactly the relation \<open>trans_step\<close>, with every error returned exactly for its cause;
  validation accepts exactly \<open>well_formed_machine\<close>; a validated machine whose branches and fallbacks are closed never leaves its states.

  Agent: \<open>ToolEnforcer\<close> (\<open>tool_enforcer.rs\<close>), \<open>AgentValidator\<close> (\<open>validator.rs\<close>), \<open>Prompts\<close> (\<open>prompt_templates.rs\<close>), \<open>OllamaClient\<close>
  (\<open>ollama_client.rs\<close>), \<open>Executor\<close> (\<open>executor.rs\<close>), \<open>Orchestrator\<close> (\<open>orchestrator.rs\<close>), \<open>Generator\<close> (\<open>generator.rs\<close>), \<open>ToolProtocol\<close> and
  \<open>ToolRescue\<close> (\<open>tool_protocol.rs\<close>). Shown: enforcement partitions the requested tools and denials cannot be evaded by letter
  case; the path search of agent validation is complete; every reachable execution satisfies its invariant and a step respects
  approvals, sub-machines and tools; an orchestrated run ends; in the replayed conversation every call is answered.

  Gateway, one call: \<open>Session\<close> (\<open>session.rs\<close>), \<open>Usage\<close> (\<open>usage.rs\<close>), \<open>ShellLex\<close> and \<open>BashClassifier\<close> (\<open>bash_classifier.rs\<close>), \<open>ToolIntent\<close>
  (\<open>tool_intent.rs\<close>, \<open>protocol.rs\<close>), \<open>RiskAssessment\<close> and \<open>CommandEvidence\<close> (\<open>risk_assessment.rs\<close>, \<open>shell_ast_shadow.rs\<close>), \<open>Enforcement\<close>
  (\<open>enforcement.rs\<close>), \<open>Interceptors\<close> (\<open>interceptors.rs\<close>), \<open>CustomTools\<close> (\<open>custom_tools.rs\<close>), \<open>Upstream\<close> (\<open>upstream.rs\<close>). Shown: invariants of the
  session store and of the ledger under any sequence of calls (the locale \<open>session_update\<close> carries what a
  change of one session keeps); a command granted as read-only has only reading segments and no active syntax; a known
  risk is never downgraded by the syntax tree, the semantic assessor or local evidence; the interceptors admit a command exactly under their policy.

  Gateway, handlers of \<open>gateway.rs\<close>: \<open>GatewayCalls\<close> (tool lists and proxied calls), \<open>GatewayAdapter\<close> (native
  adapters), \<open>GatewayTransitions\<close> (transitions, interrupts, forks, subflows, reviews), \<open>GatewayForks\<close> (joining), \<open>GatewayRuns\<close>
  (sequences of handlers; the locale \<open>gateway_invariant\<close> lists the store calls a property must survive and is interpreted for
  three of them), \<open>GatewayWorkflows\<close> (loading, pausing, resuming, \<open>config.rs\<close>). Shown: an
  allowed native call passed every gate; approval parks a transition and the decision leaves the session as it
  would have been; forks wait for all branches and then join; pausing and resuming is the identity; a failed load changes nothing.

  Command-line agent: \<open>TestSignals\<close> (\<open>repair_feedback.rs\<close>, \<open>patch_authority.rs\<close>, \<open>baseline_qualification.rs\<close>, \<open>validation_oracle.rs\<close>), \<open>CausalRepair\<close>
  (\<open>candidate_validation.rs\<close>, \<open>causal_validation.rs\<close>, \<open>causal_control.rs\<close>, \<open>causal_repair.rs\<close>), \<open>CausalCheckpoint\<close> (\<open>causal_checkpoint.rs\<close> and
  its callers in \<open>main.rs\<close>), \<open>CandidateBank\<close> (\<open>candidate_bank.rs\<close>, the snapshots of \<open>tools.rs\<close>; the locale \<open>ranking\<close> states what choosing a
  best element by an order gives and is interpreted for the orders of the code), \<open>CandidateEvidence\<close> (\<open>candidate_evidence.rs\<close>, \<open>candidate_strengthening.rs\<close>), \<open>CandidateFanout\<close> (quality, ranking,
  arbitration and selection of \<open>candidate_fanout.rs\<close>), \<open>CandidateRuns\<close> (the rest of it, \<open>candidate_context.rs\<close>). Shown: a candidate is accepted only on task evidence; the
  search is bounded; a green state is earned by the current patch; the retained candidate only improves; restores are exact and all
  or nothing; only a trusted candidate replaces the final tree; a concrete failure is final within its epoch; what the tournament
  selects is selectable and best whatever the arbiter says, and what it applies is a clean source patch; the record of a candidate agrees
  with its output and its tree; candidates start no candidates and stay within their budget.

  \<^bold>\<open>How state and effects correspond to the code.\<close>

  A struct is a record whose fields carry a prefix, an enum a datatype, a fallible function returns \<open>Ok\<close> or \<open>Err\<close>, a panic
  is a value. A method that changes its object returns the changed object. Handlers that wait (\<open>await\<close>) take what they wait for as a function that may
  change the shared store, so the theorems about them cover interference by other handlers. Code outside the repository (serde, HTTP, Git, the
  database, the clock, parsers) is a parameter; where a theorem needs a law of it, the law is a named hypothesis, such as
  \<open>git_lawful\<close> or \<open>reads_back\<close>, and a witness shows an instance. Counters are words of the source's width.

  \<^bold>\<open>Bounds and fuel.\<close>

  Every loop but one is a recursion with a termination proof. The orchestrator's loop has fuel, because its end depends on the
  step limits of nested runs; \<open>orchestrator_terminates\<close> shows that some fuel gives a result, under the hypothesis that the sum of the configured
  limits fits 32 bits, and \<open>run_mono\<close> that more fuel does not change it. Strings are lists of 8-bit characters: exact for ASCII,
  and for every UTF-8 text where the code works on bytes.

  \<^bold>\<open>Not modelled.\<close>

  The transports of the gateway (\<open>remote.rs\<close>, \<open>native_remote.rs\<close>, \<open>hooks.rs\<close>, \<open>web_protocol.rs\<close>, \<open>native_approval.rs\<close>) and its JSON-RPC dispatch: framework
  handlers and timers. Webhook delivery and quota (\<open>events.rs\<close>, \<open>event_delivery.rs\<close>, \<open>quota.rs\<close>): SQL transactions. The traversal of the shell syntax
  tree (\<open>shell_ast_shadow.rs\<close>): it walks the tree of a third-party parser. The provider side of the semantic assessor. The loop of the
  command-line agent (\<open>main.rs\<close>), its worktrees, child processes and containers, the model registry, the event log and the planning of tests: process control. The terminal
  interface, the launcher and the credential store: pure I/O. The Harmony adapter: an optional third-party tokeniser.
\<close>

end
